(* ===== verification/Prelude.thy ===== *)
theory Prelude
  imports
    Main
    "HOL-Library.Char_ord"
    "HOL-Library.List_Lexorder"
    "HOL-Library.Product_Lexorder"
    "HOL-Library.Multiset"
begin

text \<open>
  Shared vocabulary of the development: instants and stored timestamps
  (\<open>server/app/core/timeutil.py\<close>), HTTP refusals, tables as lists of rows, the
  collections the component proofs draw on, and generic facts on \<open>find\<close>, sorting
  by a key and updates of the rows of a table.
\<close>

named_theorems rmm_defs \<open>definitions a component proof unfolds\<close>
named_theorems table_simps \<open>lookups after updates of a table\<close>

section \<open>Time\<close>

text \<open>
  A Python \<open>datetime\<close> read back from the database is naive (SQLite) or aware
  (PostgreSQL). Instants are microseconds since the epoch; an aware value is
  identified with its instant, as Python compares aware values by instant. A naive value
  holds the microseconds of its wall clock and is read as UTC.
\<close>

type_synonym instant = int

datatype datetime = Naive int | Aware instant

fun instant_of :: "datetime \<Rightarrow> instant" where
  "instant_of (Naive t) = t"
| "instant_of (Aware t) = t"

definition ensure_utc :: "datetime option \<Rightarrow> instant option" where
  "ensure_utc dt = map_option instant_of dt"

lemma ensure_utc_simps [simp]:
  "ensure_utc None = None"
  "ensure_utc (Some d) = Some (instant_of d)"
  by (simp_all add: ensure_utc_def)

definition seconds :: "int \<Rightarrow> int" where
  "seconds s = s * 1000000"

definition days :: "int \<Rightarrow> int" where
  "days d = seconds (d * 86400)"

lemma seconds_mono [simp]: "seconds a \<le> seconds b \<longleftrightarrow> a \<le> b"
  by (simp add: seconds_def)

lemma seconds_pos [simp]: "0 < seconds a \<longleftrightarrow> 0 < a"
  by (simp add: seconds_def zero_less_mult_iff)

section \<open>Refusals\<close>

text \<open>An \<open>HTTPException\<close> with its status and its \<open>code\<close> (or its prose detail).\<close>

datatype http_error = HTTPException (status_of: int) (code_of: string)

type_synonym 'a http = "http_error + 'a"

fun is_ok :: "'e + 'a \<Rightarrow> bool" where
  "is_ok (Inl e) = False"
| "is_ok (Inr x) = True"

section \<open>Tables\<close>

text \<open>
  A table is the list of its rows. \<open>db.get(Model, id)\<close> is a search by primary key;
  \<open>update(Model).where(P).values(f)\<close> rewrites the rows that satisfy \<open>P\<close> and
  reports how many there were.
\<close>

type_synonym 'r rows = "'r list"

definition db_get :: "('r \<Rightarrow> string) \<Rightarrow> 'r rows \<Rightarrow> string \<Rightarrow> 'r option" where
  "db_get pk t i = find (\<lambda>r. pk r = i) t"

definition db_update :: "('r \<Rightarrow> bool) \<Rightarrow> ('r \<Rightarrow> 'r) \<Rightarrow> 'r rows \<Rightarrow> 'r rows" where
  "db_update P f t = map (\<lambda>r. if P r then f r else r) t"

definition rowcount :: "('r \<Rightarrow> bool) \<Rightarrow> 'r rows \<Rightarrow> nat" where
  "rowcount P t = length (filter P t)"

lemma db_get_SomeD: "db_get pk t i = Some r \<Longrightarrow> r \<in> set t \<and> pk r = i"
  by (auto simp: db_get_def find_Some_iff)

lemma db_get_None_iff: "db_get pk t i = None \<longleftrightarrow> (\<forall>r \<in> set t. pk r \<noteq> i)"
  by (auto simp: db_get_def find_None_iff)

lemma db_get_unique:
  "distinct (map pk t) \<Longrightarrow> r \<in> set t \<Longrightarrow> db_get pk t (pk r) = Some r"
  by (induction t) (auto simp: db_get_def)

lemma db_update_pk [table_simps]:
  "(\<And>r. pk (f r) = pk r) \<Longrightarrow> map pk (db_update P f t) = map pk t"
  by (simp add: db_update_def)

lemma db_get_update [table_simps]:
  assumes "\<And>r. pk (f r) = pk r"
  shows "db_get pk (db_update P f t) i =
    map_option (\<lambda>r. if P r then f r else r) (db_get pk t i)"
  using assms by (induction t) (auto simp: db_get_def db_update_def)

lemma rowcount_pos: "0 < rowcount P t \<longleftrightarrow> (\<exists>r \<in> set t. P r)"
  by (auto simp: rowcount_def filter_empty_conv)

lemma rowcount_pk:
  assumes "distinct (map pk t)"
  shows "rowcount (\<lambda>r. pk r = i \<and> Q r) t =
    (case db_get pk t i of None \<Rightarrow> 0 | Some r \<Rightarrow> if Q r then 1 else 0)"
  using assms
proof (induction t)
  case Nil
  then show ?case by (simp add: rowcount_def db_get_def)
next
  case (Cons x t)
  have "pk x = i \<Longrightarrow> filter (\<lambda>r. pk r = i \<and> Q r) t = []"
    using Cons.prems by (auto simp: filter_empty_conv image_iff)
  then show ?case
    using Cons by (auto simp: rowcount_def db_get_def)
qed

section \<open>Sorting by a key\<close>

text \<open>\<open>xs.sort(key=k); xs[0]\<close>: the first row among those of least key.\<close>

lemma hd_sort_key_in: "xs \<noteq> [] \<Longrightarrow> hd (sort_key k xs) \<in> set xs"
  by (metis hd_in_set length_0_conv length_sort set_sort)

lemma hd_sort_key_least:
  assumes "y \<in> set xs"
  shows "k (hd (sort_key k xs)) \<le> k y"
proof -
  have s: "sorted (map k (sort_key k xs))" by simp
  have m: "y \<in> set (sort_key k xs)" using assms by simp
  then obtain z zs where "sort_key k xs = z # zs" by (cases "sort_key k xs") auto
  with s m show ?thesis by auto
qed

section \<open>Generic list facts\<close>

lemma length_filter_mono:
  "(\<And>x. x \<in> set xs \<Longrightarrow> P x \<Longrightarrow> Q x) \<Longrightarrow> length (filter P xs) \<le> length (filter Q xs)"
  by (induction xs) auto

lemma find_filter_hd: "find P xs = (case filter P xs of [] \<Rightarrow> None | x # _ \<Rightarrow> Some x)"
  by (induction xs) auto

lemma find_unique:
  assumes "distinct (map k xs)" "x \<in> set xs" "P x" "\<And>y. y \<in> set xs \<Longrightarrow> P y \<Longrightarrow> k y = k x"
  shows "find P xs = Some x"
  using assms
proof (induction xs)
  case (Cons y ys)
  show ?case
  proof (cases "P y")
    case True
    then have "k y = k x" using Cons.prems(4) by simp
    have "k y \<notin> k ` set ys" using Cons.prems(1) by simp
    then have "x \<notin> set ys" using \<open>k y = k x\<close> by (metis image_eqI)
    then have "y = x" using Cons.prems(2) by simp
    then show ?thesis using True by simp
  next
    case False
    then have "x \<in> set ys" using Cons.prems(2,3) by auto
    moreover have "distinct (map k ys)" using Cons.prems(1) by simp
    ultimately have "find P ys = Some x"
      using Cons.IH Cons.prems(3,4) by (meson list.set_intros(2))
    then show ?thesis using False by simp
  qed
qed simp

end
