(* ===== verification/Models.thy ===== *)
theory Models
  imports Prelude
begin

text \<open>
  The enumerations and rows of \<open>server/app/models/models.py\<close> that several
  components read: operators, tenants, sites, agents, memberships. A record holds the
  columns the modelled code reads or writes. Enumerations keep the class name as a prefix
  of the constructor; \<open>.value\<close> is a function where the code takes it. Texts that an endpoint
  reports about itself are lists of code points.
\<close>

section \<open>Enumerations\<close>

datatype OperatorRole = OperatorRole_readonly | OperatorRole_operator | OperatorRole_admin

datatype ScriptExecutionScope =
  ScriptExecutionScope_global | ScriptExecutionScope_site | ScriptExecutionScope_agent

datatype ClientRole = client_admin | client_operator | client_readonly

datatype AgentTrustState = Trust_active | Trust_quarantined | Trust_revoked

datatype MonitoringScope = Scope_global | Scope_client | Scope_site | Scope_agent

datatype CommandKind =
    powershell | shell | collect_inventory | scan_updates | install_updates
  | file_upload | file_download | registry_read | registry_write | registry_delete
  | remediation_rollback | reboot | shutdown | cancel_power_action | query_event_log
  | scan_packages | install_packages | deploy_software | list_services | control_service
  | list_processes | terminate_process | agent_self_update | agent_update_rollback

fun kind_value :: "CommandKind \<Rightarrow> string" where
  "kind_value powershell = ''powershell''"
| "kind_value shell = ''shell''"
| "kind_value collect_inventory = ''collect_inventory''"
| "kind_value scan_updates = ''scan_updates''"
| "kind_value install_updates = ''install_updates''"
| "kind_value file_upload = ''file_upload''"
| "kind_value file_download = ''file_download''"
| "kind_value registry_read = ''registry_read''"
| "kind_value registry_write = ''registry_write''"
| "kind_value registry_delete = ''registry_delete''"
| "kind_value remediation_rollback = ''remediation_rollback''"
| "kind_value reboot = ''reboot''"
| "kind_value shutdown = ''shutdown''"
| "kind_value cancel_power_action = ''cancel_power_action''"
| "kind_value query_event_log = ''query_event_log''"
| "kind_value scan_packages = ''scan_packages''"
| "kind_value install_packages = ''install_packages''"
| "kind_value deploy_software = ''deploy_software''"
| "kind_value list_services = ''list_services''"
| "kind_value control_service = ''control_service''"
| "kind_value list_processes = ''list_processes''"
| "kind_value terminate_process = ''terminate_process''"
| "kind_value agent_self_update = ''agent_self_update''"
| "kind_value agent_update_rollback = ''agent_update_rollback''"

lemma kind_value_inj: "kind_value a = kind_value b \<Longrightarrow> a = b"
  by (cases a; cases b) simp_all

datatype CommandStatus =
    Cmd_queued | Cmd_dispatched | Cmd_running | Cmd_result_pending
  | Cmd_succeeded | Cmd_failed | Cmd_expired

fun trust_state_value :: "AgentTrustState \<Rightarrow> string" where
  "trust_state_value Trust_active = ''active''"
| "trust_state_value Trust_quarantined = ''quarantined''"
| "trust_state_value Trust_revoked = ''revoked''"

section \<open>Rows\<close>

record Operator =
  op_id :: string
  op_email :: string
  op_role :: OperatorRole
  is_platform_admin :: bool
  script_execution_scope :: "ScriptExecutionScope option"
  script_execution_scope_id :: "string option"
  op_disabled :: bool

record OperatorClientMembership =
  mem_operator_id :: string
  mem_client_id :: string
  mem_role :: ClientRole

record Site =
  site_pk :: string
  site_client_id :: string

record Agent =
  ag_id :: string
  ag_site_id :: string
  trust_state :: AgentTrustState
  supported_capabilities :: "string list option"
  command_envelope_versions :: "string list option"
  ag_os :: "nat list"
  ag_architecture :: "nat list"
  agent_version :: "nat list"
  update_channel :: "nat list option"
  revoked_at :: "datetime option"

text \<open>
  The tables that authorization reads. \<open>Operator\<close> and \<open>Site\<close> are read by primary
  key; a membership is unique per operator and client
  (\<open>uq_operator_client_membership\<close>).
\<close>

record db =
  operators :: "Operator rows"
  memberships :: "OperatorClientMembership rows"
  sites :: "Site rows"

definition db_wf :: "db \<Rightarrow> bool" where
  "db_wf d \<longleftrightarrow> distinct (map op_id (operators d)) \<and> distinct (map site_pk (sites d)) \<and>
     distinct (map (\<lambda>m. (mem_operator_id m, mem_client_id m)) (memberships d))"

end
