(* ===== verification/Tenant_Scope.thy ===== *)
theory Tenant_Scope
  imports Models
begin

text \<open>
  \<open>server/app/core/tenant_scope.py\<close>: the one place tenancy is decided. A query
  condition (\<open>client_id_filter\<close>, \<open>agent_client_filter\<close>) is a predicate on a row's
  client column; an assert helper returns \<open>Inr ()\<close> or the refusal it raises.
  The lemmas show that the boundary is default deny, that a refusal for a foreign tenant is
  the refusal for a missing one, and that the list filters and the object gates agree.
\<close>

section \<open>Definitions\<close>

fun client_role_rank :: "ClientRole \<Rightarrow> nat" where
  "client_role_rank client_readonly = 0"
| "client_role_rank client_operator = 1"
| "client_role_rank client_admin = 2"

definition client_role_permits :: "ClientRole \<Rightarrow> ClientRole \<Rightarrow> bool" where
  "client_role_permits role minimum \<longleftrightarrow> client_role_rank role \<ge> client_role_rank minimum"

definition membership_client_ids :: "db \<Rightarrow> Operator \<Rightarrow> string list" where
  "membership_client_ids d oper =
     map mem_client_id (filter (\<lambda>m. mem_operator_id m = op_id oper) (memberships d))"

text \<open>A NULL client column is in no membership list.\<close>

definition client_id_filter :: "db \<Rightarrow> Operator \<Rightarrow> string option \<Rightarrow> bool" where
  "client_id_filter d oper column \<longleftrightarrow>
     is_platform_admin oper \<or>
     (case column of None \<Rightarrow> False | Some c \<Rightarrow> c \<in> set (membership_client_ids d oper))"

definition agent_client_filter :: "db \<Rightarrow> Operator \<Rightarrow> Agent \<Rightarrow> bool" where
  "agent_client_filter d oper agent \<longleftrightarrow>
     is_platform_admin oper \<or>
     ag_site_id agent \<in> set (map site_pk
        (filter (\<lambda>s. site_client_id s \<in> set (membership_client_ids d oper)) (sites d)))"

definition resolve_membership ::
  "db \<Rightarrow> Operator \<Rightarrow> string \<Rightarrow> OperatorClientMembership option" where
  "resolve_membership d oper client_id =
     find (\<lambda>m. mem_operator_id m = op_id oper \<and> mem_client_id m = client_id) (memberships d)"

definition is_client_visible :: "db \<Rightarrow> Operator \<Rightarrow> string \<Rightarrow> bool" where
  "is_client_visible d oper client_id \<longleftrightarrow>
     (if is_platform_admin oper then True else resolve_membership d oper client_id \<noteq> None)"

definition assert_client_visible ::
  "db \<Rightarrow> Operator \<Rightarrow> string option \<Rightarrow> string \<Rightarrow> unit http" where
  "assert_client_visible d oper client_id detail =
     (case client_id of
        Some c \<Rightarrow> if is_client_visible d oper c then Inr () else Inl (HTTPException 404 detail)
      | None \<Rightarrow> Inl (HTTPException 404 detail))"

fun client_role_value :: "ClientRole \<Rightarrow> string" where
  "client_role_value client_admin = ''client_admin''"
| "client_role_value client_operator = ''client_operator''"
| "client_role_value client_readonly = ''client_readonly''"

definition assert_client_action ::
  "db \<Rightarrow> Operator \<Rightarrow> string option \<Rightarrow> ClientRole \<Rightarrow> string \<Rightarrow> unit http" where
  "assert_client_action d oper client_id minimum detail =
     (if is_platform_admin oper then Inr ()
      else
        case (case client_id of None \<Rightarrow> None | Some c \<Rightarrow> resolve_membership d oper c) of
          None \<Rightarrow> Inl (HTTPException 404 detail)
        | Some m \<Rightarrow>
            if client_role_permits (mem_role m) minimum then Inr ()
            else Inl (HTTPException 403
              (''Requires client role '' @ [CHR 0x27] @ client_role_value minimum
               @ [CHR 0x27] @ '' or higher'')))"

definition agent_client_id :: "db \<Rightarrow> Agent \<Rightarrow> string option" where
  "agent_client_id d agent = map_option site_client_id (db_get site_pk (sites d) (ag_site_id agent))"

definition assert_agent_visible ::
  "db \<Rightarrow> Operator \<Rightarrow> Agent \<Rightarrow> ClientRole option \<Rightarrow> string \<Rightarrow> unit http" where
  "assert_agent_visible d oper agent minimum detail =
     (let client_id = agent_client_id d agent in
      case minimum of
        None \<Rightarrow> assert_client_visible d oper client_id detail
      | Some m \<Rightarrow> assert_client_action d oper client_id m detail)"

section \<open>The role order\<close>

lemma client_role_permits_refl [simp]: "client_role_permits r r"
  by (simp add: client_role_permits_def)

lemma client_role_permits_trans:
  "client_role_permits a b \<Longrightarrow> client_role_permits b c \<Longrightarrow> client_role_permits a c"
  by (simp add: client_role_permits_def)

lemma client_admin_permits [simp]: "client_role_permits client_admin r"
  by (cases r) (simp_all add: client_role_permits_def)

section \<open>Visibility\<close>

lemma resolve_membership_Some_iff:
  "(\<exists>m. resolve_membership d oper c = Some m) \<longleftrightarrow> c \<in> set (membership_client_ids d oper)"
  by (auto simp: resolve_membership_def membership_client_ids_def find_Some_iff2
      find_None_iff image_iff simp flip: not_None_eq split: option.splits)

lemma resolve_membership_SomeD:
  "resolve_membership d oper c = Some m \<Longrightarrow>
    m \<in> set (memberships d) \<and> mem_operator_id m = op_id oper \<and> mem_client_id m = c"
  by (auto simp: resolve_membership_def find_Some_iff)

text \<open>Which membership row the query meets first does not matter: it is unique.\<close>

lemma resolve_membership_unique:
  assumes "db_wf d" "m \<in> set (memberships d)" "mem_operator_id m = op_id oper"
  shows "resolve_membership d oper (mem_client_id m) = Some m"
  unfolding resolve_membership_def
  by (rule find_unique [where k = "\<lambda>m. (mem_operator_id m, mem_client_id m)"])
    (use assms in \<open>auto simp: db_wf_def\<close>)

lemma is_client_visible_iff:
  "is_client_visible d oper c \<longleftrightarrow> client_id_filter d oper (Some c)"
  using resolve_membership_Some_iff [of d oper c]
  by (auto simp: is_client_visible_def client_id_filter_def)

lemma assert_client_visible_ok:
  "assert_client_visible d oper (Some c) det = Inr () \<longleftrightarrow> client_id_filter d oper (Some c)"
  by (simp add: assert_client_visible_def is_client_visible_iff)

lemma assert_client_action_ok:
  "assert_client_action d oper c minimum det = Inr () \<longleftrightarrow>
     is_platform_admin oper \<or>
     (\<exists>i m. c = Some i \<and> resolve_membership d oper i = Some m \<and>
        client_role_permits (mem_role m) minimum)"
  by (auto simp: assert_client_action_def split: option.splits)

text \<open>
  An action needs at least the read permission: whoever passes an action gate on an
  existing tenant also passes its read gate.
\<close>

lemma assert_client_action_visible:
  "assert_client_action d oper (Some c) minimum det = Inr () \<Longrightarrow>
    assert_client_visible d oper (Some c) det' = Inr ()"
  using resolve_membership_Some_iff [of d oper c]
  by (auto simp: assert_client_action_ok assert_client_visible_ok client_id_filter_def)

lemma assert_client_action_antimono:
  "assert_client_action d oper c hi det = Inr () \<Longrightarrow> client_role_permits hi lo \<Longrightarrow>
    assert_client_action d oper c lo det = Inr ()"
  by (auto simp: assert_client_action_ok intro: client_role_permits_trans)

section \<open>The tenant gate as an interface\<close>

text \<open>
  What the approval, override and dispatch handlers rely on: a read gate and an action
  gate on a client that answer with the caller's own detail and 404 for an invisible
  tenant, where the read gate is open exactly when the client is in the operator's scope.
\<close>

locale tenant_gate =
  fixes in_scope :: "'d \<Rightarrow> 'o \<Rightarrow> string option \<Rightarrow> bool"
    and read_gate :: "'d \<Rightarrow> 'o \<Rightarrow> string option \<Rightarrow> string \<Rightarrow> unit http"
    and act_gate :: "'d \<Rightarrow> 'o \<Rightarrow> string option \<Rightarrow> ClientRole \<Rightarrow> string \<Rightarrow> unit http"
  assumes read_open: "read_gate d o1 (Some c) det = Inr () \<longleftrightarrow> in_scope d o1 (Some c)"
    and read_missing: "read_gate d o1 None det = Inl (HTTPException 404 det)"
    and read_refusal: "read_gate d o1 k det \<noteq> Inr () \<Longrightarrow> read_gate d o1 k det = Inl (HTTPException 404 det)"
    and act_scope: "act_gate d o1 (Some c) r det = Inr () \<Longrightarrow> in_scope d o1 (Some c)"
    and act_refusal: "\<not> in_scope d o1 (Some c) \<Longrightarrow> act_gate d o1 (Some c) r det = Inl (HTTPException 404 det)"
begin

text \<open>A tenant out of scope and a tenant that does not exist get the same answer.\<close>

lemma no_existence_oracle:
  "\<not> in_scope d o1 (Some c) \<Longrightarrow> read_gate d o1 (Some c) det = read_gate d o1 None det"
  using read_open [of d o1 c det] read_refusal [of d o1 "Some c" det] by (simp add: read_missing)

lemma act_then_read: "act_gate d o1 (Some c) r det = Inr () \<Longrightarrow> read_gate d o1 (Some c) det' = Inr ()"
  using act_scope read_open by blast

lemma read_status: "read_gate d o1 k det = Inl e \<Longrightarrow> e = HTTPException 404 det"
  using read_refusal [of d o1 k det] by (cases "read_gate d o1 k det") auto

end

interpretation tenant: tenant_gate client_id_filter assert_client_visible assert_client_action
proof
  fix d oper c det r
  show "assert_client_visible d oper (Some c) det = Inr () \<longleftrightarrow> client_id_filter d oper (Some c)"
    by (rule assert_client_visible_ok)
  show "assert_client_visible d oper None det = Inl (HTTPException 404 det)"
    by (simp add: assert_client_visible_def)
  show "assert_client_action d oper (Some c) r det = Inr () \<Longrightarrow> client_id_filter d oper (Some c)"
    using assert_client_action_visible [of d oper c r det det] by (simp add: assert_client_visible_ok)
  show "\<not> client_id_filter d oper (Some c) \<Longrightarrow>
    assert_client_action d oper (Some c) r det = Inl (HTTPException 404 det)"
    using resolve_membership_Some_iff [of d oper c]
    by (auto simp: assert_client_action_def client_id_filter_def split: option.splits)
next
  fix d oper c det
  show "assert_client_visible d oper c det \<noteq> Inr () \<Longrightarrow>
    assert_client_visible d oper c det = Inl (HTTPException 404 det)"
    by (auto simp: assert_client_visible_def split: option.splits if_splits)
qed

section \<open>List filters and object gates\<close>

lemma agent_client_filter_iff:
  assumes "db_wf d"
  shows "agent_client_filter d oper agent \<longleftrightarrow>
    client_id_filter d oper (agent_client_id d agent)"
proof (cases "is_platform_admin oper")
  case True
  then show ?thesis by (simp add: agent_client_filter_def client_id_filter_def)
next
  case False
  have "(\<exists>s \<in> set (sites d). site_pk s = ag_site_id agent \<and> Q s) \<longleftrightarrow>
      (\<exists>s. db_get site_pk (sites d) (ag_site_id agent) = Some s \<and> Q s)" for Q
    using assms by (metis db_get_SomeD db_get_unique db_wf_def)
  note site = this [of "\<lambda>s. site_client_id s \<in> set (membership_client_ids d oper)"]
  have "agent_client_filter d oper agent \<longleftrightarrow> (\<exists>s \<in> set (sites d). site_pk s = ag_site_id agent \<and>
      site_client_id s \<in> set (membership_client_ids d oper))"
    using False by (auto simp: agent_client_filter_def intro: rev_image_eqI)
  moreover have "client_id_filter d oper (agent_client_id d agent) \<longleftrightarrow>
      (\<exists>s. db_get site_pk (sites d) (ag_site_id agent) = Some s \<and>
        site_client_id s \<in> set (membership_client_ids d oper))"
    using False by (auto simp: client_id_filter_def agent_client_id_def split: option.splits)
  ultimately show ?thesis using site by simp
qed

text \<open>
  C18. The list filter and the object gate agree. For every agent whose site row exists,
  an operator finds the agent in a tenant-filtered list exactly when the read gate on that
  agent lets them through, and otherwise the gate answers 404 with the caller's detail, the
  answer for an agent that does not exist.
\<close>

theorem list_filter_agrees_with_gate:
  assumes "db_wf d" and "db_get site_pk (sites d) (ag_site_id agent) \<noteq> None"
  shows "(agent_client_filter d oper agent \<longleftrightarrow> assert_agent_visible d oper agent None det = Inr ())
    \<and> (\<not> agent_client_filter d oper agent \<longrightarrow>
         assert_agent_visible d oper agent None det = Inl (HTTPException 404 det))"
proof -
  obtain c where c: "agent_client_id d agent = Some c"
    using assms(2) by (auto simp: agent_client_id_def)
  show ?thesis
    unfolding agent_client_filter_iff [OF assms(1)] assert_agent_visible_def c Let_def
    using tenant.read_open [of d oper c det] tenant.read_refusal [of d oper "Some c" det] by auto
qed

theorem list_filter_agrees_with_gate_witness:
  "let oper = \<lparr>op_id = ''o1'', op_email = ''o@x'', op_role = OperatorRole_operator,
         is_platform_admin = False, script_execution_scope = None,
         script_execution_scope_id = None, op_disabled = False\<rparr>;
       agent = \<lparr>ag_id = ''a1'', ag_site_id = ''s2'', trust_state = Trust_active,
         supported_capabilities = None, command_envelope_versions = None, ag_os = [], ag_architecture = [],
       agent_version = [], update_channel = None, revoked_at = None\<rparr>;
       d = \<lparr>operators = [oper],
         memberships = [\<lparr>mem_operator_id = ''o1'', mem_client_id = ''c1'', mem_role = client_admin\<rparr>],
         sites = [\<lparr>site_pk = ''s1'', site_client_id = ''c1''\<rparr>, \<lparr>site_pk = ''s2'', site_client_id = ''c2''\<rparr>]\<rparr>
   in assert_agent_visible d oper agent None ''agent_not_found''
        = Inl (HTTPException 404 ''agent_not_found'')"
  unfolding Let_def
  by (rule list_filter_agrees_with_gate [THEN conjunct2, rule_format])
    (simp_all add: db_wf_def db_get_def agent_client_filter_def membership_client_ids_def)

end
