(* ===== verification/Script_Authorization.thy ===== *)
theory Script_Authorization
  imports Models
begin

text \<open>
  \<open>server/app/core/script_authorization.py\<close>: the role and explicit-scope decision for a
  command kind. The decision record keeps the policy and the reason that the audit events and
  the refusals of other components carry. The lemmas characterise who may run what.
\<close>

section \<open>Definitions\<close>

record CommandAuthorizationDecision =
  cmd_allowed :: bool
  cmd_policy :: string
  cmd_reason :: string
  permission_scope :: "ScriptExecutionScope option"
  permission_scope_id :: "string option"

definition typed_kinds :: "CommandKind list" where
  "typed_kinds = [collect_inventory, scan_updates, install_updates, scan_packages,
     list_services, list_processes]"

definition privileged_kinds :: "CommandKind list" where
  "privileged_kinds = [file_upload, file_download, registry_read, registry_write,
     registry_delete, remediation_rollback, reboot, shutdown, cancel_power_action,
     query_event_log, install_packages, deploy_software, control_service, terminate_process,
     agent_self_update, agent_update_rollback]"

definition privileged_policy :: "CommandKind \<Rightarrow> string" where
  "privileged_policy kind =
     (if kind \<in> set [agent_self_update, agent_update_rollback] then ''agent_self_update''
      else if kind \<in> set [control_service, terminate_process] then ''service_process''
      else if kind \<in> set [reboot, shutdown, cancel_power_action] then ''power_operation''
      else if kind = query_event_log then ''event_log_query''
      else if kind = install_packages then ''package_management''
      else if kind = deploy_software then ''software_deployment''
      else ''privileged_remediation'')"

definition authorize_command ::
  "Operator \<Rightarrow> Agent \<Rightarrow> CommandKind \<Rightarrow> CommandAuthorizationDecision" where
  "authorize_command oper agent kind =
     (if op_role oper = OperatorRole_readonly then
        \<lparr>cmd_allowed = False, cmd_policy = ''operator_role'', cmd_reason = ''operator_role_insufficient'',
         permission_scope = None, permission_scope_id = None\<rparr>
      else if kind \<in> set typed_kinds then
        \<lparr>cmd_allowed = True, cmd_policy = ''typed_operation'', cmd_reason = ''typed_operation_role_allowed'',
         permission_scope = None, permission_scope_id = None\<rparr>
      else if kind \<in> set privileged_kinds then
        \<lparr>cmd_allowed = (op_role oper = OperatorRole_admin), cmd_policy = privileged_policy kind,
         cmd_reason = (if op_role oper = OperatorRole_admin then ''administrator_role_allowed''
                   else ''administrator_role_required''),
         permission_scope = None, permission_scope_id = None\<rparr>
      else
        (case script_execution_scope oper of
           None \<Rightarrow>
             \<lparr>cmd_allowed = False, cmd_policy = ''script_permission'', cmd_reason = ''script_permission_missing'',
              permission_scope = None, permission_scope_id = None\<rparr>
         | Some scope \<Rightarrow>
             (let scope_id = script_execution_scope_id oper;
                  matches = (scope = ScriptExecutionScope_global
                    \<or> (scope = ScriptExecutionScope_site \<and> scope_id = Some (ag_site_id agent))
                    \<or> (scope = ScriptExecutionScope_agent \<and> scope_id = Some (ag_id agent)))
              in \<lparr>cmd_allowed = matches, cmd_policy = ''script_permission'',
                  cmd_reason = (if matches then ''script_permission_scope_allowed''
                            else ''script_permission_scope_mismatch''),
                  permission_scope = Some scope, permission_scope_id = scope_id\<rparr>)))"

section \<open>The authorization matrix\<close>

text \<open>Every kind is typed, privileged or arbitrary script, and in one class only.\<close>

lemma kind_classes:
  "kind \<in> set typed_kinds \<or> kind \<in> set privileged_kinds \<or> kind = powershell \<or> kind = shell"
  by (cases kind) (simp_all add: typed_kinds_def privileged_kinds_def)

lemma script_kinds_untyped [simp]:
  "powershell \<notin> set typed_kinds" "shell \<notin> set typed_kinds"
  "powershell \<notin> set privileged_kinds" "shell \<notin> set privileged_kinds"
  by (simp_all add: typed_kinds_def privileged_kinds_def)

lemma typed_not_privileged: "kind \<in> set typed_kinds \<Longrightarrow> kind \<notin> set privileged_kinds"
  by (auto simp: typed_kinds_def privileged_kinds_def)

definition script_scope_covers :: "Operator \<Rightarrow> Agent \<Rightarrow> bool" where
  "script_scope_covers oper agent =
     (case script_execution_scope oper of
        None \<Rightarrow> False
      | Some ScriptExecutionScope_global \<Rightarrow> True
      | Some ScriptExecutionScope_site \<Rightarrow> script_execution_scope_id oper = Some (ag_site_id agent)
      | Some ScriptExecutionScope_agent \<Rightarrow> script_execution_scope_id oper = Some (ag_id agent))"

lemma authorize_typed:
  "kind \<in> set typed_kinds \<Longrightarrow>
    cmd_allowed (authorize_command oper agent kind) \<longleftrightarrow> op_role oper \<noteq> OperatorRole_readonly"
  by (simp add: authorize_command_def)

lemma authorize_privileged:
  "kind \<in> set privileged_kinds \<Longrightarrow>
    cmd_allowed (authorize_command oper agent kind) \<longleftrightarrow> op_role oper = OperatorRole_admin"
  using typed_not_privileged [of kind] by (auto simp: authorize_command_def)

lemma authorize_script:
  "kind = powershell \<or> kind = shell \<Longrightarrow>
    cmd_allowed (authorize_command oper agent kind) \<longleftrightarrow>
      op_role oper \<noteq> OperatorRole_readonly \<and> script_scope_covers oper agent"
  by (auto simp: authorize_command_def script_scope_covers_def Let_def
      split: option.splits ScriptExecutionScope.splits)

text \<open>
  The complete authorization matrix. A readonly operator may dispatch nothing; a
  typed operation needs only the operator role; the privileged kinds need the administrator
  role, and a script permission is no substitute; arbitrary script needs an explicit grant
  that covers the endpoint, and the administrator role is no substitute for it.
\<close>

theorem authorization_matrix:
  "cmd_allowed (authorize_command oper agent kind) \<longleftrightarrow>
     op_role oper \<noteq> OperatorRole_readonly \<and>
     (case kind of
        powershell \<Rightarrow> script_scope_covers oper agent
      | shell \<Rightarrow> script_scope_covers oper agent
      | _ \<Rightarrow> kind \<in> set typed_kinds \<or> op_role oper = OperatorRole_admin)"
proof (cases "kind = powershell \<or> kind = shell")
  case True
  then show ?thesis using authorize_script [of kind oper agent] by auto
next
  case False
  then have "(case kind of powershell \<Rightarrow> script_scope_covers oper agent
      | shell \<Rightarrow> script_scope_covers oper agent
      | _ \<Rightarrow> kind \<in> set typed_kinds \<or> op_role oper = OperatorRole_admin) \<longleftrightarrow>
      kind \<in> set typed_kinds \<or> op_role oper = OperatorRole_admin"
    by (cases kind) simp_all
  with False kind_classes [of kind] authorize_typed [of kind oper agent]
    authorize_privileged [of kind oper agent] typed_not_privileged [of kind]
  show ?thesis by auto
qed

text \<open>The decision depends on nothing but role, grant and the agent's identity and site.\<close>

lemma authorize_command_frame:
  assumes "op_role o1 = op_role o2" "script_execution_scope o1 = script_execution_scope o2"
    "script_execution_scope_id o1 = script_execution_scope_id o2"
    "ag_id a1 = ag_id a2" "ag_site_id a1 = ag_site_id a2"
  shows "authorize_command o1 a1 kind = authorize_command o2 a2 kind"
  by (simp only: authorize_command_def assms)

end
