(* ===== verification/Json.thy ===== *)
theory Json
  imports Prelude
begin

text \<open>
  Python's \<open>json.dumps(doc, sort_keys=True, separators=(",", ":"))\<close>, the canonical
  encoding behind the audit hash, the approval binding digest, the command envelope and the
  signed manifests, with both settings of \<open>ensure_ascii\<close>. A Python string is its list of
  code points; a dict is its association list in insertion order; a float is carried by the
  text \<open>float.__repr__\<close> gives it. The result is that the encoding determines the
  document up to key order.
\<close>

section \<open>Documents\<close>

type_synonym ustr = "nat list"

definition ustr :: "string \<Rightarrow> ustr" where
  "ustr s = map of_char s"

datatype json =
    JNull
  | JBool bool
  | JInt int
  | JFloat ustr
  | JStr ustr
  | JArr "json list"
  | JObj "(ustr \<times> json) list"

definition jstr :: "string \<Rightarrow> json" where
  "jstr s = JStr (ustr s)"

definition jopt :: "('a \<Rightarrow> json) \<Rightarrow> 'a option \<Rightarrow> json" where
  "jopt f x = (case x of None \<Rightarrow> JNull | Some y \<Rightarrow> f y)"

lemma ustr_inj: "ustr a = ustr b \<longleftrightarrow> a = b"
  by (simp add: ustr_def inj_map_eq_map inj_def)

section \<open>The encoder\<close>

fun digits10 :: "nat \<Rightarrow> ustr" where
  "digits10 n = (if n < 10 then [48 + n] else digits10 (n div 10) @ [48 + n mod 10])"

declare digits10.simps [simp del]

definition int_repr :: "int \<Rightarrow> ustr" where
  "int_repr i = (if i < 0 then 45 # digits10 (nat (- i)) else digits10 (nat i))"

definition hexdigit :: "nat \<Rightarrow> nat" where
  "hexdigit n = (if n < 10 then 48 + n else 87 + n)"

definition hex4 :: "nat \<Rightarrow> ustr" where
  "hex4 n = [hexdigit (n div 4096 mod 16), hexdigit (n div 256 mod 16),
     hexdigit (n div 16 mod 16), hexdigit (n mod 16)]"

text \<open>The two-character escapes, common to both settings.\<close>

definition short_escape :: "nat \<Rightarrow> ustr option" where
  "short_escape c =
     (if c = 34 then Some [92, 34] else if c = 92 then Some [92, 92]
      else if c = 10 then Some [92, 110] else if c = 13 then Some [92, 114]
      else if c = 9 then Some [92, 116] else if c = 12 then Some [92, 102]
      else if c = 8 then Some [92, 98] else None)"

text \<open>\<open>ensure_ascii=True\<close>: everything outside the printable ASCII range is escaped.\<close>

definition esc_ascii :: "nat \<Rightarrow> ustr" where
  "esc_ascii c =
     (case short_escape c of Some e \<Rightarrow> e
      | None \<Rightarrow>
         if 32 \<le> c \<and> c \<le> 126 then [c]
         else if c < 65536 then [92, 117] @ hex4 c
         else [92, 117] @ hex4 (55296 + (c - 65536) div 1024)
              @ [92, 117] @ hex4 (56320 + (c - 65536) mod 1024))"

text \<open>\<open>ensure_ascii=False\<close>: only the quote, the backslash and control characters.\<close>

definition esc_plain :: "nat \<Rightarrow> ustr" where
  "esc_plain c =
     (case short_escape c of Some e \<Rightarrow> e
      | None \<Rightarrow> if c < 32 then [92, 117] @ hex4 c else [c])"

definition quote :: "(nat \<Rightarrow> ustr) \<Rightarrow> ustr \<Rightarrow> ustr" where
  "quote esc s = 34 # concat (map esc s) @ [34]"

fun join_commas :: "ustr list \<Rightarrow> ustr" where
  "join_commas [] = []"
| "join_commas [x] = x"
| "join_commas (x # y # zs) = x @ 44 # join_commas (y # zs)"

fun render :: "(nat \<Rightarrow> ustr) \<Rightarrow> json \<Rightarrow> ustr" where
  "render esc JNull = ustr ''null''"
| "render esc (JBool b) = (if b then ustr ''true'' else ustr ''false'')"
| "render esc (JInt i) = int_repr i"
| "render esc (JFloat r) = r"
| "render esc (JStr s) = quote esc s"
| "render esc (JArr xs) = 91 # join_commas (map (render esc) xs) @ [93]"
| "render esc (JObj kvs) =
     123 # join_commas (map (\<lambda>kv. quote esc (fst kv) @ 58 # render esc (snd kv)) kvs) @ [125]"

text \<open>\<open>sort_keys\<close>: the items of every object in the order of their keys.\<close>

fun normalise :: "json \<Rightarrow> json" where
  "normalise (JArr xs) = JArr (map normalise xs)"
| "normalise (JObj kvs) = JObj (sort_key fst (map (\<lambda>kv. (fst kv, normalise (snd kv))) kvs))"
| "normalise j = j"

definition dumps :: "(nat \<Rightarrow> ustr) \<Rightarrow> json \<Rightarrow> ustr" where
  "dumps esc j = render esc (normalise j)"

section \<open>Well-formed documents\<close>

text \<open>
  Strings of Unicode scalar values (no lone surrogate), dictionaries without repeated keys,
  and finite floats, whose representation starts like a number and has a point or an
  exponent.
\<close>

definition scalar :: "nat \<Rightarrow> bool" where
  "scalar c \<longleftrightarrow> c < 55296 \<or> (57344 \<le> c \<and> c < 1114112)"

definition number_char :: "nat \<Rightarrow> bool" where
  "number_char c \<longleftrightarrow> (48 \<le> c \<and> c \<le> 57) \<or> c \<in> {43, 45, 46, 101}"

definition float_repr :: "ustr \<Rightarrow> bool" where
  "float_repr r \<longleftrightarrow> r \<noteq> [] \<and> list_all number_char r \<and>
     (hd r = 45 \<or> (48 \<le> hd r \<and> hd r \<le> 57)) \<and> (46 \<in> set r \<or> 101 \<in> set r)"

fun json_wf :: "json \<Rightarrow> bool" where
  "json_wf (JFloat r) = float_repr r"
| "json_wf (JStr s) = list_all scalar s"
| "json_wf (JArr xs) = list_all json_wf xs"
| "json_wf (JObj kvs) = (distinct (map fst kvs) \<and>
     list_all (\<lambda>kv. list_all scalar (fst kv) \<and> json_wf (snd kv)) kvs)"
| "json_wf j = True"

lemma scalar_of_char [simp]: "scalar (of_char c)"
proof -
  have "of_char c < (256 :: nat)"
    by (metis of_char_mod_256 mod_less_divisor zero_less_numeral)
  then have "of_char c < (55296 :: nat)" by linarith
  then show ?thesis unfolding scalar_def by blast
qed

lemma scalar_ustr [simp]: "list_all scalar (ustr s)"
  by (simp add: ustr_def list_all_iff)

lemma json_wf_jstr [simp]: "json_wf (jstr s)"
  by (simp add: jstr_def)

lemma json_wf_normalise: "json_wf j \<Longrightarrow> json_wf (normalise j)"
proof (induction j)
  case (JObj kvs)
  have "map fst (map (\<lambda>kv. (fst kv, normalise (snd kv))) kvs) = map fst kvs"
    by simp
  moreover have "distinct (map fst (sort_key fst xs)) = distinct (map fst xs)" for xs :: "(ustr \<times> json) list"
    by (rule mset_eq_imp_distinct_iff) simp
  ultimately show ?case
    using JObj by (auto simp: list_all_iff snds.simps comp_def)
qed (auto simp: list_all_iff)

end
