(* ===== verification/Json_Inj.thy ===== *)
theory Json_Inj
  imports Json
begin

text \<open>
  The canonical encoding is injective on well-formed documents, up to the order of the
  keys. The laws of an escape function are a locale, interpreted on both of Python's; the
  proof reads the text from the left: a token, a string, a number and a whole value are each
  determined by any text that starts with them.
\<close>

section \<open>Numbers\<close>

lemma digits10_range: "c \<in> set (digits10 n) \<Longrightarrow> 48 \<le> c \<and> c \<le> 57"
proof (induction n rule: digits10.induct)
  case (1 n)
  show ?case
  proof (cases "n < 10")
    case True
    then show ?thesis using "1.prems" by (simp add: digits10.simps [of n])
  next
    case False
    have "n mod 10 < 10" by simp
    then show ?thesis using "1" False by (auto simp: digits10.simps [of n])
  qed
qed

lemma digits10_nonempty [simp]: "digits10 n \<noteq> []"
  by (subst digits10.simps) simp

definition parse_digits :: "ustr \<Rightarrow> nat" where
  "parse_digits ds = foldl (\<lambda>a c. 10 * a + (c - 48)) 0 ds"

lemma parse_digits10: "parse_digits (digits10 n) = n"
proof (induction n rule: digits10.induct)
  case (1 n)
  show ?case
  proof (cases "n < 10")
    case True
    then show ?thesis by (simp add: digits10.simps [of n] parse_digits_def)
  next
    case False
    then have "parse_digits (digits10 n) = 10 * parse_digits (digits10 (n div 10)) + n mod 10"
      by (simp add: digits10.simps [of n] parse_digits_def)
    with False 1 show ?thesis by simp
  qed
qed

lemma digits10_inj: "digits10 m = digits10 n \<Longrightarrow> m = n"
  by (metis parse_digits10)

lemma hd_digits10: "48 \<le> hd (digits10 n) \<and> hd (digits10 n) \<le> 57"
  using digits10_range [of "hd (digits10 n)" n] hd_in_set by simp

lemma int_repr_inj:
  assumes eq: "int_repr i = int_repr j"
  shows "i = j"
proof (cases "i < 0"; cases "j < 0")
  assume "\<not> i < 0" "\<not> j < 0"
  with eq show ?thesis using digits10_inj [of "nat i" "nat j"] by (simp add: int_repr_def)
next
  assume "i < 0" "j < 0"
  with eq show ?thesis using digits10_inj [of "nat (- i)" "nat (- j)"] by (simp add: int_repr_def)
next
  assume "i < 0" "\<not> j < 0"
  with eq have "hd (digits10 (nat j)) = 45" by (simp add: int_repr_def) (metis list.sel(1))
  then show ?thesis using hd_digits10 [of "nat j"] by simp
next
  assume "\<not> i < 0" "j < 0"
  with eq have "hd (digits10 (nat i)) = 45" by (simp add: int_repr_def)
  then show ?thesis using hd_digits10 [of "nat i"] by simp
qed

lemma int_repr_chars: "c \<in> set (int_repr i) \<Longrightarrow> c = 45 \<or> (48 \<le> c \<and> c \<le> 57)"
  by (auto simp: int_repr_def split: if_splits dest: digits10_range)

lemma int_repr_nonempty [simp]: "int_repr i \<noteq> []"
  by (simp add: int_repr_def)

section \<open>Hexadecimal escapes\<close>

lemma hexdigit_inj: "a < 16 \<Longrightarrow> b < 16 \<Longrightarrow> hexdigit a = hexdigit b \<Longrightarrow> a = b"
  by (auto simp: hexdigit_def split: if_splits)

lemma hex4_value:
  assumes "m < (65536 :: nat)"
  shows "m = (m div 4096 mod 16) * 4096 + (m div 256 mod 16) * 256 + (m div 16 mod 16) * 16 + m mod 16"
proof -
  have "m = 16 * (m div 16) + m mod 16" by simp
  moreover have "m div 16 = 16 * (m div 256) + m div 16 mod 16"
    using mult_div_mod_eq [of 16 "m div 16"] by (simp add: div_mult2_eq [symmetric])
  moreover have "m div 256 = 16 * (m div 4096) + m div 256 mod 16"
    using mult_div_mod_eq [of 16 "m div 256"] by (simp add: div_mult2_eq [symmetric])
  moreover have "m div 4096 mod 16 = m div 4096" using assms by simp
  ultimately show ?thesis by linarith
qed

definition hexvalue :: "nat \<Rightarrow> nat" where
  "hexvalue c = (if c < 58 then c - 48 else c - 87)"

lemma hexvalue_hexdigit [simp]: "hexvalue (hexdigit n) = n" if "n < 16"
  using that by (simp add: hexvalue_def hexdigit_def)

definition unhex4 :: "ustr \<Rightarrow> (nat \<times> ustr) option" where
  "unhex4 xs = (case xs of a # b # c # d # r \<Rightarrow>
       Some (hexvalue a * 4096 + hexvalue b * 256 + hexvalue c * 16 + hexvalue d, r)
     | _ \<Rightarrow> None)"

lemma unhex4_hex4: "n < 65536 \<Longrightarrow> unhex4 (hex4 n @ r) = Some (n, r)"
  using hex4_value [of n] by (simp add: unhex4_def hex4_def)

section \<open>Escape functions\<close>

text \<open>
  A token of the escape function is not empty, does not start with the quote that ends a
  string, and is determined, with what follows, by any text that starts with it.
\<close>

locale escape =
  fixes esc :: "nat \<Rightarrow> ustr"
  assumes esc_nonempty: "esc c \<noteq> []"
    and esc_no_quote: "hd (esc c) \<noteq> 34"
    and esc_prefix: "scalar c \<Longrightarrow> scalar e \<Longrightarrow> esc c @ x = esc e @ y \<Longrightarrow> c = e \<and> x = y"
begin

lemma esc_not_end: "esc c @ x \<noteq> 34 # y"
  using esc_no_quote [of c] esc_nonempty [of c] by (cases "esc c") auto

lemma esc_not_end': "34 # y \<noteq> esc c @ x"
  using esc_not_end [of c x y] by auto

lemma quote_prefix:
  assumes "list_all scalar a" "list_all scalar b"
    "concat (map esc a) @ 34 # x = concat (map esc b) @ 34 # y"
  shows "a = b \<and> x = y"
  using assms
proof (induction a arbitrary: b)
  case Nil
  then show ?case by (cases b) (simp_all add: esc_not_end')
next
  case (Cons c a)
  then obtain e b' where b: "b = e # b'"
    by (cases b) (simp_all add: esc_not_end)
  with Cons.prems have "c = e \<and> concat (map esc a) @ 34 # x = concat (map esc b') @ 34 # y"
    by (intro esc_prefix) simp_all
  with Cons.IH [of b'] Cons.prems b show ?case by simp
qed

lemma quote_inj:
  "list_all scalar a \<Longrightarrow> list_all scalar b \<Longrightarrow> quote esc a @ x = quote esc b @ y \<Longrightarrow> a = b \<and> x = y"
  using quote_prefix [of a b x y] by (simp add: quote_def)

end

definition unshort :: "nat \<Rightarrow> nat option" where
  "unshort k = (if k = 34 then Some 34 else if k = 92 then Some 92
     else if k = 110 then Some 10 else if k = 114 then Some 13 else if k = 116 then Some 9
     else if k = 102 then Some 12 else if k = 98 then Some 8 else None)"

text \<open>Reading one character back: the inverse both escape functions have.\<close>

definition unesc :: "ustr \<Rightarrow> (nat \<times> ustr) option" where
  "unesc xs = (case xs of [] \<Rightarrow> None
     | c # r \<Rightarrow> if c \<noteq> 92 then Some (c, r) else
        (case r of [] \<Rightarrow> None
         | k # t \<Rightarrow> if k \<noteq> 117 then map_option (\<lambda>e. (e, t)) (unshort k) else
            (case unhex4 t of None \<Rightarrow> None
             | Some (n, w) \<Rightarrow>
                 if 55296 \<le> n \<and> n < 56320 then
                   map_option (\<lambda>(m, z). (65536 + (n - 55296) * 1024 + (m - 56320), z))
                     (unhex4 (drop 2 w))
                 else Some (n, w))))"

lemma short_escape_cases:
  assumes "short_escape c = Some e"
  shows "e = [92, e ! 1] \<and> e ! 1 \<noteq> 117 \<and> unshort (e ! 1) = Some c"
proof -
  have "c \<in> {34, 92, 10, 13, 9, 12, 8}"
    using assms by (simp add: short_escape_def split: if_splits)
  then show ?thesis using assms by (elim insertE) (auto simp: short_escape_def unshort_def)
qed

lemma short_escape_None: "short_escape c = None \<Longrightarrow> c \<noteq> 34 \<and> c \<noteq> 92"
  by (simp add: short_escape_def split: if_splits)

lemma unesc_plain:
  assumes "scalar c"
  shows "unesc (esc_plain c @ x) = Some (c, x)"
proof (cases "short_escape c")
  case None
  then have "c \<noteq> 92" by (simp add: short_escape_None)
  then show ?thesis
    using None by (cases "c < 32") (simp_all add: esc_plain_def unesc_def unhex4_hex4)
next
  case (Some e)
  then show ?thesis
    using short_escape_cases [OF Some] Some
    by (cases e; cases "tl e") (simp_all add: esc_plain_def unesc_def)
qed

lemma unesc_ascii:
  assumes "scalar c"
  shows "unesc (esc_ascii c @ x) = Some (c, x)"
proof (cases "short_escape c")
  case None
  then have n: "c \<noteq> 92" by (simp add: short_escape_None)
  consider "32 \<le> c \<and> c \<le> 126" | "\<not> (32 \<le> c \<and> c \<le> 126)" "c < 65536" | "65536 \<le> c" by linarith
  then show ?thesis
  proof cases
    case 1
    then show ?thesis using None n by (simp add: esc_ascii_def unesc_def)
  next
    case 2
    then have "esc_ascii c = 92 # 117 # hex4 c"
      using None by (simp only: esc_ascii_def option.case if_False if_True append_Cons append_Nil)
    then show ?thesis
      using assms 2(2) by (auto simp: unesc_def unhex4_hex4 scalar_def)
  next
    case 3
    define d where "d = c - 65536"
    have d: "d div 1024 < 1024" "d mod 1024 < 1024" "c = 65536 + d"
      using 3 assms by (auto simp: scalar_def d_def)
    have "esc_ascii c = 92 # 117 # hex4 (55296 + d div 1024) @ 92 # 117 # hex4 (56320 + d mod 1024)"
      using 3 None by (simp add: esc_ascii_def d_def)
    then show ?thesis using d by (simp add: unesc_def unhex4_hex4)
  qed
next
  case (Some e)
  then show ?thesis
    using short_escape_cases [OF Some] Some
    by (cases e; cases "tl e") (simp_all add: esc_ascii_def unesc_def)
qed

lemma esc_head:
  "esc_plain c \<noteq> []" "esc_ascii c \<noteq> []" "hd (esc_plain c) \<noteq> 34" "hd (esc_ascii c) \<noteq> 34"
proof -
  have "esc_plain c \<noteq> [] \<and> hd (esc_plain c) \<noteq> 34 \<and> esc_ascii c \<noteq> [] \<and> hd (esc_ascii c) \<noteq> 34"
  proof (cases "short_escape c")
    case None
    then show ?thesis by (simp add: esc_plain_def esc_ascii_def short_escape_None)
  next
    case (Some e)
    obtain k where "e = [92, k]" using short_escape_cases [OF Some] by blast
    then show ?thesis using Some by (simp add: esc_plain_def esc_ascii_def)
  qed
  then show "esc_plain c \<noteq> []" "esc_ascii c \<noteq> []" "hd (esc_plain c) \<noteq> 34" "hd (esc_ascii c) \<noteq> 34"
    by blast+
qed

interpretation plain: escape esc_plain
  by unfold_locales (use esc_head in auto, (metis unesc_plain option.inject prod.inject)+)

interpretation ascii: escape esc_ascii
  by unfold_locales (use esc_head in auto, (metis unesc_ascii option.inject prod.inject)+)

section \<open>Values\<close>

text \<open>What may follow a value in a document: nothing, a comma or a closing bracket.\<close>

definition delim :: "ustr \<Rightarrow> bool" where
  "delim r \<longleftrightarrow> r = [] \<or> hd r \<in> {44, 93, 125}"

lemma delim_simps [simp]: "delim []" "delim (44 # r)" "delim (93 # r)" "delim (125 # r)"
  by (simp_all add: delim_def)

lemma number_takeWhile:
  assumes "list_all number_char n" "delim r"
  shows "takeWhile number_char (n @ r) = n"
  using assms by (cases r) (auto simp: takeWhile_append list_all_iff delim_def number_char_def)

lemma number_prefix:
  assumes "list_all number_char m" "list_all number_char n" "delim r" "delim s" "m @ r = n @ s"
  shows "m = n \<and> r = s"
  using number_takeWhile [OF assms(1,3)] number_takeWhile [OF assms(2,4)] assms(5) by simp

lemma number_char_int_repr: "list_all number_char (int_repr i)"
  using int_repr_chars by (auto simp: list_all_iff number_char_def)

lemma hd_int_repr: "hd (int_repr i) = 45 \<or> (48 \<le> hd (int_repr i) \<and> hd (int_repr i) \<le> 57)"
  using int_repr_chars [of "hd (int_repr i)" i] by simp

lemma int_repr_not_float: "\<not> float_repr (int_repr i)"
  using int_repr_chars [of 46 i] int_repr_chars [of 101 i] by (auto simp: float_repr_def)

text \<open>
  The first character of an encoded value tells its constructor, but for the two kinds of
  number.
\<close>

fun kind_head :: "json \<Rightarrow> nat \<Rightarrow> bool" where
  "kind_head JNull c = (c = 110)"
| "kind_head (JBool b) c = (c = (if b then 116 else 102))"
| "kind_head (JInt i) c = (c = 45 \<or> (48 \<le> c \<and> c \<le> 57))"
| "kind_head (JFloat r) c = (c = 45 \<or> (48 \<le> c \<and> c \<le> 57))"
| "kind_head (JStr s) c = (c = 34)"
| "kind_head (JArr xs) c = (c = 91)"
| "kind_head (JObj kvs) c = (c = 123)"

lemma render_head: "json_wf j \<Longrightarrow> render esc j \<noteq> [] \<and> kind_head j (hd (render esc j))"
  using hd_int_repr by (cases j) (auto simp: ustr_def quote_def float_repr_def)

lemma kind_head_append:
  assumes "json_wf j" "json_wf k" "render esc j @ r = render esc k @ s"
  shows "kind_head k (hd (render esc j))"
proof -
  have "hd (render esc j) = hd (render esc k)"
    using assms render_head [of j esc] render_head [of k esc] by (metis hd_append2)
  then show ?thesis using render_head [OF assms(2)] by metis
qed

lemma join_commas_Cons:
  "xs \<noteq> [] \<Longrightarrow> join_commas (x # xs) = x @ 44 # join_commas xs"
  by (cases xs) simp_all

text \<open>
  Elements that any text starting with them determines, separated by commas and closed by a
  bracket.
\<close>

lemma join_commas_prefix:
  assumes elem: "\<And>x y r s. x \<in> set xs \<Longrightarrow> P y \<Longrightarrow> delim r \<Longrightarrow> delim s \<Longrightarrow> f x @ r = f y @ s \<Longrightarrow> x = y \<and> r = s"
    and hds: "\<And>x. P x \<Longrightarrow> f x \<noteq> [] \<and> hd (f x) \<noteq> e"
    and "e = 93 \<or> e = 125" "list_all P xs" "list_all P ys"
    and "join_commas (map f xs) @ e # r = join_commas (map f ys) @ e # s"
  shows "xs = ys \<and> r = s"
  using elem assms(3-)
proof (induction xs arbitrary: ys)
  case Nil
  show ?case
  proof (cases ys)
    case (Cons y zs)
    then have "f y \<noteq> [] \<and> hd (f y) \<noteq> e" using Nil.prems(4) hds by simp
    moreover have "hd (join_commas (map f ys) @ e # s) = e" using Nil.prems(5) by (metis append_Nil join_commas.simps(1) list.sel(1) list.simps(8))
    ultimately show ?thesis using Cons by (cases zs) auto
  qed (use Nil in simp)
next
  case (Cons x xs)
  have x: "f x \<noteq> [] \<and> hd (f x) \<noteq> e" using Cons.prems(3) hds by simp
  show ?case
  proof (cases ys)
    case Nil
    then have "hd (join_commas (map f (x # xs)) @ e # r) = e" using Cons.prems(5) by (metis append_Nil join_commas.simps(1) list.sel(1) list.simps(8))
    then show ?thesis using x by (cases xs) auto
  next
    case ys: (Cons y zs)
    define R where "R = (if xs = [] then e # r else 44 # join_commas (map f xs) @ e # r)"
    define S where "S = (if zs = [] then e # s else 44 # join_commas (map f zs) @ e # s)"
    have "f x @ R = f y @ S"
      using Cons.prems(5)
      by (cases "xs = []"; cases "zs = []") (simp_all add: ys R_def S_def join_commas_Cons)
    moreover have "delim R" "delim S" using Cons.prems(2) by (auto simp: R_def S_def)
    ultimately have xy: "x = y" and RS: "R = S"
      using Cons.prems(1) [of x y R S] Cons.prems(4) ys by simp_all
    have "e \<noteq> 44" using Cons.prems(2) by auto
    with RS have "join_commas (map f xs) @ e # r = join_commas (map f zs) @ e # s"
      by (auto simp: R_def S_def split: if_splits)
    then have "xs = zs \<and> r = s"
      using Cons.prems ys by (intro Cons.IH) (simp_all, blast)
    with xy ys show ?thesis by simp
  qed
qed

context escape
begin

lemma render_prefix:
  assumes "json_wf j" "json_wf k" "delim r" "delim s" "render esc j @ r = render esc k @ s"
  shows "j = k \<and> r = s"
  using assms
proof (induction j arbitrary: k r s)
  case JNull
  then show ?case using kind_head_append [of JNull k esc r s]
    by (cases k) (auto simp: ustr_def split: if_splits)
next
  case (JBool b)
  then show ?case using kind_head_append [of "JBool b" k esc r s]
    by (cases k) (auto simp: ustr_def split: if_splits)
next
  case (JInt i)
  show ?case
  proof (cases k)
    case (JInt i')
    then show ?thesis
      using JInt.prems number_prefix [of "int_repr i" "int_repr i'" r s]
      by (auto simp: number_char_int_repr dest: int_repr_inj)
  next
    case (JFloat f)
    then show ?thesis
      using JInt.prems number_prefix [of "int_repr i" f r s] int_repr_not_float [of i]
      by (auto simp: number_char_int_repr float_repr_def)
  qed (use JInt.prems kind_head_append [of "JInt i" k esc r s] hd_int_repr [of i]
      in \<open>auto split: if_splits\<close>)
next
  case (JFloat f)
  show ?case
  proof (cases k)
    case (JInt i)
    then show ?thesis
      using JFloat.prems number_prefix [of f "int_repr i" r s] int_repr_not_float [of i]
      by (auto simp: number_char_int_repr float_repr_def)
  next
    case (JFloat f')
    then show ?thesis
      using JFloat.prems number_prefix [of f f' r s] by (auto simp: float_repr_def)
  qed (use JFloat.prems kind_head_append [of "JFloat f" k esc r s]
      in \<open>auto simp: float_repr_def split: if_splits\<close>)
next
  case (JStr t)
  show ?case
  proof (cases k)
    case (JStr t')
    then show ?thesis using JStr.prems quote_inj [of t t' r s] by simp
  qed (use JStr.prems kind_head_append [of "JStr t" k esc r s]
      in \<open>auto simp: quote_def split: if_splits\<close>)
next
  case (JArr xs)
  show ?case
  proof (cases k)
    case k: (JArr ys)
    have "xs = ys \<and> r = s"
    proof (rule join_commas_prefix [where P = json_wf and f = "render esc" and e = 93])
      show "join_commas (map (render esc) xs) @ 93 # r = join_commas (map (render esc) ys) @ 93 # s"
        using JArr.prems k by simp
    next
      fix x y r s
      assume "x \<in> set xs" "json_wf y" "delim r" "delim s" "render esc x @ r = render esc y @ s"
      then show "x = y \<and> r = s" using JArr.IH [of x y r s] JArr.prems(1) by (simp add: list_all_iff)
    next
      fix x assume "json_wf x"
      then show "render esc x \<noteq> [] \<and> hd (render esc x) \<noteq> 93"
        using render_head [of x esc] by (cases x) auto
    qed (use JArr.prems k in simp_all)
    then show ?thesis using k by simp
  qed (use JArr.prems kind_head_append [of "JArr xs" k esc r s] in \<open>auto split: if_splits\<close>)
next
  case (JObj kvs)
  define item where "item = (\<lambda>kv. quote esc (fst kv) @ 58 # render esc (snd kv))"
  show ?case
  proof (cases k)
    case k: (JObj kvs')
    have "kvs = kvs' \<and> r = s"
    proof (rule join_commas_prefix [where f = item and e = 125 and
          P = "\<lambda>kv. list_all scalar (fst kv) \<and> json_wf (snd kv)"])
      show "join_commas (map item kvs) @ 125 # r = join_commas (map item kvs') @ 125 # s"
        using JObj.prems k by (simp add: item_def)
    next
      fix x y r s
      assume a: "x \<in> set kvs" "list_all scalar (fst y) \<and> json_wf (snd y)" "delim r" "delim s"
        "item x @ r = item y @ s"
      have wf: "list_all scalar (fst x)" "json_wf (snd x)"
        using a(1) JObj.prems(1) by (auto simp: list_all_iff)
      have q: "fst x = fst y \<and> 58 # render esc (snd x) @ r = 58 # render esc (snd y) @ s"
        using a wf by (intro quote_inj) (simp_all add: item_def)
      moreover have "snd x = snd y \<and> r = s"
        using a wf q by (intro JObj.IH [of x "snd x"]) (simp_all add: snds.simps prod_eq_iff)
      ultimately show "x = y \<and> r = s" by (simp add: prod_eq_iff)
    qed (use JObj.prems k in \<open>simp_all add: item_def quote_def\<close>)
    then show ?thesis using k by simp
  qed (use JObj.prems kind_head_append [of "JObj kvs" k esc r s] in \<open>auto split: if_splits\<close>)
qed

lemma dumps_inj:
  "json_wf j \<Longrightarrow> json_wf k \<Longrightarrow> dumps esc j = dumps esc k \<Longrightarrow> normalise j = normalise k"
  using render_prefix [of "normalise j" "normalise k" "[]" "[]"]
  by (simp add: dumps_def json_wf_normalise)

end

section \<open>Digests of documents\<close>

text \<open>
  What every user of a digest relies on: the encoding determines the document up to key
  order, so that two documents with the same digest are equal or exhibit a collision of the
  hash function. The hash function itself is a parameter of the facts.
\<close>

locale canonical_encoding =
  fixes enc :: "json \<Rightarrow> ustr"
  assumes enc_inj: "json_wf j \<Longrightarrow> json_wf k \<Longrightarrow> enc j = enc k \<Longrightarrow> normalise j = normalise k"
begin

lemma digest_binds:
  assumes "json_wf j" "json_wf k" "H (enc j) = H (enc k)"
  shows "normalise j = normalise k \<or> (enc j \<noteq> enc k \<and> H (enc j) = H (enc k))"
  using assms enc_inj by blast

lemma digest_binds_collision_free:
  assumes "json_wf j" "json_wf k" "H (enc j) = H (enc k)"
    and "\<And>x y. H x = H y \<Longrightarrow> x = y"
  shows "normalise j = normalise k"
  using assms enc_inj by blast

end

interpretation ascii_doc: canonical_encoding "dumps esc_ascii"
  by unfold_locales (rule ascii.dumps_inj)

interpretation plain_doc: canonical_encoding "dumps esc_plain"
  by unfold_locales (rule plain.dumps_inj)

text \<open>
  An object without nested objects or arrays is determined, field by field, by its
  normalised form.
\<close>

lemma normalise_JObj_mset:
  assumes "normalise (JObj a) = normalise (JObj b)"
  shows "mset (map (\<lambda>kv. (fst kv, normalise (snd kv))) a) = mset (map (\<lambda>kv. (fst kv, normalise (snd kv))) b)"
proof -
  have "mset (sort_key fst (map (\<lambda>kv. (fst kv, normalise (snd kv))) a)) =
    mset (sort_key fst (map (\<lambda>kv. (fst kv, normalise (snd kv))) b))"
    using assms by simp
  then show ?thesis unfolding mset_sort .
qed

lemma normalise_JObj_field:
  assumes "normalise (JObj a) = normalise (JObj b)" "distinct (map fst b)"
    "(k, v) \<in> set a" "(k, w) \<in> set b"
  shows "normalise v = normalise w"
proof -
  have "(k, normalise v) \<in> set (map (\<lambda>kv. (fst kv, normalise (snd kv))) b)"
    using assms(3) normalise_JObj_mset [OF assms(1)] by (metis (mono_tags, lifting) fst_conv image_eqI list.set_map mset_eq_setD snd_conv)
  then obtain w' where "(k, w') \<in> set b" "normalise v = normalise w'" by auto
  then show ?thesis using assms(2,4) by (metis eq_key_imp_eq_value)
qed

end
