(* ===== verification/Approvals.thy ===== *)
theory Approvals
  imports Tenant_Scope Script_Authorization Json_Inj
begin

text \<open>
  \<open>server/app/core/approvals.py\<close>: two-person authorization. The rows of approval
  policies, requests and decisions; the resolution of the governing policy; the digest that
  binds a request to its command; the eligibility of an approver; expiry; the refusal of a
  verdict and of a dispatch. SHA-256 is a parameter \<open>sha256\<close> from the encoded bytes to
  the hexadecimal digest.
\<close>

section \<open>Rows\<close>

datatype ApprovalRequestStatus =
  Req_pending | Req_approved | Req_rejected | Req_cancelled | Req_expired | Req_consumed

datatype ApprovalDecisionKind = Approve | Reject

record ApprovalPolicy =
  ap_id :: string
  ap_name :: string
  ap_scope :: MonitoringScope
  ap_scope_id :: "string option"
  ap_command_kinds :: "string list option"
  ap_required_approvals :: int
  ap_request_ttl_seconds :: int
  ap_enabled :: bool
  emergency_override_allowed :: bool
  ap_created_at :: datetime
  ap_created_by :: "string option"
  ap_updated_at :: "instant option"
  ap_updated_by :: "string option"

record ApprovalRequest =
  ar_id :: string
  ar_agent_id :: string
  ar_client_id :: "string option"
  ar_site_id :: "string option"
  ar_kind :: CommandKind
  ar_payload :: json
  ar_payload_sha256 :: string
  ar_policy_id :: "string option"
  ar_required_approvals :: int
  ar_requested_by :: "string option"
  ar_requested_by_email :: string
  ar_reason :: string
  ar_status :: ApprovalRequestStatus
  ar_created_at :: datetime
  ar_expires_at :: "datetime option"
  ar_decided_at :: "instant option"
  ar_consumed_at :: "instant option"
  ar_closed_at :: "instant option"
  ar_closed_by_email :: "string option"
  ar_closed_reason :: "string option"

record ApprovalDecision =
  ad_request_id :: string
  ad_operator_id :: string
  ad_operator_email :: string
  ad_operator_role :: OperatorRole
  ad_decision :: ApprovalDecisionKind
  ad_reason :: "string option"
  ad_created_at :: instant

section \<open>Constants\<close>

definition MAX_REQUEST_TTL_SECONDS :: int where "MAX_REQUEST_TTL_SECONDS = 7 * 24 * 3600"

definition MIN_REQUEST_TTL_SECONDS :: int where "MIN_REQUEST_TTL_SECONDS = 60"

fun scope_specificity :: "MonitoringScope \<Rightarrow> int" where
  "scope_specificity Scope_agent = 3"
| "scope_specificity Scope_site = 2"
| "scope_specificity Scope_client = 1"
| "scope_specificity Scope_global = 0"

definition live_status :: "ApprovalRequestStatus \<Rightarrow> bool" where
  "live_status s \<longleftrightarrow> s = Req_pending \<or> s = Req_approved"

section \<open>Operations\<close>

definition binding_document :: "string \<Rightarrow> CommandKind \<Rightarrow> json \<Rightarrow> json" where
  "binding_document agent_id kind payload = JObj
     [(ustr ''v'', JInt 1), (ustr ''agent_id'', jstr agent_id),
      (ustr ''kind'', jstr (kind_value kind)), (ustr ''payload'', payload)]"

definition binding_digest ::
  "(ustr \<Rightarrow> string) \<Rightarrow> string \<Rightarrow> CommandKind \<Rightarrow> json \<Rightarrow> string" where
  "binding_digest sha256 agent_id kind payload =
     sha256 (dumps esc_ascii (binding_document agent_id kind payload))"

definition policy_matches :: "db \<Rightarrow> Agent \<Rightarrow> CommandKind \<Rightarrow> ApprovalPolicy \<Rightarrow> bool" where
  "policy_matches d agent kind p \<longleftrightarrow>
     kind_value kind \<in> set (case ap_command_kinds p of None \<Rightarrow> [] | Some ks \<Rightarrow> ks) \<and>
     (case ap_scope p of
        Scope_global \<Rightarrow> True
      | Scope_client \<Rightarrow> ap_scope_id p = agent_client_id d agent
      | Scope_site \<Rightarrow> ap_scope_id p = Some (ag_site_id agent)
      | Scope_agent \<Rightarrow> ap_scope_id p = Some (ag_id agent))"

definition policy_sort_key :: "ApprovalPolicy \<Rightarrow> int \<times> instant \<times> string" where
  "policy_sort_key p = (- scope_specificity (ap_scope p), instant_of (ap_created_at p), ap_id p)"

definition resolve_policy ::
  "db \<Rightarrow> ApprovalPolicy rows \<Rightarrow> Agent \<Rightarrow> CommandKind \<Rightarrow> ApprovalPolicy option" where
  "resolve_policy d policies agent kind =
     (let candidates = filter ap_enabled policies;
          matched = filter (policy_matches d agent kind) candidates
      in if matched = [] then None else Some (hd (sort_key policy_sort_key matched)))"

record ApproverEligibility =
  eligible :: bool
  el_reason :: string

definition approver_eligibility ::
  "db \<Rightarrow> Operator \<Rightarrow> Agent \<Rightarrow> CommandKind \<Rightarrow> string option \<Rightarrow> ApproverEligibility" where
  "approver_eligibility d oper agent kind requester =
     (if op_disabled oper then \<lparr>eligible = False, el_reason = ''approver_disabled''\<rparr>
      else if requester \<noteq> None \<and> requester = Some (op_id oper) then
        \<lparr>eligible = False, el_reason = ''approver_is_requester''\<rparr>
      else
        let client_id = agent_client_id d agent;
            membership = (case client_id of None \<Rightarrow> None | Some c \<Rightarrow> resolve_membership d oper c);
            tail = (let decision = authorize_command oper agent kind in
              if \<not> cmd_allowed decision then
                \<lparr>eligible = False, el_reason = ''approver_'' @ cmd_reason decision\<rparr>
              else \<lparr>eligible = True, el_reason = ''approver_eligible''\<rparr>)
        in if is_platform_admin oper then tail
           else case membership of
               None \<Rightarrow> \<lparr>eligible = False, el_reason = ''approver_tenant_not_visible''\<rparr>
             | Some m \<Rightarrow>
                 if \<not> client_role_permits (mem_role m) client_operator then
                   \<lparr>eligible = False, el_reason = ''approver_client_role_insufficient''\<rparr>
                 else tail)"

definition expire_if_due :: "ApprovalRequest \<Rightarrow> instant \<Rightarrow> ApprovalRequest \<times> bool" where
  "expire_if_due request now =
     (if \<not> live_status (ar_status request) then (request, False)
      else case ensure_utc (ar_expires_at request) of
          None \<Rightarrow> (request, False)
        | Some expires_at \<Rightarrow>
            if expires_at > now then (request, False)
            else (request\<lparr>ar_status := Req_expired, ar_closed_at := Some now,
                    ar_closed_reason := Some ''request_ttl_elapsed''\<rparr>, True))"

definition approval_count :: "ApprovalDecision list \<Rightarrow> nat" where
  "approval_count decisions =
     card (set (map ad_operator_id (filter (\<lambda>d. ad_decision d = Approve) decisions)))"

definition has_rejection :: "ApprovalDecision list \<Rightarrow> bool" where
  "has_rejection decisions = list_ex (\<lambda>d. ad_decision d = Reject) decisions"

definition decision_refusal ::
  "ApprovalRequest \<Rightarrow> ApprovalDecision list \<Rightarrow> Operator \<Rightarrow> instant \<Rightarrow> string option" where
  "decision_refusal request decisions oper now =
     (if ar_status request = Req_expired
         \<or> (case ensure_utc (ar_expires_at request) of None \<Rightarrow> False | Some e \<Rightarrow> e \<le> now)
      then Some ''approval_request_expired''
      else if \<not> live_status (ar_status request) then Some ''approval_request_not_pending''
      else if ar_status request = Req_approved then Some ''approval_request_already_approved''
      else if Some (op_id oper) = ar_requested_by request then Some ''approval_self_not_permitted''
      else if list_ex (\<lambda>d. ad_operator_id d = op_id oper) decisions
        then Some ''approval_already_recorded''
      else None)"

record ConsumptionCheck =
  cc_allowed :: bool
  cc_reason :: string
  cc_approver_ids :: "string list"

definition refuse_consumption :: "string \<Rightarrow> ConsumptionCheck" where
  "refuse_consumption code = \<lparr>cc_allowed = False, cc_reason = code, cc_approver_ids = []\<rparr>"

text \<open>The identities whose approval still counts, read live from the operator table.\<close>

definition still_eligible ::
  "db \<Rightarrow> ApprovalRequest \<Rightarrow> ApprovalDecision list \<Rightarrow> Agent \<Rightarrow> CommandKind \<Rightarrow> string list" where
  "still_eligible d request decisions agent kind =
     concat (map (\<lambda>dec.
        case db_get op_id (operators d) (ad_operator_id dec) of
          None \<Rightarrow> []
        | Some approver \<Rightarrow>
            if eligible (approver_eligibility d approver agent kind (ar_requested_by request))
            then [op_id approver] else [])
       (filter (\<lambda>dec. ad_decision dec = Approve) decisions))"

definition consumption_refusal ::
  "(ustr \<Rightarrow> string) \<Rightarrow> db \<Rightarrow> ApprovalRequest \<Rightarrow> ApprovalDecision list \<Rightarrow> Operator \<Rightarrow>
    Agent \<Rightarrow> CommandKind \<Rightarrow> json \<Rightarrow> instant \<Rightarrow> ConsumptionCheck" where
  "consumption_refusal sha256 d request decisions oper agent kind payload now =
     (if ar_agent_id request \<noteq> ag_id agent then refuse_consumption ''approval_request_agent_mismatch''
      else if ar_kind request \<noteq> kind then refuse_consumption ''approval_request_kind_mismatch''
      else if ar_payload_sha256 request \<noteq> binding_digest sha256 (ag_id agent) kind payload
        then refuse_consumption ''approval_request_payload_mismatch''
      else if ar_requested_by request \<noteq> Some (op_id oper)
        then refuse_consumption ''approval_request_requester_mismatch''
      else if ar_status request = Req_expired
          \<or> (case ensure_utc (ar_expires_at request) of None \<Rightarrow> True | Some e \<Rightarrow> e \<le> now)
        then refuse_consumption ''approval_request_expired''
      else if ar_status request = Req_consumed
        then refuse_consumption ''approval_request_already_consumed''
      else if ar_status request \<noteq> Req_approved
        then refuse_consumption ''approval_request_not_approved''
      else
        let ids = still_eligible d request decisions agent kind in
        if int (length ids) < ar_required_approvals request
        then refuse_consumption ''approval_approver_no_longer_eligible''
        else \<lparr>cc_allowed = True, cc_reason = ''approval_satisfied'', cc_approver_ids = sort ids\<rparr>)"

definition request_expiry :: "ApprovalPolicy \<Rightarrow> instant \<Rightarrow> instant" where
  "request_expiry p now =
     now + seconds (max MIN_REQUEST_TTL_SECONDS
                     (min (ap_request_ttl_seconds p) MAX_REQUEST_TTL_SECONDS))"

end
