(* ===== verification/Contracts.thy ===== *)
theory Contracts
  imports Prelude
begin

text \<open>
  The contracts several components share: the resolution of one governing row by scope
  (approval and patch policies), and a row that lapses at a deadline (approval requests,
  emergency overrides). Each is a locale; its client lemmas are proved once here and the
  components interpret it on their own operations.
\<close>

section \<open>Most specific scope wins\<close>

text \<open>
  \<open>applies ctx p\<close>: the row is in force for the context; \<open>rank\<close> orders the
  rows, the least first; \<open>resolve\<close> picks the governing one.
\<close>

locale scope_resolution =
  fixes applies :: "'c \<Rightarrow> 'p \<Rightarrow> bool"
    and rank :: "'p \<Rightarrow> 'k :: linorder"
    and resolve :: "'c \<Rightarrow> 'p list \<Rightarrow> 'p option"
  assumes resolve_None: "resolve ctx ps = None \<longleftrightarrow> (\<forall>p \<in> set ps. \<not> applies ctx p)"
    and resolve_Some: "resolve ctx ps = Some p \<Longrightarrow> p \<in> set ps \<and> applies ctx p"
    and resolve_least: "resolve ctx ps = Some p \<Longrightarrow> q \<in> set ps \<Longrightarrow> applies ctx q \<Longrightarrow> rank p \<le> rank q"
begin

text \<open>Adding rows never removes the control.\<close>

lemma resolve_extend:
  "resolve ctx ps \<noteq> None \<Longrightarrow> set ps \<subseteq> set qs \<Longrightarrow> resolve ctx qs \<noteq> None"
  unfolding resolve_None by blast

lemma resolve_extend_rank:
  "resolve ctx ps = Some p \<Longrightarrow> set ps \<subseteq> set qs \<Longrightarrow> resolve ctx qs = Some q \<Longrightarrow> rank q \<le> rank p"
  using resolve_Some [of ctx ps p] resolve_least [of ctx qs q p] by blast

text \<open>Where the rank identifies a row, the outcome does not depend on the order of the rows.\<close>

lemma resolve_set_cong:
  assumes "set ps = set qs" "inj_on rank (set ps)"
  shows "resolve ctx ps = resolve ctx qs"
proof (cases "resolve ctx ps")
  case None
  then show ?thesis using assms(1) resolve_None by metis
next
  case (Some p)
  then obtain q where q: "resolve ctx qs = Some q"
    using assms(1) resolve_None [of ctx qs] resolve_Some [OF Some] by (metis not_Some_eq)
  have "rank p = rank q"
    using resolve_Some [OF Some] resolve_Some [OF q] resolve_least [OF Some, of q]
      resolve_least [OF q, of p] assms(1) by (simp add: antisym)
  then have "p = q"
    using assms resolve_Some [OF Some] resolve_Some [OF q] by (auto dest: inj_onD)
  then show ?thesis using Some q by simp
qed

text \<open>Rows that do not apply do not matter.\<close>

lemma resolve_filter:
  assumes "inj_on rank (set ps)"
  shows "resolve ctx (filter (applies ctx) ps) = resolve ctx ps"
proof (cases "resolve ctx ps")
  case None
  then have "\<forall>p \<in> set ps. \<not> applies ctx p" by (simp only: resolve_None)
  then have "resolve ctx (filter (applies ctx) ps) = None" by (simp only: resolve_None) simp
  then show ?thesis using None by simp
next
  case (Some p)
  let ?fs = "filter (applies ctx) ps"
  obtain q where q: "resolve ctx ?fs = Some q"
    using resolve_None [of ctx ?fs] resolve_Some [OF Some] by (auto simp flip: not_None_eq)
  have "rank p = rank q"
    using resolve_Some [OF Some] resolve_Some [OF q] resolve_least [OF Some, of q]
      resolve_least [OF q, of p] by (simp add: antisym)
  then show ?thesis
    using assms Some q resolve_Some [OF Some] resolve_Some [OF q] by (auto dest: inj_onD)
qed

end

lemma sort_key_resolution:
  assumes "resolve = (\<lambda>ctx ps. let ms = filter (applies ctx) ps in
      if ms = [] then None else Some (hd (sort_key rank ms)))"
  shows "scope_resolution applies rank resolve"
proof
  fix ctx ps p q
  show "resolve ctx ps = None \<longleftrightarrow> (\<forall>p \<in> set ps. \<not> applies ctx p)"
    by (auto simp: assms filter_empty_conv)
  assume r: "resolve ctx ps = Some p"
  let ?ms = "filter (applies ctx) ps"
  have ne: "?ms \<noteq> []" and p: "p = hd (sort_key rank ?ms)"
    using r by (auto simp: assms Let_def split: if_splits)
  show "p \<in> set ps \<and> applies ctx p"
    using hd_sort_key_in [OF ne, of rank] by (simp add: p)
  show "q \<in> set ps \<Longrightarrow> applies ctx q \<Longrightarrow> rank p \<le> rank q"
    using hd_sort_key_least [of q ?ms rank] by (simp add: p)
qed

section \<open>Rows that lapse\<close>

text \<open>
  A row with a status and a deadline. While its status is live it is flipped to
  \<open>expired\<close> by the first look at it at or after the deadline; every other status is
  final for this operation.
\<close>

locale lapsing =
  fixes status :: "'r \<Rightarrow> 's"
    and live :: "'s \<Rightarrow> bool"
    and deadline :: "'r \<Rightarrow> instant option"
    and expired :: 's
    and expire :: "'r \<Rightarrow> instant \<Rightarrow> 'r \<times> bool"
  assumes expire_flag: "snd (expire r now) \<longleftrightarrow>
      live (status r) \<and> (\<exists>t. deadline r = Some t \<and> t \<le> now)"
    and expire_status: "status (fst (expire r now)) = (if snd (expire r now) then expired else status r)"
    and expire_same: "\<not> snd (expire r now) \<Longrightarrow> fst (expire r now) = r"
    and expire_deadline: "deadline (fst (expire r now)) = deadline r"
    and expired_dead: "\<not> live expired"
begin

text \<open>After a look at \<open>now\<close>, a live row has a deadline strictly in the future.\<close>

lemma live_after_look:
  "live (status (fst (expire r now))) \<Longrightarrow> deadline r = Some t \<Longrightarrow> now < t"
  using expire_status [of r now] expire_flag [of r now] expired_dead
  by (auto split: if_splits)

lemma expire_idem: "expire (fst (expire r now)) now = (fst (expire r now), False)"
proof -
  have "\<not> snd (expire (fst (expire r now)) now)"
    using expire_flag [of "fst (expire r now)" now] expire_flag [of r now]
      expire_status [of r now] expired_dead expire_deadline [of r now]
    by (auto split: if_splits)
  then show ?thesis by (simp add: prod_eq_iff expire_same)
qed

text \<open>Once expired, expired at every later look.\<close>

lemma expired_stays: "status r = expired \<Longrightarrow> expire r now = (r, False)"
proof -
  assume "status r = expired"
  then have "\<not> snd (expire r now)" using expire_flag expired_dead by simp
  then show ?thesis by (simp add: prod_eq_iff expire_same)
qed

lemma expire_mono:
  "snd (expire r t) \<Longrightarrow> t \<le> u \<Longrightarrow> snd (expire r u)"
  unfolding expire_flag by (meson order_trans)

text \<open>Looking at an earlier instant first does not change whether the row is expired later.\<close>

lemma expire_compose:
  assumes "t \<le> u"
  shows "status (fst (expire (fst (expire r t)) u)) = status (fst (expire r u))"
proof (cases "snd (expire r t)")
  case True
  then have "snd (expire r u)" using assms expire_mono by blast
  moreover have "status (fst (expire r t)) = expired" using True expire_status by simp
  ultimately show ?thesis using expired_stays expire_status by simp
next
  case False
  then show ?thesis by (simp add: expire_same)
qed

end

end
