(* ===== verification/Fixtures.thy ===== *)
theory Fixtures
  imports Models
begin

text \<open>
  A small deployment on which the witnesses evaluate: two tenants with one site each, an
  endpoint in the first, a requester, two other operators of the tenant and a platform
  administrator.
\<close>

definition op0 :: "string \<Rightarrow> OperatorRole \<Rightarrow> bool \<Rightarrow> Operator" where
  "op0 i r platform = \<lparr>op_id = i, op_email = i @ ''@example.org'', op_role = r,
     is_platform_admin = platform, script_execution_scope = Some ScriptExecutionScope_global,
     script_execution_scope_id = None, op_disabled = False\<rparr>"

definition alice :: Operator where "alice = op0 ''alice'' OperatorRole_admin False"
definition bob :: Operator where "bob = op0 ''bob'' OperatorRole_admin False"
definition carol :: Operator where "carol = op0 ''carol'' OperatorRole_admin False"
definition root :: Operator where "root = op0 ''root'' OperatorRole_admin True"

definition agent1 :: Agent where
  "agent1 = \<lparr>ag_id = ''agent1'', ag_site_id = ''site1'', trust_state = Trust_active,
     supported_capabilities = None, command_envelope_versions = Some [''command-v3''],
     ag_os = [], ag_architecture = [], agent_version = [], update_channel = None, revoked_at = None\<rparr>"

definition db1 :: db where
  "db1 = \<lparr>operators = [alice, bob, carol, root],
     memberships =
       [\<lparr>mem_operator_id = ''alice'', mem_client_id = ''client1'', mem_role = client_admin\<rparr>,
        \<lparr>mem_operator_id = ''bob'', mem_client_id = ''client1'', mem_role = client_operator\<rparr>,
        \<lparr>mem_operator_id = ''carol'', mem_client_id = ''client1'', mem_role = client_operator\<rparr>],
     sites = [\<lparr>site_pk = ''site1'', site_client_id = ''client1''\<rparr>,
              \<lparr>site_pk = ''site2'', site_client_id = ''client2''\<rparr>]\<rparr>"

lemmas fixture_defs = op0_def alice_def bob_def carol_def root_def agent1_def db1_def

end
