(* ===== verification/Approvals_Correct.thy ===== *)
theory Approvals_Correct
  imports Approvals Contracts Fixtures
begin

text \<open>
  The correctness of the approval rules: the governing policy, the binding digest, expiry,
  and what a spendable approval implies.
\<close>

section \<open>The governing policy\<close>

text \<open>The context of a resolution is the database, the endpoint and the kind.\<close>

type_synonym resolution_context = "db \<times> Agent \<times> CommandKind"

fun policy_applies :: "resolution_context \<Rightarrow> ApprovalPolicy \<Rightarrow> bool" where
  "policy_applies (d, agent, kind) p \<longleftrightarrow> ap_enabled p \<and> policy_matches d agent kind p"

lemma policy_applies_eq:
  "policy_applies (d, agent, kind) = (\<lambda>p. ap_enabled p \<and> policy_matches d agent kind p)"
  by (rule ext) simp

fun resolve_in :: "resolution_context \<Rightarrow> ApprovalPolicy list \<Rightarrow> ApprovalPolicy option" where
  "resolve_in (d, agent, kind) ps = resolve_policy d ps agent kind"

interpretation approval_policies:
  scope_resolution policy_applies policy_sort_key resolve_in
proof (rule sort_key_resolution, rule ext, rule ext)
  fix ctx ps
  show "resolve_in ctx ps = (let ms = filter (policy_applies ctx) ps in
      if ms = [] then None else Some (hd (sort_key policy_sort_key ms)))"
    by (cases ctx) (simp add: resolve_policy_def Let_def conj_commute policy_applies_eq)
qed

lemma policy_sort_key_inj: "distinct (map ap_id ps) \<Longrightarrow> inj_on policy_sort_key (set ps)"
  by (auto simp: inj_on_def policy_sort_key_def distinct_map)

lemma policy_sort_key_specificity:
  "policy_sort_key p \<le> policy_sort_key q \<Longrightarrow>
    scope_specificity (ap_scope q) \<le> scope_specificity (ap_scope p)"
  by (auto simp: policy_sort_key_def less_eq_prod_def)

lemma policy_sort_key_oldest:
  "policy_sort_key p \<le> policy_sort_key q \<Longrightarrow>
    scope_specificity (ap_scope q) = scope_specificity (ap_scope p) \<Longrightarrow>
    instant_of (ap_created_at p) \<le> instant_of (ap_created_at q)"
  by (auto simp: policy_sort_key_def less_eq_prod_def)

text \<open>
  C25. The governing policy is an enabled policy that names the kind and targets the
  endpoint; no other such policy has a more specific scope, and among equally specific ones
  none is older. There is none exactly when no such policy exists. The outcome does not
  depend on the order in which the query returns the rows.
\<close>

theorem resolve_policy_correct:
  assumes "distinct (map ap_id policies)"
  shows "(resolve_policy d policies agent kind = None \<longleftrightarrow>
            (\<forall>q \<in> set policies. \<not> (ap_enabled q \<and> policy_matches d agent kind q)))
     \<and> (\<forall>p. resolve_policy d policies agent kind = Some p \<longrightarrow>
          p \<in> set policies \<and> ap_enabled p \<and> policy_matches d agent kind p \<and>
          (\<forall>q \<in> set policies. ap_enabled q \<and> policy_matches d agent kind q \<longrightarrow>
             scope_specificity (ap_scope q) \<le> scope_specificity (ap_scope p) \<and>
             (scope_specificity (ap_scope q) = scope_specificity (ap_scope p) \<longrightarrow>
                instant_of (ap_created_at p) \<le> instant_of (ap_created_at q))))
     \<and> (\<forall>qs. mset qs = mset policies \<longrightarrow>
          resolve_policy d qs agent kind = resolve_policy d policies agent kind)"
proof (intro conjI allI impI)
  let ?ctx = "(d, agent, kind)"
  show "resolve_policy d policies agent kind = None \<longleftrightarrow>
      (\<forall>q \<in> set policies. \<not> (ap_enabled q \<and> policy_matches d agent kind q))"
    using approval_policies.resolve_None [of ?ctx policies] by simp
  fix p assume "resolve_policy d policies agent kind = Some p"
  then have r: "resolve_in ?ctx policies = Some p" by simp
  show "p \<in> set policies" "ap_enabled p" "policy_matches d agent kind p"
    using approval_policies.resolve_Some [OF r] by simp_all
  show "\<forall>q \<in> set policies. ap_enabled q \<and> policy_matches d agent kind q \<longrightarrow>
       scope_specificity (ap_scope q) \<le> scope_specificity (ap_scope p) \<and>
       (scope_specificity (ap_scope q) = scope_specificity (ap_scope p) \<longrightarrow>
          instant_of (ap_created_at p) \<le> instant_of (ap_created_at q))"
    using approval_policies.resolve_least [OF r] policy_sort_key_specificity policy_sort_key_oldest
    by (metis policy_applies.simps)
next
  fix qs assume "mset qs = mset policies"
  then have "set qs = set policies" by (rule mset_eq_setD)
  then show "resolve_policy d qs agent kind = resolve_policy d policies agent kind"
    using approval_policies.resolve_set_cong [of qs policies "(d, agent, kind)"]
      policy_sort_key_inj [OF assms] by simp
qed

definition pol0 :: "string \<Rightarrow> MonitoringScope \<Rightarrow> string option \<Rightarrow> int \<Rightarrow> ApprovalPolicy" where
  "pol0 i sc sid n = \<lparr>ap_id = i, ap_name = i, ap_scope = sc, ap_scope_id = sid,
     ap_command_kinds = Some [''reboot''], ap_required_approvals = n,
     ap_request_ttl_seconds = 3600, ap_enabled = True, emergency_override_allowed = False,
     ap_created_at = Naive 0, ap_created_by = None, ap_updated_at = None, ap_updated_by = None\<rparr>"

theorem resolve_policy_correct_witness:
  "resolve_policy db1 [pol0 ''p2'' Scope_site (Some ''site1'') 1, pol0 ''p1'' Scope_global None 3] agent1 reboot
     = resolve_policy db1 [pol0 ''p1'' Scope_global None 3, pol0 ''p2'' Scope_site (Some ''site1'') 1] agent1 reboot"
  by (rule resolve_policy_correct [THEN conjunct2, THEN conjunct2, rule_format])
    (simp_all add: pol0_def add_mset_commute)

section \<open>The execution binding\<close>

lemma json_wf_binding_document [simp]: "json_wf payload \<Longrightarrow> json_wf (binding_document a k payload)"
  by (simp add: binding_document_def ustr_inj)

lemma binding_document_inj:
  assumes "normalise (binding_document a k p) = normalise (binding_document b l q)"
  shows "a = b \<and> k = l \<and> normalise p = normalise q"
proof -
  let ?A = "[(ustr ''v'', JInt 1), (ustr ''agent_id'', jstr a), (ustr ''kind'', jstr (kind_value k)), (ustr ''payload'', p)]"
  let ?B = "[(ustr ''v'', JInt 1), (ustr ''agent_id'', jstr b), (ustr ''kind'', jstr (kind_value l)), (ustr ''payload'', q)]"
  have n: "normalise (JObj ?A) = normalise (JObj ?B)" and d: "distinct (map fst ?B)"
    using assms by (simp_all only: binding_document_def) (simp add: ustr_inj)
  have "normalise (jstr a) = normalise (jstr b)"
    by (rule normalise_JObj_field [OF n d, of "ustr ''agent_id''"]) simp_all
  moreover have "normalise (jstr (kind_value k)) = normalise (jstr (kind_value l))"
    by (rule normalise_JObj_field [OF n d, of "ustr ''kind''"]) simp_all
  moreover have "normalise p = normalise q"
    by (rule normalise_JObj_field [OF n d, of "ustr ''payload''"]) simp_all
  ultimately show ?thesis by (simp add: jstr_def ustr_inj kind_value_inj)
qed

text \<open>
  The digest binds the command. Two commands with the same digest have the same
  endpoint, the same kind and the same payload up to key order, or else exhibit a collision
  of the hash function; and payloads that differ only in key order have the same digest.
  Payloads are well-formed JSON documents (finite floats, Unicode scalar strings, no
  repeated keys).
\<close>

theorem binding_digest_binds:
  assumes "json_wf p" "json_wf q"
  shows "(binding_digest sha256 a k p = binding_digest sha256 b l q \<longrightarrow>
            (a = b \<and> k = l \<and> normalise p = normalise q) \<or> (\<exists>x y. x \<noteq> y \<and> sha256 x = sha256 y))
     \<and> (normalise p = normalise q \<longrightarrow> binding_digest sha256 a k p = binding_digest sha256 a k q)"
proof (intro conjI impI)
  assume "binding_digest sha256 a k p = binding_digest sha256 b l q"
  then have "normalise (binding_document a k p) = normalise (binding_document b l q) \<or>
      (\<exists>x y. x \<noteq> y \<and> sha256 x = sha256 y)"
    unfolding binding_digest_def
    using ascii_doc.digest_binds [of "binding_document a k p" "binding_document b l q" sha256] assms
    by auto
  then show "(a = b \<and> k = l \<and> normalise p = normalise q) \<or> (\<exists>x y. x \<noteq> y \<and> sha256 x = sha256 y)"
    using binding_document_inj by blast
next
  assume "normalise p = normalise q"
  then show "binding_digest sha256 a k p = binding_digest sha256 a k q"
    by (simp add: binding_digest_def dumps_def binding_document_def)
qed

theorem binding_digest_binds_witness:
  "binding_digest (map char_of) ''agent1'' reboot (JObj [(ustr ''a'', JInt 1), (ustr ''b'', JNull)])
   = binding_digest (map char_of) ''agent1'' reboot (JObj [(ustr ''b'', JNull), (ustr ''a'', JInt 1)])"
  by (rule binding_digest_binds [THEN conjunct2, rule_format]) (simp_all add: ustr_def scalar_def)

section \<open>Expiry\<close>

lemma expire_if_due_flag:
  "snd (expire_if_due r now) \<longleftrightarrow>
    live_status (ar_status r) \<and> (\<exists>t. ensure_utc (ar_expires_at r) = Some t \<and> t \<le> now)"
  by (auto simp: expire_if_due_def split: option.splits)

interpretation request_expiry: lapsing ar_status live_status "\<lambda>r. ensure_utc (ar_expires_at r)"
  Req_expired expire_if_due
  by unfold_locales
    (auto simp: expire_if_due_flag, auto simp: expire_if_due_def live_status_def split: option.splits if_splits)

lemma expire_if_due_frame:
  "ar_id (fst (expire_if_due r now)) = ar_id r"
  "ar_requested_by (fst (expire_if_due r now)) = ar_requested_by r"
  "ar_client_id (fst (expire_if_due r now)) = ar_client_id r"
  "ar_agent_id (fst (expire_if_due r now)) = ar_agent_id r"
  "ar_kind (fst (expire_if_due r now)) = ar_kind r"
  "ar_required_approvals (fst (expire_if_due r now)) = ar_required_approvals r"
  "ar_payload_sha256 (fst (expire_if_due r now)) = ar_payload_sha256 r"
  "ar_consumed_at (fst (expire_if_due r now)) = ar_consumed_at r"
  by (simp_all add: expire_if_due_def split: option.splits)

section \<open>Eligibility\<close>

lemma eligible_iff:
  "eligible (approver_eligibility d a agent kind requester) \<longleftrightarrow>
     \<not> op_disabled a \<and> requester \<noteq> Some (op_id a) \<and>
     cmd_allowed (authorize_command a agent kind) \<and>
     assert_client_action d a (agent_client_id d agent) client_operator det = Inr ()"
  unfolding assert_client_action_ok
  by (auto simp: approver_eligibility_def Let_def split: option.splits)

section \<open>Spending an approval\<close>

lemma still_eligible_set:
  "i \<in> set (still_eligible d request decisions agent kind) \<longleftrightarrow>
    (\<exists>dec \<in> set decisions. ad_decision dec = Approve \<and> ad_operator_id dec = i \<and>
      (\<exists>a. db_get op_id (operators d) i = Some a \<and>
         eligible (approver_eligibility d a agent kind (ar_requested_by request))))"
proof -
  have "i \<in> set (case db_get op_id (operators d) j of None \<Rightarrow> []
        | Some a \<Rightarrow> if eligible (approver_eligibility d a agent kind (ar_requested_by request))
            then [op_id a] else []) \<longleftrightarrow>
      j = i \<and> (\<exists>a. db_get op_id (operators d) i = Some a \<and>
         eligible (approver_eligibility d a agent kind (ar_requested_by request)))" for j
  proof (cases "db_get op_id (operators d) j")
    case None
    then show ?thesis by auto
  next
    case (Some a)
    then have "op_id a = j" by (auto dest: db_get_SomeD)
    then show ?thesis using Some by auto
  qed
  then show ?thesis by (auto simp: still_eligible_def)
qed

lemma still_eligible_distinct:
  "distinct (map ad_operator_id decisions) \<Longrightarrow> distinct (still_eligible d request decisions agent kind)"
proof (induction decisions)
  case Nil
  then show ?case by (simp add: still_eligible_def)
next
  case (Cons dec decisions)
  have "ad_operator_id dec \<notin> set (still_eligible d request decisions agent kind)"
    using Cons.prems by (auto simp: still_eligible_set) (metis image_eqI)
  moreover have "distinct (still_eligible d request decisions agent kind)"
    using Cons by simp
  ultimately show ?case
    by (auto simp: still_eligible_def dest: db_get_SomeD split: option.splits)
qed

lemma consumption_allowed:
  assumes "cc_allowed (consumption_refusal sha256 d request decisions oper agent kind payload now)"
  shows "ar_agent_id request = ag_id agent" "ar_kind request = kind"
    "ar_payload_sha256 request = binding_digest sha256 (ag_id agent) kind payload"
    "ar_requested_by request = Some (op_id oper)" "ar_status request = Req_approved"
    "\<exists>t. ensure_utc (ar_expires_at request) = Some t \<and> now < t"
    "ar_required_approvals request \<le> int (length (still_eligible d request decisions agent kind))"
    "cc_approver_ids (consumption_refusal sha256 d request decisions oper agent kind payload now)
      = sort (still_eligible d request decisions agent kind)"
  using assms
  by (auto simp: consumption_refusal_def refuse_consumption_def Let_def not_le
      split: if_splits option.splits)

text \<open>
  C3. Two-person authorization at dispatch. When the check lets a dispatch spend an
  approval, the request is the dispatcher's own, approved, unexpired at that moment, and for
  this endpoint and kind and this payload's digest; and at least the required number of
  different identities, none of them the dispatcher, recorded an approval and may act right
  now: their account is enabled, they pass the tenant gate as client operator, and they are
  authorized to run this command themselves.
\<close>

theorem spendable_approval_two_person:
  assumes "cc_allowed (consumption_refusal sha256 d request decisions oper agent kind payload now)"
    and "distinct (map ad_operator_id decisions)"
  shows "ar_requested_by request = Some (op_id oper) \<and> ar_status request = Req_approved \<and>
    (\<exists>t. ensure_utc (ar_expires_at request) = Some t \<and> now < t) \<and>
    ar_agent_id request = ag_id agent \<and> ar_kind request = kind \<and>
    ar_payload_sha256 request = binding_digest sha256 (ag_id agent) kind payload \<and>
    (let ids = cc_approver_ids (consumption_refusal sha256 d request decisions oper agent kind payload now)
     in ar_required_approvals request \<le> int (card (set ids)) \<and> op_id oper \<notin> set ids \<and>
        (\<forall>i \<in> set ids.
          (\<exists>dec \<in> set decisions. ad_decision dec = Approve \<and> ad_operator_id dec = i) \<and>
          (\<exists>a. db_get op_id (operators d) i = Some a \<and> \<not> op_disabled a \<and>
             assert_client_action d a (agent_client_id d agent) client_operator [] = Inr () \<and>
             cmd_allowed (authorize_command a agent kind))))"
proof -
  note c = consumption_allowed [OF assms(1)]
  let ?ids = "still_eligible d request decisions agent kind"
  have e: "(\<exists>dec \<in> set decisions. ad_decision dec = Approve \<and> ad_operator_id dec = i) \<and>
      (\<exists>a. db_get op_id (operators d) i = Some a \<and> \<not> op_disabled a \<and>
        assert_client_action d a (agent_client_id d agent) client_operator [] = Inr () \<and>
        cmd_allowed (authorize_command a agent kind))" if "i \<in> set ?ids" for i
    using that unfolding still_eligible_set eligible_iff [where det = "[]"] by blast
  have "op_id oper \<notin> set ?ids"
    using c(4) by (auto simp: still_eligible_set eligible_iff [where det = "[]"] dest!: db_get_SomeD)
  moreover have "card (set ?ids) = length ?ids"
    using still_eligible_distinct [OF assms(2)] by (rule distinct_card)
  ultimately show ?thesis
    using c e by (simp add: Let_def)
qed

definition req1 :: ApprovalRequest where
  "req1 = \<lparr>ar_id = ''req1'', ar_agent_id = ''agent1'', ar_client_id = Some ''client1'',
     ar_site_id = Some ''site1'', ar_kind = reboot, ar_payload = JObj [],
     ar_payload_sha256 = binding_digest (map char_of) ''agent1'' reboot (JObj []),
     ar_policy_id = Some ''p1'', ar_required_approvals = 2, ar_requested_by = Some ''alice'',
     ar_requested_by_email = ''alice@example.org'', ar_reason = ''maintenance'', ar_status = Req_approved,
     ar_created_at = Aware 0, ar_expires_at = Some (Aware 100), ar_decided_at = Some 10,
     ar_consumed_at = None, ar_closed_at = None, ar_closed_by_email = None,
     ar_closed_reason = None\<rparr>"

definition decisions1 :: "ApprovalDecision list" where
  "decisions1 = map (\<lambda>i. \<lparr>ad_request_id = ''req1'', ad_operator_id = i, ad_operator_email = i,
     ad_operator_role = OperatorRole_admin, ad_decision = Approve, ad_reason = None, ad_created_at = 5\<rparr>)
     [''bob'', ''carol'']"

theorem spendable_approval_two_person_witness:
  "ar_required_approvals req1 \<le> int (card (set (cc_approver_ids
     (consumption_refusal (map char_of) db1 req1 decisions1 alice agent1 reboot (JObj []) 50))))"
proof -
  have "cc_allowed (consumption_refusal (map char_of) db1 req1 decisions1 alice agent1 reboot (JObj []) 50)"
    by (simp add: consumption_refusal_def req1_def decisions1_def still_eligible_def db_get_def
        approver_eligibility_def agent_client_id_def resolve_membership_def client_role_permits_def
        authorize_command_def typed_kinds_def privileged_kinds_def fixture_defs Let_def)
  moreover have "distinct (map ad_operator_id decisions1)" by (simp add: decisions1_def)
  ultimately show ?thesis
    using spendable_approval_two_person unfolding Let_def by blast
qed

section \<open>A narrower policy can lower the bar\<close>

text \<open>
  What specificity does to the number of approvers: where a policy governs, an enabled
  policy of a strictly more specific scope that names the same kind replaces it altogether,
  whatever number of approvals it asks for, so that writing a narrow policy can lower the
  number of people who must agree.
\<close>

theorem narrower_policy_replaces:
  assumes "resolve_policy d policies agent kind = Some p"
    and "ap_enabled q" "policy_matches d agent kind q"
    and "scope_specificity (ap_scope p) < scope_specificity (ap_scope q)"
  shows "resolve_policy d (q # policies) agent kind = Some q"
proof -
  let ?ctx = "(d, agent, kind)"
  have p: "resolve_in ?ctx policies = Some p" using assms(1) by simp
  obtain w where w: "resolve_in ?ctx (q # policies) = Some w"
    using approval_policies.resolve_extend [of ?ctx policies "q # policies"] p by auto
  have "policy_sort_key w \<le> policy_sort_key q"
    using approval_policies.resolve_least [OF w, of q] assms(2,3) by simp
  then have wq: "scope_specificity (ap_scope q) \<le> scope_specificity (ap_scope w)"
    by (rule policy_sort_key_specificity)
  have "w = q"
  proof (rule ccontr)
    assume "w \<noteq> q"
    then have "policy_sort_key p \<le> policy_sort_key w"
      using approval_policies.resolve_least [OF p, of w] approval_policies.resolve_Some [OF w] by auto
    then have "scope_specificity (ap_scope w) \<le> scope_specificity (ap_scope p)"
      by (rule policy_sort_key_specificity)
    then show False using wq assms(4) by simp
  qed
  then show ?thesis using w by simp
qed

theorem narrower_policy_replaces_witness:
  "map_option ap_required_approvals
     (resolve_policy db1 [pol0 ''p1'' Scope_global None 3] agent1 reboot) = Some 3 \<and>
   map_option ap_required_approvals
     (resolve_policy db1 [pol0 ''p2'' Scope_client (Some ''client1'') 1, pol0 ''p1'' Scope_global None 3]
       agent1 reboot) = Some 1"
proof -
  have g: "resolve_policy db1 [pol0 ''p1'' Scope_global None 3] agent1 reboot = Some (pol0 ''p1'' Scope_global None 3)"
    by (simp add: resolve_policy_def policy_matches_def pol0_def)
  have "resolve_policy db1 [pol0 ''p2'' Scope_client (Some ''client1'') 1, pol0 ''p1'' Scope_global None 3]
      agent1 reboot = Some (pol0 ''p2'' Scope_client (Some ''client1'') 1)"
    by (rule narrower_policy_replaces [OF g])
      (simp_all add: policy_matches_def pol0_def agent_client_id_def db_get_def fixture_defs)
  then show ?thesis using g by (simp add: pol0_def)
qed

end
