(* ===== verification/Emergency_Overrides.thy ===== *)
theory Emergency_Overrides
  imports Approvals_Correct
begin

text \<open>
  \<open>server/app/core/emergency_overrides.py\<close>: the justified emergency override, one
  authorized identity standing in for the approvers. The activator's eligibility, the bounded
  deadline, lapsing, and the refusal at dispatch, with what an accepted override implies.
\<close>

section \<open>Rows and constants\<close>

datatype EmergencyOverrideStatus = Ovr_active | Ovr_consumed | Ovr_expired | Ovr_revoked

record EmergencyOverride =
  eo_id :: string
  eo_agent_id :: string
  eo_client_id :: "string option"
  eo_site_id :: "string option"
  eo_kind :: CommandKind
  eo_payload :: json
  eo_payload_sha256 :: string
  eo_policy_id :: "string option"
  eo_required_approvals :: int
  eo_activated_by :: "string option"
  eo_activated_by_email :: string
  eo_justification :: string
  eo_status :: EmergencyOverrideStatus
  eo_created_at :: datetime
  eo_expires_at :: "datetime option"
  eo_consumed_at :: "instant option"
  eo_revoked_at :: "instant option"
  eo_revoked_by_email :: "string option"
  eo_revoke_reason :: "string option"
  eo_notified_at :: "instant option"
  eo_notification_error :: "string option"
  eo_notified_recipient_count :: nat
  eo_reviewed_at :: "instant option"
  eo_reviewed_by_email :: "string option"
  eo_review_note :: "string option"

definition DEFAULT_TTL_SECONDS :: int where "DEFAULT_TTL_SECONDS = 15 * 60"

definition MIN_TTL_SECONDS :: int where "MIN_TTL_SECONDS = 60"

definition MAX_TTL_SECONDS :: int where "MAX_TTL_SECONDS = 60 * 60"

section \<open>Operations\<close>

definition activator_eligibility ::
  "db \<Rightarrow> Operator \<Rightarrow> Agent \<Rightarrow> CommandKind \<Rightarrow> ApprovalPolicy option \<Rightarrow> ApproverEligibility" where
  "activator_eligibility d oper agent kind pol =
     (if op_disabled oper then
        \<lparr>eligible = False, el_reason = ''emergency_override_operator_disabled''\<rparr>
      else case pol of
        None \<Rightarrow> \<lparr>eligible = False, el_reason = ''emergency_override_not_required''\<rparr>
      | Some p \<Rightarrow>
          if \<not> emergency_override_allowed p then
            \<lparr>eligible = False, el_reason = ''emergency_override_not_permitted''\<rparr>
          else
            let tail = (let decision = authorize_command oper agent kind in
                  if \<not> cmd_allowed decision then
                    \<lparr>eligible = False, el_reason = ''emergency_override_'' @ cmd_reason decision\<rparr>
                  else \<lparr>eligible = True, el_reason = ''emergency_override_activator_eligible''\<rparr>)
            in if is_platform_admin oper then tail
               else
                 case (case agent_client_id d agent of
                         None \<Rightarrow> None | Some c \<Rightarrow> resolve_membership d oper c) of
                   None \<Rightarrow> \<lparr>eligible = False, el_reason = ''emergency_override_tenant_not_visible''\<rparr>
                 | Some m \<Rightarrow>
                     if \<not> client_role_permits (mem_role m) client_admin then
                       \<lparr>eligible = False, el_reason = ''emergency_override_role_insufficient''\<rparr>
                     else tail)"

definition override_expiry :: "int option \<Rightarrow> instant \<Rightarrow> instant" where
  "override_expiry ttl_seconds now =
     (let requested = (case ttl_seconds of None \<Rightarrow> DEFAULT_TTL_SECONDS | Some t \<Rightarrow> t);
          ttl = max MIN_TTL_SECONDS (min requested MAX_TTL_SECONDS)
      in now + seconds ttl)"

definition expire_override_if_due :: "EmergencyOverride \<Rightarrow> instant \<Rightarrow> EmergencyOverride \<times> bool" where
  "expire_override_if_due r now =
     (if eo_status r \<noteq> Ovr_active then (r, False)
      else case ensure_utc (eo_expires_at r) of
          None \<Rightarrow> (r, False)
        | Some expires_at \<Rightarrow>
            if expires_at > now then (r, False) else (r\<lparr>eo_status := Ovr_expired\<rparr>, True))"

record OverrideCheck =
  oc_allowed :: bool
  oc_reason :: string

definition refuse_override :: "string \<Rightarrow> OverrideCheck" where
  "refuse_override code = \<lparr>oc_allowed = False, oc_reason = code\<rparr>"

definition override_consumption_refusal ::
  "(ustr \<Rightarrow> string) \<Rightarrow> db \<Rightarrow> ApprovalPolicy rows \<Rightarrow> EmergencyOverride \<Rightarrow> Operator \<Rightarrow>
    Agent \<Rightarrow> CommandKind \<Rightarrow> json \<Rightarrow> instant \<Rightarrow> OverrideCheck" where
  "override_consumption_refusal sha256 d policies r oper agent kind payload now =
     (if eo_agent_id r \<noteq> ag_id agent then refuse_override ''emergency_override_agent_mismatch''
      else if eo_kind r \<noteq> kind then refuse_override ''emergency_override_kind_mismatch''
      else if eo_payload_sha256 r \<noteq> binding_digest sha256 (ag_id agent) kind payload
        then refuse_override ''emergency_override_payload_mismatch''
      else if eo_activated_by r \<noteq> Some (op_id oper)
        then refuse_override ''emergency_override_activator_mismatch''
      else if eo_status r = Ovr_expired
          \<or> (case ensure_utc (eo_expires_at r) of None \<Rightarrow> True | Some e \<Rightarrow> e \<le> now)
        then refuse_override ''emergency_override_expired''
      else if eo_status r = Ovr_consumed then refuse_override ''emergency_override_already_consumed''
      else if eo_status r = Ovr_revoked then refuse_override ''emergency_override_revoked''
      else if eo_status r \<noteq> Ovr_active then refuse_override ''emergency_override_not_active''
      else
        let pol = resolve_policy d policies agent kind in
        if \<not> eligible (activator_eligibility d oper agent kind pol)
        then refuse_override ''emergency_override_activator_no_longer_eligible''
        else \<lparr>oc_allowed = True, oc_reason = ''emergency_override_satisfied''\<rparr>)"

section \<open>Lapsing\<close>

interpretation override_expiry: lapsing eo_status "\<lambda>s. s = Ovr_active"
  "\<lambda>r. ensure_utc (eo_expires_at r)" Ovr_expired expire_override_if_due
  by unfold_locales (auto simp: expire_override_if_due_def split: option.splits if_splits)

text \<open>The clamp keeps every override within an hour, and at least a minute, of activation.\<close>

lemma override_expiry_bounds:
  "now + seconds 60 \<le> override_expiry ttl now" "override_expiry ttl now \<le> now + seconds 3600"
  by (auto simp: override_expiry_def DEFAULT_TTL_SECONDS_def MIN_TTL_SECONDS_def MAX_TTL_SECONDS_def
      Let_def split: option.splits)

section \<open>Authority\<close>

lemma activator_eligible_iff:
  "eligible (activator_eligibility d oper agent kind pol) \<longleftrightarrow>
     \<not> op_disabled oper \<and> (\<exists>p. pol = Some p \<and> emergency_override_allowed p) \<and>
     cmd_allowed (authorize_command oper agent kind) \<and>
     assert_client_action d oper (agent_client_id d agent) client_admin det = Inr ()"
  unfolding assert_client_action_ok
  by (auto simp: activator_eligibility_def Let_def split: option.splits)

lemma override_allowed:
  assumes "oc_allowed (override_consumption_refusal sha256 d policies r oper agent kind payload now)"
  shows "eo_agent_id r = ag_id agent" "eo_kind r = kind"
    "eo_payload_sha256 r = binding_digest sha256 (ag_id agent) kind payload"
    "eo_activated_by r = Some (op_id oper)" "eo_status r = Ovr_active"
    "\<exists>t. ensure_utc (eo_expires_at r) = Some t \<and> now < t"
    "eligible (activator_eligibility d oper agent kind (resolve_policy d policies agent kind))"
  using assms
  by (auto simp: override_consumption_refusal_def refuse_override_def Let_def not_le
      split: if_splits option.splits)

text \<open>
  An override is an exception with a bound. When the check lets a dispatch spend an
  override, the override is the dispatcher's own, active and unexpired, for this endpoint,
  kind and payload; the dispatcher is enabled, authorized to run the command themselves and
  passes the tenant gate as client administrator; and the policy that governs the command at
  this moment still permits overrides. An override made by \<open>override_expiry\<close> more than
  an hour ago, or in force with no governing policy, is never accepted.
\<close>

theorem spendable_override_bounded:
  assumes "oc_allowed (override_consumption_refusal sha256 d policies r oper agent kind payload now)"
  shows "eo_activated_by r = Some (op_id oper) \<and> eo_status r = Ovr_active \<and>
    eo_agent_id r = ag_id agent \<and> eo_kind r = kind \<and>
    eo_payload_sha256 r = binding_digest sha256 (ag_id agent) kind payload \<and>
    \<not> op_disabled oper \<and> cmd_allowed (authorize_command oper agent kind) \<and>
    assert_client_action d oper (agent_client_id d agent) client_admin det = Inr () \<and>
    (\<exists>p. resolve_policy d policies agent kind = Some p \<and> emergency_override_allowed p) \<and>
    (\<forall>ttl created. ensure_utc (eo_expires_at r) = Some (override_expiry ttl created) \<longrightarrow>
       now < created + seconds 3600)"
proof -
  note a = override_allowed [OF assms]
  have "now < created + seconds 3600"
    if "ensure_utc (eo_expires_at r) = Some (override_expiry ttl created)" for ttl created
    using that a(6) override_expiry_bounds(2) [of ttl created] by auto
  then show ?thesis
    using a(1-5) a(7) unfolding activator_eligible_iff [where det = det] by blast
qed

definition override1 :: EmergencyOverride where
  "override1 = \<lparr>eo_id = ''ovr1'', eo_agent_id = ''agent1'', eo_client_id = Some ''client1'',
     eo_site_id = Some ''site1'', eo_kind = reboot, eo_payload = JObj [],
     eo_payload_sha256 = binding_digest (map char_of) ''agent1'' reboot (JObj []),
     eo_policy_id = Some ''p1'', eo_required_approvals = 2, eo_activated_by = Some ''alice'',
     eo_activated_by_email = ''alice@example.org'', eo_justification = ''outage'', eo_status = Ovr_active, eo_created_at = Aware 0,
     eo_expires_at = Some (Aware (override_expiry None 0)), eo_consumed_at = None,
     eo_revoked_at = None, eo_revoked_by_email = None, eo_revoke_reason = None,
     eo_notified_at = None, eo_notification_error = None, eo_notified_recipient_count = 0,
     eo_reviewed_at = None, eo_reviewed_by_email = None, eo_review_note = None\<rparr>"

definition pol_override :: ApprovalPolicy where
  "pol_override = (pol0 ''p1'' Scope_global None 2)\<lparr>emergency_override_allowed := True\<rparr>"

lemma override1_allowed:
  "oc_allowed (override_consumption_refusal (map char_of) db1 [pol_override] override1 alice
     agent1 reboot (JObj []) (seconds 10))"
  by (simp add: override_consumption_refusal_def override1_def pol_override_def pol0_def
      activator_eligibility_def resolve_policy_def policy_matches_def agent_client_id_def
      db_get_def resolve_membership_def authorize_command_def typed_kinds_def
      privileged_kinds_def override_expiry_def DEFAULT_TTL_SECONDS_def MIN_TTL_SECONDS_def
      MAX_TTL_SECONDS_def seconds_def fixture_defs Let_def)

theorem spendable_override_bounded_witness:
  "assert_client_action db1 alice (agent_client_id db1 agent1) client_admin ''x'' = Inr () \<and>
   (\<exists>p. resolve_policy db1 [pol_override] agent1 reboot = Some p \<and> emergency_override_allowed p)"
  using spendable_override_bounded [OF override1_allowed, of "''x''"] by blast

end
