(* ===== verification/Utf8.thy ===== *)
theory Utf8
  imports Json_Inj
begin

text \<open>
  UTF-8 as \<open>str.encode\<close> computes it: a prefix code on Unicode scalar values that refuses lone
  surrogates (\<open>UnicodeEncodeError\<close>). A text is determined by its bytes.
\<close>

definition utf8_char :: "nat \<Rightarrow> nat list" where
  "utf8_char c =
     (if c < 128 then [c]
      else if c < 2048 then [192 + c div 64, 128 + c mod 64]
      else if c < 65536 then [224 + c div 4096, 128 + c div 64 mod 64, 128 + c mod 64]
      else [240 + c div 262144, 128 + c div 4096 mod 64, 128 + c div 64 mod 64, 128 + c mod 64])"

definition encode_utf8 :: "ustr \<Rightarrow> nat list option" where
  "encode_utf8 s = (if list_all scalar s then Some (concat (map utf8_char s)) else None)"

section \<open>Prefix codes\<close>

lemma prefix_code_inj:
  assumes "\<And>c. f c \<noteq> []"
    and "\<And>c e x y. P c \<Longrightarrow> P e \<Longrightarrow> f c @ x = f e @ y \<Longrightarrow> c = e \<and> x = y"
    and "list_all P a" "list_all P b" "concat (map f a) = concat (map f b)"
  shows "a = b"
proof -
  have cons: "concat (map f (c # a)) \<noteq> []" for c a
    using assms(1) [of c] by simp
  show ?thesis
    using assms(3-5)
  proof (induction a arbitrary: b)
    case Nil
    then show ?case using cons by (cases b) auto
  next
    case (Cons c a)
    then obtain e b' where b: "b = e # b'"
      using cons [of c a] by (cases b) auto
    have "c = e \<and> concat (map f a) = concat (map f b')"
      using Cons.prems b by (intro assms(2)) simp_all
    with Cons.IH [of b'] Cons.prems b show ?case by simp
  qed
qed

text \<open>The first byte tells the length of the character.\<close>

definition utf8_decode1 :: "nat list \<Rightarrow> (nat \<times> nat list) option" where
  "utf8_decode1 bs = (case bs of [] \<Rightarrow> None
     | b # r \<Rightarrow> if b < 128 then Some (b, r)
        else if b < 224 then Some ((b - 192) * 64 + (r ! 0 - 128), drop 1 r)
        else if b < 240 then Some ((b - 224) * 4096 + (r ! 0 - 128) * 64 + (r ! 1 - 128), drop 2 r)
        else Some ((b - 240) * 262144 + (r ! 0 - 128) * 4096 + (r ! 1 - 128) * 64 + (r ! 2 - 128), drop 3 r))"

lemma div_mod_64:
  "c div 64 * 64 + c mod 64 = (c :: nat)"
  "c div 4096 * 4096 + c div 64 mod 64 * 64 + c mod 64 = c"
  "c div 262144 * 262144 + c div 4096 mod 64 * 4096 + c div 64 mod 64 * 64 + c mod 64 = c"
proof -
  have split: "c = q1 * 64 + r1 \<Longrightarrow> q1 = q2 * 64 + r2 \<Longrightarrow> q2 = q3 * 64 + r3 \<Longrightarrow>
      q2 * 4096 + r2 * 64 + r1 = c \<and> q3 * 262144 + r3 * 4096 + r2 * 64 + r1 = c"
    for q1 r1 q2 r2 q3 r3 :: nat by simp
  have d: "c div 4096 = c div 64 div 64" "c div 262144 = c div 64 div 64 div 64"
    by (simp_all add: div_mult2_eq [symmetric])
  show "c div 64 * 64 + c mod 64 = c" by (rule div_mult_mod_eq)
  show "c div 4096 * 4096 + c div 64 mod 64 * 64 + c mod 64 = c"
    "c div 262144 * 262144 + c div 4096 mod 64 * 4096 + c div 64 mod 64 * 64 + c mod 64 = c"
    unfolding d
    using split [OF div_mult_mod_eq [symmetric] div_mult_mod_eq [symmetric] div_mult_mod_eq [symmetric]]
    by blast+
qed

lemma utf8_decode1_char:
  assumes "scalar c"
  shows "utf8_decode1 (utf8_char c @ r) = Some (c, r)"
proof -
  have big: "c < 1114112" using assms by (auto simp: scalar_def)
  consider "c < 128" | "128 \<le> c" "c < 2048" | "2048 \<le> c" "c < 65536" | "65536 \<le> c"
    by linarith
  then show ?thesis
  proof cases
    case 2
    then have "c div 64 < 32" by (simp add: div_less_iff_less_mult)
    then show ?thesis using 2 div_mod_64(1) [of c] by (simp add: utf8_char_def utf8_decode1_def)
  next
    case 3
    then have "c div 4096 < 16" by (simp add: div_less_iff_less_mult)
    then show ?thesis using 3 div_mod_64(2) [of c] by (simp add: utf8_char_def utf8_decode1_def)
  next
    case 4
    then show ?thesis using div_mod_64(3) [of c] by (simp add: utf8_char_def utf8_decode1_def)
  qed (simp add: utf8_char_def utf8_decode1_def)
qed

lemma utf8_char_nonempty [simp]: "utf8_char c \<noteq> []"
  by (simp add: utf8_char_def)

lemma utf8_char_prefix:
  "scalar c \<Longrightarrow> scalar e \<Longrightarrow> utf8_char c @ x = utf8_char e @ y \<Longrightarrow> c = e \<and> x = y"
  by (metis utf8_decode1_char option.inject prod.inject)

lemma encode_utf8_inj:
  assumes "encode_utf8 a = Some bs" "encode_utf8 b = Some bs"
  shows "a = b"
proof (rule prefix_code_inj [of utf8_char scalar])
  show "list_all scalar a" "list_all scalar b" "concat (map utf8_char a) = concat (map utf8_char b)"
    using assms by (simp_all add: encode_utf8_def split: if_splits)
  show "utf8_char c \<noteq> []" for c by (rule utf8_char_nonempty)
  show "c = e \<and> x = y" if "scalar c" "scalar e" "utf8_char c @ x = utf8_char e @ y" for c e x y
    using that by (rule utf8_char_prefix)
qed

lemma encode_utf8_scalar: "encode_utf8 a = Some bs \<Longrightarrow> list_all scalar a"
  by (simp add: encode_utf8_def split: if_splits)

lemma encode_utf8_ascii: "\<forall>c \<in> set a. c < 128 \<Longrightarrow> encode_utf8 a = Some a"
proof -
  assume a: "\<forall>c \<in> set a. c < 128"
  then have "concat (map utf8_char a) = a"
    by (induction a) (simp_all add: utf8_char_def)
  moreover have "list_all scalar a" using a by (auto simp: list_all_iff scalar_def)
  ultimately show ?thesis by (simp add: encode_utf8_def)
qed

end
