(* ===== verification/Calendar.thy ===== *)
theory Calendar
  imports Prelude
begin

text \<open>
  The proleptic Gregorian calendar of Python's \<open>datetime\<close>, as far as the scheduler and
  the command envelope use it: wall-clock fields, the ordinal of a date, the weekday, and the
  addition of one minute. The ordinal grows by one from a day to the next, so a minute on the
  wall clock is a minute on the UTC time line.
\<close>

record civil =
  c_year :: nat
  c_month :: nat
  c_day :: nat
  c_hour :: nat
  c_minute :: nat
  c_second :: nat
  c_micro :: nat

definition is_leap :: "nat \<Rightarrow> bool" where
  "is_leap y \<longleftrightarrow> y mod 4 = 0 \<and> (y mod 100 \<noteq> 0 \<or> y mod 400 = 0)"

definition days_in_month :: "nat \<Rightarrow> nat \<Rightarrow> nat" where
  "days_in_month y m = (if m = 2 then (if is_leap y then 29 else 28)
     else if m \<in> {4, 6, 9, 11} then 30 else 31)"

fun days_before_month :: "nat \<Rightarrow> nat \<Rightarrow> nat" where
  "days_before_month y 0 = 0"
| "days_before_month y (Suc 0) = 0"
| "days_before_month y (Suc (Suc m)) = days_before_month y (Suc m) + days_in_month y (Suc m)"

definition days_before_year :: "nat \<Rightarrow> nat" where
  "days_before_year y = (y - 1) * 365 + (y - 1) div 4 - (y - 1) div 100 + (y - 1) div 400"

text \<open>\<open>date.toordinal()\<close>: 1 January of year 1 is day 1.\<close>

definition ordinal :: "nat \<Rightarrow> nat \<Rightarrow> nat \<Rightarrow> nat" where
  "ordinal y m d = days_before_year y + days_before_month y m + d"

text \<open>\<open>weekday()\<close>: Monday is 0.\<close>

definition weekday :: "nat \<Rightarrow> nat \<Rightarrow> nat \<Rightarrow> nat" where
  "weekday y m d = (ordinal y m d + 6) mod 7"

definition valid_date :: "nat \<Rightarrow> nat \<Rightarrow> nat \<Rightarrow> bool" where
  "valid_date y m d \<longleftrightarrow> 1 \<le> y \<and> 1 \<le> m \<and> m \<le> 12 \<and> 1 \<le> d \<and> d \<le> days_in_month y m"

definition valid_civil :: "civil \<Rightarrow> bool" where
  "valid_civil c \<longleftrightarrow> valid_date (c_year c) (c_month c) (c_day c) \<and> c_hour c < 24 \<and>
     c_minute c < 60 \<and> c_second c < 60 \<and> c_micro c < 1000000"

text \<open>Microseconds since the epoch of a wall clock read as UTC; day 719163 is 1 January 1970.\<close>

definition civil_instant :: "civil \<Rightarrow> instant" where
  "civil_instant c =
     seconds (((int (ordinal (c_year c) (c_month c) (c_day c)) - 719163) * 24 + int (c_hour c)) * 3600
       + int (c_minute c) * 60 + int (c_second c)) + int (c_micro c)"

definition next_day :: "nat \<Rightarrow> nat \<Rightarrow> nat \<Rightarrow> nat \<times> nat \<times> nat" where
  "next_day y m d = (if d < days_in_month y m then (y, m, d + 1)
     else if m < 12 then (y, m + 1, 1) else (y + 1, 1, 1))"

definition add_minute :: "civil \<Rightarrow> civil" where
  "add_minute c =
     (if c_minute c < 59 then c\<lparr>c_minute := c_minute c + 1\<rparr>
      else if c_hour c < 23 then c\<lparr>c_hour := c_hour c + 1, c_minute := 0\<rparr>
      else case next_day (c_year c) (c_month c) (c_day c) of
        (y, m, d) \<Rightarrow> c\<lparr>c_year := y, c_month := m, c_day := d, c_hour := 0, c_minute := 0\<rparr>)"

section \<open>A day after a day\<close>

lemma days_before_month_Suc:
  "1 \<le> m \<Longrightarrow> days_before_month y (Suc m) = days_before_month y m + days_in_month y m"
  by (cases m) simp_all

lemma days_in_year:
  "days_before_month y 12 + days_in_month y 12 = (if is_leap y then 366 else 365)"
  by (simp add: numeral_eq_Suc days_in_month_def)

lemma days_before_year_Suc:
  assumes "1 \<le> y"
  shows "days_before_year (Suc y) = days_before_year y + (if is_leap y then 366 else 365)"
proof -
  obtain n where n: "y = Suc n" using assms by (cases y) auto
  have step: "Suc n div k = n div k + (if Suc n mod k = 0 then 1 else 0)" for k
    by (simp add: div_Suc)
  have le: "n div 100 \<le> n div 4" by (rule div_le_mono2) simp_all
  have down: "Suc n mod 400 = 0 \<Longrightarrow> Suc n mod 100 = 0" "Suc n mod 100 = 0 \<Longrightarrow> Suc n mod 4 = 0"
    using mod_mod_cancel [of 100 400 "Suc n"] mod_mod_cancel [of 4 100 "Suc n"] by simp_all
  have count: "(Suc k * 365 + a' - b' + c' :: nat) = (k * 365 + a - b + c) + (if l4 \<and> (\<not> l100 \<or> l400) then 366 else 365)"
    if "a' = a + (if l4 then 1 else 0)" "b' = b + (if l100 then 1 else 0)"
      "c' = c + (if l400 then 1 else 0)" "b \<le> a" "l400 \<longrightarrow> l100" "l100 \<longrightarrow> l4"
    for k a b c a' b' c' :: nat and l4 l100 l400 :: bool
    using that by (cases l4; cases l100; cases l400; simp)
  show ?thesis
    unfolding n days_before_year_def is_leap_def diff_Suc_1
    using count [OF step [of 4] step [of 100] step [of 400] le, of n] down
    by blast
qed

lemma ordinal_next_day:
  assumes "valid_date y m d"
  shows "(case next_day y m d of (y', m', d') \<Rightarrow> ordinal y' m' d') = Suc (ordinal y m d)"
proof -
  consider "d < days_in_month y m" | "d = days_in_month y m" "m < 12" | "d = days_in_month y m" "m = 12"
    using assms by (auto simp: valid_date_def le_less)
  then show ?thesis
  proof cases
    case 1
    then show ?thesis by (simp add: next_day_def ordinal_def)
  next
    case 2
    then show ?thesis
      using assms days_before_month_Suc [of m y] by (simp add: next_day_def ordinal_def valid_date_def)
  next
    case 3
    then show ?thesis
      using assms days_before_year_Suc [of y] days_in_year [of y]
      by (simp add: next_day_def ordinal_def valid_date_def)
  qed
qed

lemma valid_next_day:
  assumes "valid_date y m d"
  shows "case next_day y m d of (y', m', d') \<Rightarrow> valid_date y' m' d'"
proof -
  have "1 \<le> days_in_month a b" for a b by (simp add: days_in_month_def)
  then show ?thesis using assms by (auto simp: next_day_def valid_date_def)
qed

section \<open>A minute after a minute\<close>

lemma valid_add_minute: "valid_civil c \<Longrightarrow> valid_civil (add_minute c)"
  using valid_next_day [of "c_year c" "c_month c" "c_day c"]
  by (auto simp: add_minute_def valid_civil_def split: prod.splits)

lemma civil_instant_add_minute:
  assumes "valid_civil c"
  shows "civil_instant (add_minute c) = civil_instant c + seconds 60"
proof -
  consider "c_minute c < 59" | "c_minute c = 59" "c_hour c < 23" | "c_minute c = 59" "c_hour c = 23"
    using assms unfolding valid_civil_def by linarith
  then show ?thesis
  proof cases
    case 3
    obtain y m d where n: "next_day (c_year c) (c_month c) (c_day c) = (y, m, d)"
      by (metis prod_cases3)
    have "ordinal y m d = Suc (ordinal (c_year c) (c_month c) (c_day c))"
      using assms ordinal_next_day [of "c_year c" "c_month c" "c_day c"] n by (simp add: valid_civil_def)
    then show ?thesis using 3 n by (simp add: add_minute_def civil_instant_def seconds_def)
  qed (simp_all add: add_minute_def civil_instant_def seconds_def)
qed

lemma add_minute_second [simp]:
  "c_second (add_minute c) = c_second c" "c_micro (add_minute c) = c_micro c"
  by (simp_all add: add_minute_def split: prod.splits)

section \<open>From an instant to its wall clock\<close>

text \<open>
  \<open>date.fromordinal\<close>: the year is the last one that starts before the day, the month the
  last one of the year that starts before the rest. Both searches run downwards from an upper
  bound.
\<close>

fun last_below :: "(nat \<Rightarrow> nat) \<Rightarrow> nat \<Rightarrow> nat \<Rightarrow> nat" where
  "last_below f n 0 = 0"
| "last_below f n (Suc k) = (if f (Suc k) < n then Suc k else last_below f n k)"

definition year_of_ordinal :: "nat \<Rightarrow> nat" where
  "year_of_ordinal n = last_below days_before_year n (n div 365 + 1)"

definition month_of_day :: "nat \<Rightarrow> nat \<Rightarrow> nat" where
  "month_of_day y n = last_below (days_before_month y) n 12"

definition civil_of_instant :: "instant \<Rightarrow> civil" where
  "civil_of_instant t =
     (let d = nat (t div 86400000000 + 719163); r = nat (t mod 86400000000);
          y = year_of_ordinal d; n = d - days_before_year y; m = month_of_day y n
      in \<lparr>c_year = y, c_month = m, c_day = n - days_before_month y m,
          c_hour = r div 3600000000, c_minute = r div 60000000 mod 60,
          c_second = r div 1000000 mod 60, c_micro = r mod 1000000\<rparr>)"

lemma last_below_less: "f 1 < n \<Longrightarrow> 1 \<le> k \<Longrightarrow> 1 \<le> last_below f n k \<and> f (last_below f n k) < n \<and> last_below f n k \<le> k"
  by (induction k) (auto simp: le_Suc_eq)

lemma last_below_above: "last_below f n k < j \<Longrightarrow> j \<le> k \<Longrightarrow> n \<le> f j"
  by (induction k) (auto simp: le_Suc_eq split: if_splits)

lemma days_before_year_ge: "365 * (y - 1) \<le> days_before_year y"
proof -
  have "(y - 1) div 100 \<le> (y - 1) div 4" by (rule div_le_mono2) simp_all
  then show ?thesis unfolding days_before_year_def by linarith
qed

lemma year_of_ordinal:
  assumes "1 \<le> n"
  shows "1 \<le> year_of_ordinal n" "days_before_year (year_of_ordinal n) < n"
    "n \<le> days_before_year (Suc (year_of_ordinal n))"
proof -
  have one: "days_before_year 1 < n" using assms by (simp add: days_before_year_def)
  note b = last_below_less [of days_before_year, OF one, of "n div 365 + 1"]
  from b show "1 \<le> year_of_ordinal n" "days_before_year (year_of_ordinal n) < n"
    by (simp_all add: year_of_ordinal_def)
  show "n \<le> days_before_year (Suc (year_of_ordinal n))"
  proof (cases "Suc (year_of_ordinal n) \<le> n div 365 + 1")
    case True
    show ?thesis
      by (rule last_below_above [OF _ True]) (simp add: year_of_ordinal_def del: last_below.simps)
  next
    case False
    then have "year_of_ordinal n = n div 365 + 1" using b by (simp add: year_of_ordinal_def)
    then show ?thesis
      using days_before_year_ge [of "Suc (year_of_ordinal n)"] by simp
  qed
qed

lemma month_of_day:
  assumes "1 \<le> n" "n \<le> (if is_leap y then 366 else 365)"
  shows "1 \<le> month_of_day y n" "month_of_day y n \<le> 12" "days_before_month y (month_of_day y n) < n"
    "n \<le> days_before_month y (month_of_day y n) + days_in_month y (month_of_day y n)"
proof -
  have one: "days_before_month y 1 < n" using assms by simp
  note b = last_below_less [of "days_before_month y", OF one, of 12]
  from b show m: "1 \<le> month_of_day y n" "month_of_day y n \<le> 12" "days_before_month y (month_of_day y n) < n"
    by (simp_all add: month_of_day_def)
  show "n \<le> days_before_month y (month_of_day y n) + days_in_month y (month_of_day y n)"
  proof (cases "month_of_day y n = 12")
    case True
    then show ?thesis using assms(2) days_in_year [of y] by simp
  next
    case False
    then have "n \<le> days_before_month y (Suc (month_of_day y n))"
      using m by (intro last_below_above [of "days_before_month y" n 12]) (auto simp: month_of_day_def)
    then show ?thesis using days_before_month_Suc [OF m(1)] by simp
  qed
qed

lemma date_of_ordinal:
  assumes "1 \<le> n"
  defines "y \<equiv> year_of_ordinal n"
  defines "m \<equiv> month_of_day y (n - days_before_year y)"
  shows "valid_date y m (n - days_before_year y - days_before_month y m)"
    "ordinal y m (n - days_before_year y - days_before_month y m) = n"
proof -
  note yr = year_of_ordinal [OF assms(1), folded y_def]
  have r: "1 \<le> n - days_before_year y" "n - days_before_year y \<le> (if is_leap y then 366 else 365)"
    using yr days_before_year_Suc [OF yr(1)] by auto
  note mo = month_of_day [OF r, folded m_def]
  show "valid_date y m (n - days_before_year y - days_before_month y m)"
    using yr mo by (auto simp: valid_date_def)
  show "ordinal y m (n - days_before_year y - days_before_month y m) = n"
    using yr mo by (simp add: ordinal_def)
qed

lemma clock_split:
  fixes r :: nat
  shows "r div 3600000000 * 3600000000 + r div 60000000 mod 60 * 60000000 + r div 1000000 mod 60 * 1000000
    + r mod 1000000 = r"
proof -
  have split: "r = q1 * 1000000 + r1 \<Longrightarrow> q1 = q2 * 60 + r2 \<Longrightarrow> q2 = q3 * 60 + r3 \<Longrightarrow>
      q3 * 3600000000 + r3 * 60000000 + r2 * 1000000 + r1 = r"
    for q1 r1 q2 r2 q3 r3 :: nat by simp
  have d: "r div 60000000 = r div 1000000 div 60" "r div 3600000000 = r div 1000000 div 60 div 60"
    by (simp_all add: div_mult2_eq [symmetric])
  show ?thesis
    unfolding d
    by (rule split [OF div_mult_mod_eq [symmetric] div_mult_mod_eq [symmetric] div_mult_mod_eq [symmetric]])
qed

text \<open>The first instant of year 1, \<open>datetime.min\<close> in UTC.\<close>

definition min_instant :: instant where
  "min_instant = seconds (- 719162 * 86400)"

lemma civil_of_instant:
  assumes "min_instant \<le> t"
  shows "valid_civil (civil_of_instant t)" "civil_instant (civil_of_instant t) = t"
proof -
  define d where "d = nat (t div 86400000000 + 719163)"
  define r where "r = nat (t mod 86400000000)"
  have "- 719162 \<le> t div 86400000000"
    using zdiv_mono1 [OF assms, of 86400000000] by (simp add: min_instant_def seconds_def)
  then have d: "1 \<le> d" "int d = t div 86400000000 + 719163" by (auto simp: d_def)
  have r: "int r = t mod 86400000000" "r < 86400000000"
    by (simp_all add: r_def nat_less_iff)
  have t: "t = (int d - 719163) * 86400000000 + int r" using d r by simp
  note o' = date_of_ordinal [OF d(1)]
  have "r div 3600000000 < 24" using r(2) by (simp add: div_less_iff_less_mult)
  then show "valid_civil (civil_of_instant t)"
    using o'(1) by (simp add: civil_of_instant_def Let_def valid_civil_def d_def r_def)
  have clock: "int (r div 3600000000) * 3600000000 + int (r div 60000000 mod 60) * 60000000
      + int (r div 1000000 mod 60) * 1000000 + int (r mod 1000000) = int r"
    using arg_cong [OF clock_split [of r], of int] by (simp only: of_nat_add of_nat_mult of_nat_numeral)
  have instant: "civil_instant (civil_of_instant t) =
      (int d - 719163) * 86400000000 + (int (r div 3600000000) * 3600000000 +
        int (r div 60000000 mod 60) * 60000000 + int (r div 1000000 mod 60) * 1000000 + int (r mod 1000000))"
    unfolding civil_instant_def civil_of_instant_def Let_def d_def [symmetric] r_def [symmetric]
    by (simp only: civil.simps o'(2) seconds_def) (simp add: distrib_right)
  show "civil_instant (civil_of_instant t) = t"
    using instant t unfolding clock by (rule trans [OF _ sym])
qed

end
