(* ===== verification/Command_Envelope.thy ===== *)
theory Command_Envelope
  imports Models Utf8 Calendar
begin

text \<open>
  The signed command envelope (\<open>server/app/core/command_envelope.py\<close>): the version
  negotiation, the canonical time format, the value domain of payloads, and the canonical
  bytes that \<open>security.sign_command\<close> signs. Strings of the envelope are lists of code points,
  because the format turns on characters outside ASCII.
\<close>

datatype envelope_error = CommandEnvelopeError string | UnicodeEncodeError

definition COMMAND_ENVELOPE_V2 :: ustr where "COMMAND_ENVELOPE_V2 = ustr ''command-v2''"

definition COMMAND_ENVELOPE_V3 :: ustr where "COMMAND_ENVELOPE_V3 = ustr ''command-v3''"

definition SUPPORTED_COMMAND_ENVELOPE_VERSIONS :: "ustr list" where
  "SUPPORTED_COMMAND_ENVELOPE_VERSIONS = [COMMAND_ENVELOPE_V3, COMMAND_ENVELOPE_V2]"

definition COMMAND_SCHEMA_VERSION :: int where "COMMAND_SCHEMA_VERSION = 1"

definition SUPPORTED_COMMAND_KINDS :: "string list" where
  "SUPPORTED_COMMAND_KINDS =
     [''powershell'', ''shell'', ''collect_inventory'', ''scan_updates'', ''install_updates'',
      ''file_upload'', ''file_download'', ''registry_read'', ''registry_write'',
      ''registry_delete'', ''remediation_rollback'', ''reboot'', ''shutdown'',
      ''cancel_power_action'', ''query_event_log'', ''scan_packages'', ''install_packages'',
      ''deploy_software'', ''list_services'', ''control_service'', ''list_processes'',
      ''terminate_process'', ''agent_self_update'', ''agent_update_rollback'']"

definition MAX_COMMAND_ENVELOPE_BYTES :: nat where "MAX_COMMAND_ENVELOPE_BYTES = 64 * 1024"

definition MAX_COMMAND_PAYLOAD_BYTES :: nat where "MAX_COMMAND_PAYLOAD_BYTES = 60 * 1024"

definition MAX_COMMAND_PAYLOAD_DEPTH :: nat where "MAX_COMMAND_PAYLOAD_DEPTH = 16"

definition MAX_COMMAND_LIFETIME_SECONDS :: int where "MAX_COMMAND_LIFETIME_SECONDS = 86400"

definition MIN_SIGNED_INTEGER :: int where "MIN_SIGNED_INTEGER = - (2 ^ 63)"

definition MAX_SIGNED_INTEGER :: int where "MAX_SIGNED_INTEGER = 2 ^ 63 - 1"

definition select_command_envelope_version :: "ustr list \<Rightarrow> ustr option" where
  "select_command_envelope_version agent_versions =
     find (\<lambda>version. version \<in> set agent_versions) SUPPORTED_COMMAND_ENVELOPE_VERSIONS"

section \<open>Command times\<close>

definition pad2 :: "nat \<Rightarrow> ustr" where
  "pad2 n = [48 + n div 10 mod 10, 48 + n mod 10]"

definition pad4 :: "nat \<Rightarrow> ustr" where
  "pad4 n = pad2 (n div 100) @ pad2 (n mod 100)"

definition pad6 :: "nat \<Rightarrow> ustr" where
  "pad6 n = pad2 (n div 10000) @ pad4 (n mod 10000)"

text \<open>
  The argument is the wall clock of the value in UTC, which is what \<open>astimezone\<close> gives for an
  aware value and \<open>replace(tzinfo=utc)\<close> for a naive one. \<open>%Y\<close> pads to four digits.
\<close>

definition format_command_time :: "civil \<Rightarrow> ustr" where
  "format_command_time t =
     pad4 (c_year t) @ [45] @ pad2 (c_month t) @ [45] @ pad2 (c_day t) @ [84]
       @ pad2 (c_hour t) @ [58] @ pad2 (c_minute t) @ [58] @ pad2 (c_second t)
       @ (if c_micro t \<noteq> 0 then 46 # pad6 (c_micro t) else []) @ [90]"

text \<open>
  The pattern \<open>_COMMAND_TIME_RE\<close>, a \<open>d\<close> standing for a digit. Python's \<open>\d\<close> also matches digits
  of other scripts; such a text either is no ISO time or is not what \<open>format_command_time\<close>
  prints, and ends in the same refusal.
\<close>

definition time_pattern :: "bool \<Rightarrow> string" where
  "time_pattern fraction =
     (if fraction then ''dddd-dd-ddTdd:dd:dd.ddddddZ'' else ''dddd-dd-ddTdd:dd:ddZ'')"

definition matches_pattern :: "string \<Rightarrow> ustr \<Rightarrow> bool" where
  "matches_pattern pat s =
     list_all2 (\<lambda>p c. if p = CHR ''d'' then 48 \<le> c \<and> c \<le> 57 else c = of_char p) pat s"

definition read_fields :: "ustr \<Rightarrow> civil" where
  "read_fields s = \<lparr>c_year = parse_digits (take 4 s), c_month = parse_digits (take 2 (drop 5 s)),
     c_day = parse_digits (take 2 (drop 8 s)), c_hour = parse_digits (take 2 (drop 11 s)),
     c_minute = parse_digits (take 2 (drop 14 s)), c_second = parse_digits (take 2 (drop 17 s)),
     c_micro = (if length s = 27 then parse_digits (take 6 (drop 20 s)) else 0)\<rparr>"

definition parse_command_time :: "string \<Rightarrow> ustr \<Rightarrow> envelope_error + civil" where
  "parse_command_time field raw =
     (if raw = [] then Inl (CommandEnvelopeError (''missing_'' @ field))
      else if \<not> (matches_pattern (time_pattern False) raw \<or> matches_pattern (time_pattern True) raw)
        then Inl (CommandEnvelopeError ''malformed_time'')
      else let parsed = read_fields raw in
        if \<not> valid_civil parsed then Inl (CommandEnvelopeError ''malformed_time'')
        else if format_command_time parsed \<noteq> raw then Inl (CommandEnvelopeError ''malformed_time'')
        else Inr parsed)"

definition validate_command_window :: "ustr \<Rightarrow> ustr \<Rightarrow> envelope_error + civil \<times> civil" where
  "validate_command_window issued_at expires_at =
     (case parse_command_time ''issued_at'' issued_at of Inl e \<Rightarrow> Inl e
      | Inr issued \<Rightarrow>
        (case parse_command_time ''expires_at'' expires_at of Inl e \<Rightarrow> Inl e
         | Inr expires \<Rightarrow>
           if civil_instant expires \<le> civil_instant issued
             then Inl (CommandEnvelopeError ''invalid_time_window'')
           else if civil_instant expires - civil_instant issued > seconds MAX_COMMAND_LIFETIME_SECONDS
             then Inl (CommandEnvelopeError ''invalid_time_window'')
           else Inr (issued, expires)))"

section \<open>Payloads\<close>

fun first_error :: "'e option list \<Rightarrow> 'e option" where
  "first_error [] = None"
| "first_error (None # es) = first_error es"
| "first_error (Some e # es) = Some e"

text \<open>
  The values are those of parsed JSON, so every key is a string and there is no other type.
  The result is the code of the first error of the depth-first walk.
\<close>

fun validate_payload_value :: "nat \<Rightarrow> json \<Rightarrow> string option" where
  "validate_payload_value depth value =
     (if depth > MAX_COMMAND_PAYLOAD_DEPTH then Some ''payload_too_deep''
      else case value of
          JInt i \<Rightarrow>
            if \<not> (MIN_SIGNED_INTEGER \<le> i \<and> i \<le> MAX_SIGNED_INTEGER)
            then Some ''integer_out_of_range'' else None
        | JFloat r \<Rightarrow> Some ''floating_point_not_supported''
        | JArr xs \<Rightarrow> first_error (map (validate_payload_value (Suc depth)) xs)
        | JObj kvs \<Rightarrow> first_error (map (\<lambda>kv. validate_payload_value (Suc depth) (snd kv)) kvs)
        | _ \<Rightarrow> None)"

declare validate_payload_value.simps [simp del]

definition is_object :: "json \<Rightarrow> bool" where
  "is_object j = (case j of JObj kvs \<Rightarrow> True | _ \<Rightarrow> False)"

definition validate_command_payload :: "json \<Rightarrow> envelope_error + json" where
  "validate_command_payload payload =
     (if \<not> is_object payload then Inl (CommandEnvelopeError ''malformed_envelope'')
      else case validate_payload_value 0 payload of
          Some code \<Rightarrow> Inl (CommandEnvelopeError code)
        | None \<Rightarrow>
          (case encode_utf8 (dumps esc_plain payload) of
             None \<Rightarrow> Inl UnicodeEncodeError
           | Some encoded \<Rightarrow>
               if length encoded > MAX_COMMAND_PAYLOAD_BYTES
               then Inl (CommandEnvelopeError ''payload_too_large'')
               else Inr payload))"

section \<open>The canonical bytes\<close>

text \<open>The patterns \<open>_NONCE_RE\<close> and that of a signing key id, both matched in full.\<close>

definition alnum :: "nat \<Rightarrow> bool" where
  "alnum c \<longleftrightarrow> (48 \<le> c \<and> c \<le> 57) \<or> (65 \<le> c \<and> c \<le> 90) \<or> (97 \<le> c \<and> c \<le> 122)"

definition nonce_ok :: "ustr \<Rightarrow> bool" where
  "nonce_ok s \<longleftrightarrow> 22 \<le> length s \<and> length s \<le> 64 \<and> list_all (\<lambda>c. alnum c \<or> c = 95 \<or> c = 45) s"

definition key_id_ok :: "ustr \<Rightarrow> bool" where
  "key_id_ok s \<longleftrightarrow> 1 \<le> length s \<and> length s \<le> 64 \<and>
     list_all (\<lambda>c. alnum c \<or> c = 46 \<or> c = 95 \<or> c = 45) s"

definition check_signing_key_id :: "ustr \<Rightarrow> ustr option \<Rightarrow> string option" where
  "check_signing_key_id envelope_version signing_key_id =
     (if envelope_version = COMMAND_ENVELOPE_V3 then
        (case signing_key_id of
           None \<Rightarrow> Some ''missing_signing_key_id''
         | Some k \<Rightarrow> if k = [] then Some ''missing_signing_key_id''
             else if \<not> key_id_ok k then Some ''malformed_signing_key_id'' else None)
      else if signing_key_id \<noteq> None then Some ''unexpected_signing_key_id''
      else None)"

definition envelope_document ::
  "ustr \<Rightarrow> int \<Rightarrow> ustr \<Rightarrow> ustr \<Rightarrow> ustr \<Rightarrow> json \<Rightarrow> ustr \<Rightarrow> ustr \<Rightarrow> ustr \<Rightarrow> ustr option \<Rightarrow> json" where
  "envelope_document envelope_version schema_version command_id agent_id kind payload issued_at
       expires_at nonce signing_key_id =
     JObj ([(ustr ''agent_id'', JStr agent_id), (ustr ''command_id'', JStr command_id),
        (ustr ''envelope_version'', JStr envelope_version), (ustr ''expires_at'', JStr expires_at),
        (ustr ''issued_at'', JStr issued_at), (ustr ''kind'', JStr kind), (ustr ''nonce'', JStr nonce),
        (ustr ''payload'', payload), (ustr ''schema_version'', JInt schema_version)]
       @ (if envelope_version = COMMAND_ENVELOPE_V3
          then [(ustr ''signing_key_id'', jopt JStr signing_key_id)] else []))"

text \<open>The two \<open>replace\<close> calls, one character at a time: no replacement makes a new match.\<close>

definition escape_separators :: "ustr \<Rightarrow> ustr" where
  "escape_separators text =
     concat (map (\<lambda>c. if c = 8232 then ustr [CHR 0x5C] @ ustr ''u2028''
                      else if c = 8233 then ustr [CHR 0x5C] @ ustr ''u2029'' else [c]) text)"

definition canonical_command_bytes ::
  "ustr \<Rightarrow> int option \<Rightarrow> ustr \<Rightarrow> ustr \<Rightarrow> ustr \<Rightarrow> json \<Rightarrow> ustr \<Rightarrow> ustr \<Rightarrow> ustr \<Rightarrow> ustr option
    \<Rightarrow> envelope_error + nat list" where
  "canonical_command_bytes envelope_version schema_version command_id agent_id kind payload
       issued_at expires_at nonce signing_key_id =
     (if envelope_version \<notin> set SUPPORTED_COMMAND_ENVELOPE_VERSIONS then
        Inl (CommandEnvelopeError (if envelope_version = [] then ''missing_version'' else ''unsupported_version''))
      else case schema_version of
        None \<Rightarrow> Inl (CommandEnvelopeError ''missing_schema_version'')
      | Some sv \<Rightarrow>
      if sv \<noteq> COMMAND_SCHEMA_VERSION then Inl (CommandEnvelopeError ''unsupported_schema_version'')
      else if command_id = [] \<or> agent_id = [] \<or> kind = [] then Inl (CommandEnvelopeError ''malformed_envelope'')
      else if kind \<notin> set (map ustr SUPPORTED_COMMAND_KINDS) then Inl (CommandEnvelopeError ''unsupported_kind'')
      else if nonce = [] then Inl (CommandEnvelopeError ''missing_nonce'')
      else if \<not> nonce_ok nonce then Inl (CommandEnvelopeError ''malformed_nonce'')
      else case validate_command_window issued_at expires_at of
        Inl e \<Rightarrow> Inl e
      | Inr _ \<Rightarrow>
      (case check_signing_key_id envelope_version signing_key_id of
        Some code \<Rightarrow> Inl (CommandEnvelopeError code)
      | None \<Rightarrow>
      (case validate_command_payload payload of
        Inl e \<Rightarrow> Inl e
      | Inr _ \<Rightarrow>
      (case encode_utf8 (escape_separators (dumps esc_plain
              (envelope_document envelope_version sv command_id agent_id kind payload
                 issued_at expires_at nonce signing_key_id))) of
        None \<Rightarrow> Inl UnicodeEncodeError
      | Some encoded \<Rightarrow>
          if length encoded > MAX_COMMAND_ENVELOPE_BYTES
          then Inl (CommandEnvelopeError ''envelope_too_large'')
          else Inr encoded))))"

text \<open>\<open>datetime.isoformat()\<close> of an aware value in UTC: the offset where the envelope has \<open>Z\<close>.\<close>

definition isoformat :: "instant \<Rightarrow> ustr" where
  "isoformat t = butlast (format_command_time (civil_of_instant t)) @ ustr ''+00:00''"

end
