(* ===== verification/Approval_Api.thy ===== *)
theory Approval_Api
  imports Emergency_Overrides Command_Envelope
begin

text \<open>
  The approval endpoints (\<open>server/app/api/approvals.py\<close>): administration of policies, and the
  life of a request from its creation through the verdicts to cancellation. A handler takes
  the tables and returns the tables as committed, with the row it answers with or the
  \<open>HTTPException\<close> it raises; what it writes before a raise without a commit is rolled back.
  One clock reading \<open>now\<close> stands for those of one handler call.
\<close>

section \<open>Tables\<close>

record AuditEntry =
  ae_action :: string
  ae_actor :: string
  ae_actor_user_id :: "string option"
  ae_agent_id :: "string option"
  ae_organization_id :: "string option"
  ae_detail :: json

record Command =
  co_id :: string
  co_agent_id :: string
  co_kind :: CommandKind
  co_payload :: json
  co_status :: CommandStatus
  co_created_at :: instant
  co_expires_at :: instant
  co_actor_email :: "string option"
  co_actor_operator_id :: "string option"
  co_script_version_id :: "string option"
  co_approval_request_id :: "string option"
  co_emergency_override_id :: "string option"

record store =
  st_db :: db
  st_clients :: "string rows"
  st_agents :: "Agent rows"
  st_policies :: "ApprovalPolicy rows"
  st_requests :: "ApprovalRequest rows"
  st_decisions :: "ApprovalDecision rows"
  st_overrides :: "EmergencyOverride rows"
  st_commands :: "Command rows"
  st_audit :: "AuditEntry list"

definition audit_record ::
  "string \<Rightarrow> string \<Rightarrow> string option \<Rightarrow> string option \<Rightarrow> string option \<Rightarrow> json \<Rightarrow> store \<Rightarrow> store" where
  "audit_record action actor uid agent_id org detail s =
     s\<lparr>st_audit := st_audit s @ [\<lparr>ae_action = action, ae_actor = actor, ae_actor_user_id = uid,
        ae_agent_id = agent_id, ae_organization_id = org, ae_detail = detail\<rparr>]\<rparr>"

definition put_request :: "ApprovalRequest \<Rightarrow> store \<Rightarrow> store" where
  "put_request r s = s\<lparr>st_requests := db_update (\<lambda>q. ar_id q = ar_id r) (\<lambda>_. r) (st_requests s)\<rparr>"

definition decisions_of :: "store \<Rightarrow> string \<Rightarrow> ApprovalDecision list" where
  "decisions_of s rid = filter (\<lambda>d. ad_request_id d = rid) (st_decisions s)"

definition get_agent :: "store \<Rightarrow> string \<Rightarrow> Agent option" where
  "get_agent s i = db_get ag_id (st_agents s) i"

section \<open>Global roles\<close>

fun role_rank :: "OperatorRole \<Rightarrow> nat" where
  "role_rank OperatorRole_readonly = 0"
| "role_rank OperatorRole_operator = 1"
| "role_rank OperatorRole_admin = 2"

definition require_role :: "OperatorRole \<Rightarrow> Operator \<Rightarrow> unit http" where
  "require_role minimum oper =
     (if role_rank (op_role oper) < role_rank minimum
      then Inl (HTTPException 403 ''role_required'') else Inr ())"

section \<open>Audit details\<close>

fun request_status_value :: "ApprovalRequestStatus \<Rightarrow> string" where
  "request_status_value Req_pending = ''pending''"
| "request_status_value Req_approved = ''approved''"
| "request_status_value Req_rejected = ''rejected''"
| "request_status_value Req_cancelled = ''cancelled''"
| "request_status_value Req_expired = ''expired''"
| "request_status_value Req_consumed = ''consumed''"

fun decision_value :: "ApprovalDecisionKind \<Rightarrow> string" where
  "decision_value Approve = ''approve''"
| "decision_value Reject = ''reject''"

fun scope_value :: "MonitoringScope \<Rightarrow> string" where
  "scope_value Scope_global = ''global''"
| "scope_value Scope_client = ''client''"
| "scope_value Scope_site = ''site''"
| "scope_value Scope_agent = ''agent''"

definition payload_keys :: "json \<Rightarrow> json" where
  "payload_keys p = JArr (map JStr (sort (case p of JObj kvs \<Rightarrow> map fst kvs | _ \<Rightarrow> [])))"

definition request_audit_detail :: "ApprovalRequest \<Rightarrow> (ustr \<times> json) list \<Rightarrow> json" where
  "request_audit_detail r extra = JObj
     ([(ustr ''approval_request_id'', jstr (ar_id r)), (ustr ''kind'', jstr (kind_value (ar_kind r))),
       (ustr ''agent_id'', jstr (ar_agent_id r)), (ustr ''client_id'', jopt jstr (ar_client_id r)),
       (ustr ''site_id'', jopt jstr (ar_site_id r)), (ustr ''policy_id'', jopt jstr (ar_policy_id r)),
       (ustr ''required_approvals'', JInt (ar_required_approvals r)),
       (ustr ''payload_keys'', payload_keys (ar_payload r)),
       (ustr ''payload_sha256'', jstr (ar_payload_sha256 r)),
       (ustr ''status'', jstr (request_status_value (ar_status r)))] @ extra)"

definition kinds_json :: "string list option \<Rightarrow> json" where
  "kinds_json ks = JArr (map jstr (sort (case ks of None \<Rightarrow> [] | Some l \<Rightarrow> l)))"

definition policy_detail :: "ApprovalPolicy \<Rightarrow> (ustr \<times> json) list" where
  "policy_detail p =
     [(ustr ''policy_id'', jstr (ap_id p)), (ustr ''name'', jstr (ap_name p)),
      (ustr ''scope'', jstr (scope_value (ap_scope p))), (ustr ''scope_id'', jopt jstr (ap_scope_id p)),
      (ustr ''command_kinds'', kinds_json (ap_command_kinds p)),
      (ustr ''required_approvals'', JInt (ap_required_approvals p))]"

definition policy_terms :: "ApprovalPolicy \<Rightarrow> (ustr \<times> json) list" where
  "policy_terms p =
     [(ustr ''request_ttl_seconds'', JInt (ap_request_ttl_seconds p)),
      (ustr ''enabled'', JBool (ap_enabled p)),
      (ustr ''emergency_override_allowed'', JBool (emergency_override_allowed p))]"

section \<open>Policies\<close>

definition policy_target_client :: "store \<Rightarrow> MonitoringScope \<Rightarrow> string option \<Rightarrow> string option" where
  "policy_target_client s scope scope_id =
     (case (scope, scope_id) of
        (Scope_client, Some c) \<Rightarrow> if c \<in> set (st_clients s) then Some c else None
      | (Scope_site, Some i) \<Rightarrow> map_option site_client_id (db_get site_pk (sites (st_db s)) i)
      | (Scope_agent, Some i) \<Rightarrow>
          (case get_agent s i of None \<Rightarrow> None | Some agent \<Rightarrow> agent_client_id (st_db s) agent)
      | _ \<Rightarrow> None)"

definition assert_policy_admin ::
  "store \<Rightarrow> Operator \<Rightarrow> MonitoringScope \<Rightarrow> string option \<Rightarrow> unit http" where
  "assert_policy_admin s oper scope scope_id =
     (if scope = Scope_global then
        (if \<not> is_platform_admin oper
         then Inl (HTTPException 403 ''approval_policy_global_requires_platform_admin'') else Inr ())
      else assert_client_action (st_db s) oper (policy_target_client s scope scope_id) client_admin
             ''approval_policy_scope_target_not_found'')"

definition visible_policies :: "store \<Rightarrow> Operator \<Rightarrow> ApprovalPolicy list" where
  "visible_policies s oper =
     (let policies = sort_key (\<lambda>p. instant_of (ap_created_at p)) (st_policies s) in
      if is_platform_admin oper then policies
      else filter (\<lambda>p. ap_scope p = Scope_global \<or>
          (case (if ap_scope p = Scope_client then ap_scope_id p
                 else policy_target_client s (ap_scope p) (ap_scope_id p)) of
             None \<Rightarrow> False | Some c \<Rightarrow> is_client_visible (st_db s) oper c)) policies)"

record ApprovalPolicyCreate =
  pc_name :: string
  pc_scope :: MonitoringScope
  pc_scope_id :: "string option"
  pc_command_kinds :: "CommandKind list"
  pc_required_approvals :: int
  pc_request_ttl_seconds :: int
  pc_enabled :: bool
  pc_emergency_override_allowed :: bool

text \<open>
  The unique index on scope, target and normalised name. A null target, as every global
  policy has, is equal to no other null in a unique index. The normalisation
  \<open>lower(trim(name))\<close> is done by the database and is a parameter.
\<close>

definition policy_name_conflict :: "(string \<Rightarrow> string) \<Rightarrow> ApprovalPolicy \<Rightarrow> ApprovalPolicy \<Rightarrow> bool" where
  "policy_name_conflict norm p q \<longleftrightarrow> ap_scope p = ap_scope q \<and> ap_scope_id p \<noteq> None \<and>
     ap_scope_id p = ap_scope_id q \<and> norm (ap_name p) = norm (ap_name q)"

definition create_approval_policy ::
  "(string \<Rightarrow> string) \<Rightarrow> store \<Rightarrow> Operator \<Rightarrow> ApprovalPolicyCreate \<Rightarrow> string \<Rightarrow> instant
    \<Rightarrow> store \<times> ApprovalPolicy http" where
  "create_approval_policy norm s oper body new_id now =
     (case require_role OperatorRole_admin oper of Inl e \<Rightarrow> (s, Inl e) | Inr _ \<Rightarrow>
      (case assert_policy_admin s oper (pc_scope body) (pc_scope_id body) of
         Inl e \<Rightarrow> (s, Inl e)
       | Inr _ \<Rightarrow>
         let p = \<lparr>ap_id = new_id, ap_name = pc_name body, ap_scope = pc_scope body,
               ap_scope_id = pc_scope_id body,
               ap_command_kinds = Some (map kind_value (pc_command_kinds body)),
               ap_required_approvals = pc_required_approvals body,
               ap_request_ttl_seconds = pc_request_ttl_seconds body, ap_enabled = pc_enabled body,
               emergency_override_allowed = pc_emergency_override_allowed body,
               ap_created_at = Aware now, ap_created_by = Some (op_email oper),
               ap_updated_at = None, ap_updated_by = None\<rparr>
         in if list_ex (policy_name_conflict norm p) (st_policies s)
            then (s, Inl (HTTPException 409 ''approval_policy_name_conflict''))
            else (audit_record ''approval_policy.created'' (op_email oper) (Some (op_id oper)) None None
                    (JObj (policy_detail p @ policy_terms p))
                    (s\<lparr>st_policies := st_policies s @ [p]\<rparr>),
                  Inr p)))"

record ApprovalPolicyUpdate =
  pu_command_kinds :: "CommandKind list option"
  pu_required_approvals :: "int option"
  pu_request_ttl_seconds :: "int option"
  pu_enabled :: "bool option"
  pu_emergency_override_allowed :: "bool option"

definition or_keep :: "'a option \<Rightarrow> 'a \<Rightarrow> 'a" where
  "or_keep new old = (case new of None \<Rightarrow> old | Some v \<Rightarrow> v)"

definition apply_policy_update ::
  "ApprovalPolicyUpdate \<Rightarrow> string \<Rightarrow> instant \<Rightarrow> ApprovalPolicy \<Rightarrow> ApprovalPolicy" where
  "apply_policy_update body email now p = p\<lparr>
     ap_command_kinds := or_keep (map_option (\<lambda>ks. Some (map kind_value ks)) (pu_command_kinds body))
        (ap_command_kinds p),
     ap_required_approvals := or_keep (pu_required_approvals body) (ap_required_approvals p),
     ap_request_ttl_seconds := or_keep (pu_request_ttl_seconds body) (ap_request_ttl_seconds p),
     ap_enabled := or_keep (pu_enabled body) (ap_enabled p),
     emergency_override_allowed := or_keep (pu_emergency_override_allowed body) (emergency_override_allowed p),
     ap_updated_at := Some now, ap_updated_by := Some email\<rparr>"

definition update_detail :: "ApprovalPolicy \<Rightarrow> ApprovalPolicy \<Rightarrow> json" where
  "update_detail old p = JObj (policy_detail p @ policy_terms p @
     [(ustr ''previous_command_kinds'', kinds_json (ap_command_kinds old)),
      (ustr ''previous_required_approvals'', JInt (ap_required_approvals old)),
      (ustr ''previous_request_ttl_seconds'', JInt (ap_request_ttl_seconds old)),
      (ustr ''previous_enabled'', JBool (ap_enabled old)),
      (ustr ''previous_emergency_override_allowed'', JBool (emergency_override_allowed old))])"

definition update_approval_policy ::
  "store \<Rightarrow> Operator \<Rightarrow> string \<Rightarrow> ApprovalPolicyUpdate \<Rightarrow> instant \<Rightarrow> store \<times> ApprovalPolicy http" where
  "update_approval_policy s oper policy_id body now =
     (case require_role OperatorRole_admin oper of Inl e \<Rightarrow> (s, Inl e) | Inr _ \<Rightarrow>
      (case db_get ap_id (st_policies s) policy_id of
         None \<Rightarrow> (s, Inl (HTTPException 404 ''approval_policy_not_found''))
       | Some old \<Rightarrow>
         (case assert_policy_admin s oper (ap_scope old) (ap_scope_id old) of
            Inl e \<Rightarrow> (s, Inl e)
          | Inr _ \<Rightarrow>
            let p = apply_policy_update body (op_email oper) now old in
            (audit_record ''approval_policy.updated'' (op_email oper) (Some (op_id oper)) None None
               (update_detail old p)
               (s\<lparr>st_policies := db_update (\<lambda>q. ap_id q = policy_id) (\<lambda>_. p) (st_policies s)\<rparr>),
             Inr p))))"

definition delete_approval_policy ::
  "store \<Rightarrow> Operator \<Rightarrow> string \<Rightarrow> store \<times> unit http" where
  "delete_approval_policy s oper policy_id =
     (case require_role OperatorRole_admin oper of Inl e \<Rightarrow> (s, Inl e) | Inr _ \<Rightarrow>
      (case db_get ap_id (st_policies s) policy_id of
         None \<Rightarrow> (s, Inl (HTTPException 404 ''approval_policy_not_found''))
       | Some p \<Rightarrow>
         (case assert_policy_admin s oper (ap_scope p) (ap_scope_id p) of
            Inl e \<Rightarrow> (s, Inl e)
          | Inr _ \<Rightarrow>
            ((audit_record ''approval_policy.deleted'' (op_email oper) (Some (op_id oper)) None None
                (JObj (policy_detail p)) s)
               \<lparr>st_policies := filter (\<lambda>q. ap_id q \<noteq> policy_id) (st_policies s)\<rparr>,
             Inr ()))))"

end
