(* ===== verification/Approval_Requests.thy ===== *)
theory Approval_Requests
  imports Approval_Api
begin

text \<open>
  The life of an approval request (\<open>server/app/api/approvals.py\<close>): loading with lazy expiry,
  creation, the verdicts of approvers, cancellation, and the reviewer queue.
\<close>

definition MAX_OPEN_REQUESTS_PER_OPERATOR :: nat where "MAX_OPEN_REQUESTS_PER_OPERATOR = 50"

definition SCHEMA_MAX_COMMAND_PAYLOAD_BYTES :: nat where "SCHEMA_MAX_COMMAND_PAYLOAD_BYTES = 64 * 1024"

section \<open>Loading\<close>

definition audit_request_expired :: "ApprovalRequest \<Rightarrow> store \<Rightarrow> store" where
  "audit_request_expired r s =
     audit_record ''approval_request.expired'' ''system'' None (Some (ar_agent_id r)) None
       (request_audit_detail r []) s"

definition load_request ::
  "store \<Rightarrow> string \<Rightarrow> Operator \<Rightarrow> instant \<Rightarrow> store \<times> ApprovalRequest http" where
  "load_request s request_id oper now =
     (case db_get ar_id (st_requests s) request_id of
        None \<Rightarrow> (s, Inl (HTTPException 404 ''approval_request_not_found''))
      | Some approval \<Rightarrow>
        (case assert_client_visible (st_db s) oper (ar_client_id approval) ''approval_request_not_found'' of
           Inl e \<Rightarrow> (s, Inl e)
         | Inr _ \<Rightarrow>
           (case expire_if_due approval now of
              (r, True) \<Rightarrow> (audit_request_expired r (put_request r s), Inr r)
            | (r, False) \<Rightarrow> (s, Inr r))))"

section \<open>Creation\<close>

record ApprovalRequestCreate =
  rc_agent_id :: string
  rc_kind :: CommandKind
  rc_payload :: json
  rc_reason :: string

text \<open>
  The payload check of the endpoint: \<open>validate_command_payload\<close>, whose \<open>ValueError\<close>s (a
  \<open>UnicodeEncodeError\<close> is one) become 422, and a second bound on the ASCII encoding in the
  order of the keys given.
\<close>

definition checked_payload :: "json \<Rightarrow> json http" where
  "checked_payload payload =
     (case validate_command_payload payload of
        Inl _ \<Rightarrow> Inl (HTTPException 422 ''command_payload_invalid'')
      | Inr p \<Rightarrow>
          if length (render esc_ascii p) > SCHEMA_MAX_COMMAND_PAYLOAD_BYTES
          then Inl (HTTPException 422 ''command_payload_too_large'') else Inr p)"

definition open_requests :: "store \<Rightarrow> Operator \<Rightarrow> string option \<Rightarrow> nat" where
  "open_requests s oper client_id =
     rowcount (\<lambda>r. ar_requested_by r = Some (op_id oper) \<and> ar_client_id r = client_id \<and>
        (ar_status r = Req_pending \<or> ar_status r = Req_approved)) (st_requests s)"

definition new_request ::
  "(ustr \<Rightarrow> string) \<Rightarrow> string option \<Rightarrow> ApprovalPolicy \<Rightarrow> Operator \<Rightarrow> Agent \<Rightarrow> ApprovalRequestCreate
    \<Rightarrow> json \<Rightarrow> string \<Rightarrow> instant \<Rightarrow> ApprovalRequest" where
  "new_request sha256 client_id p oper agent body payload new_id now =
     \<lparr>ar_id = new_id, ar_agent_id = ag_id agent, ar_client_id = client_id,
      ar_site_id = Some (ag_site_id agent), ar_kind = rc_kind body, ar_payload = payload,
      ar_payload_sha256 = binding_digest sha256 (ag_id agent) (rc_kind body) payload,
      ar_policy_id = Some (ap_id p), ar_required_approvals = ap_required_approvals p,
      ar_requested_by = Some (op_id oper), ar_requested_by_email = op_email oper,
      ar_reason = rc_reason body, ar_status = Req_pending, ar_created_at = Aware now,
      ar_expires_at = Some (Aware (request_expiry p now)), ar_decided_at = None,
      ar_consumed_at = None, ar_closed_at = None, ar_closed_by_email = None,
      ar_closed_reason = None\<rparr>"

definition create_approval_request ::
  "(ustr \<Rightarrow> string) \<Rightarrow> store \<Rightarrow> Operator \<Rightarrow> ApprovalRequestCreate \<Rightarrow> string \<Rightarrow> instant
    \<Rightarrow> store \<times> ApprovalRequest http" where
  "create_approval_request sha256 s oper body new_id now =
     (case require_role OperatorRole_operator oper of Inl e \<Rightarrow> (s, Inl e) | Inr _ \<Rightarrow>
      (case get_agent s (rc_agent_id body) of
         None \<Rightarrow> (s, Inl (HTTPException 404 ''agent_not_found''))
       | Some agent \<Rightarrow>
      (case assert_agent_visible (st_db s) oper agent (Some client_operator) ''agent_not_found'' of
         Inl e \<Rightarrow> (s, Inl e)
       | Inr _ \<Rightarrow>
      let decision = authorize_command oper agent (rc_kind body) in
      if \<not> cmd_allowed decision then
        (audit_record ''approval_request.denied'' (op_email oper) (Some (op_id oper)) (Some (ag_id agent)) None
           (JObj [(ustr ''kind'', jstr (kind_value (rc_kind body))), (ustr ''agent_id'', jstr (ag_id agent)),
              (ustr ''policy'', jstr (cmd_policy decision)), (ustr ''reason'', jstr (cmd_reason decision))]) s,
         Inl (HTTPException 403 ''approval_request_not_authorized''))
      else
      (case checked_payload (rc_payload body) of Inl e \<Rightarrow> (s, Inl e) | Inr payload \<Rightarrow>
      (case resolve_policy (st_db s) (st_policies s) agent (rc_kind body) of
         None \<Rightarrow> (s, Inl (HTTPException 409 ''approval_not_required''))
       | Some p \<Rightarrow>
         let client_id = agent_client_id (st_db s) agent in
         if open_requests s oper client_id \<ge> MAX_OPEN_REQUESTS_PER_OPERATOR
         then (s, Inl (HTTPException 429 ''approval_request_limit_reached''))
         else
           let approval = new_request sha256 client_id p oper agent body payload new_id now in
           (audit_record ''approval_request.created'' (op_email oper) (Some (op_id oper)) (Some (ag_id agent)) client_id
              (request_audit_detail approval [(ustr ''reason'', jstr (ar_reason approval)),
                 (ustr ''expires_at'', JStr (isoformat (request_expiry p now)))])
              (s\<lparr>st_requests := st_requests s @ [approval]\<rparr>),
            Inr approval))))))"

section \<open>Verdicts\<close>

definition starts_with :: "string \<Rightarrow> string \<Rightarrow> bool" where
  "starts_with p s \<longleftrightarrow> take (length p) s = p"

definition decision_refusal_status :: "string \<Rightarrow> int" where
  "decision_refusal_status reason =
     (if reason \<in> {''approval_self_not_permitted'', ''approver_disabled'', ''approver_is_requester'',
          ''approver_tenant_not_visible'', ''approver_client_role_insufficient''}
        \<or> starts_with ''approver_'' reason
      then 403 else 409)"

definition new_decision ::
  "string \<Rightarrow> Operator \<Rightarrow> ApprovalDecisionKind \<Rightarrow> string option \<Rightarrow> instant \<Rightarrow> ApprovalDecision" where
  "new_decision rid oper verdict reason now =
     \<lparr>ad_request_id = rid, ad_operator_id = op_id oper, ad_operator_email = op_email oper,
      ad_operator_role = op_role oper, ad_decision = verdict, ad_reason = reason, ad_created_at = now\<rparr>"

text \<open>The transition a recorded verdict makes.\<close>

definition after_verdict ::
  "ApprovalRequest \<Rightarrow> ApprovalDecision list \<Rightarrow> ApprovalDecisionKind \<Rightarrow> Operator \<Rightarrow> instant \<Rightarrow> ApprovalRequest" where
  "after_verdict approval recorded verdict oper now =
     (if verdict = Reject then
        approval\<lparr>ar_status := Req_rejected, ar_decided_at := Some now, ar_closed_at := Some now,
          ar_closed_by_email := Some (op_email oper), ar_closed_reason := Some ''rejected_by_approver''\<rparr>
      else if int (approval_count recorded) \<ge> ar_required_approvals approval then
        approval\<lparr>ar_status := Req_approved, ar_decided_at := Some now\<rparr>
      else approval)"

text \<open>
  \<open>_record_decision\<close>. The row is locked from the load to the commit, so the whole of it is
  one step on the tables; the unique constraint on request and operator is then implied by
  the refusal of a second verdict.
\<close>

definition record_decision ::
  "store \<Rightarrow> string \<Rightarrow> Operator \<Rightarrow> ApprovalDecisionKind \<Rightarrow> string option \<Rightarrow> instant
    \<Rightarrow> store \<times> ApprovalRequest http" where
  "record_decision s0 request_id oper verdict reason now =
     (case load_request s0 request_id oper now of
        (s, Inl e) \<Rightarrow> (s, Inl e)
      | (s, Inr approval) \<Rightarrow>
        (case get_agent s (ar_agent_id approval) of
           None \<Rightarrow> (s, Inl (HTTPException 404 ''approval_request_not_found''))
         | Some agent \<Rightarrow>
           let decisions = decisions_of s (ar_id approval);
               refusal = (case decision_refusal approval decisions oper now of
                   Some code \<Rightarrow> Some code
                 | None \<Rightarrow>
                   let e = approver_eligibility (st_db s) oper agent (ar_kind approval) (ar_requested_by approval)
                   in if eligible e then None else Some (el_reason e))
           in case refusal of
                Some code \<Rightarrow>
                  (audit_record ''approval_request.decision_denied'' (op_email oper) (Some (op_id oper))
                     (Some (ar_agent_id approval)) None
                     (request_audit_detail approval [(ustr ''decision'', jstr (decision_value verdict)),
                        (ustr ''reason'', jstr code)]) s,
                   Inl (HTTPException (decision_refusal_status code) code))
              | None \<Rightarrow>
                  let decision = new_decision (ar_id approval) oper verdict reason now;
                      recorded = decisions @ [decision];
                      after = after_verdict approval recorded verdict oper now
                  in (audit_record ''approval_request.decision_recorded'' (op_email oper) (Some (op_id oper))
                        (Some (ar_agent_id approval)) (ar_client_id approval)
                        (request_audit_detail after [(ustr ''decision'', jstr (decision_value verdict)),
                           (ustr ''reason'', jopt jstr reason),
                           (ustr ''approvals_recorded'', JInt (int (approval_count recorded)))])
                        (put_request after (s\<lparr>st_decisions := st_decisions s @ [decision]\<rparr>)),
                      Inr after)))"

definition approve_request ::
  "store \<Rightarrow> string \<Rightarrow> Operator \<Rightarrow> string option \<Rightarrow> instant \<Rightarrow> store \<times> ApprovalRequest http" where
  "approve_request s request_id oper reason now =
     (case require_role OperatorRole_operator oper of Inl e \<Rightarrow> (s, Inl e)
      | Inr _ \<Rightarrow> record_decision s request_id oper Approve reason now)"

definition reject_request ::
  "store \<Rightarrow> string \<Rightarrow> Operator \<Rightarrow> string option \<Rightarrow> instant \<Rightarrow> store \<times> ApprovalRequest http" where
  "reject_request s request_id oper reason now =
     (case require_role OperatorRole_operator oper of Inl e \<Rightarrow> (s, Inl e)
      | Inr _ \<Rightarrow> record_decision s request_id oper Reject reason now)"

section \<open>Cancellation\<close>

text \<open>
  \<open>cancel_request\<close> reads the row without a lock and writes four of its columns at commit. The
  checks are on the row as read (\<open>cancel_check\<close>); the write (\<open>cancel_write\<close>) goes to whatever
  the row has become.
\<close>

definition cancel_check :: "db \<Rightarrow> ApprovalRequest \<Rightarrow> Operator \<Rightarrow> unit http" where
  "cancel_check d approval oper =
     (case (if ar_requested_by approval = Some (op_id oper) then Inr ()
            else assert_client_action d oper (ar_client_id approval) client_admin ''approval_request_not_found'') of
        Inl e \<Rightarrow> Inl e
      | Inr _ \<Rightarrow>
        if ar_status approval \<notin> {Req_pending, Req_approved}
        then Inl (HTTPException 409 ''approval_request_not_pending'') else Inr ())"

definition cancelled :: "Operator \<Rightarrow> string option \<Rightarrow> instant \<Rightarrow> ApprovalRequest \<Rightarrow> ApprovalRequest" where
  "cancelled oper reason now r =
     r\<lparr>ar_status := Req_cancelled, ar_closed_at := Some now,
        ar_closed_by_email := Some (op_email oper), ar_closed_reason := reason\<rparr>"

definition cancel_write :: "store \<Rightarrow> ApprovalRequest \<Rightarrow> Operator \<Rightarrow> string option \<Rightarrow> instant \<Rightarrow> store" where
  "cancel_write s approval oper reason now =
     audit_record ''approval_request.cancelled'' (op_email oper) (Some (op_id oper))
       (Some (ar_agent_id approval)) (ar_client_id approval)
       (request_audit_detail (cancelled oper reason now approval) [(ustr ''reason'', jopt jstr reason),
          (ustr ''cancelled_by_requester'', JBool (ar_requested_by approval = Some (op_id oper)))])
       (s\<lparr>st_requests := db_update (\<lambda>q. ar_id q = ar_id approval) (cancelled oper reason now) (st_requests s)\<rparr>)"

definition cancel_request ::
  "store \<Rightarrow> string \<Rightarrow> Operator \<Rightarrow> string option \<Rightarrow> instant \<Rightarrow> store \<times> ApprovalRequest http" where
  "cancel_request s0 request_id oper reason now =
     (case require_role OperatorRole_operator oper of Inl e \<Rightarrow> (s0, Inl e) | Inr _ \<Rightarrow>
      (case load_request s0 request_id oper now of
         (s, Inl e) \<Rightarrow> (s, Inl e)
       | (s, Inr approval) \<Rightarrow>
         (case cancel_check (st_db s) approval oper of
            Inl e \<Rightarrow> (s, Inl e)
          | Inr _ \<Rightarrow> (cancel_write s approval oper reason now, Inr (cancelled oper reason now approval)))))"

section \<open>The reviewer queue\<close>

fun expire_rows :: "ApprovalRequest list \<Rightarrow> instant \<Rightarrow> store \<Rightarrow> store \<times> ApprovalRequest list" where
  "expire_rows [] now s = (s, [])"
| "expire_rows (r # rs) now s =
     (case expire_if_due r now of (r', due) \<Rightarrow>
        let s' = (if due then audit_request_expired r' (put_request r' s) else s) in
        case expire_rows rs now s' of (s'', rs') \<Rightarrow> (s'', r' # rs'))"

definition list_approval_requests ::
  "store \<Rightarrow> Operator \<Rightarrow> ApprovalRequestStatus option \<Rightarrow> string option \<Rightarrow> nat \<Rightarrow> instant
    \<Rightarrow> store \<times> ApprovalRequest list" where
  "list_approval_requests s oper request_status agent_id limit now =
     (let newest = sort_key (\<lambda>r. - instant_of (ar_created_at r)) (st_requests s);
          rows = take limit (filter (\<lambda>r. client_id_filter (st_db s) oper (ar_client_id r)
             \<and> (agent_id = None \<or> agent_id = Some (ar_agent_id r))
             \<and> (request_status = None \<or> request_status = Some (ar_status r))) newest)
      in case expire_rows rows now s of (s', rs) \<Rightarrow>
        (s', filter (\<lambda>r. request_status = None \<or> request_status = Some (ar_status r)) rs))"

end
