(* ===== verification/Override_Api.thy ===== *)
theory Override_Api
  imports Approval_Requests
begin

text \<open>
  The emergency override endpoints (\<open>server/app/api/emergency_overrides.py\<close>): activation with
  its notification, revocation, the post-hoc review, and the queue. Sending a message is a
  parameter \<open>send\<close> that accepts a recipient or fails with a provider code; the step-up and
  role dependencies precede the handlers.
\<close>

definition MAX_OPEN_OVERRIDES_PER_OPERATOR :: nat where "MAX_OPEN_OVERRIDES_PER_OPERATOR = 5"

definition NOTIFICATION_NO_RECIPIENTS :: string where
  "NOTIFICATION_NO_RECIPIENTS = ''no_recipients_configured''"

definition NOTIFICATION_PROVIDER_UNAVAILABLE :: string where
  "NOTIFICATION_PROVIDER_UNAVAILABLE = ''email_provider_unavailable''"

fun override_status_value :: "EmergencyOverrideStatus \<Rightarrow> string" where
  "override_status_value Ovr_active = ''active''"
| "override_status_value Ovr_consumed = ''consumed''"
| "override_status_value Ovr_expired = ''expired''"
| "override_status_value Ovr_revoked = ''revoked''"

definition override_audit_detail :: "EmergencyOverride \<Rightarrow> (ustr \<times> json) list \<Rightarrow> json" where
  "override_audit_detail r extra = JObj
     ([(ustr ''emergency_override_id'', jstr (eo_id r)), (ustr ''kind'', jstr (kind_value (eo_kind r))),
       (ustr ''agent_id'', jstr (eo_agent_id r)), (ustr ''client_id'', jopt jstr (eo_client_id r)),
       (ustr ''site_id'', jopt jstr (eo_site_id r)), (ustr ''policy_id'', jopt jstr (eo_policy_id r)),
       (ustr ''required_approvals'', JInt (eo_required_approvals r)),
       (ustr ''payload_keys'', payload_keys (eo_payload r)),
       (ustr ''payload_sha256'', jstr (eo_payload_sha256 r)),
       (ustr ''status'', jstr (override_status_value (eo_status r)))] @ extra)"

definition put_override :: "EmergencyOverride \<Rightarrow> store \<Rightarrow> store" where
  "put_override r s = s\<lparr>st_overrides := db_update (\<lambda>q. eo_id q = eo_id r) (\<lambda>_. r) (st_overrides s)\<rparr>"

definition audit_override :: "string \<Rightarrow> Operator \<Rightarrow> EmergencyOverride \<Rightarrow> (ustr \<times> json) list \<Rightarrow> store \<Rightarrow> store" where
  "audit_override action oper r extra s =
     audit_record action (op_email oper) (Some (op_id oper)) (Some (eo_agent_id r)) (eo_client_id r)
       (override_audit_detail r extra) s"

definition audit_override_expired :: "EmergencyOverride \<Rightarrow> store \<Rightarrow> store" where
  "audit_override_expired r s =
     audit_record ''emergency_override.expired'' ''system'' None (Some (eo_agent_id r)) (eo_client_id r)
       (override_audit_detail r []) s"

section \<open>Notification\<close>

definition audit_notification :: "EmergencyOverride \<Rightarrow> Operator \<Rightarrow> string option \<Rightarrow> store \<Rightarrow> store" where
  "audit_notification r actor error s =
     (case error of
        None \<Rightarrow> audit_override ''emergency_override.notified'' actor r
          [(ustr ''recipient_count'', JInt (int (eo_notified_recipient_count r)))] s
      | Some e \<Rightarrow> audit_override ''emergency_override.notification_failed'' actor r
          [(ustr ''recipient_count'', JInt (int (eo_notified_recipient_count r))), (ustr ''error'', jstr e)] s)"

text \<open>One message per recipient: how many were accepted, and the code of the last failure.\<close>

fun send_all :: "(string \<Rightarrow> string option) \<Rightarrow> string list \<Rightarrow> nat \<times> string option \<Rightarrow> nat \<times> string option" where
  "send_all send [] acc = acc"
| "send_all send (r # rs) (accepted, last_error) =
     send_all send rs (case send r of None \<Rightarrow> (accepted + 1, last_error) | Some code \<Rightarrow> (accepted, Some code))"

definition notify ::
  "string list \<Rightarrow> (string \<Rightarrow> string option) option \<Rightarrow> EmergencyOverride \<Rightarrow> instant \<Rightarrow> EmergencyOverride \<times> string option" where
  "notify recipients provider r now =
     (if recipients = [] then
        (r\<lparr>eo_notification_error := Some NOTIFICATION_NO_RECIPIENTS\<rparr>, Some NOTIFICATION_NO_RECIPIENTS)
      else case provider of
        None \<Rightarrow> (r\<lparr>eo_notification_error := Some NOTIFICATION_PROVIDER_UNAVAILABLE\<rparr>,
                 Some NOTIFICATION_PROVIDER_UNAVAILABLE)
      | Some send \<Rightarrow>
          (case send_all send recipients (0, None) of
             (accepted, last_error) \<Rightarrow>
               let r' = r\<lparr>eo_notified_recipient_count := accepted\<rparr> in
               if 0 < accepted then (r'\<lparr>eo_notified_at := Some now\<rparr>, None)
               else let e = take 64 (case last_error of None \<Rightarrow> ''provider_error''
                        | Some c \<Rightarrow> if c = [] then ''provider_error'' else c)
                    in (r'\<lparr>eo_notification_error := Some e\<rparr>, Some e)))"

section \<open>Helpers\<close>

definition load_override ::
  "store \<Rightarrow> string \<Rightarrow> Operator \<Rightarrow> instant \<Rightarrow> store \<times> EmergencyOverride http" where
  "load_override s override_id oper now =
     (case db_get eo_id (st_overrides s) override_id of
        None \<Rightarrow> (s, Inl (HTTPException 404 ''emergency_override_not_found''))
      | Some r \<Rightarrow>
        (case assert_client_visible (st_db s) oper (eo_client_id r) ''emergency_override_not_found'' of
           Inl e \<Rightarrow> (s, Inl e)
         | Inr _ \<Rightarrow>
           (case expire_override_if_due r now of
              (r', True) \<Rightarrow> (audit_override_expired r' (put_override r' s), Inr r')
            | (r', False) \<Rightarrow> (s, Inr r'))))"

definition is_tenant_admin :: "db \<Rightarrow> Operator \<Rightarrow> string option \<Rightarrow> bool" where
  "is_tenant_admin d oper client_id =
     (if is_platform_admin oper then True
      else case client_id of
          None \<Rightarrow> False
        | Some c \<Rightarrow> (case resolve_membership d oper c of
              None \<Rightarrow> False | Some m \<Rightarrow> client_role_permits (mem_role m) client_admin))"

section \<open>Endpoints\<close>

record EmergencyOverrideActivate =
  oa_agent_id :: string
  oa_kind :: CommandKind
  oa_payload :: json
  oa_justification :: string
  oa_ttl_seconds :: "int option"

definition open_overrides :: "store \<Rightarrow> Operator \<Rightarrow> string option \<Rightarrow> instant \<Rightarrow> nat" where
  "open_overrides s oper client_id now =
     rowcount (\<lambda>r. eo_activated_by r = Some (op_id oper) \<and> eo_client_id r = client_id \<and>
        eo_status r = Ovr_active \<and>
        (case ensure_utc (eo_expires_at r) of None \<Rightarrow> False | Some e \<Rightarrow> e > now)) (st_overrides s)"

definition new_override ::
  "(ustr \<Rightarrow> string) \<Rightarrow> string option \<Rightarrow> ApprovalPolicy \<Rightarrow> Operator \<Rightarrow> Agent \<Rightarrow> EmergencyOverrideActivate
    \<Rightarrow> json \<Rightarrow> string \<Rightarrow> instant \<Rightarrow> EmergencyOverride" where
  "new_override sha256 client_id p oper agent body payload new_id now =
     \<lparr>eo_id = new_id, eo_agent_id = ag_id agent, eo_client_id = client_id,
      eo_site_id = Some (ag_site_id agent), eo_kind = oa_kind body, eo_payload = payload,
      eo_payload_sha256 = binding_digest sha256 (ag_id agent) (oa_kind body) payload,
      eo_policy_id = Some (ap_id p), eo_required_approvals = ap_required_approvals p,
      eo_activated_by = Some (op_id oper), eo_activated_by_email = op_email oper,
      eo_justification = oa_justification body, eo_status = Ovr_active, eo_created_at = Aware now,
      eo_expires_at = Some (Aware (override_expiry (oa_ttl_seconds body) now)), eo_consumed_at = None,
      eo_revoked_at = None, eo_revoked_by_email = None, eo_revoke_reason = None,
      eo_notified_at = None, eo_notification_error = None, eo_notified_recipient_count = 0,
      eo_reviewed_at = None, eo_reviewed_by_email = None, eo_review_note = None\<rparr>"

definition activate_emergency_override ::
  "(ustr \<Rightarrow> string) \<Rightarrow> string list \<Rightarrow> (string \<Rightarrow> string option) option \<Rightarrow> store \<Rightarrow> Operator
    \<Rightarrow> EmergencyOverrideActivate \<Rightarrow> string \<Rightarrow> instant \<Rightarrow> store \<times> EmergencyOverride http" where
  "activate_emergency_override sha256 recipients provider s oper body new_id now =
     (case require_role OperatorRole_operator oper of Inl e \<Rightarrow> (s, Inl e) | Inr _ \<Rightarrow>
      (case get_agent s (oa_agent_id body) of
         None \<Rightarrow> (s, Inl (HTTPException 404 ''agent_not_found''))
       | Some agent \<Rightarrow>
      (case assert_agent_visible (st_db s) oper agent None ''agent_not_found'' of
         Inl e \<Rightarrow> (s, Inl e)
       | Inr _ \<Rightarrow>
      (case checked_payload (oa_payload body) of Inl e \<Rightarrow> (s, Inl e) | Inr payload \<Rightarrow>
      let pol = resolve_policy (st_db s) (st_policies s) agent (oa_kind body);
          e = activator_eligibility (st_db s) oper agent (oa_kind body) pol
      in if \<not> eligible e then
        (audit_record ''emergency_override.denied'' (op_email oper) (Some (op_id oper)) (Some (ag_id agent)) None
           (JObj [(ustr ''kind'', jstr (kind_value (oa_kind body))), (ustr ''agent_id'', jstr (ag_id agent)),
              (ustr ''policy_id'', jopt (\<lambda>p. jstr (ap_id p)) pol), (ustr ''reason'', jstr (el_reason e))]) s,
         Inl (HTTPException
           (if el_reason e \<in> {''emergency_override_not_required'', ''emergency_override_not_permitted''}
            then 409 else 403) (el_reason e)))
      else
      (case pol of
         None \<Rightarrow> (s, Inl (HTTPException 500 ''assertion''))
       | Some p \<Rightarrow>
         let client_id = agent_client_id (st_db s) agent in
         if open_overrides s oper client_id now \<ge> MAX_OPEN_OVERRIDES_PER_OPERATOR
         then (s, Inl (HTTPException 429 ''emergency_override_limit_reached''))
         else
           let r = new_override sha256 client_id p oper agent body payload new_id now;
               s1 = audit_override ''emergency_override.activated'' oper r
                      [(ustr ''justification'', jstr (eo_justification r)),
                       (ustr ''expires_at'', JStr (isoformat (override_expiry (oa_ttl_seconds body) now)))]
                      (s\<lparr>st_overrides := st_overrides s @ [r]\<rparr>)
           in case notify recipients provider r now of
                (r', error) \<Rightarrow> (audit_notification r' oper error (put_override r' s1), Inr r'))))))"

text \<open>As for cancellation, revocation and review check the row as read and write their columns.\<close>

definition revoke_check :: "db \<Rightarrow> EmergencyOverride \<Rightarrow> Operator \<Rightarrow> unit http" where
  "revoke_check d r oper =
     (if Some (op_id oper) \<noteq> eo_activated_by r \<and> \<not> is_tenant_admin d oper (eo_client_id r)
      then Inl (HTTPException 403 ''emergency_override_revoke_not_permitted'')
      else if eo_status r \<noteq> Ovr_active then Inl (HTTPException 409 ''emergency_override_not_active'')
      else Inr ())"

definition revoked :: "Operator \<Rightarrow> string option \<Rightarrow> instant \<Rightarrow> EmergencyOverride \<Rightarrow> EmergencyOverride" where
  "revoked oper reason now r =
     r\<lparr>eo_status := Ovr_revoked, eo_revoked_at := Some now,
        eo_revoked_by_email := Some (op_email oper), eo_revoke_reason := reason\<rparr>"

definition revoke_write :: "store \<Rightarrow> EmergencyOverride \<Rightarrow> Operator \<Rightarrow> string option \<Rightarrow> instant \<Rightarrow> store" where
  "revoke_write s r oper reason now =
     audit_override ''emergency_override.revoked'' oper (revoked oper reason now r)
       [(ustr ''reason'', jopt jstr reason),
        (ustr ''revoked_by_activator'', JBool (Some (op_id oper) = eo_activated_by r))]
       (s\<lparr>st_overrides := db_update (\<lambda>q. eo_id q = eo_id r) (revoked oper reason now) (st_overrides s)\<rparr>)"

definition revoke_emergency_override ::
  "store \<Rightarrow> string \<Rightarrow> Operator \<Rightarrow> string option \<Rightarrow> instant \<Rightarrow> store \<times> EmergencyOverride http" where
  "revoke_emergency_override s0 override_id oper reason now =
     (case require_role OperatorRole_operator oper of Inl e \<Rightarrow> (s0, Inl e) | Inr _ \<Rightarrow>
      (case load_override s0 override_id oper now of
         (s, Inl e) \<Rightarrow> (s, Inl e)
       | (s, Inr r) \<Rightarrow>
         (case revoke_check (st_db s) r oper of
            Inl e \<Rightarrow> (s, Inl e)
          | Inr _ \<Rightarrow> (revoke_write s r oper reason now, Inr (revoked oper reason now r)))))"

definition review_check :: "db \<Rightarrow> EmergencyOverride \<Rightarrow> Operator \<Rightarrow> unit http" where
  "review_check d r oper =
     (if Some (op_id oper) = eo_activated_by r
      then Inl (HTTPException 403 ''emergency_override_self_review_not_permitted'')
      else if \<not> is_tenant_admin d oper (eo_client_id r)
      then Inl (HTTPException 403 ''emergency_override_review_not_permitted'')
      else if eo_reviewed_at r \<noteq> None then Inl (HTTPException 409 ''emergency_override_already_reviewed'')
      else Inr ())"

definition reviewed :: "Operator \<Rightarrow> string \<Rightarrow> instant \<Rightarrow> EmergencyOverride \<Rightarrow> EmergencyOverride" where
  "reviewed oper note now r =
     r\<lparr>eo_reviewed_at := Some now, eo_reviewed_by_email := Some (op_email oper), eo_review_note := Some note\<rparr>"

definition review_write :: "store \<Rightarrow> EmergencyOverride \<Rightarrow> Operator \<Rightarrow> string \<Rightarrow> instant \<Rightarrow> store" where
  "review_write s r oper note now =
     audit_override ''emergency_override.reviewed'' oper (reviewed oper note now r)
       [(ustr ''note'', jstr note)]
       (s\<lparr>st_overrides := db_update (\<lambda>q. eo_id q = eo_id r) (reviewed oper note now) (st_overrides s)\<rparr>)"

definition review_emergency_override ::
  "store \<Rightarrow> string \<Rightarrow> Operator \<Rightarrow> string \<Rightarrow> instant \<Rightarrow> store \<times> EmergencyOverride http" where
  "review_emergency_override s0 override_id oper note now =
     (case require_role OperatorRole_operator oper of Inl e \<Rightarrow> (s0, Inl e) | Inr _ \<Rightarrow>
      (case load_override s0 override_id oper now of
         (s, Inl e) \<Rightarrow> (s, Inl e)
       | (s, Inr r) \<Rightarrow>
         (case review_check (st_db s) r oper of
            Inl e \<Rightarrow> (s, Inl e)
          | Inr _ \<Rightarrow> (review_write s r oper note now, Inr (reviewed oper note now r)))))"

fun expire_override_rows ::
  "EmergencyOverride list \<Rightarrow> instant \<Rightarrow> store \<Rightarrow> store \<times> EmergencyOverride list" where
  "expire_override_rows [] now s = (s, [])"
| "expire_override_rows (r # rs) now s =
     (case expire_override_if_due r now of (r', due) \<Rightarrow>
        let s' = (if due then audit_override_expired r' (put_override r' s) else s) in
        case expire_override_rows rs now s' of (s'', rs') \<Rightarrow> (s'', r' # rs'))"

definition list_emergency_overrides ::
  "store \<Rightarrow> Operator \<Rightarrow> bool \<Rightarrow> EmergencyOverrideStatus option \<Rightarrow> string option \<Rightarrow> nat \<Rightarrow> instant
    \<Rightarrow> store \<times> EmergencyOverride list" where
  "list_emergency_overrides s oper unreviewed_only override_status agent_id limit now =
     (let newest = sort_key (\<lambda>r. - instant_of (eo_created_at r)) (st_overrides s);
          rows = take limit (filter (\<lambda>r. client_id_filter (st_db s) oper (eo_client_id r)
             \<and> (unreviewed_only \<longrightarrow> eo_reviewed_at r = None)
             \<and> (agent_id = None \<or> agent_id = Some (eo_agent_id r))
             \<and> (override_status = None \<or> override_status = Some (eo_status r))) newest)
      in case expire_override_rows rows now s of (s', rs) \<Rightarrow>
        (s', filter (\<lambda>r. override_status = None \<or> override_status = Some (eo_status r)) rs))"

end
