(* ===== verification/Dispatch_Gate.thy ===== *)
theory Dispatch_Gate
  imports Override_Api
begin

text \<open>
  The two-person gate of a dispatch (\<open>server/app/api/management.py\<close>): the decision
  (\<open>_apply_approval_policy\<close>), the conditional updates that spend an approval or an override
  exactly once (\<open>_spend_approval\<close>, \<open>_spend_emergency_override\<close>), and the creation of the
  command that carries the authorization.
\<close>

section \<open>The decision\<close>

definition gate_detail ::
  "Agent \<Rightarrow> CommandKind \<Rightarrow> ApprovalPolicy \<Rightarrow> string option \<Rightarrow> string option \<Rightarrow> (ustr \<times> json) list" where
  "gate_detail agent kind p rid oid =
     [(ustr ''kind'', jstr (kind_value kind)), (ustr ''agent_id'', jstr (ag_id agent)),
      (ustr ''policy_id'', jstr (ap_id p)), (ustr ''required_approvals'', JInt (ap_required_approvals p)),
      (ustr ''approval_request_id'', jopt jstr rid), (ustr ''emergency_override_id'', jopt jstr oid)]"

definition gate_refuse ::
  "Operator \<Rightarrow> Agent \<Rightarrow> (ustr \<times> json) list \<Rightarrow> string \<Rightarrow> int \<Rightarrow> store
    \<Rightarrow> store \<times> (string option \<times> string option) http" where
  "gate_refuse oper agent base code http_status s =
     (audit_record ''approval_gate.denied'' (op_email oper) (Some (op_id oper)) (Some (ag_id agent)) None
        (JObj (base @ [(ustr ''reason'', jstr code)])) s,
      Inl (HTTPException http_status code))"

definition gate_allow ::
  "Operator \<Rightarrow> Agent \<Rightarrow> string option \<Rightarrow> (ustr \<times> json) list \<Rightarrow> string \<Rightarrow> string \<Rightarrow> string list \<Rightarrow> store \<Rightarrow> store" where
  "gate_allow oper agent org base reason digest ids s =
     audit_record ''approval_gate.allowed'' (op_email oper) (Some (op_id oper)) (Some (ag_id agent)) org
       (JObj (base @ [(ustr ''reason'', jstr reason), (ustr ''payload_sha256'', jstr digest),
          (ustr ''approver_operator_ids'', JArr (map jstr ids))])) s"

definition override_gate ::
  "(ustr \<Rightarrow> string) \<Rightarrow> store \<Rightarrow> Operator \<Rightarrow> Agent \<Rightarrow> CommandKind \<Rightarrow> json \<Rightarrow> string \<Rightarrow>
    (ustr \<times> json) list \<Rightarrow> instant \<Rightarrow> store \<times> (string option \<times> string option) http" where
  "override_gate sha256 s oper agent kind payload oid base now =
     (case db_get eo_id (st_overrides s) oid of
        None \<Rightarrow> gate_refuse oper agent base ''emergency_override_not_found'' 404 s
      | Some r0 \<Rightarrow>
        if eo_client_id r0 \<noteq> agent_client_id (st_db s) agent
        then gate_refuse oper agent base ''emergency_override_not_found'' 404 s
        else
          (case expire_override_if_due r0 now of (r, due) \<Rightarrow>
             let s1 = (if due then audit_override_expired r (put_override r s) else s);
                 v = override_consumption_refusal sha256 (st_db s1) (st_policies s1) r oper agent kind payload now
             in if \<not> oc_allowed v then gate_refuse oper agent base (oc_reason v) 409 s1
                else (gate_allow oper agent (eo_client_id r) base (oc_reason v) (eo_payload_sha256 r) [] s1,
                      Inr (None, Some (eo_id r)))))"

definition approval_gate ::
  "(ustr \<Rightarrow> string) \<Rightarrow> store \<Rightarrow> Operator \<Rightarrow> Agent \<Rightarrow> CommandKind \<Rightarrow> json \<Rightarrow> string \<Rightarrow>
    (ustr \<times> json) list \<Rightarrow> instant \<Rightarrow> store \<times> (string option \<times> string option) http" where
  "approval_gate sha256 s oper agent kind payload rid base now =
     (case db_get ar_id (st_requests s) rid of
        None \<Rightarrow> gate_refuse oper agent base ''approval_request_not_found'' 404 s
      | Some r0 \<Rightarrow>
        if ar_client_id r0 \<noteq> agent_client_id (st_db s) agent
        then gate_refuse oper agent base ''approval_request_not_found'' 404 s
        else
          (case expire_if_due r0 now of (r, due) \<Rightarrow>
             let s1 = (if due then audit_request_expired r (put_request r s) else s);
                 c = consumption_refusal sha256 (st_db s1) r (decisions_of s1 (ar_id r)) oper agent kind payload now
             in if \<not> cc_allowed c then gate_refuse oper agent base (cc_reason c) 409 s1
                else (gate_allow oper agent (ar_client_id r) base (cc_reason c) (ar_payload_sha256 r)
                        (cc_approver_ids c) s1,
                      Inr (Some (ar_id r), None))))"

definition apply_approval_policy ::
  "(ustr \<Rightarrow> string) \<Rightarrow> store \<Rightarrow> Operator \<Rightarrow> Agent \<Rightarrow> CommandKind \<Rightarrow> json \<Rightarrow> string option \<Rightarrow>
    instant \<Rightarrow> string option \<Rightarrow> store \<times> (string option \<times> string option) http" where
  "apply_approval_policy sha256 s oper agent kind payload rid now oid =
     (case resolve_policy (st_db s) (st_policies s) agent kind of
        None \<Rightarrow>
          if rid \<noteq> None then (s, Inl (HTTPException 409 ''approval_not_required''))
          else if oid \<noteq> None then (s, Inl (HTTPException 409 ''emergency_override_not_required''))
          else (s, Inr (None, None))
      | Some p \<Rightarrow>
          let base = gate_detail agent kind p rid oid in
          (case (rid, oid) of
             (Some r, Some ov) \<Rightarrow> gate_refuse oper agent base ''approval_and_override_both_cited'' 409 s
           | (None, Some ov) \<Rightarrow> override_gate sha256 s oper agent kind payload ov base now
           | (None, None) \<Rightarrow> gate_refuse oper agent base ''approval_required'' 409 s
           | (Some r, None) \<Rightarrow> approval_gate sha256 s oper agent kind payload r base now))"

section \<open>Spending\<close>

definition spend_approval :: "store \<Rightarrow> string \<Rightarrow> instant \<Rightarrow> store http" where
  "spend_approval s rid now =
     (let target = (\<lambda>r. ar_id r = rid \<and> ar_status r = Req_approved) in
      if rowcount target (st_requests s) \<noteq> 1
      then Inl (HTTPException 409 ''approval_request_already_consumed'')
      else Inr (s\<lparr>st_requests :=
        db_update target (\<lambda>r. r\<lparr>ar_status := Req_consumed, ar_consumed_at := Some now\<rparr>) (st_requests s)\<rparr>))"

definition spend_emergency_override :: "store \<Rightarrow> string \<Rightarrow> instant \<Rightarrow> store http" where
  "spend_emergency_override s oid now =
     (let target = (\<lambda>r. eo_id r = oid \<and> eo_status r = Ovr_active) in
      if rowcount target (st_overrides s) \<noteq> 1
      then Inl (HTTPException 409 ''emergency_override_already_consumed'')
      else Inr (s\<lparr>st_overrides :=
        db_update target (\<lambda>r. r\<lparr>eo_status := Ovr_consumed, eo_consumed_at := Some now\<rparr>) (st_overrides s)\<rparr>))"

text \<open>
  The end of \<open>dispatch_command\<close>: the authorization is spent in the transaction that creates
  the command, which carries its id.
\<close>

definition new_command ::
  "string \<Rightarrow> Operator \<Rightarrow> Agent \<Rightarrow> CommandKind \<Rightarrow> json \<Rightarrow> string option \<Rightarrow> string option \<Rightarrow>
    instant \<Rightarrow> instant \<Rightarrow> string option \<Rightarrow> Command" where
  "new_command new_id oper agent kind payload rid oid now expires_at script_version_id =
     \<lparr>co_id = new_id, co_agent_id = ag_id agent, co_kind = kind, co_payload = payload,
      co_status = Cmd_queued, co_created_at = now, co_expires_at = expires_at,
      co_actor_email = Some (op_email oper), co_actor_operator_id = Some (op_id oper),
      co_script_version_id = script_version_id,
      co_approval_request_id = rid, co_emergency_override_id = oid\<rparr>"

definition spend_and_create ::
  "store \<Rightarrow> string option \<Rightarrow> string option \<Rightarrow> Command \<Rightarrow> instant \<Rightarrow> store http" where
  "spend_and_create s rid oid cmd now =
     (case (case rid of None \<Rightarrow> Inr s | Some r \<Rightarrow> spend_approval s r now) of
        Inl e \<Rightarrow> Inl e
      | Inr s1 \<Rightarrow>
        (case (case oid of None \<Rightarrow> Inr s1 | Some ov \<Rightarrow> spend_emergency_override s1 ov now) of
           Inl e \<Rightarrow> Inl e
         | Inr s2 \<Rightarrow> Inr (s2\<lparr>st_commands := st_commands s2 @ [cmd]\<rparr>)))"

end
