(* ===== verification/Dispatch_Protocol.thy ===== *)
theory Dispatch_Protocol
  imports Dispatch_Gate
begin

text \<open>
  The approval workflow and the dispatch gate as concurrent transactions. A step is what one
  transaction does to the committed tables. Sessions read rows without a lock and write
  columns of them later, when the row may have changed: cancellation, revocation, review and
  lazy expiry act on a copy read in an earlier step. A verdict holds the row's lock from its
  read to its commit and is one step. A dispatch passes the gate in one step and spends the
  authorization in a later one. The theorems are invariants of every reachable state.
\<close>

section \<open>Steps\<close>

record ticket =
  tk_rid :: "string option"
  tk_oid :: "string option"
  tk_operator :: Operator
  tk_agent :: Agent
  tk_kind :: CommandKind
  tk_audit :: "AuditEntry list"

record world =
  w_store :: store
  w_reads :: "ApprovalRequest list"
  w_override_reads :: "EmergencyOverride list"
  w_tickets :: "ticket list"

text \<open>The columns \<open>expire_if_due\<close> writes, on the row as it is now.\<close>

definition expired_columns :: "instant \<Rightarrow> ApprovalRequest \<Rightarrow> ApprovalRequest" where
  "expired_columns now r =
     r\<lparr>ar_status := Req_expired, ar_closed_at := Some now, ar_closed_reason := Some ''request_ttl_elapsed''\<rparr>"

definition expire_write :: "store \<Rightarrow> ApprovalRequest \<Rightarrow> instant \<Rightarrow> store" where
  "expire_write s r now = audit_request_expired (fst (expire_if_due r now))
     (s\<lparr>st_requests := db_update (\<lambda>q. ar_id q = ar_id r) (expired_columns now) (st_requests s)\<rparr>)"

definition expire_override_write :: "store \<Rightarrow> EmergencyOverride \<Rightarrow> instant \<Rightarrow> store" where
  "expire_override_write s r now = audit_override_expired (fst (expire_override_if_due r now))
     (s\<lparr>st_overrides := db_update (\<lambda>q. eo_id q = eo_id r) (\<lambda>q. q\<lparr>eo_status := Ovr_expired\<rparr>) (st_overrides s)\<rparr>)"

inductive step :: "(ustr \<Rightarrow> string) \<Rightarrow> world \<Rightarrow> world \<Rightarrow> bool" for sha256 where
  administer: "step sha256 w (w\<lparr>w_store := (w_store w)\<lparr>st_db := d, st_clients := cl, st_agents := ags,
      st_policies := ps, st_audit := au\<rparr>\<rparr>)"
| request: "new_id \<notin> ar_id ` set (st_requests (w_store w)) \<Longrightarrow>
    create_approval_request sha256 (w_store w) oper body new_id now = (s', res) \<Longrightarrow>
    step sha256 w (w\<lparr>w_store := s'\<rparr>)"
| verdict: "record_decision (w_store w) rid oper verdict reason now = (s', res) \<Longrightarrow>
    step sha256 w (w\<lparr>w_store := s'\<rparr>)"
| read_request: "r \<in> set (st_requests (w_store w)) \<Longrightarrow> step sha256 w (w\<lparr>w_reads := r # w_reads w\<rparr>)"
| cancel: "r \<in> set (w_reads w) \<Longrightarrow> cancel_check (st_db (w_store w)) r oper = Inr () \<Longrightarrow>
    step sha256 w (w\<lparr>w_store := cancel_write (w_store w) r oper creason now\<rparr>)"
| expire: "r \<in> set (w_reads w) \<Longrightarrow> snd (expire_if_due r now) \<Longrightarrow>
    step sha256 w (w\<lparr>w_store := expire_write (w_store w) r now\<rparr>)"
| activate: "new_id \<notin> eo_id ` set (st_overrides (w_store w)) \<Longrightarrow>
    activate_emergency_override sha256 recipients provider (w_store w) oper obody new_id now = (s', ores) \<Longrightarrow>
    step sha256 w (w\<lparr>w_store := s'\<rparr>)"
| read_override: "ov \<in> set (st_overrides (w_store w)) \<Longrightarrow>
    step sha256 w (w\<lparr>w_override_reads := ov # w_override_reads w\<rparr>)"
| revoke: "ov \<in> set (w_override_reads w) \<Longrightarrow> revoke_check (st_db (w_store w)) ov oper = Inr () \<Longrightarrow>
    step sha256 w (w\<lparr>w_store := revoke_write (w_store w) ov oper creason now\<rparr>)"
| review: "ov \<in> set (w_override_reads w) \<Longrightarrow> review_check (st_db (w_store w)) ov oper = Inr () \<Longrightarrow>
    step sha256 w (w\<lparr>w_store := review_write (w_store w) ov oper note now\<rparr>)"
| expire_override: "ov \<in> set (w_override_reads w) \<Longrightarrow> snd (expire_override_if_due ov now) \<Longrightarrow>
    step sha256 w (w\<lparr>w_store := expire_override_write (w_store w) ov now\<rparr>)"
| gate: "apply_approval_policy sha256 (w_store w) oper agent kind payload rid now oid = (s', Inr (r', o')) \<Longrightarrow>
    step sha256 w (w\<lparr>w_tickets := \<lparr>tk_rid = r', tk_oid = o', tk_operator = oper, tk_agent = agent,
      tk_kind = kind, tk_audit = drop (length (st_audit (w_store w))) (st_audit s')\<rparr> # w_tickets w\<rparr>)"
| dispatch: "t \<in> set (w_tickets w) \<Longrightarrow>
    spend_and_create (w_store w) (tk_rid t) (tk_oid t)
      (new_command cid (tk_operator t) (tk_agent t) (tk_kind t) payload (tk_rid t) (tk_oid t) now expires sv)
      now = Inr s' \<Longrightarrow>
    step sha256 w (w\<lparr>w_store := s'\<lparr>st_audit := st_audit s' @ tk_audit t\<rparr>,
      w_tickets := remove1 t (w_tickets w)\<rparr>)"
| give_up: "step sha256 w (w\<lparr>w_tickets := remove1 t (w_tickets w)\<rparr>)"

definition start :: "world \<Rightarrow> bool" where
  "start w \<longleftrightarrow> st_requests (w_store w) = [] \<and> st_decisions (w_store w) = [] \<and>
     st_overrides (w_store w) = [] \<and> st_commands (w_store w) = [] \<and> w_reads w = [] \<and>
     w_override_reads w = [] \<and> w_tickets w = []"

inductive reachable :: "(ustr \<Rightarrow> string) \<Rightarrow> world \<Rightarrow> bool" for sha256 where
  initial: "start w \<Longrightarrow> reachable sha256 w"
| next_step: "reachable sha256 w \<Longrightarrow> step sha256 w w' \<Longrightarrow> reachable sha256 w'"

section \<open>How the tables evolve\<close>

text \<open>A row keeps its binding, and a request that is no longer live stays so.\<close>

definition request_frame :: "ApprovalRequest \<Rightarrow> ApprovalRequest \<Rightarrow> bool" where
  "request_frame r q \<longleftrightarrow> ar_id q = ar_id r \<and> ar_agent_id q = ar_agent_id r \<and> ar_kind q = ar_kind r \<and>
     ar_payload_sha256 q = ar_payload_sha256 r \<and> ar_requested_by q = ar_requested_by r \<and>
     ar_required_approvals q = ar_required_approvals r \<and>
     (\<not> live_status (ar_status r) \<longrightarrow> \<not> live_status (ar_status q))"

definition override_frame :: "EmergencyOverride \<Rightarrow> EmergencyOverride \<Rightarrow> bool" where
  "override_frame r q \<longleftrightarrow> eo_id q = eo_id r \<and> eo_agent_id q = eo_agent_id r \<and> eo_kind q = eo_kind r \<and>
     eo_payload_sha256 q = eo_payload_sha256 r \<and> eo_activated_by q = eo_activated_by r \<and>
     (eo_status r \<noteq> Ovr_active \<longrightarrow> eo_status q \<noteq> Ovr_active)"

definition table_evolves :: "('r \<Rightarrow> string) \<Rightarrow> ('r \<Rightarrow> 'r \<Rightarrow> bool) \<Rightarrow> 'r list \<Rightarrow> 'r list \<Rightarrow> bool" where
  "table_evolves pk frame rs rs' \<longleftrightarrow> (\<exists>f new. rs' = map f rs @ new \<and> (\<forall>r \<in> set rs. frame r (f r)) \<and>
     distinct (map pk new) \<and> pk ` set new \<inter> pk ` set rs = {})"

lemma request_frame_refl [simp]: "request_frame r r"
  by (simp add: request_frame_def)

lemma override_frame_refl [simp]: "override_frame r r"
  by (simp add: override_frame_def)

lemma table_evolves_refl [simp]: "(\<And>r. frame r r) \<Longrightarrow> table_evolves pk frame rs rs"
  unfolding table_evolves_def by (rule exI [of _ id], rule exI [of _ "[]"]) simp

lemma table_evolves_update:
  assumes "\<And>r. frame r r" "\<And>r. r \<in> set rs \<Longrightarrow> P r \<Longrightarrow> frame r (g r)"
  shows "table_evolves pk frame rs (db_update P g rs)"
  unfolding table_evolves_def db_update_def
  by (rule exI [of _ "\<lambda>r. if P r then g r else r"], rule exI [of _ "[]"]) (use assms in auto)

lemma table_evolves_insert:
  assumes "\<And>r. frame r r" "pk r \<notin> pk ` set rs"
  shows "table_evolves pk frame rs (rs @ [r])"
  unfolding table_evolves_def
  by (rule exI [of _ id], rule exI [of _ "[r]"]) (use assms in auto)

lemma table_evolves_row:
  assumes "table_evolves pk frame rs rs'" "r \<in> set rs"
  shows "\<exists>q \<in> set rs'. frame r q"
  using assms by (auto simp: table_evolves_def)

lemma table_evolves_distinct:
  assumes "table_evolves pk frame rs rs'" "\<And>r q. frame r q \<Longrightarrow> pk q = pk r" "distinct (map pk rs)"
  shows "distinct (map pk rs')"
proof -
  obtain f new where e: "rs' = map f rs @ new" "\<forall>r \<in> set rs. frame r (f r)" "distinct (map pk new)"
    "pk ` set new \<inter> pk ` set rs = {}"
    using assms(1) unfolding table_evolves_def by blast
  have m: "map pk (map f rs) = map pk rs" using e(2) assms(2) by simp
  have "distinct (map pk rs @ map pk new)" using e(3,4) assms(3) by (auto simp: distinct_append)
  then show ?thesis unfolding e(1) map_append m .
qed

definition verdict_pairs :: "store \<Rightarrow> (string \<times> string) list" where
  "verdict_pairs s = map (\<lambda>d. (ad_request_id d, ad_operator_id d)) (st_decisions s)"

definition store_evolves :: "store \<Rightarrow> store \<Rightarrow> bool" where
  "store_evolves s s' \<longleftrightarrow>
     table_evolves ar_id request_frame (st_requests s) (st_requests s') \<and>
     table_evolves eo_id override_frame (st_overrides s) (st_overrides s') \<and>
     st_commands s' = st_commands s \<and> set (st_decisions s) \<subseteq> set (st_decisions s') \<and>
     (distinct (verdict_pairs s) \<longrightarrow> distinct (verdict_pairs s'))"

lemma audit_record_frame [simp]:
  "st_requests (audit_record a b c d e f s) = st_requests s"
  "st_overrides (audit_record a b c d e f s) = st_overrides s"
  "st_decisions (audit_record a b c d e f s) = st_decisions s"
  "st_commands (audit_record a b c d e f s) = st_commands s"
  "st_db (audit_record a b c d e f s) = st_db s"
  "st_policies (audit_record a b c d e f s) = st_policies s"
  "st_agents (audit_record a b c d e f s) = st_agents s"
  by (simp_all add: audit_record_def)

lemmas audit_defs = audit_request_expired_def audit_override_expired_def audit_override_def
  audit_notification_def

lemma put_frame [simp]:
  "st_overrides (put_request r s) = st_overrides s"
  "st_decisions (put_request r s) = st_decisions s"
  "st_commands (put_request r s) = st_commands s"
  "st_requests (put_override ov s) = st_requests s"
  "st_decisions (put_override ov s) = st_decisions s"
  "st_commands (put_override ov s) = st_commands s"
  by (simp_all add: put_request_def put_override_def)

lemma store_evolves_refl [simp]: "store_evolves s s"
  by (simp add: store_evolves_def)

text \<open>Writing back a row that was read from the table, under unique keys.\<close>

lemma unique_row: "distinct (map pk rs) \<Longrightarrow> r \<in> set rs \<Longrightarrow> q \<in> set rs \<Longrightarrow> pk q = pk r \<Longrightarrow> q = r"
  by (metis distinct_map inj_onD)

lemma requests_put:
  assumes "distinct (map ar_id (st_requests s))" "r \<in> set (st_requests s)" "request_frame r q"
  shows "table_evolves ar_id request_frame (st_requests s) (st_requests (put_request q s))"
proof -
  have "request_frame x q" if "x \<in> set (st_requests s)" "ar_id x = ar_id q" for x
  proof -
    have "ar_id x = ar_id r" using that(2) assms(3) by (simp add: request_frame_def)
    then have "x = r" using unique_row [OF assms(1,2) that(1)] by simp
    then show ?thesis using assms(3) by simp
  qed
  then show ?thesis unfolding put_request_def by (auto intro: table_evolves_update)
qed

lemma overrides_put:
  assumes "distinct (map eo_id (st_overrides s))" "r \<in> set (st_overrides s)" "override_frame r q"
  shows "table_evolves eo_id override_frame (st_overrides s) (st_overrides (put_override q s))"
proof -
  have "override_frame x q" if "x \<in> set (st_overrides s)" "eo_id x = eo_id q" for x
  proof -
    have "eo_id x = eo_id r" using that(2) assms(3) by (simp add: override_frame_def)
    then have "x = r" using unique_row [OF assms(1,2) that(1)] by simp
    then show ?thesis using assms(3) by simp
  qed
  then show ?thesis unfolding put_override_def by (auto intro: table_evolves_update)
qed

lemma expire_frame: "request_frame r (fst (expire_if_due r now))"
  by (simp add: request_frame_def expire_if_due_def live_status_def split: option.splits)

lemma expire_not_due: "\<not> snd (expire_if_due r now) \<Longrightarrow> expire_if_due r now = (r, False)"
  by (simp add: expire_if_due_def split: option.splits if_splits)

lemma load_request_evolves:
  assumes "distinct (map ar_id (st_requests s))" "load_request s rid oper now = (s', res)"
  shows "store_evolves s s'"
    "res = Inr r \<Longrightarrow> r \<in> set (st_requests s')"
    "distinct (map ar_id (st_requests s'))"
    "st_decisions s' = st_decisions s"
proof -
  have e: "table_evolves ar_id request_frame (st_requests s) (st_requests s') \<and> st_overrides s' = st_overrides s \<and>
      st_commands s' = st_commands s \<and> st_decisions s' = st_decisions s \<and>
      (\<forall>r. res = Inr r \<longrightarrow> r \<in> set (st_requests s'))"
  proof (cases "db_get ar_id (st_requests s) rid")
    case None
    then show ?thesis using assms(2) by (auto simp: load_request_def)
  next
    case (Some q)
    then have q: "q \<in> set (st_requests s)" by (auto dest: db_get_SomeD)
    show ?thesis
    proof (cases "assert_client_visible (st_db s) oper (ar_client_id q) ''approval_request_not_found''")
      case (Inl e)
      then show ?thesis using assms(2) Some by (auto simp: load_request_def)
    next
      case (Inr u)
      show ?thesis
      proof (cases "snd (expire_if_due q now)")
        case True
        then have r: "res = Inr (fst (expire_if_due q now))"
          "s' = audit_request_expired (fst (expire_if_due q now)) (put_request (fst (expire_if_due q now)) s)"
          using assms(2) Some Inr by (auto simp: load_request_def split: prod.splits bool.splits)
        have "fst (expire_if_due q now) \<in> set (st_requests (put_request (fst (expire_if_due q now)) s))"
          using q unfolding put_request_def db_update_def
          by (simp add: expire_if_due_frame)
        then show ?thesis
          using r requests_put [OF assms(1) q expire_frame] by (simp add: audit_defs)
      next
        case False
        then have "expire_if_due q now = (q, False)" by (rule expire_not_due)
        then have "res = Inr q" "s' = s"
          using assms(2) Some Inr by (auto simp: load_request_def)
        then show ?thesis using q by simp
      qed
    qed
  qed
  then show "store_evolves s s'" "res = Inr r \<Longrightarrow> r \<in> set (st_requests s')" "st_decisions s' = st_decisions s"
    by (simp_all add: store_evolves_def verdict_pairs_def)
  show "distinct (map ar_id (st_requests s'))"
    by (rule table_evolves_distinct [OF conjunct1 [OF e] _ assms(1)]) (simp add: request_frame_def)
qed

lemma table_evolves_trans:
  assumes e1: "table_evolves pk frame rs rs'" and e2: "table_evolves pk frame rs' rs''"
    and key: "\<And>r q. frame r q \<Longrightarrow> pk q = pk r"
    and tr: "\<And>r q p. frame r q \<Longrightarrow> frame q p \<Longrightarrow> frame r p"
  shows "table_evolves pk frame rs rs''"
proof -
  obtain f new where f: "rs' = map f rs @ new" "\<forall>r \<in> set rs. frame r (f r)" "distinct (map pk new)"
    "pk ` set new \<inter> pk ` set rs = {}"
    using e1 unfolding table_evolves_def by blast
  obtain g new' where g: "rs'' = map g rs' @ new'" "\<forall>r \<in> set rs'. frame r (g r)" "distinct (map pk new')"
    "pk ` set new' \<inter> pk ` set rs' = {}"
    using e2 unfolding table_evolves_def by blast
  have gn: "map pk (map g new) = map pk new" using g(2) f(1) key by simp
  have "pk ` set rs \<subseteq> pk ` set rs'"
  proof
    fix k assume "k \<in> pk ` set rs"
    then obtain r where "r \<in> set rs" "k = pk r" by blast
    then show "k \<in> pk ` set rs'" using f(1,2) key by (metis Un_iff image_eqI list.set_map set_append)
  qed
  moreover have "pk ` set new \<subseteq> pk ` set rs'" using f(1) by auto
  moreover have gs: "pk ` set (map g new) = pk ` set new"
    using arg_cong [OF gn, of set] by (simp only: set_map)
  moreover have "A \<subseteq> R \<Longrightarrow> N \<subseteq> R \<Longrightarrow> G = N \<Longrightarrow> N \<inter> A = {} \<Longrightarrow> M \<inter> R = {} \<Longrightarrow> (G \<union> M) \<inter> A = {} \<and> G \<inter> M = {}"
    for A R N G M :: "string set" by blast
  ultimately have d: "pk ` set (map g new @ new') \<inter> pk ` set rs = {}"
    "pk ` set (map g new) \<inter> pk ` set new' = {}"
    using f(4) g(4) unfolding set_append image_Un by metis+
  have "distinct (map pk (map g new) @ map pk new')"
    unfolding distinct_append gn using f(3) g(3) d(2) gs by simp
  then have "distinct (map pk (map g new @ new'))" by (simp only: map_append)
  moreover have "\<forall>r \<in> set rs. frame r ((g \<circ> f) r)"
    using f(1,2) g(2) tr by auto
  moreover have "rs'' = map (g \<circ> f) rs @ (map g new @ new')"
    using f(1) g(1) by simp
  ultimately show ?thesis unfolding table_evolves_def using d(1) by blast
qed

lemma request_frame_trans: "request_frame r q \<Longrightarrow> request_frame q p \<Longrightarrow> request_frame r p"
  by (simp add: request_frame_def)

lemma override_frame_trans: "override_frame r q \<Longrightarrow> override_frame q p \<Longrightarrow> override_frame r p"
  by (simp add: override_frame_def)

lemma store_evolves_trans:
  assumes "store_evolves s s'" "store_evolves s' s''"
  shows "store_evolves s s''"
proof -
  have "table_evolves ar_id request_frame (st_requests s) (st_requests s'')"
    using assms unfolding store_evolves_def
    by (blast intro: table_evolves_trans [where pk = ar_id] request_frame_trans dest: request_frame_def [THEN iffD1])
  moreover have "table_evolves eo_id override_frame (st_overrides s) (st_overrides s'')"
    using assms unfolding store_evolves_def
    by (blast intro: table_evolves_trans [where pk = eo_id] override_frame_trans dest: override_frame_def [THEN iffD1])
  ultimately show ?thesis using assms unfolding store_evolves_def by auto
qed

lemma store_evolves_distinct:
  assumes "store_evolves s s'"
  shows "distinct (map ar_id (st_requests s)) \<Longrightarrow> distinct (map ar_id (st_requests s'))"
    "distinct (map eo_id (st_overrides s)) \<Longrightarrow> distinct (map eo_id (st_overrides s'))"
  using assms unfolding store_evolves_def
  by (auto intro: table_evolves_distinct simp: request_frame_def override_frame_def)

section \<open>The steps evolve the tables\<close>

lemma create_request_evolves:
  assumes "new_id \<notin> ar_id ` set (st_requests s)"
    "create_approval_request sha256 s oper body new_id now = (s', res)"
  shows "store_evolves s s'"
proof -
  have "(st_requests s' = st_requests s \<or> (\<exists>r. ar_id r = new_id \<and> st_requests s' = st_requests s @ [r])) \<and>
      st_overrides s' = st_overrides s \<and> st_decisions s' = st_decisions s \<and> st_commands s' = st_commands s"
    using assms(2) unfolding create_approval_request_def Let_def
    by (auto simp: new_request_def split: sum.splits option.splits if_splits)
  then show ?thesis
    using assms(1) table_evolves_insert [where pk = ar_id and frame = request_frame and rs = "st_requests s"]
    by (auto simp: store_evolves_def verdict_pairs_def)
qed

lemma decision_refusal_None:
  assumes "decision_refusal r ds oper now = None"
  shows "ar_status r = Req_pending" "op_id oper \<notin> ad_operator_id ` set ds" "ar_requested_by r \<noteq> Some (op_id oper)"
  using assms
  by (auto simp: decision_refusal_def live_status_def list_ex_iff split: if_splits option.splits)

lemma after_verdict_frame: "live_status (ar_status r) \<Longrightarrow> request_frame r (after_verdict r ds v oper now)"
  by (simp add: request_frame_def after_verdict_def)

lemma record_decision_evolves:
  assumes d: "distinct (map ar_id (st_requests s0))"
    and "record_decision s0 rid oper v reason now = (s', res)"
  shows "store_evolves s0 s'"
proof -
  obtain s l where l: "load_request s0 rid oper now = (s, l)" by fastforce
  note load = load_request_evolves [OF d l]
  consider (refused) "st_requests s' = st_requests s" "st_overrides s' = st_overrides s"
      "st_decisions s' = st_decisions s" "st_commands s' = st_commands s"
    | (recorded) r where "l = Inr r" "decision_refusal r (decisions_of s (ar_id r)) oper now = None"
      "st_requests s' = st_requests (put_request (after_verdict r
         (decisions_of s (ar_id r) @ [new_decision (ar_id r) oper v reason now]) v oper now) s)"
      "st_overrides s' = st_overrides s" "st_commands s' = st_commands s"
      "st_decisions s' = st_decisions s @ [new_decision (ar_id r) oper v reason now]"
    using assms(2) l unfolding record_decision_def Let_def
    by (auto simp: put_request_def split: sum.splits option.splits if_splits)
  then have "store_evolves s s'"
  proof cases
    case refused
    then show ?thesis by (simp add: store_evolves_def verdict_pairs_def)
  next
    case recorded
    note r = decision_refusal_None [OF recorded(2)]
    have "table_evolves ar_id request_frame (st_requests s) (st_requests s')"
      unfolding recorded(3)
      by (rule requests_put [OF load(3) load(2) [OF recorded(1)]])
        (simp add: after_verdict_frame r(1) live_status_def)
    moreover have "distinct (verdict_pairs s) \<longrightarrow> distinct (verdict_pairs s')"
      using r(2) by (auto simp: verdict_pairs_def recorded(6) new_decision_def decisions_of_def)
    ultimately show ?thesis using recorded by (auto simp: store_evolves_def)
  qed
  with load(1) show ?thesis by (rule store_evolves_trans)
qed

lemma notify_frame:
  "eo_id (fst (notify rcp pr r now)) = eo_id r"
  by (simp add: notify_def Let_def split: option.splits prod.splits)

lemma activate_evolves:
  assumes "new_id \<notin> eo_id ` set (st_overrides s)"
    "activate_emergency_override sha256 rcp pr s oper body new_id now = (s', res)"
  shows "store_evolves s s'"
proof -
  have put_new: "db_update (\<lambda>q. eo_id q = new_id) (\<lambda>_. r') (st_overrides s @ [r]) = st_overrides s @ [r']"
    if "eo_id r = new_id" for r r'
  proof -
    have "map (\<lambda>x. if eo_id x = new_id then r' else x) (st_overrides s) = st_overrides s"
      using assms(1) by (intro map_idI) auto
    then show ?thesis using that by (simp add: db_update_def)
  qed
  have "(st_overrides s' = st_overrides s \<or> (\<exists>r. eo_id r = new_id \<and> st_overrides s' = st_overrides s @ [r])) \<and>
      st_requests s' = st_requests s \<and> st_decisions s' = st_decisions s \<and> st_commands s' = st_commands s"
  proof (cases "st_overrides s' = st_overrides s \<and> st_requests s' = st_requests s \<and>
      st_decisions s' = st_decisions s \<and> st_commands s' = st_commands s")
    case False
    then obtain r r' error extra where r: "eo_id r = new_id" "notify rcp pr r now = (r', error)"
      "s' = audit_notification r' oper error (put_override r'
         (audit_override ''emergency_override.activated'' oper r extra (s\<lparr>st_overrides := st_overrides s @ [r]\<rparr>)))"
      using assms(2) unfolding activate_emergency_override_def Let_def
      by (force simp: new_override_def split: sum.splits option.splits if_splits prod.splits)
    moreover have "eo_id r' = new_id" using notify_frame [of rcp pr r now] r by simp
    ultimately show ?thesis
      using put_new [OF r(1)] by (auto simp: put_override_def audit_defs split: option.splits)
  qed auto
  then show ?thesis
    using assms(1) table_evolves_insert [where pk = eo_id and frame = override_frame and rs = "st_overrides s"]
    by (auto simp: store_evolves_def verdict_pairs_def)
qed

lemma cancel_evolves: "store_evolves s (cancel_write s r oper reason now)"
  by (auto simp: cancel_write_def store_evolves_def verdict_pairs_def cancelled_def request_frame_def
      live_status_def intro!: table_evolves_update)

lemma expire_evolves: "store_evolves s (expire_write s r now)"
  by (auto simp: expire_write_def store_evolves_def verdict_pairs_def expired_columns_def request_frame_def
      live_status_def audit_defs intro!: table_evolves_update)

lemma revoke_evolves: "store_evolves s (revoke_write s r oper reason now)"
  by (auto simp: revoke_write_def store_evolves_def verdict_pairs_def revoked_def override_frame_def
      audit_defs intro!: table_evolves_update)

lemma review_evolves: "store_evolves s (review_write s r oper note now)"
  by (auto simp: review_write_def store_evolves_def verdict_pairs_def reviewed_def override_frame_def
      audit_defs intro!: table_evolves_update)

lemma expire_override_evolves: "store_evolves s (expire_override_write s r now)"
  by (auto simp: expire_override_write_def store_evolves_def verdict_pairs_def override_frame_def
      audit_defs intro!: table_evolves_update)

lemmas write_evolves = cancel_evolves expire_evolves revoke_evolves review_evolves expire_override_evolves

section \<open>What an authorization guarantees\<close>

definition approvers :: "store \<Rightarrow> string \<Rightarrow> string set" where
  "approvers s rid = ad_operator_id ` {d \<in> set (st_decisions s). ad_request_id d = rid \<and> ad_decision d = Approve}"

definition two_person :: "store \<Rightarrow> string \<Rightarrow> string \<Rightarrow> CommandKind \<Rightarrow> string \<Rightarrow> bool" where
  "two_person s rid agent kind actor \<longleftrightarrow>
     (\<exists>r \<in> set (st_requests s). ar_id r = rid \<and> ar_agent_id r = agent \<and> ar_kind r = kind \<and>
        ar_requested_by r = Some actor \<and> ar_required_approvals r \<le> int (card (approvers s rid - {actor})))"

definition overridden :: "store \<Rightarrow> string \<Rightarrow> string \<Rightarrow> CommandKind \<Rightarrow> string \<Rightarrow> bool" where
  "overridden s oid agent kind actor \<longleftrightarrow>
     (\<exists>r \<in> set (st_overrides s). eo_id r = oid \<and> eo_agent_id r = agent \<and> eo_kind r = kind \<and>
        eo_activated_by r = Some actor)"

definition request_spent :: "store \<Rightarrow> string \<Rightarrow> bool" where
  "request_spent s rid \<longleftrightarrow> (\<forall>r \<in> set (st_requests s). ar_id r = rid \<longrightarrow> \<not> live_status (ar_status r))"

definition override_spent :: "store \<Rightarrow> string \<Rightarrow> bool" where
  "override_spent s oid \<longleftrightarrow> (\<forall>r \<in> set (st_overrides s). eo_id r = oid \<longrightarrow> eo_status r \<noteq> Ovr_active)"

lemma approvers_mono: "store_evolves s s' \<Longrightarrow> approvers s rid \<subseteq> approvers s' rid"
  by (auto simp: store_evolves_def approvers_def)

lemma two_person_evolves:
  assumes "store_evolves s s'" "two_person s rid agent kind actor"
  shows "two_person s' rid agent kind actor"
proof -
  obtain r where r: "r \<in> set (st_requests s)" "ar_id r = rid" "ar_agent_id r = agent" "ar_kind r = kind"
    "ar_requested_by r = Some actor" "ar_required_approvals r \<le> int (card (approvers s rid - {actor}))"
    using assms(2) unfolding two_person_def by blast
  obtain q where q: "q \<in> set (st_requests s')" "request_frame r q"
    using assms(1) r(1) table_evolves_row unfolding store_evolves_def by metis
  have "card (approvers s rid - {actor}) \<le> card (approvers s' rid - {actor})"
    using approvers_mono [OF assms(1)] by (intro card_mono) (auto simp: approvers_def)
  then show ?thesis using r q unfolding two_person_def request_frame_def by force
qed

lemma overridden_evolves:
  assumes "store_evolves s s'" "overridden s oid agent kind actor"
  shows "overridden s' oid agent kind actor"
proof -
  obtain r where r: "r \<in> set (st_overrides s)" "eo_id r = oid" "eo_agent_id r = agent" "eo_kind r = kind"
    "eo_activated_by r = Some actor"
    using assms(2) unfolding overridden_def by blast
  obtain q where "q \<in> set (st_overrides s')" "override_frame r q"
    using assms(1) r(1) table_evolves_row unfolding store_evolves_def by metis
  then show ?thesis using r unfolding overridden_def override_frame_def by metis
qed

text \<open>A key in the table stays spent: rows keep their keys and new rows bring new keys.\<close>

lemma spent_evolves:
  assumes "table_evolves pk frame rs rs'" "\<And>r q. frame r q \<Longrightarrow> pk q = pk r \<and> (dead r \<longrightarrow> dead q)"
    and "k \<in> pk ` set rs" "\<forall>r \<in> set rs. pk r = k \<longrightarrow> dead r"
  shows "\<forall>r \<in> set rs'. pk r = k \<longrightarrow> dead r"
proof
  fix q assume q: "q \<in> set rs'"
  obtain f new where e: "rs' = map f rs @ new" "\<forall>r \<in> set rs. frame r (f r)" "pk ` set new \<inter> pk ` set rs = {}"
    using assms(1) unfolding table_evolves_def by blast
  show "pk q = k \<longrightarrow> dead q"
  proof (cases "q \<in> set new")
    case True
    then show ?thesis using e(3) assms(3) by blast
  next
    case False
    then obtain r where "r \<in> set rs" "q = f r" using q e(1) by auto
    then show ?thesis using e(2) assms(2,4) by metis
  qed
qed

lemma request_spent_evolves:
  assumes "store_evolves s s'" "rid \<in> ar_id ` set (st_requests s)" "request_spent s rid"
  shows "request_spent s' rid"
  using spent_evolves [where pk = ar_id and frame = request_frame and dead = "\<lambda>r. \<not> live_status (ar_status r)"] assms
  unfolding store_evolves_def request_spent_def request_frame_def by blast

lemma override_spent_evolves:
  assumes "store_evolves s s'" "oid \<in> eo_id ` set (st_overrides s)" "override_spent s oid"
  shows "override_spent s' oid"
  using spent_evolves [where pk = eo_id and frame = override_frame and dead = "\<lambda>r. eo_status r \<noteq> Ovr_active"] assms
  unfolding store_evolves_def override_spent_def override_frame_def by blast

section \<open>The invariant\<close>

definition ticket_ok :: "store \<Rightarrow> ticket \<Rightarrow> bool" where
  "ticket_ok s t \<longleftrightarrow>
     (\<forall>rid. tk_rid t = Some rid \<longrightarrow> two_person s rid (ag_id (tk_agent t)) (tk_kind t) (op_id (tk_operator t))) \<and>
     (\<forall>oid. tk_oid t = Some oid \<longrightarrow> overridden s oid (ag_id (tk_agent t)) (tk_kind t) (op_id (tk_operator t))) \<and>
     (tk_rid t = None \<or> tk_oid t = None)"

definition command_ok :: "store \<Rightarrow> Command \<Rightarrow> bool" where
  "command_ok s c \<longleftrightarrow>
     (\<forall>rid. co_approval_request_id c = Some rid \<longrightarrow>
        (\<exists>oper. co_actor_operator_id c = Some oper \<and> two_person s rid (co_agent_id c) (co_kind c) oper) \<and> request_spent s rid) \<and>
     (\<forall>oid. co_emergency_override_id c = Some oid \<longrightarrow>
        (\<exists>oper. co_actor_operator_id c = Some oper \<and> overridden s oid (co_agent_id c) (co_kind c) oper) \<and> override_spent s oid) \<and>
     (co_approval_request_id c = None \<or> co_emergency_override_id c = None)"

definition cited_once :: "store \<Rightarrow> bool" where
  "cited_once s \<longleftrightarrow>
     (\<forall>rid. length (filter (\<lambda>c. co_approval_request_id c = Some rid) (st_commands s)) \<le> 1) \<and>
     (\<forall>oid. length (filter (\<lambda>c. co_emergency_override_id c = Some oid) (st_commands s)) \<le> 1)"

definition keys_ok :: "store \<Rightarrow> bool" where
  "keys_ok s \<longleftrightarrow> distinct (map ar_id (st_requests s)) \<and> distinct (map eo_id (st_overrides s)) \<and>
     distinct (verdict_pairs s)"

definition workflow_inv :: "world \<Rightarrow> bool" where
  "workflow_inv w \<longleftrightarrow> keys_ok (w_store w) \<and> cited_once (w_store w) \<and>
     (\<forall>t \<in> set (w_tickets w). ticket_ok (w_store w) t) \<and>
     (\<forall>c \<in> set (st_commands (w_store w)). command_ok (w_store w) c)"

lemma ticket_ok_evolves: "store_evolves s s' \<Longrightarrow> ticket_ok s t \<Longrightarrow> ticket_ok s' t"
  by (auto simp: ticket_ok_def intro: two_person_evolves overridden_evolves)

lemma command_ok_evolves: "store_evolves s s' \<Longrightarrow> command_ok s c \<Longrightarrow> command_ok s' c"
  unfolding command_ok_def
  by (metis (no_types, lifting) two_person_evolves overridden_evolves request_spent_evolves override_spent_evolves
      two_person_def overridden_def image_eqI)

lemma keys_ok_evolves: "store_evolves s s' \<Longrightarrow> keys_ok s \<Longrightarrow> keys_ok s'"
  using store_evolves_distinct by (auto simp: keys_ok_def store_evolves_def)

text \<open>A transaction that creates no command and passes no gate keeps the invariant.\<close>

lemma workflow_inv_evolves:
  assumes "workflow_inv w" "store_evolves (w_store w) s'"
  shows "workflow_inv (w\<lparr>w_store := s'\<rparr>)"
proof -
  have "st_commands s' = st_commands (w_store w)" using assms(2) by (simp add: store_evolves_def)
  then show ?thesis
    using assms keys_ok_evolves [OF assms(2)] ticket_ok_evolves [OF assms(2)] command_ok_evolves [OF assms(2)]
    by (simp add: workflow_inv_def cited_once_def)
qed

section \<open>The gate\<close>

lemma decisions_of_distinct:
  "distinct (verdict_pairs s) \<Longrightarrow> distinct (map ad_operator_id (decisions_of s rid))"
proof -
  assume "distinct (verdict_pairs s)"
  then have "inj_on (\<lambda>d. (ad_request_id d, ad_operator_id d)) (set (st_decisions s))" "distinct (st_decisions s)"
    by (simp_all add: verdict_pairs_def distinct_map)
  then show ?thesis
    by (auto simp: distinct_map decisions_of_def inj_on_def)
qed

lemma two_person_if_allowed:
  assumes "cc_allowed (consumption_refusal sha256 (st_db s) r (decisions_of s (ar_id r)) oper agent kind payload now)"
    and "distinct (verdict_pairs s)" "r \<in> set (st_requests s)"
  shows "two_person s (ar_id r) (ag_id agent) kind (op_id oper)"
proof -
  note c = consumption_allowed [OF assms(1)]
  let ?ids = "still_eligible (st_db s) r (decisions_of s (ar_id r)) agent kind"
  have "set ?ids \<subseteq> approvers s (ar_id r) - {op_id oper}"
    using c(4) by (auto simp: still_eligible_set eligible_iff [where det = "[]"] approvers_def decisions_of_def
        dest!: db_get_SomeD)
  moreover have "finite (approvers s (ar_id r) - {op_id oper})" by (simp add: approvers_def)
  ultimately have "card (set ?ids) \<le> card (approvers s (ar_id r) - {op_id oper})" by (simp add: card_mono)
  moreover have "card (set ?ids) = length ?ids"
    by (intro distinct_card still_eligible_distinct decisions_of_distinct assms(2))
  ultimately show ?thesis using c assms(3) by (auto simp: two_person_def)
qed

lemma approval_gate_Inr:
  assumes "approval_gate sha256 s oper agent kind payload rid base now = (s', Inr (r', o'))"
    and "distinct (verdict_pairs s)"
  shows "o' = None \<and> (\<exists>q. r' = Some q \<and> two_person s q (ag_id agent) kind (op_id oper))"
proof -
  obtain r0 where r0: "db_get ar_id (st_requests s) rid = Some r0"
    using assms(1) by (auto simp: approval_gate_def gate_refuse_def split: option.splits)
  have "\<not> snd (expire_if_due r0 now)"
  proof
    assume due: "snd (expire_if_due r0 now)"
    then have "ar_status (fst (expire_if_due r0 now)) = Req_expired"
      by (auto simp: expire_if_due_def split: option.splits if_splits)
    then have "\<not> cc_allowed (consumption_refusal sha256 d (fst (expire_if_due r0 now)) ds oper agent kind payload now)"
      for d ds using consumption_allowed(5) by fastforce
    then show False
      using assms(1) r0 by (auto simp: approval_gate_def gate_refuse_def Let_def split: prod.splits if_splits)
  qed
  then have "expire_if_due r0 now = (r0, False)" by (rule expire_not_due)
  then have "cc_allowed (consumption_refusal sha256 (st_db s) r0 (decisions_of s (ar_id r0)) oper agent kind payload now)"
    "r' = Some (ar_id r0)" "o' = None"
    using assms(1) r0 by (auto simp: approval_gate_def gate_refuse_def Let_def split: if_splits)
  then show ?thesis using two_person_if_allowed assms(2) db_get_SomeD [OF r0] by blast
qed

lemma override_gate_Inr:
  assumes "override_gate sha256 s oper agent kind payload oid base now = (s', Inr (r', o'))"
  shows "r' = None \<and> (\<exists>q. o' = Some q \<and> overridden s q (ag_id agent) kind (op_id oper))"
proof -
  obtain r0 where r0: "db_get eo_id (st_overrides s) oid = Some r0"
    using assms(1) by (auto simp: override_gate_def gate_refuse_def split: option.splits)
  obtain r due where r: "expire_override_if_due r0 now = (r, due)" by fastforce
  have f: "override_frame r0 r"
    using r by (auto simp: expire_override_if_due_def override_frame_def split: option.splits if_splits)
  obtain d ps where a: "oc_allowed (override_consumption_refusal sha256 d ps r oper agent kind payload now)"
    "r' = None" "o' = Some (eo_id r)"
    using assms(1) r0 r by (auto simp: override_gate_def gate_refuse_def Let_def split: if_splits)
  show ?thesis
    using a override_allowed [OF a(1)] db_get_SomeD [OF r0] f
    by (auto simp: overridden_def override_frame_def)
qed

lemma apply_approval_policy_Inr:
  assumes "apply_approval_policy sha256 s oper agent kind payload rid now oid = (s', Inr (r', o'))"
    and "distinct (verdict_pairs s)"
  shows "ticket_ok s \<lparr>tk_rid = r', tk_oid = o', tk_operator = oper, tk_agent = agent, tk_kind = kind, tk_audit = au\<rparr>"
  using assms
  by (auto simp: apply_approval_policy_def gate_refuse_def Let_def ticket_ok_def
      split: option.splits if_splits dest: approval_gate_Inr override_gate_Inr)

section \<open>Spending\<close>

lemma db_update_mem: "q \<in> set (db_update P g rs) \<longleftrightarrow> (\<exists>p \<in> set rs. q = (if P p then g p else p))"
  by (auto simp: db_update_def)

lemma rowcount_one: "rowcount P rs = 1 \<Longrightarrow> \<exists>r \<in> set rs. P r"
  by (metis rowcount_pos zero_less_one)

lemma spend_approval_Inr:
  assumes "spend_approval s rid now = Inr s'"
  shows "\<not> request_spent s rid" "store_evolves s s'"
    "distinct (map ar_id (st_requests s)) \<Longrightarrow> request_spent s' rid"
proof -
  let ?target = "\<lambda>r. ar_id r = rid \<and> ar_status r = Req_approved"
  have s': "s' = s\<lparr>st_requests := db_update ?target
      (\<lambda>r. r\<lparr>ar_status := Req_consumed, ar_consumed_at := Some now\<rparr>) (st_requests s)\<rparr>"
    and one: "rowcount ?target (st_requests s) = 1"
    using assms by (auto simp: spend_approval_def Let_def split: if_splits)
  have rq: "st_requests s' = db_update ?target
      (\<lambda>r. r\<lparr>ar_status := Req_consumed, ar_consumed_at := Some now\<rparr>) (st_requests s)"
    by (simp add: s')
  obtain r where r: "r \<in> set (st_requests s)" "ar_id r = rid" "ar_status r = Req_approved"
    using rowcount_one [OF one] by blast
  then show "\<not> request_spent s rid" by (auto simp: request_spent_def live_status_def)
  show "store_evolves s s'"
    unfolding s' by (auto simp: store_evolves_def verdict_pairs_def request_frame_def live_status_def
        intro!: table_evolves_update)
  show "request_spent s' rid" if d: "distinct (map ar_id (st_requests s))"
  proof -
    have "\<not> live_status (ar_status q)" if q: "q \<in> set (st_requests s')" "ar_id q = rid" for q
    proof -
      obtain p where p: "p \<in> set (st_requests s)"
        "q = (if ?target p then p\<lparr>ar_status := Req_consumed, ar_consumed_at := Some now\<rparr> else p)"
        using q(1) by (auto simp only: rq db_update_mem)
      then have "ar_id p = rid" using q(2) by (simp split: if_splits)
      then have "p = r" using unique_row [OF d r(1) p(1)] r(2) by simp
      then show ?thesis using p(2) r by (simp add: live_status_def)
    qed
    then show ?thesis by (simp add: request_spent_def)
  qed
qed

lemma spend_override_Inr:
  assumes "spend_emergency_override s oid now = Inr s'"
  shows "\<not> override_spent s oid" "store_evolves s s'" "override_spent s' oid"
proof -
  let ?target = "\<lambda>r. eo_id r = oid \<and> eo_status r = Ovr_active"
  have s': "s' = s\<lparr>st_overrides := db_update ?target
      (\<lambda>r. r\<lparr>eo_status := Ovr_consumed, eo_consumed_at := Some now\<rparr>) (st_overrides s)\<rparr>"
    and one: "rowcount ?target (st_overrides s) = 1"
    using assms by (auto simp: spend_emergency_override_def Let_def split: if_splits)
  have ov: "st_overrides s' = db_update ?target
      (\<lambda>r. r\<lparr>eo_status := Ovr_consumed, eo_consumed_at := Some now\<rparr>) (st_overrides s)"
    by (simp add: s')
  show "\<not> override_spent s oid" using rowcount_one [OF one] by (auto simp: override_spent_def)
  show "store_evolves s s'"
    unfolding s' by (auto simp: store_evolves_def verdict_pairs_def override_frame_def
        intro!: table_evolves_update)
  have "eo_status q \<noteq> Ovr_active" if q: "q \<in> set (st_overrides s')" "eo_id q = oid" for q
  proof -
    obtain p where "q = (if ?target p then p\<lparr>eo_status := Ovr_consumed, eo_consumed_at := Some now\<rparr> else p)"
      using q(1) by (auto simp only: ov db_update_mem)
    then show ?thesis using q(2) by (simp split: if_splits)
  qed
  then show "override_spent s' oid" by (simp add: override_spent_def)
qed

text \<open>
  What the end of a dispatch does: it evolves the tables, the authorization was unspent
  before and is spent after, and there is one command more.
\<close>

lemma spend_and_create_Inr:
  assumes "spend_and_create s rid oid cmd now = Inr s'" "distinct (map ar_id (st_requests s))"
  obtains s2 where "store_evolves s s2" "s' = s2\<lparr>st_commands := st_commands s @ [cmd]\<rparr>"
    "\<And>r. rid = Some r \<Longrightarrow> \<not> request_spent s r \<and> request_spent s2 r"
    "\<And>v. oid = Some v \<Longrightarrow> \<not> override_spent s v \<and> override_spent s2 v"
proof -
  obtain s1 where s1: "(case rid of None \<Rightarrow> Inr s | Some r \<Rightarrow> spend_approval s r now) = Inr s1"
    and 2: "(case (case oid of None \<Rightarrow> Inr s1 | Some ov \<Rightarrow> spend_emergency_override s1 ov now) of
       Inl e \<Rightarrow> Inl e | Inr s2 \<Rightarrow> Inr (s2\<lparr>st_commands := st_commands s2 @ [cmd]\<rparr>)) = Inr s'"
    using assms(1) by (auto simp: spend_and_create_def split: sum.splits)
  obtain s2 where s2: "(case oid of None \<Rightarrow> Inr s1 | Some ov \<Rightarrow> spend_emergency_override s1 ov now) = Inr s2"
    and s': "s' = s2\<lparr>st_commands := st_commands s2 @ [cmd]\<rparr>"
    using 2 by (auto split: sum.splits)
  have e1: "store_evolves s s1" and r1: "rid = Some r \<Longrightarrow> \<not> request_spent s r \<and> request_spent s1 r" for r
    using s1 spend_approval_Inr assms(2) by (auto split: option.splits)
  have ov1: "st_overrides s1 = st_overrides s"
    using s1 by (auto simp: spend_approval_def Let_def split: option.splits if_splits)
  have e2: "store_evolves s1 s2" and v2: "oid = Some v \<Longrightarrow> \<not> override_spent s1 v \<and> override_spent s2 v" for v
    using s2 spend_override_Inr by (auto split: option.splits)
  have rq2: "st_requests s2 = st_requests s1"
    using s2 by (auto simp: spend_emergency_override_def Let_def split: option.splits if_splits)
  have e: "store_evolves s s2" using e1 e2 by (rule store_evolves_trans)
  show thesis
  proof (rule that [OF e])
    show "s' = s2\<lparr>st_commands := st_commands s @ [cmd]\<rparr>" using s' e by (simp add: store_evolves_def)
    show "\<not> request_spent s r \<and> request_spent s2 r" if "rid = Some r" for r
      using r1 [OF that] rq2 by (simp add: request_spent_def)
    show "\<not> override_spent s v \<and> override_spent s2 v" if "oid = Some v" for v
      using v2 [OF that] ov1 by (simp add: override_spent_def)
  qed
qed

lemma guarantees_ignore_commands [simp]:
  "two_person (s\<lparr>st_commands := cs\<rparr>) = two_person s" "overridden (s\<lparr>st_commands := cs\<rparr>) = overridden s"
  "request_spent (s\<lparr>st_commands := cs\<rparr>) = request_spent s" "override_spent (s\<lparr>st_commands := cs\<rparr>) = override_spent s"
  "keys_ok (s\<lparr>st_commands := cs\<rparr>) = keys_ok s"
  "ticket_ok (s\<lparr>st_commands := cs\<rparr>) = ticket_ok s" "command_ok (s\<lparr>st_commands := cs\<rparr>) = command_ok s"
  "two_person (s\<lparr>st_audit := au\<rparr>) = two_person s" "overridden (s\<lparr>st_audit := au\<rparr>) = overridden s"
  "request_spent (s\<lparr>st_audit := au\<rparr>) = request_spent s" "override_spent (s\<lparr>st_audit := au\<rparr>) = override_spent s"
  "keys_ok (s\<lparr>st_audit := au\<rparr>) = keys_ok s"
  "ticket_ok (s\<lparr>st_audit := au\<rparr>) = ticket_ok s" "command_ok (s\<lparr>st_audit := au\<rparr>) = command_ok s"
  by (auto simp: fun_eq_iff two_person_def overridden_def request_spent_def override_spent_def keys_ok_def
      ticket_ok_def command_ok_def approvers_def verdict_pairs_def)

lemma workflow_inv_dispatch:
  assumes inv: "workflow_inv w" and t: "t \<in> set (w_tickets w)"
    and spend: "spend_and_create (w_store w) (tk_rid t) (tk_oid t)
      (new_command cid (tk_operator t) (tk_agent t) (tk_kind t) payload (tk_rid t) (tk_oid t) now expires sv) now = Inr s'"
  shows "workflow_inv (w\<lparr>w_store := s'\<lparr>st_audit := st_audit s' @ tk_audit t\<rparr>, w_tickets := remove1 t (w_tickets w)\<rparr>)"
proof -
  let ?s = "w_store w"
  let ?cmd = "new_command cid (tk_operator t) (tk_agent t) (tk_kind t) payload (tk_rid t) (tk_oid t) now expires sv"
  have keys: "keys_ok ?s" and once: "cited_once ?s" and tok: "ticket_ok ?s t"
    and cok: "\<And>c. c \<in> set (st_commands ?s) \<Longrightarrow> command_ok ?s c"
    using inv t by (auto simp: workflow_inv_def)
  obtain s2 where s2: "store_evolves ?s s2" "s' = s2\<lparr>st_commands := st_commands ?s @ [?cmd]\<rparr>"
    "\<And>r. tk_rid t = Some r \<Longrightarrow> \<not> request_spent ?s r \<and> request_spent s2 r"
    "\<And>v. tk_oid t = Some v \<Longrightarrow> \<not> override_spent ?s v \<and> override_spent s2 v"
    using spend_and_create_Inr [OF spend] keys unfolding keys_ok_def by metis
  have "co_approval_request_id c \<noteq> Some r" if "c \<in> set (st_commands ?s)" "tk_rid t = Some r" for c r
    using cok [OF that(1)] s2(3) [OF that(2)] by (auto simp: command_ok_def)
  moreover have "co_emergency_override_id c \<noteq> Some v" if "c \<in> set (st_commands ?s)" "tk_oid t = Some v" for c v
    using cok [OF that(1)] s2(4) [OF that(2)] by (auto simp: command_ok_def)
  ultimately have "cited_once s'"
    using once unfolding cited_once_def s2(2) by (auto simp: new_command_def filter_empty_conv)
  moreover have "command_ok s2 ?cmd"
    using ticket_ok_evolves [OF s2(1) tok] s2(3,4)
    by (simp add: command_ok_def ticket_ok_def new_command_def)
  moreover have "command_ok s2 c" if "c \<in> set (st_commands ?s)" for c
    using command_ok_evolves [OF s2(1) cok [OF that]] .
  moreover have "ticket_ok s2 u" if "u \<in> set (remove1 t (w_tickets w))" for u
    using that inv notin_set_remove1 ticket_ok_evolves [OF s2(1)] by (fastforce simp: workflow_inv_def)
  ultimately show ?thesis
    using keys_ok_evolves [OF s2(1) keys] by (auto simp: workflow_inv_def s2(2) cited_once_def)
qed

section \<open>Every reachable state\<close>

lemma administer_evolves:
  "store_evolves s (s\<lparr>st_db := d, st_clients := cl, st_agents := ags, st_policies := ps, st_audit := au\<rparr>)"
  by (simp add: store_evolves_def verdict_pairs_def)

lemma step_inv: "step sha256 w w' \<Longrightarrow> workflow_inv w \<Longrightarrow> workflow_inv w'"
proof (induction rule: step.induct)
  case (verdict w rid oper verdict reason now s' res)
  then show ?case
    using record_decision_evolves workflow_inv_evolves unfolding workflow_inv_def keys_ok_def by metis
next
  case (gate w oper agent kind payload rid now oid s' r' o')
  then show ?case
    using apply_approval_policy_Inr [OF gate.hyps] by (auto simp: workflow_inv_def keys_ok_def)
next
  case (dispatch t w cid payload now expires s')
  then show ?case by (intro workflow_inv_dispatch)
next
  case (give_up w t)
  then show ?case using notin_set_remove1 by (fastforce simp: workflow_inv_def)
next
  case (request new_id w oper body now s' res)
  then show ?case using create_request_evolves workflow_inv_evolves by metis
next
  case (activate new_id w recipients provider oper obody now s' ores)
  then show ?case using activate_evolves workflow_inv_evolves by metis
qed (simp_all add: workflow_inv_evolves write_evolves administer_evolves, simp_all add: workflow_inv_def)

lemma reachable_inv: "reachable sha256 w \<Longrightarrow> workflow_inv w"
proof (induction rule: reachable.induct)
  case (initial w)
  then show ?case by (simp add: start_def workflow_inv_def keys_ok_def cited_once_def verdict_pairs_def)
qed (rule step_inv)

end
