(* ===== verification/Dispatch_Safety.thy ===== *)
theory Dispatch_Safety
  imports Dispatch_Protocol
begin

text \<open>
  The safety of governed dispatch, over every interleaving of the protocol: a command that
  cites an approval or an override is authorized by it, and is the only one that cites it. A
  concrete run (a request by one operator, the approvals of two others, the gate and the
  dispatch) shows that the hypotheses can hold, and what a cancellation that read the row
  before the dispatch does after it.
\<close>

definition demo_sha :: "ustr \<Rightarrow> string" where "demo_sha = map char_of"

definition demo_store :: store where
  "demo_store = \<lparr>st_db = db1, st_clients = [''client1''], st_agents = [agent1],
     st_policies = [pol0 ''p1'' Scope_global None 2], st_requests = [], st_decisions = [],
     st_overrides = [], st_commands = [], st_audit = []\<rparr>"

definition demo_body :: ApprovalRequestCreate where
  "demo_body = \<lparr>rc_agent_id = ''agent1'', rc_kind = reboot, rc_payload = JObj [], rc_reason = ''patching''\<rparr>"

definition demo_requested :: store where
  "demo_requested = fst (create_approval_request demo_sha demo_store alice demo_body ''r1'' 0)"

definition demo_one :: store where
  "demo_one = fst (record_decision demo_requested ''r1'' bob Approve None 1)"

definition demo_approved :: store where
  "demo_approved = fst (record_decision demo_one ''r1'' carol Approve None 2)"

definition demo_gated :: "store \<times> (string option \<times> string option) http" where
  "demo_gated = apply_approval_policy demo_sha demo_approved alice agent1 reboot (JObj []) (Some ''r1'') 3 None"

definition demo_request :: ApprovalRequest where
  "demo_request = new_request demo_sha (Some ''client1'') (pol0 ''p1'' Scope_global None 2) alice agent1 demo_body
     (JObj []) ''r1'' 0"

lemmas demo_rules = require_role_def get_agent_def db_get_def agent_client_id_def assert_agent_visible_def
  assert_client_action_def resolve_membership_def client_role_permits_def authorize_command_def typed_kinds_def
  privileged_kinds_def fixture_defs Let_def resolve_policy_def policy_matches_def pol0_def
  is_client_visible_def assert_client_visible_def

lemma demo_payload: "checked_payload (JObj []) = Inr (JObj [])"
  by (simp add: checked_payload_def validate_command_payload_def is_object_def validate_payload_value.simps
      MAX_COMMAND_PAYLOAD_DEPTH_def dumps_def encode_utf8_def scalar_def utf8_char_def
      MAX_COMMAND_PAYLOAD_BYTES_def SCHEMA_MAX_COMMAND_PAYLOAD_BYTES_def)

lemma demo_requested:
  "st_requests demo_requested = [demo_request]" "st_decisions demo_requested = []"
  "st_overrides demo_requested = []" "st_commands demo_requested = []" "st_db demo_requested = db1"
  "st_agents demo_requested = [agent1]" "st_policies demo_requested = [pol0 ''p1'' Scope_global None 2]"
  by (simp_all add: demo_requested_def create_approval_request_def demo_store_def demo_body_def demo_payload
      open_requests_def rowcount_def MAX_OPEN_REQUESTS_PER_OPERATOR_def demo_request_def demo_rules)

definition demo_vote :: "Operator \<Rightarrow> instant \<Rightarrow> ApprovalDecision" where
  "demo_vote oper now = new_decision ''r1'' oper Approve None now"

definition demo_request_approved :: ApprovalRequest where
  "demo_request_approved = demo_request\<lparr>ar_status := Req_approved, ar_decided_at := Some 2\<rparr>"

lemma approval_count_remdups:
  "approval_count ds = length (remdups (map ad_operator_id (filter (\<lambda>d. ad_decision d = Approve) ds)))"
  by (simp add: approval_count_def length_remdups_card_conv)

lemmas demo_decide = record_decision_def load_request_def expire_if_due_def live_status_def decisions_of_def
  decision_refusal_def approver_eligibility_def after_verdict_def new_decision_def demo_vote_def
  approval_count_remdups put_request_def db_update_def

lemma demo_request_fields:
  "ar_id demo_request = ''r1''" "ar_status demo_request = Req_pending" "ar_agent_id demo_request = ''agent1''"
  "ar_client_id demo_request = Some ''client1''" "ar_kind demo_request = reboot"
  "ar_requested_by demo_request = Some ''alice''" "ar_required_approvals demo_request = 2"
  "ar_expires_at demo_request = Some (Aware 3600000000)"
  "ar_payload_sha256 demo_request = binding_digest demo_sha ''agent1'' reboot (JObj [])"
  by (simp_all add: demo_request_def new_request_def demo_body_def fixture_defs pol0_def request_expiry_def
      MAX_REQUEST_TTL_SECONDS_def MIN_REQUEST_TTL_SECONDS_def seconds_def)

lemma demo_one:
  "st_requests demo_one = [demo_request]" "st_decisions demo_one = [demo_vote bob 1]"
  "st_overrides demo_one = []" "st_commands demo_one = []" "st_db demo_one = db1"
  "st_agents demo_one = [agent1]" "st_policies demo_one = [pol0 ''p1'' Scope_global None 2]"
  by (simp_all add: demo_one_def demo_decide demo_requested demo_request_fields demo_rules)

lemma demo_approved:
  "st_requests demo_approved = [demo_request_approved]"
  "st_decisions demo_approved = [demo_vote bob 1, demo_vote carol 2]"
  "st_overrides demo_approved = []" "st_commands demo_approved = []" "st_db demo_approved = db1"
  "st_agents demo_approved = [agent1]" "st_policies demo_approved = [pol0 ''p1'' Scope_global None 2]"
  by (simp_all add: demo_approved_def demo_decide demo_one demo_request_fields demo_rules demo_request_approved_def)

lemma demo_gated: "snd demo_gated = Inr (Some ''r1'', None)"
  by (simp add: demo_gated_def apply_approval_policy_def approval_gate_def consumption_refusal_def
      still_eligible_def demo_decide demo_approved demo_request_approved_def demo_request_fields demo_rules)

definition demo_command :: Command where
  "demo_command = new_command ''c1'' alice agent1 reboot (JObj []) (Some ''r1'') None 4 100 None"

definition demo_dispatched :: store where
  "demo_dispatched = demo_approved\<lparr>
     st_requests := [demo_request_approved\<lparr>ar_status := Req_consumed, ar_consumed_at := Some 4\<rparr>],
     st_commands := [demo_command]\<rparr>"

lemma demo_spend: "spend_and_create demo_approved (Some ''r1'') None demo_command 4 = Inr demo_dispatched"
  by (simp add: spend_and_create_def spend_approval_def Let_def rowcount_def db_update_def demo_approved
      demo_request_approved_def demo_request_fields demo_dispatched_def)

definition demo_world :: "store \<Rightarrow> ApprovalRequest list \<Rightarrow> ticket list \<Rightarrow> world" where
  "demo_world s reads ts = \<lparr>w_store = s, w_reads = reads, w_override_reads = [], w_tickets = ts\<rparr>"

definition demo_ticket :: ticket where
  "demo_ticket = \<lparr>tk_rid = Some ''r1'', tk_oid = None, tk_operator = alice, tk_agent = agent1, tk_kind = reboot,
     tk_audit = drop (length (st_audit demo_approved)) (st_audit (fst demo_gated))\<rparr>"

text \<open>The run up to the gate, with a copy of the approved row read by another session.\<close>

lemma demo_reach_approved: "reachable demo_sha (demo_world demo_approved [] [])"
proof -
  have "reachable demo_sha (demo_world demo_store [] [])"
    by (rule reachable.initial) (simp add: start_def demo_world_def demo_store_def)
  moreover have "step demo_sha (demo_world demo_store [] []) (demo_world demo_requested [] [])"
    using step.request [of "''r1''" "demo_world demo_store [] []" demo_sha alice demo_body 0 demo_requested]
    by (simp add: demo_world_def demo_requested_def) (simp add: demo_store_def prod_eq_iff)
  moreover have "step demo_sha (demo_world demo_requested [] []) (demo_world demo_one [] [])"
    using step.verdict [of "demo_world demo_requested [] []" "''r1''" bob Approve None 1 demo_one _ demo_sha]
    by (simp add: demo_world_def demo_one_def prod_eq_iff)
  moreover have "step demo_sha (demo_world demo_one [] []) (demo_world demo_approved [] [])"
    using step.verdict [of "demo_world demo_one [] []" "''r1''" carol Approve None 2 demo_approved _ demo_sha]
    by (simp add: demo_world_def demo_approved_def prod_eq_iff)
  ultimately show ?thesis by (blast intro: reachable.next_step)
qed

lemma demo_reach_gated: "reachable demo_sha (demo_world demo_approved [demo_request_approved] [demo_ticket])"
proof -
  have "step demo_sha (demo_world demo_approved [] []) (demo_world demo_approved [demo_request_approved] [])"
    using step.read_request [of demo_request_approved "demo_world demo_approved [] []" demo_sha]
    by (simp add: demo_world_def demo_approved)
  moreover have "apply_approval_policy demo_sha demo_approved alice agent1 reboot (JObj []) (Some ''r1'') 3 None =
      (fst demo_gated, Inr (Some ''r1'', None))"
    using demo_gated by (simp add: demo_gated_def prod_eq_iff)
  then have "step demo_sha (demo_world demo_approved [demo_request_approved] [])
      (demo_world demo_approved [demo_request_approved] [demo_ticket])"
    using step.gate [of demo_sha "demo_world demo_approved [demo_request_approved] []" alice agent1 reboot "JObj []"
        "Some ''r1''" 3 None "fst demo_gated" "Some ''r1''" None]
    by (simp add: demo_world_def demo_ticket_def)
  ultimately show ?thesis using demo_reach_approved by (blast intro: reachable.next_step)
qed

definition demo_final :: store where
  "demo_final = demo_dispatched\<lparr>st_audit := st_audit demo_dispatched @ tk_audit demo_ticket\<rparr>"

lemma demo_reach_dispatched: "reachable demo_sha (demo_world demo_final [demo_request_approved] [])"
proof -
  have "step demo_sha (demo_world demo_approved [demo_request_approved] [demo_ticket])
      (demo_world demo_final [demo_request_approved] [])"
    using step.dispatch [of demo_ticket "demo_world demo_approved [demo_request_approved] [demo_ticket]"
        "''c1''" "JObj []" 4 100 None demo_dispatched demo_sha]
      demo_spend
    by (simp add: demo_world_def demo_final_def demo_command_def demo_ticket_def)
  then show ?thesis using demo_reach_gated by (rule reachable.next_step [rotated])
qed

section \<open>A run with an emergency override\<close>

definition demo_override_body :: EmergencyOverrideActivate where
  "demo_override_body = \<lparr>oa_agent_id = ''agent1'', oa_kind = reboot, oa_payload = JObj [],
     oa_justification = ''disk failure imminent'', oa_ttl_seconds = None\<rparr>"

definition demo_store2 :: store where
  "demo_store2 = demo_store\<lparr>st_policies := [pol_override]\<rparr>"

definition demo_activated :: store where
  "demo_activated = fst (activate_emergency_override demo_sha [] None demo_store2 alice demo_override_body ''o1'' 0)"

definition demo_override :: EmergencyOverride where
  "demo_override = (new_override demo_sha (Some ''client1'') pol_override alice agent1 demo_override_body (JObj [])
     ''o1'' 0)\<lparr>eo_notification_error := Some NOTIFICATION_NO_RECIPIENTS\<rparr>"

definition demo_gated2 :: "store \<times> (string option \<times> string option) http" where
  "demo_gated2 = apply_approval_policy demo_sha demo_activated alice agent1 reboot (JObj []) None 3 (Some ''o1'')"

lemma demo_override_fields:
  "eo_id demo_override = ''o1''" "eo_status demo_override = Ovr_active" "eo_agent_id demo_override = ''agent1''"
  "eo_client_id demo_override = Some ''client1''" "eo_kind demo_override = reboot"
  "eo_activated_by demo_override = Some ''alice''" "eo_expires_at demo_override = Some (Aware 900000000)"
  "eo_payload_sha256 demo_override = binding_digest demo_sha ''agent1'' reboot (JObj [])"
  by (simp_all add: demo_override_def new_override_def demo_override_body_def fixture_defs override_expiry_def
      DEFAULT_TTL_SECONDS_def MIN_TTL_SECONDS_def MAX_TTL_SECONDS_def seconds_def)

lemma demo_activated:
  "st_overrides demo_activated = [demo_override]" "st_requests demo_activated = []"
  "st_decisions demo_activated = []" "st_commands demo_activated = []" "st_db demo_activated = db1"
  "st_policies demo_activated = [pol_override]"
  by (simp_all add: demo_activated_def activate_emergency_override_def demo_store2_def demo_store_def
      demo_override_body_def demo_payload open_overrides_def rowcount_def MAX_OPEN_OVERRIDES_PER_OPERATOR_def
      demo_override_def notify_def audit_defs put_override_def db_update_def new_override_def
      activator_eligibility_def pol_override_def demo_rules)

lemma demo_gated2: "snd demo_gated2 = Inr (None, Some ''o1'')"
  by (simp add: demo_gated2_def apply_approval_policy_def override_gate_def override_consumption_refusal_def
      expire_override_if_due_def activator_eligibility_def pol_override_def demo_activated demo_override_fields
      demo_rules)

definition demo_command2 :: Command where
  "demo_command2 = new_command ''c2'' alice agent1 reboot (JObj []) None (Some ''o1'') 4 100 None"

definition demo_dispatched2 :: store where
  "demo_dispatched2 = demo_activated\<lparr>
     st_overrides := [demo_override\<lparr>eo_status := Ovr_consumed, eo_consumed_at := Some 4\<rparr>],
     st_commands := [demo_command2]\<rparr>"

lemma demo_spend2: "spend_and_create demo_activated None (Some ''o1'') demo_command2 4 = Inr demo_dispatched2"
  by (simp add: spend_and_create_def spend_emergency_override_def Let_def rowcount_def db_update_def demo_activated
      demo_override_fields demo_dispatched2_def)

definition demo_ticket2 :: ticket where
  "demo_ticket2 = \<lparr>tk_rid = None, tk_oid = Some ''o1'', tk_operator = alice, tk_agent = agent1, tk_kind = reboot,
     tk_audit = drop (length (st_audit demo_activated)) (st_audit (fst demo_gated2))\<rparr>"

definition demo_final2 :: store where
  "demo_final2 = demo_dispatched2\<lparr>st_audit := st_audit demo_dispatched2 @ tk_audit demo_ticket2\<rparr>"

lemma demo_reach_overridden: "reachable demo_sha (demo_world demo_final2 [] [])"
proof -
  have "reachable demo_sha (demo_world demo_store2 [] [])"
    by (rule reachable.initial) (simp add: start_def demo_world_def demo_store2_def demo_store_def)
  moreover have "step demo_sha (demo_world demo_store2 [] []) (demo_world demo_activated [] [])"
    using step.activate [of "''o1''" "demo_world demo_store2 [] []" demo_sha "[]" None alice demo_override_body 0
        demo_activated]
    by (simp add: demo_world_def demo_activated_def) (simp add: demo_store2_def demo_store_def prod_eq_iff)
  moreover have "apply_approval_policy demo_sha demo_activated alice agent1 reboot (JObj []) None 3 (Some ''o1'') =
      (fst demo_gated2, Inr (None, Some ''o1''))"
    using demo_gated2 by (simp add: demo_gated2_def prod_eq_iff)
  then have "step demo_sha (demo_world demo_activated [] []) (demo_world demo_activated [] [demo_ticket2])"
    using step.gate [of demo_sha "demo_world demo_activated [] []" alice agent1 reboot "JObj []"
        None 3 "Some ''o1''" "fst demo_gated2" None "Some ''o1''"]
    by (simp add: demo_world_def demo_ticket2_def)
  moreover have "step demo_sha (demo_world demo_activated [] [demo_ticket2]) (demo_world demo_final2 [] [])"
    using step.dispatch [of demo_ticket2 "demo_world demo_activated [] [demo_ticket2]"
        "''c2''" "JObj []" 4 100 None demo_dispatched2 demo_sha] demo_spend2
    by (simp add: demo_world_def demo_final2_def demo_command2_def demo_ticket2_def)
  ultimately show ?thesis by (blast intro: reachable.next_step)
qed

section \<open>Safety of governed dispatch\<close>

text \<open>
  C1. Every governed command is authorized by two-person control, whatever the interleaving
  of requests, verdicts, cancellations, expiries, policy and account changes and dispatches.
  A command that cites an approval request is the only one that cites it; the request is for
  the command's endpoint and kind and was raised by the command's operator, is no longer
  live, and carries recorded approvals of at least the required number of different
  identities, none of them that operator.
\<close>

theorem governed_command_two_person:
  assumes "reachable sha256 w" "c \<in> set (st_commands (w_store w))" "co_approval_request_id c = Some rid"
  shows "filter (\<lambda>d. co_approval_request_id d = Some rid) (st_commands (w_store w)) = [c] \<and>
    co_emergency_override_id c = None \<and>
    (\<exists>r oper. db_get ar_id (st_requests (w_store w)) rid = Some r \<and> \<not> live_status (ar_status r) \<and>
       ar_agent_id r = co_agent_id c \<and> ar_kind r = co_kind c \<and>
       co_actor_operator_id c = Some oper \<and> ar_requested_by r = Some oper \<and>
       ar_required_approvals r \<le> int (card {ad_operator_id d | d. d \<in> set (st_decisions (w_store w)) \<and>
          ad_request_id d = rid \<and> ad_decision d = Approve \<and> ad_operator_id d \<noteq> oper}))"
proof -
  let ?s = "w_store w" and ?cites = "\<lambda>d. co_approval_request_id d = Some rid"
  have inv: "keys_ok ?s" "cited_once ?s" "command_ok ?s c"
    using reachable_inv [OF assms(1)] assms(2) by (auto simp: workflow_inv_def)
  have "c \<in> set (filter ?cites (st_commands ?s))" using assms(2,3) by simp
  moreover have "length (filter ?cites (st_commands ?s)) \<le> 1" using inv(2) by (simp add: cited_once_def)
  ultimately have only: "filter ?cites (st_commands ?s) = [c]"
    by (cases "filter ?cites (st_commands ?s)") (auto simp del: set_filter)
  obtain r oper where r: "r \<in> set (st_requests ?s)" "ar_id r = rid" "ar_agent_id r = co_agent_id c"
    "ar_kind r = co_kind c" "ar_requested_by r = Some oper" "co_actor_operator_id c = Some oper"
    "ar_required_approvals r \<le> int (card (approvers ?s rid - {oper}))"
    using inv(3) assms(3) by (auto simp: command_ok_def two_person_def)
  have "approvers ?s rid - {oper} = {ad_operator_id d | d. d \<in> set (st_decisions ?s) \<and>
      ad_request_id d = rid \<and> ad_decision d = Approve \<and> ad_operator_id d \<noteq> oper}"
    by (auto simp: approvers_def)
  moreover have "db_get ar_id (st_requests ?s) rid = Some r"
    using db_get_unique [of ar_id "st_requests ?s" r] inv(1) r(1,2) by (simp add: keys_ok_def)
  moreover have "\<not> live_status (ar_status r)"
    using inv(3) assms(3) r(1,2) by (auto simp: command_ok_def request_spent_def)
  ultimately show ?thesis using only r inv(3) assms(3) by (auto simp: command_ok_def)
qed

theorem governed_command_two_person_witness:
  "demo_command \<in> set (st_commands demo_final) \<and>
   filter (\<lambda>d. co_approval_request_id d = Some ''r1'') (st_commands demo_final) = [demo_command]"
proof -
  have "demo_command \<in> set (st_commands (w_store (demo_world demo_final [demo_request_approved] [])))"
    "co_approval_request_id demo_command = Some ''r1''"
    by (simp_all add: demo_world_def demo_final_def demo_dispatched_def demo_command_def new_command_def)
  from governed_command_two_person [OF demo_reach_dispatched this] this show ?thesis
    by (simp add: demo_world_def)
qed

text \<open>
  C2. An emergency override authorizes one command. Whatever the interleaving, a command that
  cites an override cites no approval and is the only one that cites the override, which was
  activated by the command's operator for its endpoint and kind and is no longer active.
\<close>

theorem overridden_command_single:
  assumes "reachable sha256 w" "c \<in> set (st_commands (w_store w))" "co_emergency_override_id c = Some oid"
  shows "filter (\<lambda>d. co_emergency_override_id d = Some oid) (st_commands (w_store w)) = [c] \<and>
    co_approval_request_id c = None \<and>
    (\<exists>r. db_get eo_id (st_overrides (w_store w)) oid = Some r \<and> eo_status r \<noteq> Ovr_active \<and>
       eo_agent_id r = co_agent_id c \<and> eo_kind r = co_kind c \<and>
       co_actor_operator_id c \<noteq> None \<and> eo_activated_by r = co_actor_operator_id c)"
proof -
  let ?s = "w_store w" and ?cites = "\<lambda>d. co_emergency_override_id d = Some oid"
  have inv: "keys_ok ?s" "cited_once ?s" "command_ok ?s c"
    using reachable_inv [OF assms(1)] assms(2) by (auto simp: workflow_inv_def)
  have "c \<in> set (filter ?cites (st_commands ?s))" using assms(2,3) by simp
  moreover have "length (filter ?cites (st_commands ?s)) \<le> 1" using inv(2) by (simp add: cited_once_def)
  ultimately have only: "filter ?cites (st_commands ?s) = [c]"
    by (cases "filter ?cites (st_commands ?s)") (auto simp del: set_filter)
  obtain r where r: "r \<in> set (st_overrides ?s)" "eo_id r = oid" "eo_agent_id r = co_agent_id c"
    "eo_kind r = co_kind c" "eo_activated_by r = co_actor_operator_id c" "co_actor_operator_id c \<noteq> None"
    using inv(3) assms(3) by (auto simp: command_ok_def overridden_def)
  have "db_get eo_id (st_overrides ?s) oid = Some r"
    using db_get_unique [of eo_id "st_overrides ?s" r] inv(1) r(1,2) by (simp add: keys_ok_def)
  moreover have "eo_status r \<noteq> Ovr_active"
    using inv(3) assms(3) r(1,2) by (auto simp: command_ok_def override_spent_def)
  ultimately show ?thesis using only r inv(3) assms(3) by (auto simp: command_ok_def)
qed

theorem overridden_command_single_witness:
  "demo_command2 \<in> set (st_commands demo_final2) \<and> co_approval_request_id demo_command2 = None"
proof -
  have "demo_command2 \<in> set (st_commands (w_store (demo_world demo_final2 [] [])))"
    "co_emergency_override_id demo_command2 = Some ''o1''"
    by (simp_all add: demo_world_def demo_final2_def demo_dispatched2_def demo_command2_def new_command_def)
  from overridden_command_single [OF demo_reach_overridden this] this show ?thesis
    by (simp add: demo_world_def)
qed

text \<open>
  Cancellation is not serialized with dispatch. There is a run in which a request is
  approved, a session reads it to cancel it, a dispatch spends it, and the cancellation then
  overwrites the status: the request of a command that was created reads \<open>cancelled\<close>.
\<close>

theorem cancel_overwrites_consumed:
  "\<exists>w c r. reachable demo_sha w \<and> c \<in> set (st_commands (w_store w)) \<and>
     co_approval_request_id c = Some (ar_id r) \<and> r \<in> set (st_requests (w_store w)) \<and>
     ar_status r = Req_cancelled"
proof -
  let ?s = "cancel_write demo_final demo_request_approved alice None 5"
  have check: "cancel_check (st_db demo_final) demo_request_approved alice = Inr ()"
    by (simp add: cancel_check_def demo_request_approved_def demo_request_fields fixture_defs)
  have "step demo_sha (demo_world demo_final [demo_request_approved] []) (demo_world ?s [demo_request_approved] [])"
    using step.cancel [of demo_request_approved "demo_world demo_final [demo_request_approved] []" alice demo_sha None 5]
      check by (simp add: demo_world_def)
  with demo_reach_dispatched have "reachable demo_sha (demo_world ?s [demo_request_approved] [])"
    by (rule reachable.next_step)
  moreover have "demo_command \<in> set (st_commands ?s)" "co_approval_request_id demo_command = Some ''r1''"
    by (simp_all add: cancel_write_def demo_final_def demo_dispatched_def demo_command_def new_command_def)
  moreover have "\<exists>r \<in> set (st_requests ?s). ar_id r = ''r1'' \<and> ar_status r = Req_cancelled"
    by (simp add: cancel_write_def demo_final_def demo_dispatched_def db_update_def cancelled_def
        demo_request_approved_def demo_request_fields)
  ultimately show ?thesis by (force simp: demo_world_def)
qed

end
