(* ===== verification/Command_Envelope_Correct.thy ===== *)
theory Command_Envelope_Correct
  imports Command_Envelope
begin

text \<open>
  The correctness of the command envelope: canonical times round-trip, the payload check
  decides a value domain, and the canonical bytes determine every field of the envelope.
\<close>

section \<open>Times\<close>

lemma pad2_digits: "c \<in> set (pad2 n) \<Longrightarrow> 48 \<le> c \<and> c \<le> 57"
  by (auto simp: pad2_def)

lemma parse_pad2: "n < 100 \<Longrightarrow> parse_digits (pad2 n) = n"
  by (simp add: pad2_def parse_digits_def)

lemma parse_digits_append2:
  "parse_digits (xs @ pad2 n) = parse_digits xs * 100 + n" if "n < 100"
  using that by (simp add: parse_digits_def pad2_def algebra_simps)

lemma parse_pad4: "n < 10000 \<Longrightarrow> parse_digits (pad4 n) = n"
  by (simp add: pad4_def parse_digits_append2 parse_pad2 div_less_iff_less_mult)

lemma parse_pad2_pad4:
  assumes "a < 100" "b < 10000"
  shows "parse_digits (pad2 a @ pad4 b) = a * 10000 + b"
proof -
  have "parse_digits ((pad2 a @ pad2 (b div 100)) @ pad2 (b mod 100)) =
      (a * 100 + b div 100) * 100 + b mod 100"
    using assms by (simp add: parse_digits_append2 parse_pad2 div_less_iff_less_mult del: append_assoc)
  also have "\<dots> = a * 10000 + b"
    using div_mult_mod_eq [of b 100] by (simp only: add_mult_distrib mult.assoc)
  finally show ?thesis by (simp add: pad4_def)
qed

lemma parse_pad6: "n < 1000000 \<Longrightarrow> parse_digits (pad6 n) = n"
  using div_mult_mod_eq [of n 10000]
  by (simp add: pad6_def parse_pad2_pad4 div_less_iff_less_mult)

lemma pad_lengths [simp]: "length (pad2 n) = 2" "length (pad4 n) = 4" "length (pad6 n) = 6"
  by (simp_all add: pad2_def pad4_def pad6_def)

text \<open>A valid wall clock of a four-digit year reads back from what is printed.\<close>

lemma format_matches: "matches_pattern (time_pattern (c_micro t \<noteq> 0)) (format_command_time t)"
  by (auto simp: matches_pattern_def time_pattern_def format_command_time_def pad2_def pad4_def
      pad6_def list_all2_Cons1)

lemma read_fields_format:
  assumes "valid_civil t" "c_year t < 10000"
  shows "read_fields (format_command_time t) = t"
proof -
  have "c_month t < 100" "c_day t < 100" "c_hour t < 100" "c_minute t < 100" "c_second t < 100"
    "c_micro t < 1000000"
    using assms by (auto simp: valid_civil_def valid_date_def days_in_month_def split: if_splits)
  then show ?thesis
    using assms(2)
    by (simp add: read_fields_def format_command_time_def parse_pad2 parse_pad4 parse_pad6)
qed

lemma format_nonempty [simp]: "format_command_time t \<noteq> []"
  by (simp add: format_command_time_def)

lemma parse_command_time_Inr:
  "parse_command_time field raw = Inr t \<longleftrightarrow>
     valid_civil t \<and> c_year t < 10000 \<and> raw = format_command_time t"
proof
  assume p: "parse_command_time field raw = Inr t"
  then have t: "t = read_fields raw" "valid_civil t" "raw = format_command_time t"
    by (auto simp: parse_command_time_def Let_def split: if_splits)
  have "c_year t < 10000"
  proof -
    obtain a b c d r where "raw = a # b # c # d # r" "a \<le> 57" "b \<le> 57" "c \<le> 57" "d \<le> 57"
      using t(3) by (auto simp: format_command_time_def pad4_def pad2_def)
    then show ?thesis using t(1) by (simp add: read_fields_def parse_digits_def)
  qed
  with t show "valid_civil t \<and> c_year t < 10000 \<and> raw = format_command_time t" by blast
next
  assume "valid_civil t \<and> c_year t < 10000 \<and> raw = format_command_time t"
  then show "parse_command_time field raw = Inr t"
    using format_matches [of t] read_fields_format [of t]
    by (cases "c_micro t = 0") (simp_all add: parse_command_time_def Let_def)
qed

text \<open>
  C40. The time format of the envelope. A wall clock is printed and read back unchanged, and
  the reader accepts no other text for it: what it accepts is exactly what the printer
  prints for a valid time.
\<close>

theorem command_time_roundtrip:
  "parse_command_time field raw = Inr t \<longleftrightarrow>
     valid_civil t \<and> c_year t < 10000 \<and> raw = format_command_time t"
  by (rule parse_command_time_Inr)

section \<open>The value domain of payloads\<close>

fun json_depth :: "json \<Rightarrow> nat" where
  "json_depth (JArr xs) = foldr max (map (\<lambda>x. Suc (json_depth x)) xs) 0"
| "json_depth (JObj kvs) = foldr max (map (\<lambda>kv. Suc (json_depth (snd kv))) kvs) 0"
| "json_depth j = 0"

fun int64_values :: "json \<Rightarrow> bool" where
  "int64_values (JInt i) = (- (2 ^ 63) \<le> i \<and> i < 2 ^ 63)"
| "int64_values (JFloat r) = False"
| "int64_values (JArr xs) = list_all int64_values xs"
| "int64_values (JObj kvs) = list_all (\<lambda>kv. int64_values (snd kv)) kvs"
| "int64_values j = True"

lemma first_error_None: "first_error es = None \<longleftrightarrow> list_all (\<lambda>e. e = None) es"
  by (induction es rule: first_error.induct) auto

lemma foldr_max_le: "foldr max ns 0 \<le> (k :: nat) \<longleftrightarrow> list_all (\<lambda>n. n \<le> k) ns"
  by (induction ns) auto

lemma validate_payload_value_iff:
  "validate_payload_value depth j = None \<longleftrightarrow> depth + json_depth j \<le> 16 \<and> int64_values j"
proof (induction j arbitrary: depth)
  case (JArr xs)
  have "depth + foldr max (map (\<lambda>x. Suc (json_depth x)) xs) 0 \<le> 16 \<longleftrightarrow>
      depth \<le> 16 \<and> list_all (\<lambda>x. Suc depth + json_depth x \<le> 16) xs"
    using foldr_max_le [of "map (\<lambda>x. Suc (json_depth x)) xs" "16 - depth"]
    by (auto simp: list_all_iff)
  then show ?case
    using JArr
    by (auto simp: validate_payload_value.simps [of depth "JArr xs"] first_error_None list_all_iff
        MAX_COMMAND_PAYLOAD_DEPTH_def)
next
  case (JObj kvs)
  have "depth + foldr max (map (\<lambda>x. Suc (json_depth (snd x))) kvs) 0 \<le> 16 \<longleftrightarrow>
      depth \<le> 16 \<and> list_all (\<lambda>x. Suc depth + json_depth (snd x) \<le> 16) kvs"
    using foldr_max_le [of "map (\<lambda>x. Suc (json_depth (snd x))) kvs" "16 - depth"]
    by (auto simp: list_all_iff)
  moreover have "validate_payload_value (Suc depth) (snd kv) = None \<longleftrightarrow>
      Suc depth + json_depth (snd kv) \<le> 16 \<and> int64_values (snd kv)" if "kv \<in> set kvs" for kv
    using JObj [OF that, of "snd kv"] by (simp add: snds.simps)
  ultimately show ?case
    by (auto simp: validate_payload_value.simps [of depth "JObj kvs"] first_error_None list_all_iff
        MAX_COMMAND_PAYLOAD_DEPTH_def)
qed (auto simp: validate_payload_value.simps MAX_COMMAND_PAYLOAD_DEPTH_def MIN_SIGNED_INTEGER_def
      MAX_SIGNED_INTEGER_def)

section \<open>The escaping of the envelope\<close>

text \<open>The JSON encoder with the two line separators escaped as well.\<close>

definition esc_envelope :: "nat \<Rightarrow> ustr" where
  "esc_envelope c = (if c = 8232 \<or> c = 8233 then [92, 117] @ hex4 c else esc_plain c)"

lemma unesc_envelope:
  assumes "scalar c"
  shows "unesc (esc_envelope c @ x) = Some (c, x)"
proof (cases "c = 8232 \<or> c = 8233")
  case True
  then have "unesc (92 # 117 # hex4 c @ x) = Some (c, x)"
    by (auto simp: unesc_def unhex4_hex4)
  then show ?thesis using True by (simp add: esc_envelope_def)
next
  case False
  then show ?thesis using unesc_plain [OF assms] by (simp add: esc_envelope_def)
qed

lemma esc_envelope_head: "esc_envelope c \<noteq> []" "hd (esc_envelope c) \<noteq> 34"
  using esc_head [of c] by (auto simp: esc_envelope_def)

interpretation envelope: escape esc_envelope
proof
  show "esc_envelope c \<noteq> []" "hd (esc_envelope c) \<noteq> 34" for c
    by (rule esc_envelope_head)+
  show "c = e \<and> x = y" if "scalar c" "scalar e" "esc_envelope c @ x = esc_envelope e @ y" for c e x y
    using that by (metis unesc_envelope option.inject prod.inject)
qed

lemma escape_separators_append [simp]:
  "escape_separators (a @ b) = escape_separators a @ escape_separators b"
  by (simp add: escape_separators_def)

lemma escape_separators_id:
  "\<forall>c \<in> set a. c < 8232 \<Longrightarrow> escape_separators a = a"
  by (induction a) (simp_all add: escape_separators_def)

lemma escape_separators_Cons [simp]:
  "c < 8232 \<Longrightarrow> escape_separators (c # a) = c # escape_separators a"
  by (simp add: escape_separators_def)

lemma escape_separators_Nil [simp]: "escape_separators [] = []"
  by (simp add: escape_separators_def)

lemma escape_separators_join:
  "escape_separators (join_commas xs) = join_commas (map escape_separators xs)"
  by (induction xs rule: join_commas.induct) simp_all

lemma hex4_small: "c \<in> set (hex4 n) \<Longrightarrow> c < 8232"
  by (auto simp: hex4_def hexdigit_def)

lemma escape_separators_esc: "escape_separators (esc_plain c) = esc_envelope c"
proof (cases "c = 8232 \<or> c = 8233")
  case True
  then show ?thesis
    by (auto simp: esc_envelope_def esc_plain_def short_escape_def escape_separators_def ustr_def
        hex4_def hexdigit_def)
next
  case False
  show ?thesis
  proof (cases "short_escape c")
    case None
    then show ?thesis
      using False hex4_small [of _ c] escape_separators_id [of "hex4 c"]
      by (auto simp: esc_envelope_def esc_plain_def escape_separators_def)
  next
    case (Some e)
    then have "\<forall>k \<in> set e. k < 8232" by (auto simp: short_escape_def split: if_splits)
    then show ?thesis using False Some
      by (simp add: esc_envelope_def esc_plain_def escape_separators_id)
  qed
qed

lemma escape_separators_quote: "escape_separators (quote esc_plain s) = quote esc_envelope s"
  by (induction s) (simp_all add: quote_def escape_separators_esc)

lemma escape_separators_render:
  "int64_values j \<Longrightarrow> escape_separators (render esc_plain j) = render esc_envelope j"
proof (induction j)
  case (JInt i)
  have "\<forall>c \<in> set (int_repr i). c < 8232" using int_repr_chars [of _ i] by fastforce
  then show ?case by (simp add: escape_separators_id)
next
  case (JArr xs)
  then have m: "map (\<lambda>x. escape_separators (render esc_plain x)) xs = map (render esc_envelope) xs"
    by (auto simp: list_all_iff)
  show ?case by (simp add: escape_separators_join comp_def m)
next
  case (JObj kvs)
  have "escape_separators (render esc_plain (snd kv)) = render esc_envelope (snd kv)"
    if "kv \<in> set kvs" for kv
    using JObj.IH [OF that, of "snd kv"] JObj.prems that by (simp add: snds.simps list_all_iff)
  then have m: "map (\<lambda>kv. quote esc_envelope (fst kv) @ 58 # escape_separators (render esc_plain (snd kv))) kvs =
      map (\<lambda>kv. quote esc_envelope (fst kv) @ 58 # render esc_envelope (snd kv)) kvs"
    by simp
  show ?case by (simp add: escape_separators_join comp_def escape_separators_quote m)
qed (auto simp: escape_separators_quote ustr_def)

lemma int64_values_normalise [simp]: "int64_values (normalise j) = int64_values j"
proof (induction j)
  case (JObj kvs)
  have "int64_values (normalise (snd kv)) = int64_values (snd kv)" if "kv \<in> set kvs" for kv
    using JObj.IH [OF that, of "snd kv"] by (simp add: snds.simps)
  then show ?case by (auto simp: list_all_iff)
qed (auto simp: list_all_iff)

lemma escape_separators_dumps:
  "int64_values j \<Longrightarrow> escape_separators (dumps esc_plain j) = dumps esc_envelope j"
  by (simp add: dumps_def escape_separators_render)

section \<open>What encodes is well formed\<close>

text \<open>A Python dictionary has no repeated key, at any depth.\<close>

fun keys_distinct :: "json \<Rightarrow> bool" where
  "keys_distinct (JArr xs) = list_all keys_distinct xs"
| "keys_distinct (JObj kvs) = (distinct (map fst kvs) \<and> list_all (\<lambda>kv. keys_distinct (snd kv)) kvs)"
| "keys_distinct j = True"

lemma distinct_keys_sort: "distinct (map fst (sort_key fst xs)) = distinct (map fst xs)"
  for xs :: "('a :: linorder \<times> 'b) list"
  by (rule mset_eq_imp_distinct_iff) simp

lemma keys_distinct_normalise [simp]: "keys_distinct (normalise j) = keys_distinct j"
proof (induction j)
  case (JObj kvs)
  have "keys_distinct (normalise (snd kv)) = keys_distinct (snd kv)" if "kv \<in> set kvs" for kv
    using JObj.IH [OF that, of "snd kv"] by (simp add: snds.simps)
  then show ?case by (auto simp: list_all_iff distinct_keys_sort comp_def)
qed (auto simp: list_all_iff)

lemma scalar_esc_plain: "list_all scalar (esc_plain c) \<Longrightarrow> scalar c"
  by (auto simp: esc_plain_def short_escape_def scalar_def split: option.splits if_splits)

lemma scalar_quote: "list_all scalar (quote esc_plain s) \<Longrightarrow> list_all scalar s"
  using scalar_esc_plain by (induction s) (simp_all add: quote_def)

lemma list_all_join_commas: "list_all P (join_commas xs) \<Longrightarrow> x \<in> set xs \<Longrightarrow> list_all P x"
  by (induction xs rule: join_commas.induct) auto

lemma render_scalar_wf:
  "int64_values j \<Longrightarrow> keys_distinct j \<Longrightarrow> list_all scalar (render esc_plain j) \<Longrightarrow> json_wf j"
proof (induction j)
  case (JStr s)
  then show ?case by (simp add: scalar_quote)
next
  case (JArr xs)
  have j: "list_all scalar (join_commas (map (render esc_plain) xs))" using JArr.prems(3) by simp
  have "json_wf x" if x: "x \<in> set xs" for x
  proof (rule JArr.IH [OF x])
    show "int64_values x" "keys_distinct x" using JArr.prems x by (simp_all add: list_all_iff)
    show "list_all scalar (render esc_plain x)"
      by (rule list_all_join_commas [OF j]) (use x in simp)
  qed
  then show ?case by (simp add: list_all_iff)
next
  case (JObj kvs)
  let ?item = "\<lambda>kv. quote esc_plain (fst kv) @ 58 # render esc_plain (snd kv)"
  have j: "list_all scalar (join_commas (map ?item kvs))" using JObj.prems(3) by simp
  have "list_all scalar (fst kv) \<and> json_wf (snd kv)" if kv: "kv \<in> set kvs" for kv
  proof -
    have i: "list_all scalar (?item kv)"
      by (rule list_all_join_commas [OF j]) (use kv in simp)
    then have "list_all scalar (quote esc_plain (fst kv))" "list_all scalar (render esc_plain (snd kv))"
      by simp_all
    moreover have "int64_values (snd kv)" "keys_distinct (snd kv)"
      using JObj.prems kv by (simp_all add: list_all_iff)
    moreover have "snd kv \<in> Basic_BNFs.snds kv" by (simp add: snds.simps)
    ultimately show ?thesis using JObj.IH [OF kv] scalar_quote by blast
  qed
  then show ?case using JObj.prems(2) by (simp add: list_all_iff)
qed auto

lemma scalar_escape_separators: "list_all scalar (escape_separators s) \<Longrightarrow> list_all scalar s"
proof (induction s)
  case (Cons c s)
  then show ?case
    by (cases "c = 8232 \<or> c = 8233") (auto simp: escape_separators_def scalar_def)
qed simp

lemma envelope_encoding_inj:
  assumes "int64_values j" "keys_distinct j" "int64_values k" "keys_distinct k"
    and "encode_utf8 (escape_separators (dumps esc_plain j)) = Some b"
    and "encode_utf8 (escape_separators (dumps esc_plain k)) = Some b"
  shows "normalise j = normalise k"
proof -
  have wf: "json_wf (normalise x)"
    if "int64_values x" "keys_distinct x" "encode_utf8 (escape_separators (dumps esc_plain x)) = Some b" for x
    using that encode_utf8_scalar [OF that(3)]
    by (intro render_scalar_wf) (simp_all add: dumps_def scalar_escape_separators)
  have "dumps esc_envelope j = dumps esc_envelope k"
    using encode_utf8_inj [OF assms(5,6)] assms by (simp add: escape_separators_dumps)
  then show ?thesis
    using envelope.render_prefix [of "normalise j" "normalise k" "[]" "[]"] wf [of j] wf [of k] assms
    by (simp add: dumps_def)
qed

section \<open>What the signature covers\<close>

lemma validate_command_payload_Inr:
  "validate_command_payload p = Inr q \<longleftrightarrow> q = p \<and> is_object p \<and> json_depth p \<le> 16 \<and> int64_values p \<and>
     (\<exists>bs. encode_utf8 (dumps esc_plain p) = Some bs \<and> length bs \<le> 61440)"
  using validate_payload_value_iff [of 0 p]
  by (auto simp: validate_command_payload_def MAX_COMMAND_PAYLOAD_BYTES_def split: option.splits if_splits)

lemma validate_command_window_Inr:
  "validate_command_window i e = Inr (s, t) \<longleftrightarrow>
     parse_command_time ''issued_at'' i = Inr s \<and> parse_command_time ''expires_at'' e = Inr t \<and>
     civil_instant s < civil_instant t \<and> civil_instant t \<le> civil_instant s + seconds 86400"
  by (auto simp: validate_command_window_def MAX_COMMAND_LIFETIME_SECONDS_def split: sum.splits if_splits)

lemma check_signing_key_id_None:
  "check_signing_key_id v key = None \<longleftrightarrow>
     (if v = COMMAND_ENVELOPE_V3 then (\<exists>k. key = Some k \<and> key_id_ok k) else key = None)"
  by (auto simp: check_signing_key_id_def key_id_ok_def split: option.splits)

text \<open>The conjunction of all the guards, and the encoding they lead to.\<close>

lemma canonical_command_bytes_Inr:
  "canonical_command_bytes v sv c a k p i e n key = Inr b \<longleftrightarrow>
     v \<in> set SUPPORTED_COMMAND_ENVELOPE_VERSIONS \<and> sv = Some 1 \<and> c \<noteq> [] \<and> a \<noteq> [] \<and>
     k \<in> set (map ustr SUPPORTED_COMMAND_KINDS) \<and> nonce_ok n \<and>
     (\<exists>s t. validate_command_window i e = Inr (s, t)) \<and>
     check_signing_key_id v key = None \<and> validate_command_payload p = Inr p \<and>
     encode_utf8 (escape_separators (dumps esc_plain (envelope_document v 1 c a k p i e n key))) = Some b \<and>
     length b \<le> 65536"
proof -
  have "[] \<notin> set (map ustr SUPPORTED_COMMAND_KINDS)"
    by (simp add: SUPPORTED_COMMAND_KINDS_def ustr_def)
  moreover have "\<not> nonce_ok []" by (simp add: nonce_ok_def)
  moreover have "validate_command_payload p = Inr q \<Longrightarrow> q = p" for q
    by (simp add: validate_command_payload_Inr)
  ultimately show ?thesis
    unfolding canonical_command_bytes_def COMMAND_SCHEMA_VERSION_def MAX_COMMAND_ENVELOPE_BYTES_def
    by (cases sv; cases "validate_command_window i e"; cases "check_signing_key_id v key";
        cases "validate_command_payload p";
        cases "encode_utf8 (escape_separators (dumps esc_plain (envelope_document v 1 c a k p i e n key)))")
      (auto simp del: escape_separators_append)
qed

text \<open>The keys of an envelope are distinct, so that its encoding determines each of them.\<close>

lemma envelope_document_keys:
  "keys_distinct (envelope_document v sv c a k p i e n key) = keys_distinct p"
  by (simp add: envelope_document_def ustr_def jopt_def split: option.split)

lemma envelope_document_int64:
  "int64_values p \<Longrightarrow> int64_values (envelope_document v 1 c a k p i e n key)"
  by (simp add: envelope_document_def jopt_def split: option.split)

definition envelope_fields ::
  "ustr \<Rightarrow> int \<Rightarrow> ustr \<Rightarrow> ustr \<Rightarrow> ustr \<Rightarrow> json \<Rightarrow> ustr \<Rightarrow> ustr \<Rightarrow> ustr \<Rightarrow> ustr option \<Rightarrow> (ustr \<times> json) list" where
  "envelope_fields v sv c a k p i e n key =
     (case envelope_document v sv c a k p i e n key of JObj kvs \<Rightarrow> kvs | _ \<Rightarrow> [])"

lemma envelope_document_fields:
  "envelope_document v sv c a k p i e n key = JObj (envelope_fields v sv c a k p i e n key)"
  by (simp add: envelope_fields_def envelope_document_def)

lemma envelope_fields_mem:
  "(ustr ''agent_id'', JStr a) \<in> set (envelope_fields v sv c a k p i e n key)"
  "(ustr ''command_id'', JStr c) \<in> set (envelope_fields v sv c a k p i e n key)"
  "(ustr ''envelope_version'', JStr v) \<in> set (envelope_fields v sv c a k p i e n key)"
  "(ustr ''expires_at'', JStr e) \<in> set (envelope_fields v sv c a k p i e n key)"
  "(ustr ''issued_at'', JStr i) \<in> set (envelope_fields v sv c a k p i e n key)"
  "(ustr ''kind'', JStr k) \<in> set (envelope_fields v sv c a k p i e n key)"
  "(ustr ''nonce'', JStr n) \<in> set (envelope_fields v sv c a k p i e n key)"
  "(ustr ''payload'', p) \<in> set (envelope_fields v sv c a k p i e n key)"
  "v = COMMAND_ENVELOPE_V3 \<Longrightarrow>
    (ustr ''signing_key_id'', jopt JStr key) \<in> set (envelope_fields v sv c a k p i e n key)"
  by (simp_all add: envelope_fields_def envelope_document_def)

lemma envelope_document_inj:
  assumes n: "normalise (envelope_document v 1 c a k p i e n key) =
      normalise (envelope_document v' 1 c' a' k' p' i' e' n' key')"
    and d: "keys_distinct p'"
    and k: "check_signing_key_id v key = None" "check_signing_key_id v' key' = None"
  shows "v = v' \<and> c = c' \<and> a = a' \<and> k = k' \<and> normalise p = normalise p' \<and> i = i' \<and> e = e' \<and>
    n = n' \<and> key = key'"
proof -
  let ?F = "envelope_fields v 1 c a k p i e n key"
  let ?G = "envelope_fields v' 1 c' a' k' p' i' e' n' key'"
  have nn: "normalise (JObj ?F) = normalise (JObj ?G)"
    using n by (simp only: envelope_document_fields)
  have dd: "distinct (map fst ?G)"
    using d envelope_document_keys [of v' 1 c' a' k' p' i' e' n' key']
    by (simp add: envelope_document_fields)
  note field = normalise_JObj_field [OF nn dd]
  have a: "a = a'" using field [OF envelope_fields_mem(1) envelope_fields_mem(1)] by simp
  have c: "c = c'" using field [OF envelope_fields_mem(2) envelope_fields_mem(2)] by simp
  have v: "v = v'" using field [OF envelope_fields_mem(3) envelope_fields_mem(3)] by simp
  have e: "e = e'" using field [OF envelope_fields_mem(4) envelope_fields_mem(4)] by simp
  have i: "i = i'" using field [OF envelope_fields_mem(5) envelope_fields_mem(5)] by simp
  have kk: "k = k'" using field [OF envelope_fields_mem(6) envelope_fields_mem(6)] by simp
  have nc: "n = n'" using field [OF envelope_fields_mem(7) envelope_fields_mem(7)] by simp
  have p: "normalise p = normalise p'"
    using field [OF envelope_fields_mem(8) envelope_fields_mem(8)] .
  have "key = key'"
  proof (cases "v = COMMAND_ENVELOPE_V3")
    case True
    have "normalise (jopt JStr key) = normalise (jopt JStr key')"
      using field [OF envelope_fields_mem(9) envelope_fields_mem(9)] True v by simp
    then show ?thesis
      using k True v by (auto simp: check_signing_key_id_None jopt_def)
  qed (use k v in \<open>simp add: check_signing_key_id_None\<close>)
  with a c v e i kk nc p show ?thesis by blast
qed

text \<open>
  C5. The canonical bytes bind the command. Two envelopes that encode to the same bytes, and
  so carry the same signature, agree in the version, the schema, the command, the endpoint,
  the kind, the validity window, the nonce, the signing key and the payload up to the order
  of its keys. The only hypothesis is that the payloads are dictionaries, without repeated
  keys.
\<close>

theorem canonical_command_bytes_bind:
  assumes "canonical_command_bytes v sv c a k p i e n key = Inr b"
    and "canonical_command_bytes v' sv' c' a' k' p' i' e' n' key' = Inr b"
    and "keys_distinct p" "keys_distinct p'"
  shows "v = v' \<and> sv = sv' \<and> c = c' \<and> a = a' \<and> k = k' \<and> normalise p = normalise p' \<and> i = i' \<and>
    e = e' \<and> n = n' \<and> key = key'"
proof -
  note A = assms(1) [unfolded canonical_command_bytes_Inr]
  note B = assms(2) [unfolded canonical_command_bytes_Inr]
  have "int64_values p" "int64_values p'"
    using A B by (simp_all add: validate_command_payload_Inr)
  then have "normalise (envelope_document v 1 c a k p i e n key) =
      normalise (envelope_document v' 1 c' a' k' p' i' e' n' key')"
    using A B assms(3,4)
    by (intro envelope_encoding_inj [where b = b]) (simp_all add: envelope_document_keys envelope_document_int64)
  from envelope_document_inj [OF this assms(4)] A B show ?thesis by simp
qed

definition sample_time :: "nat \<Rightarrow> civil" where
  "sample_time m = \<lparr>c_year = 2025, c_month = 1, c_day = 31, c_hour = 23, c_minute = m, c_second = 0, c_micro = 500\<rparr>"

definition sample_payload :: "bool \<Rightarrow> json" where
  "sample_payload swapped = JObj ((if swapped then rev else id)
     [(ustr ''delay'', JInt 30), (ustr ''note'', JStr [8232, 233])])"

definition sample_envelope :: "json \<Rightarrow> envelope_error + nat list" where
  "sample_envelope payload = canonical_command_bytes COMMAND_ENVELOPE_V3 (Some 1) (ustr ''c1'')
     (ustr ''a1'') (ustr ''reboot'') payload (format_command_time (sample_time 10))
     (format_command_time (sample_time 20)) (ustr ''AAAAAAAAAAAAAAAAAAAAAA'') (Some (ustr ''key-1''))"

lemma sample_window:
  "validate_command_window (format_command_time (sample_time 10)) (format_command_time (sample_time 20)) =
     Inr (sample_time 10, sample_time 20)"
  unfolding validate_command_window_Inr parse_command_time_Inr
  by (simp add: sample_time_def valid_civil_def valid_date_def days_in_month_def civil_instant_def seconds_def)

lemma encode_utf8_length: "list_all scalar s \<Longrightarrow> \<exists>b. encode_utf8 s = Some b \<and> length b \<le> 4 * length s"
proof -
  assume "list_all scalar s"
  moreover have "length (concat (map utf8_char s)) \<le> 4 * length s"
    by (induction s) (simp_all add: utf8_char_def)
  ultimately show ?thesis by (simp add: encode_utf8_def)
qed

lemma sample_normalise:
  "normalise (sample_payload x) = JObj [(ustr ''delay'', JInt 30), (ustr ''note'', JStr [8232, 233])]"
  by (simp add: sample_payload_def ustr_def)

definition sample_document :: "json \<Rightarrow> json" where
  "sample_document payload = envelope_document COMMAND_ENVELOPE_V3 1 (ustr ''c1'') (ustr ''a1'') (ustr ''reboot'')
     payload (format_command_time (sample_time 10)) (format_command_time (sample_time 20))
     (ustr ''AAAAAAAAAAAAAAAAAAAAAA'') (Some (ustr ''key-1''))"

lemma sample_text:
  "list_all scalar (escape_separators (dumps esc_plain (sample_document (sample_payload x)))) \<and>
   length (escape_separators (dumps esc_plain (sample_document (sample_payload x)))) \<le> 1000"
  apply (simp add: sample_document_def dumps_def envelope_document_def sample_normalise jopt_def
      COMMAND_ENVELOPE_V3_def ustr_def del: render.simps)
  apply (simp add: format_command_time_def sample_time_def pad2_def pad4_def pad6_def)
  apply (simp add: esc_plain_def short_escape_def quote_def ustr_def int_repr_def digits10.simps)
  apply (simp add: escape_separators_def ustr_def scalar_def)
  done

lemma sample_payload_accepted: "validate_command_payload (sample_payload x) = Inr (sample_payload x)"
proof -
  have "list_all scalar (dumps esc_plain (sample_payload x)) \<and> length (dumps esc_plain (sample_payload x)) \<le> 1000"
    by (simp add: dumps_def sample_normalise ustr_def esc_plain_def short_escape_def quote_def int_repr_def
        digits10.simps scalar_def)
  then have "\<exists>b. encode_utf8 (dumps esc_plain (sample_payload x)) = Some b \<and> length b \<le> 61440"
    using encode_utf8_length [of "dumps esc_plain (sample_payload x)"] by auto
  then show ?thesis
    unfolding validate_command_payload_Inr
    by (cases x) (simp_all add: sample_payload_def is_object_def)
qed

lemma sample_document_normalise:
  "normalise (sample_document (sample_payload x)) = normalise (sample_document (sample_payload True))"
  unfolding sample_document_def envelope_document_def by (simp add: sample_normalise)

lemma sample_envelope_accepted:
  "\<exists>b. sample_envelope (sample_payload False) = Inr b \<and> sample_envelope (sample_payload True) = Inr b"
proof -
  obtain b where b: "encode_utf8 (escape_separators (dumps esc_plain (sample_document (sample_payload True)))) = Some b"
    "length b \<le> 65536"
    using encode_utf8_length [OF conjunct1 [OF sample_text [of True]]] sample_text [of True] by auto
  have "dumps esc_plain (sample_document (sample_payload False)) = dumps esc_plain (sample_document (sample_payload True))"
    using sample_document_normalise [of False] by (simp add: dumps_def)
  then have "sample_envelope (sample_payload x) = Inr b" for x
    unfolding sample_envelope_def canonical_command_bytes_Inr
    using b sample_window sample_payload_accepted [of x]
    by (cases x) (simp_all add: sample_document_def check_signing_key_id_None nonce_ok_def key_id_ok_def alnum_def
        ustr_def SUPPORTED_COMMAND_ENVELOPE_VERSIONS_def SUPPORTED_COMMAND_KINDS_def)
  then show ?thesis by blast
qed

theorem canonical_command_bytes_bind_witness:
  "normalise (sample_payload False) = normalise (sample_payload True)"
proof -
  obtain b where b: "sample_envelope (sample_payload False) = Inr b" "sample_envelope (sample_payload True) = Inr b"
    using sample_envelope_accepted by blast
  have "keys_distinct (sample_payload x)" for x
    by (simp add: sample_payload_def ustr_def)
  then show ?thesis
    using canonical_command_bytes_bind [OF b [unfolded sample_envelope_def]] by blast
qed

definition all_kinds :: "CommandKind list" where
  "all_kinds = [powershell, shell, collect_inventory, scan_updates, install_updates,
     file_upload, file_download, registry_read, registry_write, registry_delete,
     remediation_rollback, reboot, shutdown, cancel_power_action, query_event_log,
     scan_packages, install_packages, deploy_software, list_services, control_service,
     list_processes, terminate_process, agent_self_update, agent_update_rollback]"

text \<open>
  C30. What the server signs is within the bounds of the format: a negotiable version and a
  known kind, a lifetime of at most a day that does not end before it starts, a payload of at
  most sixteen levels and signed 64-bit integers without a floating-point number, and at most
  64 KiB of bytes. Conversely, a command within these bounds whose strings encode is never
  refused.
\<close>

theorem canonical_command_bytes_bounds:
  "(\<exists>b. canonical_command_bytes v sv c a k p i e n key = Inr b) \<longleftrightarrow>
     v \<in> {COMMAND_ENVELOPE_V2, COMMAND_ENVELOPE_V3} \<and> sv = Some 1 \<and> c \<noteq> [] \<and> a \<noteq> [] \<and>
     k \<in> ustr ` kind_value ` UNIV \<and> nonce_ok n \<and>
     (\<exists>s t. i = format_command_time s \<and> e = format_command_time t \<and>
        valid_civil s \<and> c_year s < 10000 \<and> valid_civil t \<and> c_year t < 10000 \<and>
        civil_instant s < civil_instant t \<and> civil_instant t \<le> civil_instant s + seconds 86400) \<and>
     (if v = COMMAND_ENVELOPE_V3 then \<exists>kid. key = Some kid \<and> key_id_ok kid else key = None) \<and>
     is_object p \<and> json_depth p \<le> 16 \<and> int64_values p \<and>
     (\<exists>bs. encode_utf8 (dumps esc_plain p) = Some bs \<and> length bs \<le> 60 * 1024) \<and>
     (\<exists>b. encode_utf8 (dumps esc_envelope (envelope_document v 1 c a k p i e n key)) = Some b \<and>
        length b \<le> 64 * 1024)"
proof -
  have K: "set (map ustr SUPPORTED_COMMAND_KINDS) = ustr ` kind_value ` UNIV"
  proof -
    have "kind_value x \<in> set SUPPORTED_COMMAND_KINDS" for x
      by (cases x) (simp_all add: SUPPORTED_COMMAND_KINDS_def)
    moreover have "set SUPPORTED_COMMAND_KINDS \<subseteq> kind_value ` set all_kinds"
      by (simp add: SUPPORTED_COMMAND_KINDS_def all_kinds_def)
    ultimately have "set SUPPORTED_COMMAND_KINDS = kind_value ` UNIV" by blast
    then show ?thesis by simp
  qed
  have P: "validate_command_payload p = Inr p \<longleftrightarrow> is_object p \<and> json_depth p \<le> 16 \<and> int64_values p \<and>
      (\<exists>bs. encode_utf8 (dumps esc_plain p) = Some bs \<and> length bs \<le> 60 * 1024)"
    by (simp add: validate_command_payload_Inr)
  have W: "(\<exists>s t. validate_command_window i e = Inr (s, t)) \<longleftrightarrow>
     (\<exists>s t. i = format_command_time s \<and> e = format_command_time t \<and>
        valid_civil s \<and> c_year s < 10000 \<and> valid_civil t \<and> c_year t < 10000 \<and>
        civil_instant s < civil_instant t \<and> civil_instant t \<le> civil_instant s + seconds 86400)"
    unfolding validate_command_window_Inr parse_command_time_Inr by blast
  have V: "set SUPPORTED_COMMAND_ENVELOPE_VERSIONS = {COMMAND_ENVELOPE_V2, COMMAND_ENVELOPE_V3}"
    by (auto simp: SUPPORTED_COMMAND_ENVELOPE_VERSIONS_def)
  have E: "escape_separators (dumps esc_plain (envelope_document v 1 c a k p i e n key)) =
      dumps esc_envelope (envelope_document v 1 c a k p i e n key)" if "int64_values p"
    using that by (simp add: escape_separators_dumps envelope_document_int64)
  show ?thesis
  proof (cases "int64_values p")
    case True
    show ?thesis
      unfolding canonical_command_bytes_Inr check_signing_key_id_None K P W V E [OF True]
      by (simp del: format_nonempty)
  next
    case False
    then show ?thesis unfolding canonical_command_bytes_Inr P by blast
  qed
qed

end
