(* ===== verification/Audit_Chain.thy ===== *)
theory Audit_Chain
  imports Prelude Json_Inj
begin

text \<open>
  The tamper-evident audit chain (\<open>server/app/core/audit.py\<close>). An event commits to the hash of
  the one before it and, in the current schema, to its position. SHA-256 is a parameter
  \<open>sha256\<close> from the encoded document to the hexadecimal digest; the sanitised detail and the
  ISO form of the clock reading are arguments of \<open>record\<close>.
\<close>

section \<open>Events and operations\<close>

record AuditEvent =
  ev_id :: string
  ev_seq :: "int option"
  ev_hash_schema :: int
  ev_ts :: instant
  ev_ts_iso :: ustr
  ev_actor :: string
  ev_actor_user_id :: "string option"
  ev_action :: string
  ev_agent_id :: "string option"
  ev_enrollment_token_id :: "string option"
  ev_organization_id :: "string option"
  ev_source_ip :: "string option"
  ev_user_agent :: "string option"
  ev_detail :: json
  ev_prev_hash :: string
  ev_event_hash :: string

definition GENESIS :: string where "GENESIS = replicate 64 (CHR ''0'')"

definition HASH_SCHEMA_LEGACY :: int where "HASH_SCHEMA_LEGACY = 1"

definition HASH_SCHEMA_SEQUENCED :: int where "HASH_SCHEMA_SEQUENCED = 2"

definition event_document ::
  "string \<Rightarrow> ustr \<Rightarrow> string \<Rightarrow> string \<Rightarrow> string option \<Rightarrow> json \<Rightarrow> int option \<Rightarrow> int \<Rightarrow> json" where
  "event_document prev_hash ts_iso actor action agent_id detail seq hash_schema =
     JObj ([(ustr ''prev_hash'', jstr prev_hash), (ustr ''ts'', JStr ts_iso), (ustr ''actor'', jstr actor),
        (ustr ''action'', jstr action), (ustr ''agent_id'', jopt jstr agent_id), (ustr ''detail'', detail)]
       @ (if hash_schema \<ge> HASH_SCHEMA_SEQUENCED then [(ustr ''seq'', jopt JInt seq)] else []))"

definition hash_event ::
  "(ustr \<Rightarrow> string) \<Rightarrow> string \<Rightarrow> ustr \<Rightarrow> string \<Rightarrow> string \<Rightarrow> string option \<Rightarrow> json \<Rightarrow> int option \<Rightarrow> int \<Rightarrow> string" where
  "hash_event sha256 prev_hash ts_iso actor action agent_id detail seq hash_schema =
     sha256 (dumps esc_ascii (event_document prev_hash ts_iso actor action agent_id detail seq hash_schema))"

text \<open>The order of the sequence, with a missing sequence last (and first when descending).\<close>

definition seq_key :: "AuditEvent \<Rightarrow> bool \<times> int" where
  "seq_key e = (case ev_seq e of None \<Rightarrow> (True, 0) | Some n \<Rightarrow> (False, n))"

definition in_sequence :: "AuditEvent list \<Rightarrow> AuditEvent list" where
  "in_sequence events = sort_key seq_key events"

definition chain_tail :: "AuditEvent list \<Rightarrow> string \<times> int" where
  "chain_tail events =
     (if events = [] then (GENESIS, 0)
      else let row = last (in_sequence events)
           in (ev_event_hash row, case ev_seq row of None \<Rightarrow> 0 | Some n \<Rightarrow> n))"

record audit_fields =
  af_id :: string
  af_action :: string
  af_actor :: string
  af_actor_user_id :: "string option"
  af_agent_id :: "string option"
  af_enrollment_token_id :: "string option"
  af_organization_id :: "string option"
  af_source_ip :: "string option"
  af_user_agent :: "string option"
  af_detail :: json

definition record_event ::
  "(ustr \<Rightarrow> string) \<Rightarrow> AuditEvent list \<Rightarrow> audit_fields \<Rightarrow> instant \<Rightarrow> ustr \<Rightarrow> AuditEvent list" where
  "record_event sha256 events f ts ts_iso =
     (case chain_tail events of (prev, prev_seq) \<Rightarrow>
        let seq = prev_seq + 1 in
        events @ [\<lparr>ev_id = af_id f, ev_seq = Some seq, ev_hash_schema = HASH_SCHEMA_SEQUENCED, ev_ts = ts,
          ev_ts_iso = ts_iso, ev_actor = af_actor f, ev_actor_user_id = af_actor_user_id f,
          ev_action = af_action f, ev_agent_id = af_agent_id f,
          ev_enrollment_token_id = af_enrollment_token_id f, ev_organization_id = af_organization_id f,
          ev_source_ip = af_source_ip f, ev_user_agent = af_user_agent f, ev_detail = af_detail f,
          ev_prev_hash = prev,
          ev_event_hash = hash_event sha256 prev ts_iso (af_actor f) (af_action f) (af_agent_id f) (af_detail f)
            (Some seq) HASH_SCHEMA_SEQUENCED\<rparr>])"

definition event_hash_of :: "(ustr \<Rightarrow> string) \<Rightarrow> AuditEvent \<Rightarrow> string" where
  "event_hash_of sha256 e = hash_event sha256 (ev_prev_hash e) (ev_ts_iso e) (ev_actor e) (ev_action e)
     (ev_agent_id e) (ev_detail e) (ev_seq e) (ev_hash_schema e)"

text \<open>The loop of \<open>verify_chain\<close>: the previous hash, the expected sequence and whether the cutover is past.\<close>

fun verify_from ::
  "(ustr \<Rightarrow> string) \<Rightarrow> string \<Rightarrow> int \<Rightarrow> bool \<Rightarrow> AuditEvent list \<Rightarrow> bool \<times> string option" where
  "verify_from sha256 prev expected_seq seen [] = (True, None)"
| "verify_from sha256 prev expected_seq seen (ev # events) =
     (if ev_seq ev \<noteq> Some expected_seq then (False, Some (ev_id ev))
      else if \<not> ev_hash_schema ev \<ge> HASH_SCHEMA_SEQUENCED \<and> seen then (False, Some (ev_id ev))
      else if ev_prev_hash ev \<noteq> prev then (False, Some (ev_id ev))
      else if event_hash_of sha256 ev \<noteq> ev_event_hash ev then (False, Some (ev_id ev))
      else verify_from sha256 (ev_event_hash ev) (expected_seq + 1)
             (seen \<or> ev_hash_schema ev \<ge> HASH_SCHEMA_SEQUENCED) events)"

definition verify_chain :: "(ustr \<Rightarrow> string) \<Rightarrow> AuditEvent list \<Rightarrow> int option \<Rightarrow> bool \<times> string option" where
  "verify_chain sha256 events through_seq =
     verify_from sha256 GENESIS 1 False (in_sequence
       (case through_seq of None \<Rightarrow> events
        | Some n \<Rightarrow> filter (\<lambda>e. case ev_seq e of None \<Rightarrow> False | Some k \<Rightarrow> k \<le> n) events))"

section \<open>The chain as a whole\<close>

text \<open>
  What the loop accepts, stated over the list: the sequence counts from one, every event
  names its predecessor's hash and carries its own, and no legacy event follows a sequenced
  one.
\<close>

fun linked :: "(ustr \<Rightarrow> string) \<Rightarrow> string \<Rightarrow> int \<Rightarrow> AuditEvent list \<Rightarrow> bool" where
  "linked sha256 prev k [] = True"
| "linked sha256 prev k (e # es) = (ev_seq e = Some k \<and> ev_prev_hash e = prev \<and>
     event_hash_of sha256 e = ev_event_hash e \<and> linked sha256 (ev_event_hash e) (k + 1) es)"

fun cutover_ok :: "bool \<Rightarrow> AuditEvent list \<Rightarrow> bool" where
  "cutover_ok seen [] = True"
| "cutover_ok seen (e # es) = ((ev_hash_schema e \<ge> 2 \<or> \<not> seen) \<and> cutover_ok (seen \<or> ev_hash_schema e \<ge> 2) es)"

lemma verify_from_iff:
  "verify_from sha256 prev k seen es = (True, None) \<longleftrightarrow> linked sha256 prev k es \<and> cutover_ok seen es"
  by (induction es arbitrary: prev k seen) (auto simp: HASH_SCHEMA_SEQUENCED_def)

lemma verify_from_result:
  "verify_from sha256 prev k seen es = (True, None) \<or> (\<exists>e \<in> set es. verify_from sha256 prev k seen es = (False, Some (ev_id e)))"
  by (induction es arbitrary: prev k seen) auto

lemma linked_append:
  "linked sha256 prev k (es @ fs) \<longleftrightarrow> linked sha256 prev k es \<and>
     linked sha256 (if es = [] then prev else ev_event_hash (last es)) (k + int (length es)) fs"
  by (induction es arbitrary: prev k) (auto simp: algebra_simps)

lemma cutover_append:
  "cutover_ok seen (es @ fs) \<longleftrightarrow> cutover_ok seen es \<and> cutover_ok (seen \<or> (\<exists>e \<in> set es. ev_hash_schema e \<ge> 2)) fs"
  by (induction es arbitrary: seen) (auto simp: disj_assoc)

lemma linked_seq: "linked sha256 prev k es \<Longrightarrow> i < length es \<Longrightarrow> ev_seq (es ! i) = Some (k + int i)"
  by (induction es arbitrary: prev k i) (auto simp: nth_Cons split: nat.splits)

lemma linked_sorted: "linked sha256 prev k es \<Longrightarrow> sorted (map seq_key es)"
proof -
  assume l: "linked sha256 prev k es"
  have "seq_key (es ! i) \<le> seq_key (es ! j)" if "i \<le> j" "j < length es" for i j
    using linked_seq [OF l, of i] linked_seq [OF l, of j] that by (simp add: seq_key_def)
  then show ?thesis by (simp add: sorted_iff_nth_mono)
qed

lemma in_sequence_sorted: "sorted (map seq_key es) \<Longrightarrow> in_sequence es = es"
  unfolding in_sequence_def by (rule sort_key_id_if_sorted)

text \<open>The events of an intact chain, in their sequence.\<close>

definition intact :: "(ustr \<Rightarrow> string) \<Rightarrow> AuditEvent list \<Rightarrow> bool" where
  "intact sha256 events \<longleftrightarrow> verify_chain sha256 events None = (True, None)"

lemma intact_iff:
  "intact sha256 events \<longleftrightarrow> linked sha256 GENESIS 1 (in_sequence events) \<and> cutover_ok False (in_sequence events)"
  by (simp add: intact_def verify_chain_def verify_from_iff)

end
