(* ===== verification/Audit_Chain_Correct.thy ===== *)
theory Audit_Chain_Correct
  imports Audit_Chain
begin

text \<open>
  What the audit chain guarantees: appending keeps it verifiable, the newest hash binds the
  whole history up to a collision of the hash function among the documents hashed, and what
  the hash does not cover.
\<close>

section \<open>Appending\<close>

lemma sort_key_snoc:
  assumes "\<forall>x \<in> set xs. f x \<le> f a"
  shows "sort_key f (xs @ [a]) = sort_key f xs @ [a]"
proof (rule properties_for_sort_key)
  show "mset (sort_key f xs @ [a]) = mset (xs @ [a])" by simp
  show "filter (\<lambda>x. f k = f x) (sort_key f xs @ [a]) = filter (\<lambda>x. f k = f x) (xs @ [a])" for k
    using sort_key_stable [of f "f k" xs] by (simp add: eq_commute [of "f k"])
  show "sorted (map f (sort_key f xs @ [a]))"
    using assms by (simp add: sorted_append)
qed

lemma in_sequence_set [simp]: "set (in_sequence es) = set es" "in_sequence [] = []" "in_sequence es = [] \<longleftrightarrow> es = []"
  "length (in_sequence es) = length es"
proof -
  show "set (in_sequence es) = set es" "in_sequence [] = []" "length (in_sequence es) = length es"
    by (simp_all add: in_sequence_def)
  then show "in_sequence es = [] \<longleftrightarrow> es = []" by (metis length_0_conv)
qed

lemma intact_tail:
  assumes "intact sha256 es"
  shows "chain_tail es = (if es = [] then GENESIS else ev_event_hash (last (in_sequence es)), int (length es))"
proof (cases "es = []")
  case False
  have l: "linked sha256 GENESIS 1 (in_sequence es)" using assms by (simp add: intact_iff)
  have "last (in_sequence es) = in_sequence es ! (length es - 1)"
    using False by (simp add: last_conv_nth)
  then have "ev_seq (last (in_sequence es)) = Some (int (length es))"
    using linked_seq [OF l, of "length es - 1"] False by (cases es) simp_all
  then show ?thesis using False by (simp add: chain_tail_def)
qed (simp add: chain_tail_def)

lemma intact_seq_le:
  assumes "intact sha256 es" "e \<in> set es"
  shows "\<exists>n. ev_seq e = Some n \<and> 1 \<le> n \<and> n \<le> int (length es)"
proof -
  have l: "linked sha256 GENESIS 1 (in_sequence es)" using assms(1) by (simp add: intact_iff)
  obtain i where "i < length es" "in_sequence es ! i = e"
    using assms(2) by (metis in_set_conv_nth in_sequence_set(1,4))
  then show ?thesis using linked_seq [OF l, of i] by auto
qed

lemma record_event_snoc:
  "\<exists>e. record_event sha256 es f ts isots = es @ [e] \<and> ev_seq e = Some (snd (chain_tail es) + 1) \<and>
     ev_prev_hash e = fst (chain_tail es) \<and> ev_event_hash e = event_hash_of sha256 e \<and> ev_hash_schema e = 2"
  by (simp add: record_event_def Let_def event_hash_of_def HASH_SCHEMA_SEQUENCED_def split: prod.splits)

lemma record_event_intact:
  assumes "intact sha256 es"
  obtains e where "record_event sha256 es f ts isots = es @ [e]" "ev_seq e = Some (int (length es) + 1)"
    "in_sequence (es @ [e]) = in_sequence es @ [e]" "intact sha256 (es @ [e])"
proof -
  obtain e where e: "record_event sha256 es f ts isots = es @ [e]" "ev_seq e = Some (snd (chain_tail es) + 1)"
    "ev_prev_hash e = fst (chain_tail es)" "ev_event_hash e = event_hash_of sha256 e" "ev_hash_schema e = 2"
    using record_event_snoc by metis
  note t = intact_tail [OF assms]
  have "seq_key x \<le> seq_key e" if "x \<in> set es" for x
    using intact_seq_le [OF assms that] e(2) t by (auto simp: seq_key_def)
  then have i: "in_sequence (es @ [e]) = in_sequence es @ [e]"
    by (simp add: in_sequence_def sort_key_snoc)
  then have "intact sha256 (es @ [e])"
    using assms e t by (auto simp: intact_iff linked_append cutover_append)
  then show thesis using that e(1,2) t i by simp
qed

lemma record_intact:
  assumes "intact sha256 es"
  shows "intact sha256 (record_event sha256 es f ts isots) \<and>
    (\<exists>e. record_event sha256 es f ts isots = es @ [e] \<and> ev_seq e = Some (int (length es) + 1))"
  by (rule record_event_intact [OF assms, of f ts isots]) simp

text \<open>
  C12. Appending keeps the chain intact. On an intact chain \<open>record\<close> adds one event with the
  next sequence number, changes no other, and the chain verifies again.
\<close>

theorem record_keeps_intact:
  assumes "intact sha256 es"
  shows "intact sha256 (record_event sha256 es f ts isots) \<and>
    (\<exists>e. record_event sha256 es f ts isots = es @ [e] \<and> ev_seq e = Some (int (length es) + 1))"
  using assms by (rule record_intact)

definition fields1 :: audit_fields where
  "fields1 = \<lparr>af_id = ''e1'', af_action = ''agent.offline'', af_actor = ''system'', af_actor_user_id = None,
     af_agent_id = None, af_enrollment_token_id = None, af_organization_id = Some ''org1'',
     af_source_ip = None, af_user_agent = None, af_detail = JObj []\<rparr>"

theorem record_keeps_intact_witness:
  "intact (map char_of) [] \<and> intact (map char_of) (record_event (map char_of) [] fields1 0 (ustr ''t''))"
proof -
  have i: "intact (map char_of) []" by (simp add: intact_iff)
  show ?thesis using i record_keeps_intact [OF i] by blast
qed

section \<open>Binding\<close>

definition event_text :: "AuditEvent \<Rightarrow> ustr" where
  "event_text e = dumps esc_ascii (event_document (ev_prev_hash e) (ev_ts_iso e) (ev_actor e) (ev_action e)
     (ev_agent_id e) (ev_detail e) (ev_seq e) (ev_hash_schema e))"

definition event_wf :: "AuditEvent \<Rightarrow> bool" where
  "event_wf e \<longleftrightarrow> list_all scalar (ev_ts_iso e) \<and> json_wf (ev_detail e)"

text \<open>The columns the hash covers, the detail up to the order of its keys.\<close>

definition hashed_content ::
  "AuditEvent \<Rightarrow> int option \<times> ustr \<times> string \<times> string \<times> string option \<times> json \<times> string \<times> string" where
  "hashed_content e = (ev_seq e, ev_ts_iso e, ev_actor e, ev_action e, ev_agent_id e, normalise (ev_detail e),
     ev_prev_hash e, ev_event_hash e)"

lemma event_hash_of_text: "event_hash_of sha256 e = sha256 (event_text e)"
  by (simp add: event_hash_of_def hash_event_def event_text_def)

definition event_fields :: "AuditEvent \<Rightarrow> (ustr \<times> json) list" where
  "event_fields e = (case event_document (ev_prev_hash e) (ev_ts_iso e) (ev_actor e) (ev_action e)
     (ev_agent_id e) (ev_detail e) (ev_seq e) (ev_hash_schema e) of JObj kvs \<Rightarrow> kvs | _ \<Rightarrow> [])"

lemma event_document_fields:
  "event_document (ev_prev_hash e) (ev_ts_iso e) (ev_actor e) (ev_action e)
     (ev_agent_id e) (ev_detail e) (ev_seq e) (ev_hash_schema e) = JObj (event_fields e)"
  by (simp add: event_fields_def event_document_def)

lemma event_fields_keys:
  "map fst (event_fields e) = map ustr ([''prev_hash'', ''ts'', ''actor'', ''action'', ''agent_id'', ''detail'']
     @ (if ev_hash_schema e \<ge> 2 then [''seq''] else []))"
  by (simp add: event_fields_def event_document_def HASH_SCHEMA_SEQUENCED_def)

lemma event_fields_distinct: "distinct (map fst (event_fields e))"
  unfolding event_fields_keys by (simp add: ustr_inj)

lemma event_fields_seq: "ustr ''seq'' \<in> set (map fst (event_fields e)) \<longleftrightarrow> ev_hash_schema e \<ge> 2"
  unfolding event_fields_keys by (cases "ev_hash_schema e \<ge> 2") (simp_all add: ustr_inj)

lemma event_fields_wf: "event_wf e \<Longrightarrow> json_wf (JObj (event_fields e))"
  using event_fields_distinct [of e]
  by (auto simp: event_wf_def event_fields_def event_document_def jopt_def split: option.splits)

lemma event_fields_mem:
  "(ustr ''prev_hash'', jstr (ev_prev_hash e)) \<in> set (event_fields e)"
  "(ustr ''ts'', JStr (ev_ts_iso e)) \<in> set (event_fields e)"
  "(ustr ''actor'', jstr (ev_actor e)) \<in> set (event_fields e)"
  "(ustr ''action'', jstr (ev_action e)) \<in> set (event_fields e)"
  "(ustr ''agent_id'', jopt jstr (ev_agent_id e)) \<in> set (event_fields e)"
  "(ustr ''detail'', ev_detail e) \<in> set (event_fields e)"
  "ev_hash_schema e \<ge> 2 \<Longrightarrow> (ustr ''seq'', jopt JInt (ev_seq e)) \<in> set (event_fields e)"
  by (simp_all add: event_fields_def event_document_def HASH_SCHEMA_SEQUENCED_def)

lemma jopt_jstr_normalise: "normalise (jopt jstr a) = normalise (jopt jstr b) \<Longrightarrow> a = b"
  by (auto simp: jopt_def jstr_def ustr_inj split: option.splits)

lemma jopt_JInt_normalise: "normalise (jopt JInt a) = normalise (jopt JInt b) \<Longrightarrow> a = b"
  by (auto simp: jopt_def split: option.splits)

lemma event_text_inj:
  assumes "event_text e = event_text f" "event_wf e" "event_wf f"
  shows "ev_prev_hash e = ev_prev_hash f \<and> ev_ts_iso e = ev_ts_iso f \<and> ev_actor e = ev_actor f \<and>
    ev_action e = ev_action f \<and> ev_agent_id e = ev_agent_id f \<and> normalise (ev_detail e) = normalise (ev_detail f) \<and>
    (ev_hash_schema e \<ge> 2 \<longrightarrow> ev_seq e = ev_seq f)"
proof -
  have n: "normalise (JObj (event_fields e)) = normalise (JObj (event_fields f))"
    by (rule ascii_doc.enc_inj [OF event_fields_wf [OF assms(2)] event_fields_wf [OF assms(3)]])
      (use assms(1) in \<open>simp only: event_text_def event_document_fields\<close>)
  note field = normalise_JObj_field [OF n event_fields_distinct]
  let ?g = "\<lambda>kv. (fst kv, normalise (snd kv))"
  have "set (map fst (map ?g (event_fields e))) = set (map fst (map ?g (event_fields f)))"
    using mset_eq_setD [OF normalise_JObj_mset [OF n]] by (simp only: set_map)
  moreover have "map fst (map ?g xs) = map fst xs" for xs :: "(ustr \<times> json) list" by simp
  ultimately have "set (map fst (event_fields e)) = set (map fst (event_fields f))" by (simp only:)
  then have "ev_hash_schema e \<ge> 2 \<longleftrightarrow> ev_hash_schema f \<ge> 2"
    using event_fields_seq by blast
  then have "ev_hash_schema e \<ge> 2 \<longrightarrow> ev_seq e = ev_seq f"
    using field [OF event_fields_mem(7) event_fields_mem(7)] jopt_JInt_normalise by blast
  moreover have "ev_prev_hash e = ev_prev_hash f"
    using field [OF event_fields_mem(1) event_fields_mem(1)] by (simp add: jstr_def ustr_inj)
  moreover have "ev_ts_iso e = ev_ts_iso f" using field [OF event_fields_mem(2) event_fields_mem(2)] by simp
  moreover have "ev_actor e = ev_actor f"
    using field [OF event_fields_mem(3) event_fields_mem(3)] by (simp add: jstr_def ustr_inj)
  moreover have "ev_action e = ev_action f"
    using field [OF event_fields_mem(4) event_fields_mem(4)] by (simp add: jstr_def ustr_inj)
  moreover have "ev_agent_id e = ev_agent_id f"
    using field [OF event_fields_mem(5) event_fields_mem(5)] by (rule jopt_jstr_normalise)
  moreover have "normalise (ev_detail e) = normalise (ev_detail f)"
    using field [OF event_fields_mem(6) event_fields_mem(6)] .
  ultimately show ?thesis by blast
qed

text \<open>Two chains of the same length whose newest hashes agree.\<close>

lemma linked_binds:
  assumes "length es = length fs" "linked sha256 p k es" "linked sha256 p k fs"
    and "es \<noteq> [] \<Longrightarrow> ev_event_hash (last es) = ev_event_hash (last fs)"
    and "inj_on sha256 (event_text ` (set es \<union> set fs))"
    and "\<forall>e \<in> set es \<union> set fs. event_wf e"
  shows "map hashed_content es = map hashed_content fs"
  using assms
proof (induction es arbitrary: fs rule: rev_induct)
  case (snoc e es)
  obtain f fs' where f: "fs = fs' @ [f]"
    using snoc.prems(1) by (cases fs rule: rev_cases) auto
  have len: "length es = length fs'" using snoc.prems(1) f by simp
  have l: "linked sha256 p k es" "linked sha256 p k fs'"
    using snoc.prems(2,3) f by (simp_all add: linked_append)
  have h: "event_hash_of sha256 e = ev_event_hash e" "event_hash_of sha256 f = ev_event_hash f"
    "ev_event_hash e = ev_event_hash f" "ev_seq e = ev_seq f"
    "ev_prev_hash e = (if es = [] then p else ev_event_hash (last es))"
    "ev_prev_hash f = (if fs' = [] then p else ev_event_hash (last fs'))"
    using snoc.prems(2-4) f len by (simp_all add: linked_append)
  have "sha256 (event_text e) = sha256 (event_text f)" using h(1-3) by (simp add: event_hash_of_text)
  then have t: "event_text e = event_text f"
    by (rule inj_onD [OF snoc.prems(5)]) (use f in simp_all)
  have c: "hashed_content e = hashed_content f"
    using event_text_inj [OF t] snoc.prems(6) f h(3,4) by (simp add: hashed_content_def)
  have "map hashed_content es = map hashed_content fs'"
  proof (rule snoc.IH [OF len l])
    show "ev_event_hash (last es) = ev_event_hash (last fs')" if "es \<noteq> []"
      using that h(5,6) c len by (auto simp: hashed_content_def)
    show "inj_on sha256 (event_text ` (set es \<union> set fs'))"
      by (rule inj_on_subset [OF snoc.prems(5)]) (use f in auto)
    show "\<forall>e \<in> set es \<union> set fs'. event_wf e" using snoc.prems(6) f by simp
  qed
  with c f show ?case by simp
qed simp

text \<open>
  C6. The newest hash commits to the whole history. Two intact chains whose newest events
  carry the same hash, one of them sequenced, have the same number of events and agree,
  position by position, in every hashed column: the sequence, the time, the actor, the
  action, the endpoint, the detail up to key order and the hashes. The hypothesis on SHA-256
  is that it has no collision among the documents of the events of the two chains.
\<close>

theorem newest_hash_binds_history:
  assumes "intact sha256 es" "intact sha256 fs" "es \<noteq> []" "fs \<noteq> []"
    and "ev_event_hash (last (in_sequence es)) = ev_event_hash (last (in_sequence fs))"
    and "ev_hash_schema (last (in_sequence es)) \<ge> 2"
    and "inj_on sha256 (event_text ` (set es \<union> set fs))"
    and "\<forall>e \<in> set es \<union> set fs. event_wf e"
  shows "map hashed_content (in_sequence es) = map hashed_content (in_sequence fs)"
proof (rule linked_binds)
  let ?e = "last (in_sequence es)" and ?f = "last (in_sequence fs)"
  have l: "linked sha256 GENESIS 1 (in_sequence es)" "linked sha256 GENESIS 1 (in_sequence fs)"
    using assms(1,2) by (simp_all add: intact_iff)
  then show "linked sha256 GENESIS 1 (in_sequence es)" "linked sha256 GENESIS 1 (in_sequence fs)" by blast+
  have mem: "?e \<in> set es" "?f \<in> set fs"
    using assms(3,4) last_in_set [of "in_sequence es"] last_in_set [of "in_sequence fs"] by simp_all
  have self: "event_hash_of sha256 ?e = ev_event_hash ?e" "event_hash_of sha256 ?f = ev_event_hash ?f"
    using l assms(3,4) linked_append [of sha256 GENESIS 1 "butlast (in_sequence es)" "[?e]"]
      linked_append [of sha256 GENESIS 1 "butlast (in_sequence fs)" "[?f]"] by simp_all
  then have "sha256 (event_text ?e) = sha256 (event_text ?f)"
    using assms(5) by (simp add: event_hash_of_text)
  then have "event_text ?e = event_text ?f"
    by (rule inj_onD [OF assms(7)]) (use mem in simp_all)
  then have "ev_seq ?e = ev_seq ?f"
    using event_text_inj [of ?e ?f] assms(6,8) mem by blast
  moreover have "ev_seq ?e = Some (int (length es))" "ev_seq ?f = Some (int (length fs))"
    using linked_seq [OF l(1), of "length es - 1"] linked_seq [OF l(2), of "length fs - 1"] assms(3,4)
    by (cases es; cases fs; simp add: last_conv_nth)+
  ultimately show "length (in_sequence es) = length (in_sequence fs)" by simp
qed (use assms in simp_all)

definition fields2 :: audit_fields where
  "fields2 = fields1\<lparr>af_id := ''e2'', af_organization_id := None\<rparr>"

definition chain1 :: "audit_fields \<Rightarrow> AuditEvent list" where
  "chain1 f = record_event (map char_of) [] f 0 (ustr ''t'')"

lemma chain1_single: "\<exists>e. chain1 f = [e] \<and> ev_hash_schema e = 2 \<and> ev_ts_iso e = ustr ''t'' \<and> ev_detail e = af_detail f \<and>
    ev_event_hash e = map char_of (event_text e) \<and>
    event_text e = dumps esc_ascii (event_document GENESIS (ustr ''t'') (af_actor f) (af_action f) (af_agent_id f)
      (af_detail f) (Some 1) 2)"
  by (simp add: chain1_def record_event_def chain_tail_def hash_event_def event_text_def HASH_SCHEMA_SEQUENCED_def)

lemma chain1_intact: "intact (map char_of) (chain1 f)"
  unfolding chain1_def using record_intact [of "map char_of" "[]" f 0 "ustr ''t''"]
  by (simp add: intact_iff)

theorem newest_hash_binds_history_witness:
  "map hashed_content (in_sequence (chain1 fields1)) = map hashed_content (in_sequence (chain1 fields2))"
proof -
  have i: "intact (map char_of) (chain1 f)" for f
    by (rule chain1_intact)
  obtain e where e: "chain1 fields1 = [e]" "ev_hash_schema e = 2" "ev_ts_iso e = ustr ''t''" "ev_detail e = JObj []"
    "ev_event_hash e = map char_of (event_text e)"
    "event_text e = dumps esc_ascii (event_document GENESIS (ustr ''t'') ''system'' ''agent.offline'' None (JObj []) (Some 1) 2)"
    using chain1_single [of fields1] by (auto simp: fields1_def)
  obtain f where f: "chain1 fields2 = [f]" "ev_hash_schema f = 2" "ev_ts_iso f = ustr ''t''" "ev_detail f = JObj []"
    "ev_event_hash f = map char_of (event_text f)"
    "event_text f = dumps esc_ascii (event_document GENESIS (ustr ''t'') ''system'' ''agent.offline'' None (JObj []) (Some 1) 2)"
    using chain1_single [of fields2] by (auto simp: fields2_def fields1_def)
  have single: "in_sequence [x] = [x]" for x by (simp add: in_sequence_def)
  show ?thesis
  proof (rule newest_hash_binds_history [OF i i])
    show "inj_on (map char_of) (event_text ` (set (chain1 fields1) \<union> set (chain1 fields2)))"
      using e(6) f(6) by (simp add: e(1) f(1))
  qed (use e f in \<open>simp_all add: single event_wf_def\<close>)
qed

section \<open>What the hash does not cover\<close>

text \<open>
  The columns outside the hashed document. The verdict on the chain does not depend on
  the clock column, the acting account, the enrollment token, the organization an event is
  listed under, the source address or the user agent of any event.
\<close>

theorem unhashed_columns_unseen:
  "verify_chain sha256 (map (\<lambda>e. e\<lparr>ev_ts := t e, ev_actor_user_id := u e, ev_enrollment_token_id := k e,
      ev_organization_id := org e, ev_source_ip := ip e, ev_user_agent := ua e\<rparr>) events) through =
   verify_chain sha256 events through"
proof -
  let ?g = "\<lambda>e. e\<lparr>ev_ts := t e, ev_actor_user_id := u e, ev_enrollment_token_id := k e,
      ev_organization_id := org e, ev_source_ip := ip e, ev_user_agent := ua e\<rparr>"
  have key: "seq_key (?g e) = seq_key e" for e by (simp add: seq_key_def)
  have ins: "insort_key seq_key (?g e) (map ?g es) = map ?g (insort_key seq_key e es)" for e es
    by (induction es) (simp_all add: key)
  have sort: "in_sequence (map ?g es) = map ?g (in_sequence es)" for es
    unfolding in_sequence_def by (induction es) (simp_all add: ins)
  have "verify_from sha256 p n seen (map ?g es) = verify_from sha256 p n seen es" for p n seen es
    by (induction es arbitrary: p n seen) (simp_all add: event_hash_of_def)
  moreover have "filter P (map ?g events) = map ?g (filter P events)"
    if "\<And>e. P (?g e) = P e" for P using that by (simp add: filter_map comp_def)
  ultimately show ?thesis
    unfolding verify_chain_def by (simp add: sort split: option.split)
qed

lemma filter_take:
  assumes "\<And>i. i < length xs \<Longrightarrow> Q (xs ! i) \<longleftrightarrow> i < j"
  shows "filter Q xs = take j xs"
  using assms
proof (induction xs arbitrary: j)
  case (Cons x xs)
  have head: "Q x \<longleftrightarrow> 0 < j" using Cons.prems [of 0] by simp
  have tail: "Q (xs ! i) \<longleftrightarrow> Suc i < j" if "i < length xs" for i using Cons.prems [of "Suc i"] that by simp
  have "filter Q xs = take (j - 1) xs" by (rule Cons.IH) (use tail in auto)
  then show ?case using head by (cases j) simp_all
qed simp

text \<open>
  The end of the chain is open. An intact chain cut off after any number of events is
  intact again, so the removal of the newest events shows only against an anchor.
\<close>

theorem truncated_chain_intact:
  assumes "intact sha256 events"
  shows "verify_chain sha256 events (Some n) = (True, None) \<and> intact sha256 (take m (in_sequence events))"
proof -
  let ?es = "in_sequence events"
  have l: "linked sha256 GENESIS 1 ?es" and c: "cutover_ok False ?es" using assms by (simp_all add: intact_iff)
  have pre: "linked sha256 GENESIS 1 (take j ?es) \<and> cutover_ok False (take j ?es)" for j
    using l c linked_append [of sha256 GENESIS 1 "take j ?es" "drop j ?es"]
      cutover_append [of False "take j ?es" "drop j ?es"] by simp
  have "in_sequence (take m ?es) = take m ?es"
    using in_sequence_sorted linked_sorted pre by blast
  then have two: "intact sha256 (take m ?es)" using pre [of m] by (simp add: intact_iff)
  let ?P = "\<lambda>e. case ev_seq e of None \<Rightarrow> False | Some k \<Rightarrow> k \<le> n"
  have "filter ?P ?es = take (nat n) ?es"
  proof -
    have "?P (?es ! i) \<longleftrightarrow> i < nat n" if "i < length ?es" for i
      using linked_seq [OF l that] by auto
    then show ?thesis by (rule filter_take)
  qed
  moreover have "in_sequence (filter ?P events) = filter ?P ?es"
    by (simp add: in_sequence_def filter_sort)
  ultimately have "in_sequence (filter ?P events) = take (nat n) ?es" by simp
  then have "verify_chain sha256 events (Some n) = (True, None)"
    using pre [of "nat n"] by (simp add: verify_chain_def verify_from_iff)
  then show ?thesis using two by blast
qed

theorem truncated_chain_intact_witness: "verify_chain (map char_of) (chain1 fields1) (Some 1) = (True, None)"
  using truncated_chain_intact [OF chain1_intact] by blast

end
