(* ===== verification/Merkle_Anchor.thy ===== *)
theory Merkle_Anchor
  imports Audit_Chain_Correct
begin

text \<open>
  Merkle anchoring of the audit chain (\<open>server/app/core/anchor.py\<close>). The digest of SHA-256 is
  a parameter \<open>digest\<close> on byte lists; \<open>hexdigest digest\<close> is then what the chain itself uses. The
  root over a fixed number of leaves determines them, up to a collision among the
  concatenations that are hashed, and with the chain it determines the anchored history.
\<close>

section \<open>Hexadecimal\<close>

definition hexchar :: "nat \<Rightarrow> char" where
  "hexchar n = (if n < 10 then char_of (48 + n) else char_of (87 + n))"

definition tohex :: "nat list \<Rightarrow> string" where
  "tohex bs = concat (map (\<lambda>b. [hexchar (b div 16), hexchar (b mod 16)]) bs)"

definition hexval :: "char \<Rightarrow> nat option" where
  "hexval c = (let n = of_char c :: nat in
     if 48 \<le> n \<and> n \<le> 57 then Some (n - 48)
     else if 97 \<le> n \<and> n \<le> 102 then Some (n - 87)
     else if 65 \<le> n \<and> n \<le> 70 then Some (n - 55) else None)"

definition ascii_space :: "char \<Rightarrow> bool" where
  "ascii_space c \<longleftrightarrow> (of_char c :: nat) \<in> {32, 9, 10, 11, 12, 13}"

text \<open>\<open>bytes.fromhex\<close>: pairs of digits of either case, white space between pairs.\<close>

fun fromhex :: "string \<Rightarrow> nat list option" where
  "fromhex [] = Some []"
| "fromhex [c] = (if ascii_space c then Some [] else None)"
| "fromhex (c # d # s) =
     (if ascii_space c then fromhex (d # s)
      else case (hexval c, hexval d) of
          (Some a, Some b) \<Rightarrow> map_option (Cons (16 * a + b)) (fromhex s)
        | _ \<Rightarrow> None)"

lemma hexval_hexchar: "n < 16 \<Longrightarrow> hexval (hexchar n) = Some n"
  by (auto simp: hexval_def hexchar_def Let_def)

lemma hexchar_no_space: "n < 16 \<Longrightarrow> \<not> ascii_space (hexchar n)"
  by (auto simp: ascii_space_def hexchar_def)

lemma fromhex_tohex: "\<forall>b \<in> set bs. b < 256 \<Longrightarrow> fromhex (tohex bs) = Some bs"
proof (induction bs)
  case (Cons b bs)
  have "b div 16 < 16" "b mod 16 < 16" using Cons.prems by (simp_all add: div_less_iff_less_mult)
  then show ?case
    using Cons by (simp add: tohex_def hexval_hexchar hexchar_no_space)
qed (simp add: tohex_def)

lemma tohex_inj: "\<forall>b \<in> set x. b < 256 \<Longrightarrow> \<forall>b \<in> set y. b < 256 \<Longrightarrow> tohex x = tohex y \<Longrightarrow> x = y"
  by (metis fromhex_tohex option.inject)

section \<open>The fold\<close>

fun pair_level :: "(nat list \<Rightarrow> nat list) \<Rightarrow> nat list list \<Rightarrow> nat list list" where
  "pair_level digest (a # b # r) = digest (a @ b) # pair_level digest r"
| "pair_level digest level = level"

lemma pair_level_length: "length (pair_level digest xs) = (length xs + 1) div 2"
  by (induction digest xs rule: pair_level.induct) auto

text \<open>The loop runs while more than one node is left; each round shortens the level.\<close>

function merkle_fold :: "(nat list \<Rightarrow> nat list) \<Rightarrow> nat list list \<Rightarrow> nat list list" where
  "merkle_fold digest level = (if length level > 1 then merkle_fold digest (pair_level digest level) else level)"
  by auto
termination by (relation "measure (\<lambda>(_, level). length level)") (auto simp: pair_level_length)

declare merkle_fold.simps [simp del]

datatype anchor_error = ValueError | IndexError

definition merkle_root :: "(nat list \<Rightarrow> nat list) \<Rightarrow> string list \<Rightarrow> anchor_error + string" where
  "merkle_root digest leaf_hashes =
     (if leaf_hashes = [] then Inl ValueError
      else case those (map fromhex leaf_hashes) of
          None \<Rightarrow> Inl ValueError
        | Some leaves \<Rightarrow> Inr (tohex (hd (merkle_fold digest leaves))))"

section \<open>Anchors\<close>

record AuditAnchor =
  an_event_count :: nat
  an_last_event_id :: string
  an_merkle_root :: string

definition covered_events :: "AuditEvent list \<Rightarrow> nat option \<Rightarrow> AuditEvent list" where
  "covered_events events limit =
     (case limit of None \<Rightarrow> in_sequence events | Some n \<Rightarrow> take n (in_sequence events))"

definition create_anchor ::
  "(nat list \<Rightarrow> nat list) \<Rightarrow> AuditEvent list \<Rightarrow> anchor_error + AuditAnchor option" where
  "create_anchor digest events =
     (let covered = covered_events events None in
      if covered = [] then Inr None
      else case merkle_root digest (map ev_event_hash covered) of
          Inl e \<Rightarrow> Inl e
        | Inr root \<Rightarrow> Inr (Some \<lparr>an_event_count = length covered, an_last_event_id = ev_id (last covered),
            an_merkle_root = root\<rparr>))"

definition verify_anchor ::
  "(nat list \<Rightarrow> nat list) \<Rightarrow> AuditEvent list \<Rightarrow> AuditAnchor \<Rightarrow> anchor_error + bool \<times> string option" where
  "verify_anchor digest events anchor =
     (let covered = covered_events events (Some (an_event_count anchor)) in
      if length covered < an_event_count anchor then Inr (False, Some ''covered events missing (chain shorter than anchor)'')
      else if covered = [] then Inl IndexError
      else if ev_id (last covered) \<noteq> an_last_event_id anchor
        then Inr (False, Some ''covered prefix ends on a different event'')
      else case merkle_root digest (map ev_event_hash covered) of
          Inl e \<Rightarrow> Inl e
        | Inr recomputed \<Rightarrow>
            if recomputed \<noteq> an_merkle_root anchor then Inr (False, Some ''merkle root mismatch'')
            else Inr (True, None))"

section \<open>The root binds the leaves\<close>

text \<open>The concatenations that the fold hashes.\<close>

fun level_inputs :: "nat list list \<Rightarrow> nat list list" where
  "level_inputs (a # b # r) = (a @ b) # level_inputs r"
| "level_inputs level = []"

function merkle_inputs :: "(nat list \<Rightarrow> nat list) \<Rightarrow> nat list list \<Rightarrow> nat list list" where
  "merkle_inputs digest level = (if length level > 1
     then level_inputs level @ merkle_inputs digest (pair_level digest level) else [])"
  by auto
termination by (relation "measure (\<lambda>(_, level). length level)") (auto simp: pair_level_length)

declare merkle_inputs.simps [simp del]

definition digest_ok :: "(nat list \<Rightarrow> nat list) \<Rightarrow> bool" where
  "digest_ok digest \<longleftrightarrow> (\<forall>x. length (digest x) = 32 \<and> (\<forall>b \<in> set (digest x). b < 256))"

definition nodes_ok :: "nat list list \<Rightarrow> bool" where
  "nodes_ok level \<longleftrightarrow> (\<forall>n \<in> set level. length n = 32 \<and> (\<forall>b \<in> set n. b < 256))"

lemma digest_okD: "digest_ok digest \<Longrightarrow> length (digest x) = 32 \<and> (\<forall>b \<in> set (digest x). b < 256)"
  unfolding digest_ok_def by blast

lemma nodes_ok_Cons [simp]:
  "nodes_ok (n # ns) \<longleftrightarrow> (length n = 32 \<and> (\<forall>b \<in> set n. b < 256)) \<and> nodes_ok ns" "nodes_ok []"
  by (simp_all add: nodes_ok_def)

lemma pair_level_ok: "digest_ok digest \<Longrightarrow> nodes_ok xs \<Longrightarrow> nodes_ok (pair_level digest xs)"
  by (induction digest xs rule: pair_level.induct) (simp_all add: digest_okD)

lemma pair_level_Nil [simp]: "pair_level digest xs = [] \<longleftrightarrow> xs = []"
  by (cases "(digest, xs)" rule: pair_level.cases) simp_all

lemma pair_level_short: "Suc 0 = length xs \<Longrightarrow> pair_level digest xs = xs"
  by (cases "(digest, xs)" rule: pair_level.cases) simp_all

lemma pair_level_inj:
  assumes "length xs = length ys" "nodes_ok xs" "nodes_ok ys" "pair_level digest xs = pair_level digest ys"
    and "inj_on digest (set (level_inputs xs) \<union> set (level_inputs ys))"
  shows "xs = ys"
  using assms
proof (induction digest xs arbitrary: ys rule: pair_level.induct)
  case (1 digest a b r)
  then obtain c d s where ys: "ys = c # d # s" by (metis Suc_length_conv length_Cons)
  have "digest (a @ b) = digest (c @ d)" using "1.prems"(4) ys by simp
  then have "a @ b = c @ d" by (rule inj_onD [OF "1.prems"(5)]) (use ys in simp_all)
  moreover have "length a = length c" using "1.prems"(2,3) ys by (simp add: nodes_ok_def)
  ultimately have "a = c" "b = d" by simp_all
  moreover have "r = s"
  proof (rule "1.IH")
    show "inj_on digest (set (level_inputs r) \<union> set (level_inputs s))"
      by (rule inj_on_subset [OF "1.prems"(5)]) (use ys in auto)
  qed (use "1.prems" ys in simp_all)
  ultimately show ?case using ys by simp
qed (auto simp: pair_level_short)

lemma merkle_fold_inj:
  assumes "length xs = length ys" "nodes_ok xs" "nodes_ok ys" "digest_ok digest"
    and "merkle_fold digest xs = merkle_fold digest ys"
    and "inj_on digest (set (merkle_inputs digest xs) \<union> set (merkle_inputs digest ys))"
  shows "xs = ys"
  using assms
proof (induction digest xs arbitrary: ys rule: merkle_fold.induct)
  case (1 digest xs)
  show ?case
  proof (cases "length xs > 1")
    case True
    have lvl: "length (pair_level digest xs) = length (pair_level digest ys)"
      using "1.prems"(1) by (simp add: pair_level_length)
    have "pair_level digest xs = pair_level digest ys"
    proof (rule "1.IH" [OF True lvl])
      show "merkle_fold digest (pair_level digest xs) = merkle_fold digest (pair_level digest ys)"
        using "1.prems"(1,5) True by (simp add: merkle_fold.simps [of digest xs] merkle_fold.simps [of digest ys])
      show "inj_on digest (set (merkle_inputs digest (pair_level digest xs)) \<union> set (merkle_inputs digest (pair_level digest ys)))"
        by (rule inj_on_subset [OF "1.prems"(6)])
          (use "1.prems"(1) True in \<open>auto simp: merkle_inputs.simps [of digest xs] merkle_inputs.simps [of digest ys]\<close>)
    qed (use "1.prems" in \<open>auto intro: pair_level_ok\<close>)
    then show ?thesis
    proof (rule pair_level_inj [OF "1.prems"(1-3)])
      show "inj_on digest (set (level_inputs xs) \<union> set (level_inputs ys))"
        by (rule inj_on_subset [OF "1.prems"(6)])
          (use "1.prems"(1) True in \<open>auto simp: merkle_inputs.simps [of digest xs] merkle_inputs.simps [of digest ys]\<close>)
    qed
  next
    case False
    then show ?thesis using "1.prems"(1,5) by (simp add: merkle_fold.simps [of digest xs] merkle_fold.simps [of digest ys])
  qed
qed

lemma merkle_fold_single: "xs \<noteq> [] \<Longrightarrow> length (merkle_fold digest xs) = 1"
proof (induction digest xs rule: merkle_fold.induct)
  case (1 digest xs)
  show ?case
  proof (cases "length xs > 1")
    case True
    then show ?thesis using 1 by (simp add: merkle_fold.simps [of digest xs])
  next
    case False
    then have "length xs = 1" using "1.prems" by (cases xs) simp_all
    then show ?thesis using False by (simp add: merkle_fold.simps [of digest xs])
  qed
qed

section \<open>Anchored histories\<close>

definition hexdigest :: "(nat list \<Rightarrow> nat list) \<Rightarrow> ustr \<Rightarrow> string" where
  "hexdigest digest text = tohex (digest text)"

text \<open>The leaves of an intact chain are the digests of its documents.\<close>

lemma linked_hashes:
  "linked sha256 p k es \<Longrightarrow> map ev_event_hash es = map (\<lambda>e. sha256 (event_text e)) es"
proof (induction es arbitrary: p k)
  case (Cons e es)
  then have "map ev_event_hash es = map (\<lambda>e. sha256 (event_text e)) es"
    by (intro Cons.IH [of "ev_event_hash e" "k + 1"]) simp
  then show ?case using Cons.prems by (simp add: event_hash_of_text del: map_eq_conv)
qed simp

lemma those_map_Some: "those (map (\<lambda>x. Some (f x)) xs) = Some (map f xs)"
  by (induction xs) simp_all

lemma merkle_root_chain:
  assumes "digest_ok digest" "linked (hexdigest digest) p k es" "es \<noteq> []"
  shows "merkle_root digest (map ev_event_hash es) =
    Inr (tohex (hd (merkle_fold digest (map (\<lambda>e. digest (event_text e)) es))))"
proof -
  have "fromhex (hexdigest digest t) = Some (digest t)" for t
    unfolding hexdigest_def by (rule fromhex_tohex) (use digest_okD [OF assms(1), of t] in blast)
  then have "map fromhex (map ev_event_hash es) = map (\<lambda>e. Some (digest (event_text e))) es"
    unfolding linked_hashes [OF assms(2)] by simp
  then show ?thesis
    unfolding merkle_root_def map_is_Nil_conv using assms(3) by (simp only: those_map_Some option.case if_False)
qed

lemma nodes_ok_digests: "digest_ok digest \<Longrightarrow> nodes_ok (map (\<lambda>e. digest (event_text e)) es)"
  by (induction es) (simp_all add: digest_okD)

lemma merkle_fold_ok: "digest_ok digest \<Longrightarrow> nodes_ok xs \<Longrightarrow> nodes_ok (merkle_fold digest xs)"
proof (induction digest xs rule: merkle_fold.induct)
  case (1 digest xs)
  then show ?case by (simp add: merkle_fold.simps [of digest xs] pair_level_ok)
qed

lemma merkle_root_inj:
  assumes d: "digest_ok digest" and l: "linked (hexdigest digest) p k es" "linked (hexdigest digest) p' k' fs"
    and n: "es \<noteq> []" "length es = length fs"
    and r: "merkle_root digest (map ev_event_hash es) = merkle_root digest (map ev_event_hash fs)"
    and i: "inj_on digest (set (merkle_inputs digest (map (\<lambda>e. digest (event_text e)) es)) \<union>
      set (merkle_inputs digest (map (\<lambda>e. digest (event_text e)) fs)))"
  shows "map ev_event_hash es = map ev_event_hash fs"
proof -
  let ?X = "map (\<lambda>e. digest (event_text e)) es" and ?Y = "map (\<lambda>e. digest (event_text e)) fs"
  have ne: "fs \<noteq> []" using n by auto
  have "tohex (hd (merkle_fold digest ?X)) = tohex (hd (merkle_fold digest ?Y))"
    using r merkle_root_chain [OF d l(1) n(1)] merkle_root_chain [OF d l(2) ne] by simp
  moreover obtain x where x: "merkle_fold digest ?X = [x]"
    using merkle_fold_single [of ?X digest] n(1) by (auto simp: length_Suc_conv)
  moreover obtain y where y: "merkle_fold digest ?Y = [y]"
    using merkle_fold_single [of ?Y digest] ne by (auto simp: length_Suc_conv)
  ultimately have t: "tohex x = tohex y" by simp
  have "nodes_ok [x]" "nodes_ok [y]"
    using merkle_fold_ok [OF d nodes_ok_digests [OF d]] by (simp_all only: x [symmetric] y [symmetric])
  then have xy: "x = y" using t by (intro tohex_inj) simp_all
  have "?X = ?Y"
  proof (rule merkle_fold_inj [OF _ _ _ d _ i])
    show "length ?X = length ?Y" using n by simp
    show "nodes_ok ?X" "nodes_ok ?Y" by (rule nodes_ok_digests [OF d])+
    show "merkle_fold digest ?X = merkle_fold digest ?Y" unfolding x y xy by (rule refl)
  qed
  then have "map tohex ?X = map tohex ?Y" by simp
  then show ?thesis
    unfolding linked_hashes [OF l(1)] linked_hashes [OF l(2)] by (simp add: hexdigest_def comp_def)
qed

lemma create_anchor_Some:
  "create_anchor digest es = Inr (Some anchor) \<Longrightarrow> es \<noteq> [] \<and> an_event_count anchor = length es \<and>
     an_last_event_id anchor = ev_id (last (in_sequence es)) \<and>
     merkle_root digest (map ev_event_hash (in_sequence es)) = Inr (an_merkle_root anchor)"
  by (auto simp: create_anchor_def covered_events_def Let_def split: if_splits sum.splits)

lemma verify_anchor_ok:
  "verify_anchor digest es anchor = Inr (True, None) \<longleftrightarrow>
     0 < an_event_count anchor \<and> an_event_count anchor \<le> length es \<and>
     ev_id (last (take (an_event_count anchor) (in_sequence es))) = an_last_event_id anchor \<and>
     merkle_root digest (map ev_event_hash (take (an_event_count anchor) (in_sequence es))) = Inr (an_merkle_root anchor)"
  by (auto simp: verify_anchor_def covered_events_def Let_def split: if_splits sum.splits)

text \<open>
  C9. A published anchor fixes the history it covers. Let an anchor be made over an intact
  chain, and let a later chain be intact and pass the anchor. Then the later chain starts
  with the anchored history: position by position, every hashed column is the same. The
  hypothesis on SHA-256 is that it has no collision among the event documents of the two
  chains and the node concatenations of the two trees.
\<close>

theorem anchored_history_fixed:
  assumes "digest_ok digest" "intact (hexdigest digest) old" "intact (hexdigest digest) new"
    and "create_anchor digest old = Inr (Some anchor)" "verify_anchor digest new anchor = Inr (True, None)"
    and "\<forall>e \<in> set old \<union> set new. event_wf e"
    and "inj_on digest (event_text ` (set old \<union> set new) \<union>
      set (merkle_inputs digest (map (\<lambda>e. digest (event_text e)) (in_sequence old))) \<union>
      set (merkle_inputs digest (map (\<lambda>e. digest (event_text e)) (take (length old) (in_sequence new)))))"
  shows "map hashed_content (take (length old) (in_sequence new)) = map hashed_content (in_sequence old)"
proof -
  let ?new = "take (length old) (in_sequence new)" and ?old = "in_sequence old"
  note c = create_anchor_Some [OF assms(4)]
  note v = assms(5) [unfolded verify_anchor_ok]
  have len: "length ?old = length ?new" using c v by simp
  have lo: "linked (hexdigest digest) GENESIS 1 ?old" and ln: "linked (hexdigest digest) GENESIS 1 ?new"
    using assms(2,3) linked_append [of "hexdigest digest" GENESIS 1 ?new "drop (length old) (in_sequence new)"]
    by (simp_all add: intact_iff)
  have h: "map ev_event_hash ?old = map ev_event_hash ?new"
  proof (rule merkle_root_inj [OF assms(1) lo ln _ len])
    show "inj_on digest (set (merkle_inputs digest (map (\<lambda>e. digest (event_text e)) ?old)) \<union>
      set (merkle_inputs digest (map (\<lambda>e. digest (event_text e)) ?new)))"
      by (rule inj_on_subset [OF assms(7)]) blast
  qed (use c v in simp_all)
  have sub: "set ?new \<subseteq> set new" using set_take_subset [of "length old" "in_sequence new"] by simp
  have "map hashed_content ?old = map hashed_content ?new"
  proof (rule linked_binds [OF len lo ln])
    show "ev_event_hash (last ?old) = ev_event_hash (last ?new)" if "?old \<noteq> []"
      using h len that by (metis last_map length_0_conv map_is_Nil_conv)
    show "inj_on (hexdigest digest) (event_text ` (set ?old \<union> set ?new))"
    proof (rule inj_onI)
      fix x y assume xy: "x \<in> event_text ` (set ?old \<union> set ?new)" "y \<in> event_text ` (set ?old \<union> set ?new)"
        "hexdigest digest x = hexdigest digest y"
      have "digest x = digest y"
        using digest_okD [OF assms(1)] xy(3) unfolding hexdigest_def by (blast intro: tohex_inj)
      then show "x = y" by (rule inj_onD [OF assms(7)]) (use xy sub in auto)
    qed
    show "\<forall>e \<in> set ?old \<union> set ?new. event_wf e" using assms(6) sub by auto
  qed
  then show ?thesis by simp
qed

text \<open>A toy digest of the right shape, for the concrete instances.\<close>

definition pad_digest :: "nat list \<Rightarrow> nat list" where
  "pad_digest x = map (\<lambda>b. b mod 256) (take 32 (x @ replicate 32 0))"

definition demo_chain :: "AuditEvent list" where
  "demo_chain = record_event (hexdigest pad_digest) [] fields1 0 (ustr ''t'')"

lemma pad_digest_ok: "digest_ok pad_digest"
  by (auto simp: digest_ok_def pad_digest_def)

lemma demo_chain_intact: "intact (hexdigest pad_digest) demo_chain"
  unfolding demo_chain_def using record_intact [of "hexdigest pad_digest" "[]" fields1 0 "ustr ''t''"]
  by (simp add: intact_iff)

lemma demo_chain_single: "\<exists>e. demo_chain = [e] \<and> event_wf e"
  by (simp add: demo_chain_def record_event_def chain_tail_def event_wf_def fields1_def)

lemma demo_anchor: "\<exists>anchor. create_anchor pad_digest demo_chain = Inr (Some anchor) \<and>
    verify_anchor pad_digest demo_chain anchor = Inr (True, None)"
proof -
  obtain e where e: "demo_chain = [e]" using demo_chain_single by blast
  have "linked (hexdigest pad_digest) GENESIS 1 demo_chain"
    using demo_chain_intact unfolding e by (simp add: intact_iff in_sequence_def)
  from merkle_root_chain [OF pad_digest_ok this] show ?thesis unfolding e
    by (auto simp: create_anchor_def verify_anchor_def covered_events_def in_sequence_def Let_def)
qed

theorem anchored_history_fixed_witness:
  "map hashed_content (take (length demo_chain) (in_sequence demo_chain)) = map hashed_content (in_sequence demo_chain)"
proof -
  obtain anchor where a: "create_anchor pad_digest demo_chain = Inr (Some anchor)"
    "verify_anchor pad_digest demo_chain anchor = Inr (True, None)" using demo_anchor by blast
  obtain e where e: "demo_chain = [e]" "event_wf e" using demo_chain_single by blast
  show ?thesis
    by (rule anchored_history_fixed [OF pad_digest_ok demo_chain_intact demo_chain_intact a])
      (use e(2) in \<open>simp_all add: e(1) in_sequence_def merkle_inputs.simps [of pad_digest "[x]" for x]\<close>)
qed

text \<open>
  Growth does not break an anchor. Whatever events are recorded after an anchor was made
  over an intact chain, the anchor verifies.
\<close>

theorem anchor_survives_appends:
  assumes "intact sha256 es" "create_anchor digest es = Inr (Some anchor)"
  shows "verify_anchor digest (foldl (\<lambda>l (f, ts, isots). record_event sha256 l f ts isots) es later) anchor = Inr (True, None)"
proof -
  note c = create_anchor_Some [OF assms(2)]
  have "\<exists>l. foldl (\<lambda>l (f, ts, isots). record_event sha256 l f ts isots) es later = l \<and> intact sha256 l \<and>
      (\<exists>rest. in_sequence l = in_sequence es @ rest)"
  proof (induction later rule: rev_induct)
    case Nil
    then show ?case using assms(1) by simp
  next
    case (snoc x later)
    obtain f ts isots where x: "x = (f, ts, isots)" by (cases x)
    obtain l rest where l: "foldl (\<lambda>l (f, ts, isots). record_event sha256 l f ts isots) es later = l" "intact sha256 l"
      "in_sequence l = in_sequence es @ rest" using snoc by blast
    obtain e where "record_event sha256 l f ts isots = l @ [e]" "in_sequence (l @ [e]) = in_sequence l @ [e]"
      "intact sha256 (l @ [e])"
      by (rule record_event_intact [OF l(2), of f ts isots])
    then show ?case using l x by auto
  qed
  then obtain l rest where l: "foldl (\<lambda>l (f, ts, isots). record_event sha256 l f ts isots) es later = l"
    "in_sequence l = in_sequence es @ rest" by blast
  have "length es \<le> length l"
    using arg_cong [OF l(2), of length] by simp
  moreover have "take (length es) (in_sequence l) = in_sequence es" using l(2) by simp
  ultimately show ?thesis unfolding l(1) verify_anchor_ok using c by simp
qed

theorem anchor_survives_appends_witness:
  "\<exists>anchor. verify_anchor pad_digest (record_event (hexdigest pad_digest) demo_chain fields2 5 (ustr ''u'')) anchor = Inr (True, None)"
proof -
  obtain anchor where "create_anchor pad_digest demo_chain = Inr (Some anchor)" using demo_anchor by blast
  from anchor_survives_appends [OF demo_chain_intact this, of "[(fields2, 5, ustr ''u'')]"] show ?thesis by auto
qed

end
