(* ===== verification/Channel.thy ===== *)
theory Channel
  imports Main
begin

text \<open>
  The contract of a bounded, acknowledged channel, and what a reader gets out of it. A state
  stands for the history of everything that was ever accepted, of which a prefix was handed
  out and a prefix of that was released. The reader acknowledges what it holds and asks for
  what follows.
\<close>

datatype 'f traffic = Send 'f | Poll nat

text \<open>
  A sender and one reader taking turns. The reader stands at position \<open>c\<close>; the result is the
  final state, the frames newly accepted and the frames the reader received. A refused send
  and a refused poll leave the state as it is.
\<close>

fun drive ::
  "('d \<Rightarrow> 'f \<Rightarrow> 'e + 'd \<times> bool) \<Rightarrow> ('d \<Rightarrow> nat \<Rightarrow> 'e + 'd) \<Rightarrow> ('d \<Rightarrow> nat \<Rightarrow> nat \<Rightarrow> 'e + 'd \<times> 'f list) \<Rightarrow>
   'd \<Rightarrow> nat \<Rightarrow> 'f traffic list \<Rightarrow> 'd \<times> 'f list \<times> 'f list" where
  "drive push release fetch d c [] = (d, [], [])"
| "drive push release fetch d c (Send f # ops) =
     (case push d f of
        Inl e \<Rightarrow> drive push release fetch d c ops
      | Inr (d', new) \<Rightarrow>
          (case drive push release fetch d' c ops of (d'', sent, got) \<Rightarrow>
             (d'', (if new then [f] else []) @ sent, got)))"
| "drive push release fetch d c (Poll k # ops) =
     (case release d c of
        Inl e \<Rightarrow> drive push release fetch d c ops
      | Inr d' \<Rightarrow>
          (case fetch d' c k of
             Inl e \<Rightarrow> drive push release fetch d' c ops
           | Inr (d'', fs) \<Rightarrow>
               (case drive push release fetch d'' (c + length fs) ops of (d''', sent, got) \<Rightarrow>
                  (d''', sent, fs @ got))))"

text \<open>
  The laws. \<open>rep d H e w\<close>: the state \<open>d\<close> stands for the history \<open>H\<close>, of which the first \<open>w\<close> were
  handed out and the first \<open>e\<close> released.
\<close>

locale acked_channel =
  fixes rep :: "'d \<Rightarrow> 'f list \<Rightarrow> nat \<Rightarrow> nat \<Rightarrow> bool"
    and push :: "'d \<Rightarrow> 'f \<Rightarrow> 'e + 'd \<times> bool"
    and release :: "'d \<Rightarrow> nat \<Rightarrow> 'e + 'd"
    and fetch :: "'d \<Rightarrow> nat \<Rightarrow> nat \<Rightarrow> 'e + 'd \<times> 'f list"
  assumes rep_bounds: "rep d H e w \<Longrightarrow> e \<le> w \<and> w \<le> length H"
    and push_new: "rep d H e w \<Longrightarrow> push d f = Inr (d', True) \<Longrightarrow> rep d' (H @ [f]) e w"
    and push_old: "rep d H e w \<Longrightarrow> push d f = Inr (d', False) \<Longrightarrow> d' = d"
    and release_handed: "rep d H e w \<Longrightarrow> n \<le> w \<Longrightarrow> \<exists>d'. release d n = Inr d' \<and> rep d' H (max e n) w"
    and fetch_held: "rep d H e w \<Longrightarrow> e \<le> c \<Longrightarrow> c \<le> w \<Longrightarrow>
      \<exists>d'. fetch d c k = Inr (d', take k (drop c H)) \<and> rep d' H e (max w (min (c + k) (length H)))"
begin

text \<open>The reader gets the history from its position on: every frame once and in order.\<close>

lemma drive_delivers:
  assumes "rep d H e w" "e \<le> c" "c \<le> w" "drive push release fetch d c ops = (d', sent, got)"
  shows "\<exists>e' w'. rep d' (H @ sent) e' w' \<and> e' \<le> c + length got \<and> c + length got \<le> w' \<and>
    got = take (length got) (drop c (H @ sent))"
  using assms
proof (induction ops arbitrary: d H e w c d' sent got)
  case Nil
  then show ?case by auto
next
  case (Cons op ops)
  show ?case
  proof (cases op)
    case (Send f)
    show ?thesis
    proof (cases "push d f")
      case (Inl a)
      then show ?thesis using Cons.IH [OF Cons.prems(1-3)] Cons.prems(4) Send by simp
    next
      case (Inr r)
      obtain d1 new where r: "r = (d1, new)" by (cases r)
      obtain sent1 where run: "drive push release fetch d1 c ops = (d', sent1, got)"
        and s: "sent = (if new then [f] else []) @ sent1"
        using Cons.prems(4) Send Inr r by (auto split: prod.splits)
      show ?thesis
      proof (cases new)
        case True
        have "rep d1 (H @ [f]) e w" using push_new [OF Cons.prems(1)] Inr r True by simp
        from Cons.IH [OF this Cons.prems(2,3) run] show ?thesis using s True by simp
      next
        case False
        have "d1 = d" using push_old [OF Cons.prems(1)] Inr r False by simp
        with run have "drive push release fetch d c ops = (d', sent1, got)" by simp
        from Cons.IH [OF Cons.prems(1-3) this] show ?thesis using s False by simp
      qed
    qed
  next
    case (Poll k)
    obtain d1 where d1: "release d c = Inr d1" "rep d1 H (max e c) w"
      using release_handed [OF Cons.prems(1,3)] by blast
    then have "rep d1 H c w" using Cons.prems(2) by (simp add: max_absorb2)
    then obtain d2 where d2: "fetch d1 c k = Inr (d2, take k (drop c H))"
      "rep d2 H c (max w (min (c + k) (length H)))"
      using fetch_held [of d1 H c w c k] Cons.prems(3) by blast
    let ?fs = "take k (drop c H)"
    have le: "c \<le> length H" using rep_bounds [OF Cons.prems(1)] Cons.prems(3) by simp
    have pos: "c + length ?fs = min (c + k) (length H)" using le by simp
    obtain got1 where run: "drive push release fetch d2 (c + length ?fs) ops = (d', sent, got1)"
      and g: "got = ?fs @ got1"
      using Cons.prems(4) Poll d1(1) d2(1) by (auto split: prod.splits)
    from Cons.IH [OF d2(2) _ _ run] pos
    obtain e' w' where r: "rep d' (H @ sent) e' w'" "e' \<le> c + length ?fs + length got1"
      "c + length ?fs + length got1 \<le> w'" "got1 = take (length got1) (drop (c + length ?fs) (H @ sent))"
      by auto
    have "take (length ?fs) (drop c (H @ sent)) = ?fs" using le by (simp add: min_def)
    then have "got = take (length got) (drop c (H @ sent))"
      using r(4) g by (simp only: length_append take_add drop_drop add.commute [of c])
    moreover have "length got = length ?fs + length got1" using g by simp
    ultimately show ?thesis using r(1-3) by (metis add.assoc)
  qed
qed

text \<open>A last poll with room for what is outstanding brings the reader up to date.\<close>

lemma drive_drains:
  assumes "rep d H e w" "e \<le> c" "c \<le> w" "c + k \<ge> length H"
  shows "snd (snd (drive push release fetch d c [Poll k])) = drop c H"
proof -
  obtain d1 where d1: "release d c = Inr d1" "rep d1 H (max e c) w"
    using release_handed [OF assms(1,3)] by blast
  then have "rep d1 H c w" using assms(2) by (simp add: max_absorb2)
  then obtain d2 where "fetch d1 c k = Inr (d2, take k (drop c H))"
    using fetch_held [of d1 H c w c k] assms(3) by blast
  then show ?thesis using d1(1) assms(4) by simp
qed

end

end
