(* ===== verification/Shell_Relay.thy ===== *)
theory Shell_Relay
  imports Channel Json_Inj
begin

text \<open>
  The in-memory relay of interactive shell frames (\<open>server/app/core/shell_relay.py\<close>): one
  bounded queue per direction with sequence numbers, acknowledgement and a window of digests
  for retries, the relay of a session, and the registry. A relay is an object shared by
  several requests, so the registry maps a session to the address of its relay in a heap.
  SHA-256 is a parameter \<open>digest\<close>. A read is two atomic steps, the part before the wait on the
  condition and the part after it.
\<close>

section \<open>One direction\<close>

datatype RelayError = SequenceConflict | Backpressure | CursorExpired | RelayClosed

fun relay_code :: "RelayError \<Rightarrow> string" where
  "relay_code SequenceConflict = ''shell_sequence_conflict''"
| "relay_code Backpressure = ''shell_backpressure''"
| "relay_code CursorExpired = ''shell_cursor_expired''"
| "relay_code RelayClosed = ''shell_relay_closed''"

record RelayFrame =
  rf_seq :: int
  rf_stream :: ustr
  rf_data_b64 :: ustr
  rf_eof :: bool
  rf_byte_length :: nat

definition frame_text :: "RelayFrame \<Rightarrow> ustr" where
  "frame_text f = int_repr (rf_seq f) @ [0] @ rf_stream f @ [0] @ rf_data_b64 f @ [0]
     @ int_repr (if rf_eof f then 1 else 0)"

text \<open>
  The text is ASCII, since the data is valid base64 and the stream one of four names, so its
  UTF-8 encoding is the text itself.
\<close>

definition frame_digest :: "(nat list \<Rightarrow> nat list) \<Rightarrow> RelayFrame \<Rightarrow> nat list" where
  "frame_digest digest f = digest (frame_text f)"

record Direction =
  last_seq :: int
  sent_high_water :: int
  evicted_through :: int
  max_bytes :: int
  max_frames :: int
  frames :: "RelayFrame list"
  buffered_bytes :: int
  recent_digests :: "int \<Rightarrow> nat list option"

definition new_direction :: "int \<Rightarrow> int \<Rightarrow> int \<Rightarrow> Direction" where
  "new_direction start_seq mb mf =
     \<lparr>last_seq = start_seq, sent_high_water = start_seq, evicted_through = start_seq,
      max_bytes = mb, max_frames = mf, frames = [], buffered_bytes = 0, recent_digests = (\<lambda>_. None)\<rparr>"

text \<open>\<open>append\<close>; the flag is false for an identical retry.\<close>

definition direction_append ::
  "(nat list \<Rightarrow> nat list) \<Rightarrow> Direction \<Rightarrow> RelayFrame \<Rightarrow> RelayError + Direction \<times> bool" where
  "direction_append digest d f =
     (if rf_seq f \<le> last_seq d then
        (if recent_digests d (rf_seq f) = Some (frame_digest digest f) then Inr (d, False)
         else Inl SequenceConflict)
      else if rf_seq f \<noteq> last_seq d + 1 then Inl SequenceConflict
      else if int (length (frames d)) \<ge> max_frames d \<or>
          buffered_bytes d + int (rf_byte_length f) > max_bytes d then Inl Backpressure
      else Inr (d\<lparr>frames := frames d @ [f], buffered_bytes := buffered_bytes d + int (rf_byte_length f),
          last_seq := rf_seq f, recent_digests := (recent_digests d)(rf_seq f := Some (frame_digest digest f))\<rparr>, True))"

text \<open>The eviction loop: the remaining frames, the bytes buffered and the eviction mark.\<close>

fun evict :: "int \<Rightarrow> RelayFrame list \<Rightarrow> int \<Rightarrow> int \<Rightarrow> RelayFrame list \<times> int \<times> int" where
  "evict ack [] bytes mark = ([], bytes, mark)"
| "evict ack (f # fs) bytes mark =
     (if rf_seq f \<le> ack then evict ack fs (bytes - int (rf_byte_length f)) (rf_seq f)
      else (f # fs, bytes, mark))"

definition direction_acknowledge :: "Direction \<Rightarrow> int \<Rightarrow> RelayError + Direction" where
  "direction_acknowledge d ack =
     (if ack < 0 \<or> ack > sent_high_water d then Inl SequenceConflict
      else case evict ack (frames d) (buffered_bytes d) (evicted_through d) of (fs, bytes, mark) \<Rightarrow>
        let floor = max 0 (ack - 32) in
        Inr (d\<lparr>frames := fs, buffered_bytes := bytes, evicted_through := mark,
          recent_digests := (\<lambda>q. if q < floor then None else recent_digests d q)\<rparr>))"

text \<open>The slice \<open>xs[:limit]\<close>; a negative limit counts from the end.\<close>

definition slice_to :: "int \<Rightarrow> 'a list \<Rightarrow> 'a list" where
  "slice_to limit xs = (if limit \<ge> 0 then take (nat limit) xs else take (length xs - nat (- limit)) xs)"

definition direction_after :: "Direction \<Rightarrow> int \<Rightarrow> int \<Rightarrow> RelayError + Direction \<times> RelayFrame list" where
  "direction_after d cursor limit =
     (if cursor < 0 \<or> cursor > last_seq d then Inl SequenceConflict
      else if cursor < evicted_through d then Inl CursorExpired
      else let result = slice_to limit (filter (\<lambda>f. rf_seq f > cursor) (frames d)) in
        Inr (if result = [] then d
             else d\<lparr>sent_high_water := max (sent_high_water d) (rf_seq (last result))\<rparr>, result))"

section \<open>The relay of a session\<close>

record SessionRelay =
  sr_input :: Direction
  sr_output :: Direction
  sr_closed :: bool

datatype way = InputWay | OutputWay

fun the_direction :: "way \<Rightarrow> SessionRelay \<Rightarrow> Direction" where
  "the_direction InputWay r = sr_input r"
| "the_direction OutputWay r = sr_output r"

fun set_direction :: "way \<Rightarrow> Direction \<Rightarrow> SessionRelay \<Rightarrow> SessionRelay" where
  "set_direction InputWay d r = r\<lparr>sr_input := d\<rparr>"
| "set_direction OutputWay d r = r\<lparr>sr_output := d\<rparr>"

definition new_relay :: "int \<Rightarrow> int \<Rightarrow> int \<Rightarrow> int \<Rightarrow> int \<Rightarrow> SessionRelay" where
  "new_relay input_seq output_seq max_in max_out mf =
     \<lparr>sr_input = new_direction input_seq max_in mf, sr_output = new_direction output_seq max_out mf,
      sr_closed = False\<rparr>"

definition relay_append ::
  "(nat list \<Rightarrow> nat list) \<Rightarrow> SessionRelay \<Rightarrow> way \<Rightarrow> RelayFrame \<Rightarrow> RelayError + SessionRelay \<times> bool" where
  "relay_append digest r w f =
     (if sr_closed r then Inl RelayClosed
      else case direction_append digest (the_direction w r) f of
          Inl e \<Rightarrow> Inl e
        | Inr (d, accepted) \<Rightarrow> Inr (set_direction w d r, accepted))"

text \<open>
  Before the wait: the frames to return, or \<open>None\<close> when the reader goes to wait. A refusal
  after the acknowledgement keeps the acknowledgement.
\<close>

definition relay_read ::
  "SessionRelay \<Rightarrow> way \<Rightarrow> int \<Rightarrow> int \<Rightarrow> int \<Rightarrow> bool \<Rightarrow> SessionRelay \<times> (RelayError + RelayFrame list option)" where
  "relay_read r w after ack limit no_timeout =
     (case direction_acknowledge (the_direction w r) ack of
        Inl e \<Rightarrow> (r, Inl e)
      | Inr d \<Rightarrow>
          (case direction_after d after limit of
             Inl e \<Rightarrow> (set_direction w d r, Inl e)
           | Inr (d', result) \<Rightarrow>
               (set_direction w d' r,
                if result \<noteq> [] \<or> sr_closed r \<or> no_timeout then Inr (Some result) else Inr None)))"

text \<open>After the wait, on the state then: nothing on a timeout, otherwise a second look.\<close>

definition relay_read_woken ::
  "SessionRelay \<Rightarrow> way \<Rightarrow> int \<Rightarrow> int \<Rightarrow> bool \<Rightarrow> SessionRelay \<times> (RelayError + RelayFrame list)" where
  "relay_read_woken r w after limit timed_out =
     (if timed_out then (r, Inr [])
      else case direction_after (the_direction w r) after limit of
          Inl e \<Rightarrow> (r, Inl e)
        | Inr (d, result) \<Rightarrow> (set_direction w d r, Inr result))"

definition relay_close :: "SessionRelay \<Rightarrow> SessionRelay" where
  "relay_close r = r\<lparr>sr_closed := True\<rparr>"

section \<open>The registry\<close>

record RelayRegistry =
  heap :: "SessionRelay list"
  relays :: "string \<Rightarrow> nat option"

definition registry_create ::
  "RelayRegistry \<Rightarrow> string \<Rightarrow> int \<Rightarrow> int \<Rightarrow> int \<Rightarrow> int \<Rightarrow> int \<Rightarrow> RelayRegistry \<times> nat" where
  "registry_create reg session_id input_seq output_seq max_in max_out mf =
     (case relays reg session_id of
        Some a \<Rightarrow> if \<not> sr_closed (heap reg ! a) then (reg, a)
                  else (reg\<lparr>heap := heap reg @ [new_relay input_seq output_seq max_in max_out mf],
                    relays := (relays reg)(session_id \<mapsto> length (heap reg))\<rparr>, length (heap reg))
      | None \<Rightarrow> (reg\<lparr>heap := heap reg @ [new_relay input_seq output_seq max_in max_out mf],
                    relays := (relays reg)(session_id \<mapsto> length (heap reg))\<rparr>, length (heap reg)))"

definition registry_get :: "RelayRegistry \<Rightarrow> string \<Rightarrow> nat option" where
  "registry_get reg session_id = relays reg session_id"

definition registry_close :: "RelayRegistry \<Rightarrow> string \<Rightarrow> RelayRegistry" where
  "registry_close reg session_id =
     (case registry_get reg session_id of
        None \<Rightarrow> reg
      | Some a \<Rightarrow> reg\<lparr>heap := (heap reg)[a := relay_close (heap reg ! a)]\<rparr>)"

section \<open>A direction stands for its history\<close>

definition numbered :: "int \<Rightarrow> RelayFrame list \<Rightarrow> bool" where
  "numbered start H \<longleftrightarrow> (\<forall>i < length H. rf_seq (H ! i) = start + 1 + int i)"

definition byte_total :: "RelayFrame list \<Rightarrow> int" where
  "byte_total fs = (\<Sum>f \<leftarrow> fs. int (rf_byte_length f))"

definition direction_rep ::
  "(nat list \<Rightarrow> nat list) \<Rightarrow> int \<Rightarrow> int \<Rightarrow> int \<Rightarrow> Direction \<Rightarrow> RelayFrame list \<Rightarrow> nat \<Rightarrow> nat \<Rightarrow> bool" where
  "direction_rep digest start mb mf d H e w \<longleftrightarrow>
     0 \<le> start \<and> max_bytes d = mb \<and> max_frames d = mf \<and> numbered start H \<and> e \<le> w \<and> w \<le> length H \<and>
     last_seq d = start + int (length H) \<and> sent_high_water d = start + int w \<and>
     evicted_through d = start + int e \<and> frames d = drop e H \<and> buffered_bytes d = byte_total (drop e H) \<and>
     int (length (frames d)) \<le> max 0 mf \<and> buffered_bytes d \<le> max 0 mb \<and>
     (\<forall>q b. recent_digests d q = Some b \<longrightarrow> (\<exists>i < length H. q = start + 1 + int i \<and> b = frame_digest digest (H ! i))) \<and>
     (\<forall>i < length H. w \<le> i + 33 \<longrightarrow> recent_digests d (start + 1 + int i) = Some (frame_digest digest (H ! i)))"

lemma new_direction_rep: "0 \<le> start \<Longrightarrow> direction_rep digest start mb mf (new_direction start mb mf) [] 0 0"
  by (simp add: direction_rep_def new_direction_def numbered_def byte_total_def)

lemma byte_total_simps [simp]:
  "byte_total [] = 0" "byte_total (f # fs) = int (rf_byte_length f) + byte_total fs"
  "byte_total (fs @ gs) = byte_total fs + byte_total gs"
  by (simp_all add: byte_total_def)

lemma byte_total_nonneg: "0 \<le> byte_total fs"
  by (induction fs) simp_all

lemma numbered_snoc: "numbered start (H @ [f]) \<longleftrightarrow> numbered start H \<and> rf_seq f = start + 1 + int (length H)"
  by (auto simp: numbered_def nth_append less_Suc_eq)

lemma append_rep:
  assumes "direction_rep digest start mb mf d H e w" "direction_append digest d f = Inr (d', True)"
  shows "direction_rep digest start mb mf d' (H @ [f]) e w"
proof -
  have new: "rf_seq f = last_seq d + 1" "int (length (frames d)) < max_frames d"
    "buffered_bytes d + int (rf_byte_length f) \<le> max_bytes d"
    "d' = d\<lparr>frames := frames d @ [f], buffered_bytes := buffered_bytes d + int (rf_byte_length f),
       last_seq := rf_seq f, recent_digests := (recent_digests d)(rf_seq f := Some (frame_digest digest f))\<rparr>"
    using assms(2) by (auto simp: direction_append_def split: if_splits)
  show ?thesis
    using assms(1) new(1-3) unfolding direction_rep_def new(4)
    by (auto simp: numbered_snoc nth_append less_Suc_eq)
qed

lemma append_old: "direction_append digest d f = Inr (d', False) \<Longrightarrow> d' = d"
  by (auto simp: direction_append_def split: if_splits)

text \<open>Eviction drops what the acknowledgement covers.\<close>

lemma evict_numbered:
  assumes "numbered start H" "e \<le> length H" "ack = start + int n" "n \<le> length H"
  shows "evict ack (drop e H) (byte_total (drop e H)) (start + int e) =
    (drop (max e n) H, byte_total (drop (max e n) H), start + int (max e n))"
  using assms(2)
proof (induction "length H - e" arbitrary: e)
  case 0
  then show ?case using assms(4) by (simp add: max_def)
next
  case (Suc k)
  then have e: "e < length H" by simp
  then have step: "drop e H = H ! e # drop (Suc e) H" by (simp add: Cons_nth_drop_Suc)
  have seq: "rf_seq (H ! e) = start + 1 + int e" using assms(1) e by (simp add: numbered_def)
  show ?case
  proof (cases "e < n")
    case True
    have "evict ack (drop (Suc e) H) (byte_total (drop (Suc e) H)) (start + int (Suc e)) =
        (drop (max (Suc e) n) H, byte_total (drop (max (Suc e) n) H), start + int (max (Suc e) n))"
      by (rule Suc.hyps(1)) (use Suc.hyps(2) e in simp_all)
    moreover have "max (Suc e) n = max e n" using True by simp
    ultimately show ?thesis using True seq assms(3) by (simp add: step algebra_simps)
  next
    case False
    then have "max e n = e" "\<not> rf_seq (H ! e) \<le> ack" using seq assms(3) by simp_all
    then show ?thesis by (simp add: step)
  qed
qed

lemma acknowledge_rep:
  assumes "direction_rep digest start mb mf d H e w" "n \<le> w"
  shows "\<exists>d'. direction_acknowledge d (start + int n) = Inr d' \<and> direction_rep digest start mb mf d' H (max e n) w"
proof -
  note r = assms(1) [unfolded direction_rep_def]
  have ev: "evict (start + int n) (frames d) (buffered_bytes d) (evicted_through d) =
      (drop (max e n) H, byte_total (drop (max e n) H), start + int (max e n))"
    using evict_numbered [of start H e "start + int n" n] r assms(2) by simp
  have "byte_total (drop e H) = byte_total (take (max e n - e) (drop e H)) + byte_total (drop (max e n) H)"
  proof -
    have "drop e H = take (max e n - e) (drop e H) @ drop (max e n) H"
      by (metis append_take_drop_id drop_drop le_add_diff_inverse2 max.cobounded1)
    then show ?thesis by (metis byte_total_simps(3))
  qed
  then have "byte_total (drop (max e n) H) \<le> byte_total (drop e H)"
    using byte_total_nonneg [of "take (max e n - e) (drop e H)"] by simp
  then have bytes: "byte_total (drop (max e n) H) \<le> max 0 mb" using r by simp
  have len: "int (length (drop (max e n) H)) \<le> max 0 mf"
  proof -
    have "length (drop (max e n) H) \<le> length (drop e H)" by simp
    moreover have "int (length (drop e H)) \<le> max 0 mf" using r by metis
    ultimately show ?thesis by linarith
  qed
  define d' where "d' = d\<lparr>frames := drop (max e n) H, buffered_bytes := byte_total (drop (max e n) H),
      evicted_through := start + int (max e n),
      recent_digests := (\<lambda>q. if q < max 0 (start + int n - 32) then None else recent_digests d q)\<rparr>"
  have "direction_acknowledge d (start + int n) = Inr d'"
    using r assms(2) ev by (simp add: direction_acknowledge_def d'_def)
  moreover have "direction_rep digest start mb mf d' H (max e n) w"
    unfolding direction_rep_def d'_def using r assms(2) bytes len by auto
  ultimately show ?thesis by blast
qed

lemma filter_numbered:
  assumes "numbered start H" "e \<le> c" "c \<le> length H"
  shows "filter (\<lambda>f. rf_seq f > start + int c) (drop e H) = drop c H"
proof -
  have "drop e H = take (c - e) (drop e H) @ drop c H"
    using assms(2) by (metis append_take_drop_id drop_drop le_add_diff_inverse2)
  moreover have "\<not> rf_seq f > start + int c" if "f \<in> set (take (c - e) (drop e H))" for f
    using that assms by (auto simp: in_set_conv_nth numbered_def)
  moreover have "rf_seq f > start + int c" if "f \<in> set (drop c H)" for f
    using that assms by (auto simp: in_set_conv_nth numbered_def)
  ultimately show ?thesis
    by (metis (no_types, lifting) append_Nil filter_False filter_True filter_append)
qed

lemma after_any:
  assumes "direction_rep digest start mb mf d H e w" "e \<le> c" "c \<le> length H"
  shows "\<exists>d'. direction_after d (start + int c) (int k) = Inr (d', take k (drop c H)) \<and>
    direction_rep digest start mb mf d' H e (if take k (drop c H) = [] then w else max w (min (c + k) (length H)))"
proof -
  note r = assms(1) [unfolded direction_rep_def]
  have fl: "filter (\<lambda>f. rf_seq f > start + int c) (frames d) = drop c H"
    using filter_numbered [of start H e c] r assms(2,3) by simp
  show ?thesis
  proof (cases "take k (drop c H) = []")
    case True
    have "direction_after d (start + int c) (int k) = Inr (d, take k (drop c H))"
      using fl r assms True by (auto simp: direction_after_def slice_to_def Let_def)
    then show ?thesis using assms(1) True by auto
  next
    case False
    let ?m = "min (c + k) (length H)"
    have m: "c < ?m" "?m \<le> length H" using False by auto
    have "last (take k (drop c H)) = H ! (?m - 1)"
    proof -
      have len: "length (take k (drop c H)) = ?m - c" using m by simp
      then have "last (take k (drop c H)) = take k (drop c H) ! (?m - c - 1)"
        using False by (metis last_conv_nth)
      then show ?thesis using m by (simp add: algebra_simps)
    qed
    then have "rf_seq (last (take k (drop c H))) = start + int ?m"
    proof -
      have "?m - 1 < length H" using m by linarith
      moreover have "numbered start H" using r by simp
      ultimately have "rf_seq (H ! (?m - 1)) = start + 1 + int (?m - 1)" unfolding numbered_def by blast
      also have "\<dots> = start + int ?m" using m(1) by linarith
      finally show ?thesis using \<open>last (take k (drop c H)) = H ! (?m - 1)\<close> by simp
    qed
    then have "direction_after d (start + int c) (int k) =
        Inr (d\<lparr>sent_high_water := max (start + int w) (start + int ?m)\<rparr>, take k (drop c H))"
      using fl r assms False by (auto simp: direction_after_def slice_to_def Let_def)
    moreover have "direction_rep digest start mb mf (d\<lparr>sent_high_water := max (start + int w) (start + int ?m)\<rparr>) H e (max w ?m)"
      unfolding direction_rep_def using r m by (auto simp: max_def)
    ultimately show ?thesis unfolding if_not_P [OF False] by blast
  qed
qed

lemma after_rep:
  assumes "direction_rep digest start mb mf d H e w" "e \<le> c" "c \<le> w"
  shows "\<exists>d'. direction_after d (start + int c) (int k) = Inr (d', take k (drop c H)) \<and>
    direction_rep digest start mb mf d' H e (max w (min (c + k) (length H)))"
proof -
  have "c \<le> length H" using assms by (simp add: direction_rep_def)
  moreover have "(if take k (drop c H) = [] then w else max w (min (c + k) (length H))) = max w (min (c + k) (length H))"
    using assms(3) by auto
  ultimately show ?thesis using after_any [OF assms(1,2), of k] by simp
qed

section \<open>The channel of a direction\<close>

text \<open>
  The contract of an acknowledged channel, for the queue of a direction that started at the
  sequence number \<open>start\<close>; a reader at position \<open>c\<close> uses the cursor \<open>start + c\<close>.
\<close>

definition ack_at :: "int \<Rightarrow> Direction \<Rightarrow> nat \<Rightarrow> RelayError + Direction" where
  "ack_at start d n = direction_acknowledge d (start + int n)"

definition after_at :: "int \<Rightarrow> Direction \<Rightarrow> nat \<Rightarrow> nat \<Rightarrow> RelayError + Direction \<times> RelayFrame list" where
  "after_at start d c k = direction_after d (start + int c) (int k)"

interpretation relay_channel: acked_channel "direction_rep digest start mb mf" "direction_append digest"
    "ack_at start" "after_at start" for digest start mb mf
proof unfold_locales
  show "e \<le> w \<and> w \<le> length H" if "direction_rep digest start mb mf d H e w" for d H e w
    using that by (simp add: direction_rep_def)
  show "d' = d" if "direction_append digest d f = Inr (d', False)" for d f d'
    using that by (rule append_old)
qed (simp_all add: append_rep acknowledge_rep after_rep ack_at_def after_at_def)

text \<open>
  C10. Exactly-once, in-order delivery over a direction of the relay. A sender appends frames,
  retries included, and a reader polls with its cursor and acknowledgement at the frames it
  has received. Whatever the interleaving, and whatever was refused for back-pressure or a
  sequence conflict, the reader holds a prefix of the frames that were accepted, each once and
  in order; one more poll with room for the rest completes it; and the queue never holds more
  than its limits of frames and bytes.
\<close>

theorem relay_delivers_in_order:
  assumes "0 \<le> start" "drive (direction_append digest) (ack_at start) (after_at start)
      (new_direction start mb mf) 0 ops = (d, sent, got)"
  shows "got = take (length got) sent \<and>
    map rf_seq sent = map (\<lambda>i. start + 1 + int i) [0..<length sent] \<and>
    int (length (frames d)) \<le> max 0 mf \<and> 0 \<le> buffered_bytes d \<and> buffered_bytes d \<le> max 0 mb \<and>
    (length sent \<le> length got + k \<longrightarrow>
      got @ snd (snd (drive (direction_append digest) (ack_at start) (after_at start) d (length got) [Poll k])) = sent)"
proof -
  from relay_channel.drive_delivers [OF new_direction_rep [OF assms(1)] _ _ assms(2)]
  obtain e w where r: "direction_rep digest start mb mf d sent e w" "e \<le> length got" "length got \<le> w"
    and got: "got = take (length got) sent" by auto
  have "got @ drop (length got) sent = sent" using got by (metis append_take_drop_id)
  moreover have "snd (snd (drive (direction_append digest) (ack_at start) (after_at start) d (length got) [Poll k])) =
      drop (length got) sent" if "length sent \<le> length got + k"
    using relay_channel.drive_drains [OF r] that by simp
  moreover have "map rf_seq sent = map (\<lambda>i. start + 1 + int i) [0..<length sent]"
    using r(1) by (auto simp: direction_rep_def numbered_def intro: nth_equalityI)
  ultimately show ?thesis
    using r(1) got byte_total_nonneg unfolding direction_rep_def by auto
qed

text \<open>Two small frames for the concrete instances.\<close>

definition frame1 :: RelayFrame where
  "frame1 = \<lparr>rf_seq = 1, rf_stream = ustr ''stdout'', rf_data_b64 = ustr ''YQ=='', rf_eof = False, rf_byte_length = 1\<rparr>"

definition frame2 :: RelayFrame where
  "frame2 = frame1\<lparr>rf_seq := 2, rf_eof := True\<rparr>"

definition demo_traffic :: "RelayFrame traffic list" where
  "demo_traffic = [Send frame1, Poll 64, Send frame1, Send frame2]"

definition demo_direction :: Direction where
  "demo_direction = \<lparr>last_seq = 2, sent_high_water = 1, evicted_through = 0, max_bytes = 10, max_frames = 2,
     frames = [frame1, frame2], buffered_bytes = 2,
     recent_digests = (\<lambda>_. None)(1 := Some (frame_digest id frame1), 2 := Some (frame_digest id frame2))\<rparr>"

lemma demo_drive:
  "drive (direction_append id) (ack_at 0) (after_at 0) (new_direction 0 10 2) 0 demo_traffic =
     (demo_direction, [frame1, frame2], [frame1])"
  by (simp add: demo_traffic_def demo_direction_def new_direction_def direction_append_def ack_at_def after_at_def
      direction_acknowledge_def direction_after_def slice_to_def frame1_def frame2_def fun_eq_iff Let_def)

theorem relay_delivers_in_order_witness:
  "[frame1] @ snd (snd (drive (direction_append id) (ack_at 0) (after_at 0) demo_direction 1 [Poll 64])) = [frame1, frame2]"
  using relay_delivers_in_order [OF _ demo_drive, of 64] by simp

text \<open>
  A retry: a frame that was accepted and lies at most 33 positions before the highest one
  handed out is recognised when it is sent again: nothing changes and the sender is told that
  it was a retry. A different frame under its number is refused as a conflict.
\<close>

theorem retry_recognised:
  assumes "0 \<le> start" "drive (direction_append digest) (ack_at start) (after_at start)
      (new_direction start mb mf) 0 ops = (d, sent, got)"
    and "i < length sent" "sent_high_water d \<le> start + int i + 33"
  shows "direction_append digest d (sent ! i) = Inr (d, False) \<and>
    (rf_seq f = rf_seq (sent ! i) \<and> frame_digest digest f \<noteq> frame_digest digest (sent ! i) \<longrightarrow>
      direction_append digest d f = Inl SequenceConflict)"
proof -
  from relay_channel.drive_delivers [OF new_direction_rep [OF assms(1)] _ _ assms(2)]
  obtain e w where r: "direction_rep digest start mb mf d sent e w" by auto
  have seq: "rf_seq (sent ! i) = start + 1 + int i" "rf_seq (sent ! i) \<le> last_seq d"
    using r assms(3) by (auto simp: direction_rep_def numbered_def)
  have "sent_high_water d = start + int w" using r by (simp add: direction_rep_def)
  then have "w \<le> i + 33" using assms(4) by linarith
  then have "recent_digests d (rf_seq (sent ! i)) = Some (frame_digest digest (sent ! i))"
    using r assms(3) seq(1) unfolding direction_rep_def by metis
  then show ?thesis using seq by (auto simp: direction_append_def)
qed

theorem retry_recognised_witness: "direction_append id demo_direction frame1 = Inr (demo_direction, False)"
proof -
  have "sent_high_water demo_direction \<le> 0 + int 0 + 33" by (simp add: demo_direction_def)
  then show ?thesis using retry_recognised [OF _ demo_drive, of 0 frame1] by simp
qed

end
