(* ===== verification/Shell_Sessions.thy ===== *)
theory Shell_Sessions
  imports Approval_Api Shell_Relay
begin

text \<open>
  Interactive shell sessions (\<open>server/app/api/shell_sessions.py\<close> and the sweep of
  \<open>server/app/core/tasks.py\<close>). The rows hold the lifecycle and the counters, the relay holds
  the frames. A handler is one atomic step on the tables and the relays, except for the reads,
  which are a step before and a step after the wait. A refusal rolls the tables back and keeps
  what was done to the relay. Settings are an argument.
\<close>

section \<open>Rows and settings\<close>

datatype ShellSessionStatus =
  Shell_pending | Shell_active | Shell_closed | Shell_denied | Shell_timed_out | Shell_failed

fun shell_status_value :: "ShellSessionStatus \<Rightarrow> string" where
  "shell_status_value Shell_pending = ''pending''"
| "shell_status_value Shell_active = ''active''"
| "shell_status_value Shell_closed = ''closed''"
| "shell_status_value Shell_denied = ''denied''"
| "shell_status_value Shell_timed_out = ''timed_out''"
| "shell_status_value Shell_failed = ''failed''"

record ShellSession =
  sh_id :: string
  sh_agent_id :: string
  sh_operator_id :: "string option"
  sh_actor_email :: "string option"
  sh_status :: ShellSessionStatus
  sh_capability_version :: "string option"
  sh_close_reason :: "string option"
  sh_created_at :: datetime
  sh_activated_at :: "datetime option"
  sh_last_activity_at :: "datetime option"
  sh_closed_at :: "datetime option"
  sh_absolute_deadline :: "datetime option"
  sh_idle_deadline :: "datetime option"
  sh_output_bytes_limit :: "int option"
  sh_output_bytes_total :: int
  sh_frames_out :: int
  sh_frames_in :: int
  sh_client_last_seq :: int
  sh_agent_last_seq :: int

record shell_settings =
  shell_session_max_lifetime_seconds :: int
  shell_session_idle_timeout_seconds :: int
  shell_session_output_byte_limit :: int
  shell_session_max_concurrent_per_agent :: nat
  shell_session_poll_timeout :: int
  shell_session_pending_poll_timeout :: int
  shell_session_max_frame_bytes :: int
  shell_session_relay_buffer_bytes :: int
  shell_session_input_buffer_bytes :: int
  shell_session_relay_max_frames :: int

record shell_state =
  ss_store :: store
  ss_sessions :: "ShellSession rows"
  ss_registry :: RelayRegistry

definition SHELL_SESSION_CAPABILITY :: string where "SHELL_SESSION_CAPABILITY = ''shell-session-v2''"

definition live :: "ShellSession \<Rightarrow> bool" where
  "live row \<longleftrightarrow> sh_status row \<in> set [Shell_pending, Shell_active]"

definition terminal :: "ShellSession \<Rightarrow> bool" where
  "terminal row \<longleftrightarrow> sh_status row \<in> set [Shell_closed, Shell_timed_out, Shell_denied, Shell_failed]"

section \<open>Frames\<close>

record ShellFrameIn =
  fi_seq :: int
  fi_stream :: ustr
  fi_data_b64 :: ustr
  fi_eof :: bool

definition b64_value :: "nat \<Rightarrow> nat option" where
  "b64_value c =
     (if 65 \<le> c \<and> c \<le> 90 then Some (c - 65)
      else if 97 \<le> c \<and> c \<le> 122 then Some (c - 71)
      else if 48 \<le> c \<and> c \<le> 57 then Some (c + 4)
      else if c = 43 then Some 62 else if c = 47 then Some 63 else None)"

text \<open>
  \<open>binascii.a2b_base64\<close> in strict mode: the position in the group of four, the bits left over,
  the padding seen and whether padding has begun.
\<close>

fun a2b_base64 :: "nat \<Rightarrow> nat \<Rightarrow> nat \<Rightarrow> bool \<Rightarrow> ustr \<Rightarrow> nat list option" where
  "a2b_base64 quad left pads started [] = (if quad = 0 then Some [] else None)"
| "a2b_base64 quad left pads started (c # s) =
     (if c = 61 then
        (if quad \<ge> 2 \<and> quad + pads + 1 \<ge> 4 then (if s = [] then Some [] else None)
         else a2b_base64 quad left (if quad \<ge> 2 then pads + 1 else pads) True s)
      else case b64_value c of
          None \<Rightarrow> None
        | Some v \<Rightarrow>
            if started then None
            else if quad = 0 then a2b_base64 1 v 0 started s
            else if quad = 1 then map_option (Cons (left * 4 + v div 16)) (a2b_base64 2 (v mod 16) 0 started s)
            else if quad = 2 then map_option (Cons (left * 16 + v div 4)) (a2b_base64 3 (v mod 4) 0 started s)
            else map_option (Cons (left * 64 + v)) (a2b_base64 0 0 0 started s))"

definition b64decode :: "ustr \<Rightarrow> nat list option" where
  "b64decode s = (if s \<noteq> [] \<and> hd s = 61 then None else a2b_base64 0 0 0 False s)"

definition decode_frame :: "shell_settings \<Rightarrow> ShellFrameIn \<Rightarrow> ustr list \<Rightarrow> RelayFrame http" where
  "decode_frame cfg body allowed_streams =
     (if fi_stream body \<notin> set allowed_streams then Inl (HTTPException 422 ''shell_stream_invalid'')
      else case b64decode (fi_data_b64 body) of
          None \<Rightarrow> Inl (HTTPException 422 ''shell_frame_base64_invalid'')
        | Some decoded \<Rightarrow>
            if decoded = [] \<and> \<not> fi_eof body \<and> fi_stream body \<noteq> ustr ''control''
            then Inl (HTTPException 422 ''shell_frame_empty'')
            else if int (length decoded) > shell_session_max_frame_bytes cfg
            then Inl (HTTPException 413 ''shell_frame_too_large'')
            else Inr \<lparr>rf_seq = fi_seq body, rf_stream = fi_stream body, rf_data_b64 = fi_data_b64 body,
              rf_eof = fi_eof body, rf_byte_length = length decoded\<rparr>)"

section \<open>Helpers\<close>

definition touch :: "shell_settings \<Rightarrow> instant \<Rightarrow> ShellSession \<Rightarrow> ShellSession" where
  "touch cfg now row =
     (let idle = now + seconds (shell_session_idle_timeout_seconds cfg) in
      row\<lparr>sh_last_activity_at := Some (Aware now),
          sh_idle_deadline := Some (Aware (case ensure_utc (sh_absolute_deadline row) of
            Some absolute \<Rightarrow> min idle absolute | None \<Rightarrow> idle))\<rparr>)"

definition shell_audit ::
  "string \<Rightarrow> string \<Rightarrow> string option \<Rightarrow> string \<Rightarrow> json \<Rightarrow> shell_state \<Rightarrow> shell_state" where
  "shell_audit action actor uid agent_id detail st =
     st\<lparr>ss_store := audit_record action actor uid (Some agent_id) None detail (ss_store st)\<rparr>"

definition record_denied :: "Agent \<Rightarrow> Operator \<Rightarrow> string \<Rightarrow> string \<Rightarrow> shell_state \<Rightarrow> shell_state" where
  "record_denied agent oper reason policy st =
     shell_audit ''shell_session.denied'' (op_email oper) (Some (op_id oper)) (ag_id agent)
       (JObj [(ustr ''session_id'', JNull), (ustr ''reason'', jstr reason), (ustr ''policy'', jstr policy),
          (ustr ''trust_state'', jstr (trust_state_value (trust_state agent)))]) st"

definition get_session :: "shell_state \<Rightarrow> string \<Rightarrow> string \<Rightarrow> ShellSession http" where
  "get_session st agent_id session_id =
     (case find (\<lambda>row. sh_id row = session_id \<and> sh_agent_id row = agent_id) (ss_sessions st) of
        None \<Rightarrow> Inl (HTTPException 404 ''Shell session not found'')
      | Some row \<Rightarrow> Inr row)"

definition require_owner :: "ShellSession \<Rightarrow> Operator \<Rightarrow> unit http" where
  "require_owner row oper =
     (if sh_operator_id row \<noteq> Some (op_id oper) then Inl (HTTPException 404 ''Shell session not found'') else Inr ())"

definition require_live :: "ShellSession \<Rightarrow> unit http" where
  "require_live row = (if \<not> live row then Inl (HTTPException 409 ''shell_session_not_live'') else Inr ())"

definition relay_for :: "shell_state \<Rightarrow> ShellSession \<Rightarrow> nat http" where
  "relay_for st row =
     (case registry_get (ss_registry st) (sh_id row) of
        None \<Rightarrow> Inl (HTTPException 409 ''shell_relay_unavailable'')
      | Some a \<Rightarrow> Inr a)"

fun relay_http_error :: "RelayError \<Rightarrow> http_error" where
  "relay_http_error Backpressure = HTTPException 429 (relay_code Backpressure)"
| "relay_http_error e = HTTPException 409 (relay_code e)"

definition put_session :: "ShellSession \<Rightarrow> shell_state \<Rightarrow> shell_state" where
  "put_session row st = st\<lparr>ss_sessions := db_update (\<lambda>q. sh_id q = sh_id row) (\<lambda>_. row) (ss_sessions st)\<rparr>"

definition put_relay :: "nat \<Rightarrow> SessionRelay \<Rightarrow> shell_state \<Rightarrow> shell_state" where
  "put_relay a r st = st\<lparr>ss_registry := (ss_registry st)\<lparr>heap := (heap (ss_registry st))[a := r]\<rparr>\<rparr>"

definition close_relay :: "string \<Rightarrow> shell_state \<Rightarrow> shell_state" where
  "close_relay session_id st = st\<lparr>ss_registry := registry_close (ss_registry st) session_id\<rparr>"

definition counters :: "ShellSession \<Rightarrow> (ustr \<times> json) list" where
  "counters row = [(ustr ''output_bytes_total'', JInt (sh_output_bytes_total row)),
     (ustr ''frames_in'', JInt (sh_frames_in row)), (ustr ''frames_out'', JInt (sh_frames_out row))]"

section \<open>Opening\<close>

definition new_session :: "shell_settings \<Rightarrow> string \<Rightarrow> string \<Rightarrow> Operator \<Rightarrow> instant \<Rightarrow> ShellSession" where
  "new_session cfg new_id agent_id oper now =
     \<lparr>sh_id = new_id, sh_agent_id = agent_id, sh_operator_id = Some (op_id oper),
      sh_actor_email = Some (op_email oper), sh_status = Shell_pending,
      sh_capability_version = Some SHELL_SESSION_CAPABILITY, sh_close_reason = None,
      sh_created_at = Aware now, sh_activated_at = None, sh_last_activity_at = Some (Aware now),
      sh_closed_at = None,
      sh_absolute_deadline = Some (Aware (now + seconds (shell_session_max_lifetime_seconds cfg))),
      sh_idle_deadline = Some (Aware (now + seconds (shell_session_idle_timeout_seconds cfg))),
      sh_output_bytes_limit = Some (shell_session_output_byte_limit cfg), sh_output_bytes_total = 0,
      sh_frames_out = 0, sh_frames_in = 0, sh_client_last_seq = 0, sh_agent_last_seq = 0\<rparr>"

definition live_rows :: "shell_state \<Rightarrow> string \<Rightarrow> ShellSession list" where
  "live_rows st agent_id =
     sort_key (instant_of \<circ> sh_created_at) (filter (\<lambda>row. sh_agent_id row = agent_id \<and> live row) (ss_sessions st))"

definition open_detail :: "shell_settings \<Rightarrow> ShellSession \<Rightarrow> instant \<Rightarrow> json" where
  "open_detail cfg row now = JObj
     [(ustr ''session_id'', jstr (sh_id row)), (ustr ''capability_version'', jopt jstr (sh_capability_version row)),
      (ustr ''output_bytes_limit'', jopt JInt (sh_output_bytes_limit row)),
      (ustr ''absolute_deadline'', JStr (isoformat (now + seconds (shell_session_max_lifetime_seconds cfg)))),
      (ustr ''idle_deadline'', JStr (isoformat (now + seconds (shell_session_idle_timeout_seconds cfg))))]"

text \<open>The part after the gates: reconnect, admission, or a new row with its relay.\<close>

definition admit ::
  "shell_settings \<Rightarrow> shell_state \<Rightarrow> Agent \<Rightarrow> Operator \<Rightarrow> instant \<Rightarrow> string \<Rightarrow> shell_state \<times> ShellSession http" where
  "admit cfg st agent oper now new_id =
     (let rows = take (shell_session_max_concurrent_per_agent cfg) (live_rows st (ag_id agent)) in
      if rows \<noteq> [] \<and> sh_operator_id (hd rows) = Some (op_id oper) then (st, Inr (hd rows))
      else if length rows \<ge> shell_session_max_concurrent_per_agent cfg
      then (record_denied agent oper ''shell_session_already_active'' ''admission'' st,
            Inl (HTTPException 409 ''shell_session_already_active''))
      else let row = new_session cfg new_id (ag_id agent) oper now;
               reg = fst (registry_create (ss_registry st) new_id 0 0 (shell_session_input_buffer_bytes cfg)
                 (shell_session_relay_buffer_bytes cfg) (shell_session_relay_max_frames cfg))
           in (shell_audit ''shell_session.opened'' (op_email oper) (Some (op_id oper)) (ag_id agent)
                 (open_detail cfg row now)
                 (st\<lparr>ss_sessions := ss_sessions st @ [row], ss_registry := reg\<rparr>), Inr row))"

definition open_shell_session ::
  "shell_settings \<Rightarrow> shell_state \<Rightarrow> string \<Rightarrow> Operator \<Rightarrow> instant \<Rightarrow> string \<Rightarrow> shell_state \<times> ShellSession http" where
  "open_shell_session cfg st agent_id oper now new_id =
     (case require_role OperatorRole_operator oper of
        Inl e \<Rightarrow> (st, Inl e)
      | Inr _ \<Rightarrow>
     (case get_agent (ss_store st) agent_id of
        None \<Rightarrow> (st, Inl (HTTPException 404 ''Agent not found''))
      | Some agent \<Rightarrow>
     (case assert_agent_visible (st_db (ss_store st)) oper agent (Some client_operator) ''Agent not found'' of
        Inl e \<Rightarrow> (st, Inl e)
      | Inr _ \<Rightarrow>
        let authorization = authorize_command oper agent powershell in
        if \<not> cmd_allowed authorization
        then (record_denied agent oper ''shell_session_not_authorized'' (cmd_policy authorization) st,
              Inl (HTTPException 403 ''shell_session_not_authorized''))
        else if resolve_policy (st_db (ss_store st)) (st_policies (ss_store st)) agent powershell \<noteq> None
        then (record_denied agent oper ''shell_session_requires_approval'' ''approval_policy'' st,
              Inl (HTTPException 409 ''shell_session_requires_approval''))
        else if trust_state agent \<noteq> Trust_active
        then (record_denied agent oper ''agent_not_trusted'' ''trust_state'' st,
              Inl (HTTPException 409 ''agent_not_trusted''))
        else if SHELL_SESSION_CAPABILITY \<notin> set (case supported_capabilities agent of None \<Rightarrow> [] | Some l \<Rightarrow> l)
        then (record_denied agent oper ''shell_session_unsupported'' ''capability'' st,
              Inl (HTTPException 409 ''shell_session_unsupported''))
        else admit cfg st agent oper now new_id)))"

definition get_shell_session ::
  "shell_state \<Rightarrow> string \<Rightarrow> string \<Rightarrow> Operator \<Rightarrow> shell_state \<times> ShellSession http" where
  "get_shell_session st agent_id session_id oper =
     (case get_session st agent_id session_id of
        Inl e \<Rightarrow> (st, Inl e)
      | Inr row \<Rightarrow>
     (case require_owner row oper of
        Inl e \<Rightarrow> (st, Inl e)
      | Inr _ \<Rightarrow>
        (shell_audit ''shell_session.viewed'' (op_email oper) (Some (op_id oper)) agent_id
           (JObj [(ustr ''session_id'', jstr (sh_id row)), (ustr ''status'', jstr (shell_status_value (sh_status row)))]) st,
         Inr row)))"

end
