(* ===== verification/Shell_Transport.thy ===== *)
theory Shell_Transport
  imports Shell_Sessions
begin

text \<open>
  The transport of an open shell session (\<open>server/app/api/shell_sessions.py\<close>): input and
  output frames, the long polls of both sides, attaching, closing, completion and the sweep
  of \<open>server/app/core/tasks.py\<close>.
\<close>

section \<open>Sending\<close>

text \<open>\<open>relay.append\<close> on the relay at an address, with its refusal as a response.\<close>

definition append_at ::
  "(nat list \<Rightarrow> nat list) \<Rightarrow> shell_state \<Rightarrow> nat \<Rightarrow> way \<Rightarrow> RelayFrame \<Rightarrow> (shell_state \<times> bool) http" where
  "append_at digest st a w f =
     (case relay_append digest (heap (ss_registry st) ! a) w f of
        Inl e \<Rightarrow> Inl (relay_http_error e)
      | Inr (r, accepted) \<Rightarrow> Inr (put_relay a r st, accepted))"

definition note_input :: "shell_settings \<Rightarrow> instant \<Rightarrow> RelayFrame \<Rightarrow> ShellSession \<Rightarrow> ShellSession" where
  "note_input cfg now f row =
     touch cfg now (row\<lparr>sh_client_last_seq := rf_seq f, sh_frames_in := sh_frames_in row + 1\<rparr>)"

definition send_shell_input ::
  "(nat list \<Rightarrow> nat list) \<Rightarrow> shell_settings \<Rightarrow> shell_state \<Rightarrow> string \<Rightarrow> string \<Rightarrow> ShellFrameIn \<Rightarrow> Operator \<Rightarrow>
   instant \<Rightarrow> shell_state \<times> ShellSession http" where
  "send_shell_input digest cfg st agent_id session_id body oper now =
     (case require_role OperatorRole_operator oper of
        Inl e \<Rightarrow> (st, Inl e)
      | Inr _ \<Rightarrow>
     (case get_session st agent_id session_id of
        Inl e \<Rightarrow> (st, Inl e)
      | Inr row \<Rightarrow>
     (case require_owner row oper of
        Inl e \<Rightarrow> (st, Inl e)
      | Inr _ \<Rightarrow>
     (case require_live row of
        Inl e \<Rightarrow> (st, Inl e)
      | Inr _ \<Rightarrow>
     (case decode_frame cfg body [ustr ''input'', ustr ''control''] of
        Inl e \<Rightarrow> (st, Inl e)
      | Inr f \<Rightarrow>
     (case relay_for st row of
        Inl e \<Rightarrow> (st, Inl e)
      | Inr a \<Rightarrow>
     (case append_at digest st a InputWay f of
        Inl e \<Rightarrow> (st, Inl e)
      | Inr (st', accepted) \<Rightarrow>
          if accepted then let row' = note_input cfg now f row in (put_session row' st', Inr row')
          else (st', Inr row))))))))"

definition get_agent_session :: "shell_state \<Rightarrow> Agent \<Rightarrow> string \<Rightarrow> ShellSession http" where
  "get_agent_session st agent session_id =
     (if trust_state agent \<noteq> Trust_active then Inl (HTTPException 409 ''agent_not_trusted'')
      else case get_session st (ag_id agent) session_id of
          Inl e \<Rightarrow> Inl e
        | Inr row \<Rightarrow> (case require_live row of Inl e \<Rightarrow> Inl e | Inr _ \<Rightarrow> Inr row))"

definition actor_of_agent :: "Agent \<Rightarrow> string" where
  "actor_of_agent agent = ''agent:'' @ ag_id agent"

definition end_session ::
  "ShellSessionStatus \<Rightarrow> string \<Rightarrow> instant \<Rightarrow> ShellSession \<Rightarrow> ShellSession" where
  "end_session status reason now row =
     row\<lparr>sh_status := status, sh_close_reason := Some reason, sh_closed_at := Some (Aware now)\<rparr>"

text \<open>\<open>row.output_bytes_limit or settings...\<close>: zero counts as unset.\<close>

definition output_limit :: "shell_settings \<Rightarrow> ShellSession \<Rightarrow> int" where
  "output_limit cfg row =
     (case sh_output_bytes_limit row of
        None \<Rightarrow> shell_session_output_byte_limit cfg
      | Some l \<Rightarrow> if l = 0 then shell_session_output_byte_limit cfg else l)"

definition failed_detail :: "ShellSession \<Rightarrow> json \<Rightarrow> json" where
  "failed_detail row limit = JObj
     ([(ustr ''session_id'', jstr (sh_id row)), (ustr ''reason'', jopt jstr (sh_close_reason row)),
       (ustr ''output_bytes_limit'', limit)] @ counters row)"

definition note_output :: "shell_settings \<Rightarrow> instant \<Rightarrow> RelayFrame \<Rightarrow> ShellSession \<Rightarrow> ShellSession" where
  "note_output cfg now f row =
     touch cfg now (row\<lparr>sh_agent_last_seq := rf_seq f, sh_frames_out := sh_frames_out row + 1,
       sh_output_bytes_total := sh_output_bytes_total row + int (rf_byte_length f)\<rparr>)"

definition over_limit :: "shell_settings \<Rightarrow> ShellSession \<Rightarrow> RelayFrame \<Rightarrow> bool" where
  "over_limit cfg row f \<longleftrightarrow> rf_seq f > sh_agent_last_seq row \<and>
     sh_output_bytes_total row + int (rf_byte_length f) > output_limit cfg row"

definition fail_over_limit ::
  "shell_settings \<Rightarrow> shell_state \<Rightarrow> Agent \<Rightarrow> ShellSession \<Rightarrow> instant \<Rightarrow> shell_state" where
  "fail_over_limit cfg st agent row now =
     (let row' = end_session Shell_failed ''output_limit'' now row in
      shell_audit ''shell_session.failed'' (actor_of_agent agent) None (ag_id agent)
        (failed_detail row' (JInt (output_limit cfg row))) (close_relay (sh_id row) (put_session row' st)))"

definition send_shell_output ::
  "(nat list \<Rightarrow> nat list) \<Rightarrow> shell_settings \<Rightarrow> shell_state \<Rightarrow> string \<Rightarrow> ShellFrameIn \<Rightarrow> Agent \<Rightarrow> instant \<Rightarrow>
   shell_state \<times> ShellSession http" where
  "send_shell_output digest cfg st session_id body agent now =
     (case get_agent_session st agent session_id of
        Inl e \<Rightarrow> (st, Inl e)
      | Inr row \<Rightarrow>
     (case decode_frame cfg body [ustr ''stdout'', ustr ''stderr'', ustr ''control''] of
        Inl e \<Rightarrow> (st, Inl e)
      | Inr f \<Rightarrow>
        if over_limit cfg row f
        then (fail_over_limit cfg st agent row now, Inl (HTTPException 413 ''shell_output_limit''))
        else
     (case relay_for st row of
        Inl e \<Rightarrow> (st, Inl e)
      | Inr a \<Rightarrow>
     (case append_at digest st a OutputWay f of
        Inl e \<Rightarrow> (st, Inl e)
      | Inr (st', accepted) \<Rightarrow>
          if accepted then let row' = note_output cfg now f row in (put_session row' st', Inr row')
          else (st', Inr row)))))"

section \<open>Reading\<close>

text \<open>A read that goes to wait holds the relay it waits on.\<close>

datatype read_result = Batch ShellSession "RelayFrame list" | Waiting nat

definition refreshed :: "shell_state \<Rightarrow> ShellSession \<Rightarrow> ShellSession" where
  "refreshed st row = (case db_get sh_id (ss_sessions st) (sh_id row) of None \<Rightarrow> row | Some row' \<Rightarrow> row')"

definition batch_of :: "shell_state \<Rightarrow> bool \<Rightarrow> ShellSession \<Rightarrow> RelayFrame list \<Rightarrow> read_result" where
  "batch_of st refresh row fs = Batch (if fs = [] \<and> refresh then refreshed st row else row) fs"

definition read_at ::
  "shell_state \<Rightarrow> bool \<Rightarrow> ShellSession \<Rightarrow> nat \<Rightarrow> way \<Rightarrow> int \<Rightarrow> int \<Rightarrow> bool \<Rightarrow> shell_state \<times> read_result http" where
  "read_at st refresh row a w after ack no_timeout =
     (case relay_read (heap (ss_registry st) ! a) w after ack 64 no_timeout of
        (r, result) \<Rightarrow>
          (put_relay a r st,
           case result of
             Inl e \<Rightarrow> Inl (relay_http_error e)
           | Inr None \<Rightarrow> Inr (Waiting a)
           | Inr (Some fs) \<Rightarrow> Inr (batch_of st refresh row fs)))"

definition read_woken_at ::
  "shell_state \<Rightarrow> bool \<Rightarrow> ShellSession \<Rightarrow> nat \<Rightarrow> way \<Rightarrow> int \<Rightarrow> bool \<Rightarrow> shell_state \<times> read_result http" where
  "read_woken_at st refresh row a w after timed_out =
     (case relay_read_woken (heap (ss_registry st) ! a) w after 64 timed_out of
        (r, result) \<Rightarrow>
          (put_relay a r st,
           case result of Inl e \<Rightarrow> Inl (relay_http_error e) | Inr fs \<Rightarrow> Inr (batch_of st refresh row fs)))"

definition read_shell_output ::
  "shell_settings \<Rightarrow> shell_state \<Rightarrow> string \<Rightarrow> string \<Rightarrow> int \<Rightarrow> int \<Rightarrow> Operator \<Rightarrow> shell_state \<times> read_result http" where
  "read_shell_output cfg st agent_id session_id after ack oper =
     (case require_role OperatorRole_operator oper of
        Inl e \<Rightarrow> (st, Inl e)
      | Inr _ \<Rightarrow>
     (case get_session st agent_id session_id of
        Inl e \<Rightarrow> (st, Inl e)
      | Inr row \<Rightarrow>
     (case require_owner row oper of
        Inl e \<Rightarrow> (st, Inl e)
      | Inr _ \<Rightarrow>
        if terminal row then (st, Inr (Batch row []))
        else
     (case relay_for st row of
        Inl e \<Rightarrow> (st, Inl e)
      | Inr a \<Rightarrow> read_at st True row a OutputWay after ack
          ((if sh_status row = Shell_pending then shell_session_pending_poll_timeout cfg
            else shell_session_poll_timeout cfg) \<le> 0)))))"

definition read_shell_input ::
  "shell_settings \<Rightarrow> shell_state \<Rightarrow> string \<Rightarrow> int \<Rightarrow> int \<Rightarrow> Agent \<Rightarrow> shell_state \<times> read_result http" where
  "read_shell_input cfg st session_id after ack agent =
     (case get_agent_session st agent session_id of
        Inl e \<Rightarrow> (st, Inl e)
      | Inr row \<Rightarrow>
     (case relay_for st row of
        Inl e \<Rightarrow> (st, Inl e)
      | Inr a \<Rightarrow> read_at st False row a InputWay after ack (shell_session_poll_timeout cfg \<le> 0)))"

section \<open>Lifecycle\<close>

text \<open>\<open>(body.reason or fallback)[:64]\<close>\<close>

definition reason_or :: "string option \<Rightarrow> string \<Rightarrow> string" where
  "reason_or reason fallback = take 64 (case reason of None \<Rightarrow> fallback | Some r \<Rightarrow> if r = [] then fallback else r)"

definition closed_detail :: "ShellSession \<Rightarrow> json" where
  "closed_detail row = JObj
     ([(ustr ''session_id'', jstr (sh_id row)), (ustr ''status'', jstr (shell_status_value (sh_status row))),
       (ustr ''reason'', jopt jstr (sh_close_reason row))] @ counters row)"

definition close_shell_session ::
  "shell_state \<Rightarrow> string \<Rightarrow> string \<Rightarrow> string option \<Rightarrow> Operator \<Rightarrow> instant \<Rightarrow> shell_state \<times> ShellSession http" where
  "close_shell_session st agent_id session_id reason oper now =
     (case require_role OperatorRole_operator oper of
        Inl e \<Rightarrow> (st, Inl e)
      | Inr _ \<Rightarrow>
     (case get_session st agent_id session_id of
        Inl e \<Rightarrow> (st, Inl e)
      | Inr row \<Rightarrow>
     (case require_owner row oper of
        Inl e \<Rightarrow> (st, Inl e)
      | Inr _ \<Rightarrow>
        if terminal row then (st, Inr row)
        else let row' = end_session Shell_closed (reason_or reason ''operator_closed'') now row in
          (shell_audit ''shell_session.closed'' (op_email oper) (Some (op_id oper)) agent_id (closed_detail row')
             (close_relay (sh_id row) (put_session row' st)), Inr row'))))"

definition activate ::
  "shell_settings \<Rightarrow> shell_state \<Rightarrow> Agent \<Rightarrow> ShellSession \<Rightarrow> instant \<Rightarrow> shell_state \<times> ShellSession option" where
  "activate cfg st agent row now =
     (if sh_status row = Shell_pending then
        let row' = touch cfg now (row\<lparr>sh_status := Shell_active, sh_activated_at := Some (Aware now)\<rparr>) in
        (shell_audit ''shell_session.activated'' (actor_of_agent agent) None (ag_id agent)
           (JObj [(ustr ''session_id'', jstr (sh_id row)),
              (ustr ''capability_version'', jopt jstr (sh_capability_version row))]) (put_session row' st),
         Some row')
      else (st, Some row))"

definition attach_shell_session ::
  "shell_settings \<Rightarrow> shell_state \<Rightarrow> Agent \<Rightarrow> instant \<Rightarrow> shell_state \<times> ShellSession option" where
  "attach_shell_session cfg st agent now =
     (case live_rows st (ag_id agent) of
        [] \<Rightarrow> (st, None)
      | row # _ \<Rightarrow>
        if trust_state agent \<noteq> Trust_active then (st, None)
        else
     (case registry_get (ss_registry st) (sh_id row) of
        None \<Rightarrow>
          if sh_status row = Shell_active then
            let row' = end_session Shell_failed ''relay_unavailable'' now row in
            (shell_audit ''shell_session.failed'' (actor_of_agent agent) None (ag_id agent)
               (failed_detail row' (jopt JInt (sh_output_bytes_limit row'))) (put_session row' st), None)
          else
            let reg = fst (registry_create (ss_registry st) (sh_id row) (sh_client_last_seq row)
              (sh_agent_last_seq row) (shell_session_input_buffer_bytes cfg)
              (shell_session_relay_buffer_bytes cfg) (shell_session_relay_max_frames cfg))
            in activate cfg (st\<lparr>ss_registry := reg\<rparr>) agent row now
      | Some a \<Rightarrow> activate cfg st agent row now))"

definition complete_shell_session ::
  "shell_state \<Rightarrow> string \<Rightarrow> bool \<Rightarrow> string option \<Rightarrow> Agent \<Rightarrow> instant \<Rightarrow> shell_state \<times> ShellSession http" where
  "complete_shell_session st session_id failed reason agent now =
     (case get_session st (ag_id agent) session_id of
        Inl e \<Rightarrow> (st, Inl e)
      | Inr row \<Rightarrow>
        if terminal row then (st, Inr row)
        else let row' = end_session (if failed then Shell_failed else Shell_closed)
                          (reason_or reason ''agent_completed'') now row;
                 st' = close_relay (sh_id row) (put_session row' st) in
          (if failed
           then shell_audit ''shell_session.failed'' (actor_of_agent agent) None (ag_id agent)
                  (failed_detail row' (jopt JInt (sh_output_bytes_limit row'))) st'
           else shell_audit ''shell_session.closed'' (actor_of_agent agent) None (ag_id agent)
                  (closed_detail row') st', Inr row'))"

section \<open>The sweep\<close>

definition overdue :: "instant \<Rightarrow> ShellSession \<Rightarrow> string option" where
  "overdue now row =
     (case ensure_utc (sh_absolute_deadline row) of
        Some t \<Rightarrow> if t \<le> now then Some ''absolute_deadline''
          else (case ensure_utc (sh_idle_deadline row) of
                  Some u \<Rightarrow> if u \<le> now then Some ''idle_timeout'' else None | None \<Rightarrow> None)
      | None \<Rightarrow> (case ensure_utc (sh_idle_deadline row) of
                  Some u \<Rightarrow> if u \<le> now then Some ''idle_timeout'' else None | None \<Rightarrow> None))"

definition sweep_row :: "instant \<Rightarrow> ShellSession \<Rightarrow> shell_state \<Rightarrow> shell_state" where
  "sweep_row now row st =
     (case overdue now row of
        None \<Rightarrow> st
      | Some reason \<Rightarrow>
          close_relay (sh_id row)
            (shell_audit ''shell_session.timed_out'' ''system'' None (sh_agent_id row)
               (JObj ([(ustr ''session_id'', jstr (sh_id row)), (ustr ''reason'', jstr reason)] @ counters row))
               (put_session (end_session Shell_timed_out reason now row) st)))"

definition shell_session_sweep_once :: "shell_state \<Rightarrow> instant \<Rightarrow> shell_state" where
  "shell_session_sweep_once st now =
     foldl (\<lambda>s row. sweep_row now row s) st (filter live (ss_sessions st))"

end
