(* ===== verification/Shell_Safety.thy ===== *)
theory Shell_Safety
  imports Shell_Transport Fixtures
begin

text \<open>
  What holds of shell sessions in every reachable state. The steps are the handlers, the
  sweep, a reader that wakes, any change of the other tables, and a restart of the process,
  which loses the relays and keeps the rows.
\<close>

section \<open>Steps\<close>

inductive shell_step ::
  "(nat list \<Rightarrow> nat list) \<Rightarrow> shell_settings \<Rightarrow> shell_state \<Rightarrow> shell_state \<Rightarrow> bool"
  for digest :: "nat list \<Rightarrow> nat list" and cfg :: shell_settings where
  step_open: "i \<notin> sh_id ` set (ss_sessions st) \<Longrightarrow> relays (ss_registry st) i = None \<Longrightarrow>
    shell_step digest cfg st (fst (open_shell_session cfg st agent_id oper now i))"
| step_view: "shell_step digest cfg st (fst (get_shell_session st agent_id sid oper))"
| step_input: "shell_step digest cfg st (fst (send_shell_input digest cfg st agent_id sid body oper now))"
| step_output: "shell_step digest cfg st (fst (send_shell_output digest cfg st sid body agent now))"
| step_read_output: "shell_step digest cfg st (fst (read_shell_output cfg st agent_id sid after ack oper))"
| step_read_input: "shell_step digest cfg st (fst (read_shell_input cfg st sid after ack agent))"
| step_woken: "a < length (heap (ss_registry st)) \<Longrightarrow>
    shell_step digest cfg st (fst (read_woken_at st refresh row a w after timed_out))"
| step_close: "shell_step digest cfg st (fst (close_shell_session st agent_id sid reason oper now))"
| step_attach: "shell_step digest cfg st (fst (attach_shell_session cfg st agent now))"
| step_complete: "shell_step digest cfg st (fst (complete_shell_session st sid failed reason agent now))"
| step_sweep: "shell_step digest cfg st (shell_session_sweep_once st now)"
| step_administer: "shell_step digest cfg st (st\<lparr>ss_store := s\<rparr>)"
| step_restart: "shell_step digest cfg st (st\<lparr>ss_registry := \<lparr>heap = [], relays = (\<lambda>_. None)\<rparr>\<rparr>)"

definition shell_start :: "store \<Rightarrow> shell_state" where
  "shell_start s = \<lparr>ss_store = s, ss_sessions = [], ss_registry = \<lparr>heap = [], relays = (\<lambda>_. None)\<rparr>\<rparr>"

inductive shell_reachable ::
  "(nat list \<Rightarrow> nat list) \<Rightarrow> shell_settings \<Rightarrow> shell_state \<Rightarrow> bool"
  for digest :: "nat list \<Rightarrow> nat list" and cfg :: shell_settings where
  reach_start: "shell_reachable digest cfg (shell_start s)"
| reach_step: "shell_reachable digest cfg st \<Longrightarrow> shell_step digest cfg st st' \<Longrightarrow> shell_reachable digest cfg st'"

section \<open>The invariant\<close>

text \<open>A queue stands for some history, within the limits it was made with.\<close>

definition queue_ok :: "(nat list \<Rightarrow> nat list) \<Rightarrow> int \<Rightarrow> int \<Rightarrow> Direction \<Rightarrow> bool" where
  "queue_ok digest mb mf d \<longleftrightarrow> (\<exists>start H e w. direction_rep digest start mb mf d H e w)"

definition relay_ok :: "(nat list \<Rightarrow> nat list) \<Rightarrow> shell_settings \<Rightarrow> SessionRelay \<Rightarrow> bool" where
  "relay_ok digest cfg r \<longleftrightarrow>
     queue_ok digest (shell_session_input_buffer_bytes cfg) (shell_session_relay_max_frames cfg) (sr_input r) \<and>
     queue_ok digest (shell_session_relay_buffer_bytes cfg) (shell_session_relay_max_frames cfg) (sr_output r)"

text \<open>The row counts what the relay has accepted, and the relay of a live session is open.\<close>

definition in_step :: "SessionRelay \<Rightarrow> ShellSession \<Rightarrow> bool" where
  "in_step r row \<longleftrightarrow> \<not> sr_closed r \<and> last_seq (sr_input r) = sh_client_last_seq row \<and>
     last_seq (sr_output r) = sh_agent_last_seq row"

definition row_ok :: "shell_settings \<Rightarrow> ShellSession \<Rightarrow> bool" where
  "row_ok cfg row \<longleftrightarrow> sh_output_bytes_limit row = Some (shell_session_output_byte_limit cfg) \<and>
     0 \<le> sh_output_bytes_total row \<and> sh_output_bytes_total row \<le> max 0 (shell_session_output_byte_limit cfg) \<and>
     0 \<le> sh_client_last_seq row \<and> 0 \<le> sh_agent_last_seq row \<and>
     sh_absolute_deadline row =
       Some (Aware (instant_of (sh_created_at row) + seconds (shell_session_max_lifetime_seconds cfg)))"

definition live_count :: "shell_state \<Rightarrow> string \<Rightarrow> nat" where
  "live_count st agent_id = length (filter (\<lambda>row. sh_agent_id row = agent_id \<and> live row) (ss_sessions st))"

definition registry_ok :: "RelayRegistry \<Rightarrow> bool" where
  "registry_ok reg \<longleftrightarrow> (\<forall>i a. relays reg i = Some a \<longrightarrow> a < length (heap reg)) \<and>
     (\<forall>i j a. relays reg i = Some a \<longrightarrow> relays reg j = Some a \<longrightarrow> i = j)"

text \<open>While a frame is being counted, the row \<open>i\<close> it belongs to may be out of step.\<close>

definition shell_inv_but ::
  "string option \<Rightarrow> (nat list \<Rightarrow> nat list) \<Rightarrow> shell_settings \<Rightarrow> shell_state \<Rightarrow> bool" where
  "shell_inv_but i digest cfg st \<longleftrightarrow>
     distinct (map sh_id (ss_sessions st)) \<and> registry_ok (ss_registry st) \<and>
     (\<forall>r \<in> set (heap (ss_registry st)). relay_ok digest cfg r) \<and>
     (\<forall>row \<in> set (ss_sessions st). row_ok cfg row \<and>
        (live row \<longrightarrow> i \<noteq> Some (sh_id row) \<longrightarrow>
          (\<forall>a. relays (ss_registry st) (sh_id row) = Some a \<longrightarrow> in_step (heap (ss_registry st) ! a) row))) \<and>
     (\<forall>agent_id. live_count st agent_id \<le> shell_session_max_concurrent_per_agent cfg)"

abbreviation shell_inv :: "(nat list \<Rightarrow> nat list) \<Rightarrow> shell_settings \<Rightarrow> shell_state \<Rightarrow> bool" where
  "shell_inv \<equiv> shell_inv_but None"

lemmas shell_inv_parts = shell_inv_but_def live_count_def

section \<open>The primitive changes\<close>

lemma put_session_rows:
  "ss_sessions (put_session row' st) = map (\<lambda>q. if sh_id q = sh_id row' then row' else q) (ss_sessions st)"
  "ss_registry (put_session row' st) = ss_registry st" "ss_store (put_session row' st) = ss_store st"
  by (simp_all add: put_session_def db_update_def)

lemma length_filter_map_le:
  "(\<And>q. q \<in> set qs \<Longrightarrow> P (f q) \<Longrightarrow> P q) \<Longrightarrow> length (filter P (map f qs)) \<le> length (filter P qs)"
  by (induction qs) (auto simp: le_SucI)

lemma shell_inv_store [simp]: "shell_inv digest cfg (st\<lparr>ss_store := s\<rparr>) = shell_inv digest cfg st"
  by (simp add: shell_inv_parts)

lemma shell_inv_audit [simp]:
  "shell_inv digest cfg (shell_audit action actor uid aid detail st) = shell_inv digest cfg st"
  "ss_sessions (shell_audit action actor uid aid detail st) = ss_sessions st"
  "ss_registry (shell_audit action actor uid aid detail st) = ss_registry st"
  by (simp_all add: shell_audit_def)

lemma shell_inv_denied [simp]:
  "shell_inv digest cfg (record_denied agent oper reason policy st) = shell_inv digest cfg st"
  "ss_sessions (record_denied agent oper reason policy st) = ss_sessions st"
  by (simp_all add: record_denied_def)

lemma shell_inv_unique:
  assumes "shell_inv_but i digest cfg st" "q \<in> set (ss_sessions st)" "row \<in> set (ss_sessions st)" "sh_id q = sh_id row"
  shows "q = row"
proof -
  have "inj_on sh_id (set (ss_sessions st))" using assms(1) unfolding shell_inv_but_def by (simp only: distinct_map)
  then show ?thesis using assms(2-4) by (simp add: inj_on_eq_iff)
qed

text \<open>Replacing a row by one with the same key that is no more alive.\<close>

lemma shell_inv_put_session:
  assumes "shell_inv_but i digest cfg st" "i = None \<or> i = Some (sh_id row)" "row \<in> set (ss_sessions st)"
    and "sh_id row' = sh_id row" "sh_agent_id row' = sh_agent_id row" "live row' \<Longrightarrow> live row" "row_ok cfg row'"
    and "\<And>a. live row' \<Longrightarrow> relays (ss_registry st) (sh_id row) = Some a \<Longrightarrow> in_step (heap (ss_registry st) ! a) row'"
  shows "shell_inv digest cfg (put_session row' st)"
proof -
  note inv = assms(1) [unfolded shell_inv_parts]
  let ?f = "\<lambda>q. if sh_id q = sh_id row' then row' else q"
  have same: "q = row" if "q \<in> set (ss_sessions st)" "sh_id q = sh_id row'" for q
    using shell_inv_unique [OF assms(1) that(1) assms(3)] that(2) assms(4) by simp
  have "map (sh_id \<circ> ?f) (ss_sessions st) = map sh_id (ss_sessions st)" using assms(4) by auto
  then have "distinct (map sh_id (ss_sessions (put_session row' st)))"
    using inv by (simp add: put_session_rows del: map_eq_conv)
  moreover have "length (filter (\<lambda>r. sh_agent_id r = x \<and> live r) (map ?f (ss_sessions st))) \<le>
      shell_session_max_concurrent_per_agent cfg" for x
  proof (rule order_trans [OF length_filter_map_le])
    show "sh_agent_id q = x \<and> live q" if "q \<in> set (ss_sessions st)" "sh_agent_id (?f q) = x \<and> live (?f q)" for q
      using same [OF that(1)] that(2) assms(5,6) by (cases "sh_id q = sh_id row'") simp_all
  qed (use inv in simp)
  moreover have "row_ok cfg q \<and> (live q \<longrightarrow> (\<forall>a. relays (ss_registry st) (sh_id q) = Some a \<longrightarrow>
      in_step (heap (ss_registry st) ! a) q))" if "q \<in> ?f ` set (ss_sessions st)" for q
  proof -
    obtain p where p: "p \<in> set (ss_sessions st)" "q = ?f p" using \<open>q \<in> _\<close> by blast
    show ?thesis
    proof (cases "sh_id p = sh_id row'")
      case True
      then show ?thesis using p(2) assms(4,7,8) by simp
    next
      case False
      then show ?thesis using p inv assms(2,4) by auto
    qed
  qed
  ultimately show ?thesis
    using inv unfolding shell_inv_parts by (simp add: put_session_rows)
qed

text \<open>Replacing a relay by one that is still in step with the session it serves.\<close>

lemma shell_inv_put_relay:
  assumes "shell_inv digest cfg st" "relay_ok digest cfg r"
    and "\<And>row. row \<in> set (ss_sessions st) \<Longrightarrow> live row \<Longrightarrow> i \<noteq> Some (sh_id row) \<Longrightarrow>
      relays (ss_registry st) (sh_id row) = Some a \<Longrightarrow> in_step r row"
  shows "shell_inv_but i digest cfg (put_relay a r st)"
proof -
  note inv = assms(1) [unfolded shell_inv_parts]
  have "in_step ((heap (ss_registry st))[a := r] ! b) row"
    if "row \<in> set (ss_sessions st)" "live row" "i \<noteq> Some (sh_id row)" "relays (ss_registry st) (sh_id row) = Some b" for row b
    using that inv assms(3) by (cases "b = a") (auto simp: registry_ok_def)
  moreover have "relay_ok digest cfg q" if "q \<in> set ((heap (ss_registry st))[a := r])" for q
    using that inv assms(2) set_update_subset_insert [of "heap (ss_registry st)" a r] by auto
  ultimately show ?thesis
    using inv unfolding shell_inv_parts put_relay_def registry_ok_def by auto
qed

text \<open>Ending a session closes its relay, so nothing is asked of the relay any more.\<close>

lemma in_step_close: "registry_close reg i = reg \<or> (\<exists>a. relays reg i = Some a \<and>
    registry_close reg i = reg\<lparr>heap := (heap reg)[a := relay_close (heap reg ! a)]\<rparr>)"
  by (auto simp: registry_close_def registry_get_def split: option.splits)

lemma relay_ok_close [simp]: "relay_ok digest cfg (relay_close r) = relay_ok digest cfg r"
  by (simp add: relay_ok_def relay_close_def)

lemma shell_inv_close_relay:
  assumes "shell_inv digest cfg st" "\<And>row. row \<in> set (ss_sessions st) \<Longrightarrow> sh_id row = i \<Longrightarrow> \<not> live row"
  shows "shell_inv digest cfg (close_relay i st)"
proof (cases "relays (ss_registry st) i")
  case None
  then show ?thesis using assms(1) by (simp add: close_relay_def registry_close_def registry_get_def)
next
  case (Some a)
  note inv = assms(1) [unfolded shell_inv_parts]
  have eq: "close_relay i st = put_relay a (relay_close (heap (ss_registry st) ! a)) st"
    using Some by (simp add: close_relay_def put_relay_def registry_close_def registry_get_def)
  have "a < length (heap (ss_registry st))" using inv Some unfolding registry_ok_def by blast
  then have ok: "relay_ok digest cfg (heap (ss_registry st) ! a)" using inv by simp
  have "sh_id row = i" if "relays (ss_registry st) (sh_id row) = Some a" for row
    using inv Some that unfolding registry_ok_def by blast
  then show ?thesis
    unfolding eq using ok assms by (intro shell_inv_put_relay) auto
qed

lemma end_session_fields [simp]:
  "sh_id (end_session s reason now row) = sh_id row" "sh_agent_id (end_session s reason now row) = sh_agent_id row"
  "row_ok cfg (end_session s reason now row) = row_ok cfg row" "sh_status (end_session s reason now row) = s"
  by (simp_all add: end_session_def row_ok_def)

lemma touch_fields [simp]:
  "sh_id (touch cfg now row) = sh_id row" "sh_agent_id (touch cfg now row) = sh_agent_id row"
  "row_ok cfg (touch cfg' now row) = row_ok cfg row" "sh_status (touch cfg now row) = sh_status row"
  "in_step r (touch cfg now row) = in_step r row" "live (touch cfg now row) = live row"
  by (simp_all add: touch_def row_ok_def in_step_def live_def Let_def)

lemma terminal_iff: "terminal row \<longleftrightarrow> \<not> live row"
  by (cases "sh_status row") (simp_all add: terminal_def live_def)

lemma shell_inv_end:
  assumes "shell_inv digest cfg st" "row \<in> set (ss_sessions st)" "s \<in> {Shell_closed, Shell_failed, Shell_timed_out}"
  shows "shell_inv digest cfg (put_session (end_session s reason now row) st)"
    "shell_inv digest cfg (close_relay (sh_id row) (put_session (end_session s reason now row) st))"
proof -
  have dead: "\<not> live (end_session s reason now row)" using assms(3) by (auto simp: live_def)
  have "row_ok cfg row" using assms(1,2) unfolding shell_inv_but_def by blast
  then show inv: "shell_inv digest cfg (put_session (end_session s reason now row) st)"
    using assms(1,2) dead by (intro shell_inv_put_session [where i = None and row = row]) auto
  show "shell_inv digest cfg (close_relay (sh_id row) (put_session (end_session s reason now row) st))"
    by (rule shell_inv_close_relay [OF inv]) (use dead in \<open>auto simp: put_session_rows\<close>)
qed

lemma get_session_row:
  "get_session st agent_id sid = Inr row \<Longrightarrow> row \<in> set (ss_sessions st) \<and> sh_id row = sid \<and> sh_agent_id row = agent_id"
  by (auto simp: get_session_def find_Some_iff split: option.splits)

section \<open>Every step keeps the invariant\<close>

text \<open>Reads: a queue that is read or acknowledged still stands for its history.\<close>

lemma queue_ok_acknowledge:
  assumes "queue_ok digest mb mf d" "direction_acknowledge d n = Inr d'"
  shows "queue_ok digest mb mf d' \<and> last_seq d' = last_seq d"
proof -
  obtain start H e w where r: "direction_rep digest start mb mf d H e w" using assms(1) by (auto simp: queue_ok_def)
  have n: "0 \<le> n" "n \<le> start + int w"
    using assms(2) r by (auto simp: direction_acknowledge_def direction_rep_def split: if_splits)
  have l: "last_seq d' = last_seq d"
    using assms(2) by (auto simp: direction_acknowledge_def Let_def split: if_splits prod.splits)
  show ?thesis
  proof (cases "start \<le> n")
    case True
    then have "n = start + int (nat (n - start))" "nat (n - start) \<le> w" using n by auto
    then obtain d1 where "direction_acknowledge d n = Inr d1" "direction_rep digest start mb mf d1 H (max e (nat (n - start))) w"
      using acknowledge_rep [OF r] by metis
    then show ?thesis using assms(2) l unfolding queue_ok_def by auto
  next
    case False
    have "evict n (frames d) (buffered_bytes d) (evicted_through d) = (frames d, buffered_bytes d, evicted_through d)"
    proof (cases "frames d")
      case (Cons f fs)
      have "drop e H = f # fs" using r Cons by (simp add: direction_rep_def)
      then have "e < length H" "f = H ! e"
        by (metis drop_all leI list.distinct(1), metis drop_all hd_drop_conv_nth leI list.distinct(1) list.sel(1))
      then have "rf_seq f = start + 1 + int e" using r by (simp add: direction_rep_def numbered_def)
      then show ?thesis using False Cons by simp
    qed simp
    then have "d' = d\<lparr>recent_digests := (\<lambda>q. if q < max 0 (n - 32) then None else recent_digests d q)\<rparr>"
      using assms(2) n(1) by (auto simp: direction_acknowledge_def Let_def split: if_splits)
    then have "direction_rep digest start mb mf d' H e w"
      using r False unfolding direction_rep_def by auto
    then show ?thesis using l unfolding queue_ok_def by blast
  qed
qed

lemma queue_ok_after:
  assumes "queue_ok digest mb mf d" "direction_after d c 64 = Inr (d', fs)"
  shows "queue_ok digest mb mf d' \<and> last_seq d' = last_seq d"
proof -
  obtain start H e w where r: "direction_rep digest start mb mf d H e w" using assms(1) by (auto simp: queue_ok_def)
  have c: "start + int e \<le> c" "c \<le> start + int (length H)"
    using assms(2) r by (auto simp: direction_after_def direction_rep_def split: if_splits)
  define k where "k = nat (c - start)"
  have k: "c = start + int k" "e \<le> k" "k \<le> length H" using c by (auto simp: k_def)
  from after_any [OF r k(2,3), of 64] obtain d1 w1 where
    "direction_after d (start + int k) (int 64) = Inr (d1, take 64 (drop k H))" "direction_rep digest start mb mf d1 H e w1"
    by blast
  then have "d' = d1" "direction_rep digest start mb mf d1 H e w1" using assms(2) k(1) by simp_all
  then show ?thesis
    using r unfolding queue_ok_def direction_rep_def by metis
qed

lemma queue_ok_append:
  assumes "queue_ok digest mb mf d" "direction_append digest d f = Inr (d', b)"
  shows "queue_ok digest mb mf d' \<and> last_seq d' = (if b then rf_seq f else last_seq d) \<and>
    (b \<longrightarrow> rf_seq f = last_seq d + 1)"
proof (cases b)
  case True
  obtain start H e w where r: "direction_rep digest start mb mf d H e w" using assms(1) by (auto simp: queue_ok_def)
  have "direction_rep digest start mb mf d' (H @ [f]) e w" using append_rep [OF r] assms(2) True by simp
  then show ?thesis
    using True assms(2) unfolding queue_ok_def by (auto simp: direction_append_def split: if_splits)
next
  case False
  then show ?thesis using append_old assms by fastforce
qed

lemma queue_ok_bounds:
  "queue_ok digest mb mf d \<Longrightarrow> 0 \<le> last_seq d \<and> int (length (frames d)) \<le> max 0 mf \<and>
     0 \<le> buffered_bytes d \<and> buffered_bytes d \<le> max 0 mb"
  using byte_total_nonneg by (auto simp: queue_ok_def direction_rep_def)

lemma queue_ok_new: "0 \<le> start \<Longrightarrow> queue_ok digest mb mf (new_direction start mb mf)"
  using new_direction_rep unfolding queue_ok_def by blast

definition limit_of :: "shell_settings \<Rightarrow> way \<Rightarrow> int" where
  "limit_of cfg w = (case w of InputWay \<Rightarrow> shell_session_input_buffer_bytes cfg
     | OutputWay \<Rightarrow> shell_session_relay_buffer_bytes cfg)"

lemma relay_ok_direction:
  "relay_ok digest cfg r \<Longrightarrow> queue_ok digest (limit_of cfg w) (shell_session_relay_max_frames cfg) (the_direction w r)"
  by (cases w) (simp_all add: relay_ok_def limit_of_def)

lemma relay_ok_set:
  "relay_ok digest cfg r \<Longrightarrow> queue_ok digest (limit_of cfg w) (shell_session_relay_max_frames cfg) d \<Longrightarrow>
     relay_ok digest cfg (set_direction w d r)"
  by (cases w) (simp_all add: relay_ok_def limit_of_def)

lemma in_step_set: "last_seq d = last_seq (the_direction w r) \<Longrightarrow> in_step (set_direction w d r) row = in_step r row"
  by (cases w) (simp_all add: in_step_def)

lemma set_direction_fields:
  "the_direction w (set_direction w d r) = d" "sr_closed (set_direction w d r) = sr_closed r"
  "v \<noteq> w \<Longrightarrow> the_direction v (set_direction w d r) = the_direction v r"
  by (cases w; simp; fail)+ (cases v; cases w; simp)

lemma relay_read_ok:
  assumes "relay_ok digest cfg r" "relay_read r w after ack 64 nt = (r', result)"
  shows "relay_ok digest cfg r' \<and> in_step r' row = in_step r row"
proof (cases "direction_acknowledge (the_direction w r) ack")
  case (Inl e)
  then show ?thesis using assms by (simp add: relay_read_def)
next
  case (Inr d)
  note q = queue_ok_acknowledge [OF relay_ok_direction [OF assms(1)] Inr]
  show ?thesis
  proof (cases "direction_after d after 64")
    case (Inl e)
    then have "r' = set_direction w d r" using assms(2) Inr by (simp add: relay_read_def)
    then show ?thesis using q relay_ok_set [OF assms(1)] in_step_set by simp
  next
    case (Inr x)
    obtain d' fs where x: "x = (d', fs)" by (cases x)
    then have "r' = set_direction w d' r"
      using assms(2) \<open>direction_acknowledge (the_direction w r) ack = Inr d\<close> Inr by (simp add: relay_read_def)
    moreover have "queue_ok digest (limit_of cfg w) (shell_session_relay_max_frames cfg) d' \<and> last_seq d' = last_seq d"
      using queue_ok_after [of digest "limit_of cfg w" "shell_session_relay_max_frames cfg" d after d' fs] q Inr x by simp
    ultimately show ?thesis using q relay_ok_set [OF assms(1)] in_step_set by simp
  qed
qed

lemma relay_read_woken_ok:
  assumes "relay_ok digest cfg r" "relay_read_woken r w after 64 timed_out = (r', result)"
  shows "relay_ok digest cfg r' \<and> in_step r' row = in_step r row"
proof (cases "timed_out \<or> (\<exists>e. direction_after (the_direction w r) after 64 = Inl e)")
  case True
  then show ?thesis using assms by (auto simp: relay_read_woken_def split: if_splits)
next
  case False
  then obtain d fs where d: "direction_after (the_direction w r) after 64 = Inr (d, fs)"
    by (metis old.sum.exhaust prod.exhaust)
  then have "r' = set_direction w d r" using assms(2) False by (simp add: relay_read_woken_def)
  then show ?thesis
    using queue_ok_after [OF relay_ok_direction [OF assms(1)] d] relay_ok_set [OF assms(1)] in_step_set by simp
qed

text \<open>Accepting a frame moves the sequence of one direction by one.\<close>

lemma relay_append_ok:
  assumes "relay_ok digest cfg r" "relay_append digest r w f = Inr (r', b)"
  shows "relay_ok digest cfg r' \<and> sr_closed r' = sr_closed r \<and>
    last_seq (the_direction w r') = (if b then rf_seq f else last_seq (the_direction w r)) \<and>
    (b \<longrightarrow> rf_seq f = last_seq (the_direction w r) + 1) \<and>
    (\<forall>v. v \<noteq> w \<longrightarrow> the_direction v r' = the_direction v r)"
proof -
  obtain d where d: "direction_append digest (the_direction w r) f = Inr (d, b)" "r' = set_direction w d r"
    using assms(2) by (auto simp: relay_append_def split: if_splits sum.splits)
  note q = queue_ok_append [OF relay_ok_direction [OF assms(1)] d(1)]
  have "relay_ok digest cfg r'" using q relay_ok_set [OF assms(1)] d(2) by simp
  moreover have "the_direction w r' = d" "sr_closed r' = sr_closed r" "\<forall>v. v \<noteq> w \<longrightarrow> the_direction v r' = the_direction v r"
    by (simp_all add: d(2) set_direction_fields)
  ultimately show ?thesis using q by simp
qed

text \<open>The relay that a live row finds is in step with it and with no other row.\<close>

lemma shell_inv_relay:
  assumes "shell_inv digest cfg st" "relay_for st row = Inr a"
  shows "relays (ss_registry st) (sh_id row) = Some a" "a < length (heap (ss_registry st))"
    "relay_ok digest cfg (heap (ss_registry st) ! a)"
    "relays (ss_registry st) i = Some a \<Longrightarrow> i = sh_id row"
proof -
  show r: "relays (ss_registry st) (sh_id row) = Some a"
    using assms(2) by (auto simp: relay_for_def registry_get_def split: option.splits)
  show a: "a < length (heap (ss_registry st))"
    using assms(1) r unfolding shell_inv_but_def registry_ok_def by blast
  show "relay_ok digest cfg (heap (ss_registry st) ! a)"
    using assms(1) a unfolding shell_inv_but_def by simp
  show "i = sh_id row" if "relays (ss_registry st) i = Some a"
    using assms(1) r that unfolding shell_inv_but_def registry_ok_def by blast
qed

lemma shell_inv_row:
  "shell_inv digest cfg st \<Longrightarrow> row \<in> set (ss_sessions st) \<Longrightarrow> row_ok cfg row"
  "shell_inv digest cfg st \<Longrightarrow> row \<in> set (ss_sessions st) \<Longrightarrow> live row \<Longrightarrow>
     relays (ss_registry st) (sh_id row) = Some a \<Longrightarrow> in_step (heap (ss_registry st) ! a) row"
  unfolding shell_inv_but_def by blast+

lemma shell_inv_read_at:
  assumes "shell_inv digest cfg st" "a < length (heap (ss_registry st))"
  shows "shell_inv digest cfg (fst (read_at st refresh row a w after ack nt))"
    "shell_inv digest cfg (fst (read_woken_at st refresh row a w after timed_out))"
proof -
  let ?r = "heap (ss_registry st) ! a"
  have ok: "relay_ok digest cfg ?r" using assms unfolding shell_inv_but_def by simp
  obtain r1 x1 where 1: "relay_read ?r w after ack 64 nt = (r1, x1)" by fastforce
  obtain r2 x2 where 2: "relay_read_woken ?r w after 64 timed_out = (r2, x2)" by fastforce
  show "shell_inv digest cfg (fst (read_at st refresh row a w after ack nt))"
    unfolding read_at_def 1 using relay_read_ok [OF ok 1] shell_inv_row(2) [OF assms(1)]
    by (auto intro!: shell_inv_put_relay [OF assms(1)])
  show "shell_inv digest cfg (fst (read_woken_at st refresh row a w after timed_out))"
    unfolding read_woken_at_def 2 using relay_read_woken_ok [OF ok 2] shell_inv_row(2) [OF assms(1)]
    by (auto intro!: shell_inv_put_relay [OF assms(1)])
qed

text \<open>A frame that is accepted and counted.\<close>

lemma shell_inv_accept:
  assumes inv: "shell_inv digest cfg st" and row: "row \<in> set (ss_sessions st)" "live row"
    and a: "relay_for st row = Inr a" "append_at digest st a w f = Inr (st', True)"
    and row': "sh_id row' = sh_id row" "sh_agent_id row' = sh_agent_id row" "live row'" "row_ok cfg row'"
    and seq: "sh_client_last_seq row' = (if w = InputWay then rf_seq f else sh_client_last_seq row)"
      "sh_agent_last_seq row' = (if w = OutputWay then rf_seq f else sh_agent_last_seq row)"
  shows "shell_inv digest cfg (put_session row' st')"
proof -
  let ?r = "heap (ss_registry st) ! a"
  note rel = shell_inv_relay [OF inv a(1)]
  obtain r where r: "relay_append digest ?r w f = Inr (r, True)" "st' = put_relay a r st"
    using a(2) by (auto simp: append_at_def split: sum.splits)
  note ok = relay_append_ok [OF rel(3) r(1)]
  have "in_step ?r row" using shell_inv_row(2) [OF inv row rel(1)] .
  then have step: "in_step r row'"
    using ok seq by (cases w) (auto simp: in_step_def dest: spec [of _ InputWay] spec [of _ OutputWay])
  have "shell_inv_but (Some (sh_id row)) digest cfg st'"
    unfolding r(2) by (rule shell_inv_put_relay [OF inv]) (use ok rel(4) in auto)
  moreover have "relays (ss_registry st') = relays (ss_registry st)" "ss_sessions st' = ss_sessions st"
    "heap (ss_registry st') ! a = r" using rel(2) by (simp_all add: r(2) put_relay_def)
  ultimately show ?thesis
    using rel(1) row row' step by (intro shell_inv_put_session [where row = row]) auto
qed

text \<open>Frames.\<close>

lemma append_at_refused:
  assumes "shell_inv digest cfg st" "relay_for st row = Inr a" "append_at digest st a w f = Inr (st', False)"
  shows "shell_inv digest cfg st'"
proof -
  obtain r where r: "relay_append digest (heap (ss_registry st) ! a) w f = Inr (r, False)" "st' = put_relay a r st"
    using assms(3) by (auto simp: append_at_def split: sum.splits)
  note ok = relay_append_ok [OF shell_inv_relay(3) [OF assms(1,2)] r(1)]
  have "in_step r row" if "in_step (heap (ss_registry st) ! a) row" for row
    using ok that by (cases w) (auto simp: in_step_def dest: spec [of _ InputWay] spec [of _ OutputWay])
  then show ?thesis
    unfolding r(2) using ok shell_inv_row(2) [OF assms(1)] by (intro shell_inv_put_relay [OF assms(1)]) auto
qed

lemma append_at_seq:
  assumes "shell_inv digest cfg st" "relay_for st row = Inr a" "append_at digest st a w f = Inr (st', True)"
    and "row \<in> set (ss_sessions st)" "live row"
  shows "rf_seq f = (case w of InputWay \<Rightarrow> sh_client_last_seq row | OutputWay \<Rightarrow> sh_agent_last_seq row) + 1"
proof -
  note rel = shell_inv_relay [OF assms(1,2)]
  obtain r where "relay_append digest (heap (ss_registry st) ! a) w f = Inr (r, True)"
    using assms(3) by (auto simp: append_at_def split: sum.splits)
  then show ?thesis
    using relay_append_ok [OF rel(3)] shell_inv_row(2) [OF assms(1,4,5) rel(1)]
    by (cases w) (fastforce simp: in_step_def)+
qed

lemma require_simps:
  "require_live row = Inr u \<longleftrightarrow> live row" "require_owner row oper = Inr u \<longleftrightarrow> sh_operator_id row = Some (op_id oper)"
  by (simp_all add: require_live_def require_owner_def)

lemma send_input_inv:
  assumes "shell_inv digest cfg st"
  shows "shell_inv digest cfg (fst (send_shell_input digest cfg st agent_id sid body oper now))"
proof -
  have accept: "shell_inv digest cfg (put_session (note_input cfg now f row) st')"
    if row: "get_session st agent_id sid = Inr row" "require_live row = Inr ()" and a: "relay_for st row = Inr a"
      "append_at digest st a InputWay f = Inr (st', True)" for row f a st'
  proof (rule shell_inv_accept [OF assms _ _ a])
    show r: "row \<in> set (ss_sessions st)" "live row" using get_session_row [OF row(1)] row(2) by (simp_all add: require_simps)
    show "row_ok cfg (note_input cfg now f row)"
      using shell_inv_row(1) [OF assms r(1)] append_at_seq [OF assms a r] by (simp add: note_input_def row_ok_def touch_def Let_def)
    show "live (note_input cfg now f row)" using r(2) by (simp add: note_input_def live_def)
  qed (simp_all add: note_input_def touch_def Let_def)
  show ?thesis
    unfolding send_shell_input_def
    using assms accept append_at_refused [OF assms]
    by (auto simp: Let_def split: sum.splits)
qed

lemma shell_inv_over_limit:
  assumes "shell_inv digest cfg st" "row \<in> set (ss_sessions st)"
  shows "shell_inv digest cfg (fail_over_limit cfg st agent row now)"
  using shell_inv_end(2) [OF assms] by (simp add: fail_over_limit_def Let_def)

lemma get_agent_session_row:
  "get_agent_session st agent sid = Inr row \<Longrightarrow> row \<in> set (ss_sessions st) \<and> live row \<and> sh_id row = sid"
  by (auto simp: get_agent_session_def require_simps dest: get_session_row split: if_splits sum.splits)

lemma send_output_inv:
  assumes "shell_inv digest cfg st"
  shows "shell_inv digest cfg (fst (send_shell_output digest cfg st sid body agent now))"
proof -
  have accept: "shell_inv digest cfg (put_session (note_output cfg now f row) st')"
    if row: "get_agent_session st agent sid = Inr row" and lim: "\<not> over_limit cfg row f"
      and a: "relay_for st row = Inr a" "append_at digest st a OutputWay f = Inr (st', True)" for row f a st'
  proof (rule shell_inv_accept [OF assms _ _ a])
    show r: "row \<in> set (ss_sessions st)" "live row" using get_agent_session_row [OF row] by simp_all
    have "sh_output_bytes_total row + int (rf_byte_length f) \<le> output_limit cfg row"
      using lim append_at_seq [OF assms a r] by (simp add: over_limit_def)
    then show "row_ok cfg (note_output cfg now f row)"
      using shell_inv_row(1) [OF assms r(1)] append_at_seq [OF assms a r]
      by (auto simp: note_output_def row_ok_def output_limit_def touch_def Let_def)
    show "live (note_output cfg now f row)" using r(2) by (simp add: note_output_def live_def)
  qed (simp_all add: note_output_def touch_def Let_def)
  show ?thesis
    unfolding send_shell_output_def
    using assms accept append_at_refused [OF assms] shell_inv_over_limit [OF assms] get_agent_session_row [of st agent sid]
    by (auto simp: Let_def split: sum.splits)
qed

text \<open>Reads.\<close>

lemma read_output_inv:
  "shell_inv digest cfg st \<Longrightarrow> shell_inv digest cfg (fst (read_shell_output cfg st agent_id sid after ack oper))"
  by (auto simp: read_shell_output_def intro: shell_inv_read_at shell_inv_relay split: sum.splits)

lemma read_input_inv:
  "shell_inv digest cfg st \<Longrightarrow> shell_inv digest cfg (fst (read_shell_input cfg st sid after ack agent))"
  by (auto simp: read_shell_input_def intro: shell_inv_read_at shell_inv_relay split: sum.splits)

text \<open>Endings.\<close>

lemma close_inv:
  assumes "shell_inv digest cfg st"
  shows "shell_inv digest cfg (fst (close_shell_session st agent_id sid reason oper now))"
  unfolding close_shell_session_def using assms shell_inv_end(2) [OF assms] get_session_row [of st agent_id sid]
  by (auto simp: Let_def split: sum.splits)

lemma complete_inv:
  assumes "shell_inv digest cfg st"
  shows "shell_inv digest cfg (fst (complete_shell_session st sid failed reason agent now))"
  unfolding complete_shell_session_def using assms shell_inv_end(2) [OF assms] get_session_row [of st "ag_id agent" sid]
  by (auto simp: Let_def split: sum.splits)

text \<open>A relay made for a session that has none.\<close>

lemma registry_create_fresh:
  assumes "relays reg i = None"
  shows "registry_create reg i x y mi mo mf =
    (reg\<lparr>heap := heap reg @ [new_relay x y mi mo mf], relays := (relays reg)(i \<mapsto> length (heap reg))\<rparr>, length (heap reg))"
  using assms by (simp add: registry_create_def)

lemma shell_inv_create:
  assumes "shell_inv digest cfg st" "relays (ss_registry st) i = None" "0 \<le> x" "0 \<le> y"
    and "\<And>row. row \<in> set (ss_sessions st) \<Longrightarrow> sh_id row = i \<Longrightarrow> sh_client_last_seq row = x \<and> sh_agent_last_seq row = y"
  shows "shell_inv digest cfg (st\<lparr>ss_registry := fst (registry_create (ss_registry st) i x y
    (shell_session_input_buffer_bytes cfg) (shell_session_relay_buffer_bytes cfg) (shell_session_relay_max_frames cfg))\<rparr>)"
proof -
  note inv = assms(1) [unfolded shell_inv_parts]
  let ?h = "heap (ss_registry st)" and ?n = "new_relay x y (shell_session_input_buffer_bytes cfg)
    (shell_session_relay_buffer_bytes cfg) (shell_session_relay_max_frames cfg)"
  have n: "relay_ok digest cfg ?n" using assms(3,4) queue_ok_new by (simp add: relay_ok_def new_relay_def)
  have below: "relays (ss_registry st) j = Some a \<Longrightarrow> a < length ?h" for j a
    using inv unfolding registry_ok_def by blast
  have "registry_ok ((ss_registry st)\<lparr>heap := ?h @ [?n], relays := (relays (ss_registry st))(i \<mapsto> length ?h)\<rparr>)"
    using inv below unfolding registry_ok_def by (auto simp: less_Suc_eq split: if_splits)
  moreover have "in_step ((?h @ [?n]) ! a) row"
    if "row \<in> set (ss_sessions st)" "live row" "((relays (ss_registry st))(i \<mapsto> length ?h)) (sh_id row) = Some a" for row a
  proof (cases "sh_id row = i")
    case True
    then show ?thesis using that assms(5) [OF that(1) True] by (auto simp: in_step_def new_relay_def new_direction_def)
  next
    case False
    then have "relays (ss_registry st) (sh_id row) = Some a" using that(3) by simp
    then show ?thesis using below inv that(1,2) by (simp add: nth_append)
  qed
  ultimately show ?thesis
    using inv n unfolding registry_create_fresh [OF assms(2)] shell_inv_parts by simp
qed

lemma live_rows_mem: "row \<in> set (live_rows st aid) \<longleftrightarrow> row \<in> set (ss_sessions st) \<and> sh_agent_id row = aid \<and> live row"
  by (auto simp: live_rows_def)

lemma live_rows_length: "length (live_rows st aid) = live_count st aid"
  by (simp add: live_rows_def live_count_def)

lemma new_session_fields:
  "sh_id (new_session cfg i aid oper now) = i" "sh_agent_id (new_session cfg i aid oper now) = aid"
  "row_ok cfg (new_session cfg i aid oper now)" "live (new_session cfg i aid oper now)"
  "sh_client_last_seq (new_session cfg i aid oper now) = 0" "sh_agent_last_seq (new_session cfg i aid oper now) = 0"
  by (simp_all add: new_session_def row_ok_def live_def)

lemma shell_inv_add:
  assumes "shell_inv digest cfg st" "i \<notin> sh_id ` set (ss_sessions st)" "relays (ss_registry st) i = None"
    and "live_count st aid < shell_session_max_concurrent_per_agent cfg"
  shows "shell_inv digest cfg (st\<lparr>ss_sessions := ss_sessions st @ [new_session cfg i aid oper now]\<rparr>)"
  using assms unfolding shell_inv_parts by (auto simp: new_session_fields image_iff le_less)

lemma admit_inv:
  assumes "shell_inv digest cfg st" "i \<notin> sh_id ` set (ss_sessions st)" "relays (ss_registry st) i = None"
  shows "shell_inv digest cfg (fst (admit cfg st agent oper now i))"
proof -
  let ?rows = "take (shell_session_max_concurrent_per_agent cfg) (live_rows st (ag_id agent))"
  let ?st = "st\<lparr>ss_sessions := ss_sessions st @ [new_session cfg i (ag_id agent) oper now]\<rparr>"
  have "shell_inv digest cfg (?st\<lparr>ss_registry := fst (registry_create (ss_registry ?st) i 0 0
      (shell_session_input_buffer_bytes cfg) (shell_session_relay_buffer_bytes cfg) (shell_session_relay_max_frames cfg))\<rparr>)"
    if "length ?rows < shell_session_max_concurrent_per_agent cfg"
  proof (rule shell_inv_create)
    show "shell_inv digest cfg ?st"
      using shell_inv_add [OF assms] that live_rows_length [of st "ag_id agent"] by simp
    show "sh_client_last_seq row = 0 \<and> sh_agent_last_seq row = 0" if "row \<in> set (ss_sessions ?st)" "sh_id row = i" for row
    proof -
      have "row = new_session cfg i (ag_id agent) oper now" using that assms(2) by auto
      then show ?thesis by (simp only: new_session_fields simp_thms)
    qed
  qed (use assms(3) in simp_all)
  then show ?thesis using assms(1) by (simp add: admit_def Let_def not_le)
qed

lemma open_inv:
  assumes "shell_inv digest cfg st" "i \<notin> sh_id ` set (ss_sessions st)" "relays (ss_registry st) i = None"
  shows "shell_inv digest cfg (fst (open_shell_session cfg st agent_id oper now i))"
  unfolding open_shell_session_def using assms(1) admit_inv [OF assms]
  by (simp add: Let_def split: sum.splits option.splits)

lemma activate_inv:
  assumes "shell_inv digest cfg st" "row \<in> set (ss_sessions st)"
  shows "shell_inv digest cfg (fst (activate cfg st agent row now))"
proof -
  let ?row = "touch cfg now (row\<lparr>sh_status := Shell_active, sh_activated_at := Some (Aware now)\<rparr>)"
  have "shell_inv digest cfg (put_session ?row st)" if "sh_status row = Shell_pending"
  proof (rule shell_inv_put_session [OF assms(1) _ assms(2)])
    have l: "live row" using that by (simp add: live_def)
    show "live row" by (fact l)
    show "row_ok cfg ?row" using shell_inv_row(1) [OF assms] by (simp add: row_ok_def touch_def Let_def)
    show "in_step (heap (ss_registry st) ! a) ?row" if "relays (ss_registry st) (sh_id row) = Some a" for a
      using shell_inv_row(2) [OF assms l that] by (simp add: in_step_def touch_def Let_def)
  qed simp_all
  then show ?thesis using assms(1) by (simp add: activate_def Let_def)
qed

lemma attach_inv:
  assumes "shell_inv digest cfg st"
  shows "shell_inv digest cfg (fst (attach_shell_session cfg st agent now))"
proof (cases "live_rows st (ag_id agent)")
  case (Cons row rest)
  then have row: "row \<in> set (ss_sessions st)" "live row" using live_rows_mem [of row st "ag_id agent"] by simp_all
  have same: "q = row" if "q \<in> set (ss_sessions st)" "sh_id q = sh_id row" for q
    by (rule shell_inv_unique [OF assms that(1) row(1) that(2)])
  have "0 \<le> sh_client_last_seq row" "0 \<le> sh_agent_last_seq row"
    using shell_inv_row(1) [OF assms row(1)] by (simp_all add: row_ok_def)
  then have create: "shell_inv digest cfg (st\<lparr>ss_registry := fst (registry_create (ss_registry st) (sh_id row)
      (sh_client_last_seq row) (sh_agent_last_seq row) (shell_session_input_buffer_bytes cfg)
      (shell_session_relay_buffer_bytes cfg) (shell_session_relay_max_frames cfg))\<rparr>)"
    if "relays (ss_registry st) (sh_id row) = None"
    using shell_inv_create [OF assms that] same by blast
  show ?thesis
    using Cons assms row activate_inv [OF assms row(1)] activate_inv [OF create] shell_inv_end(1) [OF assms row(1)]
    by (simp add: attach_shell_session_def registry_get_def Let_def split: option.splits)
qed (use assms in \<open>simp add: attach_shell_session_def\<close>)

text \<open>
  The sweep. While it runs, the rows still to be looked at are as they were read.
\<close>

lemma close_relay_audit [simp]:
  "close_relay i (shell_audit action actor uid aid detail st) = shell_audit action actor uid aid detail (close_relay i st)"
  by (simp add: close_relay_def shell_audit_def)

lemma sweep_row_rows:
  "ss_sessions (sweep_row now row st) = (case overdue now row of None \<Rightarrow> ss_sessions st
     | Some reason \<Rightarrow> ss_sessions (put_session (end_session Shell_timed_out reason now row) st))"
  by (simp add: sweep_row_def close_relay_def split: option.splits)

lemma sweep_fold:
  assumes "shell_inv digest cfg st" "set rows \<subseteq> set (ss_sessions st)" "distinct (map sh_id rows)"
  shows "shell_inv digest cfg (foldl (\<lambda>s row. sweep_row now row s) st rows) \<and>
    (\<forall>q \<in> set (ss_sessions (foldl (\<lambda>s row. sweep_row now row s) st rows)).
       live q \<longrightarrow> q \<in> set (ss_sessions st) \<and> (q \<in> set rows \<longrightarrow> overdue now q = None)) \<and>
    (\<forall>q \<in> set (ss_sessions st). q \<notin> set rows \<or> overdue now q = None \<longrightarrow>
       q \<in> set (ss_sessions (foldl (\<lambda>s row. sweep_row now row s) st rows)))"
  using assms
proof (induction rows arbitrary: st)
  case (Cons row rows)
  let ?st = "sweep_row now row st" and ?swept = "foldl (\<lambda>s row. sweep_row now row s) (sweep_row now row st) rows"
  have row: "row \<in> set (ss_sessions st)" and fresh: "sh_id row \<notin> sh_id ` set rows" using Cons.prems(2,3) by simp_all
  have inv: "shell_inv digest cfg ?st"
    using Cons.prems(1) shell_inv_end(2) [OF Cons.prems(1) row] by (simp add: sweep_row_def split: option.splits)
  have mem: "q \<in> set (ss_sessions ?st)" if "q \<in> set (ss_sessions st)" "sh_id q \<noteq> sh_id row \<or> overdue now row = None" for q
    using that by (auto simp: sweep_row_rows put_session_rows split: option.splits)
  have "set rows \<subseteq> set (ss_sessions ?st)"
  proof
    fix q assume q: "q \<in> set rows"
    then have "sh_id q \<noteq> sh_id row" using fresh by (metis image_eqI)
    then show "q \<in> set (ss_sessions ?st)" using mem Cons.prems(2) q by auto
  qed
  moreover have "distinct (map sh_id rows)" using Cons.prems(3) by simp
  ultimately have all: "shell_inv digest cfg ?swept \<and>
      (\<forall>q \<in> set (ss_sessions ?swept). live q \<longrightarrow> q \<in> set (ss_sessions ?st) \<and> (q \<in> set rows \<longrightarrow> overdue now q = None)) \<and>
      (\<forall>q \<in> set (ss_sessions ?st). q \<notin> set rows \<or> overdue now q = None \<longrightarrow> q \<in> set (ss_sessions ?swept))"
    by (rule Cons.IH [OF inv])
  note IH = all [THEN conjunct1] all [THEN conjunct2, THEN conjunct1, rule_format] all [THEN conjunct2, THEN conjunct2, rule_format]
  have stay: "q \<in> set (ss_sessions st) \<and> (q = row \<longrightarrow> overdue now q = None)" if "q \<in> set (ss_sessions ?st)" "live q" for q
    using that row
    by (auto simp: sweep_row_rows put_session_rows live_def dest: arg_cong [where f = sh_status]
        split: option.splits if_splits)
  have keep: "q \<in> set (ss_sessions ?st)" if "q \<in> set (ss_sessions st)" "q \<noteq> row \<or> overdue now q = None" for q
    using that mem [OF that(1)] shell_inv_unique [OF Cons.prems(1) that(1) row] by metis
  show ?case
    unfolding foldl_Cons
  proof (intro conjI ballI impI)
    show "shell_inv digest cfg ?swept" by (fact IH(1))
  next
    fix q assume q: "q \<in> set (ss_sessions ?swept)" "live q"
    show "q \<in> set (ss_sessions st)" using IH(2) [OF q] stay q(2) by blast
    show "overdue now q = None" if "q \<in> set (row # rows)" using IH(2) [OF q] stay q(2) that by auto
  next
    fix q assume "q \<in> set (ss_sessions st)" "q \<notin> set (row # rows) \<or> overdue now q = None"
    then show "q \<in> set (ss_sessions ?swept)"
      using keep IH(3) by auto
  qed
qed simp

lemma sweep_all:
  assumes "shell_inv digest cfg st"
  shows "shell_inv digest cfg (shell_session_sweep_once st now)"
    "q \<in> set (ss_sessions (shell_session_sweep_once st now)) \<Longrightarrow> live q \<Longrightarrow>
       q \<in> set (ss_sessions st) \<and> overdue now q = None"
    "q \<in> set (ss_sessions st) \<Longrightarrow> \<not> live q \<or> overdue now q = None \<Longrightarrow>
       q \<in> set (ss_sessions (shell_session_sweep_once st now))"
proof -
  have "distinct (map sh_id (filter live (ss_sessions st)))"
    using assms unfolding shell_inv_but_def by (simp add: distinct_map_filter)
  note f = sweep_fold [OF assms _ this, of now, folded shell_session_sweep_once_def, simplified]
  show "shell_inv digest cfg (shell_session_sweep_once st now)" using f by blast
  show "q \<in> set (ss_sessions st) \<and> overdue now q = None"
    if "q \<in> set (ss_sessions (shell_session_sweep_once st now))" "live q" using f that by blast
  show "q \<in> set (ss_sessions (shell_session_sweep_once st now))"
    if "q \<in> set (ss_sessions st)" "\<not> live q \<or> overdue now q = None" using f that by blast
qed

text \<open>Together.\<close>

lemma restart_inv:
  "shell_inv digest cfg st \<Longrightarrow> shell_inv digest cfg (st\<lparr>ss_registry := \<lparr>heap = [], relays = (\<lambda>_. None)\<rparr>\<rparr>)"
  unfolding shell_inv_parts registry_ok_def by simp

lemma view_inv:
  "shell_inv digest cfg st \<Longrightarrow> shell_inv digest cfg (fst (get_shell_session st agent_id sid oper))"
  by (auto simp: get_shell_session_def split: sum.splits)

lemma shell_step_inv: "shell_step digest cfg st st' \<Longrightarrow> shell_inv digest cfg st \<Longrightarrow> shell_inv digest cfg st'"
  by (induction rule: shell_step.induct)
    (simp_all add: open_inv view_inv send_input_inv send_output_inv read_output_inv read_input_inv
      shell_inv_read_at close_inv attach_inv complete_inv sweep_all(1) restart_inv)

lemma shell_reachable_inv: "shell_reachable digest cfg st \<Longrightarrow> shell_inv digest cfg st"
proof (induction rule: shell_reachable.induct)
  case (reach_start s)
  then show ?case by (simp add: shell_inv_parts shell_start_def registry_ok_def)
qed (simp add: shell_step_inv)

section \<open>Ended sessions stay as they ended\<close>

lemma rows_frame [simp]:
  "ss_sessions (close_relay i st) = ss_sessions st" "ss_sessions (put_relay a r st) = ss_sessions st"
  "ss_sessions (fst (read_at st refresh row a w after ack nt)) = ss_sessions st"
  "ss_sessions (fst (read_woken_at st refresh row a w after timed_out)) = ss_sessions st"
  by (simp_all add: close_relay_def put_relay_def read_at_def read_woken_at_def split: prod.splits)

lemma append_at_rows: "append_at digest st a w f = Inr (st', b) \<Longrightarrow> ss_sessions st' = ss_sessions st"
  by (auto simp: append_at_def split: sum.splits)

lemma put_session_dead:
  assumes "shell_inv digest cfg st" "row \<in> set (ss_sessions st)" "live row" "sh_id row' = sh_id row"
    and "ss_sessions st' = ss_sessions st" "q \<in> set (ss_sessions st)" "\<not> live q"
  shows "q \<in> set (ss_sessions (put_session row' st'))"
proof -
  have "sh_id q \<noteq> sh_id row'" using shell_inv_unique [OF assms(1,6,2)] assms(3,4,7) by auto
  then show ?thesis using assms(5,6) by (force simp: put_session_rows)
qed

lemma note_keys: "sh_id (note_input cfg now f row) = sh_id row" "sh_id (note_output cfg now f row) = sh_id row"
  by (simp_all add: note_input_def note_output_def)

lemma shell_step_dead:
  assumes "shell_step digest cfg st st'" "shell_inv digest cfg st" "q \<in> set (ss_sessions st)" "\<not> live q"
  shows "q \<in> set (ss_sessions st')"
  using assms
proof (induction rule: shell_step.induct)
  case (step_open i st agent_id oper now)
  then show ?case by (auto simp: open_shell_session_def admit_def Let_def split: sum.splits option.splits)
next
  case (step_view st agent_id sid oper)
  then show ?case by (auto simp: get_shell_session_def split: sum.splits)
next
  case (step_input st agent_id sid body oper now)
  note p = put_session_dead [OF step_input.prems(1) _ _ note_keys(1) append_at_rows step_input.prems(2,3)]
  show ?case using step_input.prems(2) get_session_row [of st agent_id sid]
    by (auto simp: send_shell_input_def Let_def require_simps append_at_rows intro: p split: sum.splits)
next
  case (step_output st sid body agent now)
  note p = put_session_dead [OF step_output.prems(1) _ _ note_keys(2) append_at_rows step_output.prems(2,3)]
  note p2 = put_session_dead [OF step_output.prems(1) _ _ end_session_fields(1) refl step_output.prems(2,3)]
  show ?case using step_output.prems(2) get_agent_session_row [of st agent sid]
    by (auto simp: send_shell_output_def fail_over_limit_def Let_def append_at_rows intro: p p2 split: sum.splits)
next
  case (step_read_output st agent_id sid after ack oper)
  then show ?case by (auto simp: read_shell_output_def split: sum.splits)
next
  case (step_read_input st sid after ack agent)
  then show ?case by (auto simp: read_shell_input_def split: sum.splits)
next
  case (step_close st agent_id sid reason oper now)
  note p = put_session_dead [OF step_close.prems(1) _ _ end_session_fields(1) refl step_close.prems(2,3)]
  show ?case using step_close.prems(2) get_session_row [of st agent_id sid]
    by (auto simp: close_shell_session_def Let_def terminal_iff intro: p split: sum.splits)
next
  case (step_attach st agent now)
  show ?case
  proof (cases "live_rows st (ag_id agent)")
    case (Cons row rest)
    then have "row \<in> set (ss_sessions st)" "live row" using live_rows_mem [of row st "ag_id agent"] by simp_all
    note p = put_session_dead [OF step_attach.prems(1) this _ _ step_attach.prems(2,3)]
    show ?thesis using Cons step_attach.prems(2)
      by (auto simp: attach_shell_session_def activate_def Let_def split: option.splits intro!: p)
  qed (use step_attach.prems(2) in \<open>simp add: attach_shell_session_def\<close>)
next
  case (step_complete st sid failed reason agent now)
  note p = put_session_dead [OF step_complete.prems(1) _ _ end_session_fields(1) refl step_complete.prems(2,3)]
  show ?case using step_complete.prems(2) get_session_row [of st "ag_id agent" sid]
    by (auto simp: complete_shell_session_def Let_def terminal_iff intro: p split: sum.splits)
next
  case (step_sweep st now)
  then show ?case by (blast intro: sweep_all(3))
qed simp_all

section \<open>Properties\<close>

text \<open>A deployment in which a session is opened, attached and closed.\<close>

definition shell_cfg :: shell_settings where
  "shell_cfg = \<lparr>shell_session_max_lifetime_seconds = 1800, shell_session_idle_timeout_seconds = 300,
     shell_session_output_byte_limit = 1048576, shell_session_max_concurrent_per_agent = 1,
     shell_session_poll_timeout = 25, shell_session_pending_poll_timeout = 1,
     shell_session_max_frame_bytes = 16384, shell_session_relay_buffer_bytes = 131072,
     shell_session_input_buffer_bytes = 65536, shell_session_relay_max_frames = 128\<rparr>"

definition shell_agent :: Agent where
  "shell_agent = agent1\<lparr>supported_capabilities := Some [SHELL_SESSION_CAPABILITY]\<rparr>"

definition shell_store :: store where
  "shell_store = \<lparr>st_db = db1, st_clients = [''client1''], st_agents = [shell_agent], st_policies = [],
     st_requests = [], st_decisions = [], st_overrides = [], st_commands = [], st_audit = []\<rparr>"

definition demo_opened :: shell_state where
  "demo_opened = fst (open_shell_session shell_cfg (shell_start shell_store) ''agent1'' alice 0 ''s1'')"

definition demo_row :: ShellSession where
  "demo_row = new_session shell_cfg ''s1'' ''agent1'' alice 0"

definition demo_closed :: shell_state where
  "demo_closed = fst (close_shell_session demo_opened ''agent1'' ''s1'' None alice 5)"

lemma demo_opened_rows:
  "open_shell_session shell_cfg (shell_start shell_store) ''agent1'' alice 0 ''s1'' = (demo_opened, Inr demo_row)"
  "ss_sessions demo_opened = [demo_row]"
  by (simp_all add: prod_eq_iff demo_opened_def open_shell_session_def shell_start_def shell_store_def require_role_def get_agent_def db_get_def
      shell_agent_def fixture_defs assert_agent_visible_def assert_client_action_def agent_client_id_def
      resolve_membership_def client_role_permits_def authorize_script script_scope_covers_def resolve_policy_def
      admit_def shell_cfg_def live_rows_def Let_def demo_row_def)

lemma demo_closed_rows: "ss_sessions demo_closed = [end_session Shell_closed ''operator_closed'' 5 demo_row]"
  by (simp add: demo_closed_def close_shell_session_def require_role_def get_session_def demo_opened_rows
      require_owner_def terminal_def reason_or_def Let_def put_session_rows)
    (simp add: demo_row_def new_session_def fixture_defs)

lemma demo_reach: "shell_reachable id shell_cfg demo_opened" "shell_reachable id shell_cfg demo_closed"
proof -
  have "shell_step id shell_cfg (shell_start shell_store) demo_opened"
    unfolding demo_opened_def by (rule step_open) (simp_all add: shell_start_def)
  then show o: "shell_reachable id shell_cfg demo_opened" by (rule reach_step [OF reach_start])
  show "shell_reachable id shell_cfg demo_closed" unfolding demo_closed_def by (rule reach_step [OF o step_close])
qed



text \<open>
  An ended session is final. In a reachable state, no step changes the row of a session
  that is closed, timed out, denied or failed.
\<close>

theorem ended_session_final:
  assumes "shell_reachable digest cfg st" "shell_step digest cfg st st'"
    and "row \<in> set (ss_sessions st)" "terminal row"
  shows "row \<in> set (ss_sessions st')"
  using shell_step_dead [OF assms(2) shell_reachable_inv [OF assms(1)] assms(3)] assms(4) by (simp add: terminal_iff)

theorem ended_session_final_witness:
  "end_session Shell_closed ''operator_closed'' 5 demo_row \<in> set (ss_sessions (shell_session_sweep_once demo_closed 9))"
  by (rule ended_session_final [OF demo_reach(2) step_sweep]) (simp_all add: demo_closed_rows terminal_def)

text \<open>
  The sweep ends what is overdue. After a sweep at a time \<open>now\<close>, every session that is still
  live has its absolute and its idle deadline ahead of it and was not touched, and every
  session that was live and past a deadline has ended.
\<close>

theorem sweep_ends_overdue:
  assumes "shell_reachable digest cfg st"
  shows "\<forall>row \<in> set (ss_sessions (shell_session_sweep_once st now)). live row \<longrightarrow>
    row \<in> set (ss_sessions st) \<and>
    (\<forall>t. sh_absolute_deadline row = Some t \<or> sh_idle_deadline row = Some t \<longrightarrow> now < instant_of t)"
proof (intro ballI impI)
  fix row assume row: "row \<in> set (ss_sessions (shell_session_sweep_once st now))" "live row"
  from sweep_all(2) [OF shell_reachable_inv [OF assms] this]
  show "row \<in> set (ss_sessions st) \<and>
      (\<forall>t. sh_absolute_deadline row = Some t \<or> sh_idle_deadline row = Some t \<longrightarrow> now < instant_of t)"
    by (auto simp: overdue_def split: option.splits if_splits)
qed

theorem sweep_ends_overdue_witness:
  "filter live (ss_sessions (shell_session_sweep_once demo_opened (seconds 300))) = []"
proof -
  have "sh_idle_deadline demo_row = Some (Aware (seconds 300))"
    by (simp add: demo_row_def new_session_def shell_cfg_def)
  then show ?thesis
    using sweep_ends_overdue [OF demo_reach(1), of "seconds 300"] unfolding demo_opened_rows(2) filter_empty_conv by fastforce
qed

text \<open>
  No interactive shell around the two-person rule. Opening adds a session only for an
  operator who may run scripts on the endpoint and acts for its tenant, only for an endpoint
  that is trusted and speaks the protocol, and only when no approval policy governs
  \<open>powershell\<close> there.
\<close>

theorem open_respects_gates:
  assumes "open_shell_session cfg st agent_id oper now i = (st', result)" "ss_sessions st' \<noteq> ss_sessions st"
  shows "\<exists>agent. get_agent (ss_store st) agent_id = Some agent \<and>
    ss_sessions st' = ss_sessions st @ [new_session cfg i (ag_id agent) oper now] \<and>
    assert_agent_visible (st_db (ss_store st)) oper agent (Some client_operator) ''Agent not found'' = Inr () \<and>
    op_role oper \<noteq> OperatorRole_readonly \<and> script_scope_covers oper agent \<and>
    resolve_policy (st_db (ss_store st)) (st_policies (ss_store st)) agent powershell = None \<and>
    trust_state agent = Trust_active \<and>
    live_count st (ag_id agent) < shell_session_max_concurrent_per_agent cfg"
proof -
  obtain agent where a: "get_agent (ss_store st) agent_id = Some agent"
    "assert_agent_visible (st_db (ss_store st)) oper agent (Some client_operator) ''Agent not found'' = Inr ()"
    "cmd_allowed (authorize_command oper agent powershell)"
    "resolve_policy (st_db (ss_store st)) (st_policies (ss_store st)) agent powershell = None"
    "trust_state agent = Trust_active" "admit cfg st agent oper now i = (st', result)"
    using assms by (auto simp: open_shell_session_def Let_def split: sum.splits option.splits if_splits)
  have "ss_sessions st' = ss_sessions st @ [new_session cfg i (ag_id agent) oper now] \<and>
      live_count st (ag_id agent) < shell_session_max_concurrent_per_agent cfg"
    using a(6) assms(2) live_rows_length [of st "ag_id agent"]
    by (auto simp: admit_def Let_def split: if_splits)
  moreover have "op_role oper \<noteq> OperatorRole_readonly \<and> script_scope_covers oper agent"
    using a(3) by (auto simp: authorize_script)
  ultimately show ?thesis using a by blast
qed

theorem open_respects_gates_witness:
  "resolve_policy (st_db (ss_store (shell_start shell_store))) (st_policies (ss_store (shell_start shell_store)))
     shell_agent powershell = None \<and> trust_state shell_agent = Trust_active"
proof -
  have "ss_sessions demo_opened \<noteq> ss_sessions (shell_start shell_store)"
    by (simp add: demo_opened_rows shell_start_def)
  from open_respects_gates [OF demo_opened_rows(1) this] show ?thesis
    by (auto simp: shell_start_def shell_store_def get_agent_def db_get_def shell_agent_def agent1_def)
qed

end
