(* ===== verification/Command_Signing.thy ===== *)
theory Command_Signing
  imports Command_Envelope
begin

text \<open>
  Signing commands (\<open>sign_command\<close> of \<open>server/app/core/security.py\<close>). The active key of the
  keyring is a parameter: its identifier and the base64 of its Ed25519 signature of some bytes.
  \<open>None\<close> for the key stands for a keyring that does not load, and \<open>None\<close> as a result for the
  exception that is raised.
\<close>

record signing_key =
  key_id :: ustr
  sign :: "nat list \<Rightarrow> string"

definition sign_command ::
  "signing_key option \<Rightarrow> ustr \<Rightarrow> int \<Rightarrow> ustr \<Rightarrow> ustr \<Rightarrow> ustr \<Rightarrow> json \<Rightarrow> ustr \<Rightarrow> ustr \<Rightarrow> ustr \<Rightarrow> ustr option \<Rightarrow> string option" where
  "sign_command active envelope_version schema_version command_id agent_id kind payload issued_at expires_at nonce
     signing_key_id =
     (case active of
        None \<Rightarrow> None
      | Some key \<Rightarrow>
          if signing_key_id \<noteq> None \<and> signing_key_id \<noteq> Some (key_id key) then None
          else case canonical_command_bytes envelope_version (Some schema_version) command_id agent_id kind payload
                 issued_at expires_at nonce
                 (if envelope_version = ustr ''command-v3'' then Some (key_id key) else None) of
              Inl _ \<Rightarrow> None
            | Inr bytes \<Rightarrow> Some (sign key bytes))"

end
