(* ===== verification/Py_Text.thy ===== *)
theory Py_Text
  imports Json
begin

text \<open>
  Operations of Python's \<open>str\<close> that several components use. Texts are lists of code points. The
  Unicode database of the runtime is a parameter: the value of a decimal digit outside ASCII,
  and the maps \<open>lower\<close>, \<open>upper\<close> and \<open>casefold\<close>.
\<close>

record unicode =
  nd_value :: "nat \<Rightarrow> nat option"
  lower :: "ustr \<Rightarrow> ustr"
  upper :: "ustr \<Rightarrow> ustr"
  casefold :: "ustr \<Rightarrow> ustr"

definition ascii_digit :: "nat \<Rightarrow> bool" where
  "ascii_digit c \<longleftrightarrow> 48 \<le> c \<and> c \<le> 57"

text \<open>What \<open>\d\<close> matches, and the value \<open>int\<close> gives it.\<close>

definition digit_value :: "unicode \<Rightarrow> nat \<Rightarrow> nat option" where
  "digit_value u c = (if ascii_digit c then Some (c - 48) else if c < 128 then None else nd_value u c)"

definition is_digit :: "unicode \<Rightarrow> nat \<Rightarrow> bool" where
  "is_digit u c \<longleftrightarrow> digit_value u c \<noteq> None"

definition ascii :: "ustr \<Rightarrow> bool" where
  "ascii s \<longleftrightarrow> list_all (\<lambda>c. c < 128) s"

definition to_int :: "unicode \<Rightarrow> ustr \<Rightarrow> nat" where
  "to_int u s = foldl (\<lambda>n c. 10 * n + (case digit_value u c of None \<Rightarrow> 0 | Some d \<Rightarrow> d)) 0 s"

text \<open>\<open>str.strip()\<close> with the white space of Python's \<open>str\<close>.\<close>

definition is_space :: "nat \<Rightarrow> bool" where
  "is_space c \<longleftrightarrow> (9 \<le> c \<and> c \<le> 13) \<or> (28 \<le> c \<and> c \<le> 32) \<or> c \<in> set [133, 160, 5760, 8232, 8233, 8239, 8287, 12288]
     \<or> (8192 \<le> c \<and> c \<le> 8202)"

definition strip :: "ustr \<Rightarrow> ustr" where
  "strip s = rev (dropWhile is_space (rev (dropWhile is_space s)))"

text \<open>
  \<open>int(s)\<close>: surrounding white space (of the C locale when the text is ASCII), a sign, and digits
  with single underscores between them, at most 4300; \<open>None\<close> is \<open>ValueError\<close>.
\<close>

definition strip_by :: "(nat \<Rightarrow> bool) \<Rightarrow> ustr \<Rightarrow> ustr" where
  "strip_by p s = rev (dropWhile p (rev (dropWhile p s)))"

fun int_body :: "unicode \<Rightarrow> bool \<Rightarrow> ustr \<Rightarrow> bool" where
  "int_body u after_digit [] = after_digit"
| "int_body u after_digit (c # s) =
     (if is_digit u c then int_body u True s else c = 95 \<and> after_digit \<and> int_body u False s)"

definition py_int :: "unicode \<Rightarrow> ustr \<Rightarrow> int option" where
  "py_int u s =
     (let t = strip_by (if ascii s then (\<lambda>c. 9 \<le> c \<and> c \<le> 13 \<or> c = 32) else is_space) s;
          signed = t \<noteq> [] \<and> (hd t = 43 \<or> hd t = 45);
          body = (if signed then tl t else t); n = filter (\<lambda>c. c \<noteq> 95) body in
      if int_body u False body \<and> length n \<le> 4300
      then Some (if signed \<and> hd t = 45 then - int (to_int u n) else int (to_int u n))
      else None)"

fun split_on :: "nat \<Rightarrow> ustr \<Rightarrow> ustr list" where
  "split_on sep [] = [[]]"
| "split_on sep (c # s) =
     (if c = sep then [] # split_on sep s
      else case split_on sep s of [] \<Rightarrow> [[c]] | p # ps \<Rightarrow> (c # p) # ps)"

text \<open>\<open>s.partition(sep)\<close> without the separator, and \<open>s.split()\<close>.\<close>

definition partition_at :: "nat \<Rightarrow> ustr \<Rightarrow> ustr \<times> ustr" where
  "partition_at sep s = (takeWhile (\<lambda>c. c \<noteq> sep) s, tl (dropWhile (\<lambda>c. c \<noteq> sep) s))"

function words :: "ustr \<Rightarrow> ustr list" where
  "words [] = []"
| "words (c # s) =
     (if is_space c then words s
      else takeWhile (\<lambda>x. \<not> is_space x) (c # s) # words (dropWhile (\<lambda>x. \<not> is_space x) s))"
  by pat_completeness auto
termination
  by (relation "measure length") (simp_all add: le_imp_less_Suc length_dropWhile_le)

text \<open>The truth value of an optional text: neither absent nor empty.\<close>

definition given :: "'a list option \<Rightarrow> bool" where
  "given t \<longleftrightarrow> (case t of None \<Rightarrow> False | Some s \<Rightarrow> s \<noteq> [])"

end
