(* ===== verification/Agent_Updates.thy ===== *)
theory Agent_Updates
  imports Command_Signing Py_Text
begin

text \<open>
  The policy of staged agent updates (\<open>server/app/core/agent_updates.py\<close>): the order of release
  versions, the manifest that is signed, who may be targeted and when a release halts itself.
  SHA-256 and the signing key are parameters.
\<close>

section \<open>Version order\<close>

datatype AgentUpdateError = AgentUpdateError (update_code: string)

definition prerelease_char :: "nat \<Rightarrow> bool" where
  "prerelease_char c \<longleftrightarrow> ascii_digit c \<or> (65 \<le> c \<and> c \<le> 90) \<or> (97 \<le> c \<and> c \<le> 122) \<or> c = 46 \<or> c = 45"

text \<open>One numeric component: one to six digits.\<close>

definition component :: "unicode \<Rightarrow> ustr \<Rightarrow> (ustr \<times> ustr) option" where
  "component u s = (let d = takeWhile (is_digit u) s in
     if 1 \<le> length d \<and> length d \<le> 6 then Some (d, dropWhile (is_digit u) s) else None)"

fun expect :: "nat \<Rightarrow> ustr \<Rightarrow> ustr option" where
  "expect c [] = None"
| "expect c (x # s) = (if x = c then Some s else None)"

definition prerelease_of :: "ustr \<Rightarrow> ustr option" where
  "prerelease_of s =
     (case s of
        [] \<Rightarrow> Some []
      | c # p \<Rightarrow> if c = 45 \<and> 1 \<le> length p \<and> length p \<le> 64 \<and> list_all prerelease_char p then Some p else None)"

definition match_version :: "unicode \<Rightarrow> ustr \<Rightarrow> (ustr \<times> ustr \<times> ustr \<times> ustr) option" where
  "match_version u raw =
     Option.bind (component u raw) (\<lambda>(a, r1). Option.bind (expect 46 r1) (\<lambda>r2.
     Option.bind (component u r2) (\<lambda>(b, r3). Option.bind (expect 46 r3) (\<lambda>r4.
     Option.bind (component u r4) (\<lambda>(c, r5). map_option (\<lambda>p. (a, b, c, p)) (prerelease_of r5))))))"

definition parse_version :: "unicode \<Rightarrow> ustr \<Rightarrow> AgentUpdateError + nat \<times> nat \<times> nat \<times> ustr" where
  "parse_version u raw =
     (case match_version u raw of
        None \<Rightarrow> Inl (AgentUpdateError ''version_uncomparable'')
      | Some (a, b, c, p) \<Rightarrow> Inr (to_int u a, to_int u b, to_int u c, p))"

text \<open>
  A dot-separated identifier of a prerelease: a number, or else its text. Numbers come first;
  this is the order of the pairs \<open>(0, int)\<close> and \<open>(1, str)\<close>.
\<close>

datatype prerelease_id = NumId nat | TextId ustr

instantiation prerelease_id :: linorder
begin

fun less_eq_prerelease_id :: "prerelease_id \<Rightarrow> prerelease_id \<Rightarrow> bool" where
  "less_eq_prerelease_id (NumId m) (NumId n) \<longleftrightarrow> m \<le> n"
| "less_eq_prerelease_id (NumId m) (TextId t) \<longleftrightarrow> True"
| "less_eq_prerelease_id (TextId s) (NumId n) \<longleftrightarrow> False"
| "less_eq_prerelease_id (TextId s) (TextId t) \<longleftrightarrow> s \<le> t"

definition less_prerelease_id :: "prerelease_id \<Rightarrow> prerelease_id \<Rightarrow> bool" where
  "less_prerelease_id x y \<longleftrightarrow> x \<le> y \<and> \<not> y \<le> x"

instance
proof
  fix x y z :: prerelease_id
  show "x \<le> x" by (cases x) simp_all
  show "x \<le> y \<Longrightarrow> y \<le> z \<Longrightarrow> x \<le> z" by (cases x; cases y; cases z) auto
  show "x \<le> y \<Longrightarrow> y \<le> x \<Longrightarrow> x = y" by (cases x; cases y) auto
  show "x \<le> y \<or> y \<le> x" by (cases x; cases y) auto
qed (simp add: less_prerelease_id_def)

end

definition prerelease_key :: "ustr \<Rightarrow> prerelease_id list" where
  "prerelease_key prerelease =
     map (\<lambda>item. if item \<noteq> [] \<and> list_all ascii_digit item
            then NumId (foldl (\<lambda>n c. 10 * n + (c - 48)) 0 item) else TextId item) (split_on 46 prerelease)"

type_synonym version_key = "nat \<times> nat \<times> nat \<times> nat \<times> prerelease_id list"

definition version_sort_key :: "unicode \<Rightarrow> ustr \<Rightarrow> AgentUpdateError + version_key" where
  "version_sort_key u raw =
     (case parse_version u raw of
        Inl e \<Rightarrow> Inl e
      | Inr (major, minor, patch, prerelease) \<Rightarrow>
          Inr (major, minor, patch, if prerelease \<noteq> [] then 0 else 1, prerelease_key prerelease))"

text \<open>\<open>(a > b) - (a < b)\<close>\<close>

definition cmp :: "'a::linorder \<Rightarrow> 'a \<Rightarrow> int" where
  "cmp a b = (if a > b then 1 else 0) - (if a < b then 1 else 0)"

definition compare_versions :: "unicode \<Rightarrow> ustr \<Rightarrow> ustr \<Rightarrow> AgentUpdateError + int" where
  "compare_versions u left right =
     (case version_sort_key u left of
        Inl e \<Rightarrow> Inl e
      | Inr a \<Rightarrow>
          (case version_sort_key u right of
             Inl e \<Rightarrow> Inl e
           | Inr b \<Rightarrow> Inr (cmp a b)))"

section \<open>The signed manifest\<close>

definition MANIFEST_VERSION :: int where "MANIFEST_VERSION = 1"

definition MANIFEST_SIGNING_CONTEXT :: ustr where
  "MANIFEST_SIGNING_CONTEXT = ustr ''nodelink-agent-update-manifest:v1:''"

definition format_time :: "instant \<Rightarrow> ustr" where
  "format_time now = (let t = civil_of_instant now in
     pad4 (c_year t) @ [45] @ pad2 (c_month t) @ [45] @ pad2 (c_day t) @ [84]
       @ pad2 (c_hour t) @ [58] @ pad2 (c_minute t) @ [58] @ pad2 (c_second t) @ [90])"

record ReleaseMetadata =
  rm_release_id :: string
  rm_version :: ustr
  rm_channel :: ustr
  rm_platform :: ustr
  rm_artifact_url :: ustr
  rm_artifact_sha256 :: ustr
  rm_artifact_size_bytes :: int
  rm_min_supported_version :: ustr
  rm_signer_thumbprint :: "ustr option"
  rm_health_timeout_seconds :: int

definition thumbprint_field :: "ustr option \<Rightarrow> (ustr \<times> json) list" where
  "thumbprint_field t = (case t of None \<Rightarrow> [] | Some s \<Rightarrow> if s = [] then [] else [(ustr ''signer_thumbprint'', JStr s)])"

definition artifact_object :: "ReleaseMetadata \<Rightarrow> json" where
  "artifact_object m = JObj [(ustr ''url'', JStr (rm_artifact_url m)),
     (ustr ''sha256'', JStr (rm_artifact_sha256 m)), (ustr ''size_bytes'', JInt (rm_artifact_size_bytes m))]"

definition build_manifest :: "ReleaseMetadata \<Rightarrow> instant \<Rightarrow> json" where
  "build_manifest m published_at = JObj
     ([(ustr ''manifest_version'', JInt MANIFEST_VERSION), (ustr ''release_id'', jstr (rm_release_id m)),
       (ustr ''version'', JStr (rm_version m)), (ustr ''channel'', JStr (rm_channel m)),
       (ustr ''platform'', JStr (rm_platform m)), (ustr ''artifact'', artifact_object m),
       (ustr ''min_supported_version'', JStr (rm_min_supported_version m)),
       (ustr ''health_timeout_seconds'', JInt (rm_health_timeout_seconds m)),
       (ustr ''published_at'', JStr (format_time published_at))]
      @ thumbprint_field (rm_signer_thumbprint m))"

text \<open>A text with a lone surrogate does not encode (\<open>UnicodeEncodeError\<close>).\<close>

definition canonical_manifest_bytes :: "json \<Rightarrow> nat list option" where
  "canonical_manifest_bytes manifest =
     map_option (\<lambda>encoded. MANIFEST_SIGNING_CONTEXT @ encoded) (encode_utf8 (dumps esc_plain manifest))"

record SignedManifest =
  sm_manifest :: json
  sm_manifest_sha256 :: string
  sm_signature :: string
  sm_signing_key_id :: ustr

definition sign_manifest :: "(nat list \<Rightarrow> string) \<Rightarrow> signing_key option \<Rightarrow> json \<Rightarrow> SignedManifest option" where
  "sign_manifest sha256hex active manifest =
     (case (active, canonical_manifest_bytes manifest) of
        (Some k, Some payload) \<Rightarrow>
          Some \<lparr>sm_manifest = manifest, sm_manifest_sha256 = sha256hex payload,
            sm_signature = sign k payload, sm_signing_key_id = key_id k\<rparr>
      | _ \<Rightarrow> None)"

fun jfield :: "json \<Rightarrow> ustr \<Rightarrow> json option" where
  "jfield (JObj kvs) k = map_of kvs k"
| "jfield _ k = None"

text \<open>A strict subset of the manifest; a missing key is a \<open>KeyError\<close>.\<close>

definition update_payload :: "json \<Rightarrow> json option" where
  "update_payload manifest =
     (case map (jfield manifest) [ustr ''release_id'', ustr ''version'', ustr ''channel'', ustr ''platform'',
         ustr ''artifact'', ustr ''min_supported_version'', ustr ''health_timeout_seconds''] of
        [Some i, Some v, Some c, Some p, Some a, Some m, Some h] \<Rightarrow>
          Some (JObj ([(ustr ''release_id'', i), (ustr ''version'', v), (ustr ''channel'', c),
             (ustr ''platform'', p), (ustr ''artifact'', a), (ustr ''min_supported_version'', m),
             (ustr ''health_check'', JObj [(ustr ''timeout_seconds'', h)])]
            @ (case jfield manifest (ustr ''signer_thumbprint'') of
                 Some (JStr s) \<Rightarrow> thumbprint_field (Some s) | _ \<Rightarrow> [])))
      | _ \<Rightarrow> None)"

section \<open>Targeting\<close>

definition CHANNELS :: "ustr list" where "CHANNELS = [ustr ''stable'', ustr ''beta'', ustr ''canary'']"

definition DEFAULT_CHANNEL :: ustr where "DEFAULT_CHANNEL = ustr ''stable''"

definition SELF_UPDATE_CAPABILITY :: string where "SELF_UPDATE_CAPABILITY = ''agent-self-update-v1''"

definition platform_part :: "ustr \<Rightarrow> bool" where
  "platform_part p \<longleftrightarrow> 1 \<le> length p \<and> length p \<le> 16 \<and> list_all (\<lambda>c. ascii_digit c \<or> (97 \<le> c \<and> c \<le> 122)) p"

definition platform_ok :: "ustr \<Rightarrow> bool" where
  "platform_ok s \<longleftrightarrow> (case split_on 47 s of [a, b] \<Rightarrow> platform_part a \<and> platform_part b | _ \<Rightarrow> False)"

text \<open>Identifiers are ASCII, so the text of the pair is its own encoding.\<close>

definition rollout_bucket :: "(nat list \<Rightarrow> nat list) \<Rightarrow> string \<Rightarrow> string \<Rightarrow> nat" where
  "rollout_bucket digest release_id agent_id =
     foldl (\<lambda>n b. 256 * n + b) 0 (take 4 (digest (ustr (release_id @ '':'' @ agent_id)))) mod 100"

definition agent_platform :: "unicode \<Rightarrow> Agent \<Rightarrow> ustr option" where
  "agent_platform u agent =
     (let os_name = lower u (strip (ag_os agent)); architecture = lower u (strip (ag_architecture agent)) in
      if os_name = [] \<or> architecture = [] then None
      else let candidate = os_name @ [47] @ architecture in
        if platform_ok candidate then Some candidate else None)"

definition agent_channel :: "unicode \<Rightarrow> Agent \<Rightarrow> ustr" where
  "agent_channel u agent =
     (let channel = lower u (strip (case update_channel agent of None \<Rightarrow> [] | Some c \<Rightarrow> c)) in
      if channel \<in> set CHANNELS then channel else DEFAULT_CHANNEL)"

text \<open>The three comparisons against the anti-rollback rule; \<open>None\<close> lets the endpoint through.\<close>

definition version_refusal :: "unicode \<Rightarrow> ustr \<Rightarrow> ustr \<Rightarrow> ustr \<Rightarrow> string option" where
  "version_refusal u current release_version min_supported =
     (case compare_versions u current release_version of
        Inl _ \<Rightarrow> Some ''agent_version_uncomparable''
      | Inr c \<Rightarrow>
          if c = 0 then Some ''already_current''
          else if c > 0 then Some ''downgrade_refused''
          else (case compare_versions u release_version min_supported of
                  Inl _ \<Rightarrow> Some ''agent_version_uncomparable''
                | Inr d \<Rightarrow> if d < 0 then Some ''below_min_supported_version'' else None))"

record EligibilityDecision =
  ed_eligible :: bool
  ed_reason :: string

definition evaluate_eligibility ::
  "(nat list \<Rightarrow> nat list) \<Rightarrow> unicode \<Rightarrow> Agent \<Rightarrow> ustr \<Rightarrow> ustr \<Rightarrow> ustr \<Rightarrow> ustr \<Rightarrow> int \<Rightarrow> string \<Rightarrow> bool \<Rightarrow>
   EligibilityDecision" where
  "evaluate_eligibility digest u agent release_version release_channel release_platform min_supported
     rollout_percent release_id trust_active =
     (let refuse = (\<lambda>r. \<lparr>ed_eligible = False, ed_reason = r\<rparr>) in
      if \<not> trust_active then refuse ''agent_not_trusted''
      else if SELF_UPDATE_CAPABILITY \<notin> set (case supported_capabilities agent of None \<Rightarrow> [] | Some l \<Rightarrow> l)
      then refuse ''capability_unsupported''
      else case agent_platform u agent of
          None \<Rightarrow> refuse ''platform_unknown''
        | Some platform \<Rightarrow>
            if platform \<noteq> release_platform then refuse ''platform_mismatch''
            else if agent_channel u agent \<noteq> release_channel then refuse ''channel_mismatch''
            else let current = strip (agent_version agent) in
              if current = [] then refuse ''agent_version_unknown''
              else (case version_refusal u current release_version min_supported of
                      Some r \<Rightarrow> refuse r
                    | None \<Rightarrow>
                        if int (rollout_bucket digest release_id (ag_id agent)) \<ge> rollout_percent
                        then refuse ''outside_rollout_stage''
                        else \<lparr>ed_eligible = True, ed_reason = ''eligible''\<rparr>))"

section \<open>The canary halt\<close>

record HaltDecision =
  hd_halt :: bool
  hd_reason :: string
  hd_resolved :: int
  hd_failed :: int
  hd_succeeded :: int

definition evaluate_halt :: "(string \<Rightarrow> int) \<Rightarrow> int \<Rightarrow> int \<Rightarrow> HaltDecision" where
  "evaluate_halt counts threshold min_attempts =
     (let succeeded = counts ''succeeded''; failed = counts ''rolled_back'' + counts ''failed'';
          resolved = succeeded + failed;
          out = (\<lambda>h r. \<lparr>hd_halt = h, hd_reason = r, hd_resolved = resolved, hd_failed = failed, hd_succeeded = succeeded\<rparr>)
      in if resolved < min_attempts then out False ''insufficient_evidence''
         else if failed * 100 \<ge> threshold * resolved then out True ''failure_threshold_exceeded''
         else out False ''within_threshold'')"

end
