(* ===== verification/Update_Rollout.thy ===== *)
theory Update_Rollout
  imports Agent_Updates Approval_Api
begin

text \<open>
  The endpoints of staged agent updates (\<open>server/app/api/agent_updates.py\<close>): publication, the
  staged rollout, pause, resume and halt, and the report of an endpoint. The metadata columns
  of a release are one record. Identifiers and nonces that a call draws are an argument
  \<open>fresh\<close>; an exception that no handler catches is a 500 and rolls the transaction back.
\<close>

section \<open>Rows\<close>

datatype AgentUpdateReleaseState =
  Release_published | Release_rolling | Release_paused | Release_halted | Release_completed

fun release_state_value :: "AgentUpdateReleaseState \<Rightarrow> string" where
  "release_state_value Release_published = ''published''"
| "release_state_value Release_rolling = ''rolling''"
| "release_state_value Release_paused = ''paused''"
| "release_state_value Release_halted = ''halted''"
| "release_state_value Release_completed = ''completed''"

datatype AgentUpdateAttemptStatus =
  Attempt_dispatched | Attempt_staged | Attempt_succeeded | Attempt_rolled_back | Attempt_failed

fun attempt_status_value :: "AgentUpdateAttemptStatus \<Rightarrow> string" where
  "attempt_status_value Attempt_dispatched = ''dispatched''"
| "attempt_status_value Attempt_staged = ''staged''"
| "attempt_status_value Attempt_succeeded = ''succeeded''"
| "attempt_status_value Attempt_rolled_back = ''rolled_back''"
| "attempt_status_value Attempt_failed = ''failed''"

record AgentUpdateRelease =
  rl_meta :: ReleaseMetadata
  rl_manifest :: json
  rl_manifest_sha256 :: string
  rl_signature :: string
  rl_signing_key_id :: ustr
  rl_state :: AgentUpdateReleaseState
  rl_rollout_percent :: int
  rl_failure_threshold_percent :: int
  rl_min_attempts_before_halt :: int
  rl_created_by_email :: "string option"
  rl_created_at :: instant
  rl_updated_at :: instant
  rl_halted_at :: "instant option"
  rl_halted_reason :: "string option"

abbreviation rl_id :: "AgentUpdateRelease \<Rightarrow> string" where
  "rl_id r \<equiv> rm_release_id (rl_meta r)"

record AgentUpdateAttempt =
  at_id :: string
  at_release_id :: string
  at_agent_id :: string
  at_command_id :: "string option"
  at_status :: AgentUpdateAttemptStatus
  at_from_version :: "ustr option"
  at_to_version :: "ustr option"
  at_observed_version :: "ustr option"
  at_reason :: "ustr option"
  at_health_attempts :: "int option"
  at_rollout_bucket :: nat
  at_dispatched_at :: instant
  at_reported_at :: "instant option"

record update_state =
  up_store :: store
  up_releases :: "AgentUpdateRelease rows"
  up_attempts :: "AgentUpdateAttempt rows"

definition update_audit :: "string \<Rightarrow> string \<Rightarrow> string option \<Rightarrow> json \<Rightarrow> store \<Rightarrow> store" where
  "update_audit action actor agent_id detail s = audit_record action actor None agent_id None detail s"

definition status_counts :: "AgentUpdateAttempt rows \<Rightarrow> string \<Rightarrow> string \<Rightarrow> int" where
  "status_counts attempts release_id status =
     int (length (filter (\<lambda>a. at_release_id a = release_id \<and> attempt_status_value (at_status a) = status) attempts))"

definition load_release :: "update_state \<Rightarrow> string \<Rightarrow> AgentUpdateRelease http" where
  "load_release st release_id =
     (case db_get rl_id (up_releases st) release_id of
        None \<Rightarrow> Inl (HTTPException 404 ''agent_update_release_not_found'')
      | Some r \<Rightarrow> Inr r)"

definition put_release :: "AgentUpdateRelease \<Rightarrow> AgentUpdateRelease rows \<Rightarrow> AgentUpdateRelease rows" where
  "put_release r = db_update (\<lambda>q. rl_id q = rl_id r) (\<lambda>_. r)"

section \<open>Publication\<close>

record AgentUpdateReleaseCreate =
  rb_meta :: ReleaseMetadata
  rb_failure_threshold_percent :: int
  rb_min_attempts_before_halt :: int

text \<open>The validators of the request body.\<close>

definition release_body_ok :: "unicode \<Rightarrow> AgentUpdateReleaseCreate \<Rightarrow> bool" where
  "release_body_ok u body =
     (let m = rb_meta body in
      is_ok (parse_version u (rm_version m)) \<and> is_ok (parse_version u (rm_min_supported_version m)) \<and>
      length (rm_version m) \<le> 64 \<and> length (rm_min_supported_version m) \<le> 64 \<and>
      rm_channel m \<in> set CHANNELS \<and> platform_ok (rm_platform m) \<and>
      take 8 (rm_artifact_url m) = ustr ''https://'' \<and> 9 \<le> length (rm_artifact_url m) \<and>
      length (rm_artifact_url m) \<le> 2048 \<and> list_all (\<lambda>c. 32 \<le> c \<and> c \<noteq> 127) (rm_artifact_url m) \<and>
      length (rm_artifact_sha256 m) = 64 \<and> list_all (\<lambda>c. ascii_digit c \<or> (97 \<le> c \<and> c \<le> 102)) (rm_artifact_sha256 m) \<and>
      pred_option (\<lambda>t. length t = 40 \<and> list_all (\<lambda>c. ascii_digit c \<or> (65 \<le> c \<and> c \<le> 70) \<or> (97 \<le> c \<and> c \<le> 102)) t)
        (rm_signer_thumbprint m) \<and>
      1 \<le> rm_artifact_size_bytes m \<and> rm_artifact_size_bytes m \<le> 256 * 1024 * 1024 \<and>
      1 \<le> rb_failure_threshold_percent body \<and> rb_failure_threshold_percent body \<le> 100 \<and>
      1 \<le> rb_min_attempts_before_halt body \<and> rb_min_attempts_before_halt body \<le> 10000 \<and>
      60 \<le> rm_health_timeout_seconds m \<and> rm_health_timeout_seconds m \<le> 3600)"

definition published_detail :: "(nat list \<Rightarrow> string) \<Rightarrow> AgentUpdateRelease \<Rightarrow> json" where
  "published_detail sha256hex r = (let m = rl_meta r in JObj
     [(ustr ''release_id'', jstr (rl_id r)), (ustr ''version'', JStr (rm_version m)),
      (ustr ''channel'', JStr (rm_channel m)), (ustr ''platform'', JStr (rm_platform m)),
      (ustr ''artifact_sha256'', JStr (rm_artifact_sha256 m)),
      (ustr ''artifact_size_bytes'', JInt (rm_artifact_size_bytes m)),
      (ustr ''artifact_url_sha256'', jopt (\<lambda>b. jstr (sha256hex b)) (encode_utf8 (rm_artifact_url m))),
      (ustr ''min_supported_version'', JStr (rm_min_supported_version m)),
      (ustr ''signer_pinned'', JBool (thumbprint_field (rm_signer_thumbprint m) \<noteq> [])),
      (ustr ''manifest_sha256'', jstr (rl_manifest_sha256 r)), (ustr ''signing_key_id'', JStr (rl_signing_key_id r)),
      (ustr ''failure_threshold_percent'', JInt (rl_failure_threshold_percent r)),
      (ustr ''min_attempts_before_halt'', JInt (rl_min_attempts_before_halt r))])"

definition new_release ::
  "AgentUpdateReleaseCreate \<Rightarrow> ReleaseMetadata \<Rightarrow> SignedManifest \<Rightarrow> Operator \<Rightarrow> instant \<Rightarrow> AgentUpdateRelease" where
  "new_release body m signed oper now =
     \<lparr>rl_meta = m, rl_manifest = sm_manifest signed, rl_manifest_sha256 = sm_manifest_sha256 signed,
      rl_signature = sm_signature signed, rl_signing_key_id = sm_signing_key_id signed,
      rl_state = Release_published, rl_rollout_percent = 0,
      rl_failure_threshold_percent = rb_failure_threshold_percent body,
      rl_min_attempts_before_halt = rb_min_attempts_before_halt body,
      rl_created_by_email = Some (op_email oper), rl_created_at = now, rl_updated_at = now,
      rl_halted_at = None, rl_halted_reason = None\<rparr>"

definition publish_release ::
  "(nat list \<Rightarrow> string) \<Rightarrow> unicode \<Rightarrow> signing_key option \<Rightarrow> update_state \<Rightarrow> AgentUpdateReleaseCreate \<Rightarrow> Operator \<Rightarrow>
   instant \<Rightarrow> string \<Rightarrow> update_state \<times> AgentUpdateRelease http" where
  "publish_release sha256hex u active st body oper now new_id =
     (case require_role OperatorRole_admin oper of
        Inl e \<Rightarrow> (st, Inl e)
      | Inr _ \<Rightarrow>
        let m = (rb_meta body)\<lparr>rm_release_id := new_id\<rparr> in
        if \<not> release_body_ok u body then (st, Inl (HTTPException 422 ''validation_error''))
        else if (case compare_versions u (rm_version m) (rm_min_supported_version m) of Inl _ \<Rightarrow> True | Inr c \<Rightarrow> c < 0)
        then (st, Inl (HTTPException 400 ''min_supported_version_above_release''))
        else if (\<exists>r \<in> set (up_releases st). rm_version (rl_meta r) = rm_version m \<and>
            rm_channel (rl_meta r) = rm_channel m \<and> rm_platform (rl_meta r) = rm_platform m)
        then (st, Inl (HTTPException 409 ''agent_update_release_exists''))
        else case sign_manifest sha256hex active (build_manifest m now) of
            None \<Rightarrow> (st, Inl (HTTPException 503 ''agent_update_signing_unavailable''))
          | Some signed \<Rightarrow>
              let r = new_release body m signed oper now in
              (st\<lparr>up_releases := up_releases st @ [r],
                  up_store := update_audit ''agent_update.release_published'' (op_email oper) None
                    (published_detail sha256hex r) (up_store st)\<rparr>, Inr r))"

section \<open>Halting\<close>

definition halt_row :: "string \<Rightarrow> instant \<Rightarrow> AgentUpdateRelease \<Rightarrow> AgentUpdateRelease" where
  "halt_row reason now r =
     r\<lparr>rl_state := Release_halted, rl_halted_at := Some now, rl_halted_reason := Some reason, rl_updated_at := now\<rparr>"

definition halt_detail :: "AgentUpdateRelease \<Rightarrow> string \<Rightarrow> json" where
  "halt_detail r reason = JObj
     [(ustr ''release_id'', jstr (rl_id r)), (ustr ''version'', JStr (rm_version (rl_meta r))),
      (ustr ''channel'', JStr (rm_channel (rl_meta r))), (ustr ''reason'', jstr reason),
      (ustr ''rollout_percent'', JInt (rl_rollout_percent r))]"

definition halt_write :: "update_state \<Rightarrow> AgentUpdateRelease \<Rightarrow> string \<Rightarrow> string \<Rightarrow> instant \<Rightarrow> update_state" where
  "halt_write st r reason actor now =
     st\<lparr>up_releases := put_release (halt_row reason now r) (up_releases st),
        up_store := update_audit ''agent_update.rollout_halted'' actor None (halt_detail r reason) (up_store st)\<rparr>"

definition halt_decision :: "update_state \<Rightarrow> AgentUpdateRelease \<Rightarrow> HaltDecision" where
  "halt_decision st r = evaluate_halt (status_counts (up_attempts st) (rl_id r))
     (rl_failure_threshold_percent r) (rl_min_attempts_before_halt r)"

definition halt_release ::
  "update_state \<Rightarrow> string \<Rightarrow> string \<Rightarrow> Operator \<Rightarrow> instant \<Rightarrow> update_state \<times> AgentUpdateRelease http" where
  "halt_release st release_id reason oper now =
     (case require_role OperatorRole_admin oper of
        Inl e \<Rightarrow> (st, Inl e)
      | Inr _ \<Rightarrow>
     (case load_release st release_id of
        Inl e \<Rightarrow> (st, Inl e)
      | Inr r \<Rightarrow>
        if rl_state r = Release_halted then (st, Inr r)
        else let st' = halt_write st r ''operator_halted'' (op_email oper) now in
          (st'\<lparr>up_store := update_audit ''agent_update.halt_reason_recorded'' (op_email oper) None
              (JObj [(ustr ''release_id'', jstr (rl_id r)), (ustr ''reason'', jstr reason)]) (up_store st')\<rparr>,
           Inr (halt_row ''operator_halted'' now r))))"

definition percent_detail :: "AgentUpdateRelease \<Rightarrow> json" where
  "percent_detail r = JObj [(ustr ''release_id'', jstr (rl_id r)), (ustr ''rollout_percent'', JInt (rl_rollout_percent r))]"

definition pause_release ::
  "update_state \<Rightarrow> string \<Rightarrow> Operator \<Rightarrow> instant \<Rightarrow> update_state \<times> AgentUpdateRelease http" where
  "pause_release st release_id oper now =
     (case require_role OperatorRole_admin oper of
        Inl e \<Rightarrow> (st, Inl e)
      | Inr _ \<Rightarrow>
     (case load_release st release_id of
        Inl e \<Rightarrow> (st, Inl e)
      | Inr r \<Rightarrow>
        if rl_state r = Release_halted then (st, Inl (HTTPException 409 ''agent_update_release_halted''))
        else let r' = r\<lparr>rl_state := Release_paused, rl_updated_at := now\<rparr> in
          (st\<lparr>up_releases := put_release r' (up_releases st),
              up_store := update_audit ''agent_update.rollout_paused'' (op_email oper) None (percent_detail r') (up_store st)\<rparr>,
           Inr r')))"

definition resume_release ::
  "update_state \<Rightarrow> string \<Rightarrow> Operator \<Rightarrow> instant \<Rightarrow> update_state \<times> AgentUpdateRelease http" where
  "resume_release st release_id oper now =
     (case require_role OperatorRole_admin oper of
        Inl e \<Rightarrow> (st, Inl e)
      | Inr _ \<Rightarrow>
     (case load_release st release_id of
        Inl e \<Rightarrow> (st, Inl e)
      | Inr r \<Rightarrow>
        if rl_state r = Release_halted then (st, Inl (HTTPException 409 ''agent_update_release_halted''))
        else if rl_state r \<noteq> Release_paused then (st, Inl (HTTPException 409 ''agent_update_release_not_paused''))
        else if hd_halt (halt_decision st r)
        then (halt_write st r (hd_reason (halt_decision st r)) ''system'' now,
              Inl (HTTPException 409 ''agent_update_release_halted''))
        else let r' = r\<lparr>rl_state := if rl_rollout_percent r > 0 then Release_rolling else Release_published,
                         rl_updated_at := now\<rparr> in
          (st\<lparr>up_releases := put_release r' (up_releases st),
              up_store := update_audit ''agent_update.rollout_resumed'' (op_email oper) None (percent_detail r') (up_store st)\<rparr>,
           Inr r')))"

section \<open>The staged rollout\<close>

definition UPDATE_COMMAND_TTL :: int where "UPDATE_COMMAND_TTL = seconds (6 * 3600)"

definition update_command ::
  "AgentUpdateRelease \<Rightarrow> Agent \<Rightarrow> json \<Rightarrow> string \<Rightarrow> instant \<Rightarrow> Command" where
  "update_command r agent payload cid now =
     \<lparr>co_id = cid, co_agent_id = ag_id agent, co_kind = agent_self_update, co_payload = payload,
      co_status = Cmd_queued, co_created_at = now, co_expires_at = now + UPDATE_COMMAND_TTL,
      co_actor_email = rl_created_by_email r, co_actor_operator_id = None, co_script_version_id = None,
      co_approval_request_id = None, co_emergency_override_id = None\<rparr>"

definition dispatched_detail :: "(nat list \<Rightarrow> nat list) \<Rightarrow> AgentUpdateRelease \<Rightarrow> Agent \<Rightarrow> string \<Rightarrow> json" where
  "dispatched_detail digest r agent cid = JObj
     [(ustr ''release_id'', jstr (rl_id r)), (ustr ''command_id'', jstr cid),
      (ustr ''version'', JStr (rm_version (rl_meta r))), (ustr ''channel'', JStr (rm_channel (rl_meta r))),
      (ustr ''from_version'', JStr (agent_version agent)),
      (ustr ''artifact_sha256'', JStr (rm_artifact_sha256 (rl_meta r))),
      (ustr ''rollout_bucket'', JInt (int (rollout_bucket digest (rl_id r) (ag_id agent))))]"

text \<open>\<open>_dispatch_update_command\<close>; \<open>None\<close> when the payload, the key or the signature fails.\<close>

definition dispatch_update_command ::
  "(nat list \<Rightarrow> nat list) \<Rightarrow> signing_key option \<Rightarrow> store \<Rightarrow> AgentUpdateRelease \<Rightarrow> Agent \<Rightarrow> string \<Rightarrow> ustr \<Rightarrow> instant \<Rightarrow>
   store option" where
  "dispatch_update_command digest active s r agent cid nonce now =
     (case (update_payload (rl_manifest r), active) of
        (Some payload, Some key) \<Rightarrow>
          (case sign_command active COMMAND_ENVELOPE_V3 COMMAND_SCHEMA_VERSION (ustr cid) (ustr (ag_id agent))
              (ustr (kind_value agent_self_update)) payload (format_command_time (civil_of_instant now))
              (format_command_time (civil_of_instant (now + UPDATE_COMMAND_TTL))) nonce (Some (key_id key)) of
             None \<Rightarrow> None
           | Some _ \<Rightarrow>
               Some (update_audit ''agent_update.dispatched'' ''system'' (Some (ag_id agent))
                 (dispatched_detail digest r agent cid)
                 (s\<lparr>st_commands := st_commands s @ [update_command r agent payload cid now]\<rparr>)))
      | _ \<Rightarrow> None)"

definition new_attempt ::
  "(nat list \<Rightarrow> nat list) \<Rightarrow> AgentUpdateRelease \<Rightarrow> Agent \<Rightarrow> string \<Rightarrow> string \<Rightarrow> instant \<Rightarrow> AgentUpdateAttempt" where
  "new_attempt digest r agent aid cid now =
     \<lparr>at_id = aid, at_release_id = rl_id r, at_agent_id = ag_id agent, at_command_id = Some cid,
      at_status = Attempt_dispatched, at_from_version = Some (agent_version agent),
      at_to_version = Some (rm_version (rl_meta r)), at_observed_version = None, at_reason = None,
      at_health_attempts = None, at_rollout_bucket = rollout_bucket digest (rl_id r) (ag_id agent),
      at_dispatched_at = now, at_reported_at = None\<rparr>"

record rollout =
  ro_store :: store
  ro_attempts :: "AgentUpdateAttempt list"
  ro_skipped :: "string list"
  ro_dispatched :: nat
  ro_truncated :: bool

definition release_eligibility ::
  "(nat list \<Rightarrow> nat list) \<Rightarrow> unicode \<Rightarrow> AgentUpdateRelease \<Rightarrow> Agent \<Rightarrow> EligibilityDecision" where
  "release_eligibility digest u r agent =
     evaluate_eligibility digest u agent (rm_version (rl_meta r)) (rm_channel (rl_meta r)) (rm_platform (rl_meta r))
       (rm_min_supported_version (rl_meta r)) (rl_rollout_percent r) (rl_id r) (trust_state agent = Trust_active)"

definition refused_detail :: "AgentUpdateRelease \<Rightarrow> Agent \<Rightarrow> ApprovalPolicy \<Rightarrow> json" where
  "refused_detail r agent p = JObj
     [(ustr ''release_id'', jstr (rl_id r)), (ustr ''version'', JStr (rm_version (rl_meta r))),
      (ustr ''agent_id'', jstr (ag_id agent)), (ustr ''policy_id'', jstr (ap_id p)),
      (ustr ''required_approvals'', JInt (ap_required_approvals p))]"

text \<open>
  The loop over the candidates, with the endpoints that already have an attempt. The reasons
  of the endpoints passed over are kept in order; \<open>None\<close> is an exception.
\<close>

fun roll ::
  "(nat list \<Rightarrow> nat list) \<Rightarrow> unicode \<Rightarrow> signing_key option \<Rightarrow> (nat \<Rightarrow> string \<times> string \<times> ustr) \<Rightarrow> AgentUpdateRelease \<Rightarrow>
   string list \<Rightarrow> nat \<Rightarrow> instant \<Rightarrow> Agent list \<Rightarrow> rollout \<Rightarrow> rollout option" where
  "roll digest u active fresh r already max_dispatch now [] x = Some x"
| "roll digest u active fresh r already max_dispatch now (agent # agents) x =
     (let next = roll digest u active fresh r already max_dispatch now agents;
          skip = (\<lambda>reason x. next (x\<lparr>ro_skipped := ro_skipped x @ [reason]\<rparr>));
          d = release_eligibility digest u r agent in
      if ag_id agent \<in> set already then skip ''already_attempted'' x
      else if \<not> ed_eligible d then skip (ed_reason d) x
      else if select_command_envelope_version
          (map ustr (case command_envelope_versions agent of None \<Rightarrow> [] | Some l \<Rightarrow> l)) \<noteq> Some COMMAND_ENVELOPE_V3
      then skip ''envelope_unsupported'' x
      else case resolve_policy (st_db (ro_store x)) (st_policies (ro_store x)) agent agent_self_update of
          Some p \<Rightarrow> skip ''approval_required'' (x\<lparr>ro_store := update_audit ''agent_update.approval_refused'' ''system''
            (Some (ag_id agent)) (refused_detail r agent p) (ro_store x)\<rparr>)
        | None \<Rightarrow>
            if ro_dispatched x \<ge> max_dispatch then Some (x\<lparr>ro_truncated := True\<rparr>)
            else (case fresh (ro_dispatched x) of (cid, aid, nonce) \<Rightarrow>
              (case dispatch_update_command digest active (ro_store x) r agent cid nonce now of
                 None \<Rightarrow> None
               | Some s \<Rightarrow> next (x\<lparr>ro_store := s, ro_attempts := ro_attempts x @ [new_attempt digest r agent aid cid now],
                   ro_dispatched := ro_dispatched x + 1\<rparr>))))"

definition advance_refusal :: "AgentUpdateRelease \<Rightarrow> int \<Rightarrow> http_error option" where
  "advance_refusal r percent =
     (if rl_state r \<in> set [Release_paused, Release_halted]
      then Some (HTTPException 409 ''agent_update_release_not_active'')
      else if rl_state r = Release_completed then Some (HTTPException 409 ''agent_update_release_completed'')
      else if percent < rl_rollout_percent r then Some (HTTPException 409 ''agent_update_rollout_cannot_shrink'')
      else None)"

definition advanced_detail :: "AgentUpdateRelease \<Rightarrow> rollout \<Rightarrow> json" where
  "advanced_detail r x = JObj
     [(ustr ''release_id'', jstr (rl_id r)), (ustr ''version'', JStr (rm_version (rl_meta r))),
      (ustr ''channel'', JStr (rm_channel (rl_meta r))), (ustr ''rollout_percent'', JInt (rl_rollout_percent r)),
      (ustr ''dispatched'', JInt (int (ro_dispatched x))), (ustr ''truncated'', JBool (ro_truncated x))]"

definition advance_rollout ::
  "(nat list \<Rightarrow> nat list) \<Rightarrow> unicode \<Rightarrow> signing_key option \<Rightarrow> (nat \<Rightarrow> string \<times> string \<times> ustr) \<Rightarrow> update_state \<Rightarrow>
   string \<Rightarrow> int \<Rightarrow> nat \<Rightarrow> Operator \<Rightarrow> instant \<Rightarrow> update_state \<times> rollout http" where
  "advance_rollout digest u active fresh st release_id percent max_dispatch oper now =
     (case require_role OperatorRole_admin oper of
        Inl e \<Rightarrow> (st, Inl e)
      | Inr _ \<Rightarrow>
        if \<not> (1 \<le> percent \<and> percent \<le> 100 \<and> 1 \<le> max_dispatch \<and> max_dispatch \<le> 1000)
        then (st, Inl (HTTPException 422 ''validation_error''))
        else
     (case load_release st release_id of
        Inl e \<Rightarrow> (st, Inl e)
      | Inr r \<Rightarrow>
     (case advance_refusal r percent of
        Some e \<Rightarrow> (st, Inl e)
      | None \<Rightarrow>
        if hd_halt (halt_decision st r)
        then (halt_write st r (hd_reason (halt_decision st r)) ''system'' now,
              Inl (HTTPException 409 ''agent_update_release_halted''))
        else
          let r' = r\<lparr>rl_rollout_percent := percent, rl_state := Release_rolling, rl_updated_at := now\<rparr>;
              already = map at_agent_id (filter (\<lambda>a. at_release_id a = rl_id r) (up_attempts st));
              candidates = filter (\<lambda>a. revoked_at a = None) (st_agents (up_store st))
          in case roll digest u active fresh r' already max_dispatch now candidates
                 \<lparr>ro_store = up_store st, ro_attempts = [], ro_skipped = [], ro_dispatched = 0, ro_truncated = False\<rparr> of
               None \<Rightarrow> (st, Inl (HTTPException 500 ''internal_error''))
             | Some x \<Rightarrow>
                 (st\<lparr>up_releases := put_release r' (up_releases st), up_attempts := up_attempts st @ ro_attempts x,
                     up_store := update_audit ''agent_update.rollout_advanced'' (op_email oper) None
                       (advanced_detail r' x) (ro_store x)\<rparr>, Inr x))))"

section \<open>The report of an endpoint\<close>

record SelfUpdateReportIn =
  sr_release_id :: "string option"
  sr_command_id :: "string option"
  sr_status :: AgentUpdateAttemptStatus
  sr_from_version :: "ustr option"
  sr_to_version :: "ustr option"
  sr_observed_version :: "ustr option"
  sr_reason :: "ustr option"
  sr_attempts :: int

definition report_body_ok :: "SelfUpdateReportIn \<Rightarrow> bool" where
  "report_body_ok body \<longleftrightarrow>
     sr_status body \<in> set [Attempt_succeeded, Attempt_rolled_back, Attempt_failed] \<and>
     list_all (pred_option (\<lambda>s. length s \<le> 64)) [sr_release_id body, sr_command_id body] \<and>
     list_all (pred_option (\<lambda>s. length s \<le> 64)) [sr_from_version body, sr_to_version body, sr_observed_version body] \<and>
     pred_option (\<lambda>r. 1 \<le> length r \<and> length r \<le> 100 \<and>
       list_all (\<lambda>c. ascii_digit c \<or> (97 \<le> c \<and> c \<le> 122) \<or> c = 95 \<or> c = 43) r) (sr_reason body) \<and>
     0 \<le> sr_attempts body \<and> sr_attempts body \<le> 100"

fun truthy :: "'a list option \<Rightarrow> 'a list option" where
  "truthy None = None"
| "truthy (Some t) = (if t = [] then None else Some t)"

definition report_row :: "SelfUpdateReportIn \<Rightarrow> instant \<Rightarrow> AgentUpdateAttempt \<Rightarrow> AgentUpdateAttempt" where
  "report_row body now a =
     a\<lparr>at_status := sr_status body,
       at_from_version := (case truthy (sr_from_version body) of None \<Rightarrow> at_from_version a | v \<Rightarrow> v),
       at_to_version := (case truthy (sr_to_version body) of None \<Rightarrow> at_to_version a | v \<Rightarrow> v),
       at_observed_version := sr_observed_version body, at_reason := sr_reason body,
       at_health_attempts := Some (sr_attempts body), at_reported_at := Some now\<rparr>"

definition or_empty :: "ustr option \<Rightarrow> json" where
  "or_empty t = JStr (case t of None \<Rightarrow> [] | Some s \<Rightarrow> s)"

definition report_detail :: "SelfUpdateReportIn \<Rightarrow> bool \<Rightarrow> json" where
  "report_detail body recorded = JObj
     [(ustr ''release_id'', or_empty (map_option ustr (sr_release_id body))),
      (ustr ''command_id'', or_empty (map_option ustr (sr_command_id body))),
      (ustr ''status'', jstr (attempt_status_value (sr_status body))), (ustr ''reason'', or_empty (sr_reason body)),
      (ustr ''from_version'', or_empty (sr_from_version body)), (ustr ''to_version'', or_empty (sr_to_version body)),
      (ustr ''observed_version'', or_empty (sr_observed_version body)),
      (ustr ''health_attempts'', JInt (sr_attempts body)), (ustr ''recorded'', JBool recorded)]"

definition note_version :: "ustr option \<Rightarrow> string \<Rightarrow> store \<Rightarrow> store" where
  "note_version observed agent_id s =
     (case truthy observed of
        None \<Rightarrow> s
      | Some v \<Rightarrow> s\<lparr>st_agents := db_update (\<lambda>a. ag_id a = agent_id) (\<lambda>a. a\<lparr>agent_version := v\<rparr>) (st_agents s)\<rparr>)"

text \<open>The halt rule after the flush, on the counts as they are now.\<close>

definition halt_if_condemned :: "update_state \<Rightarrow> string \<Rightarrow> instant \<Rightarrow> update_state" where
  "halt_if_condemned st release_id now =
     (case db_get rl_id (up_releases st) release_id of
        None \<Rightarrow> st
      | Some r \<Rightarrow>
          if hd_halt (halt_decision st r) \<and> rl_state r \<noteq> Release_halted
          then halt_write st r (hd_reason (halt_decision st r)) ''system'' now else st)"

definition report_self_update ::
  "update_state \<Rightarrow> SelfUpdateReportIn \<Rightarrow> Agent \<Rightarrow> instant \<Rightarrow> update_state \<times> bool http" where
  "report_self_update st body agent now =
     (if \<not> report_body_ok body
      then (st, Inl (HTTPException 422 ''validation_error''))
      else let s = note_version (sr_observed_version body) (ag_id agent) (up_store st);
          attempt = (case truthy (sr_release_id body) of
            None \<Rightarrow> None
          | Some rid \<Rightarrow> find (\<lambda>a. at_release_id a = rid \<and> at_agent_id a = ag_id agent) (up_attempts st));
          s' = update_audit ''agent_update.outcome_reported'' ''agent'' (Some (ag_id agent))
                 (report_detail body (attempt \<noteq> None)) s
      in case attempt of
           None \<Rightarrow> (st\<lparr>up_store := s'\<rparr>, Inr False)
         | Some a \<Rightarrow>
             (halt_if_condemned (st\<lparr>up_store := s',
                up_attempts := db_update (\<lambda>q. at_id q = at_id a) (report_row body now) (up_attempts st)\<rparr>)
                (at_release_id a) now, Inr True))"

end
