(* ===== verification/Update_Manifest.thy ===== *)
theory Update_Manifest
  imports Update_Rollout Command_Envelope_Correct
begin

text \<open>
  What the signature over an update manifest covers: the bytes determine the release, and they
  are never the bytes of a command, although one key signs both.
\<close>

section \<open>Rendering\<close>

lemma scalar_ascii [simp]: "c < 128 \<Longrightarrow> scalar c"
  by (simp add: scalar_def)

lemma esc_plain_scalar: "scalar c \<Longrightarrow> list_all scalar (esc_plain c)"
  by (auto simp: esc_plain_def short_escape_def scalar_def hex4_def hexdigit_def split: option.splits if_splits)

lemma quote_scalar: "list_all scalar s \<Longrightarrow> list_all scalar (quote esc_plain s)"
  using esc_plain_scalar by (induction s) (simp_all add: quote_def)

lemma join_commas_scalar: "(\<And>x. x \<in> set xs \<Longrightarrow> list_all scalar x) \<Longrightarrow> list_all scalar (join_commas xs)"
  by (induction xs rule: join_commas.induct) simp_all

lemma digits10_scalar: "list_all scalar (digits10 n)"
proof (induction n rule: digits10.induct)
  case (1 n)
  then show ?case by (subst digits10.simps) simp
qed

lemma number_char_scalar: "number_char c \<Longrightarrow> scalar c"
  by (auto simp: number_char_def scalar_def)

lemma render_wf_scalar: "json_wf j \<Longrightarrow> list_all scalar (render esc_plain j)"
proof (induction j)
  case (JInt i)
  then show ?case using digits10_scalar by (simp add: int_repr_def)
next
  case (JFloat r)
  then show ?case using number_char_scalar by (auto simp: float_repr_def list_all_iff)
next
  case (JArr xs)
  then have "list_all scalar (join_commas (map (render esc_plain) xs))"
    by (intro join_commas_scalar) (auto simp: list_all_iff)
  then show ?case by simp
next
  case (JObj kvs)
  have "list_all scalar (quote esc_plain (fst kv) @ 58 # render esc_plain (snd kv))" if kv: "kv \<in> set kvs" for kv
  proof -
    have "list_all scalar (fst kv)" "json_wf (snd kv)" using JObj.prems kv by (simp_all add: list_all_iff)
    moreover have "snd kv \<in> Basic_BNFs.snds kv" by (simp add: snds.simps)
    ultimately show ?thesis using JObj.IH [OF kv] quote_scalar by simp
  qed
  then have "list_all scalar (join_commas (map (\<lambda>kv. quote esc_plain (fst kv) @ 58 # render esc_plain (snd kv)) kvs))"
    by (intro join_commas_scalar) auto
  then show ?case by simp
qed (simp_all add: quote_scalar)

lemma encode_dumps: "json_wf j \<Longrightarrow> \<exists>b. encode_utf8 (dumps esc_plain j) = Some b"
  using render_wf_scalar [OF json_wf_normalise] by (simp add: encode_utf8_def dumps_def)

section \<open>The fields of a manifest\<close>

definition manifest_fields :: "ReleaseMetadata \<Rightarrow> instant \<Rightarrow> (ustr \<times> json) list" where
  "manifest_fields m t = (case build_manifest m t of JObj kvs \<Rightarrow> kvs | _ \<Rightarrow> [])"

lemma build_manifest_fields: "build_manifest m t = JObj (manifest_fields m t)"
  by (simp add: manifest_fields_def build_manifest_def)

lemma manifest_fields_mem:
  "(ustr ''release_id'', jstr (rm_release_id m)) \<in> set (manifest_fields m t)"
  "(ustr ''version'', JStr (rm_version m)) \<in> set (manifest_fields m t)"
  "(ustr ''channel'', JStr (rm_channel m)) \<in> set (manifest_fields m t)"
  "(ustr ''platform'', JStr (rm_platform m)) \<in> set (manifest_fields m t)"
  "(ustr ''artifact'', artifact_object m) \<in> set (manifest_fields m t)"
  "(ustr ''min_supported_version'', JStr (rm_min_supported_version m)) \<in> set (manifest_fields m t)"
  "(ustr ''health_timeout_seconds'', JInt (rm_health_timeout_seconds m)) \<in> set (manifest_fields m t)"
  "(ustr ''published_at'', JStr (format_time t)) \<in> set (manifest_fields m t)"
  "s \<noteq> [] \<Longrightarrow> rm_signer_thumbprint m = Some s \<Longrightarrow> (ustr ''signer_thumbprint'', JStr s) \<in> set (manifest_fields m t)"
  by (simp_all add: manifest_fields_def build_manifest_def thumbprint_field_def)

lemma manifest_keys: "keys_distinct (build_manifest m t)"
  by (cases "truthy (rm_signer_thumbprint m)")
    (auto simp: build_manifest_def thumbprint_field_def artifact_object_def jstr_def ustr_def split: option.split)

lemma manifest_int64:
  assumes "release_body_ok u body" "m = (rb_meta body)\<lparr>rm_release_id := i\<rparr>"
  shows "int64_values (build_manifest m t)"
  using assms by (simp add: release_body_ok_def build_manifest_def thumbprint_field_def artifact_object_def jstr_def
      MANIFEST_VERSION_def Let_def split: option.split)

lemma artifact_object_inj:
  "normalise (artifact_object m) = normalise (artifact_object m') \<Longrightarrow>
     rm_artifact_url m = rm_artifact_url m' \<and> rm_artifact_sha256 m = rm_artifact_sha256 m' \<and>
     rm_artifact_size_bytes m = rm_artifact_size_bytes m'"
  by (simp add: artifact_object_def ustr_def)

text \<open>An empty thumbprint is left out of the manifest, as a missing one is.\<close>

definition pinned_metadata :: "ReleaseMetadata \<Rightarrow> ReleaseMetadata" where
  "pinned_metadata m = m\<lparr>rm_signer_thumbprint := truthy (rm_signer_thumbprint m)\<rparr>"

lemma manifest_thumbprint:
  assumes "normalise (JObj (manifest_fields m t)) = normalise (JObj (manifest_fields m' t'))"
  shows "truthy (rm_signer_thumbprint m) = truthy (rm_signer_thumbprint m')"
proof -
  have d: "distinct (map fst (manifest_fields m' t'))"
    using manifest_keys [of m' t'] by (simp add: build_manifest_fields)
  have len: "length (manifest_fields m t) = length (manifest_fields m' t')"
    using arg_cong [OF normalise_JObj_mset [OF assms], of size] by simp
  have n: "length (manifest_fields x y) = 9 + (if truthy (rm_signer_thumbprint x) = None then 0 else 1)" for x y
    by (cases "rm_signer_thumbprint x") (simp_all add: manifest_fields_def build_manifest_def thumbprint_field_def)
  show ?thesis
  proof (cases "truthy (rm_signer_thumbprint m)")
    case None
    then show ?thesis using len n by (simp split: if_splits)
  next
    case (Some a)
    then obtain b where "truthy (rm_signer_thumbprint m') = Some b" using len n by (fastforce split: if_splits)
    then have ab: "a \<noteq> []" "rm_signer_thumbprint m = Some a" "b \<noteq> []" "rm_signer_thumbprint m' = Some b"
      using Some by (auto elim!: truthy.elims split: if_splits)
    from normalise_JObj_field [OF assms d manifest_fields_mem(9) [OF ab(1,2)] manifest_fields_mem(9) [OF ab(3,4)]]
    show ?thesis using ab by simp
  qed
qed

lemma build_manifest_inj:
  assumes "normalise (build_manifest m t) = normalise (build_manifest m' t')"
  shows "pinned_metadata m = pinned_metadata m' \<and> format_time t = format_time t'"
proof -
  have n: "normalise (JObj (manifest_fields m t)) = normalise (JObj (manifest_fields m' t'))"
    using assms by (simp only: build_manifest_fields)
  have d: "distinct (map fst (manifest_fields m' t'))"
    using manifest_keys [of m' t'] by (simp add: build_manifest_fields)
  note field = normalise_JObj_field [OF n d]
  have "rm_release_id m = rm_release_id m'"
    using field [OF manifest_fields_mem(1) manifest_fields_mem(1)] by (simp add: jstr_def ustr_inj)
  moreover have "rm_version m = rm_version m'" using field [OF manifest_fields_mem(2) manifest_fields_mem(2)] by simp
  moreover have "rm_channel m = rm_channel m'" using field [OF manifest_fields_mem(3) manifest_fields_mem(3)] by simp
  moreover have "rm_platform m = rm_platform m'" using field [OF manifest_fields_mem(4) manifest_fields_mem(4)] by simp
  moreover note artifact_object_inj [OF field [OF manifest_fields_mem(5) manifest_fields_mem(5)]]
  moreover have "rm_min_supported_version m = rm_min_supported_version m'"
    using field [OF manifest_fields_mem(6) manifest_fields_mem(6)] by simp
  moreover have "rm_health_timeout_seconds m = rm_health_timeout_seconds m'"
    using field [OF manifest_fields_mem(7) manifest_fields_mem(7)] by simp
  moreover note manifest_thumbprint [OF n]
  moreover have "format_time t = format_time t'" using field [OF manifest_fields_mem(8) manifest_fields_mem(8)] by simp
  ultimately show ?thesis by (cases m; cases m') (simp add: pinned_metadata_def)
qed

text \<open>
  The first byte tells the two documents apart: an opening brace for a command, the letter
  \<open>n\<close> of the signing context for a manifest.
\<close>

lemma command_bytes_head:
  assumes "canonical_command_bytes v sv c a k p i e n key = Inr b"
  shows "\<exists>r. b = 123 # r"
proof -
  note A = assms [unfolded canonical_command_bytes_Inr]
  have "\<exists>r. escape_separators (dumps esc_plain (envelope_document v 1 c a k p i e n key)) = 123 # r"
    unfolding envelope_document_fields by (simp add: dumps_def escape_separators_def)
  then show ?thesis using A by (auto simp: encode_utf8_def utf8_char_def simp del: escape_separators_append split: if_splits)
qed

text \<open>
  A manifest signature stands for one release. If two published releases have the same
  signed bytes, they agree in every field of their metadata and in the publication time of the
  manifest (an empty signer thumbprint counts as none). No command has these bytes, so a
  signature over the one is never a signature over the other.
\<close>

theorem manifest_bytes_bind:
  assumes "release_body_ok u body" "release_body_ok u body'"
    and "canonical_manifest_bytes (build_manifest ((rb_meta body)\<lparr>rm_release_id := i\<rparr>) t) = Some b"
    and "canonical_manifest_bytes (build_manifest ((rb_meta body')\<lparr>rm_release_id := i'\<rparr>) t') = Some b"
  shows "i = i' \<and> pinned_metadata (rb_meta body) = pinned_metadata ((rb_meta body')\<lparr>rm_release_id := rm_release_id (rb_meta body)\<rparr>) \<and>
    format_time t = format_time t' \<and> canonical_command_bytes v sv c a k p is e n key \<noteq> Inr b"
proof -
  let ?m = "build_manifest ((rb_meta body)\<lparr>rm_release_id := i\<rparr>) t"
  let ?m' = "build_manifest ((rb_meta body')\<lparr>rm_release_id := i'\<rparr>) t'"
  obtain d where d: "encode_utf8 (dumps esc_plain ?m) = Some d" "encode_utf8 (dumps esc_plain ?m') = Some d"
    "b = MANIFEST_SIGNING_CONTEXT @ d"
    using assms(3,4) by (auto simp: canonical_manifest_bytes_def)
  have wf: "json_wf (normalise x)" if "int64_values x" "keys_distinct x" "encode_utf8 (dumps esc_plain x) = Some d" for x
    using that encode_utf8_scalar [OF that(3)] by (intro render_scalar_wf) (simp_all add: dumps_def)
  have "normalise ?m = normalise ?m'"
    using plain.render_prefix [of "normalise ?m" "normalise ?m'" "[]" "[]"] encode_utf8_inj [OF d(1,2)]
      wf [OF manifest_int64 [OF assms(1) refl] manifest_keys d(1)]
      wf [OF manifest_int64 [OF assms(2) refl] manifest_keys d(2)]
    by (simp add: dumps_def)
  from build_manifest_inj [OF this] have "pinned_metadata ((rb_meta body)\<lparr>rm_release_id := i\<rparr>) =
      pinned_metadata ((rb_meta body')\<lparr>rm_release_id := i'\<rparr>)" "format_time t = format_time t'" by simp_all
  moreover have "canonical_command_bytes v sv c a k p is e n key \<noteq> Inr b"
    using command_bytes_head d(3) by (fastforce simp: MANIFEST_SIGNING_CONTEXT_def ustr_def)
  ultimately show ?thesis by (cases "rb_meta body"; cases "rb_meta body'") (simp add: pinned_metadata_def)
qed

section \<open>An example\<close>

definition u0 :: unicode where "u0 = \<lparr>nd_value = (\<lambda>_. None), lower = id, upper = id, casefold = id\<rparr>"

definition key0 :: signing_key where "key0 = \<lparr>key_id = ustr ''k1'', sign = (\<lambda>_. ''sig'')\<rparr>"

definition release_body0 :: AgentUpdateReleaseCreate where
  "release_body0 = \<lparr>rb_meta = \<lparr>rm_release_id = [], rm_version = ustr ''1.2.0'', rm_channel = ustr ''stable'',
     rm_platform = ustr ''linux/amd64'', rm_artifact_url = ustr ''https://x'', rm_artifact_sha256 = replicate 64 48,
     rm_artifact_size_bytes = 10, rm_min_supported_version = ustr ''1.0.0'', rm_signer_thumbprint = None,
     rm_health_timeout_seconds = 600\<rparr>, rb_failure_threshold_percent = 20, rb_min_attempts_before_halt = 5\<rparr>"

lemma list_all_replicate [simp]: "list_all P (replicate n x) \<longleftrightarrow> n = 0 \<or> P x"
  by (auto simp: list_all_iff)

lemma version_example:
  "parse_version u0 (ustr ''1.2.0'') = Inr (1, 2, 0, [])" "parse_version u0 (ustr ''1.0.0'') = Inr (1, 0, 0, [])"
  by (simp_all add: parse_version_def match_version_def component_def expect.simps prerelease_of_def is_digit_def
      digit_value_def ascii_digit_def to_int_def ustr_def u0_def Let_def)

lemma release_body0_ok: "release_body_ok u0 release_body0"
  using version_example by (simp add: release_body_ok_def release_body0_def CHANNELS_def platform_ok_def
      platform_part_def ascii_digit_def ustr_def Let_def)

lemma format_time_scalar: "list_all scalar (format_time t)"
  by (simp add: format_time_def pad4_def pad2_def Let_def)

lemma manifest0_bytes:
  "\<exists>b. canonical_manifest_bytes (build_manifest ((rb_meta release_body0)\<lparr>rm_release_id := ''r1''\<rparr>) 0) = Some b"
proof -
  have "json_wf (build_manifest ((rb_meta release_body0)\<lparr>rm_release_id := ''r1''\<rparr>) 0)"
    by (simp add: build_manifest_def release_body0_def artifact_object_def thumbprint_field_def jstr_def
        format_time_scalar) (simp add: ustr_def)
  from encode_dumps [OF this] show ?thesis by (auto simp: canonical_manifest_bytes_def)
qed

text \<open>The example release is published and signs some bytes, which no command has.\<close>

theorem manifest_bytes_bind_witness:
  "\<exists>b. canonical_manifest_bytes (build_manifest ((rb_meta release_body0)\<lparr>rm_release_id := ''r1''\<rparr>) 0) = Some b \<and>
     canonical_command_bytes COMMAND_ENVELOPE_V3 (Some 1) (ustr ''c'') (ustr ''a'') (ustr ''k'') JNull [] [] [] None \<noteq> Inr b"
  using manifest0_bytes manifest_bytes_bind [OF release_body0_ok release_body0_ok] by metis

end
