(* ===== verification/Update_Safety.thy ===== *)
theory Update_Safety
  imports Update_Manifest Fixtures "HOL-Library.Sublist"
begin

text \<open>
  What holds of staged agent updates: release versions are totally preordered with a
  prerelease before its release, an update never reaches an endpoint it should not, and a
  release whose failure rate condemns it is halted in every reachable state and stays so.
\<close>

section \<open>The order of versions\<close>

lemma cmp_order:
  "cmp a b \<in> {-1, 0, 1}" "cmp b a = - cmp a b" "cmp a b \<le> 0 \<longleftrightarrow> a \<le> b" "cmp a b = 0 \<longleftrightarrow> a = b" "cmp a b = -1 \<longleftrightarrow> a < b"
  by (auto simp: cmp_def not_le)

lemma compare_versions_Inr:
  "compare_versions u a b = Inr c \<longleftrightarrow>
     (\<exists>x y. version_sort_key u a = Inr x \<and> version_sort_key u b = Inr y \<and> c = cmp x y)"
  by (cases "version_sort_key u a"; cases "version_sort_key u b")
    (auto simp add: compare_versions_def simp del: split_paired_Ex)

lemma component_append:
  assumes "component u s = Some (d, r)" "r \<noteq> [] \<or> \<not> is_digit u x"
  shows "component u (s @ x # t) = Some (d, r @ x # t)"
proof -
  have "takeWhile (is_digit u) (s @ x # t) = takeWhile (is_digit u) s \<and>
      dropWhile (is_digit u) (s @ x # t) = dropWhile (is_digit u) s @ x # t"
  proof (cases "\<forall>c \<in> set s. is_digit u c")
    case True
    then have all: "dropWhile (is_digit u) s = []" "takeWhile (is_digit u) s = s" by (simp_all add: takeWhile_eq_all_conv)
    with assms have "\<not> is_digit u x" by (auto simp: component_def Let_def split: if_splits)
    moreover have "takeWhile (is_digit u) (s @ x # t) = s @ takeWhile (is_digit u) (x # t)"
      "dropWhile (is_digit u) (s @ x # t) = dropWhile (is_digit u) (x # t)"
      using True by (simp_all add: takeWhile_append2 dropWhile_append2)
    ultimately show ?thesis by (simp only: all takeWhile.simps dropWhile.simps if_False append_Nil append_Nil2)
  next
    case False
    then show ?thesis by (metis dropWhile_append1 takeWhile_append1)
  qed
  then show ?thesis using assms(1) by (auto simp: component_def Let_def split: if_splits)
qed

lemma expect_append: "expect c s = Some r \<Longrightarrow> expect c (s @ t) = Some (r @ t)"
  by (cases s) (auto split: if_splits)

lemma match_release_prerelease:
  assumes "match_version u v = Some (a, b, c, [])" "1 \<le> length p" "length p \<le> 64" "list_all prerelease_char p"
  shows "match_version u (v @ 45 # p) = Some (a, b, c, p)"
proof -
  have dash: "\<not> is_digit u 45" by (simp add: is_digit_def digit_value_def ascii_digit_def)
  obtain r1 r2 r3 r4 r5 where m: "component u v = Some (a, r1)" "expect 46 r1 = Some r2"
    "component u r2 = Some (b, r3)" "expect 46 r3 = Some r4" "component u r4 = Some (c, r5)" "prerelease_of r5 = Some []"
    using assms(1) by (auto simp: match_version_def bind_eq_Some_conv)
  have "r5 = []" using m(6) by (auto simp: prerelease_of_def split: list.splits if_splits)
  have "component u (v @ 45 # p) = Some (a, r1 @ 45 # p)" "component u (r2 @ 45 # p) = Some (b, r3 @ 45 # p)"
    "component u (r4 @ 45 # p) = Some (c, 45 # p)"
    using component_append [OF m(1), of 45 p] component_append [OF m(3), of 45 p] component_append [OF m(5), of 45 p]
      dash \<open>r5 = []\<close> by simp_all
  then show ?thesis
    using expect_append [OF m(2), of "45 # p"] expect_append [OF m(4), of "45 # p"] assms(2-4)
    by (simp add: match_version_def prerelease_of_def)
qed

text \<open>
  Versions are totally preordered. On the versions that parse, the comparison gives -1, 0
  or 1, is antisymmetric and transitive, and a prerelease comes strictly before its release.
\<close>

theorem compare_versions_order:
  assumes "compare_versions u a b = Inr x" "compare_versions u b c = Inr y"
  shows "x \<in> {-1, 0, 1} \<and> compare_versions u b a = Inr (- x) \<and>
    (\<exists>z. compare_versions u a c = Inr z \<and> (x \<le> 0 \<and> y \<le> 0 \<longrightarrow> z \<le> 0 \<and> (z = 0 \<longleftrightarrow> x = 0 \<and> y = 0))) \<and>
    (\<forall>p. parse_version u a = Inr (i, j, k, []) \<and> 1 \<le> length p \<and> length p \<le> 64 \<and> list_all prerelease_char p \<longrightarrow>
       compare_versions u (a @ 45 # p) a = Inr (- 1))"
proof -
  obtain ka kb kc where k: "version_sort_key u a = Inr ka" "version_sort_key u b = Inr kb" "version_sort_key u c = Inr kc"
    "x = cmp ka kb" "y = cmp kb kc"
    using assms unfolding compare_versions_Inr by fastforce
  have "compare_versions u (a @ 45 # p) a = Inr (- 1)"
    if p: "parse_version u a = Inr (i, j, k, [])" "1 \<le> length p" "length p \<le> 64" "list_all prerelease_char p" for p
  proof -
    obtain da db dc where d: "match_version u a = Some (da, db, dc, [])"
      "i = to_int u da" "j = to_int u db" "k = to_int u dc"
      using p(1) by (auto simp: parse_version_def split: option.splits)
    have "match_version u (a @ 45 # p) = Some (da, db, dc, p)" by (rule match_release_prerelease [OF d(1) p(2-4)])
    moreover have "p \<noteq> []" using p(2) by auto
    ultimately show ?thesis
      using d by (simp add: compare_versions_def version_sort_key_def parse_version_def cmp_order(5))
  qed
  moreover have "compare_versions u a c = Inr (cmp ka kc)" "compare_versions u b a = Inr (- x)"
    using k cmp_order(2) [of ka kb] by (simp_all add: compare_versions_def)
  moreover have "cmp ka kc \<le> 0 \<and> (cmp ka kc = 0 \<longleftrightarrow> x = 0 \<and> y = 0)" if "x \<le> 0" "y \<le> 0"
    using that unfolding k(4,5) cmp_order(3,4) by (metis order_trans order_antisym)
  ultimately show ?thesis using k(4) cmp_order(1) [of ka kb] by blast
qed

section \<open>Who is targeted\<close>

lemma keyed_unique: "distinct (map f xs) \<Longrightarrow> x \<in> set xs \<Longrightarrow> y \<in> set xs \<Longrightarrow> f x = f y \<Longrightarrow> x = y"
  by (auto simp: distinct_map dest: inj_onD)

lemma subseq_mem: "subseq xs ys \<Longrightarrow> x \<in> set xs \<Longrightarrow> x \<in> set ys"
  by (auto simp: subseq_conv_nths dest: in_set_nthsD)

lemma subseq_distinct: "subseq xs ys \<Longrightarrow> distinct (map f ys) \<Longrightarrow> distinct (map f xs)"
  by (auto simp: subseq_conv_nths simp flip: nths_map intro: distinct_nthsI)

lemma dispatch_update_command_Some:
  assumes "dispatch_update_command digest active s r agent cid nonce now = Some s'"
  shows "st_db s' = st_db s" "st_policies s' = st_policies s" "st_agents s' = st_agents s"
    "\<exists>payload. update_payload (rl_manifest r) = Some payload \<and>
       st_commands s' = st_commands s @ [update_command r agent payload cid now]"
  using assms
  by (auto simp: dispatch_update_command_def update_audit_def audit_record_def split: option.splits prod.splits)

text \<open>The conditions on a targeted endpoint, as the loop checks them.\<close>

definition targetable ::
  "(nat list \<Rightarrow> nat list) \<Rightarrow> unicode \<Rightarrow> store \<Rightarrow> AgentUpdateRelease \<Rightarrow> string list \<Rightarrow> Agent \<Rightarrow> bool" where
  "targetable digest u s r already agent \<longleftrightarrow>
     ag_id agent \<notin> set already \<and> ed_eligible (release_eligibility digest u r agent) \<and>
     resolve_policy (st_db s) (st_policies s) agent agent_self_update = None"

definition attempts_for ::
  "(nat list \<Rightarrow> nat list) \<Rightarrow> (nat \<Rightarrow> string \<times> string \<times> ustr) \<Rightarrow> AgentUpdateRelease \<Rightarrow> instant \<Rightarrow> nat \<Rightarrow> Agent list \<Rightarrow>
   AgentUpdateAttempt list" where
  "attempts_for digest fresh r now n sel =
     map (\<lambda>(i, agent). new_attempt digest r agent (fst (snd (fresh i))) (fst (fresh i)) now) (enumerate n sel)"

lemma attempts_for_simps [simp]:
  "attempts_for digest fresh r now n [] = []"
  "attempts_for digest fresh r now n (agent # sel) =
     new_attempt digest r agent (fst (snd (fresh n))) (fst (fresh n)) now # attempts_for digest fresh r now (Suc n) sel"
  by (simp_all add: attempts_for_def)

lemma roll_result:
  assumes "roll digest u active fresh r already max_dispatch now agents x = Some x'"
  shows "\<exists>sel. ro_attempts x' = ro_attempts x @ attempts_for digest fresh r now (ro_dispatched x) sel \<and>
    ro_dispatched x' = ro_dispatched x + length sel \<and>
    (sel \<noteq> [] \<longrightarrow> ro_dispatched x' \<le> max_dispatch) \<and>
    subseq sel agents \<and> (\<forall>agent \<in> set sel. targetable digest u (ro_store x) r already agent) \<and>
    length (st_commands (ro_store x')) = length (st_commands (ro_store x)) + length sel \<and>
    st_agents (ro_store x') = st_agents (ro_store x)"
  using assms
proof (induction agents arbitrary: x)
  case (Cons agent agents)
  let ?skip = "\<lambda>x. roll digest u active fresh r already max_dispatch now agents x = Some x'"
  have skipped: ?case if "?skip y" "ro_attempts y = ro_attempts x" "ro_dispatched y = ro_dispatched x"
    "st_db (ro_store y) = st_db (ro_store x)" "st_policies (ro_store y) = st_policies (ro_store x)"
    "st_commands (ro_store y) = st_commands (ro_store x)" "st_agents (ro_store y) = st_agents (ro_store x)" for y
    using Cons.IH [OF that(1)] that(2-) by (auto simp: targetable_def intro: subseq_Cons')
  show ?case
  proof (cases "ag_id agent \<in> set already \<or> \<not> ed_eligible (release_eligibility digest u r agent) \<or>
      select_command_envelope_version
          (map ustr (case command_envelope_versions agent of None \<Rightarrow> [] | Some l \<Rightarrow> l)) \<noteq> Some COMMAND_ENVELOPE_V3")
    case True
    then obtain reason where "?skip (x\<lparr>ro_skipped := ro_skipped x @ [reason]\<rparr>)"
      using Cons.prems by (auto simp: Let_def split: if_splits)
    then show ?thesis by (rule skipped) simp_all
  next
    case False
    show ?thesis
    proof (cases "resolve_policy (st_db (ro_store x)) (st_policies (ro_store x)) agent agent_self_update")
      case (Some p)
      then obtain s reason where "?skip (x\<lparr>ro_store := s, ro_skipped := ro_skipped x @ [reason]\<rparr>)"
        "s = update_audit ''agent_update.approval_refused'' ''system'' (Some (ag_id agent)) (refused_detail r agent p) (ro_store x)"
        using Cons.prems False by (simp add: Let_def)
      note q = this
      from skipped [OF q(1)] q(2) show ?thesis by (simp add: update_audit_def audit_record_def)
    next
      case None
      show ?thesis
      proof (cases "ro_dispatched x \<ge> max_dispatch")
        case True
        then have "x' = x\<lparr>ro_truncated := True\<rparr>" using Cons.prems False None by (simp add: Let_def)
        then show ?thesis by (intro exI [of _ "[]"]) simp
      next
        case room: False
        obtain cid aid nonce where f: "fresh (ro_dispatched x) = (cid, aid, nonce)" by (cases "fresh (ro_dispatched x)")
        obtain s where s: "dispatch_update_command digest active (ro_store x) r agent cid nonce now = Some s"
          "?skip (x\<lparr>ro_store := s, ro_attempts := ro_attempts x @ [new_attempt digest r agent aid cid now],
             ro_dispatched := ro_dispatched x + 1\<rparr>)"
          using Cons.prems False None room f by (auto simp: Let_def split: option.splits)
        note d = dispatch_update_command_Some [OF s(1)]
        from Cons.IH [OF s(2)] obtain sel where sel: "ro_attempts x' = ro_attempts x @ new_attempt digest r agent aid cid now #
              attempts_for digest fresh r now (Suc (ro_dispatched x)) sel"
            "ro_dispatched x' = ro_dispatched x + 1 + length sel" "sel \<noteq> [] \<longrightarrow> ro_dispatched x' \<le> max_dispatch"
            "subseq sel agents" "\<forall>agent \<in> set sel. targetable digest u s r already agent"
            "length (st_commands (ro_store x')) = length (st_commands s) + length sel" "st_agents (ro_store x') = st_agents s"
          by auto
        have "targetable digest u s r already = targetable digest u (ro_store x) r already"
          using d(1,2) by (simp add: targetable_def fun_eq_iff)
        moreover have "targetable digest u (ro_store x) r already agent" using False None by (simp add: targetable_def)
        moreover have "length (st_commands s) = Suc (length (st_commands (ro_store x)))" using d(4) by auto
        moreover have "ro_dispatched x' \<le> max_dispatch" using sel(2,3) room by (cases "sel = []") simp_all
        ultimately show ?thesis
          using sel f d(3) by (intro exI [of _ "agent # sel"]) simp
      qed
    qed
  qed
qed (auto intro: exI [of _ "[]"])

lemma advance_result:
  assumes "advance_rollout digest u active fresh st release_id percent max_dispatch oper now = (st', Inr x)"
  obtains r sel where "load_release st release_id = Inr r" "advance_refusal r percent = None"
    "\<not> hd_halt (halt_decision st r)" "1 \<le> percent" "percent \<le> 100" "length sel \<le> max_dispatch"
    "up_releases st' = put_release (r\<lparr>rl_rollout_percent := percent, rl_state := Release_rolling, rl_updated_at := now\<rparr>) (up_releases st)"
    "up_attempts st' = up_attempts st @ attempts_for digest fresh
       (r\<lparr>rl_rollout_percent := percent, rl_state := Release_rolling, rl_updated_at := now\<rparr>) now 0 sel"
    "subseq sel (filter (\<lambda>a. revoked_at a = None) (st_agents (up_store st)))"
    "\<forall>agent \<in> set sel. targetable digest u (up_store st)
       (r\<lparr>rl_rollout_percent := percent, rl_state := Release_rolling, rl_updated_at := now\<rparr>)
       (map at_agent_id (filter (\<lambda>a. at_release_id a = rl_id r) (up_attempts st))) agent"
    "length (st_commands (up_store st')) = length (st_commands (up_store st)) + length sel"
    "st_agents (up_store st') = st_agents (up_store st)"
proof -
  obtain r where r: "load_release st release_id = Inr r" "advance_refusal r percent = None"
    "\<not> hd_halt (halt_decision st r)" "1 \<le> percent" "percent \<le> 100" "1 \<le> max_dispatch"
    using assms by (auto simp: advance_rollout_def Let_def split: sum.splits option.splits if_splits)
  let ?r = "r\<lparr>rl_rollout_percent := percent, rl_state := Release_rolling, rl_updated_at := now\<rparr>"
  let ?already = "map at_agent_id (filter (\<lambda>a. at_release_id a = rl_id r) (up_attempts st))"
  have x: "roll digest u active fresh ?r ?already max_dispatch now
        (filter (\<lambda>a. revoked_at a = None) (st_agents (up_store st)))
        \<lparr>ro_store = up_store st, ro_attempts = [], ro_skipped = [], ro_dispatched = 0, ro_truncated = False\<rparr> = Some x"
    and st': "st' = st\<lparr>up_releases := put_release ?r (up_releases st), up_attempts := up_attempts st @ ro_attempts x,
        up_store := update_audit ''agent_update.rollout_advanced'' (op_email oper) None (advanced_detail ?r x) (ro_store x)\<rparr>"
    using assms r by (auto simp: advance_rollout_def Let_def split: sum.splits option.splits if_splits)
  from roll_result [OF x] obtain sel where
    sel: "ro_attempts x = attempts_for digest fresh ?r now 0 sel" "ro_dispatched x = length sel"
      "sel \<noteq> [] \<longrightarrow> ro_dispatched x \<le> max_dispatch" "subseq sel (filter (\<lambda>a. revoked_at a = None) (st_agents (up_store st)))"
      "\<forall>agent \<in> set sel. targetable digest u (up_store st) ?r ?already agent"
      "length (st_commands (ro_store x)) = length (st_commands (up_store st)) + length sel"
      "st_agents (ro_store x) = st_agents (up_store st)"
    by auto
  show thesis
    by (rule that [OF r(1-5)]) (use sel st' in \<open>auto simp: update_audit_def audit_record_def\<close>)
qed

text \<open>What eligibility means.\<close>

lemma version_refusal_None:
  "version_refusal u current rv mv = None \<longleftrightarrow>
     compare_versions u current rv = Inr (- 1) \<and> (\<exists>d. compare_versions u rv mv = Inr d \<and> 0 \<le> d)"
proof -
  have "c \<in> {-1, 0, 1}" if "compare_versions u current rv = Inr c" for c
    using that cmp_order(1) unfolding compare_versions_Inr by blast
  then show ?thesis by (auto simp: version_refusal_def split: sum.splits)
qed

lemma update_eligible_iff:
  "ed_eligible (evaluate_eligibility digest u agent rv rc rp mv percent rid trust) \<longleftrightarrow>
     trust \<and> SELF_UPDATE_CAPABILITY \<in> set (case supported_capabilities agent of None \<Rightarrow> [] | Some l \<Rightarrow> l) \<and>
     agent_platform u agent = Some rp \<and> agent_channel u agent = rc \<and> strip (agent_version agent) \<noteq> [] \<and>
     version_refusal u (strip (agent_version agent)) rv mv = None \<and>
     int (rollout_bucket digest rid (ag_id agent)) < percent"
  by (simp add: evaluate_eligibility_def Let_def split: option.splits)

text \<open>
  C17. Every update is justified. When an advance of the rollout succeeds, the release was
  neither paused, halted nor condemned by its outcomes and the percentage did not shrink; at
  most the requested number of endpoints is targeted, each with one command and one attempt;
  and each of them is trusted, not revoked, announces the capability, runs the release's
  platform and channel, reports a version strictly below the release, which is not below the
  floor, lies within the stage, was not targeted before, and is not under an approval policy
  for updates.
\<close>

theorem update_targets_justified:
  assumes "advance_rollout digest u active fresh st release_id percent max_dispatch oper now = (st', Inr x)"
  shows "\<exists>r sel. load_release st release_id = Inr r \<and> rl_state r \<notin> {Release_paused, Release_halted} \<and>
    \<not> hd_halt (halt_decision st r) \<and> rl_rollout_percent r \<le> percent \<and> length sel \<le> max_dispatch \<and>
    map at_agent_id (up_attempts st') = map at_agent_id (up_attempts st) @ map ag_id sel \<and>
    length (st_commands (up_store st')) = length (st_commands (up_store st)) + length sel \<and>
    (\<forall>agent \<in> set sel. agent \<in> set (st_agents (up_store st)) \<and> revoked_at agent = None \<and>
       trust_state agent = Trust_active \<and>
       SELF_UPDATE_CAPABILITY \<in> set (case supported_capabilities agent of None \<Rightarrow> [] | Some l \<Rightarrow> l) \<and>
       agent_platform u agent = Some (rm_platform (rl_meta r)) \<and> agent_channel u agent = rm_channel (rl_meta r) \<and>
       compare_versions u (strip (agent_version agent)) (rm_version (rl_meta r)) = Inr (- 1) \<and>
       (\<exists>d \<ge> 0. compare_versions u (rm_version (rl_meta r)) (rm_min_supported_version (rl_meta r)) = Inr d) \<and>
       int (rollout_bucket digest (rl_id r) (ag_id agent)) < percent \<and>
       (\<forall>a \<in> set (up_attempts st). at_release_id a = rl_id r \<longrightarrow> at_agent_id a \<noteq> ag_id agent) \<and>
       resolve_policy (st_db (up_store st)) (st_policies (up_store st)) agent agent_self_update = None)"
  using assms
proof (rule advance_result)
  fix r :: AgentUpdateRelease and sel
  let ?r = "r\<lparr>rl_rollout_percent := percent, rl_state := Release_rolling, rl_updated_at := now\<rparr>"
  assume r: "load_release st release_id = Inr r" "advance_refusal r percent = None" "\<not> hd_halt (halt_decision st r)"
    "length sel \<le> max_dispatch"
    and a: "up_attempts st' = up_attempts st @ attempts_for digest fresh ?r now 0 sel"
    and sub: "subseq sel (filter (\<lambda>a. revoked_at a = None) (st_agents (up_store st)))"
    and ok: "\<forall>agent \<in> set sel. targetable digest u (up_store st) ?r
       (map at_agent_id (filter (\<lambda>a. at_release_id a = rl_id r) (up_attempts st))) agent"
    and n: "length (st_commands (up_store st')) = length (st_commands (up_store st)) + length sel"
  have mem: "agent \<in> set (st_agents (up_store st)) \<and> revoked_at agent = None" if "agent \<in> set sel" for agent
    using sub that by (auto dest: subseq_mem)
  have elig: "ed_eligible (release_eligibility digest u ?r agent)"
    "\<forall>a \<in> set (up_attempts st). at_release_id a = rl_id r \<longrightarrow> at_agent_id a \<noteq> ag_id agent"
    "resolve_policy (st_db (up_store st)) (st_policies (up_store st)) agent agent_self_update = None"
    if "agent \<in> set sel" for agent
    using ok that by (force simp: targetable_def)+
  have "rl_state r \<notin> {Release_paused, Release_halted} \<and> rl_rollout_percent r \<le> percent"
    using r(2) by (auto simp: advance_refusal_def split: if_splits)
  moreover have "map at_agent_id (attempts_for digest fresh ?r now k sel) = map ag_id sel" for k
    by (induction sel arbitrary: k) (simp_all add: new_attempt_def)
  ultimately show ?thesis
    using r(1,3,4) a n mem elig(2,3) elig(1) [unfolded release_eligibility_def update_eligible_iff version_refusal_None, simplified]
    by (intro exI [of _ r] exI [of _ sel]) (simp del: not_all, blast)
qed

section \<open>Reachable states\<close>

inductive update_step ::
  "(nat list \<Rightarrow> nat list) \<Rightarrow> (nat list \<Rightarrow> string) \<Rightarrow> unicode \<Rightarrow> update_state \<Rightarrow> update_state \<Rightarrow> bool"
  for digest :: "nat list \<Rightarrow> nat list" and sha256hex :: "nat list \<Rightarrow> string" and u :: unicode where
  step_publish: "i \<notin> rl_id ` set (up_releases st) \<Longrightarrow>
    update_step digest sha256hex u st (fst (publish_release sha256hex u active st body oper now i))"
| step_advance: "distinct (map (\<lambda>n. fst (snd (fresh n))) [0..<max_dispatch]) \<Longrightarrow>
    (\<And>n. fst (snd (fresh n)) \<notin> at_id ` set (up_attempts st)) \<Longrightarrow>
    update_step digest sha256hex u st (fst (advance_rollout digest u active fresh st rid percent max_dispatch oper now))"
| step_halt: "update_step digest sha256hex u st (fst (halt_release st rid reason oper now))"
| step_pause: "update_step digest sha256hex u st (fst (pause_release st rid oper now))"
| step_resume: "update_step digest sha256hex u st (fst (resume_release st rid oper now))"
| step_report: "update_step digest sha256hex u st (fst (report_self_update st rbody agent now))"
| step_other_tables: "distinct (map ag_id (st_agents s)) \<Longrightarrow> update_step digest sha256hex u st (st\<lparr>up_store := s\<rparr>)"

definition update_start :: "store \<Rightarrow> update_state" where
  "update_start s = \<lparr>up_store = s, up_releases = [], up_attempts = []\<rparr>"

inductive update_reachable ::
  "(nat list \<Rightarrow> nat list) \<Rightarrow> (nat list \<Rightarrow> string) \<Rightarrow> unicode \<Rightarrow> update_state \<Rightarrow> bool"
  for digest :: "nat list \<Rightarrow> nat list" and sha256hex :: "nat list \<Rightarrow> string" and u :: unicode where
  update_reach_start: "distinct (map ag_id (st_agents s)) \<Longrightarrow> update_reachable digest sha256hex u (update_start s)"
| update_reach_step: "update_reachable digest sha256hex u st \<Longrightarrow> update_step digest sha256hex u st st' \<Longrightarrow>
    update_reachable digest sha256hex u st'"

definition release_ok :: "update_state \<Rightarrow> AgentUpdateRelease \<Rightarrow> bool" where
  "release_ok st r \<longleftrightarrow> 0 \<le> rl_rollout_percent r \<and> rl_rollout_percent r \<le> 100 \<and> 1 \<le> rl_min_attempts_before_halt r \<and>
     (hd_halt (halt_decision st r) \<longrightarrow> rl_state r = Release_halted)"

definition attempt_ok :: "(nat list \<Rightarrow> nat list) \<Rightarrow> update_state \<Rightarrow> AgentUpdateAttempt \<Rightarrow> bool" where
  "attempt_ok digest st a \<longleftrightarrow> at_rollout_bucket a = rollout_bucket digest (at_release_id a) (at_agent_id a) \<and>
     (\<exists>r \<in> set (up_releases st). rl_id r = at_release_id a \<and> int (at_rollout_bucket a) < rl_rollout_percent r)"

definition update_inv :: "(nat list \<Rightarrow> nat list) \<Rightarrow> update_state \<Rightarrow> bool" where
  "update_inv digest st \<longleftrightarrow> distinct (map rl_id (up_releases st)) \<and> distinct (map at_id (up_attempts st)) \<and>
     distinct (map (\<lambda>a. (at_release_id a, at_agent_id a)) (up_attempts st)) \<and>
     distinct (map ag_id (st_agents (up_store st))) \<and>
     (\<forall>r \<in> set (up_releases st). release_ok st r) \<and> (\<forall>a \<in> set (up_attempts st). attempt_ok digest st a)"

lemma release_ok_store [simp]: "release_ok (st\<lparr>up_store := s\<rparr>) r = release_ok st r"
  "attempt_ok digest (st\<lparr>up_store := s\<rparr>) a = attempt_ok digest st a"
  by (simp_all add: release_ok_def attempt_ok_def halt_decision_def)

lemma attempt_ok_cong: "up_releases st = up_releases st' \<Longrightarrow> attempt_ok digest st a = attempt_ok digest st' a"
  by (simp add: attempt_ok_def)

lemma release_ok_releases [simp]: "release_ok (st\<lparr>up_releases := rs\<rparr>) r = release_ok st r"
  by (simp add: release_ok_def halt_decision_def)

lemma update_inv_store: "update_inv digest st \<Longrightarrow> st_agents s = st_agents (up_store st) \<Longrightarrow> update_inv digest (st\<lparr>up_store := s\<rparr>)"
  unfolding update_inv_def by simp

lemma audit_agents [simp]:
  "st_agents (update_audit action actor aid detail s) = st_agents s" "st_db (update_audit action actor aid detail s) = st_db s"
  by (simp_all add: update_audit_def audit_record_def)

lemma put_release_mem:
  assumes "distinct (map rl_id rs)" "r \<in> set rs" "rl_id r' = rl_id r"
  shows "set (put_release r' rs) = insert r' (set rs - {r})" "map rl_id (put_release r' rs) = map rl_id rs"
proof -
  have "q = r" if "q \<in> set rs" "rl_id q = rl_id r" for q
    by (rule keyed_unique [OF assms(1) that(1) assms(2) that(2)])
  then show "set (put_release r' rs) = insert r' (set rs - {r})"
    using assms(2,3) by (force simp: put_release_def db_update_def)
  show "map rl_id (put_release r' rs) = map rl_id rs"
    using assms(3) by (simp add: put_release_def db_update_def)
qed

text \<open>Replacing a release by one further along.\<close>

lemma update_inv_put_release:
  assumes "update_inv digest st" "r \<in> set (up_releases st)" "rl_id r' = rl_id r" "rl_rollout_percent r \<le> rl_rollout_percent r'"
    and "release_ok st r'"
  shows "update_inv digest (st\<lparr>up_releases := put_release r' (up_releases st)\<rparr>)"
proof -
  note inv = assms(1) [unfolded update_inv_def]
  note m = put_release_mem [of "up_releases st" r r', OF _ assms(2,3)]
  have "attempt_ok digest (st\<lparr>up_releases := put_release r' (up_releases st)\<rparr>) a" if a: "attempt_ok digest st a" for a
  proof -
    obtain q where q: "q \<in> set (up_releases st)" "rl_id q = at_release_id a" "int (at_rollout_bucket a) < rl_rollout_percent q"
      and b: "at_rollout_bucket a = rollout_bucket digest (at_release_id a) (at_agent_id a)"
      using a by (auto simp: attempt_ok_def)
    have "\<exists>p \<in> set (put_release r' (up_releases st)). rl_id p = at_release_id a \<and> int (at_rollout_bucket a) < rl_rollout_percent p"
    proof (cases "q = r")
      case True
      then have "rl_id r' = at_release_id a" "int (at_rollout_bucket a) < rl_rollout_percent r'" using q assms(3,4) by simp_all
      moreover have "r' \<in> set (put_release r' (up_releases st))" using m inv by simp
      ultimately show ?thesis by blast
    next
      case False
      then have "q \<in> set (put_release r' (up_releases st))" using m inv q(1) by simp
      then show ?thesis using q(2,3) by blast
    qed
    then show ?thesis using b by (simp add: attempt_ok_def)
  qed
  moreover have "\<forall>q \<in> set (put_release r' (up_releases st)). release_ok st q" using m inv assms(5) by simp
  ultimately show ?thesis using inv m unfolding update_inv_def by simp
qed

lemma load_release_row: "load_release st rid = Inr r \<Longrightarrow> r \<in> set (up_releases st) \<and> rl_id r = rid"
  by (auto simp: load_release_def dest: db_get_SomeD split: option.splits)

lemma release_okD:
  "update_inv digest st \<Longrightarrow> r \<in> set (up_releases st) \<Longrightarrow> release_ok st r"
  unfolding update_inv_def by blast

lemma halt_row_fields [simp]:
  "rl_id (halt_row reason now r) = rl_id r" "rl_rollout_percent (halt_row reason now r) = rl_rollout_percent r"
  "rl_state (halt_row reason now r) = Release_halted"
  "halt_decision st (halt_row reason now r) = halt_decision st r"
  "rl_min_attempts_before_halt (halt_row reason now r) = rl_min_attempts_before_halt r"
  by (simp_all add: halt_row_def halt_decision_def)

lemma update_inv_halt:
  assumes "update_inv digest st" "r \<in> set (up_releases st)"
  shows "update_inv digest (halt_write st r reason actor now)"
proof -
  have "release_ok st (halt_row reason now r)" using release_okD [OF assms] by (simp add: release_ok_def)
  then have "update_inv digest (st\<lparr>up_releases := put_release (halt_row reason now r) (up_releases st)\<rparr>)"
    using update_inv_put_release [OF assms] by simp
  then show ?thesis unfolding halt_write_def by (rule update_inv_store) simp
qed

text \<open>The decision reads only resolved attempts.\<close>

lemma halt_decision_cong:
  "(\<And>s. s \<in> {''succeeded'', ''rolled_back'', ''failed''} \<Longrightarrow> status_counts (up_attempts st) (rl_id r) s = status_counts (up_attempts st') (rl_id r) s) \<Longrightarrow>
     halt_decision st r = halt_decision st' r"
  by (simp add: halt_decision_def evaluate_halt_def Let_def)

lemma status_counts_append [simp]:
  "status_counts (xs @ ys) rid s = status_counts xs rid s + status_counts ys rid s"
  by (simp add: status_counts_def)

lemma status_counts_new:
  "s \<in> {''succeeded'', ''rolled_back'', ''failed''} \<Longrightarrow> status_counts (attempts_for digest fresh r now n sel) rid s = 0"
  by (induction sel arbitrary: n) (auto simp: status_counts_def new_attempt_def)

lemma attempts_for_ids:
  "map at_id (attempts_for digest fresh r now n sel) = map (\<lambda>i. fst (snd (fresh i))) [n..<n + length sel]"
  "map (\<lambda>a. (at_release_id a, at_agent_id a)) (attempts_for digest fresh r now n sel) = map (\<lambda>a. (rl_id r, ag_id a)) sel"
proof (induction sel arbitrary: n)
  case (Cons agent sel)
  case 1
  show ?case using Cons(1) [of "Suc n"] by (simp add: new_attempt_def upt_conv_Cons del: upt_Suc)
  case 2
  show ?case using Cons(2) [of "Suc n"] by (simp add: new_attempt_def)
qed simp_all

lemma attempts_for_mem:
  "a \<in> set (attempts_for digest fresh r now n sel) \<Longrightarrow> at_release_id a = rl_id r \<and>
     at_rollout_bucket a = rollout_bucket digest (at_release_id a) (at_agent_id a) \<and> (\<exists>agent \<in> set sel. at_agent_id a = ag_id agent)"
  by (induction sel arbitrary: n) (auto simp: new_attempt_def)

lemma advance_inv:
  assumes inv: "update_inv digest st" and f: "distinct (map (\<lambda>n. fst (snd (fresh n))) [0..<max_dispatch])"
    and n: "\<And>n. fst (snd (fresh n)) \<notin> at_id ` set (up_attempts st)"
    and ok: "advance_rollout digest u active fresh st rid percent max_dispatch oper now = (st', Inr x)"
  shows "update_inv digest st'"
  using ok
proof (rule advance_result)
  fix r :: AgentUpdateRelease and sel
  let ?r = "r\<lparr>rl_rollout_percent := percent, rl_state := Release_rolling, rl_updated_at := now\<rparr>"
  let ?new = "attempts_for digest fresh ?r now 0 sel"
  assume l: "load_release st rid = Inr r" "advance_refusal r percent = None" "\<not> hd_halt (halt_decision st r)"
    "1 \<le> percent" "percent \<le> 100" "length sel \<le> max_dispatch"
    and st': "up_releases st' = put_release ?r (up_releases st)" "up_attempts st' = up_attempts st @ ?new"
      "st_agents (up_store st') = st_agents (up_store st)"
    and sub: "subseq sel (filter (\<lambda>a. revoked_at a = None) (st_agents (up_store st)))"
    and t: "\<forall>agent \<in> set sel. targetable digest u (up_store st) ?r
       (map at_agent_id (filter (\<lambda>a. at_release_id a = rl_id r) (up_attempts st))) agent"
  have r: "r \<in> set (up_releases st)" using load_release_row [OF l(1)] by simp
  have "halt_decision st ?r = halt_decision st r" by (simp add: halt_decision_def)
  then have rok: "release_ok st ?r" using release_okD [OF inv r] l(3-5) by (simp add: release_ok_def)
  have "rl_rollout_percent r \<le> percent" using l(2) by (auto simp: advance_refusal_def split: if_splits)
  then have inv1: "update_inv digest (st\<lparr>up_releases := put_release ?r (up_releases st)\<rparr>)"
    using update_inv_put_release [OF inv r _ _ rok] by simp
  note i = inv1 [unfolded update_inv_def, simplified]
  have "halt_decision st' q = halt_decision st q" for q
    by (rule halt_decision_cong) (simp add: st'(2) status_counts_new)
  then have rel: "release_ok st' q = release_ok st q" for q by (simp add: release_ok_def)
  have "map at_id ?new = map (\<lambda>n. fst (snd (fresh n))) [0..<length sel]" by (simp add: attempts_for_ids)
  moreover have "distinct (map (\<lambda>n. fst (snd (fresh n))) [0..<length sel])"
    using f l(6) by (auto simp: distinct_map inj_on_def)
  moreover have "set (map (\<lambda>n. fst (snd (fresh n))) [0..<length sel]) \<inter> set (map at_id (up_attempts st)) = {}"
    using n by auto
  ultimately have ids: "distinct (map at_id (up_attempts st'))"
    using i unfolding st'(2) map_append distinct_append by auto
  have free: "(rl_id r, ag_id agent) \<notin> set (map (\<lambda>a. (at_release_id a, at_agent_id a)) (up_attempts st))"
    if "agent \<in> set sel" for agent
    using t that by (force simp: targetable_def)
  have "distinct (map ag_id sel)"
    using i by (intro subseq_distinct [OF sub]) (simp add: distinct_map_filter)
  then have "distinct (map (\<lambda>a. (at_release_id a, at_agent_id a)) ?new)"
    unfolding attempts_for_ids by (simp add: distinct_map inj_on_def)
  moreover have "set (map (\<lambda>a. (at_release_id a, at_agent_id a)) ?new) \<inter>
      set (map (\<lambda>a. (at_release_id a, at_agent_id a)) (up_attempts st)) = {}"
    unfolding attempts_for_ids using free by auto
  ultimately have pairs: "distinct (map (\<lambda>a. (at_release_id a, at_agent_id a)) (up_attempts st'))"
    using i unfolding st'(2) map_append distinct_append by blast
  have new: "attempt_ok digest st' a" if "a \<in> set ?new" for a
  proof -
    from attempts_for_mem [OF that] obtain agent where a: "at_release_id a = rl_id r" "agent \<in> set sel"
      "at_agent_id a = ag_id agent" "at_rollout_bucket a = rollout_bucket digest (at_release_id a) (at_agent_id a)" by auto
    have "int (rollout_bucket digest (rl_id r) (ag_id agent)) < percent"
      using t a(2) by (auto simp: targetable_def release_eligibility_def update_eligible_iff)
    moreover have "?r \<in> set (up_releases st')"
      using put_release_mem(1) [of "up_releases st" r ?r] inv r st'(1) by (simp add: update_inv_def)
    ultimately show ?thesis using a unfolding attempt_ok_def by (intro conjI bexI [of _ ?r]) simp_all
  qed
  have old: "attempt_ok digest st' a" if "a \<in> set (up_attempts st)" for a
  proof -
    have "attempt_ok digest (st\<lparr>up_releases := put_release ?r (up_releases st)\<rparr>) a" using i that by blast
    then show ?thesis using attempt_ok_cong [of "st\<lparr>up_releases := put_release ?r (up_releases st)\<rparr>" st'] st'(1) by simp
  qed
  show ?thesis
    using i ids pairs new old rel unfolding update_inv_def st' by auto
qed

lemma advance_refused:
  assumes "update_inv digest st" "advance_rollout digest u active fresh st rid percent max_dispatch oper now = (st', Inl e)"
  shows "st' = st \<or> (\<exists>r reason. r \<in> set (up_releases st) \<and> rl_state r \<noteq> Release_halted \<and> st' = halt_write st r reason ''system'' now)"
  using assms(2) load_release_row [of st rid]
  by (auto simp: advance_rollout_def advance_refusal_def Let_def split: sum.splits option.splits if_splits)

lemma report_rows:
  "map at_id (db_update P (report_row body now) as) = map at_id as"
  "map (\<lambda>a. (at_release_id a, at_agent_id a)) (db_update P (report_row body now) as) = map (\<lambda>a. (at_release_id a, at_agent_id a)) as"
  by (simp_all add: db_update_def report_row_def)

lemma note_version_agents: "map ag_id (st_agents (note_version v aid s)) = map ag_id (st_agents s)"
  by (simp add: note_version_def db_update_def split: option.splits)

lemma find_in: "find P xs = Some x \<Longrightarrow> x \<in> set xs"
  by (auto simp: find_Some_iff)

lemma filter_map_same:
  "(\<And>x. x \<in> set xs \<Longrightarrow> P (g x) = P x) \<Longrightarrow> (\<And>x. x \<in> set xs \<Longrightarrow> P x \<Longrightarrow> g x = x) \<Longrightarrow> filter P (map g xs) = filter P xs"
  by (induction xs) auto

text \<open>Recording an outcome: only the release it concerns needs to be looked at again.\<close>

lemma update_inv_outcome:
  assumes "update_inv digest st" "a \<in> set (up_attempts st)"
    and as: "as = db_update (\<lambda>q. at_id q = at_id a) (report_row body now) (up_attempts st)"
    and s: "map ag_id (st_agents s) = map ag_id (st_agents (up_store st))"
    and ok: "\<And>r. r \<in> set (up_releases st) \<Longrightarrow> rl_id r = at_release_id a \<Longrightarrow> release_ok (st\<lparr>up_attempts := as\<rparr>) r"
  shows "update_inv digest (st\<lparr>up_store := s, up_attempts := as\<rparr>)"
proof -
  note inv = assms(1) [unfolded update_inv_def]
  have only: "q = a" if "q \<in> set (up_attempts st)" "at_id q = at_id a" for q
    by (rule keyed_unique [of at_id, OF _ that(1) assms(2) that(2)]) (use inv in simp)
  have "release_ok (st\<lparr>up_attempts := as\<rparr>) r" if r: "r \<in> set (up_releases st)" "rl_id r \<noteq> at_release_id a" for r
  proof -
    have "filter (\<lambda>q. at_release_id q = rl_id r \<and> attempt_status_value (at_status q) = t) as =
        filter (\<lambda>q. at_release_id q = rl_id r \<and> attempt_status_value (at_status q) = t) (up_attempts st)" for t
      unfolding as db_update_def
    proof (rule filter_map_same)
      fix q assume "q \<in> set (up_attempts st)"
      then have "at_id q = at_id a \<Longrightarrow> at_release_id q \<noteq> rl_id r" using only r(2) by metis
      then show "(at_release_id (if at_id q = at_id a then report_row body now q else q) = rl_id r \<and>
            attempt_status_value (at_status (if at_id q = at_id a then report_row body now q else q)) = t) =
          (at_release_id q = rl_id r \<and> attempt_status_value (at_status q) = t)"
        "at_release_id q = rl_id r \<and> attempt_status_value (at_status q) = t \<Longrightarrow>
          (if at_id q = at_id a then report_row body now q else q) = q"
        by (auto simp: report_row_def)
    qed
    then have "halt_decision (st\<lparr>up_attempts := as\<rparr>) r = halt_decision st r"
      by (intro halt_decision_cong) (simp add: status_counts_def)
    then show ?thesis using inv r(1) by (simp add: release_ok_def)
  qed
  then have rel: "release_ok (st\<lparr>up_store := s, up_attempts := as\<rparr>) r" if "r \<in> set (up_releases st)" for r
    using ok that by (cases "rl_id r = at_release_id a") (simp_all add: release_ok_def halt_decision_def)
  have "attempt_ok digest (st\<lparr>up_store := s, up_attempts := as\<rparr>) b" if "b \<in> set as" for b
  proof -
    obtain c where c: "c \<in> set (up_attempts st)" "b = (if at_id c = at_id a then report_row body now c else c)"
      using \<open>b \<in> set as\<close> unfolding as db_update_def by auto
    have "attempt_ok digest st c" using inv c(1) by blast
    then show ?thesis using c(2) by (auto simp: attempt_ok_def report_row_def)
  qed
  then show ?thesis using inv rel s unfolding update_inv_def as by (simp add: report_rows)
qed

lemma report_inv:
  assumes "update_inv digest st"
  shows "update_inv digest (fst (report_self_update st body agent now))"
proof -
  note inv = assms [unfolded update_inv_def]
  have plain: "update_inv digest (st\<lparr>up_store := s\<rparr>)" if "map ag_id (st_agents s) = map ag_id (st_agents (up_store st))" for s
    using inv that unfolding update_inv_def by simp
  have "update_inv digest (halt_if_condemned (st\<lparr>up_store := s, up_attempts := as\<rparr>) (at_release_id a) now)"
    if a: "a \<in> set (up_attempts st)" and as: "as = db_update (\<lambda>q. at_id q = at_id a) (report_row body now) (up_attempts st)"
      and s: "map ag_id (st_agents s) = map ag_id (st_agents (up_store st))" for a s as
  proof -
    let ?st = "st\<lparr>up_store := s, up_attempts := as\<rparr>"
    have "attempt_ok digest st a" using inv a by blast
    then obtain r where r: "r \<in> set (up_releases st)" "rl_id r = at_release_id a" by (auto simp: attempt_ok_def)
    then have get: "db_get rl_id (up_releases st) (at_release_id a) = Some r"
      using db_get_unique [of rl_id "up_releases st" r] inv by simp
    have only: "q = r" if "q \<in> set (up_releases st)" "rl_id q = at_release_id a" for q
      by (rule keyed_unique [of rl_id, OF _ that(1) r(1)]) (use inv r(2) that(2) in simp_all)
    show ?thesis
    proof (cases "hd_halt (halt_decision ?st r) \<and> rl_state r \<noteq> Release_halted")
      case True
      let ?h = "halt_write st r (hd_reason (halt_decision ?st r)) ''system'' now"
      have "halt_if_condemned ?st (at_release_id a) now =
          ?h\<lparr>up_store := update_audit ''agent_update.rollout_halted'' ''system'' None
            (halt_detail r (hd_reason (halt_decision ?st r))) s, up_attempts := as\<rparr>"
        using True get by (simp add: halt_if_condemned_def halt_write_def)
      moreover have "update_inv digest (?h\<lparr>up_store := update_audit ''agent_update.rollout_halted'' ''system'' None
            (halt_detail r (hd_reason (halt_decision ?st r))) s, up_attempts := as\<rparr>)"
      proof (rule update_inv_outcome [OF update_inv_halt [OF assms r(1)]])
        show "a \<in> set (up_attempts ?h)" "as = db_update (\<lambda>q. at_id q = at_id a) (report_row body now) (up_attempts ?h)"
          using a as by (simp_all add: halt_write_def)
        fix q assume q: "q \<in> set (up_releases ?h)" "rl_id q = at_release_id a"
        have "set (up_releases ?h) = insert (halt_row (hd_reason (halt_decision ?st r)) now r) (set (up_releases st) - {r})"
          using put_release_mem(1) [of "up_releases st" r] r(1) inv by (simp add: halt_write_def)
        then have "q = halt_row (hd_reason (halt_decision ?st r)) now r" using q only by blast
        moreover have "release_ok st r" using inv r(1) by blast
        ultimately show "release_ok (?h\<lparr>up_attempts := as\<rparr>) q" by (simp add: release_ok_def)
      qed (use s in \<open>simp add: halt_write_def\<close>)
      ultimately show ?thesis by simp
    next
      case False
      moreover have "release_ok st r" using inv r(1) by blast
      ultimately have "release_ok (st\<lparr>up_attempts := as\<rparr>) r" by (simp add: release_ok_def halt_decision_def)
      then have "update_inv digest ?st" using update_inv_outcome [OF assms a as s] only by blast
      then show ?thesis using False get by (auto simp: halt_if_condemned_def)
    qed
  qed
  then show ?thesis
    using assms plain unfolding report_self_update_def
    by (auto simp: Let_def note_version_agents dest: find_in split: option.splits)
qed

lemma publish_inv:
  assumes "update_inv digest st" "i \<notin> rl_id ` set (up_releases st)"
  shows "update_inv digest (fst (publish_release sha256hex u active st body oper now i))"
proof -
  note inv = assms(1) [unfolded update_inv_def]
  let ?m = "(rb_meta body)\<lparr>rm_release_id := i\<rparr>"
  have "update_inv digest (st\<lparr>up_releases := up_releases st @ [new_release body ?m signed oper now], up_store := s\<rparr>)"
    if "release_body_ok u body" "st_agents s = st_agents (up_store st)" for signed s
  proof -
    let ?r = "new_release body ?m signed oper now"
    have "at_release_id a \<noteq> i" if "a \<in> set (up_attempts st)" for a
    proof -
      have "attempt_ok digest st a" using inv that by blast
      then show ?thesis using assms(2) unfolding attempt_ok_def by force
    qed
    then have "filter (\<lambda>a. at_release_id a = i \<and> attempt_status_value (at_status a) = t) (up_attempts st) = []" for t
      by (auto simp: filter_empty_conv)
    then have "\<not> hd_halt (halt_decision st ?r)"
      using that(1) by (simp add: halt_decision_def evaluate_halt_def status_counts_def new_release_def
          release_body_ok_def Let_def)
    then have "release_ok st ?r" using that(1) by (simp add: release_ok_def new_release_def release_body_ok_def Let_def)
    moreover have "attempt_ok digest (st\<lparr>up_releases := up_releases st @ [?r]\<rparr>) a" if "a \<in> set (up_attempts st)" for a
    proof -
      have "attempt_ok digest st a" using inv that by blast
      then show ?thesis by (auto simp: attempt_ok_def)
    qed
    moreover have "rl_id ?r = i" by (simp add: new_release_def)
    ultimately show ?thesis using inv assms(2) that(2) unfolding update_inv_def by simp
  qed
  then show ?thesis using assms(1) by (auto simp: publish_release_def Let_def split: sum.splits option.splits)
qed

lemma put_row_inv:
  assumes "update_inv digest st" "load_release st rid = Inr r" "rl_state r \<noteq> Release_halted"
    and "st_agents s = st_agents (up_store st)" "t \<noteq> Release_halted"
  shows "update_inv digest (st\<lparr>up_releases := put_release (r\<lparr>rl_state := t, rl_updated_at := now\<rparr>) (up_releases st), up_store := s\<rparr>)"
proof -
  have r: "r \<in> set (up_releases st)" using load_release_row [OF assms(2)] by simp
  have "release_ok st (r\<lparr>rl_state := t, rl_updated_at := now\<rparr>)"
    using release_okD [OF assms(1) r] assms(3) by (simp add: release_ok_def halt_decision_def)
  from update_inv_put_release [OF assms(1) r _ _ this] show ?thesis
    using update_inv_store assms(4) by simp
qed

lemma update_step_inv: "update_step digest sha256hex u st st' \<Longrightarrow> update_inv digest st \<Longrightarrow> update_inv digest st'"
proof (induction rule: update_step.induct)
  case (step_publish i st active body oper now)
  then show ?case by (rule publish_inv [rotated])
next
  case (step_advance fresh max_dispatch st active rid percent oper now)
  obtain st' x where x: "advance_rollout digest u active fresh st rid percent max_dispatch oper now = (st', x)" by fastforce
  show ?case
  proof (cases x)
    case (Inl e)
    then show ?thesis using advance_refused [of digest st] x step_advance.prems update_inv_halt [OF step_advance.prems] by fastforce
  next
    case (Inr y)
    then show ?thesis using advance_inv [OF step_advance.prems step_advance.hyps] x by simp
  qed
next
  case (step_halt st rid reason oper now)
  have "update_inv digest ((halt_write st r a b now)\<lparr>up_store := update_audit c d e f (up_store (halt_write st r a b now))\<rparr>)"
    if "load_release st rid = Inr r" for r a b c d e f
    using update_inv_store [OF update_inv_halt [OF step_halt.prems]] load_release_row [OF that] by simp
  then show ?case using step_halt.prems by (auto simp: halt_release_def Let_def split: sum.splits)
next
  case (step_pause st rid oper now)
  then show ?case using put_row_inv [OF step_pause.prems] by (auto simp: pause_release_def Let_def split: sum.splits)
next
  case (step_resume st rid oper now)
  then show ?case
    using put_row_inv [OF step_resume.prems] update_inv_halt [OF step_resume.prems] load_release_row [of st rid]
    by (auto simp: resume_release_def Let_def split: sum.splits)
next
  case (step_report st rbody agent now)
  then show ?case by (rule report_inv)
next
  case (step_other_tables s st)
  then show ?case unfolding update_inv_def by simp
qed

lemma update_reachable_inv: "update_reachable digest sha256hex u st \<Longrightarrow> update_inv digest st"
proof (induction rule: update_reachable.induct)
  case (update_reach_start s)
  then show ?case by (simp add: update_inv_def update_start_def)
qed (rule update_step_inv)

section \<open>A halted release\<close>

text \<open>The endpoints that a release has targeted, in order.\<close>

definition targeted :: "update_state \<Rightarrow> string \<Rightarrow> string list" where
  "targeted st rid = map at_agent_id (filter (\<lambda>a. at_release_id a = rid) (up_attempts st))"

lemma put_release_keeps: "r \<in> set rs \<Longrightarrow> rl_id r \<noteq> rl_id q \<Longrightarrow> r \<in> set (put_release q rs)"
  by (force simp: put_release_def db_update_def)

lemma halted_other:
  assumes "update_inv digest st" "r \<in> set (up_releases st)" "rl_state r = Release_halted"
    and "q \<in> set (up_releases st)" "rl_state q \<noteq> Release_halted"
  shows "rl_id r \<noteq> rl_id q"
proof
  assume "rl_id r = rl_id q"
  moreover have "distinct (map rl_id (up_releases st))" using assms(1) by (simp add: update_inv_def)
  ultimately have "r = q" using keyed_unique [of rl_id] assms(2,4) by blast
  then show False using assms(3,5) by simp
qed

lemma halted_kept:
  assumes "update_inv digest st" "r \<in> set (up_releases st)" "rl_state r = Release_halted"
    and "load_release st rid = Inr q" "rl_state q \<noteq> Release_halted" "rl_id q' = rl_id q"
  shows "r \<in> set (put_release q' (up_releases st))"
  using halted_other [OF assms(1-3), of q] load_release_row [OF assms(4)] assms by (simp add: put_release_keeps)

lemma advance_other:
  assumes "advance_rollout digest u active fresh st rid percent max_dispatch oper now = (st', Inr x)"
  shows "\<exists>q. load_release st rid = Inr q \<and> rl_state q \<noteq> Release_halted \<and>
    up_releases st' = put_release (q\<lparr>rl_rollout_percent := percent, rl_state := Release_rolling, rl_updated_at := now\<rparr>)
      (up_releases st) \<and> (\<forall>i. i \<noteq> rl_id q \<longrightarrow> targeted st' i = targeted st i)"
proof -
  from assms obtain q sel where q: "load_release st rid = Inr q" "advance_refusal q percent = None"
    "up_releases st' = put_release (q\<lparr>rl_rollout_percent := percent, rl_state := Release_rolling, rl_updated_at := now\<rparr>)
      (up_releases st)"
    "up_attempts st' = up_attempts st @ attempts_for digest fresh
       (q\<lparr>rl_rollout_percent := percent, rl_state := Release_rolling, rl_updated_at := now\<rparr>) now 0 sel"
    by (rule advance_result)
  let ?q = "q\<lparr>rl_rollout_percent := percent, rl_state := Release_rolling, rl_updated_at := now\<rparr>"
  have "filter (\<lambda>a. at_release_id a = i) (attempts_for digest fresh ?q now k sel) = []" if "i \<noteq> rl_id q" for i k
    using that by (induction sel arbitrary: k) (simp_all add: new_attempt_def)
  then have "\<forall>i. i \<noteq> rl_id q \<longrightarrow> targeted st' i = targeted st i"
    unfolding targeted_def q(4) by simp
  moreover have "rl_state q \<noteq> Release_halted" using q(2) by (auto simp: advance_refusal_def split: if_splits)
  ultimately show ?thesis using q(1,3) by blast
qed

lemma targeted_report:
  "targeted (st\<lparr>up_store := s, up_attempts := db_update P (report_row body now) (up_attempts st)\<rparr>) rid = targeted st rid"
proof -
  have "map at_agent_id (filter (\<lambda>a. at_release_id a = rid) (db_update P (report_row body now) as)) =
      map at_agent_id (filter (\<lambda>a. at_release_id a = rid) as)" for as
    by (induction as) (simp_all add: db_update_def report_row_def)
  then show ?thesis by (simp add: targeted_def)
qed

lemma targeted_cong: "up_attempts st = up_attempts st' \<Longrightarrow> targeted st = targeted st'"
  by (simp add: targeted_def fun_eq_iff)

lemma halt_if_condemned_keeps:
  assumes "r \<in> set (up_releases st)" "rl_state r = Release_halted" "distinct (map rl_id (up_releases st))"
  shows "r \<in> set (up_releases (halt_if_condemned st rid now)) \<and> targeted (halt_if_condemned st rid now) = targeted st"
proof (cases "db_get rl_id (up_releases st) rid")
  case (Some q)
  then have q: "q \<in> set (up_releases st)" by (auto simp: db_get_def dest: find_in)
  have "rl_id r \<noteq> rl_id q" if "rl_state q \<noteq> Release_halted"
    using keyed_unique [OF assms(3,1) q] that assms(2) by auto
  then show ?thesis using Some assms(1)
    by (auto simp: halt_if_condemned_def halt_write_def intro: put_release_keeps cong: targeted_cong)
qed (simp add: assms halt_if_condemned_def)

lemma report_keeps:
  assumes "update_inv digest st" "r \<in> set (up_releases st)" "rl_state r = Release_halted"
  shows "r \<in> set (up_releases (fst (report_self_update st body agent now))) \<and>
    targeted (fst (report_self_update st body agent now)) = targeted st"
proof -
  have "r \<in> set (up_releases (halt_if_condemned st' rid now)) \<and> targeted (halt_if_condemned st' rid now) = targeted st"
    if "st' = st\<lparr>up_store := s, up_attempts := db_update P (report_row body now) (up_attempts st)\<rparr>" for st' s rid P
    using halt_if_condemned_keeps [of r st' rid now] targeted_report [where st = st and s = s and P = P and body = body and now = now] assms that
    by (simp add: update_inv_def fun_eq_iff)
  then show ?thesis using assms
    by (auto simp: report_self_update_def Let_def split: option.splits intro: targeted_cong)
qed

lemma halted_step:
  assumes "update_step digest sha256hex u st st'" "update_inv digest st"
    and "r \<in> set (up_releases st)" "rl_state r = Release_halted"
  shows "r \<in> set (up_releases st') \<and> targeted st' (rl_id r) = targeted st (rl_id r)"
  using assms
proof (induction rule: update_step.induct)
  case (step_publish i st active body oper now)
  then show ?case by (auto simp: publish_release_def targeted_def Let_def split: sum.splits option.splits)
next
  case (step_advance fresh max_dispatch st active rid percent oper now)
  note other = halted_other [OF step_advance.prems]
  obtain st' x where x: "advance_rollout digest u active fresh st rid percent max_dispatch oper now = (st', x)" by fastforce
  show ?case
  proof (cases x)
    case (Inl e)
    consider "st' = st" | q reason where "q \<in> set (up_releases st)" "rl_state q \<noteq> Release_halted"
      "st' = halt_write st q reason ''system'' now"
      using advance_refused [of digest st u active fresh rid percent max_dispatch oper now st' e] x Inl
        step_advance.prems(1) by blast
    then show ?thesis
    proof cases
      case 1
      then show ?thesis using x step_advance.prems by simp
    next
      case (2 q reason)
      show ?thesis using x step_advance.prems other [OF 2(1,2)] 2(3)
        by (simp add: halt_write_def targeted_def put_release_keeps)
    qed
  next
    case (Inr y)
    then obtain q where q: "load_release st rid = Inr q" "rl_state q \<noteq> Release_halted"
      "up_releases st' = put_release (q\<lparr>rl_rollout_percent := percent, rl_state := Release_rolling, rl_updated_at := now\<rparr>)
        (up_releases st)" "\<forall>i. i \<noteq> rl_id q \<longrightarrow> targeted st' i = targeted st i"
      using advance_other [of digest u active fresh st rid percent max_dispatch oper now st' y] x by blast
    then show ?thesis using x step_advance.prems other [of q] load_release_row [OF q(1)] by (simp add: put_release_keeps)
  qed
next
  case (step_halt st rid reason oper now)
  note kept = halted_kept [OF step_halt.prems]
  show ?case using step_halt.prems
    by (auto simp: halt_release_def halt_write_def targeted_def Let_def split: sum.splits intro!: kept)
next
  case (step_pause st rid oper now)
  note kept = halted_kept [OF step_pause.prems]
  show ?case using step_pause.prems
    by (auto simp: pause_release_def targeted_def Let_def split: sum.splits intro!: kept)
next
  case (step_resume st rid oper now)
  note kept = halted_kept [OF step_resume.prems]
  show ?case using step_resume.prems
    by (auto simp: resume_release_def halt_write_def targeted_def Let_def split: sum.splits intro!: kept)
next
  case (step_report st rbody agent now)
  then show ?case using report_keeps by (metis (no_types))
next
  case (step_other_tables s st)
  then show ?case by (simp add: targeted_def)
qed


text \<open>
  A halt is final. Whatever the console and the endpoints do next, a halted release keeps
  its row unchanged and targets no further endpoint.
\<close>

theorem halted_release_final:
  assumes "(update_step digest sha256hex u)\<^sup>*\<^sup>* st st'" "update_reachable digest sha256hex u st"
    and "r \<in> set (up_releases st)" "rl_state r = Release_halted"
  shows "r \<in> set (up_releases st') \<and> targeted st' (rl_id r) = targeted st (rl_id r)"
proof -
  have "update_inv digest st' \<and> r \<in> set (up_releases st') \<and> targeted st' (rl_id r) = targeted st (rl_id r)"
    using assms(1)
  proof (induction rule: rtranclp_induct)
    case base
    then show ?case using assms update_reachable_inv by simp
  next
    case (step y z)
    then show ?case using halted_step [OF step.hyps(2)] update_step_inv [OF step.hyps(2)] assms(4) by simp
  qed
  then show ?thesis by simp
qed

section \<open>Examples\<close>

definition update_store :: store where
  "update_store = \<lparr>st_db = db1, st_clients = [''client1''], st_agents = [agent1\<lparr>trust_state := Trust_quarantined\<rparr>],
     st_policies = [], st_requests = [], st_decisions = [], st_overrides = [], st_commands = [], st_audit = []\<rparr>"

text \<open>
  The versions 1.0.0, 1.2.0 and 1.2.0 are in order, and every prerelease of 1.0.0 precedes it.
\<close>

theorem compare_versions_order_witness:
  "compare_versions u0 (ustr ''1.0.0'') (ustr ''1.2.0'') = Inr (- 1) \<and>
   compare_versions u0 (ustr ''1.2.0'') (ustr ''1.0.0'') = Inr 1"
proof -
  have a: "compare_versions u0 (ustr ''1.0.0'') (ustr ''1.2.0'') = Inr (- 1)"
    "compare_versions u0 (ustr ''1.2.0'') (ustr ''1.2.0'') = Inr 0"
    by (simp_all add: compare_versions_def version_sort_key_def version_example cmp_def)
  then show ?thesis using compare_versions_order [OF a] by simp
qed

definition published0 :: update_state where
  "published0 = fst (publish_release (\<lambda>_. ''h'') u0 (Some key0) (update_start update_store) release_body0 root 0 ''r1'')"

definition halted0 :: update_state where
  "halted0 = fst (halt_release published0 ''r1'' ''crash loop'' root 1)"

lemma published0_row:
  "\<exists>r. up_releases published0 = [r] \<and> up_attempts published0 = [] \<and> rl_id r = ''r1'' \<and> rl_state r = Release_published \<and>
     rl_rollout_percent r = 0 \<and> rl_min_attempts_before_halt r = 5 \<and> st_agents (up_store published0) = st_agents update_store"
proof -
  obtain b where b: "canonical_manifest_bytes (build_manifest ((rb_meta release_body0)\<lparr>rm_release_id := ''r1''\<rparr>) 0) = Some b"
    using manifest0_bytes by blast
  have c: "compare_versions u0 (rm_version (rb_meta release_body0)) (rm_min_supported_version (rb_meta release_body0)) = Inr 1"
    using version_example by (simp add: release_body0_def compare_versions_def version_sort_key_def cmp_def)
  have m: "rb_min_attempts_before_halt release_body0 = 5" by (simp add: release_body0_def)
  have "up_releases (update_start s) = []" "up_attempts (update_start s) = []" "up_store (update_start s) = s" for s
    by (simp_all add: update_start_def)
  then show ?thesis
    unfolding published0_def publish_release_def sign_manifest_def Let_def
    using release_body0_ok b c m by (simp add: require_role_def root_def op0_def new_release_def)
qed

lemma halted0_row:
  "\<exists>r. up_releases halted0 = [r] \<and> up_attempts halted0 = [] \<and> rl_id r = ''r1'' \<and> rl_state r = Release_halted"
proof -
  obtain r where "up_releases published0 = [r]" "up_attempts published0 = []" "rl_id r = ''r1''" "rl_state r = Release_published"
    using published0_row by blast
  then show ?thesis
    by (simp add: halted0_def halt_release_def load_release_def db_get_def require_role_def root_def op0_def
        halt_write_def put_release_def db_update_def Let_def)
qed

lemma halted0_reachable: "update_reachable digest (\<lambda>_. ''h'') u0 halted0"
  unfolding halted0_def published0_def
  by (intro update_reach_step [OF _ step_halt] update_reach_step [OF _ step_publish] update_reach_start)
    (simp_all add: update_store_def update_start_def)


text \<open>Resuming the halted example release changes neither its row nor its endpoints.\<close>

theorem halted_release_final_witness:
  "\<exists>r. up_releases halted0 = [r] \<and> rl_state r = Release_halted \<and>
     r \<in> set (up_releases (fst (resume_release halted0 ''r1'' root 2))) \<and>
     targeted (fst (resume_release halted0 ''r1'' root 2)) ''r1'' = []"
proof -
  obtain r where r: "up_releases halted0 = [r]" "up_attempts halted0 = []" "rl_id r = ''r1''" "rl_state r = Release_halted"
    using halted0_row by blast
  have "(update_step (\<lambda>_. []) (\<lambda>_. ''h'') u0)\<^sup>*\<^sup>* halted0 (fst (resume_release halted0 ''r1'' root 2))"
    by (intro r_into_rtranclp step_resume)
  from halted_release_final [OF this halted0_reachable, of r] r show ?thesis by (simp add: targeted_def)
qed

text \<open>Advancing the example release to a tenth of the fleet leaves out the quarantined endpoint.\<close>

theorem update_targets_justified_witness:
  "\<exists>st x. advance_rollout (\<lambda>_. [0, 0, 0, 7]) u0 (Some key0) (\<lambda>n. (''c'', ''t'', [])) published0 ''r1'' 10 5 root 1 = (st, Inr x) \<and>
     ro_skipped x = [''agent_not_trusted''] \<and> up_attempts st = []"
proof -
  obtain r where r: "up_releases published0 = [r]" "up_attempts published0 = []" "rl_id r = ''r1''"
    "rl_state r = Release_published" "rl_rollout_percent r = 0" "rl_min_attempts_before_halt r = 5"
    "st_agents (up_store published0) = st_agents update_store"
    using published0_row by blast
  let ?a = "advance_rollout (\<lambda>_. [0, 0, 0, 7]) u0 (Some key0) (\<lambda>n. (''c'', ''t'', [])) published0 ''r1'' 10 5 root 1"
  have "\<exists>st x. ?a = (st, Inr x) \<and> ro_skipped x = [''agent_not_trusted''] \<and> length (st_commands (up_store st)) =
      length (st_commands (up_store published0)) \<and> up_attempts st = []"
    using r by (simp add: advance_rollout_def load_release_def db_get_def require_role_def root_def op0_def
        advance_refusal_def halt_decision_def evaluate_halt_def status_counts_def update_store_def agent1_def
        release_eligibility_def evaluate_eligibility_def update_audit_def audit_record_def Let_def)
  then obtain st x where a: "?a = (st, Inr x)" "ro_skipped x = [''agent_not_trusted'']" "up_attempts st = []" by blast
  from update_targets_justified [OF a(1)] a show ?thesis using r(2) by auto
qed

end
