(* ===== verification/Rate_Limit.thy ===== *)
theory Rate_Limit
  imports Prelude
begin

text \<open>
  The sliding-window limiter of \<open>server/app/core/ratelimit.py\<close>. The monotonic clock is an
  argument of the operations; its values and the window are integers of one unit. The
  dictionary of queues is a map. \<open>q[0]\<close> of an empty queue is an \<open>IndexError\<close>.
\<close>

section \<open>Definitions\<close>

record LoginRateLimiter =
  max_failures :: int
  window_seconds :: int
  failures :: "string \<rightharpoonup> instant list"

datatype limiter_error = IndexError

definition new_limiter :: "int \<Rightarrow> int \<Rightarrow> LoginRateLimiter" where
  "new_limiter maximum window = \<lparr>max_failures = maximum, window_seconds = window, failures = (\<lambda>_. None)\<rparr>"

definition queue_of :: "LoginRateLimiter \<Rightarrow> string \<Rightarrow> instant list" where
  "queue_of l key = (case failures l key of None \<Rightarrow> [] | Some q \<Rightarrow> q)"

text \<open>\<open>_prune\<close>: the queue it returns, and the dictionary it leaves.\<close>

definition prune :: "LoginRateLimiter \<Rightarrow> string \<Rightarrow> instant \<Rightarrow> instant list \<times> LoginRateLimiter" where
  "prune l key now =
     (let cutoff = now - window_seconds l; q = dropWhile (\<lambda>t. t \<le> cutoff) (queue_of l key) in
      (q, l\<lparr>failures := (failures l)(key := if q = [] then None else Some q)\<rparr>))"

definition retry_after :: "LoginRateLimiter \<Rightarrow> string \<Rightarrow> instant \<Rightarrow> (limiter_error + instant option) \<times> LoginRateLimiter" where
  "retry_after l key now =
     (case prune l key now of (q, l') \<Rightarrow>
        (if int (length q) < max_failures l then Inr None
         else case q of [] \<Rightarrow> Inl IndexError | t # _ \<Rightarrow> Inr (Some (max 0 (t + window_seconds l - now))), l'))"

definition record_failure :: "LoginRateLimiter \<Rightarrow> string \<Rightarrow> instant \<Rightarrow> LoginRateLimiter" where
  "record_failure l key now =
     (let l' = snd (prune l key now) in l'\<lparr>failures := (failures l')(key \<mapsto> queue_of l' key @ [now])\<rparr>)"

definition clear :: "LoginRateLimiter \<Rightarrow> string \<Rightarrow> LoginRateLimiter" where
  "clear l key = l\<lparr>failures := (failures l)(key := None)\<rparr>"

section \<open>The log of attempts\<close>

text \<open>
  Calls on the limiter with the clock they read. The reference keeps every failure since the
  key was last cleared and counts those within the window.
\<close>

datatype limiter_call = Query string instant | Fail string instant | Clear string instant

fun call_time :: "limiter_call \<Rightarrow> instant" where
  "call_time (Query key t) = t"
| "call_time (Fail key t) = t"
| "call_time (Clear key t) = t"

fun run_call :: "LoginRateLimiter \<Rightarrow> limiter_call \<Rightarrow> LoginRateLimiter" where
  "run_call l (Query key t) = snd (retry_after l key t)"
| "run_call l (Fail key t) = record_failure l key t"
| "run_call l (Clear key t) = clear l key"

fun log_call :: "(string \<Rightarrow> instant list) \<Rightarrow> limiter_call \<Rightarrow> string \<Rightarrow> instant list" where
  "log_call h (Query key t) = h"
| "log_call h (Fail key t) = h(key := h key @ [t])"
| "log_call h (Clear key t) = h(key := [])"

definition failure_log :: "limiter_call list \<Rightarrow> string \<Rightarrow> instant list" where
  "failure_log calls = foldl log_call (\<lambda>_. []) calls"

definition in_window :: "int \<Rightarrow> instant \<Rightarrow> instant list \<Rightarrow> instant list" where
  "in_window window now = filter (\<lambda>t. now - window < t)"

text \<open>
  The queue of a key holds the tail of its log that has not left the window at some earlier
  time; the log is in order of time.
\<close>

definition key_rep :: "instant \<Rightarrow> LoginRateLimiter \<Rightarrow> (string \<Rightarrow> instant list) \<Rightarrow> string \<Rightarrow> bool" where
  "key_rep now l h key \<longleftrightarrow> sorted (h key) \<and> (\<forall>t \<in> set (h key). t \<le> now) \<and>
     (\<exists>old. h key = old @ queue_of l key \<and> (\<forall>t \<in> set old. t \<le> now - window_seconds l)) \<and> failures l key \<noteq> Some []"

definition limiter_rep :: "instant \<Rightarrow> LoginRateLimiter \<Rightarrow> (string \<Rightarrow> instant list) \<Rightarrow> bool" where
  "limiter_rep now l h \<longleftrightarrow> (\<forall>key. key_rep now l h key)"

lemma dropWhile_window: "sorted q \<Longrightarrow> dropWhile (\<lambda>t. t \<le> c) q = filter (\<lambda>t. c < t) q" for c :: int
proof (induction q)
  case (Cons a q)
  then have "filter (\<lambda>t. c < t) q = q" if "c < a" using that by (force intro: filter_True)
  with Cons show ?case by simp
qed simp

lemma prune_queue:
  assumes "key_rep now l h key" "now \<le> now'"
  shows "fst (prune l key now') = in_window (window_seconds l) now' (h key)"
proof -
  obtain old where old: "h key = old @ queue_of l key" "\<forall>t \<in> set old. t \<le> now - window_seconds l" "sorted (h key)"
    using assms(1) unfolding key_rep_def by blast
  then have "sorted (queue_of l key)" by (simp add: sorted_append)
  moreover have "filter (\<lambda>t. now' - window_seconds l < t) old = []" using old(2) assms(2) by (auto simp: filter_empty_conv)
  ultimately show ?thesis using old(1) by (simp add: prune_def in_window_def dropWhile_window Let_def)
qed

lemma prune_fields [simp]:
  "max_failures (snd (prune l key now)) = max_failures l" "window_seconds (snd (prune l key now)) = window_seconds l"
  by (simp_all add: prune_def Let_def)

lemma prune_queue_of: "queue_of (snd (prune l key now)) k = (if k = key then fst (prune l key now) else queue_of l k)"
proof -
  obtain q l' where "prune l key now = (q, l')" "l' = l\<lparr>failures := (failures l)(key := if q = [] then None else Some q)\<rparr>"
    by (simp add: prune_def Let_def)
  then show ?thesis by (simp add: queue_of_def)
qed

lemma key_rep_later: "key_rep now l h k \<Longrightarrow> now \<le> now' \<Longrightarrow> key_rep now' l h k"
  unfolding key_rep_def by fastforce

lemma prune_rep:
  assumes "key_rep now l h k" "now \<le> now'"
  shows "key_rep now' (snd (prune l key now')) h k"
proof (cases "k = key")
  case False
  then show ?thesis using key_rep_later [OF assms]
    by (simp add: key_rep_def prune_queue_of) (simp add: prune_def Let_def)
next
  case True
  let ?c = "\<lambda>t. t \<le> now' - window_seconds l"
  obtain old where old: "h k = old @ queue_of l k" "\<forall>t \<in> set old. t \<le> now - window_seconds l"
    using assms(1) unfolding key_rep_def by blast
  have q: "queue_of (snd (prune l key now')) k = dropWhile ?c (queue_of l k)"
    using True by (simp add: prune_queue_of) (simp add: prune_def Let_def)
  have "h k = (old @ takeWhile ?c (queue_of l k)) @ queue_of (snd (prune l key now')) k" unfolding q using old(1) by simp
  moreover have "\<forall>t \<in> set (old @ takeWhile ?c (queue_of l k)). ?c t"
    using old(2) assms(2) by (fastforce dest: set_takeWhileD)
  moreover have "failures (snd (prune l key now')) k \<noteq> Some []" using True by (simp add: prune_def Let_def)
  ultimately show ?thesis using assms unfolding key_rep_def by (simp only: prune_fields) fastforce
qed

lemma retry_after_snd [simp]: "snd (retry_after l key now) = snd (prune l key now)"
  by (simp add: retry_after_def split: prod.split)

lemma run_call_fields [simp]:
  "max_failures (run_call l c) = max_failures l" "window_seconds (run_call l c) = window_seconds l"
  by (cases c; simp add: record_failure_def clear_def Let_def)+

lemma run_call_rep:
  assumes "limiter_rep now l h" "now \<le> call_time c" "0 \<le> window_seconds l"
  shows "limiter_rep (call_time c) (run_call l c) (log_call h c)"
  unfolding limiter_rep_def
proof
  fix k
  have rep: "key_rep now l h k" using assms(1) by (simp add: limiter_rep_def)
  show "key_rep (call_time c) (run_call l c) (log_call h c) k"
  proof (cases c)
    case (Query key t)
    then show ?thesis using prune_rep [OF rep, of t key] assms(2) by simp
  next
    case (Fail key t)
    let ?l = "snd (prune l key t)"
    have p: "key_rep t ?l h k" using prune_rep [OF rep, of t key] assms(2) Fail by simp
    show ?thesis
    proof (cases "k = key")
      case True
      obtain old where "h k = old @ queue_of ?l k" "\<forall>x \<in> set old. x \<le> t - window_seconds l"
        using p unfolding key_rep_def by (auto simp: prune_fields)
      then show ?thesis using p Fail True
        by (fastforce simp: key_rep_def record_failure_def Let_def queue_of_def sorted_append)
    next
      case False
      then show ?thesis using p Fail by (simp add: key_rep_def record_failure_def Let_def queue_of_def)
    qed
  next
    case (Clear key t)
    then show ?thesis using key_rep_later [OF rep, of t] assms(2)
      by (auto simp: key_rep_def clear_def queue_of_def)
  qed
qed

lemma run_calls_rep:
  assumes "limiter_rep now l h" "sorted (map call_time calls)" "\<forall>c \<in> set calls. now \<le> call_time c \<and> call_time c \<le> later"
    and "0 \<le> window_seconds l" "now \<le> later"
  shows "limiter_rep later (foldl run_call l calls) (foldl log_call h calls)"
  using assms
proof (induction calls arbitrary: now l h)
  case Nil
  then show ?case unfolding limiter_rep_def by (metis foldl_Nil key_rep_later)
next
  case (Cons c calls)
  have "limiter_rep (call_time c) (run_call l c) (log_call h c)"
    using run_call_rep [OF Cons.prems(1) _ Cons.prems(4), of c] Cons.prems(3) by simp
  then show ?case using Cons.IH [of "call_time c" "run_call l c" "log_call h c"] Cons.prems by simp
qed

lemma new_limiter_rep: "limiter_rep now (new_limiter maximum window) (\<lambda>_. [])"
  by (simp add: limiter_rep_def key_rep_def new_limiter_def queue_of_def)

lemma foldl_run_call_fields [simp]:
  "max_failures (foldl run_call l calls) = max_failures l" "window_seconds (foldl run_call l calls) = window_seconds l"
  by (induction calls arbitrary: l) simp_all

lemma run_prune:
  assumes "sorted (map call_time calls)" "\<forall>c \<in> set calls. call_time c \<le> now" "0 \<le> window"
  shows "fst (prune (foldl run_call (new_limiter maximum window) calls) key now) = in_window window now (failure_log calls key)"
proof -
  let ?start = "Min (insert now (call_time ` set calls))"
  have s: "\<forall>c \<in> set calls. ?start \<le> call_time c \<and> call_time c \<le> now" "?start \<le> now" using assms(2) by simp_all
  have "limiter_rep now (foldl run_call (new_limiter maximum window) calls) (failure_log calls)"
    unfolding failure_log_def
    by (rule run_calls_rep [OF new_limiter_rep assms(1) s(1) _ s(2)]) (simp add: new_limiter_def assms(3))
  then show ?thesis using prune_queue [of now _ "failure_log calls" key now] by (simp add: limiter_rep_def new_limiter_def)
qed

text \<open>
  The limiter counts exactly the failures of the window. After any calls in the order of
  the clock, a key is blocked if and only if at least the maximum number of its failures since
  it was last cleared lie within the window; the wait it reports ends when the oldest of them
  leaves the window, and is positive and at most the window. A key without recent failures
  leaves no entry behind.
\<close>

theorem limiter_blocks_iff:
  assumes "sorted (map call_time calls)" "\<forall>c \<in> set calls. call_time c \<le> now" "0 \<le> window" "1 \<le> maximum"
  shows "let l = foldl run_call (new_limiter maximum window) calls; recent = in_window window now (failure_log calls key) in
    (int (length recent) < maximum \<longrightarrow> fst (retry_after l key now) = Inr None) \<and>
    (maximum \<le> int (length recent) \<longrightarrow> (\<exists>wait. fst (retry_after l key now) = Inr (Some wait) \<and>
       wait = hd recent + window - now \<and> 0 < wait \<and> (hd recent \<le> now \<longrightarrow> wait \<le> window))) \<and>
    (failures (snd (retry_after l key now)) key = None \<longleftrightarrow> recent = [])"
proof -
  let ?l = "foldl run_call (new_limiter maximum window) calls"
  let ?recent = "in_window window now (failure_log calls key)"
  obtain q l' where q: "prune ?l key now = (q, l')" by fastforce
  then have recent: "q = ?recent" using run_prune [OF assms(1-3), of maximum key] by simp
  have "failures l' key = (if q = [] then None else Some q)" using q by (auto simp: prune_def Let_def)
  then have entry: "failures l' key = None \<longleftrightarrow> ?recent = []" using recent by simp
  have fields: "max_failures ?l = maximum" "window_seconds ?l = window" by (simp_all add: new_limiter_def)
  have pos: "now - window < hd ?recent" if "?recent \<noteq> []"
    using hd_in_set [OF that] by (simp add: in_window_def)
  have hd: "?recent = hd ?recent # tl ?recent" if "maximum \<le> int (length ?recent)"
    using that assms(4) by (cases ?recent) simp_all
  show ?thesis
    using entry pos hd recent fields q unfolding Let_def retry_after_def
    by (auto split: list.splits)
qed

definition demo_calls :: "limiter_call list" where
  "demo_calls = [Fail ''a'' 1, Fail ''b'' 2, Query ''a'' 3, Fail ''a'' 4]"

theorem limiter_blocks_iff_witness:
  "fst (retry_after (foldl run_call (new_limiter 2 10) demo_calls) ''a'' 5) = Inr (Some 6) \<and>
   fst (retry_after (foldl run_call (new_limiter 2 10) demo_calls) ''b'' 5) = Inr None"
proof -
  have w: "in_window 10 5 (failure_log demo_calls ''a'') = [1, 4]" "in_window 10 5 (failure_log demo_calls ''b'') = [2]"
    by (simp_all add: in_window_def failure_log_def demo_calls_def)
  have c: "sorted (map call_time demo_calls)" "\<forall>c \<in> set demo_calls. call_time c \<le> 5"
    by (simp_all add: demo_calls_def)
  show ?thesis
    using limiter_blocks_iff [OF c, of 10 2 "''a''"] limiter_blocks_iff [OF c, of 10 2 "''b''"] w by (simp add: Let_def)
qed

text \<open>
  The configuration does not exclude a limit of zero. It does not block every attempt: the
  first look at a key without failures fails with an \<open>IndexError\<close>.
\<close>

theorem limiter_zero_limit:
  "fst (retry_after (new_limiter 0 window) key now) = Inl IndexError"
  by (simp add: retry_after_def prune_def new_limiter_def queue_of_def)

end
