(* ===== verification/Fleet.thy ===== *)
theory Fleet
  imports Py_Text Rate_Limit Approval_Api
begin

text \<open>
  The tables behind the endpoints that agents call (\<open>server/app/api/agents.py\<close>): the identity
  columns of an agent, enrollment tokens, commands with their delivery columns, and the audit
  trail. \<open>AgentRow\<close> and \<open>CommandRow\<close> extend the records that authorization and dispatch use. The
  name of a site is kept beside the tenancy tables.
\<close>

section \<open>Rows\<close>

datatype AgentStatus = Agent_pending | Agent_online | Agent_offline

record AgentRow = Agent +
  token_hash :: string
  credential_fingerprint :: "string option"
  credential_issued_at :: "instant option"
  credential_expires_at :: "datetime option"
  previous_token_hash :: "string option"
  previous_token_expires_at :: "datetime option"
  credential_generation :: int
  last_rotation_nonce :: "ustr option"
  last_renewed_at :: "instant option"
  ag_name :: ustr
  ag_hostname :: ustr
  ag_os_version :: ustr
  ag_environment :: "ustr option"
  ag_labels :: "ustr list"
  ag_owner_user_id :: "string option"
  enrolled_by_token_id :: "string option"
  ag_status :: AgentStatus
  trust_state_reason :: "ustr option"
  trust_state_changed_at :: "instant option"
  trust_state_changed_by :: "string option"
  last_seen_at :: "instant option"
  enrolled_at :: instant

record EnrollmentToken =
  et_id :: string
  et_site_id :: string
  et_token_hash :: string
  et_name :: ustr
  et_assigned_user_id :: "string option"
  et_environment :: "ustr option"
  et_hostname_restriction :: "ustr option"
  et_agent_name_restriction :: "ustr option"
  et_labels :: "ustr list"
  et_max_uses :: int
  et_uses :: int
  et_revoked :: bool
  et_expires_at :: "datetime option"
  et_last_used_at :: "instant option"
  et_revoked_at :: "datetime option"
  et_created_by_id :: "string option"

record InstallerDownload =
  dl_id :: string
  dl_site_id :: string
  dl_enrollment_token_id :: string
  dl_created_by_email :: string
  dl_artifact_sha256 :: string
  dl_token_expires_at :: instant

text \<open>The columns of a result; \<open>None\<close> is \<open>NULL\<close>.\<close>

record result_columns =
  exit_code :: "int option"
  stdout :: "ustr option"
  stderr :: "ustr option"
  stdout_truncated :: "bool option"
  stderr_truncated :: "bool option"
  stdout_total_bytes :: "int option"
  stderr_total_bytes :: "int option"
  agent_completed_at :: "datetime option"

record CommandRow = Command +
  cm_envelope_version :: string
  cm_result :: result_columns
  cm_dispatched_at :: "datetime option"
  cm_completed_at :: "instant option"

record fleet =
  fl_db :: db
  fl_site_name :: "string \<Rightarrow> ustr"
  fl_agents :: "AgentRow rows"
  fl_tokens :: "EnrollmentToken rows"
  fl_downloads :: "InstallerDownload rows"
  fl_commands :: "CommandRow rows"
  fl_limiter :: LoginRateLimiter
  fl_audit :: "AuditEntry list"

text \<open>The settings the endpoints read, durations in seconds.\<close>

record fleet_settings =
  enrollment_token_default_expiry_hours :: int
  enrollment_token_max_expiry_days :: int
  enrollment_token_max_uses :: int
  installer_token_ttl_seconds :: int
  agent_credential_lifetime_seconds :: int
  agent_credential_overlap_seconds :: int
  agent_credential_reattach_window_seconds :: int
  max_commands_per_heartbeat :: int
  command_redelivery_seconds :: int

definition fleet_audit ::
  "string \<Rightarrow> string \<Rightarrow> string option \<Rightarrow> string option \<Rightarrow> string option \<Rightarrow> json \<Rightarrow> fleet \<Rightarrow> fleet" where
  "fleet_audit action actor uid agent_id org detail st =
     st\<lparr>fl_audit := fl_audit st @ [\<lparr>ae_action = action, ae_actor = actor, ae_actor_user_id = uid,
        ae_agent_id = agent_id, ae_organization_id = org, ae_detail = detail\<rparr>]\<rparr>"

definition put_agent :: "AgentRow \<Rightarrow> fleet \<Rightarrow> fleet" where
  "put_agent a st = st\<lparr>fl_agents := db_update (\<lambda>q. ag_id q = ag_id a) (\<lambda>_. a) (fl_agents st)\<rparr>"

definition agent_actor :: "AgentRow \<Rightarrow> string" where
  "agent_actor a = ''agent:'' @ ag_id a"

definition organization_id :: "fleet \<Rightarrow> AgentRow \<Rightarrow> string option" where
  "organization_id st a = agent_client_id (fl_db st) (Agent.truncate a)"

lemma fleet_audit_tables [simp]:
  "fl_db (fleet_audit a b c d e f st) = fl_db st" "fl_agents (fleet_audit a b c d e f st) = fl_agents st"
  "fl_tokens (fleet_audit a b c d e f st) = fl_tokens st" "fl_commands (fleet_audit a b c d e f st) = fl_commands st"
  "fl_limiter (fleet_audit a b c d e f st) = fl_limiter st" "fl_site_name (fleet_audit a b c d e f st) = fl_site_name st"
  by (simp_all add: fleet_audit_def)

lemma put_agent_tables [simp]:
  "fl_db (put_agent a st) = fl_db st" "fl_tokens (put_agent a st) = fl_tokens st"
  "fl_commands (put_agent a st) = fl_commands st" "fl_audit (put_agent a st) = fl_audit st"
  "fl_limiter (put_agent a st) = fl_limiter st" "fl_site_name (put_agent a st) = fl_site_name st"
  by (simp_all add: put_agent_def)

lemma put_agent_mem:
  assumes "distinct (map ag_id (fl_agents st))" "r \<in> set (fl_agents st)" "ag_id r' = ag_id r"
  shows "set (fl_agents (put_agent r' st)) = insert r' (set (fl_agents st) - {r})"
    and "map ag_id (fl_agents (put_agent r' st)) = map ag_id (fl_agents st)"
proof -
  have only: "ag_id q = ag_id r \<longleftrightarrow> q = r" if "q \<in> set (fl_agents st)" for q
    using assms(1,2) that by (auto simp: distinct_map inj_on_def)
  have "set (fl_agents (put_agent r' st)) = (\<lambda>q. if ag_id q = ag_id r then r' else q) ` set (fl_agents st)"
    by (simp add: put_agent_def db_update_def assms(3))
  also have "\<dots> = (\<lambda>q. if q = r then r' else q) ` set (fl_agents st)" using only by (intro image_cong) simp_all
  finally show "set (fl_agents (put_agent r' st)) = insert r' (set (fl_agents st) - {r})" using assms(2) by auto
  show "map ag_id (fl_agents (put_agent r' st)) = map ag_id (fl_agents st)"
    using assms(3) by (simp add: put_agent_def db_update_def)
qed

end
