(* ===== verification/Agent_Credentials.thy ===== *)
theory Agent_Credentials
  imports Fleet
begin

text \<open>
  The identity of an agent: how a bearer token resolves to a row (\<open>get_current_agent\<close> and
  \<open>get_agent_for_credential_reattach\<close> of \<open>server/app/api/deps.py\<close>), rotation and reattachment of
  the credential (\<open>server/app/api/agents.py\<close>) and the trust transitions of an operator
  (\<open>server/app/api/management.py\<close>). Token hashing, the fingerprint and fresh tokens are
  arguments. Relay routing is switched off. A handler that raises leaves the state unchanged, as
  the session rolls back.
\<close>

section \<open>Authentication\<close>

text \<open>The slot a bearer matched, the transient \<open>credential_matched\<close>.\<close>

datatype slot = Current | Overlap

definition bearer_token :: "unicode \<Rightarrow> ustr option \<Rightarrow> ustr http" where
  "bearer_token u authorization =
     (case authorization of
        None \<Rightarrow> Inl (HTTPException 401 ''Missing Authorization header'')
      | Some h \<Rightarrow>
          if h = [] then Inl (HTTPException 401 ''Missing Authorization header'')
          else case partition_at 32 h of (scheme, token) \<Rightarrow>
            if lower u scheme \<noteq> ustr ''bearer'' \<or> token = []
            then Inl (HTTPException 401 ''Missing or malformed Authorization header'')
            else Inr token)"

definition agents_with_hash :: "fleet \<Rightarrow> string \<Rightarrow> AgentRow list" where
  "agents_with_hash st presented =
     filter (\<lambda>a. token_hash a = presented \<or> previous_token_hash a = Some presented) (fl_agents st)"

definition lapsed_after :: "datetime option \<Rightarrow> instant \<Rightarrow> bool" where
  "lapsed_after until now \<longleftrightarrow> (case until of None \<Rightarrow> True | Some t \<Rightarrow> instant_of t \<le> now)"

definition current_slot :: "AgentRow \<Rightarrow> string \<Rightarrow> instant \<Rightarrow> slot option" where
  "current_slot a presented now =
     (if trust_state a = Trust_revoked then None
      else if token_hash a = presented
      then (case credential_expires_at a of
              None \<Rightarrow> Some Current
            | Some t \<Rightarrow> if instant_of t > now then Some Current else None)
      else if previous_token_hash a = Some presented
      then (if lapsed_after (previous_token_expires_at a) now then None else Some Overlap)
      else None)"

text \<open>\<open>scalar_one_or_none\<close> fails when two rows match, and nothing catches the exception.\<close>

definition resolve_agent :: "fleet \<Rightarrow> string \<Rightarrow> (AgentRow \<Rightarrow> slot option) \<Rightarrow> (AgentRow \<times> slot) http" where
  "resolve_agent st presented matched =
     (case agents_with_hash st presented of
        [] \<Rightarrow> Inl (HTTPException 401 ''Invalid agent token'')
      | [a] \<Rightarrow> (case matched a of None \<Rightarrow> Inl (HTTPException 401 ''Invalid agent token'') | Some s \<Rightarrow> Inr (a, s))
      | _ \<Rightarrow> Inl (HTTPException 500 ''internal_error''))"

definition get_current_agent ::
  "(ustr \<Rightarrow> string) \<Rightarrow> unicode \<Rightarrow> fleet \<Rightarrow> ustr option \<Rightarrow> instant \<Rightarrow> (AgentRow \<times> slot) http" where
  "get_current_agent hash_token u st authorization now =
     (case bearer_token u authorization of
        Inl e \<Rightarrow> Inl e
      | Inr token \<Rightarrow> let presented = hash_token token in
          resolve_agent st presented (\<lambda>a. current_slot a presented now))"

definition reattach_slot :: "fleet_settings \<Rightarrow> AgentRow \<Rightarrow> string \<Rightarrow> instant \<Rightarrow> slot option" where
  "reattach_slot cfg a presented now =
     (if trust_state a \<noteq> Trust_active then None
      else if token_hash a = presented
      then (case credential_expires_at a of
              None \<Rightarrow> None
            | Some t \<Rightarrow> if instant_of t \<le> now \<and> now < instant_of t + seconds (agent_credential_reattach_window_seconds cfg)
                then Some Current else None)
      else if previous_token_hash a = Some presented
      then (if lapsed_after (previous_token_expires_at a) now then None else Some Overlap)
      else None)"

definition get_agent_for_credential_reattach ::
  "fleet_settings \<Rightarrow> (ustr \<Rightarrow> string) \<Rightarrow> unicode \<Rightarrow> fleet \<Rightarrow> ustr option \<Rightarrow> instant \<Rightarrow> (AgentRow \<times> slot) http" where
  "get_agent_for_credential_reattach cfg hash_token u st authorization now =
     (case bearer_token u authorization of
        Inl e \<Rightarrow> Inl e
      | Inr token \<Rightarrow> let presented = hash_token token in
          resolve_agent st presented (\<lambda>a. reattach_slot cfg a presented now))"

section \<open>Rotation\<close>

record token_functions =
  tf_hash :: "ustr \<Rightarrow> string"
  tf_fingerprint :: "ustr \<Rightarrow> string"

definition rotate_agent_credential ::
  "fleet_settings \<Rightarrow> token_functions \<Rightarrow> AgentRow \<Rightarrow> slot \<Rightarrow> instant \<Rightarrow> ustr \<Rightarrow> ustr \<Rightarrow> AgentRow" where
  "rotate_agent_credential cfg tf a matched now rotation_nonce plaintext =
     a\<lparr>previous_token_hash := if matched \<noteq> Overlap then Some (token_hash a) else previous_token_hash a,
       previous_token_expires_at := Some (Aware (now + seconds (agent_credential_overlap_seconds cfg))),
       token_hash := tf_hash tf plaintext, credential_fingerprint := Some (tf_fingerprint tf plaintext),
       credential_issued_at := Some now,
       credential_expires_at := Some (Aware (now + seconds (agent_credential_lifetime_seconds cfg))),
       credential_generation := credential_generation a + 1, last_rotation_nonce := Some rotation_nonce,
       last_renewed_at := Some now\<rparr>"

record AgentCredentialRenewResponse =
  rn_agent_id :: string
  rn_agent_token :: ustr
  rn_overlap_expires_at :: instant
  rn_credential_generation :: int

definition rotation_nonce_ok :: "ustr \<Rightarrow> bool" where
  "rotation_nonce_ok nonce \<longleftrightarrow> 16 \<le> length nonce \<and> length nonce \<le> 64"

definition rotated_detail :: "AgentRow \<Rightarrow> json" where
  "rotated_detail a = JObj [(ustr ''credential_fingerprint'', jopt jstr (credential_fingerprint a)),
     (ustr ''credential_generation'', JInt (credential_generation a))]"

definition rotate_and_answer ::
  "fleet_settings \<Rightarrow> token_functions \<Rightarrow> string \<Rightarrow> fleet \<Rightarrow> AgentRow \<Rightarrow> slot \<Rightarrow> ustr \<Rightarrow> instant \<Rightarrow> ustr \<Rightarrow>
   fleet \<times> AgentCredentialRenewResponse http" where
  "rotate_and_answer cfg tf action st a matched nonce now plaintext =
     (let a' = rotate_agent_credential cfg tf a matched now nonce plaintext in
      (fleet_audit action (agent_actor a) None (Some (ag_id a)) (organization_id st a) (rotated_detail a') (put_agent a' st),
       Inr \<lparr>rn_agent_id = ag_id a, rn_agent_token = plaintext,
         rn_overlap_expires_at = now + seconds (agent_credential_overlap_seconds cfg),
         rn_credential_generation = credential_generation a'\<rparr>))"

text \<open>
  \<open>secrets.compare_digest\<close> takes ASCII texts only and raises \<open>TypeError\<close>, here \<open>None\<close>, on others;
  the body of a request bounds the length of a nonce, not its characters.
\<close>

definition nonce_replayed :: "ustr option \<Rightarrow> ustr \<Rightarrow> bool option" where
  "nonce_replayed before nonce =
     (case before of
        None \<Rightarrow> Some False
      | Some l \<Rightarrow> if list_all (\<lambda>c. c < 128) l \<and> list_all (\<lambda>c. c < 128) nonce then Some (l = nonce) else None)"

text \<open>
  The refusal of a replayed nonce writes an audit event and raises; the session rolls the event
  back.
\<close>

definition renew_agent_credential ::
  "fleet_settings \<Rightarrow> token_functions \<Rightarrow> unicode \<Rightarrow> fleet \<Rightarrow> ustr option \<Rightarrow> ustr \<Rightarrow> instant \<Rightarrow> ustr \<Rightarrow>
   fleet \<times> AgentCredentialRenewResponse http" where
  "renew_agent_credential cfg tf u st authorization nonce now plaintext =
     (case get_current_agent (tf_hash tf) u st authorization now of
        Inl e \<Rightarrow> (st, Inl e)
      | Inr (a, matched) \<Rightarrow>
          if \<not> rotation_nonce_ok nonce then (st, Inl (HTTPException 422 ''validation_error''))
          else case nonce_replayed (last_rotation_nonce a) nonce of
              None \<Rightarrow> (st, Inl (HTTPException 500 ''internal_error''))
            | Some True \<Rightarrow> (st, Inl (HTTPException 409 ''rotation_nonce_reused''))
            | Some False \<Rightarrow> rotate_and_answer cfg tf ''agent.credential_renewed'' st a matched nonce now plaintext)"

definition reattach_agent_credential ::
  "fleet_settings \<Rightarrow> token_functions \<Rightarrow> unicode \<Rightarrow> fleet \<Rightarrow> ustr option \<Rightarrow> ustr \<Rightarrow> instant \<Rightarrow> ustr \<Rightarrow>
   fleet \<times> AgentCredentialRenewResponse http" where
  "reattach_agent_credential cfg tf u st authorization nonce now plaintext =
     (case get_agent_for_credential_reattach cfg (tf_hash tf) u st authorization now of
        Inl e \<Rightarrow> (st, Inl e)
      | Inr (a, matched) \<Rightarrow>
          if \<not> rotation_nonce_ok nonce then (st, Inl (HTTPException 422 ''validation_error''))
          else case nonce_replayed (last_rotation_nonce a) nonce of
              None \<Rightarrow> (st, Inl (HTTPException 500 ''internal_error''))
            | Some True \<Rightarrow> (st, Inl (HTTPException 401 ''Invalid agent token''))
            | Some False \<Rightarrow> rotate_and_answer cfg tf ''agent.credential_reattached'' st a matched nonce now plaintext)"

section \<open>Trust transitions\<close>

definition trust_conflict :: http_error where
  "trust_conflict = HTTPException 409 ''agent_trust_state_conflict''"

definition trust_reason_ok :: "ustr \<Rightarrow> bool" where
  "trust_reason_ok reason \<longleftrightarrow> 3 \<le> length (strip reason) \<and> length (strip reason) \<le> 500"

definition trust_detail :: "AgentRow \<Rightarrow> AgentTrustState \<Rightarrow> ustr \<Rightarrow> json" where
  "trust_detail a new_state reason = JObj [(ustr ''previous_trust_state'', jstr (trust_state_value (trust_state a))),
     (ustr ''trust_state'', jstr (trust_state_value new_state)), (ustr ''reason'', JStr reason)]"

definition trust_row :: "AgentRow \<Rightarrow> AgentTrustState \<Rightarrow> ustr \<Rightarrow> Operator \<Rightarrow> instant \<Rightarrow> AgentRow" where
  "trust_row a new_state reason oper now =
     a\<lparr>trust_state := new_state, trust_state_reason := Some reason, trust_state_changed_at := Some now,
       trust_state_changed_by := Some (op_email oper)\<rparr>"

definition apply_trust_change ::
  "fleet \<Rightarrow> AgentRow \<Rightarrow> AgentTrustState \<Rightarrow> ustr \<Rightarrow> Operator \<Rightarrow> string \<Rightarrow> instant \<Rightarrow> fleet" where
  "apply_trust_change st a new_state reason oper action now =
     fleet_audit action (op_email oper) (Some (op_id oper)) (Some (ag_id a)) (organization_id st a)
       (trust_detail a new_state reason) (put_agent (trust_row a new_state reason oper now) st)"

text \<open>What the three endpoints share: role, body, row and tenancy, in this order.\<close>

definition trust_gate ::
  "fleet \<Rightarrow> string \<Rightarrow> ustr \<Rightarrow> Operator \<Rightarrow> OperatorRole \<Rightarrow> ClientRole \<Rightarrow> AgentRow http" where
  "trust_gate st agent_id reason oper role minimum =
     (case require_role role oper of
        Inl e \<Rightarrow> Inl e
      | Inr _ \<Rightarrow>
        if \<not> trust_reason_ok reason then Inl (HTTPException 422 ''validation_error'')
        else case db_get ag_id (fl_agents st) agent_id of
            None \<Rightarrow> Inl (HTTPException 404 ''Agent not found'')
          | Some a \<Rightarrow>
              (case assert_agent_visible (fl_db st) oper (Agent.truncate a) (Some minimum) ''Agent not found'' of
                 Inl e \<Rightarrow> Inl e
               | Inr _ \<Rightarrow> Inr a))"

definition quarantine_agent ::
  "fleet \<Rightarrow> string \<Rightarrow> ustr \<Rightarrow> Operator \<Rightarrow> instant \<Rightarrow> fleet \<times> unit http" where
  "quarantine_agent st agent_id reason oper now =
     (case trust_gate st agent_id reason oper OperatorRole_operator client_operator of
        Inl e \<Rightarrow> (st, Inl e)
      | Inr a \<Rightarrow>
          if trust_state a \<noteq> Trust_active then (st, Inl trust_conflict)
          else (apply_trust_change st a Trust_quarantined (strip reason) oper ''agent.quarantined'' now, Inr ()))"

definition restore_agent ::
  "fleet \<Rightarrow> string \<Rightarrow> ustr \<Rightarrow> Operator \<Rightarrow> instant \<Rightarrow> fleet \<times> unit http" where
  "restore_agent st agent_id reason oper now =
     (case trust_gate st agent_id reason oper OperatorRole_operator client_operator of
        Inl e \<Rightarrow> (st, Inl e)
      | Inr a \<Rightarrow>
          if trust_state a \<noteq> Trust_quarantined then (st, Inl trust_conflict)
          else (apply_trust_change st a Trust_active (strip reason) oper ''agent.restored'' now, Inr ()))"

definition unfinished :: "CommandRow \<Rightarrow> bool" where
  "unfinished c \<longleftrightarrow> co_status c \<in> set [Cmd_queued, Cmd_dispatched, Cmd_running, Cmd_result_pending]"

definition expire_commands :: "string \<Rightarrow> CommandRow rows \<Rightarrow> CommandRow rows" where
  "expire_commands agent_id = db_update (\<lambda>c. co_agent_id c = agent_id \<and> unfinished c) (\<lambda>c. c\<lparr>co_status := Cmd_expired\<rparr>)"

definition revoke_agent ::
  "fleet \<Rightarrow> string \<Rightarrow> ustr \<Rightarrow> Operator \<Rightarrow> instant \<Rightarrow> fleet \<times> unit http" where
  "revoke_agent st agent_id reason oper now =
     (case trust_gate st agent_id reason oper OperatorRole_admin client_admin of
        Inl e \<Rightarrow> (st, Inl e)
      | Inr a \<Rightarrow>
          if trust_state a = Trust_revoked then (st, Inl trust_conflict)
          else
            let expired = map co_id (filter (\<lambda>c. co_agent_id c = ag_id a \<and> unfinished c) (fl_commands st));
                st1 = st\<lparr>fl_commands := expire_commands (ag_id a) (fl_commands st)\<rparr>;
                st2 = apply_trust_change st1 a Trust_revoked (strip reason) oper ''agent.revoked'' now;
                st3 = put_agent ((trust_row a Trust_revoked (strip reason) oper now)\<lparr>revoked_at := Some (Aware now)\<rparr>) st2
            in (if expired = [] then st3
                else fleet_audit ''agent.commands_expired_on_revoke'' (op_email oper) None (Some (ag_id a)) None
                  (JObj [(ustr ''command_ids'', JArr (map jstr (sort expired)))]) st3, Inr ()))"

end
