(* ===== verification/Enrollment.thy ===== *)
theory Enrollment
  imports Agent_Credentials Command_Envelope
begin

text \<open>
  Enrollment: minting and revoking enrollment tokens and installer packages
  (\<open>server/app/api/management.py\<close>), redemption of a token (\<open>server/app/core/enrollment.py\<close>) and the
  rate-limited endpoint (\<open>server/app/api/agents.py\<close>). Redemption is a read and a later conditional
  update, so that two redemptions may interleave. Source addresses, user agents and metrics are
  left out; the identifiers and secrets a call draws, the file of the installer and the key
  material of the answer are arguments.
\<close>

section \<open>Tokens\<close>

record EnrollmentTokenCreate =
  tc_site_id :: string
  tc_name :: ustr
  tc_assigned_user_id :: "string option"
  tc_environment :: "ustr option"
  tc_hostname_restriction :: "ustr option"
  tc_agent_name_restriction :: "ustr option"
  tc_labels :: "ustr list"
  tc_label :: "ustr option"
  tc_max_uses :: int
  tc_expires_at :: "datetime option"

definition short_text :: "nat \<Rightarrow> nat \<Rightarrow> ustr \<Rightarrow> bool" where
  "short_text low high t \<longleftrightarrow> low \<le> length (strip t) \<and> length (strip t) \<le> high"

definition token_body_ok :: "unicode \<Rightarrow> EnrollmentTokenCreate \<Rightarrow> bool" where
  "token_body_ok u body \<longleftrightarrow>
     short_text 1 200 (tc_name body) \<and> pred_option (short_text 0 100) (tc_environment body) \<and>
     pred_option (short_text 0 255) (tc_hostname_restriction body) \<and>
     pred_option (short_text 0 255) (tc_agent_name_restriction body) \<and>
     length (tc_labels body) \<le> 20 \<and> list_all (short_text 1 50) (tc_labels body) \<and>
     distinct (map (\<lambda>l. casefold u (strip l)) (tc_labels body)) \<and>
     1 \<le> tc_max_uses body \<and> tc_max_uses body \<le> 100"

definition hours :: "int \<Rightarrow> int" where
  "hours n = seconds (n * 3600)"

definition token_expiry :: "fleet_settings \<Rightarrow> EnrollmentTokenCreate \<Rightarrow> instant \<Rightarrow> instant" where
  "token_expiry cfg body now =
     (case tc_expires_at body of
        None \<Rightarrow> now + hours (enrollment_token_default_expiry_hours cfg)
      | Some t \<Rightarrow> instant_of t)"

definition new_token :: "EnrollmentTokenCreate \<Rightarrow> string \<Rightarrow> string \<Rightarrow> instant \<Rightarrow> Operator \<Rightarrow> EnrollmentToken" where
  "new_token body i digest expires oper =
     \<lparr>et_id = i, et_site_id = tc_site_id body, et_token_hash = digest,
      et_name = (if strip (tc_name body) \<noteq> ustr ''Enrollment token'' \<or> \<not> given (tc_label body) then strip (tc_name body)
        else (case tc_label body of Some l \<Rightarrow> l | None \<Rightarrow> [])),
      et_assigned_user_id = tc_assigned_user_id body, et_environment = map_option strip (tc_environment body),
      et_hostname_restriction = map_option strip (tc_hostname_restriction body),
      et_agent_name_restriction = map_option strip (tc_agent_name_restriction body),
      et_labels = map strip (tc_labels body), et_max_uses = tc_max_uses body, et_uses = 0, et_revoked = False,
      et_expires_at = Some (Aware expires), et_last_used_at = None, et_revoked_at = None,
      et_created_by_id = Some (op_id oper)\<rparr>"

definition token_created_detail :: "EnrollmentToken \<Rightarrow> instant \<Rightarrow> json" where
  "token_created_detail t expires = JObj
     [(ustr ''site_id'', jstr (et_site_id t)), (ustr ''name'', JStr (et_name t)),
      (ustr ''expires_at'', JStr (isoformat expires)), (ustr ''max_uses'', JInt (et_max_uses t)),
      (ustr ''has_hostname_restriction'', JBool (given (et_hostname_restriction t))),
      (ustr ''has_agent_name_restriction'', JBool (given (et_agent_name_restriction t))),
      (ustr ''labels'', JArr (map JStr (et_labels t)))]"

text \<open>The site and the right to provision it, which minting and revoking share.\<close>

definition site_gate :: "fleet \<Rightarrow> Operator \<Rightarrow> string \<Rightarrow> string http" where
  "site_gate st oper site_id =
     (case db_get site_pk (sites (fl_db st)) site_id of
        None \<Rightarrow> Inl (HTTPException 404 ''Site not found'')
      | Some site \<Rightarrow>
          (case assert_client_action (fl_db st) oper (Some (site_client_id site)) client_operator ''Site not found'' of
             Inl e \<Rightarrow> Inl e
           | Inr _ \<Rightarrow> Inr (site_client_id site)))"

definition assigned_user_known :: "fleet \<Rightarrow> string option \<Rightarrow> bool" where
  "assigned_user_known st uid \<longleftrightarrow> given uid \<longrightarrow>
     (case uid of None \<Rightarrow> True | Some i \<Rightarrow> db_get op_id (operators (fl_db st)) i \<noteq> None)"

definition create_enrollment_token ::
  "fleet_settings \<Rightarrow> unicode \<Rightarrow> fleet \<Rightarrow> EnrollmentTokenCreate \<Rightarrow> Operator \<Rightarrow> instant \<Rightarrow> string \<Rightarrow> string \<Rightarrow>
   fleet \<times> EnrollmentToken http" where
  "create_enrollment_token cfg u st body oper now new_id digest =
     (case require_role OperatorRole_operator oper of
        Inl e \<Rightarrow> (st, Inl e)
      | Inr _ \<Rightarrow>
        if \<not> token_body_ok u body then (st, Inl (HTTPException 422 ''validation_error''))
        else case site_gate st oper (tc_site_id body) of
            Inl e \<Rightarrow> (st, Inl e)
          | Inr client \<Rightarrow>
            let expires = token_expiry cfg body now; t = new_token body new_id digest expires oper in
            if \<not> assigned_user_known st (tc_assigned_user_id body) then (st, Inl (HTTPException 404 ''Assigned user not found''))
            else if expires \<le> now then (st, Inl (HTTPException 422 ''Token expiration must be in the future''))
            else if expires > now + days (enrollment_token_max_expiry_days cfg)
            then (st, Inl (HTTPException 422 ''Token expiration cannot exceed the maximum''))
            else if tc_max_uses body > enrollment_token_max_uses cfg
            then (st, Inl (HTTPException 422 ''Maximum uses exceeds deployment policy''))
            else (fleet_audit ''enrollment_token.created'' (op_email oper) (Some (op_id oper)) None (Some client)
                    (token_created_detail t expires) (st\<lparr>fl_tokens := fl_tokens st @ [t]\<rparr>), Inr t))"

text \<open>
  An installer package mints a single-use token. \<open>artifact\<close> is the digest of the verified
  installer or the code of the refusal to ship it.
\<close>

definition installer_token :: "string \<Rightarrow> string \<Rightarrow> string \<Rightarrow> instant \<Rightarrow> Operator \<Rightarrow> EnrollmentToken" where
  "installer_token site_id i digest expires oper =
     \<lparr>et_id = i, et_site_id = site_id, et_token_hash = digest, et_name = ustr ''Personalized installer'',
      et_assigned_user_id = None, et_environment = None, et_hostname_restriction = None,
      et_agent_name_restriction = None, et_labels = [], et_max_uses = 1, et_uses = 0, et_revoked = False,
      et_expires_at = Some (Aware expires), et_last_used_at = None, et_revoked_at = None,
      et_created_by_id = Some (op_id oper)\<rparr>"

definition download_detail :: "InstallerDownload \<Rightarrow> ustr \<Rightarrow> json" where
  "download_detail d version = JObj
     [(ustr ''site_id'', jstr (dl_site_id d)), (ustr ''download_id'', jstr (dl_id d)),
      (ustr ''enrollment_token_id'', jstr (dl_enrollment_token_id d)), (ustr ''artifact_version'', JStr version),
      (ustr ''artifact_sha256'', jstr (dl_artifact_sha256 d)),
      (ustr ''token_expires_at'', JStr (isoformat (dl_token_expires_at d)))]"

definition create_installer_package ::
  "fleet_settings \<Rightarrow> (string + string) \<Rightarrow> ustr \<Rightarrow> fleet \<Rightarrow> string \<Rightarrow> Operator \<Rightarrow> instant \<Rightarrow> string \<Rightarrow> string \<Rightarrow> string \<Rightarrow>
   fleet \<times> EnrollmentToken http" where
  "create_installer_package cfg artifact version st site_id oper now new_id download_id digest =
     (case require_role OperatorRole_operator oper of
        Inl e \<Rightarrow> (st, Inl e)
      | Inr _ \<Rightarrow>
        (case site_gate st oper site_id of
           Inl e \<Rightarrow> (st, Inl e)
         | Inr client \<Rightarrow>
           (case artifact of
              Inl code \<Rightarrow> (fleet_audit ''installer_package.rejected'' (op_email oper) (Some (op_id oper)) None (Some client)
                (JObj [(ustr ''site_id'', jstr site_id), (ustr ''reason'', jstr code)]) st, Inl (HTTPException 503 code))
            | Inr sha256 \<Rightarrow>
              let expires = now + seconds (installer_token_ttl_seconds cfg);
                  t = installer_token site_id new_id digest expires oper;
                  d = \<lparr>dl_id = download_id, dl_site_id = site_id, dl_enrollment_token_id = new_id,
                    dl_created_by_email = op_email oper, dl_artifact_sha256 = sha256, dl_token_expires_at = expires\<rparr>
              in (fleet_audit ''installer_package.created'' (op_email oper) (Some (op_id oper)) None (Some client)
                    (download_detail d version)
                    (st\<lparr>fl_tokens := fl_tokens st @ [t], fl_downloads := fl_downloads st @ [d]\<rparr>), Inr t))))"

definition put_token :: "EnrollmentToken \<Rightarrow> fleet \<Rightarrow> fleet" where
  "put_token t st = st\<lparr>fl_tokens := db_update (\<lambda>q. et_id q = et_id t) (\<lambda>_. t) (fl_tokens st)\<rparr>"

definition revoke_enrollment_token ::
  "fleet \<Rightarrow> string \<Rightarrow> ustr \<Rightarrow> Operator \<Rightarrow> instant \<Rightarrow> fleet \<times> unit http" where
  "revoke_enrollment_token st token_id reason oper now =
     (case require_role OperatorRole_operator oper of
        Inl e \<Rightarrow> (st, Inl e)
      | Inr _ \<Rightarrow>
        if \<not> trust_reason_ok reason then (st, Inl (HTTPException 422 ''validation_error''))
        else case db_get et_id (fl_tokens st) token_id of
            None \<Rightarrow> (st, Inl (HTTPException 404 ''Enrollment token not found''))
          | Some t \<Rightarrow>
            let client = map_option site_client_id (db_get site_pk (sites (fl_db st)) (et_site_id t)) in
            (case assert_client_action (fl_db st) oper client client_operator ''Enrollment token not found'' of
               Inl e \<Rightarrow> (st, Inl e)
             | Inr _ \<Rightarrow>
               if et_revoked t then (st, Inr ())
               else (fleet_audit ''enrollment_token.revoked'' (op_email oper) (Some (op_id oper)) None client
                       (JObj [(ustr ''site_id'', jstr (et_site_id t)), (ustr ''reason'', JStr (strip reason))])
                       (put_token (t\<lparr>et_revoked := True, et_revoked_at := Some (Aware now)\<rparr>) st), Inr ())))"

section \<open>Redemption\<close>

record EnrollRequest =
  er_enrollment_token :: ustr
  er_hostname :: ustr
  er_agent_name :: "ustr option"
  er_os :: ustr
  er_operating_system :: "ustr option"
  er_os_version :: ustr
  er_agent_version :: ustr
  er_architecture :: ustr
  er_environment :: "ustr option"
  er_site :: "ustr option"
  er_public_key :: "ustr option"
  er_supported_command_envelope_versions :: "string list"
  er_supported_capabilities :: "string list"
  er_update_channel :: "ustr option"

datatype EnrollmentRejected = EnrollmentRejected string | MultipleResultsFound

definition or_else :: "ustr option \<Rightarrow> ustr \<Rightarrow> ustr" where
  "or_else t d = (case t of None \<Rightarrow> d | Some s \<Rightarrow> if s = [] then d else s)"

definition same_claim :: "unicode \<Rightarrow> ustr option \<Rightarrow> ustr option \<Rightarrow> bool" where
  "same_claim u expected actual \<longleftrightarrow>
     (if \<not> given expected then True
      else given actual \<and> map_option (casefold u) expected = map_option (casefold u) actual)"

definition resolved_name :: "EnrollRequest \<Rightarrow> ustr" where
  "resolved_name body = strip (or_else (er_agent_name body) (er_hostname body))"

text \<open>The restrictions of a token, in the order of the checks.\<close>

definition restriction_refusal :: "unicode \<Rightarrow> EnrollmentToken \<Rightarrow> ustr \<Rightarrow> EnrollRequest \<Rightarrow> string option" where
  "restriction_refusal u t site_name body =
     (if given (er_site body) \<and> \<not> same_claim u (Some site_name) (er_site body) then Some ''site_restriction''
      else if \<not> same_claim u (et_hostname_restriction t) (Some (er_hostname body)) then Some ''hostname_restriction''
      else if \<not> same_claim u (et_agent_name_restriction t) (Some (resolved_name body)) then Some ''agent_name_restriction''
      else if given (et_environment t) \<and> given (er_environment body) \<and> \<not> same_claim u (et_environment t) (er_environment body)
      then Some ''environment_restriction''
      else None)"

definition redeem_check ::
  "unicode \<Rightarrow> fleet \<Rightarrow> string \<Rightarrow> EnrollRequest \<Rightarrow> instant \<Rightarrow> EnrollmentRejected + EnrollmentToken" where
  "redeem_check u st digest body now =
     (case filter (\<lambda>t. et_token_hash t = digest) (fl_tokens st) of
        [] \<Rightarrow> Inl (EnrollmentRejected ''invalid'')
      | [t] \<Rightarrow>
          if et_revoked t \<or> et_revoked_at t \<noteq> None then Inl (EnrollmentRejected ''revoked'')
          else if lapsed_after (et_expires_at t) now then Inl (EnrollmentRejected ''expired'')
          else if et_uses t \<ge> et_max_uses t then Inl (EnrollmentRejected ''exhausted'')
          else (case db_get site_pk (sites (fl_db st)) (et_site_id t) of
                  None \<Rightarrow> Inl (EnrollmentRejected ''invalid_assignment'')
                | Some site \<Rightarrow>
                    (case restriction_refusal u t (fl_site_name st (site_pk site)) body of
                       Some reason \<Rightarrow> Inl (EnrollmentRejected reason)
                     | None \<Rightarrow> Inr t))
      | _ \<Rightarrow> Inl MultipleResultsFound)"

text \<open>The conditional \<open>UPDATE\<close>: its \<open>WHERE\<close> clause and its values.\<close>

definition consumable :: "string \<Rightarrow> instant \<Rightarrow> EnrollmentToken \<Rightarrow> bool" where
  "consumable i now t \<longleftrightarrow> et_id t = i \<and> \<not> et_revoked t \<and> et_revoked_at t = None \<and>
     \<not> lapsed_after (et_expires_at t) now \<and> et_uses t < et_max_uses t"

definition use_token :: "instant \<Rightarrow> EnrollmentToken \<Rightarrow> EnrollmentToken" where
  "use_token now t = t\<lparr>et_uses := et_uses t + 1, et_last_used_at := Some now\<rparr>"

definition enrolled_row ::
  "fleet_settings \<Rightarrow> token_functions \<Rightarrow> EnrollmentToken \<Rightarrow> EnrollRequest \<Rightarrow> instant \<Rightarrow> string \<Rightarrow> ustr \<Rightarrow> AgentRow" where
  "enrolled_row cfg tf t body now new_id plaintext =
     \<lparr>ag_id = new_id, ag_site_id = et_site_id t, trust_state = Trust_active,
      supported_capabilities = Some (er_supported_capabilities body),
      command_envelope_versions = Some (er_supported_command_envelope_versions body),
      ag_os = strip (or_else (er_operating_system body) (er_os body)), ag_architecture = strip (er_architecture body),
      agent_version = strip (er_agent_version body), update_channel = er_update_channel body, revoked_at = None,
      token_hash = tf_hash tf plaintext, credential_fingerprint = Some (tf_fingerprint tf plaintext),
      credential_issued_at = Some now,
      credential_expires_at = Some (Aware (now + seconds (agent_credential_lifetime_seconds cfg))),
      previous_token_hash = None, previous_token_expires_at = None, credential_generation = 1,
      last_rotation_nonce = None, last_renewed_at = None, ag_name = resolved_name body,
      ag_hostname = strip (er_hostname body), ag_os_version = strip (er_os_version body),
      ag_environment = (if given (et_environment t) then et_environment t else er_environment body),
      ag_labels = et_labels t, ag_owner_user_id = et_assigned_user_id t, enrolled_by_token_id = Some (et_id t),
      ag_status = Agent_pending, trust_state_reason = None, trust_state_changed_at = None,
      trust_state_changed_by = None, last_seen_at = None, enrolled_at = now\<rparr>"

text \<open>
  The write half, on the state it finds: the update must hit one row, which is then refreshed.
\<close>

definition redeem_consume ::
  "fleet_settings \<Rightarrow> token_functions \<Rightarrow> fleet \<Rightarrow> EnrollmentToken \<Rightarrow> EnrollRequest \<Rightarrow> instant \<Rightarrow> string \<Rightarrow> ustr \<Rightarrow>
   EnrollmentRejected + fleet \<times> AgentRow \<times> EnrollmentToken" where
  "redeem_consume cfg tf st t body now new_id plaintext =
     (if rowcount (consumable (et_id t) now) (fl_tokens st) \<noteq> 1 then Inl (EnrollmentRejected ''concurrent_use'')
      else
        let tokens = db_update (consumable (et_id t) now) (use_token now) (fl_tokens st) in
        (case db_get et_id tokens (et_id t) of
           None \<Rightarrow> Inl (EnrollmentRejected ''concurrent_use'')
         | Some t' \<Rightarrow>
             let a = enrolled_row cfg tf t' body now new_id plaintext in
             Inr (st\<lparr>fl_tokens := tokens, fl_agents := fl_agents st @ [a]\<rparr>, a, t')))"

section \<open>The endpoint\<close>

definition capabilities_ok :: "string list \<Rightarrow> string list \<Rightarrow> ustr option \<Rightarrow> bool" where
  "capabilities_ok versions capabilities channel \<longleftrightarrow>
     (let word = (\<lambda>n s. 1 \<le> length s \<and> length s \<le> n \<and>
        list_all (\<lambda>c. c = 45 \<or> ascii_digit c \<or> (97 \<le> c \<and> c \<le> 122)) (ustr s)) in
      length versions \<le> 8 \<and> list_all (word (32::nat)) versions \<and> distinct versions \<and>
      length capabilities \<le> 16 \<and> list_all (word 64) capabilities \<and> distinct capabilities \<and>
      (channel = None \<or> channel \<in> set (map (\<lambda>c. Some (ustr c)) [''stable'', ''beta'', ''canary''])))"

definition enroll_body_ok :: "EnrollRequest \<Rightarrow> bool" where
  "enroll_body_ok body \<longleftrightarrow>
     capabilities_ok (er_supported_command_envelope_versions body) (er_supported_capabilities body) (er_update_channel body) \<and>
     pred_option (\<lambda>k. length k \<le> 16384) (er_public_key body)"

definition enrollment_failed_detail :: "string \<Rightarrow> EnrollRequest \<Rightarrow> json" where
  "enrollment_failed_detail reason body = JObj [(ustr ''reason'', jstr reason), (ustr ''hostname'', JStr (er_hostname body)),
     (ustr ''agent_name'', JStr (or_else (er_agent_name body) []))]"

definition enrollment_failed :: "string \<Rightarrow> EnrollRequest \<Rightarrow> fleet \<Rightarrow> fleet" where
  "enrollment_failed reason body st =
     fleet_audit ''agent.enrollment_failed'' ''installer'' None None None (enrollment_failed_detail reason body) st"

definition enrolled_detail :: "EnrollRequest \<Rightarrow> AgentRow \<Rightarrow> EnrollmentToken \<Rightarrow> ustr \<Rightarrow> json" where
  "enrolled_detail body a t version = JObj
     [(ustr ''hostname'', JStr (er_hostname body)), (ustr ''agent_name'', JStr (ag_name a)), (ustr ''os'', JStr (ag_os a)),
      (ustr ''architecture'', JStr (ag_architecture a)), (ustr ''site_id'', jstr (et_site_id t)),
      (ustr ''environment'', jopt JStr (ag_environment a)), (ustr ''command_envelope_version'', JStr version),
      (ustr ''supported_command_envelope_versions'', JArr (map jstr (er_supported_command_envelope_versions body))),
      (ustr ''public_key_supplied'', JBool (er_public_key body \<noteq> None))]"

definition record_enrolled :: "EnrollRequest \<Rightarrow> AgentRow \<Rightarrow> EnrollmentToken \<Rightarrow> ustr \<Rightarrow> fleet \<Rightarrow> fleet" where
  "record_enrolled body a t version st =
     fleet_audit ''agent.enrolled'' (''installer:'' @ et_id t) None (Some (ag_id a))
       (map_option site_client_id (db_get site_pk (sites (fl_db st)) (et_site_id t))) (enrolled_detail body a t version) st"

text \<open>
  The limiter keeps what it counted when the request fails, since it is not part of the
  transaction. \<open>clock\<close> is its monotonic clock.
\<close>

definition enroll_admission ::
  "fleet \<Rightarrow> EnrollRequest \<Rightarrow> string \<Rightarrow> instant \<Rightarrow> fleet \<times> ustr http" where
  "enroll_admission st body source_ip clock =
     (if \<not> enroll_body_ok body then (st, Inl (HTTPException 422 ''validation_error''))
      else case retry_after (fl_limiter st) source_ip clock of
          (Inl IndexError, l) \<Rightarrow> (st\<lparr>fl_limiter := l\<rparr>, Inl (HTTPException 500 ''internal_error''))
        | (Inr (Some wait), l) \<Rightarrow>
            (enrollment_failed ''rate_limited'' body (st\<lparr>fl_limiter := l\<rparr>), Inl (HTTPException 429 ''enrollment_rate_limited''))
        | (Inr None, l) \<Rightarrow>
            let st' = st\<lparr>fl_limiter := record_failure l source_ip clock\<rparr> in
            (case select_command_envelope_version (map ustr (er_supported_command_envelope_versions body)) of
               None \<Rightarrow> (enrollment_failed ''no_common_command_envelope_version'' body st',
                 Inl (HTTPException 409 ''no_common_command_envelope_version''))
             | Some version \<Rightarrow> (st', Inr version)))"

definition enroll_rejected :: "EnrollmentRejected \<Rightarrow> EnrollRequest \<Rightarrow> fleet \<Rightarrow> fleet \<times> AgentRow http" where
  "enroll_rejected e body st =
     (case e of
        EnrollmentRejected reason \<Rightarrow> (enrollment_failed reason body st, Inl (HTTPException 403 ''enrollment_rejected''))
      | MultipleResultsFound \<Rightarrow> (st, Inl (HTTPException 500 ''internal_error'')))"

definition enroll_write ::
  "fleet_settings \<Rightarrow> token_functions \<Rightarrow> fleet \<Rightarrow> EnrollmentToken \<Rightarrow> EnrollRequest \<Rightarrow> ustr \<Rightarrow> string \<Rightarrow> instant \<Rightarrow> string \<Rightarrow>
   ustr \<Rightarrow> fleet \<times> AgentRow http" where
  "enroll_write cfg tf st t body version source_ip now new_id plaintext =
     (case redeem_consume cfg tf st t body now new_id plaintext of
        Inl e \<Rightarrow> enroll_rejected e body st
      | Inr (st', a, t') \<Rightarrow>
          (let st'' = record_enrolled body a t' version st' in
           (st''\<lparr>fl_limiter := clear (fl_limiter st'') source_ip\<rparr>, Inr a)))"

definition enroll ::
  "fleet_settings \<Rightarrow> token_functions \<Rightarrow> unicode \<Rightarrow> fleet \<Rightarrow> EnrollRequest \<Rightarrow> string \<Rightarrow> instant \<Rightarrow> instant \<Rightarrow> string \<Rightarrow>
   ustr \<Rightarrow> fleet \<times> AgentRow http" where
  "enroll cfg tf u st body source_ip clock now new_id plaintext =
     (case enroll_admission st body source_ip clock of
        (st1, Inl e) \<Rightarrow> (st1, Inl e)
      | (st1, Inr version) \<Rightarrow>
          (case redeem_check u st1 (tf_hash tf (er_enrollment_token body)) body now of
             Inl e \<Rightarrow> enroll_rejected e body st1
           | Inr t \<Rightarrow> enroll_write cfg tf st1 t body version source_ip now new_id plaintext))"

end
