(* ===== verification/Command_Delivery.thy ===== *)
theory Command_Delivery
  imports Enrollment
begin

text \<open>
  How a command reaches its endpoint and how its result comes back: the heartbeat and the
  submission of a result (\<open>server/app/api/agents.py\<close>). Of the heartbeat, the telemetry sample and
  the parts for inventory, chat, relays and monitoring are left out; they do not touch commands
  or credentials. \<open>select\<close> without an order reads the table in its order.
\<close>

section \<open>The heartbeat\<close>

record PendingResultNotice =
  pn_command_id :: string
  pn_agent_completed_at :: "datetime option"

record HeartbeatIn =
  hb_agent_version :: "ustr option"
  hb_supported_command_envelope_versions :: "string list"
  hb_supported_capabilities :: "string list"
  hb_update_channel :: "ustr option"
  hb_pending_results :: "PendingResultNotice list"

record HeartbeatAck =
  ha_pending_commands :: "CommandRow list"
  ha_trust_state :: AgentTrustState

fun aware :: "datetime option \<Rightarrow> bool" where
  "aware (Some (Naive t)) = False"
| "aware _ = True"

definition version_char :: "nat \<Rightarrow> bool" where
  "version_char c \<longleftrightarrow> ascii_digit c \<or> (65 \<le> c \<and> c \<le> 90) \<or> (97 \<le> c \<and> c \<le> 122) \<or> c \<in> set (ustr ''._+-'')"

definition heartbeat_body_ok :: "HeartbeatIn \<Rightarrow> bool" where
  "heartbeat_body_ok body \<longleftrightarrow>
     pred_option (\<lambda>v. 1 \<le> length v \<and> length v \<le> 50 \<and> list_all version_char v \<and> hd v \<notin> set (ustr ''._+-''))
       (hb_agent_version body) \<and>
     capabilities_ok (hb_supported_command_envelope_versions body) (hb_supported_capabilities body) (hb_update_channel body) \<and>
     length (hb_pending_results body) \<le> 256 \<and> distinct (map pn_command_id (hb_pending_results body)) \<and>
     list_all (\<lambda>n. 1 \<le> length (pn_command_id n) \<and> length (pn_command_id n) \<le> 64 \<and> aware (pn_agent_completed_at n))
       (hb_pending_results body)"

text \<open>The build and the capabilities that the endpoint reports; only a change is audited.\<close>

definition beat_version :: "HeartbeatIn \<Rightarrow> AgentRow \<times> fleet \<Rightarrow> AgentRow \<times> fleet" where
  "beat_version body x =
     (case x of (a, st) \<Rightarrow>
        case hb_agent_version body of
          None \<Rightarrow> (a, st)
        | Some v \<Rightarrow>
            if v = agent_version a then (a, st)
            else let a' = a\<lparr>agent_version := v\<rparr> in
              (a', fleet_audit ''agent.version_changed'' (agent_actor a) None (Some (ag_id a)) None
                 (JObj [(ustr ''previous'', JStr (agent_version a)), (ustr ''current'', JStr v)]) (put_agent a' st)))"

definition advertised_versions :: "AgentRow \<Rightarrow> string list" where
  "advertised_versions a = (case command_envelope_versions a of None \<Rightarrow> [] | Some l \<Rightarrow> l)"

definition beat_capabilities :: "HeartbeatIn \<Rightarrow> AgentRow \<times> fleet \<Rightarrow> AgentRow \<times> fleet" where
  "beat_capabilities body x =
     (case x of (a, st) \<Rightarrow>
        let previous = advertised_versions a; current = hb_supported_command_envelope_versions body;
            a' = a\<lparr>command_envelope_versions := Some current, supported_capabilities := Some (hb_supported_capabilities body),
                   update_channel := (case hb_update_channel body of None \<Rightarrow> update_channel a | c \<Rightarrow> c)\<rparr>;
            st' = put_agent a' st in
        (a', if previous \<noteq> current
             then fleet_audit ''agent.command_envelope_capabilities_changed'' (agent_actor a) None (Some (ag_id a)) None
               (JObj [(ustr ''previous'', JArr (map jstr previous)), (ustr ''current'', JArr (map jstr current))]) st'
             else st'))"

definition put_command :: "CommandRow \<Rightarrow> CommandRow rows \<Rightarrow> CommandRow rows" where
  "put_command c = db_update (\<lambda>q. co_id q = co_id c) (\<lambda>_. c)"

text \<open>The outbox of the endpoint: commands that finished there and whose result is on its way.\<close>

definition accepting :: "CommandRow \<Rightarrow> bool" where
  "accepting c \<longleftrightarrow> co_status c \<in> set [Cmd_dispatched, Cmd_running, Cmd_result_pending]"

definition notice_of :: "HeartbeatIn \<Rightarrow> CommandRow \<Rightarrow> PendingResultNotice option" where
  "notice_of body c = find (\<lambda>n. pn_command_id n = co_id c) (hb_pending_results body)"

definition noticed :: "HeartbeatIn \<Rightarrow> AgentRow \<Rightarrow> CommandRow \<Rightarrow> bool" where
  "noticed body a c \<longleftrightarrow> co_agent_id c = ag_id a \<and> notice_of body c \<noteq> None \<and> accepting c"

definition pending_row :: "PendingResultNotice option \<Rightarrow> CommandRow \<Rightarrow> CommandRow" where
  "pending_row notice c =
     (case map_option pn_agent_completed_at notice of
        Some (Some t) \<Rightarrow> c\<lparr>co_status := Cmd_result_pending, cm_result := (cm_result c)\<lparr>agent_completed_at := Some (Aware (instant_of t))\<rparr>\<rparr>
      | _ \<Rightarrow> c\<lparr>co_status := Cmd_result_pending\<rparr>)"

definition iso_time :: "datetime option \<Rightarrow> json" where
  "iso_time t = jopt (\<lambda>d. JStr (isoformat (instant_of d))) t"

definition pending_detail :: "CommandRow \<Rightarrow> PendingResultNotice option \<Rightarrow> json" where
  "pending_detail c notice = JObj [(ustr ''command_id'', jstr (co_id c)), (ustr ''kind'', jstr (kind_value (co_kind c))),
     (ustr ''agent_completed_at'', iso_time (Option.bind notice pn_agent_completed_at))]"

definition note_pending :: "HeartbeatIn \<Rightarrow> AgentRow \<Rightarrow> fleet \<Rightarrow> fleet" where
  "note_pending body a st =
     (let rows = filter (noticed body a) (fl_commands st) in
      foldl (\<lambda>s c. let s' = s\<lparr>fl_commands := put_command (pending_row (notice_of body c) c) (fl_commands s)\<rparr> in
               if co_status c \<noteq> Cmd_result_pending
               then fleet_audit ''command.result_pending'' (agent_actor a) None (Some (ag_id a)) None
                 (pending_detail c (notice_of body c)) s'
               else s')
        st rows)"

text \<open>Delivery: queued commands, and dispatched ones whose lease has elapsed, oldest first.\<close>

definition redelivery_before :: "fleet_settings \<Rightarrow> instant \<Rightarrow> instant" where
  "redelivery_before cfg now = now - seconds (max 1 (command_redelivery_seconds cfg))"

definition deliverable :: "fleet_settings \<Rightarrow> string \<Rightarrow> ustr \<Rightarrow> instant \<Rightarrow> CommandRow \<Rightarrow> bool" where
  "deliverable cfg agent_id version now c \<longleftrightarrow>
     co_agent_id c = agent_id \<and>
     (co_status c = Cmd_queued \<or>
      co_status c = Cmd_dispatched \<and>
        (case cm_dispatched_at c of None \<Rightarrow> False | Some t \<Rightarrow> instant_of t \<le> redelivery_before cfg now)) \<and>
     ustr (cm_envelope_version c) = version"

definition delivery_key :: "CommandRow \<Rightarrow> instant \<times> string" where
  "delivery_key c = (co_created_at c, co_id c)"

text \<open>The loop with its batch: the rows it writes, and those it hands out, in order.\<close>

fun hand_out :: "instant \<Rightarrow> nat \<Rightarrow> CommandRow list \<Rightarrow> CommandRow list \<times> CommandRow list" where
  "hand_out now batch [] = ([], [])"
| "hand_out now batch (c # cs) =
     (if co_expires_at c < now
      then (case hand_out now batch cs of (written, pending) \<Rightarrow> (c\<lparr>co_status := Cmd_expired\<rparr> # written, pending))
      else let c' = c\<lparr>co_status := Cmd_dispatched, cm_dispatched_at := Some (Aware now)\<rparr> in
        if batch \<le> 1 then ([c'], [c'])
        else (case hand_out now (batch - 1) cs of (written, pending) \<Rightarrow> (c' # written, c' # pending)))"

definition deliver :: "fleet_settings \<Rightarrow> string \<Rightarrow> ustr option \<Rightarrow> instant \<Rightarrow> fleet \<Rightarrow> fleet \<times> CommandRow list" where
  "deliver cfg agent_id selected now st =
     (case selected of
        None \<Rightarrow> (st, [])
      | Some version \<Rightarrow>
          (let batch = nat (max 1 (max_commands_per_heartbeat cfg));
               rows = sort_key delivery_key (filter (deliverable cfg agent_id version now) (fl_commands st)) in
           case hand_out now batch rows of (written, pending) \<Rightarrow>
             (st\<lparr>fl_commands := foldl (\<lambda>t c. put_command c t) (fl_commands st) written\<rparr>, pending)))"

definition heartbeat ::
  "fleet_settings \<Rightarrow> token_functions \<Rightarrow> unicode \<Rightarrow> fleet \<Rightarrow> ustr option \<Rightarrow> HeartbeatIn \<Rightarrow> instant \<Rightarrow> fleet \<times> HeartbeatAck http" where
  "heartbeat cfg tf u st authorization body now =
     (case get_current_agent (tf_hash tf) u st authorization now of
        Inl e \<Rightarrow> (st, Inl e)
      | Inr (a, matched) \<Rightarrow>
        if \<not> heartbeat_body_ok body then (st, Inl (HTTPException 422 ''validation_error''))
        else if trust_state a = Trust_quarantined
        then (put_agent (a\<lparr>last_seen_at := Some now\<rparr>) st,
              Inr \<lparr>ha_pending_commands = [], ha_trust_state = trust_state a\<rparr>)
        else
          let a1 = a\<lparr>last_seen_at := Some now, ag_status := Agent_online\<rparr> in
          (case beat_capabilities body (beat_version body (a1, put_agent a1 st)) of (a2, st2) \<Rightarrow>
            let st3 = note_pending body a2 st2;
                selected = select_command_envelope_version (map ustr (hb_supported_command_envelope_versions body)) in
            (case deliver cfg (ag_id a2) selected now st3 of (st4, pending) \<Rightarrow>
               (st4, Inr \<lparr>ha_pending_commands = pending, ha_trust_state = trust_state a2\<rparr>))))"

section \<open>Results\<close>

definition MAX_RESULT_STREAM_BYTES :: nat where "MAX_RESULT_STREAM_BYTES = 256 * 1024 + 256"

definition MAX_RESULT_COMBINED_BYTES :: nat where "MAX_RESULT_COMBINED_BYTES = 384 * 1024 + 256"

record CommandResult =
  rs_exit_code :: int
  rs_stdout :: ustr
  rs_stderr :: ustr
  rs_agent_completed_at :: "datetime option"
  rs_stdout_truncated :: "bool option"
  rs_stderr_truncated :: "bool option"
  rs_stdout_total_bytes :: "int option"
  rs_stderr_total_bytes :: "int option"

definition result_body_ok :: "CommandResult \<Rightarrow> bool" where
  "result_body_ok body \<longleftrightarrow>
     pred_option (\<lambda>n. 0 \<le> n) (rs_stdout_total_bytes body) \<and> pred_option (\<lambda>n. 0 \<le> n) (rs_stderr_total_bytes body) \<and>
     aware (rs_agent_completed_at body) \<and>
     (case (encode_utf8 (rs_stdout body), encode_utf8 (rs_stderr body)) of
        (Some out, Some err) \<Rightarrow> length out \<le> MAX_RESULT_STREAM_BYTES \<and> length err \<le> MAX_RESULT_STREAM_BYTES \<and>
          length out + length err \<le> MAX_RESULT_COMBINED_BYTES
      | _ \<Rightarrow> False)"

definition columns_of :: "CommandResult \<Rightarrow> result_columns" where
  "columns_of body =
     \<lparr>exit_code = Some (rs_exit_code body), stdout = Some (rs_stdout body), stderr = Some (rs_stderr body),
      stdout_truncated = rs_stdout_truncated body, stderr_truncated = rs_stderr_truncated body,
      stdout_total_bytes = rs_stdout_total_bytes body, stderr_total_bytes = rs_stderr_total_bytes body,
      agent_completed_at = map_option (\<lambda>t. Aware (instant_of t)) (rs_agent_completed_at body)\<rparr>"

definition same_result :: "CommandRow \<Rightarrow> CommandResult \<Rightarrow> bool" where
  "same_result c body \<longleftrightarrow>
     (let r = cm_result c in
      r\<lparr>agent_completed_at := None\<rparr> = (columns_of body)\<lparr>agent_completed_at := None\<rparr> \<and>
      ensure_utc (agent_completed_at r) = ensure_utc (rs_agent_completed_at body))"

definition completed_row :: "CommandRow \<Rightarrow> CommandResult \<Rightarrow> instant \<Rightarrow> CommandRow" where
  "completed_row c body now =
     c\<lparr>cm_result := columns_of body, co_status := if rs_exit_code body = 0 then Cmd_succeeded else Cmd_failed,
       cm_completed_at := Some now\<rparr>"

fun command_status_value :: "CommandStatus \<Rightarrow> string" where
  "command_status_value Cmd_queued = ''queued''"
| "command_status_value Cmd_dispatched = ''dispatched''"
| "command_status_value Cmd_running = ''running''"
| "command_status_value Cmd_result_pending = ''result_pending''"
| "command_status_value Cmd_succeeded = ''succeeded''"
| "command_status_value Cmd_failed = ''failed''"
| "command_status_value Cmd_expired = ''expired''"

definition completed_detail :: "CommandRow \<Rightarrow> CommandResult \<Rightarrow> json" where
  "completed_detail c body = JObj
     [(ustr ''command_id'', jstr (co_id c)), (ustr ''kind'', jstr (kind_value (co_kind c))),
      (ustr ''exit_code'', JInt (rs_exit_code body)), (ustr ''status'', jstr (command_status_value (co_status c))),
      (ustr ''agent_completed_at'', iso_time (rs_agent_completed_at body)),
      (ustr ''stdout_truncated'', jopt JBool (rs_stdout_truncated body)),
      (ustr ''stderr_truncated'', jopt JBool (rs_stderr_truncated body)),
      (ustr ''stdout_total_bytes'', jopt JInt (rs_stdout_total_bytes body)),
      (ustr ''stderr_total_bytes'', jopt JInt (rs_stderr_total_bytes body))]"

definition submit_result ::
  "token_functions \<Rightarrow> unicode \<Rightarrow> fleet \<Rightarrow> ustr option \<Rightarrow> string \<Rightarrow> CommandResult \<Rightarrow> instant \<Rightarrow> fleet \<times> unit http" where
  "submit_result tf u st authorization command_id body now =
     (case get_current_agent (tf_hash tf) u st authorization now of
        Inl e \<Rightarrow> (st, Inl e)
      | Inr (a, matched) \<Rightarrow>
        if \<not> result_body_ok body then (st, Inl (HTTPException 422 ''validation_error''))
        else if trust_state a \<noteq> Trust_active then (st, Inl (HTTPException 403 ''agent_quarantined''))
        else case find (\<lambda>c. co_id c = command_id \<and> co_agent_id c = ag_id a) (fl_commands st) of
            None \<Rightarrow> (st, Inl (HTTPException 404 ''Command not found''))
          | Some c \<Rightarrow>
              if co_status c \<in> set [Cmd_succeeded, Cmd_failed]
              then (st, if same_result c body then Inr () else Inl (HTTPException 409 ''command_result_conflict''))
              else if \<not> accepting c then (st, Inl (HTTPException 409 ''command_not_accepting_results''))
              else let c' = completed_row c body now in
                (fleet_audit ''command.completed'' (agent_actor a) None (Some (ag_id a)) None (completed_detail c' body)
                   (st\<lparr>fl_commands := put_command c' (fl_commands st)\<rparr>), Inr ()))"

end
