(* ===== verification/Fleet_Invariant.thy ===== *)
theory Fleet_Invariant
  imports Command_Delivery
begin

text \<open>
  The invariant of the agent-facing tables and the lemma, for each operation, that it keeps the
  invariant and lets rows change only forwards: agents keep their identity and stay revoked,
  commands keep their content and stay finished.
\<close>

section \<open>Tables that grow\<close>

text \<open>Rows may be appended, and the old ones change only as \<open>R\<close> allows.\<close>

definition grows :: "('r \<Rightarrow> 'r \<Rightarrow> bool) \<Rightarrow> 'r rows \<Rightarrow> 'r rows \<Rightarrow> bool" where
  "grows R xs ys \<longleftrightarrow> (\<exists>zs new. ys = zs @ new \<and> list_all2 R xs zs)"

lemma grows_refl: "(\<And>x. R x x) \<Longrightarrow> grows R xs xs"
  unfolding grows_def by (metis append_Nil2 list_all2_refl)

lemma grows_append: "(\<And>x. R x x) \<Longrightarrow> grows R xs (xs @ new)"
  unfolding grows_def by (metis list_all2_refl)

lemma grows_trans:
  assumes "\<And>x y z. R x y \<Longrightarrow> R y z \<Longrightarrow> R x z" "grows R xs ys" "grows R ys zs"
  shows "grows R xs zs"
proof -
  obtain ys' new where y: "ys = ys' @ new" "list_all2 R xs ys'" using assms(2) by (auto simp: grows_def)
  obtain zs' more where z: "zs = zs' @ more" "list_all2 R ys zs'" using assms(3) by (auto simp: grows_def)
  obtain as bs where ab: "zs' = as @ bs" "list_all2 R ys' as" using z(2) unfolding y(1) by (auto simp: list_all2_append1)
  have "list_all2 R xs as" using list_all2_trans [of R R R xs ys' as] y(2) ab(2) assms(1) by blast
  then show ?thesis unfolding grows_def z(1) ab(1) append_assoc by blast
qed

lemma grows_mem: "grows R xs ys \<Longrightarrow> x \<in> set xs \<Longrightarrow> \<exists>y \<in> set ys. R x y"
  unfolding grows_def by (metis Un_iff in_set_conv_nth list_all2_conv_all_nth set_append)

lemma grows_map: "(\<And>x. x \<in> set xs \<Longrightarrow> R x (f x)) \<Longrightarrow> grows R xs (map f xs)"
  unfolding grows_def by (metis append_Nil2 list_all2_map2 list.rel_refl_strong)

lemma grows_update:
  assumes "\<And>x. x \<in> set xs \<Longrightarrow> P x \<Longrightarrow> R x (f x)" "\<And>x. R x x"
  shows "grows R xs (db_update P f xs)"
  unfolding db_update_def by (rule grows_map) (use assms in auto)

section \<open>How rows change\<close>

definition finished :: "CommandRow \<Rightarrow> bool" where
  "finished c \<longleftrightarrow> co_status c \<in> set [Cmd_succeeded, Cmd_failed, Cmd_expired]"

definition command_le :: "CommandRow \<Rightarrow> CommandRow \<Rightarrow> bool" where
  "command_le c c' \<longleftrightarrow> co_id c' = co_id c \<and> co_agent_id c' = co_agent_id c \<and> co_kind c' = co_kind c \<and>
     co_payload c' = co_payload c \<and> co_created_at c' = co_created_at c \<and> co_expires_at c' = co_expires_at c \<and>
     cm_envelope_version c' = cm_envelope_version c \<and> (finished c \<longrightarrow> c' = c)"

lemma command_le_refl [simp]: "command_le c c"
  by (simp add: command_le_def)

lemma command_le_trans: "command_le a b \<Longrightarrow> command_le b c \<Longrightarrow> command_le a c"
  by (auto simp: command_le_def)

definition agent_le :: "AgentRow \<Rightarrow> AgentRow \<Rightarrow> bool" where
  "agent_le a a' \<longleftrightarrow> ag_id a' = ag_id a \<and> ag_site_id a' = ag_site_id a \<and> enrolled_by_token_id a' = enrolled_by_token_id a \<and>
     (trust_state a = Trust_revoked \<longrightarrow> trust_state a' = Trust_revoked)"

lemma agent_le_refl [simp]: "agent_le a a"
  by (simp add: agent_le_def)

lemma agent_le_trans: "agent_le a b \<Longrightarrow> agent_le b c \<Longrightarrow> agent_le a c"
  by (auto simp: agent_le_def)

abbreviation commands_grow :: "fleet \<Rightarrow> fleet \<Rightarrow> bool" where
  "commands_grow st st' \<equiv> grows command_le (fl_commands st) (fl_commands st')"

abbreviation agents_grow :: "fleet \<Rightarrow> fleet \<Rightarrow> bool" where
  "agents_grow st st' \<equiv> grows agent_le (fl_agents st) (fl_agents st')"

text \<open>The hashes under which a row answers.\<close>

definition slots :: "AgentRow \<Rightarrow> string set" where
  "slots a = insert (token_hash a) (set_option (previous_token_hash a))"

definition hashes :: "fleet \<Rightarrow> string set" where
  "hashes st = \<Union> (slots ` set (fl_agents st))"

definition enrolled_by :: "fleet \<Rightarrow> string \<Rightarrow> nat" where
  "enrolled_by st i = length (filter (\<lambda>a. enrolled_by_token_id a = Some i) (fl_agents st))"

definition token_ok :: "fleet \<Rightarrow> EnrollmentToken \<Rightarrow> bool" where
  "token_ok st t \<longleftrightarrow> et_uses t \<le> et_max_uses t \<and> et_uses t = int (enrolled_by st (et_id t))"

text \<open>What a status says of the other columns; nothing in the server sets \<open>running\<close>.\<close>

definition row_ok :: "CommandRow \<Rightarrow> bool" where
  "row_ok c \<longleftrightarrow>
     (case co_status c of
        Cmd_queued \<Rightarrow> cm_dispatched_at c = None \<and> cm_completed_at c = None \<and> exit_code (cm_result c) = None
      | Cmd_dispatched \<Rightarrow> cm_dispatched_at c \<noteq> None \<and> cm_completed_at c = None \<and> exit_code (cm_result c) = None
      | Cmd_running \<Rightarrow> False
      | Cmd_result_pending \<Rightarrow> cm_dispatched_at c \<noteq> None \<and> cm_completed_at c = None \<and> exit_code (cm_result c) = None
      | Cmd_succeeded \<Rightarrow> cm_dispatched_at c \<noteq> None \<and> cm_completed_at c \<noteq> None \<and> exit_code (cm_result c) = Some 0
      | Cmd_failed \<Rightarrow> cm_dispatched_at c \<noteq> None \<and> cm_completed_at c \<noteq> None \<and> exit_code (cm_result c) \<notin> {None, Some 0}
      | Cmd_expired \<Rightarrow> cm_completed_at c = None \<and> exit_code (cm_result c) = None)"

definition fleet_inv :: "fleet \<Rightarrow> bool" where
  "fleet_inv st \<longleftrightarrow> distinct (map ag_id (fl_agents st)) \<and> distinct (map et_id (fl_tokens st)) \<and>
     distinct (map co_id (fl_commands st)) \<and>
     (\<forall>a \<in> set (fl_agents st). \<forall>b \<in> set (fl_agents st). slots a \<inter> slots b \<noteq> {} \<longrightarrow> a = b) \<and>
     (\<forall>a \<in> set (fl_agents st). set_option (enrolled_by_token_id a) \<subseteq> et_id ` set (fl_tokens st)) \<and>
     (\<forall>t \<in> set (fl_tokens st). token_ok st t) \<and> (\<forall>c \<in> set (fl_commands st). row_ok c)"

lemma fleet_invD:
  assumes "fleet_inv st"
  shows "distinct (map ag_id (fl_agents st))" "distinct (map et_id (fl_tokens st))" "distinct (map co_id (fl_commands st))"
    "\<And>a b. a \<in> set (fl_agents st) \<Longrightarrow> b \<in> set (fl_agents st) \<Longrightarrow> slots a \<inter> slots b \<noteq> {} \<Longrightarrow> a = b"
    "\<And>a. a \<in> set (fl_agents st) \<Longrightarrow> set_option (enrolled_by_token_id a) \<subseteq> et_id ` set (fl_tokens st)"
    "\<And>t. t \<in> set (fl_tokens st) \<Longrightarrow> token_ok st t" "\<And>c. c \<in> set (fl_commands st) \<Longrightarrow> row_ok c"
  using assms unfolding fleet_inv_def by blast+

lemma fleet_inv_cong:
  "fl_agents st = fl_agents st' \<Longrightarrow> fl_tokens st = fl_tokens st' \<Longrightarrow>
     distinct (map co_id (fl_commands st')) \<Longrightarrow> (\<And>c. c \<in> set (fl_commands st') \<Longrightarrow> row_ok c) \<Longrightarrow>
     fleet_inv st \<Longrightarrow> fleet_inv st'"
  unfolding fleet_inv_def token_ok_def enrolled_by_def by metis

text \<open>Replacing the row of an agent by one with the same identity.\<close>

lemma fleet_inv_put_agent:
  assumes inv: "fleet_inv st" and a: "a \<in> set (fl_agents st)"
    and id: "ag_id a' = ag_id a" "enrolled_by_token_id a' = enrolled_by_token_id a"
    and s: "slots a' \<subseteq> slots a \<union> H" "H \<inter> hashes st = {}"
  shows "fleet_inv (put_agent a' st)"
proof -
  note I = fleet_invD [OF inv]
  note put = put_agent_mem [OF I(1) a id(1)]
  have slot: "slots a' \<inter> slots b = {}" if b: "b \<in> set (fl_agents st)" "b \<noteq> a" for b
    using I(4) [OF a b(1)] b s unfolding hashes_def by blast
  have only: "b = c" if "b \<in> set (fl_agents (put_agent a' st))" "c \<in> set (fl_agents (put_agent a' st))"
    "slots b \<inter> slots c \<noteq> {}" for b c
    using that I(4) [of b c] slot [of b] slot [of c] unfolding put(1) by blast
  have "enrolled_by_token_id (if ag_id q = ag_id a' then a' else q) = enrolled_by_token_id q" if "q \<in> set (fl_agents st)" for q
    using that a id I(1) by (auto simp: distinct_map inj_on_def)
  then have "length (filter (\<lambda>q. enrolled_by_token_id q = Some i) (fl_agents (put_agent a' st))) = enrolled_by st i" for i
    unfolding put_agent_def db_update_def enrolled_by_def by (simp add: filter_map comp_def cong: filter_cong)
  then have count: "enrolled_by (put_agent a' st) i = enrolled_by st i" for i by (simp add: enrolled_by_def)
  have "token_ok (put_agent a' st) t" if "t \<in> set (fl_tokens st)" for t
    using I(6) [OF that] by (simp add: token_ok_def count)
  moreover have "set_option (enrolled_by_token_id b) \<subseteq> et_id ` set (fl_tokens st)" if "b \<in> set (fl_agents (put_agent a' st))" for b
    using that I(5) [OF a] I(5) [of b] id(2) unfolding put(1) by auto
  ultimately show ?thesis
    unfolding fleet_inv_def using I(1-3,7) put(2) only by (simp add: put_agent_tables)
qed

lemma agents_grow_put:
  assumes "fleet_inv st" "a \<in> set (fl_agents st)" "agent_le a a'"
  shows "agents_grow st (put_agent a' st)"
  unfolding put_agent_def
proof (simp, rule grows_update)
  fix x assume x: "x \<in> set (fl_agents st)" "ag_id x = ag_id a'"
  then have "x = a" using fleet_invD(1) [OF assms(1)] assms(2,3) by (auto simp: distinct_map inj_on_def agent_le_def)
  then show "agent_le x a'" using assms(3) by simp
qed simp

lemma put_agent_twice: "ag_id a = ag_id b \<Longrightarrow> fl_agents (put_agent a (put_agent b st)) = fl_agents (put_agent a st)"
  by (simp add: put_agent_def db_update_def)

section \<open>Steps that keep the invariant\<close>

definition good :: "fleet \<Rightarrow> fleet \<Rightarrow> bool" where
  "good st st' \<longleftrightarrow> fleet_inv st' \<and> agents_grow st st' \<and> commands_grow st st'"

lemma good_refl: "fleet_inv st \<Longrightarrow> good st st"
  by (simp add: good_def grows_refl)

lemma agents_grow_trans: "grows agent_le xs ys \<Longrightarrow> grows agent_le ys zs \<Longrightarrow> grows agent_le xs zs"
  by (rule grows_trans [OF agent_le_trans])

lemma commands_grow_trans: "grows command_le xs ys \<Longrightarrow> grows command_le ys zs \<Longrightarrow> grows command_le xs zs"
  by (rule grows_trans [OF command_le_trans])

lemma good_trans: "good st st1 \<Longrightarrow> good st1 st2 \<Longrightarrow> good st st2"
  unfolding good_def using agents_grow_trans commands_grow_trans by blast

lemma good_cong:
  assumes "fleet_inv st" "fl_agents st' = fl_agents st" "fl_tokens st' = fl_tokens st" "fl_commands st' = fl_commands st"
  shows "good st st'"
  using assms fleet_inv_cong [of st st'] fleet_invD(3,7) [OF assms(1)] by (simp add: good_def grows_refl)

lemma good_audit: "fleet_inv st \<Longrightarrow> good st (fleet_audit a b c d e f st)"
  by (rule good_cong) simp_all

lemma good_then_audit: "good st st' \<Longrightarrow> good st (fleet_audit a b c d e f st')"
  using good_trans good_audit good_def by blast

lemma good_put_agent:
  assumes "fleet_inv st" "a \<in> set (fl_agents st)" "agent_le a a'" "slots a' \<subseteq> slots a \<union> H" "H \<inter> hashes st = {}"
  shows "good st (put_agent a' st)"
  using fleet_inv_put_agent [OF assms(1,2) _ _ assms(4,5)] agents_grow_put [OF assms(1-3)] assms(3)
  by (simp add: good_def agent_le_def grows_refl)

lemma good_commands:
  assumes "fleet_inv st" "\<And>c. c \<in> set (fl_commands st) \<Longrightarrow> command_le c (f c) \<and> (row_ok c \<longrightarrow> row_ok (f c))"
  shows "good st (st\<lparr>fl_commands := map f (fl_commands st)\<rparr>)"
proof -
  have "map co_id (map f (fl_commands st)) = map co_id (fl_commands st)"
    using assms(2) by (simp add: command_le_def)
  then have "distinct (map co_id (map f (fl_commands st)))" using fleet_invD(3) [OF assms(1)] by metis
  then have "fleet_inv (st\<lparr>fl_commands := map f (fl_commands st)\<rparr>)"
    using fleet_invD(7) [OF assms(1)] assms(2) by (intro fleet_inv_cong [OF _ _ _ _ assms(1)]) auto
  then show ?thesis using grows_map [of "fl_commands st" command_le f] assms(2) by (simp add: good_def grows_refl)
qed

text \<open>Writing rows of the table one by one.\<close>

definition put_rows :: "(CommandRow \<Rightarrow> CommandRow) \<Rightarrow> CommandRow list \<Rightarrow> CommandRow rows \<Rightarrow> CommandRow rows" where
  "put_rows f rows t = foldl (\<lambda>t c. put_command (f c) t) t rows"

lemma put_rows_map:
  assumes "distinct (map co_id t)" "set rows \<subseteq> set t" "distinct (map co_id rows)" "\<And>c. co_id (f c) = co_id c"
  shows "put_rows f rows t = map (\<lambda>q. if q \<in> set rows then f q else q) t"
  using assms(1-3)
proof (induction rows arbitrary: t)
  case (Cons r rows)
  let ?t = "map (\<lambda>q. if q = r then f r else q) t"
  have eq: "q = r" if "q \<in> set t" "co_id q = co_id r" for q
    using that Cons.prems(1,2) by (auto simp: distinct_map inj_on_def)
  then have put: "put_command (f r) t = ?t"
    unfolding put_command_def db_update_def using assms(4) by (intro map_cong) auto
  have "map co_id ?t = map co_id t" using assms(4) by simp
  then have "distinct (map co_id ?t)" using Cons.prems(1) by metis
  moreover have "set rows \<subseteq> set ?t" using Cons.prems(2,3) by force
  ultimately have "put_rows f rows ?t = map (\<lambda>q. if q \<in> set rows then f q else q) ?t"
    using Cons.IH Cons.prems(3) by simp
  moreover have "f r \<notin> set rows" using Cons.prems(3) assms(4) by (metis distinct.simps(2) image_eqI list.simps(9) set_map)
  ultimately show ?case using put by (auto simp: put_rows_def)
qed (simp add: put_rows_def)

lemma good_put_rows:
  assumes "fleet_inv st" "set rows \<subseteq> set (fl_commands st)" "distinct (map co_id rows)"
    and "\<And>c. co_id (f c) = co_id c" "\<And>c. c \<in> set rows \<Longrightarrow> command_le c (f c) \<and> (row_ok c \<longrightarrow> row_ok (f c))"
  shows "good st (st\<lparr>fl_commands := put_rows f rows (fl_commands st)\<rparr>)"
  unfolding put_rows_map [OF fleet_invD(3) [OF assms(1)] assms(2-4)]
  by (rule good_commands [OF assms(1)]) (simp add: assms(5))

lemma filter_ids: "distinct (map f xs) \<Longrightarrow> distinct (map f (filter P xs))"
  by (simp add: distinct_map_filter)

lemma sort_ids: "distinct (map f xs) \<Longrightarrow> distinct (map f (sort_key k xs))"
  by (simp add: distinct_map)

lemma take_ids: "distinct (map f xs) \<Longrightarrow> distinct (map f (take k xs))"
  by (metis distinct_take take_map)

section \<open>Authentication\<close>

lemma resolve_agent_Inr:
  assumes "resolve_agent st presented matched = Inr (a, s)"
  shows "a \<in> set (fl_agents st)" "presented \<in> slots a" "matched a = Some s"
proof -
  obtain b where b: "agents_with_hash st presented = [b]"
    using assms by (cases "agents_with_hash st presented"; cases "tl (agents_with_hash st presented)")
      (simp_all add: resolve_agent_def)
  then have "(case matched b of None \<Rightarrow> Inl (HTTPException 401 ''Invalid agent token'') | Some s \<Rightarrow> Inr (b, s)) = Inr (a, s)"
    using assms by (simp add: resolve_agent_def)
  then have "b = a \<and> matched b = Some s" by (cases "matched b") simp_all
  with b have "agents_with_hash st presented = [a]" and m: "matched a = Some s" by blast+
  then have "a \<in> set (agents_with_hash st presented)" by simp
  then show "a \<in> set (fl_agents st)" "presented \<in> slots a" by (auto simp: agents_with_hash_def slots_def)
  show "matched a = Some s" by (rule m)
qed

lemma current_agent_Inr:
  assumes "get_current_agent H u st h now = Inr (a, s)"
  obtains token where "bearer_token u h = Inr token" "a \<in> set (fl_agents st)" "H token \<in> slots a"
    "current_slot a (H token) now = Some s"
  using assms resolve_agent_Inr unfolding get_current_agent_def Let_def by (auto split: sum.splits)

lemma reattach_agent_Inr:
  assumes "get_agent_for_credential_reattach cfg H u st h now = Inr (a, s)"
  obtains token where "bearer_token u h = Inr token" "a \<in> set (fl_agents st)" "H token \<in> slots a"
    "reattach_slot cfg a (H token) now = Some s"
  using assms resolve_agent_Inr unfolding get_agent_for_credential_reattach_def Let_def by (auto split: sum.splits)

lemma filter_single:
  assumes "distinct xs" "a \<in> set xs" "P a" "\<And>x. x \<in> set xs \<Longrightarrow> P x \<Longrightarrow> x = a"
  shows "filter P xs = [a]"
proof -
  obtain ys zs where xs: "xs = ys @ a # zs" using assms(2) by (auto dest: split_list)
  have "\<forall>x \<in> set ys. \<not> P x" "\<forall>x \<in> set zs. \<not> P x"
    using assms(1,4) unfolding xs by fastforce+
  then show ?thesis using assms(3) by (simp add: xs)
qed

lemma agents_with_hash_single:
  assumes "fleet_inv st" "a \<in> set (fl_agents st)" "presented \<in> slots a"
  shows "agents_with_hash st presented = [a]"
  unfolding agents_with_hash_def
proof (rule filter_single)
  show "distinct (fl_agents st)" using fleet_invD(1) [OF assms(1)] by (simp add: distinct_map)
  show "token_hash a = presented \<or> previous_token_hash a = Some presented" using assms(3) by (auto simp: slots_def)
  fix b assume "b \<in> set (fl_agents st)" "token_hash b = presented \<or> previous_token_hash b = Some presented"
  then show "b = a" using fleet_invD(4) [OF assms(1) _ assms(2), of b] assms(3) by (auto simp: slots_def)
qed (use assms(2) in simp)

lemma current_agent_iff:
  assumes "fleet_inv st" "a \<in> set (fl_agents st)" "bearer_token u h = Inr token" "H token \<in> slots a"
  shows "get_current_agent H u st h now =
    (case current_slot a (H token) now of None \<Rightarrow> Inl (HTTPException 401 ''Invalid agent token'') | Some s \<Rightarrow> Inr (a, s))"
  using agents_with_hash_single [OF assms(1,2,4)] assms(3)
  by (simp add: get_current_agent_def resolve_agent_def)

lemma slot_not_revoked:
  "current_slot a p now = Some s \<Longrightarrow> trust_state a \<noteq> Trust_revoked"
  "reattach_slot cfg a p now = Some s \<Longrightarrow> trust_state a = Trust_active"
  by (simp_all add: current_slot_def reattach_slot_def split: if_splits)

section \<open>The handlers keep the invariant\<close>

lemma rotated_fields [simp]:
  "ag_id (rotate_agent_credential cfg tf a m now nonce p) = ag_id a"
  "trust_state (rotate_agent_credential cfg tf a m now nonce p) = trust_state a"
  "agent_le a (rotate_agent_credential cfg tf a m now nonce p)"
  by (simp_all add: rotate_agent_credential_def agent_le_def)

lemma rotated_slots: "slots (rotate_agent_credential cfg tf a m now nonce p) \<subseteq> slots a \<union> {tf_hash tf p}"
  by (auto simp: rotate_agent_credential_def slots_def split: if_splits)

lemma good_rotate:
  assumes "fleet_inv st" "a \<in> set (fl_agents st)" "tf_hash tf p \<notin> hashes st"
  shows "good st (fst (rotate_and_answer cfg tf action st a m nonce now p))"
  unfolding rotate_and_answer_def Let_def fst_conv
  by (rule good_then_audit, rule good_put_agent [OF assms(1,2) rotated_fields(3) rotated_slots]) (use assms(3) in simp)

lemma good_renew:
  assumes "fleet_inv st" "tf_hash tf p \<notin> hashes st"
  shows "good st (fst (renew_agent_credential cfg tf u st h nonce now p))"
proof (cases "get_current_agent (tf_hash tf) u st h now")
  case (Inr x)
  obtain a m where x: "x = (a, m)" by fastforce
  then have "a \<in> set (fl_agents st)" using Inr by (blast elim: current_agent_Inr)
  then show ?thesis using good_rotate [OF assms(1) _ assms(2)] good_refl [OF assms(1)] Inr x
    by (simp add: renew_agent_credential_def split: option.split bool.split)
qed (simp add: renew_agent_credential_def good_refl assms)

lemma good_reattach:
  assumes "fleet_inv st" "tf_hash tf p \<notin> hashes st"
  shows "good st (fst (reattach_agent_credential cfg tf u st h nonce now p))"
proof (cases "get_agent_for_credential_reattach cfg (tf_hash tf) u st h now")
  case (Inr x)
  obtain a m where x: "x = (a, m)" by fastforce
  then have "a \<in> set (fl_agents st)" using Inr by (blast elim: reattach_agent_Inr)
  then show ?thesis using good_rotate [OF assms(1) _ assms(2)] good_refl [OF assms(1)] Inr x
    by (simp add: reattach_agent_credential_def split: option.split bool.split)
qed (simp add: reattach_agent_credential_def good_refl assms)

lemma trust_gate_Inr: "trust_gate st i reason oper role minimum = Inr a \<Longrightarrow> a \<in> set (fl_agents st)"
  by (auto simp: trust_gate_def dest: db_get_SomeD split: sum.splits option.splits if_splits)

lemma trust_row_fields [simp]:
  "ag_id (trust_row a s reason oper now) = ag_id a" "slots (trust_row a s reason oper now) = slots a"
  "trust_state (trust_row a s reason oper now) = s"
  "enrolled_by_token_id (trust_row a s reason oper now) = enrolled_by_token_id a"
  "ag_site_id (trust_row a s reason oper now) = ag_site_id a"
  by (simp_all add: trust_row_def slots_def)

lemma slots_update [simp]:
  "slots (a\<lparr>revoked_at := r\<rparr>) = slots a" "slots (a\<lparr>last_seen_at := t\<rparr>) = slots a"
  "slots (a\<lparr>last_seen_at := t, ag_status := x\<rparr>) = slots a"
  by (simp_all add: slots_def)

lemma good_trust:
  assumes "fleet_inv st" "a \<in> set (fl_agents st)" "trust_state a = Trust_revoked \<longrightarrow> s = Trust_revoked"
  shows "good st (apply_trust_change st a s reason oper action now)"
  unfolding apply_trust_change_def
  by (rule good_then_audit, rule good_put_agent [OF assms(1,2), where H = "{}"]) (use assms(3) in \<open>simp_all add: agent_le_def\<close>)

lemma good_quarantine: "fleet_inv st \<Longrightarrow> good st (fst (quarantine_agent st i reason oper now))"
  by (auto simp: quarantine_agent_def good_refl dest: trust_gate_Inr intro!: good_trust split: sum.splits)

lemma good_restore: "fleet_inv st \<Longrightarrow> good st (fst (restore_agent st i reason oper now))"
  by (auto simp: restore_agent_def good_refl dest: trust_gate_Inr intro!: good_trust split: sum.splits)

lemma good_expire:
  assumes "fleet_inv st"
  shows "good st (st\<lparr>fl_commands := expire_commands i (fl_commands st)\<rparr>)"
  unfolding expire_commands_def db_update_def
  by (rule good_commands [OF assms]) (auto simp: command_le_def unfinished_def finished_def row_ok_def)

lemma good_revoke:
  assumes "fleet_inv st"
  shows "good st (fst (revoke_agent st i reason oper now))"
proof (cases "trust_gate st i reason oper OperatorRole_admin client_admin")
  case (Inr a)
  let ?r = "trust_row a Trust_revoked (strip reason) oper now"
  let ?st1 = "st\<lparr>fl_commands := expire_commands (ag_id a) (fl_commands st)\<rparr>"
  let ?st2 = "apply_trust_change ?st1 a Trust_revoked (strip reason) oper ''agent.revoked'' now"
  have a: "a \<in> set (fl_agents st)" by (rule trust_gate_Inr [OF Inr])
  have g1: "good st ?st1" by (rule good_expire [OF assms])
  then have g2: "good ?st1 ?st2" using a by (intro good_trust) (simp_all add: good_def)
  have "?r \<in> set (fl_agents ?st2)"
    using a by (auto simp: apply_trust_change_def put_agent_def db_update_def)
  then have "good ?st2 (put_agent (?r\<lparr>revoked_at := Some (Aware now)\<rparr>) ?st2)"
    using g2 by (intro good_put_agent [where a = ?r and H = "{}"]) (simp_all add: good_def agent_le_def)
  then have "good st (put_agent (?r\<lparr>revoked_at := Some (Aware now)\<rparr>) ?st2)"
    using g1 g2 good_trans by blast
  then show ?thesis using Inr good_refl [OF assms] good_then_audit by (simp add: revoke_agent_def Let_def)
qed (simp add: revoke_agent_def good_refl assms)

text \<open>The heartbeat.\<close>

lemma capability_row:
  "beat_capabilities body (a, st) = (a', st') \<Longrightarrow>
     ag_id a' = ag_id a \<and> slots a' = slots a \<and> trust_state a' = trust_state a \<and>
     enrolled_by_token_id a' = enrolled_by_token_id a \<and> ag_site_id a' = ag_site_id a \<and>
     fl_agents st' = fl_agents (put_agent a' st) \<and> fl_tokens st' = fl_tokens st \<and> fl_commands st' = fl_commands st"
  by (auto simp: beat_capabilities_def slots_def Let_def)

lemma version_row:
  "beat_version body (a, put_agent a st) = (a', st') \<Longrightarrow>
     ag_id a' = ag_id a \<and> slots a' = slots a \<and> trust_state a' = trust_state a \<and>
     enrolled_by_token_id a' = enrolled_by_token_id a \<and> ag_site_id a' = ag_site_id a \<and>
     fl_agents st' = fl_agents (put_agent a' st) \<and> fl_tokens st' = fl_tokens st \<and> fl_commands st' = fl_commands st"
  by (auto simp: beat_version_def slots_def Let_def put_agent_twice split: option.splits if_splits)

lemma note_pending_effect:
  "fl_agents (note_pending body a st) = fl_agents st" "fl_tokens (note_pending body a st) = fl_tokens st"
  "fl_commands (note_pending body a st) =
     put_rows (\<lambda>c. pending_row (notice_of body c) c) (filter (noticed body a) (fl_commands st)) (fl_commands st)"
proof -
  let ?step = "\<lambda>s c. let s' = s\<lparr>fl_commands := put_command (pending_row (notice_of body c) c) (fl_commands s)\<rparr> in
               if co_status c \<noteq> Cmd_result_pending
               then fleet_audit ''command.result_pending'' (agent_actor a) None (Some (ag_id a)) None
                 (pending_detail c (notice_of body c)) s'
               else s'"
  have "fl_agents (foldl ?step s rows) = fl_agents s \<and> fl_tokens (foldl ?step s rows) = fl_tokens s \<and>
      fl_commands (foldl ?step s rows) = put_rows (\<lambda>c. pending_row (notice_of body c) c) rows (fl_commands s)" for s rows
    by (induction rows arbitrary: s) (simp_all add: put_rows_def Let_def)
  then show "fl_agents (note_pending body a st) = fl_agents st" "fl_tokens (note_pending body a st) = fl_tokens st"
    "fl_commands (note_pending body a st) =
       put_rows (\<lambda>c. pending_row (notice_of body c) c) (filter (noticed body a) (fl_commands st)) (fl_commands st)"
    by (simp_all add: note_pending_def)
qed

lemma pending_row_fields [simp]:
  "co_id (pending_row n c) = co_id c" "co_agent_id (pending_row n c) = co_agent_id c"
  "co_status (pending_row n c) = Cmd_result_pending" "\<not> finished c \<Longrightarrow> command_le c (pending_row n c)"
  by (auto simp: pending_row_def command_le_def split: option.splits)

lemma pending_row_ok: "cm_dispatched_at (pending_row n c) = cm_dispatched_at c" "cm_completed_at (pending_row n c) = cm_completed_at c"
  "exit_code (cm_result (pending_row n c)) = exit_code (cm_result c)"
  by (simp_all add: pending_row_def split: option.split)

lemma good_note_pending:
  assumes "fleet_inv st"
  shows "good st (note_pending body a st)"
proof -
  have "good st (st\<lparr>fl_commands := fl_commands (note_pending body a st)\<rparr>)"
    unfolding note_pending_effect(3)
    by (rule good_put_rows [OF assms _ filter_ids [OF fleet_invD(3) [OF assms]]])
      (auto simp: noticed_def accepting_def finished_def row_ok_def pending_row_ok intro!: pending_row_fields(4))
  moreover have "good (st\<lparr>fl_commands := fl_commands (note_pending body a st)\<rparr>) (note_pending body a st)"
    using calculation by (intro good_cong) (simp_all add: good_def note_pending_effect)
  ultimately show ?thesis by (rule good_trans)
qed

definition mark :: "instant \<Rightarrow> CommandRow \<Rightarrow> CommandRow" where
  "mark now c = (if co_expires_at c < now then c\<lparr>co_status := Cmd_expired\<rparr>
     else c\<lparr>co_status := Cmd_dispatched, cm_dispatched_at := Some (Aware now)\<rparr>)"

lemma hand_out_result:
  assumes "1 \<le> batch"
  shows "\<exists>k \<le> length cs. hand_out now batch cs =
      (map (mark now) (take k cs), map (mark now) (filter (\<lambda>c. \<not> co_expires_at c < now) (take k cs))) \<and>
    length (filter (\<lambda>c. \<not> co_expires_at c < now) (take k cs)) \<le> batch \<and>
    (k = length cs \<or> length (filter (\<lambda>c. \<not> co_expires_at c < now) (take k cs)) = batch)"
  using assms
proof (induction now batch cs rule: hand_out.induct)
  case (2 now batch c cs)
  show ?case
  proof (cases "co_expires_at c < now")
    case True
    then obtain k where "k \<le> length cs" "hand_out now batch cs =
        (map (mark now) (take k cs), map (mark now) (filter (\<lambda>c. \<not> co_expires_at c < now) (take k cs)))"
      "length (filter (\<lambda>c. \<not> co_expires_at c < now) (take k cs)) \<le> batch"
      "k = length cs \<or> length (filter (\<lambda>c. \<not> co_expires_at c < now) (take k cs)) = batch"
      using 2 by blast
    then show ?thesis using True by (intro exI [of _ "Suc k"]) (simp add: mark_def)
  next
    case False
    show ?thesis
    proof (cases "batch \<le> 1")
      case True
      then have "batch = 1" using 2(3) by simp
      then show ?thesis using False by (intro exI [of _ 1]) (simp add: mark_def Let_def)
    next
      case big: False
      then obtain k where "k \<le> length cs" "hand_out now (batch - 1) cs =
          (map (mark now) (take k cs), map (mark now) (filter (\<lambda>c. \<not> co_expires_at c < now) (take k cs)))"
        "length (filter (\<lambda>c. \<not> co_expires_at c < now) (take k cs)) \<le> batch - 1"
        "k = length cs \<or> length (filter (\<lambda>c. \<not> co_expires_at c < now) (take k cs)) = batch - 1"
        using 2(2) [OF False refl big] by force
      then show ?thesis using False big by (intro exI [of _ "Suc k"]) (auto simp: mark_def Let_def)
    qed
  qed
qed simp

lemma mark_fields [simp]:
  "co_id (mark now c) = co_id c" "co_agent_id (mark now c) = co_agent_id c" "co_kind (mark now c) = co_kind c"
  "co_payload (mark now c) = co_payload c" "co_expires_at (mark now c) = co_expires_at c"
  "co_created_at (mark now c) = co_created_at c" "cm_envelope_version (mark now c) = cm_envelope_version c"
  by (simp_all add: mark_def)

lemma put_rows_mark: "put_rows (mark now) rows t = foldl (\<lambda>t c. put_command c t) t (map (mark now) rows)"
  unfolding put_rows_def by (induction rows arbitrary: t) simp_all

text \<open>The candidates of a beat, in the order of the loop.\<close>

definition candidates :: "fleet_settings \<Rightarrow> string \<Rightarrow> ustr \<Rightarrow> instant \<Rightarrow> CommandRow rows \<Rightarrow> CommandRow list" where
  "candidates cfg i version now t = sort_key delivery_key (filter (deliverable cfg i version now) t)"

lemma deliver_result:
  assumes "deliver cfg i (Some version) now st = (st', pending)"
  shows "\<exists>k. st' = st\<lparr>fl_commands := put_rows (mark now) (take k (candidates cfg i version now (fl_commands st))) (fl_commands st)\<rparr> \<and>
    pending = map (mark now) (filter (\<lambda>c. \<not> co_expires_at c < now) (take k (candidates cfg i version now (fl_commands st)))) \<and>
    length pending \<le> nat (max 1 (max_commands_per_heartbeat cfg)) \<and>
    (k = length (candidates cfg i version now (fl_commands st)) \<or> length pending = nat (max 1 (max_commands_per_heartbeat cfg)))"
proof -
  let ?rows = "candidates cfg i version now (fl_commands st)"
  let ?batch = "nat (max 1 (max_commands_per_heartbeat cfg))"
  obtain k where k: "hand_out now ?batch ?rows =
      (map (mark now) (take k ?rows), map (mark now) (filter (\<lambda>c. \<not> co_expires_at c < now) (take k ?rows)))"
    "length (filter (\<lambda>c. \<not> co_expires_at c < now) (take k ?rows)) \<le> ?batch"
    "k = length ?rows \<or> length (filter (\<lambda>c. \<not> co_expires_at c < now) (take k ?rows)) = ?batch"
  proof -
    have "1 \<le> ?batch" by arith
    from hand_out_result [OF this, where now = now and cs = ?rows] that show thesis by blast
  qed
  show ?thesis
    using assms k unfolding deliver_def Let_def candidates_def [symmetric]
    by (intro exI [of _ k]) (auto simp: put_rows_mark)
qed

lemma candidates_mem: "c \<in> set (candidates cfg i version now t) \<longleftrightarrow> c \<in> set t \<and> deliverable cfg i version now c"
  by (simp add: candidates_def)

lemma candidates_ids: "distinct (map co_id t) \<Longrightarrow> distinct (map co_id (candidates cfg i version now t))"
  unfolding candidates_def by (intro sort_ids filter_ids)

lemma command_le_mark: "\<not> finished c \<Longrightarrow> command_le c (mark now c)"
  by (simp add: command_le_def)

lemma good_deliver:
  assumes "fleet_inv st"
  shows "good st (fst (deliver cfg i selected now st))"
proof (cases selected)
  case (Some version)
  obtain st' pending where d: "deliver cfg i (Some version) now st = (st', pending)" by fastforce
  then obtain k where k: "st' = st\<lparr>fl_commands := put_rows (mark now) (take k (candidates cfg i version now (fl_commands st))) (fl_commands st)\<rparr>"
    using deliver_result [OF d] by blast
  have mem: "c \<in> set (fl_commands st) \<and> \<not> finished c \<and> (row_ok c \<longrightarrow> row_ok (mark now c))" if "c \<in> set (take k (candidates cfg i version now (fl_commands st)))" for c
    using in_set_takeD [OF that] by (auto simp: candidates_mem deliverable_def finished_def row_ok_def mark_def)
  have "good st st'" unfolding k
    by (rule good_put_rows [OF assms _ take_ids [OF candidates_ids [OF fleet_invD(3) [OF assms]]]])
      (use mem command_le_mark in \<open>auto simp: subset_iff\<close>)
  then show ?thesis using d Some by simp
qed (simp add: deliver_def good_refl assms)

lemma good_heartbeat:
  assumes "fleet_inv st"
  shows "good st (fst (heartbeat cfg tf u st h body now))"
proof (cases "get_current_agent (tf_hash tf) u st h now")
  case (Inr x)
  obtain a m where x: "x = (a, m)" by fastforce
  then have a: "a \<in> set (fl_agents st)" using Inr by (blast elim: current_agent_Inr)
  have q: "good st (put_agent (a\<lparr>last_seen_at := Some now\<rparr>) st)"
    by (rule good_put_agent [OF assms a, where H = "{}"]) (simp_all add: agent_le_def)
  let ?a1 = "a\<lparr>last_seen_at := Some now, ag_status := Agent_online\<rparr>"
  obtain b stb where b: "beat_version body (?a1, put_agent ?a1 st) = (b, stb)" by fastforce
  obtain c stc where c: "beat_capabilities body (b, stb) = (c, stc)" by fastforce
  note vb = version_row [OF b] and vc = capability_row [OF c]
  have tables: "fl_agents stc = fl_agents (put_agent c st)" "fl_tokens stc = fl_tokens st" "fl_commands stc = fl_commands st"
  proof -
    have "fl_agents stc = fl_agents (put_agent c stb)" using vc by simp
    also have "\<dots> = fl_agents (put_agent c (put_agent b st))" using vb by (simp add: put_agent_def)
    finally show "fl_agents stc = fl_agents (put_agent c st)" using vc vb by (simp add: put_agent_twice)
  qed (use vb vc in simp_all)
  have "good st (put_agent c st)"
    by (rule good_put_agent [OF assms a, where H = "{}"]) (use vb vc in \<open>auto simp: agent_le_def\<close>)
  moreover have "good (put_agent c st) stc" using calculation by (intro good_cong) (simp_all add: good_def tables)
  ultimately have g: "good st stc" by (rule good_trans)
  then have "good stc (note_pending body c stc)" by (intro good_note_pending) (simp add: good_def)
  with g have n: "good st (note_pending body c stc)" by (rule good_trans)
  let ?selected = "select_command_envelope_version (map ustr (hb_supported_command_envelope_versions body))"
  obtain st4 pending where d: "deliver cfg (ag_id c) ?selected now (note_pending body c stc) = (st4, pending)" by fastforce
  have "good st st4"
    using good_trans [OF n good_deliver [of _ cfg "ag_id c" ?selected now]] n d by (simp add: good_def)
  then show ?thesis using Inr x q good_refl [OF assms] b c d by (simp add: heartbeat_def Let_def)
qed (simp add: heartbeat_def good_refl assms)

lemma completed_le: "accepting c \<Longrightarrow> command_le c (completed_row c body now)"
  by (auto simp: command_le_def completed_row_def accepting_def finished_def)

lemma completed_ok: "accepting c \<Longrightarrow> row_ok c \<Longrightarrow> row_ok (completed_row c body now)"
  by (auto simp: row_ok_def completed_row_def accepting_def columns_of_def)

lemma good_put_command:
  assumes "fleet_inv st" "c \<in> set (fl_commands st)" "command_le c c'" "row_ok c \<longrightarrow> row_ok c'"
  shows "good st (st\<lparr>fl_commands := put_command c' (fl_commands st)\<rparr>)"
proof -
  have "put_command c' (fl_commands st) = map (\<lambda>q. if q = c then c' else q) (fl_commands st)"
    unfolding put_command_def db_update_def using fleet_invD(3) [OF assms(1)] assms(2,3)
    by (intro map_cong) (auto simp: command_le_def distinct_map inj_on_def)
  then show ?thesis using good_commands [OF assms(1), of "\<lambda>q. if q = c then c' else q"] assms(3,4) by simp
qed

lemma find_mem: "find P xs = Some x \<Longrightarrow> x \<in> set xs \<and> P x"
  by (auto simp: find_Some_iff)

lemma good_submit:
  assumes "fleet_inv st"
  shows "good st (fst (submit_result tf u st h i body now))"
proof (cases "get_current_agent (tf_hash tf) u st h now")
  case (Inr x)
  obtain a m where x: "x = (a, m)" by fastforce
  have "good st (fleet_audit p q r s t v (st\<lparr>fl_commands := put_command (completed_row c body now) (fl_commands st)\<rparr>))"
    if "find (\<lambda>c. co_id c = i \<and> co_agent_id c = ag_id a) (fl_commands st) = Some c" "accepting c" for c p q r s t v
    using find_mem [OF that(1)] completed_ok [OF that(2)]
    by (intro good_then_audit good_put_command [OF assms _ completed_le [OF that(2)]]) simp_all
  then show ?thesis using Inr x good_refl [OF assms]
    by (simp add: submit_result_def Let_def split: option.split)
qed (simp add: submit_result_def good_refl assms)

text \<open>Tokens.\<close>

lemma good_add_token:
  assumes "fleet_inv st" "et_id t \<notin> et_id ` set (fl_tokens st)" "et_uses t = 0" "0 \<le> et_max_uses t"
    and "fl_agents st' = fl_agents st" "fl_commands st' = fl_commands st" "fl_tokens st' = fl_tokens st @ [t]"
  shows "good st st'"
proof -
  note I = fleet_invD [OF assms(1)]
  have "enrolled_by st (et_id t) = 0"
    using I(5) assms(2) by (force simp: enrolled_by_def filter_empty_conv)
  then have "token_ok st t" using assms(3,4) by (simp add: token_ok_def)
  then have ok: "token_ok st' q" if "q \<in> set (fl_tokens st')" for q
    using that I(6) assms(5,7) by (auto simp: token_ok_def enrolled_by_def)
  have sub: "set_option (enrolled_by_token_id a) \<subseteq> et_id ` set (fl_tokens st')" if "a \<in> set (fl_agents st')" for a
    using I(5) [of a] that assms(5,7) by auto
  show ?thesis unfolding good_def fleet_inv_def using ok sub I(1-4,7) assms(2,5-7) by (simp add: grows_refl)
qed

lemma token_body_max: "token_body_ok u body \<Longrightarrow> 1 \<le> tc_max_uses body"
  by (simp add: token_body_ok_def)

lemma good_create_token:
  assumes "fleet_inv st" "i \<notin> et_id ` set (fl_tokens st)"
  shows "good st (fst (create_enrollment_token cfg u st body oper now i digest))"
proof -
  let ?t = "new_token body i digest (token_expiry cfg body now) oper"
  have "good st (fleet_audit a b c d e f (st\<lparr>fl_tokens := fl_tokens st @ [?t]\<rparr>))" if "token_body_ok u body" for a b c d e f
    by (rule good_add_token [OF assms(1), of ?t])
      (use assms(2) token_body_max [OF that] in \<open>simp_all add: new_token_def\<close>)
  then show ?thesis using good_refl [OF assms(1)]
    by (auto simp: create_enrollment_token_def Let_def split: sum.split)
qed

lemma good_installer:
  assumes "fleet_inv st" "i \<notin> et_id ` set (fl_tokens st)"
  shows "good st (fst (create_installer_package cfg artifact version st site oper now i d digest))"
proof -
  let ?t = "installer_token site i digest (now + seconds (installer_token_ttl_seconds cfg)) oper"
  have "good st (fleet_audit a b c d' e f (st\<lparr>fl_tokens := fl_tokens st @ [?t], fl_downloads := x\<rparr>))" for a b c d' e f x
    by (rule good_add_token [OF assms(1), of ?t]) (use assms(2) in \<open>simp_all add: installer_token_def\<close>)
  then show ?thesis using good_refl [OF assms(1)] good_audit [OF assms(1)]
    by (auto simp: create_installer_package_def Let_def split: sum.split)
qed

lemma good_put_token:
  assumes "fleet_inv st" "t \<in> set (fl_tokens st)"
    and "et_id t' = et_id t" "et_uses t' = et_uses t" "et_max_uses t' = et_max_uses t"
  shows "good st (put_token t' st)"
proof -
  note I = fleet_invD [OF assms(1)]
  have ids: "map et_id (fl_tokens (put_token t' st)) = map et_id (fl_tokens st)"
    using assms(3) by (simp add: put_token_def db_update_def)
  have "token_ok (put_token t' st) q" if "q \<in> set (fl_tokens (put_token t' st))" for q
  proof -
    have "q = t' \<or> q \<in> set (fl_tokens st)" using that by (auto simp: put_token_def db_update_def split: if_splits)
    then show ?thesis using I(6) [of q] I(6) [OF assms(2)] assms(3-5)
      by (auto simp: token_ok_def enrolled_by_def put_token_def)
  qed
  moreover have "fl_agents (put_token t' st) = fl_agents st" "fl_commands (put_token t' st) = fl_commands st"
    by (simp_all add: put_token_def)
  moreover have "et_id ` set (fl_tokens (put_token t' st)) = et_id ` set (fl_tokens st)"
    using ids by (metis set_map)
  ultimately show ?thesis unfolding good_def fleet_inv_def using I(1-5,7) ids by (simp add: grows_refl)
qed

lemma good_revoke_token:
  assumes "fleet_inv st"
  shows "good st (fst (revoke_enrollment_token st i reason oper now))"
proof -
  have "good st (fleet_audit a b c d e f (put_token (t\<lparr>et_revoked := True, et_revoked_at := Some (Aware now)\<rparr>) st))"
    if "db_get et_id (fl_tokens st) i = Some t" for t a b c d e f
    using db_get_SomeD [OF that] by (intro good_then_audit good_put_token [OF assms, of t]) simp_all
  then show ?thesis using good_refl [OF assms]
    by (auto simp: revoke_enrollment_token_def Let_def split: sum.split option.split)
qed

text \<open>Redemption: the conditional update hits the one row with the identifier.\<close>

lemma good_consume:
  assumes "fleet_inv st" "redeem_consume cfg tf st t body now i p = Inr (st', a, t')"
    and "i \<notin> ag_id ` set (fl_agents st)" "tf_hash tf p \<notin> hashes st"
  shows "good st st'"
proof -
  note I = fleet_invD [OF assms(1)]
  let ?P = "consumable (et_id t) now"
  let ?tokens = "db_update ?P (use_token now) (fl_tokens st)"
  have one: "rowcount ?P (fl_tokens st) = 1" and get: "db_get et_id ?tokens (et_id t) = Some t'"
    and a: "a = enrolled_row cfg tf t' body now i p"
    and st': "st' = st\<lparr>fl_tokens := ?tokens, fl_agents := fl_agents st @ [a]\<rparr>"
    using assms(2) by (auto simp: redeem_consume_def Let_def split: if_splits option.splits)
  have "rowcount ?P (fl_tokens st) > 0" using one by simp
  then obtain q where q: "q \<in> set (fl_tokens st)" "?P q" unfolding rowcount_pos by blast
  have only: "?P x \<longleftrightarrow> x = q" if "x \<in> set (fl_tokens st)" for x
    using that q I(2) by (auto simp: consumable_def distinct_map inj_on_def)
  have ids: "map et_id ?tokens = map et_id (fl_tokens st)" by (simp add: db_update_def use_token_def)
  have t': "et_id t' = et_id t" using db_get_SomeD [OF get] by simp
  have by_a: "enrolled_by_token_id a = Some (et_id t)" using t' by (simp add: a enrolled_row_def)
  have slot: "slots a = {tf_hash tf p}" by (simp add: a enrolled_row_def slots_def)
  have count: "enrolled_by st' x = enrolled_by st x + (if x = et_id t then 1 else 0)" for x
    using by_a by (simp add: enrolled_by_def st')
  have "token_ok st' x" if "x \<in> set ?tokens" for x
  proof -
    obtain y where y: "y \<in> set (fl_tokens st)" "x = (if ?P y then use_token now y else y)"
      using \<open>x \<in> set ?tokens\<close> unfolding db_update_def set_map by blast
    have ok: "token_ok st y" by (rule I(6) [OF y(1)])
    show ?thesis
    proof (cases "?P y")
      case True
      then show ?thesis using ok y(2) by (simp add: token_ok_def count use_token_def consumable_def)
    next
      case False
      then have "y \<noteq> q" using q(2) by blast
      then have "et_id y \<noteq> et_id t" using I(2) y(1) q by (auto simp: consumable_def distinct_map inj_on_def)
      then show ?thesis using ok y(2) False by (simp add: token_ok_def count)
    qed
  qed
  moreover have "set_option (enrolled_by_token_id b) \<subseteq> et_id ` set ?tokens" if "b \<in> set (fl_agents st')" for b
  proof -
    have s: "et_id ` set ?tokens = et_id ` set (fl_tokens st)" using ids by (metis set_map)
    have "et_id t \<in> et_id ` set (fl_tokens st)" using q by (metis consumable_def imageI)
    then show ?thesis unfolding s using that I(5) [of b] by_a st' by auto
  qed
  moreover have "b = c" if "b \<in> set (fl_agents st')" "c \<in> set (fl_agents st')" "slots b \<inter> slots c \<noteq> {}" for b c
    using that I(4) [of b c] assms(4) slot by (auto simp: st' hashes_def)
  moreover have "distinct (map ag_id (fl_agents st'))" using I(1) assms(3) by (simp add: st' a enrolled_row_def)
  ultimately have "fleet_inv st'" unfolding fleet_inv_def using I(2,3,7) ids by (simp add: st')
  then show ?thesis by (simp add: good_def st' grows_append grows_refl)
qed

lemma good_failed: "fleet_inv st \<Longrightarrow> good st (fst (enroll_rejected e body st))"
  by (cases e) (simp_all add: enroll_rejected_def enrollment_failed_def good_audit good_refl)

lemma good_enroll_write:
  assumes "fleet_inv st" "i \<notin> ag_id ` set (fl_agents st)" "tf_hash tf p \<notin> hashes st"
  shows "good st (fst (enroll_write cfg tf st t body version ip now i p))"
proof (cases "redeem_consume cfg tf st t body now i p")
  case (Inl e)
  then show ?thesis using good_failed [OF assms(1)] by (simp add: enroll_write_def)
next
  case (Inr x)
  obtain st' a t' where x: "x = (st', a, t')" by (cases x) auto
  have g: "good st st'" using good_consume [OF assms(1) _ assms(2,3)] Inr x by blast
  let ?st = "record_enrolled body a t' version st'"
  have "good st' (?st\<lparr>fl_limiter := clear (fl_limiter ?st) ip\<rparr>)"
    using g by (intro good_cong) (simp_all add: good_def record_enrolled_def)
  then show ?thesis using good_trans [OF g] Inr x by (simp add: enroll_write_def Let_def)
qed

lemma good_admission: "fleet_inv st \<Longrightarrow> good st (fst (enroll_admission st body ip clock))"
  by (rule good_cong)
    (auto simp: enroll_admission_def enrollment_failed_def Let_def split: prod.split sum.split option.split limiter_error.split)

lemma admission_tables:
  "fl_agents (fst (enroll_admission st body ip clock)) = fl_agents st"
  "hashes (fst (enroll_admission st body ip clock)) = hashes st"
  by (auto simp: enroll_admission_def enrollment_failed_def hashes_def Let_def
      split: prod.split sum.split option.split limiter_error.split)

lemma good_enroll:
  assumes "fleet_inv st" "i \<notin> ag_id ` set (fl_agents st)" "tf_hash tf p \<notin> hashes st"
  shows "good st (fst (enroll cfg tf u st body ip clock now i p))"
proof -
  obtain st1 x where x: "enroll_admission st body ip clock = (st1, x)" by fastforce
  have g: "good st st1" "fl_agents st1 = fl_agents st" "hashes st1 = hashes st"
    using good_admission [OF assms(1), of body ip clock] admission_tables [of st body ip clock] x by simp_all
  have inv: "fleet_inv st1" using g(1) by (simp add: good_def)
  have "good st1 (fst (enroll_rejected e body st1))" for e by (rule good_failed [OF inv])
  moreover have "good st1 (fst (enroll_write cfg tf st1 t body v ip now i p))" for t v
    using good_enroll_write [OF inv] assms(2,3) g(2,3) by simp
  ultimately show ?thesis using x g(1) good_trans [OF g(1)]
    by (cases x) (auto simp: enroll_def split: sum.split)
qed

end
