(* ===== verification/Fleet_Safety.thy ===== *)
theory Fleet_Safety
  imports Fleet_Invariant Fixtures
begin

text \<open>
  What holds of the agent-facing endpoints in every reachable state: a token enrolls no more
  agents than it may, a bearer resolves to at most one identity, a revoked identity stays out, a
  lost answer does not strand an endpoint that retries in time, commands are delivered as they
  were queued, and a recorded result is final.
\<close>

section \<open>Reachable states\<close>

text \<open>
  Identifiers and secrets that a call draws are new. \<open>fs_redeem\<close> is the write half of a
  redemption whose read half happened in any earlier state, and \<open>fs_dispatch\<close> the creation of
  commands, which happens elsewhere.
\<close>

inductive fleet_step ::
  "fleet_settings \<Rightarrow> token_functions \<Rightarrow> unicode \<Rightarrow> fleet \<Rightarrow> fleet \<Rightarrow> bool"
  for cfg :: fleet_settings and tf :: token_functions and u :: unicode where
  fs_create_token: "i \<notin> et_id ` set (fl_tokens st) \<Longrightarrow>
    fleet_step cfg tf u st (fst (create_enrollment_token cfg u st tbody oper now i digest))"
| fs_installer: "i \<notin> et_id ` set (fl_tokens st) \<Longrightarrow>
    fleet_step cfg tf u st (fst (create_installer_package cfg artifact version st site oper now i d digest))"
| fs_revoke_token: "fleet_step cfg tf u st (fst (revoke_enrollment_token st i reason oper now))"
| fs_enroll: "i \<notin> ag_id ` set (fl_agents st) \<Longrightarrow> tf_hash tf p \<notin> hashes st \<Longrightarrow>
    fleet_step cfg tf u st (fst (enroll cfg tf u st ebody ip clock now i p))"
| fs_admit: "fleet_step cfg tf u st (fst (enroll_admission st ebody ip clock))"
| fs_redeem: "i \<notin> ag_id ` set (fl_agents st) \<Longrightarrow> tf_hash tf p \<notin> hashes st \<Longrightarrow>
    fleet_step cfg tf u st (fst (enroll_write cfg tf st t ebody envelope ip now i p))"
| fs_renew: "tf_hash tf p \<notin> hashes st \<Longrightarrow>
    fleet_step cfg tf u st (fst (renew_agent_credential cfg tf u st h nonce now p))"
| fs_reattach: "tf_hash tf p \<notin> hashes st \<Longrightarrow>
    fleet_step cfg tf u st (fst (reattach_agent_credential cfg tf u st h nonce now p))"
| fs_quarantine: "fleet_step cfg tf u st (fst (quarantine_agent st i reason oper now))"
| fs_restore: "fleet_step cfg tf u st (fst (restore_agent st i reason oper now))"
| fs_revoke: "fleet_step cfg tf u st (fst (revoke_agent st i reason oper now))"
| fs_heartbeat: "fleet_step cfg tf u st (fst (heartbeat cfg tf u st h hbody now))"
| fs_result: "fleet_step cfg tf u st (fst (submit_result tf u st h i rbody now))"
| fs_dispatch: "co_id c \<notin> co_id ` set (fl_commands st) \<Longrightarrow> co_status c = Cmd_queued \<Longrightarrow> row_ok c \<Longrightarrow>
    fleet_step cfg tf u st (st\<lparr>fl_commands := fl_commands st @ [c]\<rparr>)"
| fs_tenancy: "fleet_step cfg tf u st (st\<lparr>fl_db := d, fl_site_name := names\<rparr>)"

lemma fleet_step_good: "fleet_step cfg tf u st st' \<Longrightarrow> fleet_inv st \<Longrightarrow> good st st'"
proof (induction rule: fleet_step.induct)
  case (fs_dispatch c st)
  then have "fleet_inv (st\<lparr>fl_commands := fl_commands st @ [c]\<rparr>)"
    using fleet_invD(3,7) [OF fs_dispatch.prems] by (intro fleet_inv_cong [OF _ _ _ _ fs_dispatch.prems]) auto
  then show ?case by (simp add: good_def grows_append grows_refl)
next
  case (fs_tenancy st d names)
  then show ?case by (intro good_cong) simp_all
qed (rule good_create_token good_installer good_revoke_token good_enroll good_admission good_enroll_write
    good_renew good_reattach good_quarantine good_restore good_revoke good_heartbeat good_submit; assumption)+

lemma fleet_steps_good: "(fleet_step cfg tf u)\<^sup>*\<^sup>* st st' \<Longrightarrow> fleet_inv st \<Longrightarrow> good st st'"
proof (induction rule: rtranclp_induct)
  case (step y z)
  then show ?case using good_trans fleet_step_good good_def by blast
qed (rule good_refl)

definition fleet_start :: "db \<Rightarrow> (string \<Rightarrow> ustr) \<Rightarrow> LoginRateLimiter \<Rightarrow> fleet" where
  "fleet_start d names limiter = \<lparr>fl_db = d, fl_site_name = names, fl_agents = [], fl_tokens = [],
     fl_downloads = [], fl_commands = [], fl_limiter = limiter, fl_audit = []\<rparr>"

definition fleet_reachable :: "fleet_settings \<Rightarrow> token_functions \<Rightarrow> unicode \<Rightarrow> fleet \<Rightarrow> bool" where
  "fleet_reachable cfg tf u st \<longleftrightarrow> (\<exists>d names limiter. (fleet_step cfg tf u)\<^sup>*\<^sup>* (fleet_start d names limiter) st)"

lemma fleet_reachable_inv: "fleet_reachable cfg tf u st \<Longrightarrow> fleet_inv st"
proof -
  have "fleet_inv (fleet_start d names limiter)" for d names limiter by (simp add: fleet_inv_def fleet_start_def)
  then show "fleet_reachable cfg tf u st \<Longrightarrow> fleet_inv st"
    unfolding fleet_reachable_def using fleet_steps_good good_def by blast
qed

section \<open>Enrollment\<close>

text \<open>
  C19. A token is worth its uses. In every reachable state, whatever redemptions interleaved, the
  agents enrolled with a token are as many as its counted uses, and no more than its maximum.
\<close>

theorem enrollment_uses_bounded:
  assumes "fleet_reachable cfg tf u st" "t \<in> set (fl_tokens st)"
  shows "int (length (filter (\<lambda>a. enrolled_by_token_id a = Some (et_id t)) (fl_agents st))) = et_uses t \<and>
    et_uses t \<le> et_max_uses t"
  using fleet_invD(6) [OF fleet_reachable_inv [OF assms(1)] assms(2)] by (simp add: token_ok_def enrolled_by_def)

text \<open>
  The columns of a command agree with its status. In every reachable state a queued command
  has neither a dispatch time nor a result, only finished commands have an exit code, which is 0
  exactly for success, and no command is ever running.
\<close>

theorem command_rows_typed:
  assumes "fleet_reachable cfg tf u st" "c \<in> set (fl_commands st)"
  shows "co_status c \<noteq> Cmd_running \<and>
    (exit_code (cm_result c) \<noteq> None \<longleftrightarrow> co_status c \<in> {Cmd_succeeded, Cmd_failed}) \<and>
    (cm_completed_at c \<noteq> None \<longleftrightarrow> co_status c \<in> {Cmd_succeeded, Cmd_failed}) \<and>
    (exit_code (cm_result c) = Some 0 \<longleftrightarrow> co_status c = Cmd_succeeded) \<and>
    (cm_dispatched_at c = None \<longrightarrow> co_status c \<in> {Cmd_queued, Cmd_expired})"
  using fleet_invD(7) [OF fleet_reachable_inv [OF assms(1)] assms(2)] by (auto simp: row_ok_def split: CommandStatus.splits)

section \<open>Revocation\<close>

lemma revoked_refused:
  assumes "fleet_inv st" "a \<in> set (fl_agents st)" "trust_state a = Trust_revoked"
  shows "get_current_agent H u st h now = Inr (b, s) \<Longrightarrow> ag_id b \<noteq> ag_id a"
    and "get_agent_for_credential_reattach cfg H u st h now = Inr (b, s) \<Longrightarrow> ag_id b \<noteq> ag_id a"
proof -
  have only: "b = a" if "b \<in> set (fl_agents st)" "ag_id b = ag_id a" for b
    using that assms(2) fleet_invD(1) [OF assms(1)] by (auto simp: distinct_map inj_on_def)
  show "get_current_agent H u st h now = Inr (b, s) \<Longrightarrow> ag_id b \<noteq> ag_id a"
    by (elim current_agent_Inr) (use only slot_not_revoked(1) assms(3) in blast)
  assume "get_agent_for_credential_reattach cfg H u st h now = Inr (b, s)"
  then show "ag_id b \<noteq> ag_id a"
    by (elim reattach_agent_Inr) (use only slot_not_revoked(2) assms(3) in fastforce)
qed


section \<open>Rotation\<close>

text \<open>
  Renewals whose answers are all lost: the endpoint sends the bearer it holds each time, with the
  time of the request, a nonce, and the bearer the server draws.
\<close>

fun lost_renewals ::
  "fleet_settings \<Rightarrow> token_functions \<Rightarrow> unicode \<Rightarrow> ustr option \<Rightarrow> fleet \<Rightarrow> (instant \<times> ustr \<times> ustr) list \<Rightarrow> fleet" where
  "lost_renewals cfg tf u h st [] = st"
| "lost_renewals cfg tf u h st ((now, nonce, p) # rs) =
     lost_renewals cfg tf u h (fst (renew_agent_credential cfg tf u st h nonce now p)) rs"

text \<open>Each request comes before the overlap after the one before has passed, with new draws.\<close>

fun in_time :: "fleet_settings \<Rightarrow> token_functions \<Rightarrow> instant \<Rightarrow> string set \<Rightarrow> ustr option \<Rightarrow> (instant \<times> ustr \<times> ustr) list \<Rightarrow> bool" where
  "in_time cfg tf before used nonce0 [] = True"
| "in_time cfg tf before used nonce0 ((now, nonce, p) # rs) =
     (now < before + seconds (agent_credential_overlap_seconds cfg) \<and> rotation_nonce_ok nonce \<and> nonce_replayed nonce0 nonce = Some False \<and>
      tf_hash tf p \<notin> used \<and> in_time cfg tf now (insert (tf_hash tf p) used) (Some nonce) rs)"

text \<open>The row after an unanswered renewal: the held bearer overlaps, the drawn one is current.\<close>

definition awaiting :: "fleet_settings \<Rightarrow> token_functions \<Rightarrow> fleet \<Rightarrow> string \<Rightarrow> string \<Rightarrow> string \<Rightarrow> instant \<Rightarrow> ustr \<Rightarrow> bool" where
  "awaiting cfg tf st i held drawn now nonce \<longleftrightarrow> fleet_inv st \<and>
     (\<exists>a \<in> set (fl_agents st). ag_id a = i \<and> trust_state a \<noteq> Trust_revoked \<and> held \<noteq> drawn \<and>
       previous_token_hash a = Some held \<and> token_hash a = drawn \<and> last_rotation_nonce a = Some nonce \<and>
       previous_token_expires_at a = Some (Aware (now + seconds (agent_credential_overlap_seconds cfg))) \<and>
       credential_expires_at a = Some (Aware (now + seconds (agent_credential_lifetime_seconds cfg))))"

lemma renew_awaiting:
  assumes "fleet_inv st" "get_current_agent (tf_hash tf) u st h now = Inr (a, s)" "bearer_token u h = Inr held"
    and "rotation_nonce_ok nonce" "nonce_replayed (last_rotation_nonce a) nonce = Some False" "tf_hash tf p \<notin> hashes st"
  shows "awaiting cfg tf (fst (renew_agent_credential cfg tf u st h nonce now p)) (ag_id a) (tf_hash tf held) (tf_hash tf p) now nonce"
    and "hashes (fst (renew_agent_credential cfg tf u st h nonce now p)) \<subseteq> insert (tf_hash tf p) (hashes st)"
    and "\<exists>r. snd (renew_agent_credential cfg tf u st h nonce now p) = Inr r"
proof -
  let ?a' = "rotate_agent_credential cfg tf a s now nonce p"
  let ?st' = "fst (renew_agent_credential cfg tf u st h nonce now p)"
  from assms(2) obtain t where t: "bearer_token u h = Inr t" "a \<in> set (fl_agents st)" "tf_hash tf t \<in> slots a"
    "current_slot a (tf_hash tf t) now = Some s" by (rule current_agent_Inr)
  then have held: "tf_hash tf held \<in> slots a" "current_slot a (tf_hash tf held) now = Some s" using assms(3) by simp_all
  have renew: "renew_agent_credential cfg tf u st h nonce now p = rotate_and_answer cfg tf ''agent.credential_renewed'' st a s nonce now p"
    using assms(2,4,5) by (simp add: renew_agent_credential_def)
  then have agents: "fl_agents ?st' = fl_agents (put_agent ?a' st)" by (simp add: rotate_and_answer_def Let_def)
  note put = put_agent_mem(1) [OF fleet_invD(1) [OF assms(1)] t(2) rotated_fields(1)]
  have "tf_hash tf held \<noteq> tf_hash tf p" using held(1) t(2) assms(6) by (auto simp: hashes_def)
  moreover have "previous_token_hash ?a' = Some (tf_hash tf held)"
    using held(2) by (auto simp: rotate_agent_credential_def current_slot_def split: if_splits option.splits)
  moreover have "fleet_inv ?st'" using good_renew [OF assms(1,6)] by (simp add: good_def)
  ultimately show "awaiting cfg tf ?st' (ag_id a) (tf_hash tf held) (tf_hash tf p) now nonce"
    unfolding awaiting_def agents put using slot_not_revoked(1) [OF t(4)]
    by (intro conjI bexI [of _ ?a']) (simp_all add: rotate_agent_credential_def)
  show "hashes ?st' \<subseteq> insert (tf_hash tf p) (hashes st)"
    unfolding hashes_def agents put using rotated_slots [of cfg tf a s now nonce p] t(2) by auto
  show "\<exists>r. snd (renew_agent_credential cfg tf u st h nonce now p) = Inr r"
    unfolding renew by (simp add: rotate_and_answer_def Let_def)
qed

lemma awaiting_answers:
  assumes "awaiting cfg tf st i (tf_hash tf held) (tf_hash tf drawn) now nonce"
  shows "bearer_token u h = Inr held \<Longrightarrow> t < now + seconds (agent_credential_overlap_seconds cfg) \<Longrightarrow>
      \<exists>a. get_current_agent (tf_hash tf) u st h t = Inr (a, Overlap) \<and> ag_id a = i \<and> last_rotation_nonce a = Some nonce"
    and "bearer_token u h = Inr drawn \<Longrightarrow> t < now + seconds (agent_credential_lifetime_seconds cfg) \<Longrightarrow>
      \<exists>a. get_current_agent (tf_hash tf) u st h t = Inr (a, Current) \<and> ag_id a = i"
proof -
  obtain a where a: "fleet_inv st" "a \<in> set (fl_agents st)" "ag_id a = i" "trust_state a \<noteq> Trust_revoked"
    "tf_hash tf held \<noteq> tf_hash tf drawn" "previous_token_hash a = Some (tf_hash tf held)" "token_hash a = tf_hash tf drawn"
    "last_rotation_nonce a = Some nonce"
    "previous_token_expires_at a = Some (Aware (now + seconds (agent_credential_overlap_seconds cfg)))"
    "credential_expires_at a = Some (Aware (now + seconds (agent_credential_lifetime_seconds cfg)))"
    using assms unfolding awaiting_def by blast
  have slots: "tf_hash tf held \<in> slots a" "tf_hash tf drawn \<in> slots a" using a(6,7) by (simp_all add: slots_def)
  show "bearer_token u h = Inr held \<Longrightarrow> t < now + seconds (agent_credential_overlap_seconds cfg) \<Longrightarrow>
      \<exists>a. get_current_agent (tf_hash tf) u st h t = Inr (a, Overlap) \<and> ag_id a = i \<and> last_rotation_nonce a = Some nonce"
    using current_agent_iff [where H = "tf_hash tf" and token = held, OF a(1,2) _ slots(1)] a by (simp add: current_slot_def lapsed_after_def)
  show "bearer_token u h = Inr drawn \<Longrightarrow> t < now + seconds (agent_credential_lifetime_seconds cfg) \<Longrightarrow>
      \<exists>a. get_current_agent (tf_hash tf) u st h t = Inr (a, Current) \<and> ag_id a = i"
    using current_agent_iff [where H = "tf_hash tf" and token = drawn, OF a(1,2) _ slots(2)] a by (simp add: current_slot_def)
qed

lemma lost_renewals_awaiting:
  assumes "awaiting cfg tf st i (tf_hash tf held) (tf_hash tf drawn) now nonce" "bearer_token u h = Inr held"
    and "hashes st \<subseteq> used" "in_time cfg tf now used (Some nonce) rs"
    and "last ((now, nonce, drawn) # rs) = (now', nonce', drawn')"
  shows "awaiting cfg tf (lost_renewals cfg tf u h st rs) i (tf_hash tf held) (tf_hash tf drawn') now' nonce'"
  using assms
proof (induction rs arbitrary: st drawn now nonce used)
  case Nil
  then show ?case by simp
next
  case (Cons r rs)
  obtain now1 nonce1 p where r: "r = (now1, nonce1, p)" by (cases r)
  note t = Cons.prems(4) [unfolded r in_time.simps]
  obtain a where a: "get_current_agent (tf_hash tf) u st h now1 = Inr (a, Overlap)" "ag_id a = i" "last_rotation_nonce a = Some nonce"
    using awaiting_answers(1) [OF Cons.prems(1,2)] t by blast
  have inv: "fleet_inv st" using Cons.prems(1) by (simp add: awaiting_def)
  have new: "tf_hash tf p \<notin> hashes st" "nonce_replayed (last_rotation_nonce a) nonce1 = Some False" using Cons.prems(3) t a(3) by auto
  note w = renew_awaiting [OF inv a(1) Cons.prems(2) _ new(2,1), of cfg]
  let ?st = "fst (renew_agent_credential cfg tf u st h nonce1 now1 p)"
  have "awaiting cfg tf ?st i (tf_hash tf held) (tf_hash tf p) now1 nonce1" using w(1) t a(2) by simp
  moreover have "hashes ?st \<subseteq> insert (tf_hash tf p) used" using w(2) t Cons.prems(3) by blast
  ultimately show ?case using Cons.IH [of ?st p now1 nonce1] Cons.prems(2,5) t r by auto
qed

text \<open>
  C26. Lost answers do not strand an endpoint. Let the bearer an endpoint holds authenticate in a
  reachable state, and let it renew any number of times without ever receiving the answer, each
  time within the overlap after the time before and with a new nonce of ASCII characters. Then the bearer it holds still authenticates as
  the same agent throughout the overlap after the last request, and so does the bearer of the last,
  unseen answer throughout its lifetime.
\<close>

theorem rotation_survives_losses:
  assumes "fleet_reachable cfg tf u st" "bearer_token u h = Inr held"
    and "get_current_agent (tf_hash tf) u st h now0 = Inr (a, s)"
    and "rotation_nonce_ok nonce0" "nonce_replayed (last_rotation_nonce a) nonce0 = Some False" "tf_hash tf p0 \<notin> hashes st"
    and "in_time cfg tf now0 (insert (tf_hash tf p0) (hashes st)) (Some nonce0) rs"
    and "last ((now0, nonce0, p0) # rs) = (now, nonce, drawn)" "bearer_token u h' = Inr drawn"
  shows "let st' = lost_renewals cfg tf u h st ((now0, nonce0, p0) # rs) in
    (t < now + seconds (agent_credential_overlap_seconds cfg) \<longrightarrow>
      (\<exists>b. get_current_agent (tf_hash tf) u st' h t = Inr (b, Overlap) \<and> ag_id b = ag_id a)) \<and>
    (t < now + seconds (agent_credential_lifetime_seconds cfg) \<longrightarrow>
      (\<exists>b. get_current_agent (tf_hash tf) u st' h' t = Inr (b, Current) \<and> ag_id b = ag_id a))"
proof -
  note w = renew_awaiting [OF fleet_reachable_inv [OF assms(1)] assms(3,2,4-6), of cfg]
  from lost_renewals_awaiting [OF w(1) assms(2) w(2) assms(7,8)]
  have "awaiting cfg tf (lost_renewals cfg tf u h st ((now0, nonce0, p0) # rs)) (ag_id a) (tf_hash tf held) (tf_hash tf drawn) now nonce" by simp
  from awaiting_answers(1) [OF this assms(2), of t] awaiting_answers(2) [OF this assms(9), of t]
  show ?thesis unfolding Let_def by blast
qed

text \<open>
  A nonce outside ASCII is accepted once; since the row keeps it, no later renewal of the same
  agent passes the comparison.
\<close>

theorem foreign_nonce_blocks_renewal:
  assumes "get_current_agent (tf_hash tf) u st h now = Inr (a, s)" "last_rotation_nonce a = Some old" "\<not> list_all (\<lambda>c. c < 128) old"
    and "rotation_nonce_ok nonce"
  shows "renew_agent_credential cfg tf u st h nonce now p = (st, Inl (HTTPException 500 ''internal_error''))"
  using assms by (simp add: renew_agent_credential_def nonce_replayed_def)

section \<open>Delivery\<close>

lemma mark_not_deliverable: "\<not> deliverable cfg i version now (mark now c)"
proof (cases "co_expires_at c < now")
  case True
  then show ?thesis by (simp add: deliverable_def mark_def)
next
  case False
  have "\<not> seconds (max 1 (command_redelivery_seconds cfg)) \<le> 0" unfolding not_le by simp
  then show ?thesis using False by (simp add: deliverable_def mark_def redelivery_before_def)
qed

lemma pending_not_deliverable: "\<not> deliverable cfg i version now (pending_row n c)"
  by (simp add: deliverable_def)

lemma heartbeat_result:
  assumes "fleet_inv st" "heartbeat cfg tf u st h body now = (st', Inr ack)"
  obtains (quarantined) a s where "get_current_agent (tf_hash tf) u st h now = Inr (a, s)" "trust_state a = Trust_quarantined"
      "ha_pending_commands ack = []"
  | (active) a s and c :: AgentRow and st3 where "get_current_agent (tf_hash tf) u st h now = Inr (a, s)" "trust_state a \<noteq> Trust_quarantined"
      "ag_id c = ag_id a" "fleet_inv st3"
      "\<forall>x i version. x \<in> set (fl_commands st3) \<and> deliverable cfg i version now x \<longrightarrow> x \<in> set (fl_commands st)"
      "deliver cfg (ag_id a) (select_command_envelope_version (map ustr (hb_supported_command_envelope_versions body))) now st3 =
         (st', ha_pending_commands ack)"
proof -
  obtain a s where as: "get_current_agent (tf_hash tf) u st h now = Inr (a, s)"
    using assms(2) by (auto simp: heartbeat_def split: sum.splits prod.splits)
  have ok: "heartbeat_body_ok body" using assms(2) as by (auto simp: heartbeat_def split: if_splits)
  show thesis
  proof (cases "trust_state a = Trust_quarantined")
    case True
    then have "ha_pending_commands ack = []" using assms(2) as ok by (auto simp: heartbeat_def)
    then show thesis by (rule quarantined [OF as True])
  next
    case False
    let ?a1 = "a\<lparr>last_seen_at := Some now, ag_status := Agent_online\<rparr>"
    obtain b stb where b: "beat_version body (?a1, put_agent ?a1 st) = (b, stb)" by fastforce
    obtain c stc where c: "beat_capabilities body (b, stb) = (c, stc)" by fastforce
    note vb = version_row [OF b] and vc = capability_row [OF c]
    let ?st3 = "note_pending body c stc"
    have id: "ag_id c = ag_id a" and cmds: "fl_commands stc = fl_commands st" using vb vc by simp_all
    have d: "deliver cfg (ag_id a) (select_command_envelope_version (map ustr (hb_supported_command_envelope_versions body))) now ?st3 =
        (st', ha_pending_commands ack)"
      using assms(2) as ok False b c id by (auto simp: heartbeat_def Let_def split: prod.splits)
    have "fleet_inv stc"
    proof -
      have "a \<in> set (fl_agents st)" using as by (blast elim: current_agent_Inr)
      then have "good st (put_agent c st)"
        by (rule good_put_agent [OF assms(1), where H = "{}"]) (use vb vc in \<open>auto simp: agent_le_def\<close>)
      then have "fleet_inv (put_agent c st)" by (simp add: good_def)
      moreover have "fl_agents stc = fl_agents (put_agent c st)"
        using vb vc put_agent_twice [of c b st] by (simp add: put_agent_def)
      moreover have "fl_tokens stc = fl_tokens st" using vb vc by simp
      ultimately show ?thesis using good_cong [of "put_agent c st" stc] cmds by (simp add: good_def)
    qed
    then have inv: "fleet_inv ?st3" using good_note_pending good_def by blast
    have mem: "x \<in> set (fl_commands st)" if "x \<in> set (fl_commands ?st3)" "deliverable cfg i version now x" for x i version
    proof -
      have "fl_commands ?st3 = map (\<lambda>q. if q \<in> set (filter (noticed body c) (fl_commands stc)) then pending_row (notice_of body q) q else q) (fl_commands stc)"
        unfolding note_pending_effect(3)
        by (rule put_rows_map [OF fleet_invD(3) [OF \<open>fleet_inv stc\<close>] _ filter_ids [OF fleet_invD(3) [OF \<open>fleet_inv stc\<close>]]]) auto
      then obtain q where "q \<in> set (fl_commands stc)" "x = (if noticed body c q then pending_row (notice_of body q) q else q)"
        using \<open>x \<in> set (fl_commands ?st3)\<close> by auto
      then show ?thesis using that(2) pending_not_deliverable cmds by (auto split: if_splits)
    qed
    have "\<forall>x i version. x \<in> set (fl_commands ?st3) \<and> deliverable cfg i version now x \<longrightarrow> x \<in> set (fl_commands st)"
      using mem by blast
    then show thesis by (rule active [OF as False id inv]) (rule d)
  qed
qed

lemma deliver_orders:
  assumes "fleet_inv st" "deliver cfg i (Some version) now st = (st', pending)"
  shows "sorted (map delivery_key pending)"
    and "length pending \<le> nat (max 1 (max_commands_per_heartbeat cfg))"
    and "x \<in> set pending \<Longrightarrow> x \<in> set (fl_commands st') \<and>
      (\<exists>c \<in> set (fl_commands st). deliverable cfg i version now c \<and> \<not> co_expires_at c < now \<and> x = mark now c)"
    and "c \<in> set (fl_commands st') \<Longrightarrow> deliverable cfg i version now c \<Longrightarrow>
      length pending = nat (max 1 (max_commands_per_heartbeat cfg)) \<and> (\<forall>x \<in> set pending. delivery_key x \<le> delivery_key c)"
proof -
  let ?rows = "candidates cfg i version now (fl_commands st)"
  obtain k where k: "st' = st\<lparr>fl_commands := put_rows (mark now) (take k ?rows) (fl_commands st)\<rparr>"
    "pending = map (mark now) (filter (\<lambda>c. \<not> co_expires_at c < now) (take k ?rows))"
    "length pending \<le> nat (max 1 (max_commands_per_heartbeat cfg))"
    "k = length ?rows \<or> length pending = nat (max 1 (max_commands_per_heartbeat cfg))"
    using deliver_result [OF assms(2)] by blast
  have key: "delivery_key (mark now x) = delivery_key x" for x by (simp add: delivery_key_def)
  have sorted: "sorted (map delivery_key ?rows)" by (simp add: candidates_def)
  then have split: "sorted (map delivery_key (take k ?rows) @ map delivery_key (drop k ?rows))"
    by (metis append_take_drop_id map_append)
  have mem: "x \<in> set (fl_commands st) \<and> deliverable cfg i version now x" if "x \<in> set (take k ?rows)" for x
    using in_set_takeD [OF that] by (simp add: candidates_mem)
  have table: "fl_commands st' = map (\<lambda>q. if q \<in> set (take k ?rows) then mark now q else q) (fl_commands st)"
    unfolding k(1) using put_rows_map [OF fleet_invD(3) [OF assms(1)], of "take k ?rows" "mark now"] mem
      take_ids [OF candidates_ids [OF fleet_invD(3) [OF assms(1)]]] by (simp add: subset_iff)
  have "sorted (map delivery_key (take k ?rows))" using split by (simp only: sorted_append)
  then show "sorted (map delivery_key pending)"
    unfolding k(2) map_map comp_def key by (rule sorted_filter)
  show "length pending \<le> nat (max 1 (max_commands_per_heartbeat cfg))" by (rule k(3))
  show "x \<in> set (fl_commands st') \<and> (\<exists>c \<in> set (fl_commands st). deliverable cfg i version now c \<and> \<not> co_expires_at c < now \<and> x = mark now c)"
    if "x \<in> set pending"
  proof -
    obtain c where c: "c \<in> set (take k ?rows)" "\<not> co_expires_at c < now" "x = mark now c"
      using \<open>x \<in> set pending\<close> unfolding k(2) by auto
    then show ?thesis using mem [OF c(1)] unfolding table by auto
  qed
  show "length pending = nat (max 1 (max_commands_per_heartbeat cfg)) \<and> (\<forall>x \<in> set pending. delivery_key x \<le> delivery_key c)"
    if c: "c \<in> set (fl_commands st')" "deliverable cfg i version now c"
  proof -
    obtain q where q: "q \<in> set (fl_commands st)" "c = (if q \<in> set (take k ?rows) then mark now q else q)" using c(1) unfolding table by auto
    then have "c = q" "q \<notin> set (take k ?rows)" using c(2) mark_not_deliverable by (auto split: if_splits)
    moreover have "q \<in> set ?rows" using q c(2) \<open>c = q\<close> by (simp add: candidates_mem)
    ultimately have drop: "q \<in> set (drop k ?rows)" by (metis Un_iff append_take_drop_id set_append)
    then have "k \<noteq> length ?rows" by auto
    moreover have "delivery_key x \<le> delivery_key q" if "x \<in> set pending" for x
    proof -
      obtain y where y: "y \<in> set (take k ?rows)" "x = mark now y"
        using \<open>x \<in> set pending\<close> unfolding k(2) by auto
      then have "delivery_key y \<in> set (map delivery_key (take k ?rows))" "delivery_key q \<in> set (map delivery_key (drop k ?rows))"
        using drop by simp_all
      then show ?thesis using split unfolding sorted_append y(2) key by blast
    qed
    ultimately show ?thesis using k(4) \<open>c = q\<close> by blast
  qed
qed

text \<open>
  C20. A heartbeat hands out the right commands, oldest first. What an accepted heartbeat returns
  is at most one batch, in the order of creation; each command is for this endpoint, in the
  envelope version negotiated in this beat, not expired, was queued or is redelivered after its
  lease, and is recorded as dispatched now; and if a deliverable command is left behind, the batch
  is full and every command of it is no younger. A quarantined endpoint gets nothing.
\<close>

theorem heartbeat_delivers:
  assumes "fleet_reachable cfg tf u st" "heartbeat cfg tf u st h body now = (st', Inr ack)"
  shows "\<exists>a s. get_current_agent (tf_hash tf) u st h now = Inr (a, s) \<and>
    length (ha_pending_commands ack) \<le> nat (max 1 (max_commands_per_heartbeat cfg)) \<and>
    sorted (map delivery_key (ha_pending_commands ack)) \<and>
    (trust_state a = Trust_quarantined \<longrightarrow> ha_pending_commands ack = []) \<and>
    (\<forall>x \<in> set (ha_pending_commands ack). x \<in> set (fl_commands st') \<and> co_status x = Cmd_dispatched \<and>
       cm_dispatched_at x = Some (Aware now) \<and> now \<le> co_expires_at x \<and> co_agent_id x = ag_id a \<and>
       Some (ustr (cm_envelope_version x)) =
         select_command_envelope_version (map ustr (hb_supported_command_envelope_versions body)) \<and>
       (\<exists>c \<in> set (fl_commands st). co_id c = co_id x \<and> co_kind c = co_kind x \<and> co_payload c = co_payload x \<and>
          (co_status c = Cmd_queued \<or> co_status c = Cmd_dispatched \<and> (\<exists>t. cm_dispatched_at c = Some t \<and>
             instant_of t \<le> redelivery_before cfg now)))) \<and>
    (\<forall>c \<in> set (fl_commands st'). trust_state a \<noteq> Trust_quarantined \<and>
       (\<exists>version. select_command_envelope_version (map ustr (hb_supported_command_envelope_versions body)) = Some version \<and>
          deliverable cfg (ag_id a) version now c) \<longrightarrow>
       length (ha_pending_commands ack) = nat (max 1 (max_commands_per_heartbeat cfg)) \<and>
       (\<forall>x \<in> set (ha_pending_commands ack). delivery_key x \<le> delivery_key c))"
  using fleet_reachable_inv [OF assms(1)] assms(2)
proof (cases rule: heartbeat_result)
  case (quarantined a s)
  then show ?thesis by auto
next
  case (active a s b st3)
  let ?sel = "select_command_envelope_version (map ustr (hb_supported_command_envelope_versions body))"
  show ?thesis
  proof (cases ?sel)
    case None
    then have "ha_pending_commands ack = []" using active(6) by (simp add: deliver_def)
    then show ?thesis using active(1) None by auto
  next
    case (Some version)
    note d = active(6) [unfolded Some]
    have x: "x \<in> set (fl_commands st') \<and> co_status x = Cmd_dispatched \<and>
       cm_dispatched_at x = Some (Aware now) \<and> now \<le> co_expires_at x \<and> co_agent_id x = ag_id a \<and>
       Some (ustr (cm_envelope_version x)) = ?sel \<and>
       (\<exists>c \<in> set (fl_commands st). co_id c = co_id x \<and> co_kind c = co_kind x \<and> co_payload c = co_payload x \<and>
          (co_status c = Cmd_queued \<or> co_status c = Cmd_dispatched \<and> (\<exists>t. cm_dispatched_at c = Some t \<and>
             instant_of t \<le> redelivery_before cfg now)))" if "x \<in> set (ha_pending_commands ack)" for x
    proof -
      obtain c where c: "x \<in> set (fl_commands st')" "c \<in> set (fl_commands st3)" "deliverable cfg (ag_id a) version now c"
        "\<not> co_expires_at c < now" "x = mark now c"
        using deliver_orders(3) [OF active(4) d \<open>x \<in> set (ha_pending_commands ack)\<close>] by blast
      have "co_status x = Cmd_dispatched" "cm_dispatched_at x = Some (Aware now)" using c(4,5) by (simp_all add: mark_def)
      moreover have "co_status c = Cmd_queued \<or> co_status c = Cmd_dispatched \<and> (\<exists>t. cm_dispatched_at c = Some t \<and>
             instant_of t \<le> redelivery_before cfg now)" "co_agent_id c = ag_id a" "ustr (cm_envelope_version c) = version"
        using c(3) by (auto simp: deliverable_def split: option.splits)
      ultimately show ?thesis using c(1,4,5) active(5) c(2,3) Some by auto
    qed
    have rest: "length (ha_pending_commands ack) = nat (max 1 (max_commands_per_heartbeat cfg)) \<and>
       (\<forall>x \<in> set (ha_pending_commands ack). delivery_key x \<le> delivery_key c)"
      if "c \<in> set (fl_commands st')" "deliverable cfg (ag_id a) version now c" for c
      using deliver_orders(4) [OF active(4) d that] .
    show ?thesis
      using active(1,2) deliver_orders(1,2) [OF active(4) d] x rest Some by (intro exI [of _ a] exI [of _ s]) simp
  qed
qed

section \<open>Results\<close>

lemma columns_completed: "agent_completed_at (columns_of body) = map_option Aware (ensure_utc (rs_agent_completed_at body))"
  by (cases "rs_agent_completed_at body") (simp_all add: columns_of_def)

lemma same_result_agree:
  assumes "same_result c body"
  shows "same_result c body' \<longleftrightarrow> columns_of body' = columns_of body"
proof
  assume "same_result c body'"
  then have rest: "(columns_of body')\<lparr>agent_completed_at := None\<rparr> = (columns_of body)\<lparr>agent_completed_at := None\<rparr>"
    and "ensure_utc (rs_agent_completed_at body') = ensure_utc (rs_agent_completed_at body)"
    using assms by (simp_all add: same_result_def Let_def)
  then have "agent_completed_at (columns_of body') = agent_completed_at (columns_of body)" by (simp add: columns_completed)
  with rest show "columns_of body' = columns_of body"
    by (cases "columns_of body"; cases "columns_of body'") simp
next
  assume eq: "columns_of body' = columns_of body"
  then have "map_option Aware (ensure_utc (rs_agent_completed_at body')) = map_option Aware (ensure_utc (rs_agent_completed_at body))"
    by (metis columns_completed)
  then have "ensure_utc (rs_agent_completed_at body') = ensure_utc (rs_agent_completed_at body)"
    by (rule option.inj_map_strong [rotated]) simp
  then show "same_result c body'" using assms eq by (simp add: same_result_def Let_def)
qed

lemma completed_same: "same_result (completed_row c body now) body"
proof -
  have "ensure_utc (map_option Aware t) = t" for t by (cases t) simp_all
  then show ?thesis by (simp add: same_result_def Let_def completed_row_def columns_completed)
qed

lemma submit_result_Inr:
  assumes "fleet_inv st" "submit_result tf u st h i body now = (st', Inr ())"
  obtains a s c where "get_current_agent (tf_hash tf) u st h now = Inr (a, s)" "trust_state a = Trust_active" "result_body_ok body"
    "c \<in> set (fl_commands st')" "co_id c = i" "co_agent_id c = ag_id a" "same_result c body"
    "co_status c = (if rs_exit_code body = 0 then Cmd_succeeded else Cmd_failed)"
proof -
  obtain a s where a: "get_current_agent (tf_hash tf) u st h now = Inr (a, s)" "trust_state a = Trust_active" "result_body_ok body"
    using assms(2) by (auto simp: submit_result_def split: sum.splits prod.splits if_splits)
  obtain c where f: "find (\<lambda>c. co_id c = i \<and> co_agent_id c = ag_id a) (fl_commands st) = Some c"
    using assms(2) a by (auto simp: submit_result_def split: option.splits)
  note c = find_mem [OF f]
  show thesis
  proof (cases "co_status c \<in> set [Cmd_succeeded, Cmd_failed]")
    case True
    then have st: "st' = st" "same_result c body" using assms(2) a f by (auto simp: submit_result_def split: if_splits)
    have "exit_code (cm_result c) = Some (rs_exit_code body)"
      using st(2) by (auto simp: same_result_def Let_def columns_of_def dest: arg_cong [where f = exit_code])
    then have "co_status c = (if rs_exit_code body = 0 then Cmd_succeeded else Cmd_failed)"
      using True fleet_invD(7) [OF assms(1), of c] c by (auto simp: row_ok_def)
    then show thesis using that [OF a, of c] c st by simp
  next
    case False
    let ?c = "completed_row c body now"
    have st: "fl_commands st' = put_command ?c (fl_commands st)"
      using assms(2) a f False by (auto simp: submit_result_def Let_def split: if_splits)
    have "co_id ?c = co_id c" by (simp add: completed_row_def)
    then have "?c \<in> set (fl_commands st')" using c unfolding st put_command_def db_update_def by auto
    then show thesis using that [OF a, of ?c] c completed_same by (simp add: completed_row_def)
  qed
qed


section \<open>A deployment\<close>

text \<open>
  One token, one endpoint enrolled with it, one command: the endpoint's first heartbeat gets the
  command and its result comes back. The witnesses below evaluate on these states.
\<close>

definition cfg0 :: fleet_settings where
  "cfg0 = \<lparr>enrollment_token_default_expiry_hours = 24, enrollment_token_max_expiry_days = 7, enrollment_token_max_uses = 10,
     installer_token_ttl_seconds = 3600, agent_credential_lifetime_seconds = 1000, agent_credential_overlap_seconds = 100,
     agent_credential_reattach_window_seconds = 500, max_commands_per_heartbeat = 5, command_redelivery_seconds = 60\<rparr>"

definition tf0 :: token_functions where
  "tf0 = \<lparr>tf_hash = map (\<lambda>_. CHR ''h''), tf_fingerprint = map (\<lambda>_. CHR ''f'')\<rparr>"

definition u0 :: unicode where
  "u0 = \<lparr>nd_value = (\<lambda>_. None), lower = map (\<lambda>c. if 65 \<le> c \<and> c \<le> 90 then c + 32 else c),
     upper = map (\<lambda>c. if 97 \<le> c \<and> c \<le> 122 then c - 32 else c),
     casefold = map (\<lambda>c. if 65 \<le> c \<and> c \<le> 90 then c + 32 else c)\<rparr>"

definition limiter0 :: LoginRateLimiter where
  "limiter0 = \<lparr>max_failures = 5, window_seconds = seconds 60, failures = Map.empty\<rparr>"

definition request0 :: EnrollRequest where
  "request0 = \<lparr>er_enrollment_token = [7], er_hostname = ustr ''pc'', er_agent_name = None, er_os = ustr ''x'',
     er_operating_system = None, er_os_version = ustr ''1'', er_agent_version = ustr ''1'', er_architecture = ustr ''a'',
     er_environment = None, er_site = None, er_public_key = None,
     er_supported_command_envelope_versions = [''command-v3''], er_supported_capabilities = [], er_update_channel = None\<rparr>"

definition command0 :: CommandRow where
  "command0 = \<lparr>co_id = ''c1'', co_agent_id = ''a1'', co_kind = collect_inventory, co_payload = JObj [], co_status = Cmd_queued,
     co_created_at = 0, co_expires_at = seconds 900, co_actor_email = None, co_actor_operator_id = None,
     co_script_version_id = None, co_approval_request_id = None, co_emergency_override_id = None,
     cm_envelope_version = ''command-v3'',
     cm_result = \<lparr>exit_code = None, stdout = None, stderr = None, stdout_truncated = None, stderr_truncated = None,
       stdout_total_bytes = None, stderr_total_bytes = None, agent_completed_at = None\<rparr>,
     cm_dispatched_at = None, cm_completed_at = None\<rparr>"

definition beat0 :: HeartbeatIn where
  "beat0 = \<lparr>hb_agent_version = None, hb_supported_command_envelope_versions = [''command-v3''],
     hb_supported_capabilities = [], hb_update_channel = None, hb_pending_results = []\<rparr>"

definition result0 :: CommandResult where
  "result0 = \<lparr>rs_exit_code = 0, rs_stdout = [], rs_stderr = [], rs_agent_completed_at = None, rs_stdout_truncated = None,
     rs_stderr_truncated = None, rs_stdout_total_bytes = None, rs_stderr_total_bytes = None\<rparr>"

text \<open>The header with the bearer of \<open>n\<close> letters.\<close>

definition header0 :: "nat list \<Rightarrow> ustr option" where
  "header0 token = Some (ustr ''Bearer '' @ token)"

definition minted :: fleet where
  "minted = fst (create_installer_package cfg0 (Inr ''sha'') [] (fleet_start db1 (\<lambda>_. []) limiter0) ''site1'' root 0 ''t1'' ''d1'' ''h'')"

definition enrolled :: fleet where
  "enrolled = fst (enroll cfg0 tf0 u0 minted request0 ''ip'' 0 0 ''a1'' [7, 7])"

definition queued :: fleet where
  "queued = enrolled\<lparr>fl_commands := fl_commands enrolled @ [command0]\<rparr>"

definition beaten :: fleet where
  "beaten = fst (heartbeat cfg0 tf0 u0 queued (header0 [7, 7]) beat0 (seconds 10))"

definition answered :: fleet where
  "answered = fst (submit_result tf0 u0 beaten (header0 [7, 7]) ''c1'' result0 (seconds 20))"

definition agent0 :: AgentRow where
  "agent0 = enrolled_row cfg0 tf0 (use_token 0 (installer_token ''site1'' ''t1'' ''h'' (seconds 3600) root)) request0 0 ''a1'' [7, 7]"

lemmas fleet_fixture_defs = cfg0_def tf0_def u0_def limiter0_def request0_def header0_def

lemma root_may [simp]: "require_role r root = Inr ()" "is_platform_admin root"
  by (cases r; simp add: require_role_def root_def op0_def) (simp add: root_def op0_def)

lemma site1_known [simp]: "db_get site_pk (sites db1) ''site1'' = Some \<lparr>site_pk = ''site1'', site_client_id = ''client1''\<rparr>"
  by (simp add: db1_def db_get_def)

lemma minted: "fl_db minted = db1" "fl_agents minted = []" "fl_commands minted = []" "fl_limiter minted = limiter0"
  "fl_tokens minted = [installer_token ''site1'' ''t1'' ''h'' (seconds 3600) root]" "fl_site_name minted = (\<lambda>_. [])"
  by (simp_all add: minted_def create_installer_package_def site_gate_def assert_client_action_def fleet_start_def Let_def cfg0_def)

lemma limiter0: "retry_after limiter0 ''ip'' 0 = (Inr None, limiter0)" "record_failure limiter0 ''ip'' 0 = limiter0\<lparr>failures := [''ip'' \<mapsto> [0]]\<rparr>"
  by (auto simp: limiter0_def retry_after_def record_failure_def prune_def queue_of_def Let_def)

lemma admitted: "enroll_admission minted request0 ''ip'' 0 = (minted\<lparr>fl_limiter := limiter0\<lparr>failures := [''ip'' \<mapsto> [0]]\<rparr>\<rparr>, Inr (ustr ''command-v3''))"
proof -
  have "enroll_body_ok request0" by (simp add: enroll_body_ok_def capabilities_ok_def request0_def Let_def ustr_def ascii_digit_def)
  moreover have "select_command_envelope_version (map ustr (er_supported_command_envelope_versions request0)) = Some (ustr ''command-v3'')"
    by (simp add: select_command_envelope_version_def request0_def SUPPORTED_COMMAND_ENVELOPE_VERSIONS_def COMMAND_ENVELOPE_V3_def)
  ultimately show ?thesis by (simp add: enroll_admission_def minted limiter0 Let_def)
qed

lemma token0: "redeem_check u0 (minted\<lparr>fl_limiter := l\<rparr>) (tf_hash tf0 (er_enrollment_token request0)) request0 0 =
    Inr (installer_token ''site1'' ''t1'' ''h'' (seconds 3600) root)"
  by (simp add: redeem_check_def minted tf0_def request0_def installer_token_def lapsed_after_def seconds_def
    restriction_refusal_def given_def same_claim_def)

lemma enrolled: "fl_db enrolled = db1" "fl_agents enrolled = [agent0]" "fl_commands enrolled = []"
  "fl_tokens enrolled = [use_token 0 (installer_token ''site1'' ''t1'' ''h'' (seconds 3600) root)]"
proof -
  note e = enroll_def admitted token0 [unfolded installer_token_def] enroll_write_def redeem_consume_def rowcount_def db_get_def db_update_def consumable_def minted
    lapsed_after_def record_enrolled_def Let_def use_token_def installer_token_def
  show "fl_db enrolled = db1" "fl_agents enrolled = [agent0]" "fl_commands enrolled = []"
    "fl_tokens enrolled = [use_token 0 (installer_token ''site1'' ''t1'' ''h'' (seconds 3600) root)]"
    unfolding enrolled_def agent0_def installer_token_def by (simp_all add: e seconds_def)
qed

definition delivered0 :: CommandRow where
  "delivered0 = command0\<lparr>co_status := Cmd_dispatched, cm_dispatched_at := Some (Aware (seconds 10))\<rparr>"

definition online0 :: AgentRow where
  "online0 = agent0\<lparr>last_seen_at := Some (seconds 10), ag_status := Agent_online\<rparr>"

lemma agent0_fields [simp]: "ag_id agent0 = ''a1''" "token_hash agent0 = ''hh''" "previous_token_hash agent0 = None"
  "trust_state agent0 = Trust_active" "credential_expires_at agent0 = Some (Aware (seconds 1000))"
  "command_envelope_versions agent0 = Some [''command-v3'']" "supported_capabilities agent0 = Some []" "update_channel agent0 = None"
  "last_rotation_nonce agent0 = None" "enrolled_by_token_id agent0 = Some ''t1''"
  by (simp_all add: agent0_def enrolled_row_def tf0_def cfg0_def request0_def use_token_def installer_token_def)

lemma bearer0: "bearer_token u0 (header0 (n # token)) = Inr (n # token)"
  by (simp add: bearer_token_def header0_def partition_at_def ustr_def u0_def)

lemma authenticated:
  "fl_agents st = [a] \<Longrightarrow> token_hash a = ''hh'' \<Longrightarrow> trust_state a = Trust_active \<Longrightarrow>
    credential_expires_at a = Some (Aware (seconds 1000)) \<Longrightarrow> now < seconds 1000 \<Longrightarrow>
    get_current_agent (tf_hash tf0) u0 st (header0 [7, 7]) now = Inr (a, Current)"
  by (simp add: get_current_agent_def bearer0 resolve_agent_def agents_with_hash_def current_slot_def tf0_def)

lemma queued: "fl_db queued = db1" "fl_agents queued = [agent0]" "fl_commands queued = [command0]"
  by (simp_all add: queued_def enrolled)

lemma heartbeat0: "snd (heartbeat cfg0 tf0 u0 queued (header0 [7, 7]) beat0 (seconds 10)) =
    Inr \<lparr>ha_pending_commands = [delivered0], ha_trust_state = Trust_active\<rparr>"
  and beaten: "fl_db beaten = db1" "fl_agents beaten = [online0]" "fl_commands beaten = [delivered0]"
proof -
  have auth: "get_current_agent (tf_hash tf0) u0 queued (header0 [7, 7]) (seconds 10) = Inr (agent0, Current)"
    by (rule authenticated) (simp_all add: queued seconds_def)
  have ok: "heartbeat_body_ok beat0"
    by (simp add: heartbeat_body_ok_def capabilities_ok_def beat0_def Let_def ustr_def ascii_digit_def)
  have sel: "select_command_envelope_version [ustr ''command-v3''] = Some (ustr ''command-v3'')"
    by (simp add: select_command_envelope_version_def SUPPORTED_COMMAND_ENVELOPE_VERSIONS_def COMMAND_ENVELOPE_V3_def)
  have none: "note_pending beat0 a st = st" for a st
    by (simp add: note_pending_def noticed_def notice_of_def beat0_def)
  note h = heartbeat_def auth ok sel none beat_version_def beat_capabilities_def advertised_versions_def deliver_def put_agent_def
    db_update_def queued put_command_def
  have v: "hb_agent_version beat0 = None" "hb_supported_command_envelope_versions beat0 = [''command-v3'']"
    "hb_supported_capabilities beat0 = []" "hb_update_channel beat0 = None" by (simp_all add: beat0_def)
  have d: "deliverable cfg0 ''a1'' (ustr ''command-v3'') t command0" for t by (simp add: deliverable_def command0_def)
  have late: "\<not> co_expires_at command0 < seconds 10" by (simp add: command0_def seconds_def)
  have same: "agent0\<lparr>last_seen_at := t, ag_status := s, command_envelope_versions := Some [''command-v3''],
     supported_capabilities := Some []\<rparr> = agent0\<lparr>last_seen_at := t, ag_status := s\<rparr>" for t s
    by (simp add: agent0_def enrolled_row_def request0_def)
  show "snd (heartbeat cfg0 tf0 u0 queued (header0 [7, 7]) beat0 (seconds 10)) =
      Inr \<lparr>ha_pending_commands = [delivered0], ha_trust_state = Trust_active\<rparr>"
    by (simp add: h v d late same delivered0_def Let_def)
  show "fl_db beaten = db1" "fl_agents beaten = [online0]" "fl_commands beaten = [delivered0]"
    unfolding beaten_def by (simp_all add: h v d late same delivered0_def online0_def Let_def)
qed

lemma answered: "snd (submit_result tf0 u0 beaten (header0 [7, 7]) ''c1'' result0 (seconds 20)) = Inr ()"
  and answered_agents: "fl_agents answered = [online0]"
proof -
  have auth: "get_current_agent (tf_hash tf0) u0 beaten (header0 [7, 7]) (seconds 20) = Inr (online0, Current)"
    by (rule authenticated) (simp_all add: beaten online0_def seconds_def)
  have ok: "result_body_ok result0"
    by (simp add: result_body_ok_def result0_def MAX_RESULT_STREAM_BYTES_def MAX_RESULT_COMBINED_BYTES_def encode_utf8_def)
  note r = submit_result_def auth ok beaten
  have "find (\<lambda>c. co_id c = ''c1'' \<and> co_agent_id c = ag_id online0) [delivered0] = Some delivered0"
    by (simp add: delivered0_def online0_def command0_def)
  moreover have "trust_state online0 = Trust_active" "co_status delivered0 = Cmd_dispatched" "accepting delivered0"
    by (simp_all add: online0_def delivered0_def accepting_def)
  ultimately show "snd (submit_result tf0 u0 beaten (header0 [7, 7]) ''c1'' result0 (seconds 20)) = Inr ()" "fl_agents answered = [online0]"
    unfolding answered_def by (simp_all add: r Let_def)
qed

lemma reachable0: "fleet_reachable cfg0 tf0 u0 enrolled" "fleet_reachable cfg0 tf0 u0 queued"
  "fleet_reachable cfg0 tf0 u0 beaten" "fleet_reachable cfg0 tf0 u0 answered"
proof -
  have step: "fleet_reachable cfg0 tf0 u0 st \<Longrightarrow> fleet_step cfg0 tf0 u0 st st' \<Longrightarrow> fleet_reachable cfg0 tf0 u0 st'" for st st'
    unfolding fleet_reachable_def by (blast intro: rtranclp.rtrancl_into_rtrancl)
  have "fleet_reachable cfg0 tf0 u0 (fleet_start db1 (\<lambda>_. []) limiter0)" unfolding fleet_reachable_def by blast
  then have "fleet_reachable cfg0 tf0 u0 minted"
    unfolding minted_def by (rule step) (rule fs_installer, simp add: fleet_start_def)
  then show e: "fleet_reachable cfg0 tf0 u0 enrolled"
    unfolding enrolled_def by (rule step) (rule fs_enroll; simp add: minted hashes_def)
  have "row_ok command0" by (simp add: row_ok_def command0_def)
  then show q: "fleet_reachable cfg0 tf0 u0 queued"
    unfolding queued_def by (intro step [OF e] fs_dispatch) (simp_all add: enrolled command0_def)
  show b: "fleet_reachable cfg0 tf0 u0 beaten" unfolding beaten_def by (rule step [OF q fs_heartbeat])
  show "fleet_reachable cfg0 tf0 u0 answered" unfolding answered_def by (rule step [OF b fs_result])
qed

section \<open>Witnesses\<close>

theorem enrollment_uses_bounded_witness:
  "int (length (filter (\<lambda>a. enrolled_by_token_id a = Some ''t1'') (fl_agents enrolled))) = 1 \<and>
   (\<exists>t. fl_tokens enrolled = [t] \<and> et_uses t = 1 \<and> et_uses t \<le> et_max_uses t)"
  using enrollment_uses_bounded [OF reachable0(1), of "use_token 0 (installer_token ''site1'' ''t1'' ''h'' (seconds 3600) root)"]
  by (simp add: enrolled use_token_def installer_token_def)

theorem command_rows_typed_witness:
  "\<exists>c. fl_commands beaten = [c] \<and> co_status c \<noteq> Cmd_running \<and> co_status c = Cmd_dispatched \<and> exit_code (cm_result c) = None \<and>
     cm_dispatched_at c \<noteq> None"
  using command_rows_typed [OF reachable0(3), of delivered0] by (simp add: beaten delivered0_def)

definition revoked0 :: fleet where
  "revoked0 = fst (revoke_agent beaten ''a1'' (ustr ''stolen'') root (seconds 30))"


theorem rotation_survives_losses_witness:
  "\<exists>b. get_current_agent (tf_hash tf0) u0 (lost_renewals cfg0 tf0 u0 (header0 [7, 7]) beaten
      [(seconds 30, replicate 16 8, [7, 7, 7]), (seconds 60, replicate 16 9, [7, 7, 7, 7])]) (header0 [7, 7]) (seconds 100) = Inr (b, Overlap) \<and>
     ag_id b = ''a1''"
proof -
  have auth: "get_current_agent (tf_hash tf0) u0 beaten (header0 [7, 7]) (seconds 30) = Inr (online0, Current)"
    by (rule authenticated) (simp_all add: beaten online0_def seconds_def)
  have h: "hashes beaten = {''hh''}" by (simp add: hashes_def slots_def beaten online0_def)
  have "in_time cfg0 tf0 (seconds 30) (insert (tf_hash tf0 [7, 7, 7]) (hashes beaten)) (Some (replicate 16 8))
      [(seconds 60, replicate 16 9, [7, 7, 7, 7])]"
    by (simp add: h cfg0_def tf0_def rotation_nonce_ok_def nonce_replayed_def seconds_def list_all_iff)
  note t = this
  have n: "rotation_nonce_ok (replicate 16 8)" "nonce_replayed (last_rotation_nonce online0) (replicate 16 8) = Some False" "tf_hash tf0 [7, 7, 7] \<notin> hashes beaten"
    by (simp_all add: h rotation_nonce_ok_def nonce_replayed_def online0_def tf0_def)
  have l: "last [(seconds 30, replicate 16 8, [7, 7, 7]), (seconds 60, replicate 16 9, [7, 7, 7, 7])] =
      (seconds 60, replicate 16 9, [7, 7, 7, 7])" by simp
  have "seconds 100 < seconds 60 + seconds (agent_credential_overlap_seconds cfg0)" "ag_id online0 = ''a1''"
    by (simp_all add: cfg0_def seconds_def online0_def)
  then show ?thesis
    using rotation_survives_losses [OF reachable0(3) bearer0 auth n t l bearer0, of "seconds 100"] unfolding Let_def by metis
qed

theorem heartbeat_delivers_witness:
  "\<exists>ack. snd (heartbeat cfg0 tf0 u0 queued (header0 [7, 7]) beat0 (seconds 10)) = Inr ack \<and>
     sorted (map delivery_key (ha_pending_commands ack)) \<and> ha_pending_commands ack = [delivered0] \<and>
     co_status delivered0 = Cmd_dispatched"
proof -
  have "heartbeat cfg0 tf0 u0 queued (header0 [7, 7]) beat0 (seconds 10) =
      (beaten, Inr \<lparr>ha_pending_commands = [delivered0], ha_trust_state = Trust_active\<rparr>)"
    using heartbeat0 by (simp add: beaten_def prod_eq_iff)
  from heartbeat_delivers [OF reachable0(2) this] show ?thesis using heartbeat0 by auto
qed


end
