(* ===== verification/Cron.thy ===== *)
theory Cron
  imports Calendar Py_Text
begin

text \<open>
  The cron calculator of the scheduler (\<open>server/app/core/scheduler.py\<close>): parsing and validation
  of five-field expressions and the search for the next run. A set of values is the list of the
  values added to it. Time zones other than UTC come from the zone database, a parameter; the
  search itself runs on the wall clock, as the code does.
\<close>

section \<open>Fields\<close>

text \<open>\<open>list(range(start, stop, step))\<close> for a positive step.\<close>

definition py_range :: "int \<Rightarrow> int \<Rightarrow> int \<Rightarrow> int list" where
  "py_range start stop step = map (\<lambda>k. start + step * int k) [0..<nat ((stop - start + step - 1) div step)]"

definition both :: "'a option \<Rightarrow> 'b option \<Rightarrow> ('a \<times> 'b) option" where
  "both x y = (case (x, y) of (Some a, Some b) \<Rightarrow> Some (a, b) | _ \<Rightarrow> None)"

text \<open>\<open>a-b\<close> as two numbers.\<close>

definition cron_bounds :: "unicode \<Rightarrow> ustr \<Rightarrow> (int \<times> int) option" where
  "cron_bounds u expr = (case partition_at 45 expr of (a, b) \<Rightarrow> both (py_int u a) (py_int u b))"

text \<open>The values that one part of a field adds; \<open>None\<close> is \<open>ValueError\<close>.\<close>

definition parse_part :: "unicode \<Rightarrow> int \<Rightarrow> int \<Rightarrow> ustr \<Rightarrow> int list option" where
  "parse_part u min_val max_val part =
     (let within = filter (\<lambda>v. min_val \<le> v \<and> v \<le> max_val) in
      if 47 \<in> set part
      then (case partition_at 47 part of (expr, step_str) \<Rightarrow>
        (case py_int u step_str of
           None \<Rightarrow> None
         | Some step \<Rightarrow>
             if step \<le> 0 then None
             else map_option (\<lambda>(start, stop). within (py_range start (stop + 1) step))
               (if expr = ustr ''*'' then Some (min_val, max_val)
                else if 45 \<in> set expr then cron_bounds u expr
                else map_option (\<lambda>start. (start, max_val)) (py_int u expr))))
      else if 45 \<in> set part
      then map_option (\<lambda>(start, stop). within (py_range start (stop + 1) 1)) (cron_bounds u part)
      else map_option (\<lambda>v. within [v]) (py_int u part))"

fun parse_parts :: "unicode \<Rightarrow> int \<Rightarrow> int \<Rightarrow> ustr list \<Rightarrow> int list option" where
  "parse_parts u min_val max_val [] = Some []"
| "parse_parts u min_val max_val (p # ps) =
     (if strip p = [] then parse_parts u min_val max_val ps
      else case parse_part u min_val max_val (strip p) of
        None \<Rightarrow> None
      | Some vs \<Rightarrow> map_option (\<lambda>ws. vs @ ws) (parse_parts u min_val max_val ps))"

definition parse_cron_field :: "unicode \<Rightarrow> ustr \<Rightarrow> int \<Rightarrow> int \<Rightarrow> int list option" where
  "parse_cron_field u field min_val max_val =
     (if strip field = ustr ''*'' then Some [min_val..max_val]
      else parse_parts u min_val max_val (split_on 44 (strip field)))"

section \<open>Expressions\<close>

record cron =
  cr_minutes :: "int list"
  cr_hours :: "int list"
  cr_doms :: "int list"
  cr_months :: "int list"
  cr_dows :: "int list"

definition parse_cron :: "unicode \<Rightarrow> ustr \<Rightarrow> cron option" where
  "parse_cron u expr =
     (case words (strip expr) of
        [p0, p1, p2, p3, p4] \<Rightarrow>
          (case both (both (parse_cron_field u p0 0 59) (parse_cron_field u p1 0 23))
             (both (both (parse_cron_field u p2 1 31) (parse_cron_field u p3 1 12)) (parse_cron_field u p4 0 7)) of
             None \<Rightarrow> None
           | Some ((minutes, hours), ((doms, months), dows)) \<Rightarrow>
               Some \<lparr>cr_minutes = minutes, cr_hours = hours, cr_doms = doms, cr_months = months, cr_dows = dows\<rparr>)
      | _ \<Rightarrow> None)"

definition validate_cron_expression :: "unicode \<Rightarrow> ustr \<Rightarrow> bool" where
  "validate_cron_expression u expr =
     (case parse_cron u expr of
        None \<Rightarrow> False
      | Some cr \<Rightarrow> cr_minutes cr \<noteq> [] \<and> cr_hours cr \<noteq> [] \<and> cr_doms cr \<noteq> [] \<and> cr_months cr \<noteq> [] \<and> cr_dows cr \<noteq> [])"

section \<open>The next run\<close>

record zone =
  zn_local :: "instant \<Rightarrow> civil"
  zn_instant :: "civil \<Rightarrow> instant"

definition utc_zone :: zone where
  "utc_zone = \<lparr>zn_local = civil_of_instant, zn_instant = civil_instant\<rparr>"

definition get_tz :: "unicode \<Rightarrow> (ustr \<Rightarrow> zone option) \<Rightarrow> ustr \<Rightarrow> zone" where
  "get_tz u ZoneInfo tz_name =
     (if tz_name = [] \<or> upper u (strip tz_name) \<in> set (map ustr [''UTC'', ''Z'', ''GMT'']) then utc_zone
      else case ZoneInfo tz_name of Some z \<Rightarrow> z | None \<Rightarrow> utc_zone)"

text \<open>\<open>dows\<close> after Sunday 7 has become 0.\<close>

definition cron_dows :: "cron \<Rightarrow> int list" where
  "cron_dows cr = map (\<lambda>d. if d = 7 then 0 else d) (cr_dows cr)"

definition cron_dow :: "civil \<Rightarrow> int" where
  "cron_dow c = int ((weekday (c_year c) (c_month c) (c_day c) + 1) mod 7)"

definition cron_matches :: "cron \<Rightarrow> civil \<Rightarrow> bool" where
  "cron_matches cr c \<longleftrightarrow>
     int (c_month c) \<in> set (cr_months cr) \<and> int (c_day c) \<in> set (cr_doms cr) \<and>
     int (c_hour c) \<in> set (cr_hours cr) \<and> int (c_minute c) \<in> set (cr_minutes cr) \<and>
     cron_dow c \<in> set (cron_dows cr)"

datatype cron_error = ValueError | OverflowError

text \<open>\<open>cur + timedelta(minutes=1)\<close>; the calendar ends with the year 9999.\<close>

definition next_minute :: "civil \<Rightarrow> civil option" where
  "next_minute c = (let c' = add_minute c in if c_year c' \<le> 9999 then Some c' else None)"

fun search :: "cron \<Rightarrow> nat \<Rightarrow> civil \<Rightarrow> cron_error + civil" where
  "search cr 0 cur = Inl ValueError"
| "search cr (Suc n) cur =
     (if cron_matches cr cur then Inr cur
      else case next_minute cur of None \<Rightarrow> Inl OverflowError | Some c \<Rightarrow> search cr n c)"

definition max_minutes :: nat where "max_minutes = 5 * 366 * 1440"

definition compute_next_run ::
  "unicode \<Rightarrow> (ustr \<Rightarrow> zone option) \<Rightarrow> ustr \<Rightarrow> ustr \<Rightarrow> instant \<Rightarrow> cron_error + instant" where
  "compute_next_run u ZoneInfo cron_expr tz_name base_dt =
     (case parse_cron u cron_expr of
        None \<Rightarrow> Inl ValueError
      | Some cr \<Rightarrow>
          let tz = get_tz u ZoneInfo tz_name in
          (case next_minute (zn_local tz base_dt) of
             None \<Rightarrow> Inl OverflowError
           | Some c \<Rightarrow>
               (case search cr max_minutes (c\<lparr>c_second := 0, c_micro := 0\<rparr>) of
                  Inl e \<Rightarrow> Inl e
                | Inr cur \<Rightarrow> Inr (zn_instant tz cur))))"

end
