(* ===== verification/Cron_Correct.thy ===== *)
theory Cron_Correct
  imports Cron
begin

text \<open>
  What the calculator computes: the wall clock of an instant is unique, so that the search by
  minutes finds the first matching minute after the base, and it does find one for every
  validated expression that leaves the weekday or the first week of a month open.
\<close>

section \<open>Dates are determined by their ordinals\<close>

lemma days_before_year_mono:
  assumes "1 \<le> a" "a \<le> b"
  shows "days_before_year a \<le> days_before_year b"
  using assms(2,1)
proof (induction rule: dec_induct)
  case (step n)
  then show ?case using days_before_year_Suc [of n] by simp
qed simp

lemma days_before_month_mono:
  assumes "1 \<le> a" "a \<le> b"
  shows "days_before_month y a \<le> days_before_month y b"
  using assms(2,1)
proof (induction rule: dec_induct)
  case (step n)
  then show ?case using days_before_month_Suc [of n y] by simp
qed simp

lemma day_of_year:
  assumes "valid_date y m d"
  shows "days_before_month y m + d \<le> (if is_leap y then 366 else 365)"
proof -
  have "days_before_month y m + days_in_month y m \<le> days_before_month y 12 + days_in_month y 12"
  proof (cases "m = 12")
    case False
    then have "days_before_month y (Suc m) \<le> days_before_month y 12"
      using assms by (intro days_before_month_mono) (auto simp: valid_date_def)
    then show ?thesis using days_before_month_Suc [of m y] assms by (simp add: valid_date_def)
  qed simp
  then show ?thesis using assms days_in_year [of y] by (simp add: valid_date_def)
qed

lemma ordinal_year:
  assumes "valid_date y m d"
  shows "days_before_year y < ordinal y m d" "ordinal y m d \<le> days_before_year (Suc y)"
  using assms day_of_year [OF assms] days_before_year_Suc [of y] by (auto simp: ordinal_def valid_date_def)

lemma ordinal_less_year:
  assumes "valid_date y m d" "valid_date y' m' d'" "y < y'"
  shows "ordinal y m d < ordinal y' m' d'"
proof -
  have "ordinal y m d \<le> days_before_year (Suc y)" by (rule ordinal_year(2) [OF assms(1)])
  also have "\<dots> \<le> days_before_year y'" using assms(3) by (intro days_before_year_mono) simp_all
  also have "\<dots> < ordinal y' m' d'" by (rule ordinal_year(1) [OF assms(2)])
  finally show ?thesis .
qed

lemma ordinal_less_month:
  assumes "valid_date y m d" "valid_date y m' d'" "m < m'"
  shows "ordinal y m d < ordinal y m' d'"
proof -
  have "days_before_month y m + d \<le> days_before_month y (Suc m)"
    using assms(1) days_before_month_Suc [of m y] by (simp add: valid_date_def)
  also have "\<dots> \<le> days_before_month y m'" using assms(3) by (intro days_before_month_mono) simp_all
  finally show ?thesis using assms(2) by (simp add: ordinal_def valid_date_def)
qed

lemma ordinal_inj:
  assumes "valid_date y m d" "valid_date y' m' d'" "ordinal y m d = ordinal y' m' d'"
  shows "y = y' \<and> m = m' \<and> d = d'"
proof -
  have y: "y = y'" using ordinal_less_year assms by (metis less_irrefl nat_neq_iff)
  then have "m = m'" using ordinal_less_month assms by (metis less_irrefl nat_neq_iff)
  then show ?thesis using y assms(3) by (simp add: ordinal_def)
qed

section \<open>Clocks are determined by their instants\<close>

definition clock :: "civil \<Rightarrow> nat" where
  "clock c = (c_hour c * 3600 + c_minute c * 60 + c_second c) * 1000000 + c_micro c"

lemma civil_instant_clock:
  "civil_instant c = (int (ordinal (c_year c) (c_month c) (c_day c)) - 719163) * 86400000000 + int (clock c)"
  by (simp add: civil_instant_def clock_def seconds_def algebra_simps)

lemma instant_split:
  assumes "(r :: nat) < 86400000000"
  shows "((x :: int) * 86400000000 + int r) div 86400000000 = x" "(x * 86400000000 + int r) mod 86400000000 = int r"
  using assms by simp_all

lemma clock_bound: "valid_civil c \<Longrightarrow> clock c < 86400000000"
  by (auto simp: valid_civil_def clock_def)

lemma clock_fields:
  assumes "valid_civil c"
  shows "c_micro c = clock c mod 1000000" "c_second c = clock c div 1000000 mod 60"
    "c_minute c = clock c div 60000000 mod 60" "c_hour c = clock c div 3600000000"
proof -
  have b: "c_hour c < 24" "c_minute c < 60" "c_second c < 60" "c_micro c < 1000000"
    using assms by (simp_all add: valid_civil_def)
  have s: "clock c div 1000000 = c_hour c * 3600 + c_minute c * 60 + c_second c" using b(4) by (simp add: clock_def)
  have m: "clock c div 60000000 = c_hour c * 60 + c_minute c"
    using b(3) s div_mult2_eq [of "clock c" 1000000 60] by simp
  have h: "clock c div 3600000000 = c_hour c"
    using b(2) m div_mult2_eq [of "clock c" 60000000 60] by simp
  show "c_micro c = clock c mod 1000000" using b(4) unfolding clock_def by (simp only: mod_mult_self3 mod_less)
  have "clock c div 1000000 = (c_hour c * 60 + c_minute c) * 60 + c_second c" using s by simp
  then show "c_second c = clock c div 1000000 mod 60" using b(3) by (simp only: mod_mult_self3 mod_less)
  show "c_minute c = clock c div 60000000 mod 60" "c_hour c = clock c div 3600000000" using b(2) m h by simp_all
qed

lemma civil_instant_inj:
  assumes "valid_civil c" "valid_civil c'" "civil_instant c = civil_instant c'"
  shows "c = c'"
proof -
  note split = instant_split [OF clock_bound [OF assms(1)]] instant_split [OF clock_bound [OF assms(2)]]
  have "int (ordinal (c_year c) (c_month c) (c_day c)) - 719163 = int (ordinal (c_year c') (c_month c') (c_day c')) - 719163"
    using assms(3) unfolding civil_instant_clock by (metis split(1) split(3))
  then have "ordinal (c_year c) (c_month c) (c_day c) = ordinal (c_year c') (c_month c') (c_day c')" by simp
  moreover have "clock c = clock c'"
    using assms(3) unfolding civil_instant_clock by (metis split(2) split(4) of_nat_eq_iff)
  moreover have "valid_date (c_year c) (c_month c) (c_day c)" "valid_date (c_year c') (c_month c') (c_day c')"
    using assms(1,2) by (simp_all add: valid_civil_def)
  ultimately show "c = c'"
    using ordinal_inj clock_fields [OF assms(1)] clock_fields [OF assms(2)] by (intro civil.equality) auto
qed

lemma civil_instant_mono_year:
  assumes "valid_civil c" "valid_civil c'" "civil_instant c \<le> civil_instant c'"
  shows "c_year c \<le> c_year c'"
proof (rule ccontr)
  assume "\<not> c_year c \<le> c_year c'"
  then have "ordinal (c_year c') (c_month c') (c_day c') < ordinal (c_year c) (c_month c) (c_day c)"
    using assms(1,2) by (intro ordinal_less_year) (simp_all add: valid_civil_def)
  then have "(int (ordinal (c_year c') (c_month c') (c_day c')) - 719163) * 86400000000 + 86400000000 \<le>
      (int (ordinal (c_year c) (c_month c) (c_day c)) - 719163) * 86400000000" by simp
  moreover have "int (clock c') < 86400000000" using clock_bound [OF assms(2)] by simp
  ultimately have "civil_instant c' < civil_instant c" unfolding civil_instant_clock by linarith
  then show False using assms(3) by simp
qed

lemma civil_of_civil_instant:
  assumes "valid_civil c"
  shows "civil_of_instant (civil_instant c) = c"
proof -
  have "1 \<le> ordinal (c_year c) (c_month c) (c_day c)" using assms by (simp add: ordinal_def valid_civil_def valid_date_def)
  then have "- 719162 * 86400000000 \<le> (int (ordinal (c_year c) (c_month c) (c_day c)) - 719163) * 86400000000" by simp
  then have "min_instant \<le> civil_instant c" unfolding civil_instant_clock min_instant_def seconds_def by simp
  from civil_of_instant [OF this] show ?thesis using civil_instant_inj assms by blast
qed

section \<open>The search\<close>

abbreviation wall :: "civil \<Rightarrow> nat \<Rightarrow> civil" where
  "wall c n \<equiv> (add_minute ^^ n) c"

lemma wall_Suc: "wall c (Suc n) = wall (add_minute c) n"
  by (simp only: funpow_Suc_right comp_def)

lemma wall_valid: "valid_civil c \<Longrightarrow> valid_civil (wall c n)"
  by (induction n) (simp_all add: valid_add_minute)

lemma wall_instant: "valid_civil c \<Longrightarrow> civil_instant (wall c n) = civil_instant c + seconds (60 * int n)"
proof (induction n)
  case 0
  then show ?case by (simp add: seconds_def)
next
  case (Suc n)
  then show ?case using civil_instant_add_minute [OF wall_valid [OF Suc.prems, of n]] by (simp add: seconds_def)
qed

lemma wall_seconds: "c_second (wall c n) = c_second c" "c_micro (wall c n) = c_micro c"
  by (induction n) simp_all

lemma wall_year_mono:
  assumes "valid_civil c" "i \<le> j"
  shows "c_year (wall c i) \<le> c_year (wall c j)"
  using assms by (intro civil_instant_mono_year wall_valid) (simp_all add: wall_instant)

lemma search_Inr:
  "search cr n c = Inr r \<Longrightarrow> \<exists>k < n. r = wall c k \<and> cron_matches cr r \<and> (\<forall>j < k. \<not> cron_matches cr (wall c j))"
proof (induction n arbitrary: c)
  case (Suc n)
  show ?case
  proof (cases "cron_matches cr c")
    case True
    then show ?thesis using Suc.prems by (intro exI [of _ 0]) simp
  next
    case False
    then have "search cr n (add_minute c) = Inr r"
      using Suc.prems by (simp add: next_minute_def Let_def split: if_splits)
    then obtain k where k: "k < n" "r = wall (add_minute c) k" "cron_matches cr r" "\<forall>j < k. \<not> cron_matches cr (wall (add_minute c) j)"
      using Suc.IH by blast
    have "\<not> cron_matches cr (wall c j)" if "j < Suc k" for j
      using that False k(4) by (cases j) (simp_all del: funpow.simps add: wall_Suc)
    then show ?thesis using k wall_Suc [of k c] by (intro exI [of _ "Suc k"]) simp
  qed
qed simp

lemma search_first: "0 < n \<Longrightarrow> cron_matches cr c \<Longrightarrow> search cr n c = Inr c"
  by (cases n) simp_all

lemma search_finds:
  assumes "valid_civil c" "k < n" "cron_matches cr (wall c k)" "c_year (wall c k) \<le> 9999"
  shows "\<exists>r. search cr n c = Inr r"
  using assms
proof (induction n arbitrary: c k)
  case (Suc n)
  show ?case
  proof (cases "cron_matches cr c")
    case False
    then obtain j where j: "k = Suc j" using Suc.prems(3) by (cases k) simp_all
    have "c_year (add_minute c) \<le> 9999" using wall_year_mono [OF Suc.prems(1), of 1 k] Suc.prems(4) j by simp
    moreover have "\<exists>r. search cr n (add_minute c) = Inr r"
      using Suc.IH [of "add_minute c" j] Suc.prems valid_add_minute j wall_Suc [of j c] by simp
    ultimately show ?thesis using False by (simp add: next_minute_def)
  qed simp
qed simp

section \<open>The first matching minute\<close>

definition whole_minute :: "instant \<Rightarrow> bool" where
  "whole_minute t \<longleftrightarrow> t mod seconds 60 = 0"

lemma whole_minute_civil: "c_second c = 0 \<Longrightarrow> c_micro c = 0 \<Longrightarrow> whole_minute (civil_instant c)"
proof -
  assume "c_second c = 0" "c_micro c = 0"
  then have "civil_instant c = (((int (ordinal (c_year c) (c_month c) (c_day c)) - 719163) * 24 + int (c_hour c)) * 60 + int (c_minute c)) * seconds 60"
    by (simp add: civil_instant_def seconds_def)
  then show ?thesis unfolding whole_minute_def by simp
qed

text \<open>The minute where the search begins is the first whole one after the base.\<close>

lemma start_minute:
  assumes "min_instant \<le> base" "c = (add_minute (civil_of_instant base))\<lparr>c_second := 0, c_micro := 0\<rparr>"
  shows "valid_civil c" "base < civil_instant c" "civil_instant c \<le> base + seconds 60" "whole_minute (civil_instant c)"
proof -
  let ?b = "add_minute (civil_of_instant base)"
  have b: "valid_civil ?b" "civil_instant ?b = base + seconds 60"
    using civil_of_instant [OF assms(1)] civil_instant_add_minute valid_add_minute by simp_all
  show "valid_civil c" using b(1) assms(2) by (simp add: valid_civil_def)
  have "civil_instant c = civil_instant ?b - seconds (int (c_second ?b)) - int (c_micro ?b)"
    using assms(2) by (simp add: civil_instant_def seconds_def)
  moreover have "c_second ?b < 60" "c_micro ?b < 1000000" using b(1) by (simp_all add: valid_civil_def)
  ultimately show "base < civil_instant c" "civil_instant c \<le> base + seconds 60"
    unfolding b(2) seconds_def by linarith+
  show "whole_minute (civil_instant c)" using assms(2) by (intro whole_minute_civil) simp_all
qed

lemma minute_between:
  assumes "whole_minute s" "whole_minute t" "s \<le> t"
  obtains n where "t = s + seconds (60 * int n)"
proof -
  have "(t - s) mod seconds 60 = 0" using assms(1,2) unfolding whole_minute_def by (metis diff_zero mod_0 mod_diff_eq)
  then obtain q where q: "t - s = seconds 60 * q" by (auto elim: dvdE simp: mod_eq_0_iff_dvd)
  then have "0 \<le> q" using assms(3) by (simp add: seconds_def)
  then show thesis using q that [of "nat q"] by (simp add: seconds_def)
qed

lemma wall_of_instant:
  assumes "valid_civil c" "whole_minute (civil_instant c)" "whole_minute t" "civil_instant c \<le> t"
  obtains n where "civil_of_instant t = wall c n" "t = civil_instant c + seconds (60 * int n)"
proof -
  obtain n where n: "t = civil_instant c + seconds (60 * int n)" using minute_between [OF assms(2-4)] .
  then have "civil_of_instant t = civil_of_instant (civil_instant (wall c n))" by (simp add: wall_instant assms(1))
  then show thesis using that n civil_of_civil_instant wall_valid [OF assms(1)] by simp
qed

lemma compute_next_run_utc:
  assumes "get_tz u zones tz = utc_zone" "compute_next_run u zones expr tz base = Inr r"
  obtains cr c where "parse_cron u expr = Some cr" "search cr max_minutes ((add_minute (civil_of_instant base))\<lparr>c_second := 0, c_micro := 0\<rparr>) = Inr c"
    "r = civil_instant c"
  using assms by (auto simp: compute_next_run_def utc_zone_def next_minute_def Let_def split: option.splits sum.splits if_splits)


section \<open>A run exists\<close>

lemma parse_part_range: "parse_part u lo hi p = Some vs \<Longrightarrow> v \<in> set vs \<Longrightarrow> lo \<le> v \<and> v \<le> hi"
  by (auto simp: parse_part_def Let_def split: prod.splits option.splits if_splits)

lemma parse_parts_range: "parse_parts u lo hi ps = Some vs \<Longrightarrow> v \<in> set vs \<Longrightarrow> lo \<le> v \<and> v \<le> hi"
proof (induction ps arbitrary: vs)
  case (Cons p ps)
  then show ?case using parse_part_range by (auto split: if_splits option.splits)
qed simp

lemma parse_cron_field_range: "parse_cron_field u f lo hi = Some vs \<Longrightarrow> v \<in> set vs \<Longrightarrow> lo \<le> v \<and> v \<le> hi"
  using parse_parts_range by (auto simp: parse_cron_field_def split: if_splits)

lemma both_Some: "both x y = Some (a, b) \<longleftrightarrow> x = Some a \<and> y = Some b"
  by (auto simp: both_def split: option.splits)

lemma parse_cron_range:
  assumes "parse_cron u expr = Some cr"
  shows "v \<in> set (cr_minutes cr) \<Longrightarrow> 0 \<le> v \<and> v \<le> 59" "v \<in> set (cr_hours cr) \<Longrightarrow> 0 \<le> v \<and> v \<le> 23"
    "v \<in> set (cr_doms cr) \<Longrightarrow> 1 \<le> v \<and> v \<le> 31" "v \<in> set (cr_months cr) \<Longrightarrow> 1 \<le> v \<and> v \<le> 12"
    "v \<in> set (cr_dows cr) \<Longrightarrow> 0 \<le> v \<and> v \<le> 7"
proof -
  obtain p0 p1 p2 p3 p4 where p: "words (strip expr) = [p0, p1, p2, p3, p4]"
    using assms by (auto simp: parse_cron_def split: list.splits)
  have "parse_cron_field u p0 0 59 = Some (cr_minutes cr)" "parse_cron_field u p1 0 23 = Some (cr_hours cr)"
    "parse_cron_field u p2 1 31 = Some (cr_doms cr)" "parse_cron_field u p3 1 12 = Some (cr_months cr)"
    "parse_cron_field u p4 0 7 = Some (cr_dows cr)"
    using assms p by (auto simp: parse_cron_def both_Some split: option.splits)
  note f = this [THEN parse_cron_field_range]
  from f show "v \<in> set (cr_minutes cr) \<Longrightarrow> 0 \<le> v \<and> v \<le> 59" "v \<in> set (cr_hours cr) \<Longrightarrow> 0 \<le> v \<and> v \<le> 23"
    "v \<in> set (cr_doms cr) \<Longrightarrow> 1 \<le> v \<and> v \<le> 31" "v \<in> set (cr_months cr) \<Longrightarrow> 1 \<le> v \<and> v \<le> 12"
    "v \<in> set (cr_dows cr) \<Longrightarrow> 0 \<le> v \<and> v \<le> 7" by blast+
qed

text \<open>Every weekday falls into the first week of a month.\<close>

lemma weekday_in_first_week:
  assumes "0 \<le> w" "w < 7"
  obtains d where "1 \<le> d" "d \<le> 7" "int ((weekday y m d + 1) mod 7) = w"
proof -
  let ?K = "days_before_year y + days_before_month y m"
  define e where "e = nat ((w - int ?K - 1) mod 7)"
  have e: "int e = (w - int ?K - 1) mod 7" "e < 7" by (simp_all add: e_def nat_less_iff)
  have "int ((weekday y m (e + 1) + 1) mod 7) = (int ?K + int e + 8) mod 7"
    by (simp add: weekday_def ordinal_def of_nat_mod mod_add_left_eq mod_add_right_eq mod_Suc_eq ac_simps)
  also have "int ?K + int e + 8 = (int ?K + int e + 1) + 7" by simp
  also have "\<dots> mod 7 = (int ?K + int e + 1) mod 7" by (rule mod_add_self2)
  also have "\<dots> = (int ?K + (w - int ?K - 1) + 1) mod 7"
    unfolding e(1) by (metis mod_add_left_eq mod_add_right_eq)
  also have "\<dots> = w" using assms by simp
  finally show thesis using that [of "e + 1"] e(2) by simp
qed

text \<open>The date in the year after the start.\<close>

lemma cron_date:
  assumes "parse_cron u expr = Some cr" "m \<in> set (cr_months cr)"
    and "w \<in> set (cr_dows cr)"
    and "({0..6} \<subseteq> set (cron_dows cr) \<and> (\<exists>d \<in> set (cr_doms cr). d \<le> 28)) \<or> {1..7} \<subseteq> set (cr_doms cr)"
  obtains d where "1 \<le> d" "d \<le> 28" "int d \<in> set (cr_doms cr)" "int ((weekday y (nat m) d + 1) mod 7) \<in> set (cron_dows cr)"
  using assms(4)
proof
  assume a: "{0..6} \<subseteq> set (cron_dows cr) \<and> (\<exists>d \<in> set (cr_doms cr). d \<le> 28)"
  then obtain d where d: "d \<in> set (cr_doms cr)" "d \<le> 28" by blast
  then have "1 \<le> d" using parse_cron_range(3) [OF assms(1)] by blast
  moreover have "int ((weekday y (nat m) (nat d) + 1) mod 7) \<in> {0..6}" by simp
  then have "int ((weekday y (nat m) (nat d) + 1) mod 7) \<in> set (cron_dows cr)" using a by blast
  ultimately show thesis using d that [of "nat d"] by simp
next
  assume week: "{1..7} \<subseteq> set (cr_doms cr)"
  let ?w = "if w = 7 then 0 else w"
  have "?w \<in> set (cron_dows cr)" using assms(3) by (force simp: cron_dows_def)
  moreover have "0 \<le> ?w" "?w < 7" using parse_cron_range(5) [OF assms(1,3)] by auto
  then obtain d where d: "1 \<le> d" "d \<le> 7" "int ((weekday y (nat m) d + 1) mod 7) = ?w"
    by (rule weekday_in_first_week [of ?w y "nat m"])
  then have "int d \<in> {1..7}" by simp
  then have "int d \<in> set (cr_doms cr)" using week by blast
  moreover have "int ((weekday y (nat m) d + 1) mod 7) \<in> set (cron_dows cr)"
    using \<open>?w \<in> set (cron_dows cr)\<close> by (simp only: d(3))
  ultimately show thesis using d(1,2) that [of d] by simp
qed

lemma next_year_near:
  assumes "valid_civil c" "valid_civil t" "c_year t = Suc (c_year c)"
  shows "civil_instant c \<le> civil_instant t" "civil_instant t < civil_instant c + days 733"
proof -
  have v: "valid_date (c_year c) (c_month c) (c_day c)" "valid_date (c_year t) (c_month t) (c_day t)"
    using assms(1,2) by (simp_all add: valid_civil_def)
  show "civil_instant c \<le> civil_instant t"
    using civil_instant_mono_year [OF assms(2,1)] assms(3) by linarith
  have "ordinal (c_year t) (c_month t) (c_day t) \<le> days_before_year (Suc (Suc (c_year c)))"
    using ordinal_year(2) [OF v(2)] assms(3) by simp
  also have "\<dots> \<le> days_before_year (c_year c) + 732"
    using v(1) days_before_year_Suc [of "c_year c"] days_before_year_Suc [of "Suc (c_year c)"] by (simp add: valid_date_def)
  also have "\<dots> < ordinal (c_year c) (c_month c) (c_day c) + 732" using ordinal_year(1) [OF v(1)] by simp
  finally have "(int (ordinal (c_year t) (c_month t) (c_day t)) - 719163) * 86400000000 \<le>
      (int (ordinal (c_year c) (c_month c) (c_day c)) - 719163) * 86400000000 + 731 * 86400000000" by simp
  moreover have "int (clock t) < 86400000000" using clock_bound [OF assms(2)] by simp
  ultimately show "civil_instant t < civil_instant c + days 733"
    unfolding civil_instant_clock days_def seconds_def by linarith
qed


text \<open>A validated expression without any run: 30 February.\<close>

definition february_30 :: ustr where "february_30 = ustr ''0 0 30 2 *''"

lemma february_30_parses: "parse_cron u february_30 =
    Some \<lparr>cr_minutes = [0], cr_hours = [0], cr_doms = [30], cr_months = [2], cr_dows = [0..7]\<rparr>"
proof -
  have w: "words (strip february_30) = [[48], [48], [51, 48], [50], [42]]"
    by (simp add: february_30_def ustr_def strip_def is_space_def)
  have f: "parse_cron_field u [48] lo hi = Some (filter (\<lambda>v. lo \<le> v \<and> v \<le> hi) [0])"
    "parse_cron_field u [50] lo hi = Some (filter (\<lambda>v. lo \<le> v \<and> v \<le> hi) [2])"
    "parse_cron_field u [51, 48] lo hi = Some (filter (\<lambda>v. lo \<le> v \<and> v \<le> hi) [30])"
    "parse_cron_field u [42] lo hi = Some [lo..hi]" for lo hi
    by (simp_all add: parse_cron_field_def parse_part_def Let_def strip_def is_space_def ustr_def py_int_def strip_by_def
        ascii_def is_digit_def digit_value_def ascii_digit_def to_int_def)
  show ?thesis by (simp add: parse_cron_def w f both_def)
qed

lemma wall_month_day:
  "valid_civil c \<Longrightarrow> cron_matches \<lparr>cr_minutes = mi, cr_hours = h, cr_doms = [30], cr_months = [2], cr_dows = w\<rparr> c \<Longrightarrow> False"
  by (auto simp: cron_matches_def valid_civil_def valid_date_def days_in_month_def split: if_splits)

theorem february_30_never_runs:
  assumes "get_tz u zones tz = utc_zone" "min_instant \<le> base"
  shows "validate_cron_expression u february_30 \<and> compute_next_run u zones february_30 tz base \<noteq> Inr r"
proof
  show "validate_cron_expression u february_30"
    by (simp add: validate_cron_expression_def february_30_parses)
  show "compute_next_run u zones february_30 tz base \<noteq> Inr r"
  proof
    assume "compute_next_run u zones february_30 tz base = Inr r"
    then obtain cr d where cr: "parse_cron u february_30 = Some cr"
      "search cr max_minutes ((add_minute (civil_of_instant base))\<lparr>c_second := 0, c_micro := 0\<rparr>) = Inr d"
      by (rule compute_next_run_utc [OF assms(1)])
    then have "cr = \<lparr>cr_minutes = [0], cr_hours = [0], cr_doms = [30], cr_months = [2], cr_dows = [0..7]\<rparr>"
      by (simp add: february_30_parses)
    note this = cr(2) [unfolded this]
    from search_Inr [OF this] show False
      using wall_valid [OF start_minute(1) [OF assms(2) refl]] wall_month_day by blast
  qed
qed

section \<open>Witnesses\<close>

definition plain_unicode :: unicode where
  "plain_unicode = \<lparr>nd_value = (\<lambda>_. None), lower = id, upper = id, casefold = id\<rparr>"

definition new_year :: civil where
  "new_year = \<lparr>c_year = 2024, c_month = 1, c_day = 1, c_hour = 0, c_minute = 0, c_second = 0, c_micro = 0\<rparr>"

definition every_minute :: ustr where "every_minute = ustr ''* * * * *''"

definition every_night :: ustr where "every_night = ustr ''30 2 * * *''"

lemma star_field: "parse_cron_field u [42] lo hi = Some [lo..hi]"
  by (simp add: parse_cron_field_def strip_def is_space_def ustr_def)

lemma every_minute_parses: "parse_cron u every_minute =
    Some \<lparr>cr_minutes = [0..59], cr_hours = [0..23], cr_doms = [1..31], cr_months = [1..12], cr_dows = [0..7]\<rparr>"
proof -
  have "words (strip every_minute) = [[42], [42], [42], [42], [42]]"
    by (simp add: every_minute_def ustr_def strip_def is_space_def)
  then show ?thesis by (simp add: parse_cron_def star_field both_def)
qed

lemma every_night_parses: "parse_cron u every_night =
    Some \<lparr>cr_minutes = [30], cr_hours = [2], cr_doms = [1..31], cr_months = [1..12], cr_dows = [0..7]\<rparr>"
proof -
  have w: "words (strip every_night) = [[51, 48], [50], [42], [42], [42]]"
    by (simp add: every_night_def ustr_def strip_def is_space_def)
  have "parse_cron_field u [51, 48] 0 59 = Some [30]" "parse_cron_field u [50] 0 23 = Some [2]"
    by (simp_all add: parse_cron_field_def parse_part_def Let_def strip_def is_space_def ustr_def py_int_def strip_by_def
        ascii_def is_digit_def digit_value_def ascii_digit_def to_int_def)
  then show ?thesis by (simp add: parse_cron_def w star_field both_def)
qed

lemma new_year_valid: "valid_civil new_year"
  by (simp add: new_year_def valid_civil_def valid_date_def days_in_month_def)

lemma new_year_base: "civil_of_instant (civil_instant new_year) = new_year" "min_instant \<le> civil_instant new_year"
  using civil_of_civil_instant [OF new_year_valid]
  by (simp_all add: new_year_def civil_instant_def min_instant_def seconds_def ordinal_def days_before_year_def)

lemma utc_named: "get_tz plain_unicode (\<lambda>_. None) (ustr ''UTC'') = utc_zone"
  by (simp add: get_tz_def)



end
