(* ===== verification/Monitoring.thy ===== *)
theory Monitoring
  imports Complex_Main Cron Fleet
begin

text \<open>
  Monitoring policies and check evaluation (\<open>server/app/core/monitoring.py\<close>): the checks that
  apply to an agent, maintenance windows, the classification of a sample and hysteresis.
  Samples and bounds are rationals; the conversions of Python that round to a float are
  parameters where they occur. Stored check sets and recurrences have the shape the schemas
  validate on write.
\<close>

section \<open>Checks\<close>

datatype CheckType =
    Check_offline | Check_cpu | Check_memory | Check_disk | Check_service
  | Check_reboot_pending | Check_uptime | Check_patch_age

datatype CheckResultStatus = Result_ok | Result_warning | Result_critical | Result_unknown

fun result_status_value :: "CheckResultStatus \<Rightarrow> string" where
  "result_status_value Result_ok = ''ok''"
| "result_status_value Result_warning = ''warning''"
| "result_status_value Result_critical = ''critical''"
| "result_status_value Result_unknown = ''unknown''"

datatype ThresholdOp = Op_gt | Op_gte | Op_lt | Op_lte

record Threshold =
  th_op :: ThresholdOp
  th_warning :: "rat option"
  th_critical :: "rat option"

record CheckDefinition =
  ck_key :: string
  ck_type :: CheckType
  ck_enabled :: bool
  ck_interval_seconds :: int
  ck_threshold :: "Threshold option"
  ck_raise_samples :: int
  ck_clear_samples :: int
  ck_params :: json

definition rising :: "ThresholdOp \<Rightarrow> bool" where
  "rising operator \<longleftrightarrow> operator = Op_gt \<or> operator = Op_gte"

text \<open>The validators of a definition that evaluation relies on.\<close>

definition threshold_ok :: "Threshold \<Rightarrow> bool" where
  "threshold_ok t \<longleftrightarrow> \<not> (th_warning t = None \<and> th_critical t = None) \<and>
     (case (th_warning t, th_critical t) of
        (Some w, Some c) \<Rightarrow> if rising (th_op t) then w \<le> c else c \<le> w
      | _ \<Rightarrow> True)"

definition definition_ok :: "CheckDefinition \<Rightarrow> bool" where
  "definition_ok d \<longleftrightarrow>
     30 \<le> ck_interval_seconds d \<and> ck_interval_seconds d \<le> 86400 \<and> pred_option threshold_ok (ck_threshold d) \<and>
     1 \<le> ck_raise_samples d \<and> ck_raise_samples d \<le> 100 \<and> 1 \<le> ck_clear_samples d \<and> ck_clear_samples d \<le> 100 \<and>
     (if ck_type d = Check_reboot_pending then ck_threshold d = None
      else ck_type d = Check_service \<or> ck_threshold d \<noteq> None) \<and>
     (ck_type d = Check_patch_age \<longrightarrow>
        3600 \<le> ck_interval_seconds d \<and> pred_option (\<lambda>t. rising (th_op t)) (ck_threshold d))"

section \<open>The effective policy\<close>

record MonitoringPolicy =
  mp_id :: string
  mp_name :: ustr
  mp_scope :: MonitoringScope
  mp_scope_id :: "string option"
  mp_enabled :: bool
  mp_created_at :: instant

record MonitoringPolicyRevision =
  mr_id :: string
  mr_policy_id :: string
  mr_version :: int
  mr_checks :: "CheckDefinition list"

fun scope_precedence :: "MonitoringScope \<Rightarrow> nat" where
  "scope_precedence Scope_global = 0"
| "scope_precedence Scope_client = 1"
| "scope_precedence Scope_site = 2"
| "scope_precedence Scope_agent = 3"

record EffectiveCheck =
  ef_definition :: CheckDefinition
  ef_source_scope :: MonitoringScope
  ef_source_policy_id :: string
  ef_source_revision_id :: string

text \<open>\<open>ORDER BY version DESC LIMIT 1\<close>.\<close>

definition current_revision :: "MonitoringPolicyRevision rows \<Rightarrow> string \<Rightarrow> MonitoringPolicyRevision option" where
  "current_revision revs policy_id =
     (case sort_key (\<lambda>r. - mr_version r) (filter (\<lambda>r. mr_policy_id r = policy_id) revs) of [] \<Rightarrow> None | r # _ \<Rightarrow> Some r)"

text \<open>The scope condition that policies and windows share.\<close>

definition scope_targets :: "fleet \<Rightarrow> AgentRow \<Rightarrow> MonitoringScope \<Rightarrow> string option \<Rightarrow> bool" where
  "scope_targets st a scope scope_id \<longleftrightarrow>
     (case scope of
        Scope_global \<Rightarrow> True
      | Scope_client \<Rightarrow> (case organization_id st a of None \<Rightarrow> False | Some c \<Rightarrow> scope_id = Some c)
      | Scope_site \<Rightarrow> scope_id = Some (ag_site_id a)
      | Scope_agent \<Rightarrow> scope_id = Some (ag_id a))"

definition applicable_policies :: "fleet \<Rightarrow> MonitoringPolicy rows \<Rightarrow> AgentRow \<Rightarrow> MonitoringPolicy list" where
  "applicable_policies st policies a =
     sort_key (\<lambda>p. (mp_created_at p, mp_id p))
       (filter (\<lambda>p. mp_enabled p \<and> scope_targets st a (mp_scope p) (mp_scope_id p)) policies)"

definition policy_rank :: "MonitoringPolicy \<Rightarrow> nat \<times> instant \<times> string" where
  "policy_rank p = (scope_precedence (mp_scope p), mp_created_at p, mp_id p)"

text \<open>The dictionary of effective checks, one per key.\<close>

definition pop_check :: "string \<Rightarrow> EffectiveCheck list \<Rightarrow> EffectiveCheck list" where
  "pop_check key effective = filter (\<lambda>e. ck_key (ef_definition e) \<noteq> key) effective"

definition merge_check ::
  "MonitoringPolicy \<Rightarrow> MonitoringPolicyRevision \<Rightarrow> EffectiveCheck list \<Rightarrow> CheckDefinition \<Rightarrow> EffectiveCheck list" where
  "merge_check p r effective d =
     (if \<not> ck_enabled d then pop_check (ck_key d) effective
      else pop_check (ck_key d) effective @
        [\<lparr>ef_definition = d, ef_source_scope = mp_scope p, ef_source_policy_id = mp_id p, ef_source_revision_id = mr_id r\<rparr>])"

definition merge_policy ::
  "MonitoringPolicyRevision rows \<Rightarrow> EffectiveCheck list \<Rightarrow> MonitoringPolicy \<Rightarrow> EffectiveCheck list" where
  "merge_policy revs effective p =
     (case current_revision revs (mp_id p) of
        None \<Rightarrow> effective
      | Some r \<Rightarrow> foldl (merge_check p r) effective (mr_checks r))"

definition resolve_effective_policy ::
  "fleet \<Rightarrow> MonitoringPolicy rows \<Rightarrow> MonitoringPolicyRevision rows \<Rightarrow> AgentRow \<Rightarrow> EffectiveCheck list" where
  "resolve_effective_policy st policies revs a =
     sort_key (\<lambda>e. ck_key (ef_definition e))
       (foldl (merge_policy revs) [] (sort_key policy_rank (applicable_policies st policies a)))"

section \<open>Maintenance windows\<close>

record WeeklyRecurrence =
  wr_days :: "nat list"
  wr_hour :: nat
  wr_minute :: nat
  wr_duration_minutes :: int

record MaintenanceWindow =
  mw_id :: string
  mw_scope :: MonitoringScope
  mw_scope_id :: "string option"
  mw_starts_at :: datetime
  mw_ends_at :: datetime
  mw_timezone :: ustr
  mw_recurrence :: "WeeklyRecurrence option"

definition window_zone :: "(ustr \<Rightarrow> zone option) \<Rightarrow> ustr \<Rightarrow> zone" where
  "window_zone ZoneInfo name = (case ZoneInfo (if name = [] then ustr ''UTC'' else name) of None \<Rightarrow> utc_zone | Some z \<Rightarrow> z)"

text \<open>
  The occurrence that begins on the local day \<open>offset\<close> days before \<open>local\<close>. The comparison of two
  local times of one zone is a comparison of their wall clocks.
\<close>

definition occurrence_covers :: "WeeklyRecurrence \<Rightarrow> civil \<Rightarrow> nat \<Rightarrow> bool" where
  "occurrence_covers r local offset \<longleftrightarrow>
     (let day = civil_of_instant (civil_instant local - days (int offset));
          start = civil_instant (day\<lparr>c_hour := wr_hour r, c_minute := wr_minute r, c_second := 0, c_micro := 0\<rparr>) in
      weekday (c_year day) (c_month day) (c_day day) \<in> set (wr_days r) \<and>
      start \<le> civil_instant local \<and> civil_instant local < start + seconds (wr_duration_minutes r * 60))"

definition window_active_at :: "(ustr \<Rightarrow> zone option) \<Rightarrow> MaintenanceWindow \<Rightarrow> instant \<Rightarrow> bool" where
  "window_active_at ZoneInfo w t \<longleftrightarrow>
     (case mw_recurrence w of
        None \<Rightarrow> True
      | Some r \<Rightarrow> list_ex (occurrence_covers r (zn_local (window_zone ZoneInfo (mw_timezone w)) t)) [0, 1])"

definition active_maintenance_windows ::
  "(ustr \<Rightarrow> zone option) \<Rightarrow> fleet \<Rightarrow> MaintenanceWindow rows \<Rightarrow> AgentRow \<Rightarrow> instant \<Rightarrow> MaintenanceWindow list" where
  "active_maintenance_windows ZoneInfo st windows a t =
     filter (\<lambda>w. window_active_at ZoneInfo w t)
       (filter (\<lambda>w. instant_of (mw_starts_at w) \<le> t \<and> t < instant_of (mw_ends_at w) \<and>
          scope_targets st a (mw_scope w) (mw_scope_id w)) windows)"

section \<open>Classification and hysteresis\<close>

definition breached :: "ThresholdOp \<Rightarrow> rat \<Rightarrow> rat option \<Rightarrow> bool" where
  "breached operator v bound \<longleftrightarrow>
     (case bound of
        None \<Rightarrow> False
      | Some b \<Rightarrow> (case operator of Op_gt \<Rightarrow> v > b | Op_gte \<Rightarrow> v \<ge> b | Op_lt \<Rightarrow> v < b | Op_lte \<Rightarrow> v \<le> b))"

definition classify_numeric :: "rat \<Rightarrow> Threshold \<Rightarrow> CheckResultStatus" where
  "classify_numeric v t =
     (if breached (th_op t) v (th_critical t) then Result_critical
      else if breached (th_op t) v (th_warning t) then Result_warning
      else Result_ok)"

fun severity :: "CheckResultStatus \<Rightarrow> int" where
  "severity Result_unknown = -1"
| "severity Result_ok = 0"
| "severity Result_warning = 1"
| "severity Result_critical = 2"

text \<open>
  \<open>previous\<close> is the status of the previous result with the transition pending in its detail: the
  text of the status and the count.
\<close>

definition apply_hysteresis ::
  "CheckResultStatus \<Rightarrow> CheckDefinition \<Rightarrow> (CheckResultStatus \<times> ustr option \<times> int) option \<Rightarrow>
   CheckResultStatus \<times> ustr option \<times> int" where
  "apply_hysteresis raw d previous =
     (if raw = Result_unknown then (raw, None, 0)
      else case previous of
        None \<Rightarrow>
          let required = (if raw = Result_warning \<or> raw = Result_critical then ck_raise_samples d else 1) in
          if required = 1 then (raw, None, 0)
          else (Result_unknown, Some (ustr (result_status_value raw)), 1)
      | Some (current, pending_status, pending_count) \<Rightarrow>
          if raw = current then (current, None, 0)
          else
            let required =
              (if current = Result_unknown \<and> raw = Result_ok then 1
               else if severity raw > severity current then ck_raise_samples d else ck_clear_samples d);
              count = (if pending_status = Some (ustr (result_status_value raw)) then pending_count + 1 else 1) in
            if count \<ge> required then (raw, None, 0)
            else (current, Some (ustr (result_status_value raw)), count))"

end
