(* ===== verification/Alerts.thy ===== *)
theory Alerts
  imports Monitoring Command_Delivery
begin

text \<open>
  Check results and the alerts they drive (\<open>server/app/core/monitoring.py\<close>), the ingestion of
  agent results (\<open>server/app/api/agents.py\<close>), and the actions of technicians on alerts
  (\<open>server/app/api/management.py\<close>). The mail and webhook deliveries that an event queues and the
  identifiers of events are left out; \<open>scrub\<close> is the redaction of free text. An exception that
  nothing catches is \<open>None\<close>: the session rolls back.
\<close>

section \<open>Rows\<close>

datatype AlertState = Alert_open | Alert_acknowledged | Alert_resolved

fun alert_state_value :: "AlertState \<Rightarrow> string" where
  "alert_state_value Alert_open = ''open''"
| "alert_state_value Alert_acknowledged = ''acknowledged''"
| "alert_state_value Alert_resolved = ''resolved''"

datatype AlertEventType =
    Event_state_imported | Event_opened | Event_reopened | Event_acknowledged | Event_assigned | Event_commented
  | Event_manual_resolution | Event_automatic_recovery | Event_policy_revised | Event_policy_deleted
  | Event_policy_superseded

record CheckResult =
  rt_id :: string
  rt_agent_id :: string
  rt_policy_id :: "string option"
  rt_policy_revision_id :: "string option"
  rt_check_key :: string
  rt_status :: CheckResultStatus
  rt_value :: "rat option"
  rt_detail :: "json option"
  rt_evaluated_at :: datetime
  rt_received_at :: instant

record Alert =
  al_id :: string
  al_agent_id :: string
  al_policy_id :: string
  al_policy_revision_id :: string
  al_check_key :: string
  al_state :: AlertState
  al_last_result_status :: CheckResultStatus
  al_occurrence_count :: int
  al_total_occurrence_count :: int
  al_generation :: int
  al_first_opened_at :: "datetime option"
  al_opened_at :: "datetime option"
  al_last_observed_at :: "datetime option"
  al_resolved_at :: "datetime option"
  al_last_evaluated_at :: "datetime option"
  al_last_result_id :: "string option"
  al_last_value :: "rat option"
  al_resolution_reason :: "string option"
  al_assigned_to_operator_id :: "string option"
  al_assigned_to_email :: "string option"
  al_acknowledged_at :: "instant option"
  al_acknowledged_by :: "string option"
  al_version :: int
  al_suppression_window_id :: "string option"
  al_suppressed_until :: "datetime option"
  al_updated_at :: instant

record AlertEvent =
  ev_alert_id :: string
  ev_generation :: int
  ev_type :: AlertEventType
  ev_from_state :: "AlertState option"
  ev_to_state :: "AlertState option"
  ev_actor :: string
  ev_actor_user_id :: "string option"
  ev_comment :: "ustr option"
  ev_assigned_to_operator_id :: "string option"
  ev_source_result_id :: "string option"
  ev_request_id :: "string option"
  ev_created_at :: instant

record AlertObservation =
  ob_check_result_id :: string
  ob_alert_id :: string
  ob_status :: CheckResultStatus
  ob_value :: "rat option"
  ob_evaluated_at :: datetime
  ob_out_of_order :: bool

record monitor =
  mo_fleet :: fleet
  mo_policies :: "MonitoringPolicy rows"
  mo_revisions :: "MonitoringPolicyRevision rows"
  mo_windows :: "MaintenanceWindow rows"
  mo_results :: "CheckResult rows"
  mo_alerts :: "Alert rows"
  mo_events :: "AlertEvent rows"
  mo_observations :: "AlertObservation rows"

definition put_alert :: "Alert \<Rightarrow> monitor \<Rightarrow> monitor" where
  "put_alert a st = st\<lparr>mo_alerts := db_update (\<lambda>q. al_id q = al_id a) (\<lambda>_. a) (mo_alerts st)\<rparr>"

definition add_event :: "AlertEvent \<Rightarrow> monitor \<Rightarrow> monitor" where
  "add_event e st = st\<lparr>mo_events := mo_events st @ [e]\<rparr>"

definition system_event ::
  "Alert \<Rightarrow> AlertEventType \<Rightarrow> AlertState option \<Rightarrow> AlertState option \<Rightarrow> string option \<Rightarrow> instant \<Rightarrow> AlertEvent" where
  "system_event a etype from_state to_state source_result_id t =
     \<lparr>ev_alert_id = al_id a, ev_generation = al_generation a, ev_type = etype, ev_from_state = from_state,
      ev_to_state = to_state, ev_actor = ''system'', ev_actor_user_id = None, ev_comment = None,
      ev_assigned_to_operator_id = None, ev_source_result_id = source_result_id, ev_request_id = None, ev_created_at = t\<rparr>"

section \<open>One result applied to its alert\<close>

text \<open>Resolving a set of alerts without an observation; superseded and withdrawn policies share it.\<close>

definition closed_alert :: "string \<Rightarrow> datetime \<Rightarrow> instant \<Rightarrow> Alert \<Rightarrow> Alert" where
  "closed_alert reason t now a =
     a\<lparr>al_state := Alert_resolved, al_resolved_at := Some t, al_resolution_reason := Some reason,
       al_suppression_window_id := None, al_suppressed_until := None, al_version := al_version a + 1, al_updated_at := now\<rparr>"

definition resolve_alerts ::
  "(Alert \<Rightarrow> bool) \<Rightarrow> string \<Rightarrow> AlertEventType \<Rightarrow> datetime \<Rightarrow> instant \<Rightarrow> monitor \<Rightarrow> monitor" where
  "resolve_alerts P reason etype t now st =
     foldl (\<lambda>s a. add_event (system_event a etype (Some (al_state a)) (Some Alert_resolved) None (instant_of t))
        (put_alert (closed_alert reason t now a) s))
       st (filter P (mo_alerts st))"

definition resolve_superseded_alerts :: "instant \<Rightarrow> CheckResult \<Rightarrow> monitor \<Rightarrow> monitor" where
  "resolve_superseded_alerts now r st =
     resolve_alerts (\<lambda>a. al_agent_id a = rt_agent_id r \<and> al_check_key a = rt_check_key r \<and>
         Some (al_policy_id a) \<noteq> rt_policy_id r \<and> al_state a \<noteq> Alert_resolved)
       ''policy_superseded'' Event_policy_superseded (rt_evaluated_at r) now st"

definition identity_of :: "CheckResult \<Rightarrow> string \<Rightarrow> Alert \<Rightarrow> bool" where
  "identity_of r policy_id a \<longleftrightarrow> al_agent_id a = rt_agent_id r \<and> al_policy_id a = policy_id \<and> al_check_key a = rt_check_key r"

definition alert_shell :: "instant \<Rightarrow> string \<Rightarrow> CheckResult \<Rightarrow> string \<Rightarrow> string \<Rightarrow> Alert" where
  "alert_shell now new_id r policy_id revision_id =
     \<lparr>al_id = new_id, al_agent_id = rt_agent_id r, al_policy_id = policy_id, al_policy_revision_id = revision_id,
      al_check_key = rt_check_key r, al_state = Alert_resolved, al_last_result_status = rt_status r,
      al_occurrence_count = 0, al_total_occurrence_count = 0, al_generation = 0, al_first_opened_at = None,
      al_opened_at = None, al_last_observed_at = None, al_resolved_at = None, al_last_evaluated_at = None,
      al_last_result_id = None, al_last_value = None, al_resolution_reason = None, al_assigned_to_operator_id = None,
      al_assigned_to_email = None, al_acknowledged_at = None, al_acknowledged_by = None, al_version = 1,
      al_suppression_window_id = None, al_suppressed_until = None, al_updated_at = now\<rparr>"

text \<open>\<open>INSERT \<dots> ON CONFLICT DO NOTHING\<close> on the identity.\<close>

definition ensure_alert_shell :: "instant \<Rightarrow> string \<Rightarrow> CheckResult \<Rightarrow> string \<Rightarrow> string \<Rightarrow> monitor \<Rightarrow> monitor" where
  "ensure_alert_shell now new_id r policy_id revision_id st =
     (if list_ex (identity_of r policy_id) (mo_alerts st) then st
      else st\<lparr>mo_alerts := mo_alerts st @ [alert_shell now new_id r policy_id revision_id]\<rparr>)"

definition observation :: "Alert \<Rightarrow> CheckResult \<Rightarrow> bool \<Rightarrow> AlertObservation" where
  "observation a r out_of_order =
     \<lparr>ob_check_result_id = rt_id r, ob_alert_id = al_id a, ob_status = rt_status r, ob_value = rt_value r,
      ob_evaluated_at = rt_evaluated_at r, ob_out_of_order = out_of_order\<rparr>"

definition observed :: "CheckResult \<Rightarrow> monitor \<Rightarrow> bool" where
  "observed r st \<longleftrightarrow> list_ex (\<lambda>ob. ob_check_result_id ob = rt_id r) (mo_observations st)"

text \<open>Whether a result is not newer than the last one applied.\<close>

definition out_of_order :: "Alert \<Rightarrow> CheckResult \<Rightarrow> bool" where
  "out_of_order a r \<longleftrightarrow>
     (case al_last_evaluated_at a of
        None \<Rightarrow> False
      | Some t \<Rightarrow> (instant_of (rt_evaluated_at r), rt_id r) \<le>
          (instant_of t, case al_last_result_id a of None \<Rightarrow> [] | Some i \<Rightarrow> i))"

definition late_alert :: "CheckResult \<Rightarrow> Alert \<Rightarrow> Alert" where
  "late_alert r a =
     (let a' = a\<lparr>al_total_occurrence_count := al_total_occurrence_count a + 1\<rparr> in
      case al_opened_at a of
        Some t \<Rightarrow>
          if al_state a \<noteq> Alert_resolved \<and> instant_of t \<le> instant_of (rt_evaluated_at r)
          then a'\<lparr>al_occurrence_count := al_occurrence_count a + 1\<rparr> else a'
      | None \<Rightarrow> a')"

definition evaluated_alert :: "instant \<Rightarrow> CheckResult \<Rightarrow> string \<Rightarrow> Alert \<Rightarrow> Alert" where
  "evaluated_alert now r revision_id a =
     a\<lparr>al_policy_revision_id := revision_id, al_last_result_status := rt_status r,
       al_last_evaluated_at := Some (Aware (instant_of (rt_evaluated_at r))), al_last_result_id := Some (rt_id r),
       al_last_value := rt_value r, al_updated_at := now\<rparr>"

definition unsuppressed :: "Alert \<Rightarrow> Alert" where
  "unsuppressed a = a\<lparr>al_suppression_window_id := None, al_suppressed_until := None\<rparr>"

definition recovered_alert :: "CheckResult \<Rightarrow> Alert \<Rightarrow> Alert" where
  "recovered_alert r a =
     a\<lparr>al_state := Alert_resolved, al_resolved_at := Some (Aware (instant_of (rt_evaluated_at r))),
       al_resolution_reason := Some ''automatic_recovery'', al_version := al_version a + 1\<rparr>"

text \<open>\<open>max(windows, key=\<dots>)\<close> is the first window of greatest end.\<close>

fun latest_window :: "MaintenanceWindow list \<Rightarrow> MaintenanceWindow option" where
  "latest_window [] = None"
| "latest_window (w # ws) =
     (case latest_window ws of
        None \<Rightarrow> Some w
      | Some v \<Rightarrow> if instant_of (mw_ends_at w) < instant_of (mw_ends_at v) then Some v else Some w)"

definition suppressed_by :: "MaintenanceWindow list \<Rightarrow> Alert \<Rightarrow> Alert" where
  "suppressed_by windows a =
     (case latest_window windows of
        None \<Rightarrow> unsuppressed a
      | Some w \<Rightarrow> a\<lparr>al_suppression_window_id := Some (mw_id w), al_suppressed_until := Some (mw_ends_at w)\<rparr>)"

definition failing_alert :: "CheckResult \<Rightarrow> Alert \<Rightarrow> Alert" where
  "failing_alert r a =
     (let t = Aware (instant_of (rt_evaluated_at r));
          a1 = a\<lparr>al_last_observed_at := Some t, al_total_occurrence_count := al_total_occurrence_count a + 1\<rparr> in
      if al_state a = Alert_resolved
      then a1\<lparr>al_state := Alert_open, al_generation := al_generation a + 1, al_occurrence_count := 1, al_opened_at := Some t,
              al_resolved_at := None, al_resolution_reason := None,
              al_first_opened_at := (case al_first_opened_at a of None \<Rightarrow> Some t | f \<Rightarrow> f),
              al_acknowledged_at := None, al_acknowledged_by := None, al_version := al_version a + 1\<rparr>
      else a1\<lparr>al_occurrence_count := al_occurrence_count a + 1\<rparr>)"

text \<open>A new observation that is the newest of its alert.\<close>

definition apply_newest ::
  "(ustr \<Rightarrow> zone option) \<Rightarrow> instant \<Rightarrow> CheckResult \<Rightarrow> string \<Rightarrow> Alert \<Rightarrow> monitor \<Rightarrow> monitor option" where
  "apply_newest ZoneInfo now r revision_id a st =
     (let a1 = evaluated_alert now r revision_id a; t = instant_of (rt_evaluated_at r) in
      if rt_status r = Result_ok
      then let a2 = unsuppressed a1 in
        (if al_state a2 = Alert_resolved then Some (put_alert a2 st)
         else let a3 = recovered_alert r a2 in
           Some (add_event (system_event a3 Event_automatic_recovery (Some (al_state a2)) (Some Alert_resolved) (Some (rt_id r)) t)
             (put_alert a3 st)))
      else case db_get ag_id (fl_agents (mo_fleet st)) (rt_agent_id r) of
          None \<Rightarrow> None
        | Some agent \<Rightarrow>
            let a2 = failing_alert r (suppressed_by (active_maintenance_windows ZoneInfo (mo_fleet st) (mo_windows st) agent t) a1);
                st' = put_alert a2 st in
            Some (if al_state a = Alert_resolved
              then add_event (system_event a2 (if al_generation a = 0 then Event_opened else Event_reopened)
                (Some Alert_resolved) (Some Alert_open) (Some (rt_id r)) t) st'
              else st'))"

definition apply_check_result_to_alert ::
  "(ustr \<Rightarrow> zone option) \<Rightarrow> instant \<Rightarrow> string \<Rightarrow> CheckResult \<Rightarrow> monitor \<Rightarrow> monitor option" where
  "apply_check_result_to_alert ZoneInfo now new_id r st =
     (case (rt_policy_id r, rt_policy_revision_id r) of
        (Some policy_id, Some revision_id) \<Rightarrow>
          (let st1 = resolve_superseded_alerts now r st;
               st2 = (if rt_status r \<noteq> Result_ok then ensure_alert_shell now new_id r policy_id revision_id st1 else st1) in
           case find (identity_of r policy_id) (mo_alerts st2) of
             None \<Rightarrow> Some st2
           | Some a \<Rightarrow>
               if observed r st2 then Some st2
               else if out_of_order a r
               then
                 let st3 = st2\<lparr>mo_observations := mo_observations st2 @ [observation a r True]\<rparr> in
                 Some (if rt_status r \<noteq> Result_ok then put_alert (late_alert r a) st3 else st3)
               else apply_newest ZoneInfo now r revision_id a
                 (st2\<lparr>mo_observations := mo_observations st2 @ [observation a r False]\<rparr>))
      | _ \<Rightarrow> Some st)"

section \<open>Recording results\<close>

definition MAX_CHECK_RESULT_DETAIL_BYTES :: nat where "MAX_CHECK_RESULT_DETAIL_BYTES = 16 * 1024"

definition check_key_char :: "char \<Rightarrow> bool" where
  "check_key_char c \<longleftrightarrow> (let n = of_char c :: nat in ascii_digit n \<or> (97 \<le> n \<and> n \<le> 122))"

text \<open>\<open>_CHECK_KEY_PATTERN.fullmatch\<close>.\<close>

definition check_key_ok :: "string \<Rightarrow> bool" where
  "check_key_ok s \<longleftrightarrow>
     (case s of [] \<Rightarrow> False
      | c # cs \<Rightarrow> check_key_char c \<and> length cs \<le> 63 \<and>
          list_all (\<lambda>c. check_key_char c \<or> c = CHR ''_'' \<or> c = CHR ''-'') cs)"

definition detail_ok :: "json option \<Rightarrow> bool" where
  "detail_ok detail \<longleftrightarrow>
     (case detail of
        None \<Rightarrow> True
      | Some (JObj kvs) \<Rightarrow>
          (case encode_utf8 (dumps esc_plain (JObj kvs)) of
             None \<Rightarrow> False | Some bytes \<Rightarrow> length bytes \<le> MAX_CHECK_RESULT_DETAIL_BYTES)
      | Some _ \<Rightarrow> False)"

text \<open>A second row under the same identifier violates the primary key.\<close>

datatype record_error = Result_ValueError | Result_IntegrityError

definition record_check_result ::
  "(ustr \<Rightarrow> zone option) \<Rightarrow> instant \<Rightarrow> string \<Rightarrow> bool \<Rightarrow> CheckResult \<Rightarrow> monitor \<Rightarrow> record_error + monitor" where
  "record_check_result ZoneInfo now new_id alert_on_unknown r st =
     (if \<not> check_key_ok (rt_check_key r) \<or> \<not> aware (Some (rt_evaluated_at r)) \<or> \<not> detail_ok (rt_detail r)
      then Inl Result_ValueError
      else if list_ex (\<lambda>q. rt_id q = rt_id r) (mo_results st) then Inl Result_IntegrityError
      else let st' = st\<lparr>mo_results := mo_results st @ [r]\<rparr> in
        if alert_on_unknown \<or> rt_status r \<noteq> Result_unknown
        then (case apply_check_result_to_alert ZoneInfo now new_id r st' of None \<Rightarrow> Inl Result_ValueError | Some st'' \<Rightarrow> Inr st'')
        else Inr st')"

text \<open>Alerts that a revised or deleted policy withdraws.\<close>

definition resolve_policy_alerts :: "string \<Rightarrow> string set \<Rightarrow> string \<Rightarrow> instant \<Rightarrow> monitor \<Rightarrow> monitor" where
  "resolve_policy_alerts policy_id active_check_keys reason now st =
     resolve_alerts (\<lambda>a. al_policy_id a = policy_id \<and> al_state a \<noteq> Alert_resolved \<and>
         (active_check_keys = {} \<or> al_check_key a \<notin> active_check_keys))
       reason
       (if reason = ''policy_revised'' then Event_policy_revised
        else if reason = ''policy_deleted'' then Event_policy_deleted else Event_policy_superseded)
       (Aware now) now st"

end
