(* ===== verification/Alert_Actions.thy ===== *)
theory Alert_Actions
  imports Alerts
begin

text \<open>
  Who drives the alerts: the results an agent submits (\<open>server/app/api/agents.py\<close>), the offline
  checks that the server evaluates itself and the retention of results
  (\<open>server/app/core/monitoring.py\<close>), and the technicians (\<open>server/app/api/management.py\<close>).
  Identifiers that a call draws are arguments, keyed by the result or check they belong to;
  \<open>total_seconds\<close> is the conversion of a duration to a float.
\<close>

section \<open>Results of agents\<close>

record AgentCheckResultIn =
  in_id :: string
  in_policy_id :: string
  in_policy_revision_id :: string
  in_check_key :: string
  in_status :: CheckResultStatus
  in_value :: "rat option"
  in_detail :: "json option"
  in_evaluated_at :: datetime

definition hex_lower :: "char \<Rightarrow> bool" where
  "hex_lower c \<longleftrightarrow> (let n = of_char c :: nat in ascii_digit n \<or> (97 \<le> n \<and> n \<le> 102))"

definition short_id :: "string \<Rightarrow> bool" where
  "short_id s \<longleftrightarrow> 1 \<le> length s \<and> length s \<le> 36"

definition batch_ok :: "AgentCheckResultIn list \<Rightarrow> bool" where
  "batch_ok results \<longleftrightarrow>
     1 \<le> length results \<and> length results \<le> 100 \<and> distinct (map in_id results) \<and>
     list_all (\<lambda>r. length (in_id r) = 32 \<and> list_all hex_lower (in_id r) \<and> short_id (in_policy_id r) \<and>
       short_id (in_policy_revision_id r) \<and> check_key_ok (in_check_key r) \<and> detail_ok (in_detail r) \<and>
       aware (Some (in_evaluated_at r))) results"

definition agent_result :: "AgentRow \<Rightarrow> instant \<Rightarrow> AgentCheckResultIn \<Rightarrow> CheckResult" where
  "agent_result a now r =
     \<lparr>rt_id = in_id r, rt_agent_id = ag_id a, rt_policy_id = Some (in_policy_id r),
      rt_policy_revision_id = Some (in_policy_revision_id r), rt_check_key = in_check_key r, rt_status = in_status r,
      rt_value = in_value r, rt_detail = in_detail r, rt_evaluated_at = Aware (instant_of (in_evaluated_at r)),
      rt_received_at = now\<rparr>"

text \<open>
  The comparison with a stored row; dictionaries are equal up to the order of their keys.
\<close>

definition same_submission :: "CheckResult \<Rightarrow> CheckResult \<Rightarrow> bool" where
  "same_submission q r \<longleftrightarrow>
     rt_agent_id q = rt_agent_id r \<and> rt_check_key q = rt_check_key r \<and> rt_policy_id q = rt_policy_id r \<and>
     rt_policy_revision_id q = rt_policy_revision_id r \<and> rt_status q = rt_status r \<and> rt_value q = rt_value r \<and>
     map_option normalise (rt_detail q) = map_option normalise (rt_detail r) \<and>
     instant_of (rt_evaluated_at q) = instant_of (rt_evaluated_at r)"

text \<open>The refusals of one result, in the order of the checks.\<close>

definition result_refusal :: "EffectiveCheck list \<Rightarrow> instant \<Rightarrow> AgentCheckResultIn \<Rightarrow> http_error option" where
  "result_refusal effective now r =
     (case find (\<lambda>e. ck_key (ef_definition e) = in_check_key r) effective of
        None \<Rightarrow> Some (HTTPException 409 ''monitoring_policy_superseded'')
      | Some e \<Rightarrow>
          let d = ef_definition e; t = instant_of (in_evaluated_at r) in
          if ef_source_policy_id e \<noteq> in_policy_id r \<or> ef_source_revision_id e \<noteq> in_policy_revision_id r
          then Some (HTTPException 409 ''monitoring_policy_superseded'')
          else if ck_type d = Check_offline then Some (HTTPException 422 ''offline_check_is_server_owned'')
          else if t > now + seconds 300 then Some (HTTPException 422 ''monitoring_result_from_future'')
          else if t < now - seconds (max (ck_interval_seconds d * 3) 300)
          then Some (HTTPException 422 ''monitoring_result_stale'')
          else if ck_type d \<in> set [Check_cpu, Check_memory, Check_disk, Check_uptime] \<and> in_status r \<noteq> Result_unknown \<and>
            in_value r = None
          then Some (HTTPException 422 ''monitoring_result_value_required'')
          else if ck_type d \<in> set [Check_cpu, Check_memory, Check_disk] \<and>
            \<not> (case in_value r of None \<Rightarrow> True | Some v \<Rightarrow> 0 \<le> v \<and> v \<le> 100)
          then Some (HTTPException 422 ''monitoring_result_value_out_of_range'')
          else None)"

definition known_result :: "CheckResult \<Rightarrow> monitor \<Rightarrow> CheckResult option" where
  "known_result r st = find (\<lambda>q. rt_id q = rt_id r) (mo_results st)"

definition result_conflict :: http_error where
  "result_conflict = HTTPException 409 ''monitoring_result_id_conflict''"

text \<open>One result of the batch: the state, and whether it was accepted or a duplicate.\<close>

definition ingest_result ::
  "(ustr \<Rightarrow> zone option) \<Rightarrow> EffectiveCheck list \<Rightarrow> AgentRow \<Rightarrow> instant \<Rightarrow> (string \<Rightarrow> string) \<Rightarrow> AgentCheckResultIn \<Rightarrow>
   monitor \<Rightarrow> (monitor \<times> bool) http" where
  "ingest_result ZoneInfo effective a now fresh r st =
     (case result_refusal effective now r of
        Some e \<Rightarrow> Inl e
      | None \<Rightarrow>
          let row = agent_result a now r in
          (case known_result row st of
             Some q \<Rightarrow> if same_submission q row then Inr (st, False) else Inl result_conflict
           | None \<Rightarrow>
               (case record_check_result ZoneInfo now (fresh (in_id r)) True row st of
                  Inr st' \<Rightarrow> Inr (st', True)
                | Inl Result_ValueError \<Rightarrow> Inl (HTTPException 500 ''internal_error'')
                | Inl Result_IntegrityError \<Rightarrow>
                    (case known_result row st of
                       None \<Rightarrow> Inl (HTTPException 500 ''internal_error'')
                     | Some q \<Rightarrow> if same_submission q row then Inr (st, False) else Inl result_conflict))))"

fun ingest ::
  "(ustr \<Rightarrow> zone option) \<Rightarrow> EffectiveCheck list \<Rightarrow> AgentRow \<Rightarrow> instant \<Rightarrow> (string \<Rightarrow> string) \<Rightarrow>
   AgentCheckResultIn list \<Rightarrow> monitor \<Rightarrow> (monitor \<times> nat \<times> nat) http" where
  "ingest ZoneInfo effective a now fresh [] st = Inr (st, 0, 0)"
| "ingest ZoneInfo effective a now fresh (r # rs) st =
     (case ingest_result ZoneInfo effective a now fresh r st of
        Inl e \<Rightarrow> Inl e
      | Inr (st', new) \<Rightarrow>
          (case ingest ZoneInfo effective a now fresh rs st' of
             Inl e \<Rightarrow> Inl e
           | Inr (st'', accepted, duplicates) \<Rightarrow>
               Inr (st'', accepted + (if new then 1 else 0), duplicates + (if new then 0 else 1))))"

definition effective_checks :: "monitor \<Rightarrow> AgentRow \<Rightarrow> EffectiveCheck list" where
  "effective_checks st a = resolve_effective_policy (mo_fleet st) (mo_policies st) (mo_revisions st) a"

definition submit_monitoring_results ::
  "(ustr \<Rightarrow> zone option) \<Rightarrow> (ustr \<Rightarrow> string) \<Rightarrow> unicode \<Rightarrow> monitor \<Rightarrow> ustr option \<Rightarrow> AgentCheckResultIn list \<Rightarrow> instant \<Rightarrow>
   (string \<Rightarrow> string) \<Rightarrow> monitor \<times> (nat \<times> nat) http" where
  "submit_monitoring_results ZoneInfo hash_token u st authorization results now fresh =
     (case get_current_agent hash_token u (mo_fleet st) authorization now of
        Inl e \<Rightarrow> (st, Inl e)
      | Inr (a, matched) \<Rightarrow>
          if \<not> batch_ok results then (st, Inl (HTTPException 422 ''validation_error''))
          else if trust_state a \<noteq> Trust_active then (st, Inl (HTTPException 403 ''agent_not_active''))
          else case ingest ZoneInfo (effective_checks st a) a now fresh results st of
              Inl e \<Rightarrow> (st, Inl e)
            | Inr (st', counts) \<Rightarrow> (st', Inr counts))"

section \<open>Offline checks\<close>

text \<open>The newest result of a check on an agent.\<close>

definition newest_result :: "monitor \<Rightarrow> string \<Rightarrow> string \<Rightarrow> CheckResult option" where
  "newest_result st agent_id key =
     (case rev (sort_key (\<lambda>q. (instant_of (rt_evaluated_at q), rt_id q))
        (filter (\<lambda>q. rt_agent_id q = agent_id \<and> rt_check_key q = key) (mo_results st))) of
        [] \<Rightarrow> None | q # _ \<Rightarrow> Some q)"

definition same_revision :: "EffectiveCheck \<Rightarrow> CheckResult \<Rightarrow> bool" where
  "same_revision e q \<longleftrightarrow>
     rt_policy_id q = Some (ef_source_policy_id e) \<and> rt_policy_revision_id q = Some (ef_source_revision_id e)"

text \<open>
  The pending transition in the detail of a previous result, as the server writes it; a count of
  another shape than a number, a truth value or nothing fails. So does a check without a threshold,
  which validation excludes.
\<close>

definition jget :: "json \<Rightarrow> string \<Rightarrow> json option" where
  "jget j key = (case j of JObj kvs \<Rightarrow> map_of kvs (ustr key) | _ \<Rightarrow> None)"

definition pending_of :: "json option \<Rightarrow> (ustr option \<times> int) option" where
  "pending_of detail =
     (case Option.bind detail (\<lambda>j. jget j ''hysteresis'') of
        None \<Rightarrow> Some (None, 0)
      | Some (JObj kvs) \<Rightarrow>
          (let status = (case jget (JObj kvs) ''pending_status'' of Some (JStr s) \<Rightarrow> Some s | _ \<Rightarrow> None) in
           case jget (JObj kvs) ''pending_count'' of
             None \<Rightarrow> Some (status, 0)
           | Some JNull \<Rightarrow> Some (status, 0)
           | Some (JInt n) \<Rightarrow> Some (status, n)
           | Some (JBool b) \<Rightarrow> Some (status, if b then 1 else 0)
           | _ \<Rightarrow> None)
      | _ \<Rightarrow> None)"

definition offline_detail :: "string \<Rightarrow> CheckResultStatus \<Rightarrow> ustr option \<Rightarrow> int \<Rightarrow> json" where
  "offline_detail reason raw pending_status pending_count =
     JObj [(ustr ''check_type'', jstr ''offline''), (ustr ''reason'', jstr reason),
       (ustr ''raw_status'', jstr (result_status_value raw)),
       (ustr ''hysteresis'', JObj [(ustr ''pending_status'', jopt JStr pending_status),
          (ustr ''pending_count'', JInt pending_count)])]"

definition offline_sample ::
  "(int \<Rightarrow> rat) \<Rightarrow> AgentRow \<Rightarrow> CheckDefinition \<Rightarrow> instant \<Rightarrow> (rat option \<times> CheckResultStatus \<times> string) option" where
  "offline_sample total_seconds a d t =
     (case last_seen_at a of
        None \<Rightarrow> Some (None, Result_unknown, ''agent_has_never_checked_in'')
      | Some seen \<Rightarrow>
          let v = max 0 (total_seconds (t - seen)) in
          map_option (\<lambda>th. let raw = classify_numeric v th in
              (Some v, raw, if raw = Result_ok then ''heartbeat_within_threshold'' else ''heartbeat_overdue''))
            (ck_threshold d))"

definition due :: "(int \<Rightarrow> rat) \<Rightarrow> EffectiveCheck \<Rightarrow> CheckResult option \<Rightarrow> instant \<Rightarrow> bool" where
  "due total_seconds e previous t \<longleftrightarrow>
     (case previous of
        None \<Rightarrow> True
      | Some q \<Rightarrow> \<not> total_seconds (t - instant_of (rt_evaluated_at q)) < of_int (ck_interval_seconds (ef_definition e)))"

definition evaluate_offline_check ::
  "(ustr \<Rightarrow> zone option) \<Rightarrow> (int \<Rightarrow> rat) \<Rightarrow> AgentRow \<Rightarrow> instant \<Rightarrow> (string \<Rightarrow> string) \<Rightarrow> (string \<Rightarrow> string) \<Rightarrow> EffectiveCheck \<Rightarrow>
   monitor \<Rightarrow> record_error + monitor" where
  "evaluate_offline_check ZoneInfo total_seconds a t result_id fresh e st =
     (let d = ef_definition e;
          previous = (case newest_result st (ag_id a) (ck_key d) of
            Some q \<Rightarrow> if same_revision e q then Some q else None | None \<Rightarrow> None) in
      if ck_type d \<noteq> Check_offline \<or> \<not> due total_seconds e previous t then Inr st
      else case offline_sample total_seconds a d t of
          None \<Rightarrow> Inl Result_ValueError
        | Some (v, raw, reason) \<Rightarrow>
        (case map_option (\<lambda>q. map_option (Pair (rt_status q)) (pending_of (rt_detail q))) previous of
           Some None \<Rightarrow> Inl Result_ValueError
         | prior \<Rightarrow>
             (case apply_hysteresis raw d (Option.bind prior id) of (settled, pending_status, pending_count) \<Rightarrow>
                record_check_result ZoneInfo t (fresh (ck_key d)) True
                  \<lparr>rt_id = result_id (ck_key d), rt_agent_id = ag_id a, rt_policy_id = Some (ef_source_policy_id e),
                   rt_policy_revision_id = Some (ef_source_revision_id e), rt_check_key = ck_key d, rt_status = settled,
                   rt_value = v, rt_detail = Some (offline_detail reason raw pending_status pending_count),
                   rt_evaluated_at = Aware t, rt_received_at = t\<rparr> st)))"

fun evaluate_checks :: "(EffectiveCheck \<Rightarrow> monitor \<Rightarrow> record_error + monitor) \<Rightarrow> EffectiveCheck list \<Rightarrow> monitor \<Rightarrow> record_error + monitor" where
  "evaluate_checks f [] st = Inr st"
| "evaluate_checks f (e # es) st = (case f e st of Inl x \<Rightarrow> Inl x | Inr st' \<Rightarrow> evaluate_checks f es st')"

definition evaluate_offline_checks ::
  "(ustr \<Rightarrow> zone option) \<Rightarrow> (int \<Rightarrow> rat) \<Rightarrow> monitor \<Rightarrow> AgentRow \<Rightarrow> instant \<Rightarrow> (string \<Rightarrow> string) \<Rightarrow> (string \<Rightarrow> string) \<Rightarrow>
   record_error + monitor" where
  "evaluate_offline_checks ZoneInfo total_seconds st a t result_id fresh =
     evaluate_checks (evaluate_offline_check ZoneInfo total_seconds a t result_id fresh) (effective_checks st a) st"

section \<open>Technicians\<close>

record AlertAction =
  aa_request_id :: string
  aa_expected_version :: int
  aa_comment :: "ustr option"

definition request_id_char :: "char \<Rightarrow> bool" where
  "request_id_char c \<longleftrightarrow> (let n = of_char c :: nat in ascii_digit n \<or> (97 \<le> n \<and> n \<le> 122) \<or> (65 \<le> n \<and> n \<le> 90) \<or> n = 95 \<or> n = 45)"

text \<open>A comment is required of a comment and of a resolution.\<close>

definition action_ok :: "bool \<Rightarrow> AlertAction \<Rightarrow> bool" where
  "action_ok commented body \<longleftrightarrow>
     16 \<le> length (aa_request_id body) \<and> length (aa_request_id body) \<le> 64 \<and> list_all request_id_char (aa_request_id body) \<and>
     1 \<le> aa_expected_version body \<and>
     (case aa_comment body of None \<Rightarrow> \<not> commented | Some c \<Rightarrow> short_text (if commented then 1 else 0) 2000 c)"

definition lock_alert_action :: "monitor \<Rightarrow> string \<Rightarrow> AlertAction \<Rightarrow> (Alert \<times> bool) http" where
  "lock_alert_action st alert_id body =
     (case db_get al_id (mo_alerts st) alert_id of
        None \<Rightarrow> Inl (HTTPException 404 ''Monitoring alert not found'')
      | Some a \<Rightarrow>
          if list_ex (\<lambda>e. ev_alert_id e = alert_id \<and> ev_request_id e = Some (aa_request_id body)) (mo_events st) then Inr (a, True)
          else if al_version a \<noteq> aa_expected_version body then Inl (HTTPException 409 ''alert_version_conflict'')
          else Inr (a, False))"

definition assert_alert_visible :: "monitor \<Rightarrow> Operator \<Rightarrow> Alert \<Rightarrow> unit http" where
  "assert_alert_visible st oper a =
     (case db_get ag_id (fl_agents (mo_fleet st)) (al_agent_id a) of
        None \<Rightarrow> Inl (HTTPException 404 ''Monitoring alert not found'')
      | Some agent \<Rightarrow> assert_agent_visible (fl_db (mo_fleet st)) oper (Agent.truncate agent) (Some client_operator)
          ''Monitoring alert not found'')"

definition operator_alert_event ::
  "(ustr \<Rightarrow> ustr) \<Rightarrow> Alert \<Rightarrow> AlertEventType \<Rightarrow> Operator \<Rightarrow> AlertAction \<Rightarrow> AlertState \<Rightarrow> string option \<Rightarrow> instant \<Rightarrow> AlertEvent" where
  "operator_alert_event scrub a etype oper body from_state assignee now =
     \<lparr>ev_alert_id = al_id a, ev_generation = al_generation a, ev_type = etype, ev_from_state = Some from_state,
      ev_to_state = Some (al_state a), ev_actor = op_email oper, ev_actor_user_id = Some (op_id oper),
      ev_comment = map_option (\<lambda>c. scrub (strip c)) (aa_comment body), ev_assigned_to_operator_id = assignee,
      ev_source_result_id = None, ev_request_id = Some (aa_request_id body), ev_created_at = now\<rparr>"

text \<open>What the four endpoints share: role, body, the row, the tenant, and the answer to a replay.\<close>

definition alert_gate :: "monitor \<Rightarrow> string \<Rightarrow> bool \<Rightarrow> AlertAction \<Rightarrow> Operator \<Rightarrow> (Alert \<times> bool) http" where
  "alert_gate st alert_id commented body oper =
     (case require_role OperatorRole_operator oper of
        Inl e \<Rightarrow> Inl e
      | Inr _ \<Rightarrow>
        if \<not> action_ok commented body then Inl (HTTPException 422 ''validation_error'')
        else case lock_alert_action st alert_id body of
            Inl e \<Rightarrow> Inl e
          | Inr (a, replay) \<Rightarrow>
              (case assert_alert_visible st oper a of Inl e \<Rightarrow> Inl e | Inr _ \<Rightarrow> Inr (a, replay)))"

definition alert_action_detail :: "Alert \<Rightarrow> AlertAction \<Rightarrow> AlertState \<Rightarrow> (ustr \<Rightarrow> ustr) \<Rightarrow> json" where
  "alert_action_detail a body from_state scrub =
     (let comment = map_option strip (aa_comment body) in
      JObj [(ustr ''alert_id'', jstr (al_id a)), (ustr ''generation'', JInt (al_generation a)),
        (ustr ''request_id'', jstr (aa_request_id body)), (ustr ''from_state'', jstr (alert_state_value from_state)),
        (ustr ''to_state'', jstr (alert_state_value (al_state a))),
        (ustr ''comment'', JStr (case comment of None \<Rightarrow> [] | Some c \<Rightarrow> scrub c)),
        (ustr ''comment_redacted'', JBool (map_option scrub comment \<noteq> comment))])"

text \<open>The rows, the event and the audit entry of an accepted action.\<close>

definition commit_action ::
  "(ustr \<Rightarrow> ustr) \<Rightarrow> string \<Rightarrow> AlertEventType \<Rightarrow> Alert \<Rightarrow> AlertState \<Rightarrow> AlertAction \<Rightarrow> Operator \<Rightarrow> string option \<Rightarrow> json \<Rightarrow> instant \<Rightarrow>
   monitor \<Rightarrow> monitor" where
  "commit_action scrub action etype a from_state body oper assignee detail now st =
     (let st' = add_event (operator_alert_event scrub a etype oper body from_state assignee now) (put_alert a st) in
      st'\<lparr>mo_fleet := fleet_audit action (op_email oper) (Some (op_id oper)) (Some (al_agent_id a)) None detail (mo_fleet st')\<rparr>)"

definition acknowledge_monitoring_alert ::
  "(ustr \<Rightarrow> ustr) \<Rightarrow> monitor \<Rightarrow> string \<Rightarrow> AlertAction \<Rightarrow> Operator \<Rightarrow> instant \<Rightarrow> monitor \<times> unit http" where
  "acknowledge_monitoring_alert scrub st alert_id body oper now =
     (case alert_gate st alert_id False body oper of
        Inl e \<Rightarrow> (st, Inl e)
      | Inr (a, True) \<Rightarrow> (st, Inr ())
      | Inr (a, False) \<Rightarrow>
          if al_state a \<noteq> Alert_open then (st, Inl (HTTPException 409 ''alert_acknowledge_invalid_state''))
          else let a' = a\<lparr>al_state := Alert_acknowledged, al_acknowledged_at := Some now, al_acknowledged_by := Some (op_email oper),
                 al_version := al_version a + 1, al_updated_at := now\<rparr> in
            (commit_action scrub ''monitoring_alert.acknowledged'' Event_acknowledged a' (al_state a) body oper None
               (alert_action_detail a' body (al_state a) scrub) now st, Inr ()))"

definition assign_detail :: "Alert \<Rightarrow> AlertAction \<Rightarrow> (ustr \<Rightarrow> ustr) \<Rightarrow> Operator option \<Rightarrow> json" where
  "assign_detail a body scrub assignee =
     (let comment = map_option strip (aa_comment body) in
      JObj [(ustr ''alert_id'', jstr (al_id a)), (ustr ''generation'', JInt (al_generation a)),
        (ustr ''request_id'', jstr (aa_request_id body)),
        (ustr ''assigned_to_operator_id'', jstr (case assignee of None \<Rightarrow> [] | Some o' \<Rightarrow> op_id o')),
        (ustr ''assigned_to_email'', jstr (case assignee of None \<Rightarrow> [] | Some o' \<Rightarrow> op_email o')),
        (ustr ''comment'', JStr (case comment of None \<Rightarrow> [] | Some c \<Rightarrow> scrub c)),
        (ustr ''comment_redacted'', JBool (map_option scrub comment \<noteq> comment))])"

definition assign_monitoring_alert ::
  "(ustr \<Rightarrow> ustr) \<Rightarrow> monitor \<Rightarrow> string \<Rightarrow> AlertAction \<Rightarrow> string option \<Rightarrow> Operator \<Rightarrow> instant \<Rightarrow> monitor \<times> unit http" where
  "assign_monitoring_alert scrub st alert_id body assigned_to oper now =
     (case alert_gate st alert_id False body oper of
        Inl e \<Rightarrow> (st, Inl e)
      | Inr (a, True) \<Rightarrow> (st, Inr ())
      | Inr (a, False) \<Rightarrow>
          let assignee = Option.bind assigned_to (db_get op_id (operators (fl_db (mo_fleet st)))) in
          if assigned_to \<noteq> None \<and> (case assignee of None \<Rightarrow> True | Some o' \<Rightarrow> op_disabled o')
          then (st, Inl (HTTPException 422 ''alert_assignee_unavailable''))
          else let a' = a\<lparr>al_assigned_to_operator_id := map_option op_id assignee,
                 al_assigned_to_email := map_option op_email assignee, al_version := al_version a + 1, al_updated_at := now\<rparr> in
            (commit_action scrub ''monitoring_alert.assigned'' Event_assigned a' (al_state a) body oper (map_option op_id assignee)
               (assign_detail a' body scrub assignee) now st, Inr ()))"

definition comment_detail :: "Alert \<Rightarrow> AlertAction \<Rightarrow> (ustr \<Rightarrow> ustr) \<Rightarrow> json" where
  "comment_detail a body scrub =
     (let comment = map_option strip (aa_comment body) in
      JObj [(ustr ''alert_id'', jstr (al_id a)), (ustr ''generation'', JInt (al_generation a)),
        (ustr ''request_id'', jstr (aa_request_id body)), (ustr ''state'', jstr (alert_state_value (al_state a))),
        (ustr ''comment'', JStr (case comment of None \<Rightarrow> [] | Some c \<Rightarrow> scrub c)),
        (ustr ''comment_redacted'', JBool (map_option scrub comment \<noteq> comment))])"

definition comment_on_monitoring_alert ::
  "(ustr \<Rightarrow> ustr) \<Rightarrow> monitor \<Rightarrow> string \<Rightarrow> AlertAction \<Rightarrow> Operator \<Rightarrow> instant \<Rightarrow> monitor \<times> unit http" where
  "comment_on_monitoring_alert scrub st alert_id body oper now =
     (case alert_gate st alert_id True body oper of
        Inl e \<Rightarrow> (st, Inl e)
      | Inr (a, True) \<Rightarrow> (st, Inr ())
      | Inr (a, False) \<Rightarrow>
          let a' = a\<lparr>al_version := al_version a + 1, al_updated_at := now\<rparr> in
          (commit_action scrub ''monitoring_alert.commented'' Event_commented a' (al_state a) body oper None
             (comment_detail a' body scrub) now st, Inr ()))"

definition resolve_monitoring_alert ::
  "(ustr \<Rightarrow> ustr) \<Rightarrow> monitor \<Rightarrow> string \<Rightarrow> AlertAction \<Rightarrow> Operator \<Rightarrow> instant \<Rightarrow> monitor \<times> unit http" where
  "resolve_monitoring_alert scrub st alert_id body oper now =
     (case alert_gate st alert_id True body oper of
        Inl e \<Rightarrow> (st, Inl e)
      | Inr (a, True) \<Rightarrow> (st, Inr ())
      | Inr (a, False) \<Rightarrow>
          if al_state a = Alert_resolved then (st, Inl (HTTPException 409 ''alert_resolve_invalid_state''))
          else let a' = closed_alert ''manual_resolution'' (Aware now) now a in
            (commit_action scrub ''monitoring_alert.resolved'' Event_manual_resolution a' (al_state a) body oper None
               (alert_action_detail a' body (al_state a) scrub) now st, Inr ()))"

section \<open>Retention\<close>

text \<open>The newest \<open>keep\<close> results of an agent and check by arrival; the others and their observations go.\<close>

definition kept_results :: "nat \<Rightarrow> CheckResult rows \<Rightarrow> string \<Rightarrow> string \<Rightarrow> string list" where
  "kept_results keep results agent_id key =
     map rt_id (take keep (rev (sort_key (\<lambda>q. (rt_received_at q, rt_id q))
       (filter (\<lambda>q. rt_agent_id q = agent_id \<and> rt_check_key q = key) results))))"

definition survives :: "nat \<Rightarrow> CheckResult rows \<Rightarrow> CheckResult \<Rightarrow> bool" where
  "survives keep results q \<longleftrightarrow> rt_id q \<in> set (kept_results keep results (rt_agent_id q) (rt_check_key q))"

definition prune_check_results :: "int \<Rightarrow> monitor \<Rightarrow> monitor \<times> nat" where
  "prune_check_results keep st =
     (if keep \<le> 0 then (st, 0)
      else let doomed = filter (\<lambda>q. \<not> survives (nat keep) (mo_results st) q) (mo_results st) in
        (st\<lparr>mo_results := filter (survives (nat keep) (mo_results st)) (mo_results st),
            mo_observations := filter (\<lambda>ob. ob_check_result_id ob \<notin> set (map rt_id doomed)) (mo_observations st)\<rparr>,
         length doomed))"

end
