(* ===== verification/Monitoring_Correct.thy ===== *)
theory Monitoring_Correct
  imports Monitoring Fixtures "HOL-Library.Sublist"
begin

text \<open>
  The effective policy of an endpoint against its specification (each check is governed by the
  most specific policy that names it), and hysteresis over runs of samples.
\<close>

section \<open>The governing policy of a check\<close>

definition effective_entry :: "MonitoringPolicy \<Rightarrow> MonitoringPolicyRevision \<Rightarrow> CheckDefinition \<Rightarrow> EffectiveCheck" where
  "effective_entry p r d =
     \<lparr>ef_definition = d, ef_source_scope = mp_scope p, ef_source_policy_id = mp_id p, ef_source_revision_id = mr_id r\<rparr>"

text \<open>The current revision of a policy names a check.\<close>

definition names_check :: "MonitoringPolicyRevision rows \<Rightarrow> MonitoringPolicy \<Rightarrow> MonitoringPolicyRevision \<Rightarrow> CheckDefinition \<Rightarrow> bool" where
  "names_check revs p r d \<longleftrightarrow> current_revision revs (mp_id p) = Some r \<and> d \<in> set (mr_checks r)"

definition governs ::
  "MonitoringPolicyRevision rows \<Rightarrow> MonitoringPolicy set \<Rightarrow> MonitoringPolicy \<Rightarrow> MonitoringPolicyRevision \<Rightarrow> CheckDefinition \<Rightarrow> bool" where
  "governs revs ps p r d \<longleftrightarrow> p \<in> ps \<and> names_check revs p r d \<and>
     (\<forall>q \<in> ps. \<forall>s c. names_check revs q s c \<and> ck_key c = ck_key d \<longrightarrow> policy_rank q \<le> policy_rank p)"

abbreviation entry_key :: "EffectiveCheck \<Rightarrow> string" where
  "entry_key e \<equiv> ck_key (ef_definition e)"

lemma effective_entry_fields [simp]: "ef_definition (effective_entry p r d) = d" "ef_source_policy_id (effective_entry p r d) = mp_id p"
  "ef_source_revision_id (effective_entry p r d) = mr_id r" "ef_source_scope (effective_entry p r d) = mp_scope p"
  by (simp_all add: effective_entry_def)

lemma merged_checks:
  assumes "distinct (map ck_key ds)"
  shows "set (foldl (merge_check p r) effective ds) =
    {e \<in> set effective. entry_key e \<notin> ck_key ` set ds} \<union> effective_entry p r ` {d \<in> set ds. ck_enabled d}"
  using assms
proof (induction ds rule: rev_induct)
  case Nil
  then show ?case by simp
next
  case (snoc d ds)
  have other: "ck_key c \<noteq> ck_key d" if "c \<in> set ds" for c
    using snoc.prems that by simp (metis imageI)
  have "set (foldl (merge_check p r) effective (ds @ [d])) =
    {e \<in> set (foldl (merge_check p r) effective ds). entry_key e \<noteq> ck_key d} \<union> (if ck_enabled d then {effective_entry p r d} else {})"
    by (simp add: merge_check_def [of p r _ d] pop_check_def effective_entry_def)
  also have "\<dots> = {e \<in> set effective. entry_key e \<notin> ck_key ` set (ds @ [d])} \<union> effective_entry p r ` {c \<in> set (ds @ [d]). ck_enabled c}"
    using snoc other by (auto simp: effective_entry_def)
  finally show ?case .
qed

lemma merged_policies:
  assumes "sorted (map policy_rank ps)" "distinct (map policy_rank ps)"
    "\<forall>r \<in> set revs. distinct (map ck_key (mr_checks r))"
  shows "set (foldl (merge_policy revs) [] ps) =
    {effective_entry p r d | p r d. governs revs (set ps) p r d \<and> ck_enabled d}"
  using assms(1,2)
proof (induction ps rule: rev_induct)
  case Nil
  then show ?case by (simp add: governs_def)
next
  case (snoc p ps)
  have less: "policy_rank q < policy_rank p" if "q \<in> set ps" for q
    using snoc.prems that by (auto simp: sorted_append order_less_le rev_image_eqI)
  have keep: "governs revs (set (ps @ [p])) q s c \<longleftrightarrow>
      (if q = p then names_check revs p s c
       else governs revs (set ps) q s c \<and> (\<forall>r d. names_check revs p r d \<longrightarrow> ck_key d \<noteq> ck_key c))" for q s c
    using less by (auto simp: governs_def dest: leD) (metis less order_less_imp_le)+
  have ih: "set (foldl (merge_policy revs) [] ps) = {effective_entry p r d | p r d. governs revs (set ps) p r d \<and> ck_enabled d}"
    using snoc by (simp add: sorted_append)
  have p: "p \<notin> set ps" using less by blast
  show ?case
  proof (cases "current_revision revs (mp_id p)")
    case None
    then have "governs revs (set (ps @ [p])) q s c \<longleftrightarrow> governs revs (set ps) q s c" for q s c
      unfolding keep using p by (auto simp: names_check_def governs_def)
    then show ?thesis using ih None by (simp add: merge_policy_def [of revs _ p])
  next
    case (Some r)
    then have "r \<in> set revs"
      by (auto simp: current_revision_def split: list.splits dest!: arg_cong [of "sort_key _ _" _ set])
    then have "distinct (map ck_key (mr_checks r))" using assms(3) by blast
    from merged_checks [OF this] Some
    have split: "set (foldl (merge_policy revs) [] (ps @ [p])) =
      {e \<in> set (foldl (merge_policy revs) [] ps). entry_key e \<notin> ck_key ` set (mr_checks r)} \<union>
        effective_entry p r ` {d \<in> set (mr_checks r). ck_enabled d}"
      by (simp add: merge_policy_def [of revs _ p])
    have new: "governs revs (set (ps @ [p])) q s c \<longleftrightarrow>
        q = p \<and> s = r \<and> c \<in> set (mr_checks r) \<or> governs revs (set ps) q s c \<and> ck_key c \<notin> ck_key ` set (mr_checks r)" for q s c
      unfolding keep using Some p by (auto simp: names_check_def governs_def image_iff)
    have old: "{e \<in> {effective_entry p r d | p r d. governs revs (set ps) p r d \<and> ck_enabled d}. entry_key e \<notin> ck_key ` set (mr_checks r)} =
        {effective_entry q s c | q s c. governs revs (set ps) q s c \<and> ck_enabled c \<and> ck_key c \<notin> ck_key ` set (mr_checks r)}"
      by (intro set_eqI iffI; clarsimp; blast)
    show ?thesis unfolding split ih old new by blast
  qed
qed

text \<open>The effective checks have one entry per key.\<close>

lemma merged_keys: "distinct (map entry_key effective) \<Longrightarrow> distinct (map entry_key (merge_check p r effective d))"
  by (auto simp: merge_check_def pop_check_def distinct_map inj_on_def)

lemma resolved_keys: "distinct (map entry_key (resolve_effective_policy st policies revs a))"
proof -
  have "distinct (map entry_key (foldl (merge_check p r) es ds))" if "distinct (map entry_key es)" for p r ds es
    using that by (induction ds arbitrary: es) (simp_all add: merged_keys)
  then have "distinct (map entry_key (foldl (merge_policy revs) es ps))" if "distinct (map entry_key es)" for ps es
    using that by (induction ps arbitrary: es) (simp_all add: merge_policy_def split: option.splits)
  then have "distinct (map entry_key (foldl (merge_policy revs) [] (sort_key policy_rank (applicable_policies st policies a))))"
    by simp
  then show ?thesis by (simp add: resolve_effective_policy_def distinct_map)
qed

text \<open>C33. Each check of the effective policy of an endpoint is the one that the most specific applicable
  policy naming its key defines, and exactly those that are enabled there appear, one per key.\<close>

theorem effective_policy_most_specific:
  assumes "distinct (map mp_id policies)" "\<forall>r \<in> set revs. distinct (map ck_key (mr_checks r))"
  shows "set (resolve_effective_policy st policies revs a) =
      {effective_entry p r d | p r d. governs revs {q \<in> set policies. mp_enabled q \<and> scope_targets st a (mp_scope q) (mp_scope_id q)} p r d \<and>
         ck_enabled d} \<and>
    distinct (map entry_key (resolve_effective_policy st policies revs a)) \<and>
    sorted (map entry_key (resolve_effective_policy st policies revs a))"
proof -
  define ps where "ps = sort_key policy_rank (applicable_policies st policies a)"
  have set: "set ps = {q \<in> set policies. mp_enabled q \<and> scope_targets st a (mp_scope q) (mp_scope_id q)}"
    by (auto simp: ps_def applicable_policies_def)
  have "distinct policies" "inj_on mp_id (set policies)" using assms(1) by (simp_all add: distinct_map)
  then have "distinct ps" "inj_on policy_rank (set ps)"
    unfolding set by (auto simp: ps_def applicable_policies_def inj_on_def policy_rank_def)
  then have rank: "distinct (map policy_rank ps)" by (simp add: distinct_map)
  have "sorted (map policy_rank ps)" by (simp add: ps_def)
  note merged = merged_policies [OF this rank assms(2)]
  then show ?thesis using resolved_keys [of st policies revs a]
    by (simp add: resolve_effective_policy_def set flip: ps_def)
qed

text \<open>An endpoint last seen at the epoch, and a policy of its site that overrides a global one.\<close>

definition silent_agent :: AgentRow where
  "silent_agent = Agent.extend agent1
     \<lparr>token_hash = [], credential_fingerprint = None, credential_issued_at = None, credential_expires_at = None,
      previous_token_hash = None, previous_token_expires_at = None, credential_generation = 1, last_rotation_nonce = None,
      last_renewed_at = None, ag_name = [], ag_hostname = [], ag_os_version = [], ag_environment = None, ag_labels = [],
      ag_owner_user_id = None, enrolled_by_token_id = None, ag_status = Agent_online, trust_state_reason = None,
      trust_state_changed_at = None, trust_state_changed_by = None, last_seen_at = Some 0, enrolled_at = 0\<rparr>"

definition silence_check :: CheckDefinition where
  "silence_check = \<lparr>ck_key = ''offline'', ck_type = Check_offline, ck_enabled = True, ck_interval_seconds = 60,
     ck_threshold = Some \<lparr>th_op = Op_gt, th_warning = None, th_critical = Some 300\<rparr>, ck_raise_samples = 1,
     ck_clear_samples = 1, ck_params = JNull\<rparr>"

lemma silent_agent_id [simp]: "ag_id silent_agent = ''agent1''" "ag_site_id silent_agent = ''site1''"
  by (simp_all add: silent_agent_def Agent.defs agent1_def)

lemma silence_check_fields [simp]: "ck_key silence_check = ''offline''" "ck_type silence_check = Check_offline"
  by (simp_all add: silence_check_def)

definition watched_fleet :: fleet where
  "watched_fleet = \<lparr>fl_db = db1, fl_site_name = (\<lambda>_. []), fl_agents = [silent_agent], fl_tokens = [], fl_downloads = [],
     fl_commands = [], fl_limiter = \<lparr>max_failures = 5, window_seconds = seconds 60, failures = Map.empty\<rparr>, fl_audit = []\<rparr>"

definition policy_at :: "string \<Rightarrow> MonitoringScope \<Rightarrow> string option \<Rightarrow> MonitoringPolicy" where
  "policy_at i scope scope_id = \<lparr>mp_id = i, mp_name = [], mp_scope = scope, mp_scope_id = scope_id, mp_enabled = True, mp_created_at = 0\<rparr>"

definition revision_of :: "string \<Rightarrow> CheckDefinition \<Rightarrow> MonitoringPolicyRevision" where
  "revision_of i d = \<lparr>mr_id = CHR ''v'' # i, mr_policy_id = i, mr_version = 1, mr_checks = [d]\<rparr>"

theorem effective_policy_most_specific_witness:
  "effective_entry (policy_at ''s'' Scope_site (Some ''site1'')) (revision_of ''s'' silence_check) silence_check \<in>
     set (resolve_effective_policy watched_fleet [policy_at ''s'' Scope_site (Some ''site1''), policy_at ''g'' Scope_global None]
       [revision_of ''g'' (silence_check\<lparr>ck_interval_seconds := 30\<rparr>), revision_of ''s'' silence_check] silent_agent)"
proof -
  let ?s = "policy_at ''s'' Scope_site (Some ''site1'')" and ?g = "policy_at ''g'' Scope_global None"
  let ?revs = "[revision_of ''g'' (silence_check\<lparr>ck_interval_seconds := 30\<rparr>), revision_of ''s'' silence_check]"
  have ids: "distinct (map mp_id [?s, ?g])" by (simp add: policy_at_def)
  have keys: "\<forall>r \<in> set ?revs. distinct (map ck_key (mr_checks r))" by (simp add: revision_of_def)
  have "governs ?revs {q \<in> set [?s, ?g]. mp_enabled q \<and> scope_targets watched_fleet silent_agent (mp_scope q) (mp_scope_id q)}
      ?s (revision_of ''s'' silence_check) silence_check"
  proof -
    have targets: "{q \<in> set [?s, ?g]. mp_enabled q \<and> scope_targets watched_fleet silent_agent (mp_scope q) (mp_scope_id q)} = {?s, ?g}"
      by (auto simp: policy_at_def scope_targets_def)
    show ?thesis
      unfolding targets governs_def
      by (auto simp: names_check_def policy_at_def revision_of_def current_revision_def policy_rank_def)
  qed
  moreover have "ck_enabled silence_check" by (simp add: silence_check_def)
  ultimately show ?thesis using effective_policy_most_specific [OF ids keys, of watched_fleet silent_agent] by auto
qed

section \<open>Hysteresis\<close>

text \<open>A run of samples from a settled status, each result read back as the previous one.\<close>

definition settle ::
  "CheckDefinition \<Rightarrow> CheckResultStatus \<Rightarrow> CheckResultStatus list \<Rightarrow> CheckResultStatus \<times> ustr option \<times> int" where
  "settle d c samples = foldl (\<lambda>previous raw. apply_hysteresis raw d (Some previous)) (c, None, 0) samples"

definition required_samples :: "CheckDefinition \<Rightarrow> CheckResultStatus \<Rightarrow> CheckResultStatus \<Rightarrow> nat" where
  "required_samples d c x = nat (if severity x > severity c then ck_raise_samples d else ck_clear_samples d)"

text \<open>The length of the run at the end of the samples.\<close>

definition trailing :: "CheckResultStatus list \<Rightarrow> CheckResultStatus \<Rightarrow> nat" where
  "trailing samples x = length (takeWhile (\<lambda>y. y = x) (rev samples))"

definition unbroken :: "CheckDefinition \<Rightarrow> CheckResultStatus \<Rightarrow> CheckResultStatus list \<Rightarrow> bool" where
  "unbroken d c samples \<longleftrightarrow> Result_unknown \<notin> set samples \<and>
     (\<forall>x. x \<noteq> c \<longrightarrow> \<not> sublist (replicate (required_samples d c x) x) samples)"

lemma trailing_snoc: "trailing (xs @ [y]) x = (if y = x then trailing xs x + 1 else 0)"
  by (simp add: trailing_def)

lemma trailing_suffix: "suffix (replicate (trailing xs x) x) xs"
proof -
  have "takeWhile (\<lambda>y. y = x) ys = replicate (length (takeWhile (\<lambda>y. y = x) ys)) x" for ys
    by (induction ys) auto
  then have "prefix (replicate (trailing xs x) x) (rev xs)"
    unfolding trailing_def by (metis takeWhile_is_prefix)
  then show ?thesis by (simp add: suffix_to_prefix)
qed

lemma suffix_trailing: "suffix (replicate n x) xs \<Longrightarrow> n \<le> trailing xs x"
proof (induction n arbitrary: xs)
  case (Suc n)
  then obtain ys where "xs = ys @ replicate (Suc n) x" by (auto simp: suffix_def)
  then have "xs = (ys @ replicate n x) @ [x]" by (simp add: replicate_append_same)
  then show ?case using Suc.IH [of "ys @ replicate n x"] trailing_snoc [of "ys @ replicate n x" x x]
    by (simp add: suffix_def)
qed simp

lemma status_value_inj [simp]: "ustr (result_status_value x) = ustr (result_status_value y) \<longleftrightarrow> x = y"
  by (cases x; cases y) (simp_all add: ustr_def)

text \<open>What is pending after samples that complete no run.\<close>

definition pending_state ::
  "CheckResultStatus \<Rightarrow> CheckResultStatus list \<Rightarrow> CheckResultStatus \<times> ustr option \<times> int" where
  "pending_state c samples =
     (if samples = [] \<or> last samples = c then (c, None, 0)
      else (c, Some (ustr (result_status_value (last samples))), int (trailing samples (last samples))))"

lemma trailing_last: "trailing samples x = (if samples = [] \<or> last samples \<noteq> x then 0 else trailing (butlast samples) x + 1)"
  by (cases samples rule: rev_cases) (simp_all add: trailing_def)

lemma settle_step:
  assumes "c \<noteq> Result_unknown" "x \<noteq> Result_unknown"
  shows "apply_hysteresis x d (Some (pending_state c samples)) =
    (if x = c then (c, None, 0)
     else if required_samples d c x \<le> trailing (samples @ [x]) x then (x, None, 0)
     else pending_state c (samples @ [x]))"
proof (cases "x = c")
  case False
  have count: "(if samples \<noteq> [] \<and> last samples \<noteq> c \<and> last samples = x then int (trailing samples (last samples)) + 1 else 1) =
      int (trailing (samples @ [x]) x)"
    using False trailing_last [of samples x] by (auto simp: trailing_snoc)
  have enough: "nat n \<le> m \<longleftrightarrow> n \<le> int m" for n m by linarith
  show ?thesis
    using False assms count by (auto simp: apply_hysteresis_def pending_state_def required_samples_def enough Let_def)
qed (use assms in \<open>simp add: apply_hysteresis_def pending_state_def\<close>)

lemma settle_unbroken:
  assumes "c \<noteq> Result_unknown" "unbroken d c samples"
  shows "settle d c samples = pending_state c samples"
  using assms(2)
proof (induction samples rule: rev_induct)
  case Nil
  then show ?case by (simp add: settle_def pending_state_def)
next
  case (snoc x samples)
  have "sublist samples (samples @ [x])" by auto
  then have "unbroken d c samples" using snoc.prems by (auto simp: unbroken_def dest: sublist_order.order_trans)
  note ih = snoc.IH [OF this]
  have short: "\<not> required_samples d c x \<le> trailing (samples @ [x]) x" if "x \<noteq> c"
  proof
    assume "required_samples d c x \<le> trailing (samples @ [x]) x"
    then have "suffix (replicate (required_samples d c x) x) (replicate (trailing (samples @ [x]) x) x)"
      unfolding suffix_def by (metis le_add_diff_inverse2 replicate_add)
    then have "sublist (replicate (required_samples d c x) x) (samples @ [x])"
      using trailing_suffix [of "samples @ [x]" x] by (meson suffix_imp_sublist suffix_order.order_trans)
    then show False using snoc.prems that by (simp add: unbroken_def)
  qed
  have "x \<noteq> Result_unknown" using snoc.prems by (auto simp: unbroken_def)
  from settle_step [OF assms(1) this, of d samples] short
  show ?case by (auto simp: settle_def pending_state_def ih [unfolded settle_def])
qed

text \<open>C39. Between samples that can be evaluated, a settled status changes exactly when the first run of
  samples of one other status reaches the number required for that change: it holds while no run is complete,
  and moves to the status of the run with the sample that completes it.\<close>

theorem hysteresis_switches:
  assumes "c \<noteq> Result_unknown" "unbroken d c samples"
  shows "fst (settle d c samples) = c \<and>
    (\<forall>x. x \<noteq> c \<and> x \<noteq> Result_unknown \<and> suffix (replicate (required_samples d c x) x) (samples @ [x]) \<longrightarrow>
      settle d c (samples @ [x]) = (x, None, 0))"
proof (intro conjI allI impI)
  note settled = settle_unbroken [OF assms]
  show "fst (settle d c samples) = c" by (simp add: settled pending_state_def)
  fix x assume x: "x \<noteq> c \<and> x \<noteq> Result_unknown \<and> suffix (replicate (required_samples d c x) x) (samples @ [x])"
  have "settle d c (samples @ [x]) = apply_hysteresis x d (Some (settle d c samples))" by (simp add: settle_def)
  moreover have "required_samples d c x \<le> trailing (samples @ [x]) x" using x suffix_trailing by blast
  ultimately show "settle d c (samples @ [x]) = (x, None, 0)"
    using settle_step [OF assms(1), of x] x by (simp add: settled)
qed

text \<open>Three failing samples in a row are required; a success in between starts the count again.\<close>

definition patient_check :: CheckDefinition where
  "patient_check = silence_check\<lparr>ck_raise_samples := 3, ck_clear_samples := 2\<rparr>"

theorem hysteresis_switches_witness:
  "settle patient_check Result_ok
     ([Result_critical, Result_critical, Result_ok, Result_critical, Result_critical] @ [Result_critical]) = (Result_critical, None, 0)"
proof -
  let ?xs = "[Result_critical, Result_critical, Result_ok, Result_critical, Result_critical]"
  have "\<not> sublist (replicate (required_samples patient_check Result_ok x) x) ?xs" if "x \<noteq> Result_ok" for x
    using that by (cases x) (auto simp: required_samples_def patient_check_def silence_check_def numeral_eq_Suc sublist_Cons_right)
  then have "unbroken patient_check Result_ok ?xs" by (simp add: unbroken_def)
  from hysteresis_switches [OF _ this] show ?thesis
    by (auto simp: required_samples_def patient_check_def silence_check_def numeral_eq_Suc suffix_def)
qed

end
