(* ===== verification/Alert_Safety.thy ===== *)
theory Alert_Safety
  imports Alert_Actions Monitoring_Correct
begin

text \<open>
  Alerts in every reachable state: one per endpoint, policy and check; its event history replays
  to its state, its version and its generation; every failing result counts once; and the last
  status is that of the newest result, in whatever order the results arrived.
\<close>

section \<open>What explains an alert\<close>

fun replay :: "AlertState \<Rightarrow> AlertEvent list \<Rightarrow> AlertState option" where
  "replay s [] = Some s"
| "replay s (e # es) =
     (if ev_from_state e = Some s then (case ev_to_state e of None \<Rightarrow> None | Some s' \<Rightarrow> replay s' es) else None)"

definition opens_alert :: "AlertEvent \<Rightarrow> bool" where
  "opens_alert e \<longleftrightarrow> ev_type e \<in> set [Event_opened, Event_reopened]"

definition failing :: "AlertObservation \<Rightarrow> bool" where
  "failing ob \<longleftrightarrow> ob_status ob \<noteq> Result_ok"

definition order_of :: "AlertObservation \<Rightarrow> instant \<times> string" where
  "order_of ob = (instant_of (ob_evaluated_at ob), ob_check_result_id ob)"

text \<open>The last evaluation of an alert is its newest observation.\<close>

definition newest_of :: "AlertObservation list \<Rightarrow> Alert \<Rightarrow> bool" where
  "newest_of obs a \<longleftrightarrow>
     (case (al_last_evaluated_at a, al_last_result_id a) of
        (Some t, Some i) \<Rightarrow> (\<forall>ob \<in> set obs. order_of ob \<le> (instant_of t, i)) \<and>
          (\<exists>ob \<in> set obs. order_of ob = (instant_of t, i) \<and> ob_status ob = al_last_result_status a)
      | (None, None) \<Rightarrow> obs = []
      | _ \<Rightarrow> False)"

definition explains :: "AlertEvent list \<Rightarrow> AlertObservation list \<Rightarrow> Alert \<Rightarrow> bool" where
  "explains evs obs a \<longleftrightarrow>
     replay Alert_resolved evs = Some (al_state a) \<and> al_version a = 1 + int (length evs) \<and>
     al_generation a = int (length (filter opens_alert evs)) \<and>
     al_total_occurrence_count a = int (length (filter failing obs)) \<and>
     0 \<le> al_occurrence_count a \<and> al_occurrence_count a \<le> al_total_occurrence_count a \<and>
     (al_state a \<noteq> Alert_resolved \<longrightarrow> 1 \<le> al_occurrence_count a \<and> al_opened_at a \<noteq> None) \<and>
     newest_of obs a"

definition events_of :: "monitor \<Rightarrow> string \<Rightarrow> AlertEvent list" where
  "events_of st i = filter (\<lambda>e. ev_alert_id e = i) (mo_events st)"

definition observations_of :: "monitor \<Rightarrow> string \<Rightarrow> AlertObservation list" where
  "observations_of st i = filter (\<lambda>ob. ob_alert_id ob = i) (mo_observations st)"

definition identity :: "Alert \<Rightarrow> string \<times> string \<times> string" where
  "identity a = (al_agent_id a, al_policy_id a, al_check_key a)"

definition alert_ids :: "monitor \<Rightarrow> string set" where
  "alert_ids st = al_id ` set (mo_alerts st)"

definition monitor_inv :: "monitor \<Rightarrow> bool" where
  "monitor_inv st \<longleftrightarrow>
     distinct (map al_id (mo_alerts st)) \<and> distinct (map identity (mo_alerts st)) \<and>
     distinct (map ob_check_result_id (mo_observations st)) \<and>
     ev_alert_id ` set (mo_events st) \<subseteq> alert_ids st \<and> ob_alert_id ` set (mo_observations st) \<subseteq> alert_ids st \<and>
     (\<forall>a \<in> set (mo_alerts st). explains (events_of st (al_id a)) (observations_of st (al_id a)) a)"

lemma replay_append: "replay s es = Some s' \<Longrightarrow> replay s (es @ es') = replay s' es'"
  by (induction s es rule: replay.induct) (auto split: if_splits option.splits)

lemma monitor_inv_cong:
  "mo_alerts st' = mo_alerts st \<Longrightarrow> mo_events st' = mo_events st \<Longrightarrow> mo_observations st' = mo_observations st \<Longrightarrow>
    monitor_inv st' = monitor_inv st"
  by (simp add: monitor_inv_def alert_ids_def events_of_def observations_of_def)

section \<open>Changing one alert\<close>

text \<open>An alert rewritten, with the events and observations added for it.\<close>

definition amend :: "Alert \<Rightarrow> AlertEvent list \<Rightarrow> AlertObservation list \<Rightarrow> monitor \<Rightarrow> monitor" where
  "amend a evs obs st = (put_alert a st)\<lparr>mo_events := mo_events st @ evs, mo_observations := mo_observations st @ obs\<rparr>"

lemma put_alert_set:
  assumes "distinct (map al_id (mo_alerts st))" "a \<in> set (mo_alerts st)" "al_id a' = al_id a"
  shows "set (mo_alerts (put_alert a' st)) = insert a' (set (mo_alerts st) - {a})"
    and "map al_id (mo_alerts (put_alert a' st)) = map al_id (mo_alerts st)"
    and "identity a' = identity a \<Longrightarrow> map identity (mo_alerts (put_alert a' st)) = map identity (mo_alerts st)"
proof -
  have only: "al_id q = al_id a \<longleftrightarrow> q = a" if "q \<in> set (mo_alerts st)" for q
    using assms(1,2) that by (auto simp: distinct_map inj_on_def)
  have upd: "mo_alerts (put_alert a' st) = map (\<lambda>q. if q = a then a' else q) (mo_alerts st)"
    unfolding put_alert_def db_update_def assms(3) using only by simp
  show "set (mo_alerts (put_alert a' st)) = insert a' (set (mo_alerts st) - {a})"
    unfolding upd using assms(2) by auto
  show "map al_id (mo_alerts (put_alert a' st)) = map al_id (mo_alerts st)"
    unfolding upd using assms(3) by simp
  show "identity a' = identity a \<Longrightarrow> map identity (mo_alerts (put_alert a' st)) = map identity (mo_alerts st)"
    unfolding upd by simp
qed

lemma amend_tables [simp]: "mo_alerts (amend a evs obs st) = mo_alerts (put_alert a st)"
  "mo_events (amend a evs obs st) = mo_events st @ evs" "mo_observations (amend a evs obs st) = mo_observations st @ obs"
  by (simp_all add: amend_def)

lemma amend_inv:
  assumes "monitor_inv st" "a \<in> set (mo_alerts st)" "al_id a' = al_id a" "identity a' = identity a"
    and "\<forall>e \<in> set evs. ev_alert_id e = al_id a" "\<forall>ob \<in> set obs. ob_alert_id ob = al_id a"
    and "distinct (map ob_check_result_id (mo_observations st @ obs))"
    and "explains (events_of st (al_id a) @ evs) (observations_of st (al_id a) @ obs) a'"
  shows "monitor_inv (amend a' evs obs st)" "alert_ids (amend a' evs obs st) = alert_ids st"
proof -
  note I = assms(1) [unfolded monitor_inv_def]
  have d: "distinct (map al_id (mo_alerts st))" using I by blast
  note put = put_alert_set [OF d assms(2,3)]
  have others: "al_id q \<noteq> al_id a" if "q \<in> set (mo_alerts st) - {a}" for q
    using d assms(2) that by (auto simp: distinct_map inj_on_def)
  show ids: "alert_ids (amend a' evs obs st) = alert_ids st"
    unfolding alert_ids_def amend_tables by (metis put(2) list.set_map)
  have "events_of (amend a' evs obs st) i = events_of st i @ (if i = al_id a then evs else [])"
    "observations_of (amend a' evs obs st) i = observations_of st i @ (if i = al_id a then obs else [])" for i
    using assms(5,6) by (auto simp: events_of_def observations_of_def filter_empty_conv filter_id_conv)
  then have "explains (events_of (amend a' evs obs st) (al_id q)) (observations_of (amend a' evs obs st) (al_id q)) q"
    if "q \<in> set (mo_alerts (amend a' evs obs st))" for q
    using that I assms(3,8) others unfolding amend_tables put(1) by auto
  moreover have "al_id a \<in> alert_ids st" using assms(2) by (simp add: alert_ids_def)
  ultimately show "monitor_inv (amend a' evs obs st)"
    using I assms(5-7) unfolding monitor_inv_def ids
    by (simp add: put(2) put(3) [OF assms(4)] image_Un image_subset_iff)
qed

lemma add_event_amend: "add_event e (put_alert a st) = amend a [e] [] st"
  by (simp add: add_event_def amend_def put_alert_def)

lemma explained: "monitor_inv st \<Longrightarrow> a \<in> set (mo_alerts st) \<Longrightarrow> explains (events_of st (al_id a)) (observations_of st (al_id a)) a"
  by (simp add: monitor_inv_def)

text \<open>An event that takes the alert from its state to the new one.\<close>

lemma explains_event:
  assumes "explains evs obs a" "ev_from_state e = Some (al_state a)" "ev_to_state e = Some (al_state a')"
    and "al_version a' = al_version a + 1" "al_generation a' = al_generation a + (if opens_alert e then 1 else 0)"
    and "al_total_occurrence_count a' = al_total_occurrence_count a" "al_occurrence_count a' = al_occurrence_count a"
    and "al_state a' \<noteq> Alert_resolved \<longrightarrow> al_state a \<noteq> Alert_resolved \<and> al_opened_at a' = al_opened_at a"
    and "al_last_evaluated_at a' = al_last_evaluated_at a" "al_last_result_id a' = al_last_result_id a"
      "al_last_result_status a' = al_last_result_status a"
  shows "explains (evs @ [e]) obs a'"
proof -
  have "replay Alert_resolved (evs @ [e]) = Some (al_state a')"
    using assms(1-3) replay_append [of Alert_resolved evs "al_state a" "[e]"] by (simp add: explains_def)
  moreover have "newest_of obs a'" using assms(1) unfolding explains_def newest_of_def assms(9-11) by blast
  ultimately show ?thesis using assms by (simp add: explains_def)
qed

lemma event_inv:
  assumes "monitor_inv st" "a \<in> set (mo_alerts st)" "al_id a' = al_id a" "identity a' = identity a"
    and "ev_alert_id e = al_id a" "explains (events_of st (al_id a) @ [e]) (observations_of st (al_id a)) a'"
  shows "monitor_inv (add_event e (put_alert a' st))" "alert_ids (add_event e (put_alert a' st)) = alert_ids st"
proof -
  have "distinct (map ob_check_result_id (mo_observations st @ []))" using assms(1) by (simp add: monitor_inv_def)
  from amend_inv [OF assms(1-4) _ _ this, of "[e]"] assms(5,6)
  show "monitor_inv (add_event e (put_alert a' st))" "alert_ids (add_event e (put_alert a' st)) = alert_ids st"
    unfolding add_event_amend by simp_all
qed

section \<open>Alerts resolved together\<close>

lemma closed_explained:
  assumes "explains evs obs a" "ev_from_state e = Some (al_state a)" "ev_to_state e = Some Alert_resolved" "\<not> opens_alert e"
  shows "explains (evs @ [e]) obs (closed_alert reason t now a)"
  using assms(3,4) by (intro explains_event [OF assms(1,2)]) (simp_all add: closed_alert_def)

lemma closed_fields [simp]: "al_id (closed_alert reason t now a) = al_id a" "identity (closed_alert reason t now a) = identity a"
  "al_state (closed_alert reason t now a) = Alert_resolved"
  by (simp_all add: closed_alert_def identity_def)

lemma resolve_fold:
  assumes "monitor_inv st" "set as \<subseteq> set (mo_alerts st)" "distinct as" "etype \<notin> set [Event_opened, Event_reopened]"
  shows "let st' = foldl (\<lambda>s a. add_event (system_event a etype (Some (al_state a)) (Some Alert_resolved) None tt)
        (put_alert (closed_alert reason t now a) s)) st as
    in monitor_inv st' \<and> alert_ids st' = alert_ids st"
  using assms
proof (induction as arbitrary: st)
  case Nil
  then show ?case by simp
next
  case (Cons a as)
  let ?e = "system_event a etype (Some (al_state a)) (Some Alert_resolved) None tt"
  let ?st = "add_event ?e (put_alert (closed_alert reason t now a) st)"
  have a: "a \<in> set (mo_alerts st)" using Cons.prems(2) by simp
  have e: "ev_alert_id ?e = al_id a" "explains (events_of st (al_id a) @ [?e]) (observations_of st (al_id a)) (closed_alert reason t now a)"
    using Cons.prems(4)
    by (auto intro!: closed_explained explained [OF Cons.prems(1) a] simp: system_event_def opens_alert_def)
  note inv = event_inv [OF Cons.prems(1) a closed_fields(1,2) e]
  have "distinct (map al_id (mo_alerts st))" using Cons.prems(1) by (simp add: monitor_inv_def)
  then have "set as \<subseteq> set (mo_alerts ?st)"
    using put_alert_set(1) [OF _ a closed_fields(1)] Cons.prems(2,3) by (auto simp: add_event_def)
  from Cons.IH [OF inv(1) this] Cons.prems(3,4) inv(2) show ?case by simp
qed

lemma resolve_alerts_inv:
  assumes "monitor_inv st" "etype \<notin> set [Event_opened, Event_reopened]"
  shows "monitor_inv (resolve_alerts P reason etype t now st)" "alert_ids (resolve_alerts P reason etype t now st) = alert_ids st"
proof -
  have "distinct (filter P (mo_alerts st))"
    using assms(1) by (auto simp: monitor_inv_def distinct_map)
  from resolve_fold [OF assms(1) _ this assms(2)]
  show "monitor_inv (resolve_alerts P reason etype t now st)" "alert_ids (resolve_alerts P reason etype t now st) = alert_ids st"
    unfolding resolve_alerts_def Let_def by auto
qed

section \<open>One observation\<close>

lemma newest_grows:
  assumes "newest_of obs a" "\<not> out_of_order a r" "al_last_evaluated_at a' = Some (Aware (instant_of (rt_evaluated_at r)))"
    "al_last_result_id a' = Some (rt_id r)" "al_last_result_status a' = rt_status r"
  shows "newest_of (obs @ [observation b r late]) a'"
proof -
  let ?k = "(instant_of (rt_evaluated_at r), rt_id r)"
  have "order_of ob \<le> ?k" if "ob \<in> set obs" for ob
  proof (cases "al_last_evaluated_at a"; cases "al_last_result_id a")
    fix t i assume "al_last_evaluated_at a = Some t" "al_last_result_id a = Some i"
    then have "order_of ob \<le> (instant_of t, i)" "\<not> ?k \<le> (instant_of t, i)"
      using assms(1,2) that by (simp_all add: newest_of_def out_of_order_def)
    then show ?thesis using order_trans linear by blast
  qed (use assms(1) that in \<open>simp_all add: newest_of_def\<close>)
  then show ?thesis unfolding newest_of_def assms(3-5) by (simp add: observation_def order_of_def)
qed

lemma newest_stays:
  assumes "newest_of obs a" "out_of_order a r" "al_last_evaluated_at a' = al_last_evaluated_at a"
    "al_last_result_id a' = al_last_result_id a" "al_last_result_status a' = al_last_result_status a"
  shows "newest_of (obs @ [observation b r late]) a'"
proof -
  obtain t i where k: "al_last_evaluated_at a = Some t" "al_last_result_id a = Some i"
    using assms(1,2) by (auto simp: newest_of_def out_of_order_def split: option.splits)
  then show ?thesis
    using assms(1,2) unfolding newest_of_def assms(3-5) by (auto simp: out_of_order_def observation_def order_of_def)
qed

lemma failing_observation [simp]: "failing (observation a r late) \<longleftrightarrow> rt_status r \<noteq> Result_ok"
  "ob_alert_id (observation a r late) = al_id a" "ob_check_result_id (observation a r late) = rt_id r"
  by (simp_all add: failing_def observation_def)

lemma late_fields [simp]: "al_state (late_alert r a) = al_state a" "al_version (late_alert r a) = al_version a"
  "al_generation (late_alert r a) = al_generation a" "al_opened_at (late_alert r a) = al_opened_at a"
  "al_total_occurrence_count (late_alert r a) = al_total_occurrence_count a + 1"
  "al_last_evaluated_at (late_alert r a) = al_last_evaluated_at a" "al_last_result_id (late_alert r a) = al_last_result_id a"
  "al_last_result_status (late_alert r a) = al_last_result_status a" "al_id (late_alert r a) = al_id a"
  "identity (late_alert r a) = identity a"
  by (simp_all add: late_alert_def identity_def Let_def split: option.splits)

lemma late_occurrence: "al_occurrence_count a \<le> al_occurrence_count (late_alert r a)"
  "al_occurrence_count (late_alert r a) \<le> al_occurrence_count a + 1"
  by (simp_all add: late_alert_def Let_def split: option.splits)

lemma late_explained:
  assumes "explains evs obs a" "out_of_order a r"
  shows "rt_status r \<noteq> Result_ok \<Longrightarrow> explains evs (obs @ [observation a r True]) (late_alert r a)"
    and "rt_status r = Result_ok \<Longrightarrow> explains evs (obs @ [observation a r True]) a"
proof -
  have newest: "newest_of obs a" using assms(1) by (simp add: explains_def)
  show "explains evs (obs @ [observation a r True]) (late_alert r a)" if "rt_status r \<noteq> Result_ok"
    using assms(1) that late_occurrence [where a = a and r = r] newest_stays [OF newest assms(2), of "late_alert r a"]
    by (auto simp: explains_def)
  show "explains evs (obs @ [observation a r True]) a" if "rt_status r = Result_ok"
    using assms(1) that newest_stays [OF newest assms(2), of a] by (simp add: explains_def)
qed

text \<open>The newest result: a success leaves or recovers the alert, a failure counts on or opens it.\<close>

lemma stay_explained:
  assumes "explains evs obs a" "\<not> out_of_order a r" "rt_status r = Result_ok" "al_state a = Alert_resolved"
  shows "explains evs (obs @ [observation a r False]) (unsuppressed (evaluated_alert now r revision_id a))"
  using assms newest_grows [OF _ assms(2), of obs "unsuppressed (evaluated_alert now r revision_id a)" a False]
  by (simp add: explains_def unsuppressed_def evaluated_alert_def)

lemma recovered_explained:
  assumes "explains evs obs a" "\<not> out_of_order a r" "rt_status r = Result_ok" "ev_from_state e = Some (al_state a)"
    "ev_to_state e = Some Alert_resolved" "\<not> opens_alert e"
  shows "explains (evs @ [e]) (obs @ [observation a r False]) (recovered_alert r (unsuppressed (evaluated_alert now r revision_id a)))"
  using assms replay_append [of Alert_resolved evs "al_state a" "[e]"]
    newest_grows [OF _ assms(2), of obs "recovered_alert r (unsuppressed (evaluated_alert now r revision_id a))" a False]
  by (simp add: explains_def unsuppressed_def evaluated_alert_def recovered_alert_def)

lemma suppressed_fields [simp]: "al_state (suppressed_by ws a) = al_state a" "al_version (suppressed_by ws a) = al_version a"
  "al_generation (suppressed_by ws a) = al_generation a" "al_opened_at (suppressed_by ws a) = al_opened_at a"
  "al_total_occurrence_count (suppressed_by ws a) = al_total_occurrence_count a"
  "al_occurrence_count (suppressed_by ws a) = al_occurrence_count a"
  "al_last_evaluated_at (suppressed_by ws a) = al_last_evaluated_at a" "al_last_result_id (suppressed_by ws a) = al_last_result_id a"
  "al_last_result_status (suppressed_by ws a) = al_last_result_status a" "al_id (suppressed_by ws a) = al_id a"
  "identity (suppressed_by ws a) = identity a"
  by (simp_all add: suppressed_by_def unsuppressed_def identity_def split: option.splits)

lemma counted_explained:
  assumes "explains evs obs a" "\<not> out_of_order a r" "rt_status r \<noteq> Result_ok" "al_state a \<noteq> Alert_resolved"
  shows "explains evs (obs @ [observation a r False]) (failing_alert r (suppressed_by ws (evaluated_alert now r revision_id a)))"
  using assms
    newest_grows [OF _ assms(2), of obs "failing_alert r (suppressed_by ws (evaluated_alert now r revision_id a))" a False]
  by (simp add: explains_def evaluated_alert_def failing_alert_def Let_def)

lemma opened_explained:
  assumes "explains evs obs a" "\<not> out_of_order a r" "rt_status r \<noteq> Result_ok" "al_state a = Alert_resolved"
    "ev_from_state e = Some Alert_resolved" "ev_to_state e = Some Alert_open" "opens_alert e"
  shows "explains (evs @ [e]) (obs @ [observation a r False]) (failing_alert r (suppressed_by ws (evaluated_alert now r revision_id a)))"
  using assms replay_append [of Alert_resolved evs "al_state a" "[e]"]
    newest_grows [OF _ assms(2), of obs "failing_alert r (suppressed_by ws (evaluated_alert now r revision_id a))" a False]
  by (simp add: explains_def evaluated_alert_def failing_alert_def Let_def)

section \<open>A result applied to its alert\<close>

lemma add_observation_amend:
  "put_alert a' (st\<lparr>mo_observations := mo_observations st @ [ob]\<rparr>) = amend a' [] [ob] st"
  "add_event e (amend a' evs obs st) = amend a' (evs @ [e]) obs st"
  by (simp_all add: amend_def put_alert_def add_event_def)

lemma put_same: "distinct (map al_id (mo_alerts st)) \<Longrightarrow> a \<in> set (mo_alerts st) \<Longrightarrow> mo_alerts (put_alert a st) = mo_alerts st"
  by (auto simp: put_alert_def db_update_def distinct_map inj_on_def intro!: map_idI)

lemma fresh_observation:
  assumes "monitor_inv st" "\<not> observed r st"
  shows "distinct (map ob_check_result_id (mo_observations st @ [observation a r late]))"
  using assms by (auto simp: monitor_inv_def observed_def list_ex_iff)

lemma success_fields [simp]: "al_state (unsuppressed (evaluated_alert now r revision_id a)) = al_state a"
  "al_id (unsuppressed a) = al_id a" "identity (unsuppressed a) = identity a" "al_id (recovered_alert r a) = al_id a"
  "identity (recovered_alert r a) = identity a" "al_id (evaluated_alert now r revision_id a) = al_id a"
  "identity (evaluated_alert now r revision_id a) = identity a" "al_id (failing_alert r a) = al_id a"
  "identity (failing_alert r a) = identity a"
  by (simp_all add: unsuppressed_def evaluated_alert_def recovered_alert_def failing_alert_def identity_def Let_def)

lemma newest_inv:
  assumes "monitor_inv st" "a \<in> set (mo_alerts st)" "\<not> observed r st" "\<not> out_of_order a r"
    and "apply_newest ZoneInfo now r revision_id a (st\<lparr>mo_observations := mo_observations st @ [observation a r False]\<rparr>) = Some st'"
  shows "monitor_inv st'" "alert_ids st' = alert_ids st"
proof -
  note D = fresh_observation [OF assms(1,3)]
  note E = explained [OF assms(1,2)]
  have found: "monitor_inv st' \<and> alert_ids st' = alert_ids st"
    if "st' = amend a' evs [observation a r False] st" "al_id a' = al_id a" "identity a' = identity a"
      "\<forall>e \<in> set evs. ev_alert_id e = al_id a"
      "explains (events_of st (al_id a) @ evs) (observations_of st (al_id a) @ [observation a r False]) a'" for a' evs
    using amend_inv [OF assms(1,2) that(2,3,4) _ _ that(5)] D that(1) by simp
  have "monitor_inv st' \<and> alert_ids st' = alert_ids st"
  proof (cases "rt_status r = Result_ok")
    case ok: True
    show ?thesis
    proof (cases "al_state a = Alert_resolved")
      case True
      have "st' = amend (unsuppressed (evaluated_alert now r revision_id a)) [] [observation a r False] st"
        using assms(5) ok True by (simp add: apply_newest_def Let_def add_observation_amend)
      then show ?thesis by (rule found) (simp_all add: stay_explained [OF E assms(4) ok True])
    next
      case False
      let ?a = "recovered_alert r (unsuppressed (evaluated_alert now r revision_id a))"
      let ?e = "system_event ?a Event_automatic_recovery (Some (al_state a)) (Some Alert_resolved) (Some (rt_id r))
        (instant_of (rt_evaluated_at r))"
      have e: "ev_from_state ?e = Some (al_state a)" "ev_to_state ?e = Some Alert_resolved" "\<not> opens_alert ?e"
        by (simp_all add: system_event_def opens_alert_def)
      have "st' = amend ?a [?e] [observation a r False] st"
        using assms(5) ok False by (simp add: apply_newest_def Let_def add_observation_amend)
      then show ?thesis
        by (rule found) (use recovered_explained [OF E assms(4) ok e] in \<open>simp_all add: system_event_def\<close>)
    qed
  next
    case bad: False
    then obtain agent where agent: "db_get ag_id (fl_agents (mo_fleet st)) (rt_agent_id r) = Some agent"
      using assms(5) by (auto simp: apply_newest_def Let_def split: option.splits)
    let ?ws = "active_maintenance_windows ZoneInfo (mo_fleet st) (mo_windows st) agent (instant_of (rt_evaluated_at r))"
    let ?a = "failing_alert r (suppressed_by ?ws (evaluated_alert now r revision_id a))"
    show ?thesis
    proof (cases "al_state a = Alert_resolved")
      case True
      let ?e = "system_event ?a (if al_generation a = 0 then Event_opened else Event_reopened)
                (Some Alert_resolved) (Some Alert_open) (Some (rt_id r)) (instant_of (rt_evaluated_at r))"
      have e: "ev_from_state ?e = Some Alert_resolved" "ev_to_state ?e = Some Alert_open" "opens_alert ?e"
        by (simp_all add: system_event_def opens_alert_def)
      have "st' = amend ?a [?e] [observation a r False] st"
        using assms(5) bad True agent by (simp add: apply_newest_def Let_def add_observation_amend)
      then show ?thesis
        by (rule found) (use opened_explained [OF E assms(4) bad True e] in \<open>simp_all add: system_event_def\<close>)
    next
      case False
      have "st' = amend ?a [] [observation a r False] st"
        using assms(5) bad False agent by (simp add: apply_newest_def Let_def add_observation_amend)
      then show ?thesis by (rule found) (simp_all add: counted_explained [OF E assms(4) bad False])
    qed
  qed
  then show "monitor_inv st'" "alert_ids st' = alert_ids st" by simp_all
qed

lemma shell_inv:
  assumes "monitor_inv st" "new_id \<notin> alert_ids st"
  shows "monitor_inv (ensure_alert_shell now new_id r policy_id revision_id st)"
    and "alert_ids (ensure_alert_shell now new_id r policy_id revision_id st) \<subseteq> insert new_id (alert_ids st)"
    and "mo_observations (ensure_alert_shell now new_id r policy_id revision_id st) = mo_observations st"
proof -
  let ?a = "alert_shell now new_id r policy_id revision_id"
  have [simp]: "al_id ?a = new_id" "identity ?a = (rt_agent_id r, policy_id, rt_check_key r)"
    by (simp_all add: alert_shell_def identity_def)
  note I = assms(1) [unfolded monitor_inv_def]
  have none: "events_of st new_id = []" "observations_of st new_id = []"
    using I assms(2) by (auto simp: events_of_def observations_of_def filter_empty_conv)
  have "monitor_inv (st\<lparr>mo_alerts := mo_alerts st @ [?a]\<rparr>)"
    if "\<not> list_ex (identity_of r policy_id) (mo_alerts st)"
  proof -
    have "identity ?a \<notin> set (map identity (mo_alerts st))"
      using that by (auto simp: identity_def identity_of_def list_ex_iff alert_shell_def)
    moreover have "new_id \<notin> set (map al_id (mo_alerts st))" using assms(2) by (simp add: alert_ids_def)
    moreover have "explains [] [] ?a" by (simp add: explains_def newest_of_def alert_shell_def)
    ultimately show ?thesis using I none unfolding monitor_inv_def
      by (auto simp: events_of_def observations_of_def alert_ids_def)
  qed
  then show "monitor_inv (ensure_alert_shell now new_id r policy_id revision_id st)"
    using assms(1) by (simp add: ensure_alert_shell_def)
  show "alert_ids (ensure_alert_shell now new_id r policy_id revision_id st) \<subseteq> insert new_id (alert_ids st)"
    by (auto simp: ensure_alert_shell_def alert_ids_def)
  show "mo_observations (ensure_alert_shell now new_id r policy_id revision_id st) = mo_observations st"
    by (simp add: ensure_alert_shell_def)
qed

lemma applied_inv:
  assumes "monitor_inv st" "new_id \<notin> alert_ids st" "apply_check_result_to_alert ZoneInfo now new_id r st = Some st'"
  shows "monitor_inv st' \<and> alert_ids st' \<subseteq> insert new_id (alert_ids st)"
proof (cases "rt_policy_id r"; cases "rt_policy_revision_id r")
  fix policy_id revision_id assume ids: "rt_policy_id r = Some policy_id" "rt_policy_revision_id r = Some revision_id"
  define st1 where "st1 = resolve_superseded_alerts now r st"
  define st2 where "st2 = (if rt_status r \<noteq> Result_ok then ensure_alert_shell now new_id r policy_id revision_id st1 else st1)"
  have one: "monitor_inv st1" "alert_ids st1 = alert_ids st"
    unfolding st1_def resolve_superseded_alerts_def by (simp_all add: resolve_alerts_inv [OF assms(1)])
  have two: "monitor_inv st2" "alert_ids st2 \<subseteq> insert new_id (alert_ids st)"
    using shell_inv [OF one(1), of new_id now r policy_id revision_id] one assms(2) by (auto simp: st2_def)
  show ?thesis
  proof (cases "find (identity_of r policy_id) (mo_alerts st2)")
    case None
    then show ?thesis using assms(3) two ids
      by (simp add: apply_check_result_to_alert_def Let_def flip: st1_def st2_def)
  next
    case (Some a)
    then have a: "a \<in> set (mo_alerts st2)" by (auto simp: find_Some_iff)
    have step: "(if observed r st2 then Some st2
       else if out_of_order a r
       then let st3 = st2\<lparr>mo_observations := mo_observations st2 @ [observation a r True]\<rparr> in
         Some (if rt_status r \<noteq> Result_ok then put_alert (late_alert r a) st3 else st3)
       else apply_newest ZoneInfo now r revision_id a (st2\<lparr>mo_observations := mo_observations st2 @ [observation a r False]\<rparr>)) = Some st'"
      using assms(3) ids Some by (simp add: apply_check_result_to_alert_def flip: st1_def st2_def)
    have late: "monitor_inv (amend a' [] [observation a r True] st2) \<and> alert_ids (amend a' [] [observation a r True] st2) = alert_ids st2"
      if "\<not> observed r st2" "al_id a' = al_id a" "identity a' = identity a"
        "explains (events_of st2 (al_id a)) (observations_of st2 (al_id a) @ [observation a r True]) a'" for a'
      using amend_inv [OF two(1) a that(2,3), of "[]" "[observation a r True]"] fresh_observation [OF two(1) that(1)] that(4) by simp
    have same: "st2\<lparr>mo_observations := mo_observations st2 @ [ob]\<rparr> = amend a [] [ob] st2" for ob
      using put_same [OF _ a] two(1) by (simp add: amend_def put_alert_def monitor_inv_def)
    note E = late_explained [OF explained [OF two(1) a]]
    consider "observed r st2" | "\<not> observed r st2" "out_of_order a r" | "\<not> observed r st2" "\<not> out_of_order a r" by blast
    then show ?thesis
    proof cases
      case 1
      then show ?thesis using step two by simp
    next
      case 2
      show ?thesis
      proof (cases "rt_status r = Result_ok")
        case True
        then have "st' = amend a [] [observation a r True] st2" using step 2 by (simp add: same)
        then show ?thesis using late [OF 2(1), of a] E(2) [OF 2(2) True] two(2) by simp
      next
        case False
        then have "st' = amend (late_alert r a) [] [observation a r True] st2"
          using step 2 by (simp add: add_observation_amend)
        then show ?thesis using late [OF 2(1), of "late_alert r a"] E(1) [OF 2(2) False] two(2) by simp
      qed
    next
      case 3
      then have "apply_newest ZoneInfo now r revision_id a (st2\<lparr>mo_observations := mo_observations st2 @ [observation a r False]\<rparr>) = Some st'"
        using step by simp
      from newest_inv [OF two(1) a 3 this] two(2) show ?thesis by simp
    qed
  qed
qed (use assms in \<open>auto simp: apply_check_result_to_alert_def\<close>)

lemma recorded_inv:
  assumes "monitor_inv st" "new_id \<notin> alert_ids st" "record_check_result ZoneInfo now new_id alert_on_unknown r st = Inr st'"
  shows "monitor_inv st' \<and> alert_ids st' \<subseteq> insert new_id (alert_ids st)"
proof -
  define s where "s = st\<lparr>mo_results := mo_results st @ [r]\<rparr>"
  have s: "monitor_inv s" "alert_ids s = alert_ids st"
    using monitor_inv_cong [of s st] assms(1) by (simp_all add: s_def alert_ids_def)
  have "st' = s \<or> apply_check_result_to_alert ZoneInfo now new_id r s = Some st'"
    using assms(3) by (auto simp: record_check_result_def s_def Let_def split: if_splits option.splits)
  then show ?thesis using s assms(2) applied_inv [OF s(1), of new_id ZoneInfo now r st'] by auto
qed

section \<open>Batches, offline checks, withdrawals, technicians\<close>

text \<open>Identifiers drawn for the alerts of one call: fresh, and one per result or check.\<close>

definition drawn :: "monitor \<Rightarrow> (string \<Rightarrow> string) \<Rightarrow> bool" where
  "drawn st fresh \<longleftrightarrow> inj fresh \<and> range fresh \<inter> alert_ids st = {}"

lemma ingest_result_inv:
  assumes "monitor_inv st" "fresh (in_id r) \<notin> alert_ids st"
    "ingest_result ZoneInfo effective a now fresh r st = Inr (st', new)"
  shows "monitor_inv st' \<and> alert_ids st' \<subseteq> insert (fresh (in_id r)) (alert_ids st)"
proof -
  have "st' = st \<or> record_check_result ZoneInfo now (fresh (in_id r)) True (agent_result a now r) st = Inr st'"
    using assms(3) unfolding ingest_result_def Let_def
    by (cases "record_check_result ZoneInfo now (fresh (in_id r)) True (agent_result a now r) st")
      (simp_all split: option.splits if_splits record_error.splits)
  then show ?thesis using assms(1) recorded_inv [OF assms(1,2)] by blast
qed

lemma fresh_rest:
  assumes "inj f" "k \<notin> K" "f ` insert k K \<inter> A = {}" "A' \<subseteq> insert (f k) A"
  shows "f ` K \<inter> A' = {}"
proof -
  have "f k \<notin> f ` K" using assms(1,2) by (simp add: inj_image_mem_iff)
  then have "f ` K \<inter> insert (f k) A = {}" using assms(3) by simp
  then show ?thesis using Int_mono [OF order_refl assms(4), of "f ` K"] by simp
qed

lemma ingest_inv:
  assumes "monitor_inv st" "inj fresh" "distinct (map in_id rs)" "fresh ` set (map in_id rs) \<inter> alert_ids st = {}"
    "ingest ZoneInfo effective a now fresh rs st = Inr (st', counts)"
  shows "monitor_inv st'"
  using assms
proof (induction rs arbitrary: st counts)
  case Nil
  then show ?case by simp
next
  case (Cons r rs)
  obtain s new c where one: "ingest_result ZoneInfo effective a now fresh r st = Inr (s, new)"
    and rest: "ingest ZoneInfo effective a now fresh rs s = Inr (st', c)"
    using Cons.prems(5) by (auto split: sum.splits prod.splits)
  have s: "monitor_inv s" "alert_ids s \<subseteq> insert (fresh (in_id r)) (alert_ids st)"
    using ingest_result_inv [OF Cons.prems(1) _ one] Cons.prems(4) by auto
  have "fresh ` set (map in_id rs) \<inter> alert_ids s = {}"
    using fresh_rest [OF Cons.prems(2) _ _ s(2)] Cons.prems(3,4) by simp
  from Cons.IH [OF s(1) Cons.prems(2) _ this rest] Cons.prems(3) show ?case by simp
qed

lemma submitted_inv:
  assumes "monitor_inv st" "drawn st fresh"
  shows "monitor_inv (fst (submit_monitoring_results ZoneInfo hash_token u st authorization results now fresh))"
proof -
  have "monitor_inv st'"
    if "batch_ok results" "ingest ZoneInfo (effective_checks st a) a now fresh results st = Inr (st', counts)" for a st' counts
    by (rule ingest_inv [OF assms(1) _ _ _ that(2)]) (use assms(2) that(1) in \<open>auto simp: drawn_def batch_ok_def\<close>)
  then show ?thesis using assms(1) by (auto simp: submit_monitoring_results_def split: sum.splits)
qed

lemma offline_check_inv:
  assumes "monitor_inv st" "fresh (ck_key (ef_definition e)) \<notin> alert_ids st"
    "evaluate_offline_check ZoneInfo total_seconds a t result_id fresh e st = Inr st'"
  shows "monitor_inv st' \<and> alert_ids st' \<subseteq> insert (fresh (ck_key (ef_definition e))) (alert_ids st)"
proof -
  have "st' = st \<or> (\<exists>r. record_check_result ZoneInfo t (fresh (ck_key (ef_definition e))) True r st = Inr st')"
    using assms(3) by (auto simp: evaluate_offline_check_def Let_def split: option.splits if_splits prod.splits)
  then show ?thesis using assms(1) recorded_inv [OF assms(1,2)] by blast
qed

lemma offline_checks_inv:
  assumes "monitor_inv st" "inj fresh" "distinct (map (ck_key \<circ> ef_definition) es)"
    "fresh ` (ck_key \<circ> ef_definition) ` set es \<inter> alert_ids st = {}"
    "evaluate_checks (evaluate_offline_check ZoneInfo total_seconds a t result_id fresh) es st = Inr st'"
  shows "monitor_inv st'"
  using assms
proof (induction es arbitrary: st)
  case Nil
  then show ?case by simp
next
  case (Cons e es)
  obtain s where one: "evaluate_offline_check ZoneInfo total_seconds a t result_id fresh e st = Inr s"
    and rest: "evaluate_checks (evaluate_offline_check ZoneInfo total_seconds a t result_id fresh) es s = Inr st'"
    using Cons.prems(5) by (auto split: sum.splits)
  have s: "monitor_inv s" "alert_ids s \<subseteq> insert (fresh (ck_key (ef_definition e))) (alert_ids st)"
    using offline_check_inv [OF Cons.prems(1) _ one] Cons.prems(4) by auto
  have "fresh ` (ck_key \<circ> ef_definition) ` set es \<inter> alert_ids s = {}"
    using fresh_rest [OF Cons.prems(2) _ _ s(2)] Cons.prems(3,4) by simp
  from Cons.IH [OF s(1) Cons.prems(2) _ this rest] Cons.prems(3) show ?case by simp
qed

lemma effective_keys: "distinct (map (ck_key \<circ> ef_definition) (effective_checks st a))"
  using resolved_keys by (simp add: effective_checks_def comp_def)

lemma offline_inv:
  assumes "monitor_inv st" "drawn st fresh" "evaluate_offline_checks ZoneInfo total_seconds st a t result_id fresh = Inr st'"
  shows "monitor_inv st'"
  by (rule offline_checks_inv [OF assms(1) _ effective_keys _ assms(3) [unfolded evaluate_offline_checks_def]])
    (use assms(2) in \<open>auto simp: drawn_def\<close>)

lemma withdrawn_inv: "monitor_inv st \<Longrightarrow> monitor_inv (resolve_policy_alerts policy_id keys reason now st)"
  unfolding resolve_policy_alerts_def by (rule resolve_alerts_inv) auto

lemma committed_inv:
  assumes "monitor_inv st" "a \<in> set (mo_alerts st)" "al_id a' = al_id a" "identity a' = identity a"
    "al_version a' = al_version a + 1" "al_generation a' = al_generation a" "etype \<notin> set [Event_opened, Event_reopened]"
    "al_total_occurrence_count a' = al_total_occurrence_count a" "al_occurrence_count a' = al_occurrence_count a"
    "al_state a' \<noteq> Alert_resolved \<longrightarrow> al_state a \<noteq> Alert_resolved \<and> al_opened_at a' = al_opened_at a"
    "al_last_evaluated_at a' = al_last_evaluated_at a" "al_last_result_id a' = al_last_result_id a"
    "al_last_result_status a' = al_last_result_status a" "from_state = al_state a"
  shows "monitor_inv (commit_action scrub action etype a' from_state body oper assignee detail now st)"
proof -
  let ?e = "operator_alert_event scrub a' etype oper body from_state assignee now"
  have e: "ev_alert_id ?e = al_id a" "ev_from_state ?e = Some (al_state a)" "ev_to_state ?e = Some (al_state a')" "\<not> opens_alert ?e"
    using assms(3,7,14) by (simp_all add: operator_alert_event_def opens_alert_def)
  have "explains (events_of st (al_id a) @ [?e]) (observations_of st (al_id a)) a'"
    by (rule explains_event [OF explained [OF assms(1,2)] e(2,3)]) (use e(4) assms in simp_all)
  from event_inv(1) [OF assms(1-4) e(1) this] show ?thesis
    unfolding commit_action_def Let_def by (subst monitor_inv_cong) simp_all
qed

lemma gate_found:
  assumes "alert_gate st alert_id commented body oper = Inr (a, again)"
  shows "a \<in> set (mo_alerts st)"
proof -
  have "db_get al_id (mo_alerts st) alert_id = Some a"
    using assms by (auto simp: alert_gate_def lock_alert_action_def split: sum.splits if_splits option.splits)
  then show ?thesis by (simp add: db_get_def find_Some_iff) (metis nth_mem)
qed

lemma gated:
  assumes "monitor_inv st" "\<And>a. a \<in> set (mo_alerts st) \<Longrightarrow> monitor_inv (fst (act a))"
  shows "monitor_inv (fst (case alert_gate st alert_id commented body oper of
      Inl e \<Rightarrow> (st, Inl e) | Inr (a, True) \<Rightarrow> (st, Inr ()) | Inr (a, False) \<Rightarrow> act a))"
  using assms gate_found by (auto split: sum.splits bool.splits)

lemma technician_inv:
  assumes "monitor_inv st"
  shows "monitor_inv (fst (acknowledge_monitoring_alert scrub st alert_id body oper now))"
    and "monitor_inv (fst (assign_monitoring_alert scrub st alert_id body assigned_to oper now))"
    and "monitor_inv (fst (comment_on_monitoring_alert scrub st alert_id body oper now))"
    and "monitor_inv (fst (resolve_monitoring_alert scrub st alert_id body oper now))"
proof -
  show "monitor_inv (fst (acknowledge_monitoring_alert scrub st alert_id body oper now))"
    unfolding acknowledge_monitoring_alert_def Let_def
    by (rule gated [OF assms], simp only: fst_conv split: if_splits)
      (auto intro!: assms committed_inv simp: identity_def)
  show "monitor_inv (fst (assign_monitoring_alert scrub st alert_id body assigned_to oper now))"
    unfolding assign_monitoring_alert_def Let_def
    by (rule gated [OF assms], simp only: fst_conv split: if_splits)
      (auto intro!: assms committed_inv simp: identity_def)
  show "monitor_inv (fst (comment_on_monitoring_alert scrub st alert_id body oper now))"
    unfolding comment_on_monitoring_alert_def Let_def
    by (rule gated [OF assms], simp only: fst_conv split: if_splits)
      (auto intro!: assms committed_inv simp: identity_def)
  show "monitor_inv (fst (resolve_monitoring_alert scrub st alert_id body oper now))"
    unfolding resolve_monitoring_alert_def Let_def
    by (rule gated [OF assms], simp only: fst_conv split: if_splits)
      (auto intro!: assms committed_inv simp: identity_def closed_alert_def)
qed

section \<open>Every reachable state\<close>

text \<open>
  Agents, the background pass, policy changes and technicians interleave; everything else may
  change the fleet, the policies, their revisions and the windows in any way. Retention, which
  deletes observations, is a separate operation.
\<close>

inductive monitor_step :: "monitor \<Rightarrow> monitor \<Rightarrow> bool" where
  submits: "drawn st fresh \<Longrightarrow>
    monitor_step st (fst (submit_monitoring_results ZoneInfo hash_token u st authorization results now fresh))"
| offline: "drawn st fresh \<Longrightarrow> evaluate_offline_checks ZoneInfo total_seconds st a t result_id fresh = Inr st' \<Longrightarrow>
    monitor_step st st'"
| withdraws: "monitor_step st (resolve_policy_alerts policy_id keys reason now st)"
| acknowledges: "monitor_step st (fst (acknowledge_monitoring_alert scrub st alert_id body oper now))"
| assigns: "monitor_step st (fst (assign_monitoring_alert scrub st alert_id body assigned_to oper now))"
| comments: "monitor_step st (fst (comment_on_monitoring_alert scrub st alert_id body oper now))"
| resolves: "monitor_step st (fst (resolve_monitoring_alert scrub st alert_id body oper now))"
| environment: "monitor_step st (st\<lparr>mo_fleet := fleet, mo_policies := policies, mo_revisions := revisions, mo_windows := windows\<rparr>)"

definition no_alerts :: "monitor \<Rightarrow> bool" where
  "no_alerts st \<longleftrightarrow> mo_alerts st = [] \<and> mo_events st = [] \<and> mo_observations st = []"

lemma alert_step_inv: "monitor_step st st' \<Longrightarrow> monitor_inv st \<Longrightarrow> monitor_inv st'"
proof (induction rule: monitor_step.induct)
  case (environment st fleet policies revisions windows)
  then show ?case by (subst monitor_inv_cong) simp_all
qed (simp_all add: submitted_inv offline_inv withdrawn_inv technician_inv)

lemma alert_reachable_inv:
  assumes "monitor_step\<^sup>*\<^sup>* st st'" "no_alerts st"
  shows "monitor_inv st'"
  using assms
proof (induction rule: rtranclp_induct)
  case base
  then show ?case by (simp add: monitor_inv_def no_alerts_def alert_ids_def)
next
  case (step y z)
  then show ?case using alert_step_inv by blast
qed

text \<open>C15. In every reachable state each alert is explained by its history: its events replay from resolved to
  its state, its version counts them, its generation counts the openings, its total counts the failing results
  attributed to it, its last status is that of the newest result, and no other alert has its endpoint, policy and
  check.\<close>

theorem alert_history_explains:
  assumes "monitor_step\<^sup>*\<^sup>* st0 st" "no_alerts st0" "a \<in> set (mo_alerts st)"
  shows "explains (events_of st (al_id a)) (observations_of st (al_id a)) a \<and>
    (\<forall>b \<in> set (mo_alerts st). identity b = identity a \<longrightarrow> b = a)"
proof -
  have inv: "monitor_inv st" by (rule alert_reachable_inv [OF assms(1,2)])
  then have "distinct (map identity (mo_alerts st))" by (simp add: monitor_inv_def)
  then show ?thesis using explained [OF inv assms(3)] assms(3) by (auto simp: distinct_map inj_on_def)
qed

text \<open>An endpoint silent for 400 seconds, against a bound of 300, and a technician who acknowledges the alert.\<close>

definition watched :: monitor where
  "watched = \<lparr>mo_fleet = watched_fleet,
     mo_policies = [\<lparr>mp_id = ''p'', mp_name = [], mp_scope = Scope_global, mp_scope_id = None, mp_enabled = True, mp_created_at = 0\<rparr>],
     mo_revisions = [\<lparr>mr_id = ''v'', mr_policy_id = ''p'', mr_version = 1, mr_checks = [silence_check]\<rparr>],
     mo_windows = [], mo_results = [], mo_alerts = [], mo_events = [], mo_observations = []\<rparr>"

definition noticed_silence :: "record_error + monitor" where
  "noticed_silence = evaluate_offline_checks (\<lambda>_. None) (\<lambda>d. of_int d / 1000000) watched silent_agent (seconds 400)
     (\<lambda>k. CHR ''r'' # k) (\<lambda>k. CHR ''x'' # k)"

lemma watched_effective: "effective_checks watched silent_agent =
    [\<lparr>ef_definition = silence_check, ef_source_scope = Scope_global, ef_source_policy_id = ''p'', ef_source_revision_id = ''v''\<rparr>]"
  by (simp add: effective_checks_def resolve_effective_policy_def applicable_policies_def scope_targets_def watched_def
      merge_policy_def current_revision_def merge_check_def pop_check_def silence_check_def)

definition silence_result :: CheckResult where
  "silence_result = \<lparr>rt_id = ''roffline'', rt_agent_id = ''agent1'', rt_policy_id = Some ''p'', rt_policy_revision_id = Some ''v'',
     rt_check_key = ''offline'', rt_status = Result_critical, rt_value = Some 400,
     rt_detail = Some (offline_detail ''heartbeat_overdue'' Result_critical None 0), rt_evaluated_at = Aware (seconds 400),
     rt_received_at = seconds 400\<rparr>"

lemma silence_classified: "apply_hysteresis Result_critical silence_check None = (Result_critical, None, 0)"
  by (simp add: apply_hysteresis_def silence_check_def)

lemma silence_sample: "offline_sample (\<lambda>d. of_int d / 1000000) silent_agent silence_check (seconds 400) =
    Some (Some 400, Result_critical, ''heartbeat_overdue'')"
  by (simp add: offline_sample_def silent_agent_def silence_check_def classify_numeric_def breached_def seconds_def Agent.defs)

lemma watched_tables [simp]: "mo_results watched = []" "mo_alerts watched = []" "mo_events watched = []" "mo_observations watched = []"
  "mo_windows watched = []" "fl_agents (mo_fleet watched) = [silent_agent]" "fl_db (mo_fleet watched) = db1"
  by (simp_all add: watched_def watched_fleet_def)

lemma noticed_silence_record:
  "noticed_silence = record_check_result (\<lambda>_. None) (seconds 400) ''xoffline'' True silence_result watched"
  unfolding noticed_silence_def evaluate_offline_checks_def watched_effective
  by (simp add: evaluate_offline_check_def newest_result_def due_def silence_sample silence_classified silence_result_def
      split: sum.splits)

lemma silence_detail_text:
  "(\<forall>c \<in> set (dumps esc_plain (offline_detail ''heartbeat_overdue'' Result_critical None 0)). c < 128) \<and>
    length (dumps esc_plain (offline_detail ''heartbeat_overdue'' Result_critical None 0)) \<le> 1000"
  by (simp add: offline_detail_def dumps_def jstr_def jopt_def ustr_def esc_plain_def short_escape_def quote_def int_repr_def
      digits10.simps)

lemma silence_detail_ok: "detail_ok (Some (offline_detail ''heartbeat_overdue'' Result_critical None 0))"
proof -
  have "\<exists>kvs. offline_detail ''heartbeat_overdue'' Result_critical None 0 = JObj kvs" by (simp add: offline_detail_def)
  then show ?thesis
    using silence_detail_text encode_utf8_ascii [OF conjunct1 [OF silence_detail_text]]
    by (auto simp: detail_ok_def MAX_CHECK_RESULT_DETAIL_BYTES_def)
qed

lemma noticed_silence: "\<exists>st a. noticed_silence = Inr st \<and> mo_alerts st = [a] \<and> al_id a = ''xoffline'' \<and> al_state a = Alert_open \<and>
    al_version a = 2 \<and> al_agent_id a = ''agent1'' \<and> mo_fleet st = mo_fleet watched \<and>
    (\<forall>e \<in> set (mo_events st). ev_request_id e = None)"
  by (simp add: noticed_silence_record record_check_result_def silence_detail_ok check_key_ok_def check_key_char_def
    apply_check_result_to_alert_def resolve_superseded_alerts_def resolve_alerts_def ensure_alert_shell_def Let_def
    silence_result_def alert_shell_def identity_of_def observed_def out_of_order_def apply_newest_def db_get_def evaluated_alert_def
    active_maintenance_windows_def suppressed_by_def unsuppressed_def failing_alert_def put_alert_def db_update_def add_event_def
    system_event_def)

definition acknowledgement :: AlertAction where
  "acknowledgement = \<lparr>aa_request_id = ''0123456789abcdef'', aa_expected_version = 2, aa_comment = None\<rparr>"

theorem alert_history_explains_witness:
  "\<exists>st a. monitor_step\<^sup>*\<^sup>* watched st \<and> al_state a = Alert_acknowledged \<and>
     explains (events_of st (al_id a)) (observations_of st (al_id a)) a"
proof -
  obtain st a where st: "noticed_silence = Inr st" "mo_alerts st = [a]" "al_id a = ''xoffline''" "al_state a = Alert_open"
    "al_version a = 2" "al_agent_id a = ''agent1''" "mo_fleet st = mo_fleet watched" "\<forall>e \<in> set (mo_events st). ev_request_id e = None"
    using noticed_silence by blast
  have "drawn watched (\<lambda>k. CHR ''x'' # k)" by (simp add: drawn_def alert_ids_def inj_def)
  from offline [OF this st(1) [unfolded noticed_silence_def]] have one: "monitor_step watched st" .
  let ?st = "fst (acknowledge_monitoring_alert id st ''xoffline'' acknowledgement root (seconds 500))"
  have gate: "alert_gate st ''xoffline'' False acknowledgement root = Inr (a, False)"
    using st(2-8) by (simp add: alert_gate_def require_role_def root_def op0_def action_ok_def acknowledgement_def request_id_char_def
        lock_alert_action_def db_get_def assert_alert_visible_def assert_agent_visible_def assert_client_action_def
        ascii_digit_def list_ex_iff)
  have "\<exists>b. mo_alerts ?st = [b] \<and> al_state b = Alert_acknowledged"
    using st(2-4) by (simp add: acknowledge_monitoring_alert_def gate commit_action_def put_alert_def db_update_def add_event_def Let_def)
  then obtain b where b: "b \<in> set (mo_alerts ?st)" "al_state b = Alert_acknowledged" by auto
  have two: "monitor_step\<^sup>*\<^sup>* watched ?st" by (rule rtranclp.rtrancl_into_rtrancl [OF r_into_rtranclp [of monitor_step, OF one] acknowledges])
  have "no_alerts watched" by (simp add: no_alerts_def)
  from alert_history_explains [OF two this b(1)] two b(2) show ?thesis by blast
qed

end
