(* ===== verification/Inventory.thy ===== *)
theory Inventory
  imports Command_Delivery Json_Inj
begin

text \<open>
  Inventory snapshots (\<open>server/app/core/inventory.py\<close>): the canonical bytes and hash of a section
  (\<open>server/app/schemas/inventory.py\<close>), which sections a heartbeat asks for, storage that keeps a row
  per change, the endpoint that receives a report (\<open>server/app/api/agents.py\<close>) and the pruning of
  history (\<open>server/app/core/retention.py\<close>). The field models of the thirteen sections are an
  argument, the names of the fields they reject; so are SHA-256 and fresh identifiers.
\<close>

section \<open>Canonical bytes\<close>

text \<open>Floats are laid out as Go prints them, from the shortest digits that \<open>repr\<close> gives.\<close>

definition place_point :: "ustr \<Rightarrow> int \<Rightarrow> ustr" where
  "place_point digits e =
     (if e < 0 then ustr ''0.'' @ replicate (nat (- e - 1)) 48 @ digits
      else let k = nat e + 1 in
        if length digits \<le> k then digits @ replicate (k - length digits) 48
        else take k digits @ 46 # drop k digits)"

definition rstrip_char :: "nat \<Rightarrow> ustr \<Rightarrow> ustr" where
  "rstrip_char c s = rev (dropWhile (\<lambda>d. d = c) (rev s))"

definition drop_fraction_zeros :: "ustr \<Rightarrow> ustr" where
  "drop_fraction_zeros text = (if 46 \<in> set text then rstrip_char 46 (rstrip_char 48 text) else text)"

definition exponent_value :: "ustr \<Rightarrow> int" where
  "exponent_value x =
     (case x of [] \<Rightarrow> 0
      | c # ds \<Rightarrow> if c = 45 then - int (parse_digits ds) else if c = 43 then int (parse_digits ds) else int (parse_digits x))"

definition short_exponent :: "ustr \<Rightarrow> ustr" where
  "short_exponent x = (case x of [s, z, d] \<Rightarrow> if s = 45 \<and> z = 48 then [s, d] else x | _ \<Rightarrow> x)"

definition go_magnitude :: "ustr \<Rightarrow> ustr" where
  "go_magnitude r =
     (if 101 \<in> set r
      then case partition_at 101 r of (mantissa, exponent) \<Rightarrow>
        let e = exponent_value exponent in
        if -6 \<le> e \<and> e < 21 then drop_fraction_zeros (place_point (filter (\<lambda>c. c \<noteq> 46) mantissa) e)
        else mantissa @ 101 # short_exponent exponent
      else drop_fraction_zeros r)"

definition go_float :: "ustr \<Rightarrow> ustr option" where
  "go_float r =
     (if \<not> float_repr r then None
      else if hd r = 45 then Some (45 # go_magnitude (tl r)) else Some (go_magnitude r))"

fun go_value :: "json \<Rightarrow> json option" where
  "go_value (JFloat r) = map_option JFloat (go_float r)"
| "go_value (JArr xs) = map_option JArr (those (map go_value xs))"
| "go_value (JObj kvs) = map_option JObj (those (map (\<lambda>kv. map_option (Pair (fst kv)) (go_value (snd kv))) kvs))"
| "go_value j = Some j"

definition esc_go :: "nat \<Rightarrow> ustr" where
  "esc_go c = (if c \<in> {60, 62, 38, 8232, 8233} then [92, 117] @ hex4 c else esc_plain c)"

definition go_json :: "json \<Rightarrow> ustr option" where
  "go_json j = map_option (dumps esc_go) (go_value j)"

definition canonical_inventory_bytes :: "json \<Rightarrow> nat list option" where
  "canonical_inventory_bytes payload = Option.bind (go_json payload) encode_utf8"

definition inventory_content_hash :: "(nat list \<Rightarrow> string) \<Rightarrow> json \<Rightarrow> string option" where
  "inventory_content_hash sha256hex payload = map_option sha256hex (canonical_inventory_bytes payload)"

section \<open>Sections and snapshots\<close>

datatype InventorySection =
    Inv_system | Inv_cpu | Inv_memory | Inv_storage | Inv_network | Inv_installed_software | Inv_security_defender
  | Inv_security_bitlocker | Inv_security_secure_boot | Inv_security_tpm | Inv_local_administrators
  | Inv_windows_updates | Inv_installed_packages

definition inventory_sections :: "InventorySection list" where
  "inventory_sections =
     [Inv_system, Inv_cpu, Inv_memory, Inv_storage, Inv_network, Inv_installed_software, Inv_security_defender,
      Inv_security_bitlocker, Inv_security_secure_boot, Inv_security_tpm, Inv_local_administrators,
      Inv_windows_updates, Inv_installed_packages]"

fun inventory_section_value :: "InventorySection \<Rightarrow> string" where
  "inventory_section_value Inv_system = ''system''"
| "inventory_section_value Inv_cpu = ''cpu''"
| "inventory_section_value Inv_memory = ''memory''"
| "inventory_section_value Inv_storage = ''storage''"
| "inventory_section_value Inv_network = ''network''"
| "inventory_section_value Inv_installed_software = ''installed_software''"
| "inventory_section_value Inv_security_defender = ''security_defender''"
| "inventory_section_value Inv_security_bitlocker = ''security_bitlocker''"
| "inventory_section_value Inv_security_secure_boot = ''security_secure_boot''"
| "inventory_section_value Inv_security_tpm = ''security_tpm''"
| "inventory_section_value Inv_local_administrators = ''local_administrators''"
| "inventory_section_value Inv_windows_updates = ''windows_updates''"
| "inventory_section_value Inv_installed_packages = ''installed_packages''"

datatype InventorySectionStatus = Section_ok | Section_partial | Section_unavailable | Section_unsupported | Section_permission_denied

record AgentInventorySnapshot =
  sn_id :: string
  sn_agent_id :: string
  sn_section :: InventorySection
  sn_status :: InventorySectionStatus
  sn_schema_version :: int
  sn_content_hash :: string
  sn_byte_size :: nat
  sn_payload :: json
  sn_collected_at :: instant
  sn_received_at :: datetime

definition section_rows :: "AgentInventorySnapshot rows \<Rightarrow> string \<Rightarrow> InventorySection \<Rightarrow> AgentInventorySnapshot list" where
  "section_rows snapshots agent_id section = filter (\<lambda>r. sn_agent_id r = agent_id \<and> sn_section r = section) snapshots"

text \<open>The newest row by arrival; of rows that arrived together, the greatest identifier.\<close>

definition later_id :: "AgentInventorySnapshot option \<Rightarrow> AgentInventorySnapshot \<Rightarrow> AgentInventorySnapshot option" where
  "later_id current r = (case current of None \<Rightarrow> Some r | Some c \<Rightarrow> if sn_id r > sn_id c then Some r else Some c)"

definition newest_received :: "AgentInventorySnapshot list \<Rightarrow> AgentInventorySnapshot list" where
  "newest_received rs = filter (\<lambda>r. list_all (\<lambda>q. instant_of (sn_received_at q) \<le> instant_of (sn_received_at r)) rs) rs"

definition latest_section :: "AgentInventorySnapshot rows \<Rightarrow> string \<Rightarrow> InventorySection \<Rightarrow> AgentInventorySnapshot option" where
  "latest_section snapshots agent_id section = foldl later_id None (newest_received (section_rows snapshots agent_id section))"

section \<open>Negotiation and storage\<close>

definition INVENTORY_REFRESH_INTERVAL :: int where "INVENTORY_REFRESH_INTERVAL = 24 * 3600"

definition wants_section :: "AgentInventorySnapshot option \<Rightarrow> string option \<Rightarrow> instant \<Rightarrow> bool" where
  "wants_section current advertised_hash now \<longleftrightarrow>
     (case advertised_hash of
        None \<Rightarrow> False
      | Some h \<Rightarrow>
          (case current of
             None \<Rightarrow> True
           | Some c \<Rightarrow> sn_content_hash c \<noteq> h \<or>
               seconds INVENTORY_REFRESH_INTERVAL \<le> now - instant_of (sn_received_at c)))"

definition sections_to_request ::
  "(InventorySection \<Rightarrow> AgentInventorySnapshot option) \<Rightarrow> (string \<Rightarrow> string option) \<Rightarrow> instant \<Rightarrow> InventorySection list" where
  "sections_to_request stored advertised now =
     filter (\<lambda>s. wants_section (stored s) (advertised (inventory_section_value s)) now) inventory_sections"

definition unchanged :: "AgentInventorySnapshot option \<Rightarrow> AgentInventorySnapshot \<Rightarrow> bool" where
  "unchanged stored r \<longleftrightarrow>
     (case stored of
        None \<Rightarrow> False
      | Some c \<Rightarrow> sn_content_hash c = sn_content_hash r \<and> sn_status c = sn_status r \<and>
          sn_schema_version c = sn_schema_version r)"

text \<open>The row is given with its identifier and time of arrival.\<close>

definition store_section :: "AgentInventorySnapshot \<Rightarrow> AgentInventorySnapshot rows \<Rightarrow> AgentInventorySnapshot rows \<times> bool" where
  "store_section r snapshots =
     (if unchanged (latest_section snapshots (sn_agent_id r) (sn_section r)) r then (snapshots, False)
      else (snapshots @ [r], True))"

section \<open>The report of an agent\<close>

record InventorySectionIn =
  si_section :: InventorySection
  si_status :: InventorySectionStatus
  si_collected_at :: datetime
  si_payload :: json

definition INVENTORY_SCHEMA_VERSION :: int where "INVENTORY_SCHEMA_VERSION = 1"

definition MAX_INVENTORY_SECTION_BYTES :: nat where "MAX_INVENTORY_SECTION_BYTES = 256 * 1024"

definition section_in_ok :: "InventorySectionIn \<Rightarrow> bool" where
  "section_in_ok e \<longleftrightarrow> aware (Some (si_collected_at e)) \<and> (case si_payload e of JObj _ \<Rightarrow> True | _ \<Rightarrow> False) \<and>
     (case canonical_inventory_bytes (si_payload e) of None \<Rightarrow> False | Some b \<Rightarrow> length b \<le> MAX_INVENTORY_SECTION_BYTES)"

definition submission_ok :: "InventorySectionIn list \<Rightarrow> bool" where
  "submission_ok entries \<longleftrightarrow> 1 \<le> length entries \<and> length entries \<le> 13 \<and> list_all section_in_ok entries \<and>
     distinct (map si_section entries)"

definition byte_size_of :: "InventorySectionIn \<Rightarrow> nat" where
  "byte_size_of e = (case canonical_inventory_bytes (si_payload e) of None \<Rightarrow> 0 | Some b \<Rightarrow> length b)"

definition snapshot_of ::
  "(nat list \<Rightarrow> string) \<Rightarrow> (InventorySection \<Rightarrow> string) \<Rightarrow> string \<Rightarrow> instant \<Rightarrow> InventorySectionIn \<Rightarrow> AgentInventorySnapshot" where
  "snapshot_of sha256hex fresh agent_id now e =
     \<lparr>sn_id = fresh (si_section e), sn_agent_id = agent_id, sn_section = si_section e, sn_status = si_status e,
      sn_schema_version = INVENTORY_SCHEMA_VERSION,
      sn_content_hash = (case inventory_content_hash sha256hex (si_payload e) of None \<Rightarrow> [] | Some h \<Rightarrow> h),
      sn_byte_size = byte_size_of e, sn_payload = si_payload e, sn_collected_at = instant_of (si_collected_at e),
      sn_received_at = Aware now\<rparr>"

fun store_all :: "AgentInventorySnapshot list \<Rightarrow> AgentInventorySnapshot rows \<Rightarrow> AgentInventorySnapshot rows \<times> string list \<times> string list" where
  "store_all [] snapshots = (snapshots, [], [])"
| "store_all (r # rs) snapshots =
     (case store_section r snapshots of (s, new) \<Rightarrow>
        (case store_all rs s of (s', stored, same) \<Rightarrow>
           let name = inventory_section_value (sn_section r) in
           (s', if new then name # stored else stored, if new then same else name # same)))"

definition rejected_detail :: "string \<Rightarrow> InventorySectionIn option \<Rightarrow> ustr list \<Rightarrow> json" where
  "rejected_detail reason e names =
     JObj [(ustr ''reason'', jstr reason), (ustr ''section'', jopt (\<lambda>e. jstr (inventory_section_value (si_section e))) e),
       (ustr ''byte_size'', jopt (\<lambda>e. JInt (int (byte_size_of e))) e), (ustr ''fields'', JArr (map JStr names))]"

definition received_detail :: "string list \<Rightarrow> string list \<Rightarrow> nat \<Rightarrow> json" where
  "received_detail stored same bytes =
     JObj [(ustr ''stored_sections'', JArr (map jstr (sort stored))), (ustr ''unchanged_sections'', JArr (map jstr (sort same))),
       (ustr ''schema_version'', JInt INVENTORY_SCHEMA_VERSION), (ustr ''total_bytes'', JInt (int bytes))]"

definition first_rejected ::
  "(InventorySection \<Rightarrow> json \<Rightarrow> ustr list) \<Rightarrow> InventorySectionIn list \<Rightarrow> InventorySectionIn option" where
  "first_rejected field_errors entries = find (\<lambda>e. field_errors (si_section e) (si_payload e) \<noteq> []) entries"

record inventory_db =
  iv_fleet :: fleet
  iv_snapshots :: "AgentInventorySnapshot rows"

definition audit_inventory :: "string \<Rightarrow> AgentRow \<Rightarrow> string option \<Rightarrow> json \<Rightarrow> inventory_db \<Rightarrow> inventory_db" where
  "audit_inventory action a org detail st =
     st\<lparr>iv_fleet := fleet_audit action (agent_actor a) None (Some (ag_id a)) org detail (iv_fleet st)\<rparr>"

definition submit_inventory ::
  "(nat list \<Rightarrow> string) \<Rightarrow> (ustr \<Rightarrow> string) \<Rightarrow> unicode \<Rightarrow> (InventorySection \<Rightarrow> json \<Rightarrow> ustr list) \<Rightarrow> inventory_db \<Rightarrow>
   ustr option \<Rightarrow> InventorySectionIn list \<Rightarrow> instant \<Rightarrow> (InventorySection \<Rightarrow> string) \<Rightarrow>
   inventory_db \<times> (string list \<times> string list) http" where
  "submit_inventory sha256hex hash_token u field_errors st authorization entries now fresh =
     (case get_current_agent hash_token u (iv_fleet st) authorization now of
        Inl e \<Rightarrow> (st, Inl e)
      | Inr (a, matched) \<Rightarrow>
          if \<not> submission_ok entries then (st, Inl (HTTPException 422 ''validation_error''))
          else if trust_state a \<noteq> Trust_active
          then (audit_inventory ''inventory.rejected'' a None (rejected_detail ''agent_not_active'' None []) st,
                Inl (HTTPException 403 ''agent_quarantined''))
          else case first_rejected field_errors entries of
              Some e \<Rightarrow>
                (audit_inventory ''inventory.rejected'' a None
                   (rejected_detail ''section_schema_invalid'' (Some e) (field_errors (si_section e) (si_payload e))) st,
                 Inl (HTTPException 422 ''inventory_section_invalid''))
            | None \<Rightarrow>
                (case store_all (map (snapshot_of sha256hex fresh (ag_id a) now) entries) (iv_snapshots st) of (rows, stored, same) \<Rightarrow>
                   (audit_inventory ''inventory.received'' a (organization_id (iv_fleet st) a)
                      (received_detail stored same (sum_list (map byte_size_of entries))) (st\<lparr>iv_snapshots := rows\<rparr>),
                    Inr (sort stored, sort same))))"

section \<open>History\<close>

definition kept_snapshots :: "nat \<Rightarrow> AgentInventorySnapshot rows \<Rightarrow> string \<Rightarrow> InventorySection \<Rightarrow> string list" where
  "kept_snapshots keep snapshots agent_id section =
     map sn_id (take keep (rev (sort_key (\<lambda>r. (instant_of (sn_received_at r), sn_id r)) (section_rows snapshots agent_id section))))"

definition prune_inventory_history :: "nat \<Rightarrow> AgentInventorySnapshot rows \<Rightarrow> AgentInventorySnapshot rows \<times> nat" where
  "prune_inventory_history keep snapshots =
     (let stays = (\<lambda>r. sn_id r \<in> set (kept_snapshots keep snapshots (sn_agent_id r) (sn_section r))) in
      if keep = 0 then (snapshots, 0)
      else (filter stays snapshots, length (filter (\<lambda>r. \<not> stays r) snapshots)))"

end
