(* ===== verification/Inventory_Correct.thy ===== *)
theory Inventory_Correct
  imports Inventory
begin

text \<open>
  The snapshots of a section are exactly the changes that were reported, the newest is the current
  state, pruning keeps it, and the hash of a section determines its strings; a section that has gone
  stale without a change is asked for on every heartbeat.
\<close>

section \<open>The current state\<close>

definition arrival :: "AgentInventorySnapshot \<Rightarrow> instant \<times> string" where
  "arrival r = (instant_of (sn_received_at r), sn_id r)"

lemma later_id_fold:
  "foldl later_id (Some c) rs = Some r \<Longrightarrow> r \<in> insert c (set rs) \<and> (\<forall>q \<in> insert c (set rs). sn_id q \<le> sn_id r)"
  by (induction rs arbitrary: c) (fastforce simp: later_id_def split: if_splits)+

lemma later_id_Some: "\<exists>r. foldl later_id (Some c) rs = Some r"
  by (induction rs arbitrary: c) (auto simp: later_id_def)

lemma newest_received_set:
  "r \<in> set (newest_received rs) \<longleftrightarrow> r \<in> set rs \<and> (\<forall>q \<in> set rs. instant_of (sn_received_at q) \<le> instant_of (sn_received_at r))"
  by (auto simp: newest_received_def list_all_iff)

lemma newest_received_nonempty: "rs \<noteq> [] \<Longrightarrow> newest_received rs \<noteq> []"
proof -
  assume "rs \<noteq> []"
  then have "finite ((\<lambda>r. instant_of (sn_received_at r)) ` set rs)" "(\<lambda>r. instant_of (sn_received_at r)) ` set rs \<noteq> {}" by auto
  from Max_in [OF this] Max_ge [OF this(1)] obtain r where "r \<in> set rs"
    "\<forall>q \<in> set rs. instant_of (sn_received_at q) \<le> instant_of (sn_received_at r)" by fastforce
  then have "r \<in> set (newest_received rs)" by (simp add: newest_received_set)
  then show ?thesis by auto
qed

lemma latest_greatest:
  assumes "latest_section snapshots agent_id sec = Some r"
  shows "r \<in> set (section_rows snapshots agent_id sec) \<and>
    (\<forall>q \<in> set (section_rows snapshots agent_id sec). arrival q \<le> arrival r)"
proof -
  let ?rs = "section_rows snapshots agent_id sec"
  obtain c cs where cs: "newest_received ?rs = c # cs"
    using assms by (cases "newest_received ?rs") (simp_all add: latest_section_def)
  then have r: "r \<in> set (newest_received ?rs)" "\<forall>q \<in> set (newest_received ?rs). sn_id q \<le> sn_id r"
    using assms later_id_fold [of c cs r] by (auto simp: latest_section_def later_id_def)
  have "arrival q \<le> arrival r" if "q \<in> set ?rs" for q
  proof (cases "instant_of (sn_received_at q) = instant_of (sn_received_at r)")
    case True
    then have "q \<in> set (newest_received ?rs)" using r(1) that by (simp add: newest_received_set)
    then show ?thesis using r(2) True by (simp add: arrival_def)
  next
    case False
    then show ?thesis using r(1) that by (force simp: newest_received_set arrival_def)
  qed
  then show ?thesis using r(1) by (simp add: newest_received_set)
qed

lemma latest_None: "latest_section snapshots agent_id sec = None \<longleftrightarrow> section_rows snapshots agent_id sec = []"
proof (cases "newest_received (section_rows snapshots agent_id sec)")
  case Nil
  then show ?thesis using newest_received_nonempty [of "section_rows snapshots agent_id sec"]
    by (auto simp: latest_section_def newest_received_def)
next
  case (Cons c cs)
  then have "section_rows snapshots agent_id sec \<noteq> []" by (auto simp: newest_received_def)
  then show ?thesis using Cons later_id_Some [of c cs] by (auto simp: latest_section_def later_id_def)
qed

lemma latest_iff:
  assumes "distinct (map sn_id snapshots)"
  shows "latest_section snapshots agent_id sec = Some r \<longleftrightarrow>
    r \<in> set (section_rows snapshots agent_id sec) \<and>
    (\<forall>q \<in> set (section_rows snapshots agent_id sec). arrival q \<le> arrival r)"
proof
  assume r: "r \<in> set (section_rows snapshots agent_id sec) \<and>
    (\<forall>q \<in> set (section_rows snapshots agent_id sec). arrival q \<le> arrival r)"
  then obtain s where s: "latest_section snapshots agent_id sec = Some s"
    using latest_None [of snapshots agent_id sec] by fastforce
  then have "arrival s = arrival r" using r latest_greatest [OF s] by force
  then have "s = r" using assms r latest_greatest [OF s]
    by (auto simp: arrival_def section_rows_def distinct_map inj_on_def)
  then show "latest_section snapshots agent_id sec = Some r" using s by simp
qed (rule latest_greatest)

section \<open>The rows are the changes\<close>

definition content :: "AgentInventorySnapshot \<Rightarrow> string \<times> InventorySectionStatus \<times> int" where
  "content r = (sn_content_hash r, sn_status r, sn_schema_version r)"

definition stored :: "AgentInventorySnapshot list \<Rightarrow> AgentInventorySnapshot rows" where
  "stored reports = foldl (\<lambda>rows r. fst (store_section r rows)) [] reports"

lemma stored_snoc: "stored (reports @ [r]) = fst (store_section r (stored reports))"
  by (simp add: stored_def)

lemma stored_subset: "set (stored reports) \<subseteq> set reports"
  by (induction reports rule: rev_induct) (auto simp: stored_def store_section_def)

lemma section_rows_append [simp]:
  "section_rows (a @ b) agent_id sec = section_rows a agent_id sec @ section_rows b agent_id sec"
  by (simp add: section_rows_def)

lemma unchanged_content: "unchanged (Some c) r \<longleftrightarrow> content c = content r"
  by (auto simp: unchanged_def content_def)

lemma latest_last:
  assumes "sorted_wrt (\<lambda>p q. instant_of (sn_received_at p) < instant_of (sn_received_at q)) (section_rows snapshots agent_id sec)"
    and "section_rows snapshots agent_id sec \<noteq> []"
  shows "latest_section snapshots agent_id sec = Some (last (section_rows snapshots agent_id sec))"
proof -
  let ?rs = "section_rows snapshots agent_id sec"
  obtain c where c: "latest_section snapshots agent_id sec = Some c"
    using assms(2) latest_None [of snapshots agent_id sec] by blast
  have rs: "?rs = butlast ?rs @ [last ?rs]" using assms(2) by simp
  then have "arrival q < arrival (last ?rs)" if "q \<in> set (butlast ?rs)" for q
    using assms(1) that by (metis (no_types, lifting) arrival_def less_prod_simp list.set_intros(1) sorted_wrt_append)
  then have "c = last ?rs"
    using latest_greatest [OF c] rs by (metis Un_iff empty_iff empty_set last_in_set list.set(2) insertE leD set_append assms(2))
  then show ?thesis using c by simp
qed

lemma remdups_adj_snoc: "remdups_adj (xs @ [x]) = (if xs \<noteq> [] \<and> last xs = x then remdups_adj xs else remdups_adj xs @ [x])"
  by (cases xs rule: rev_cases) (simp_all add: remdups_adj_append_two)

lemma stored_changes:
  assumes "sorted_wrt (\<lambda>p q. instant_of (sn_received_at p) < instant_of (sn_received_at q)) reports"
  shows "map content (section_rows (stored reports) agent_id sec) = remdups_adj (map content (section_rows reports agent_id sec)) \<and>
    sorted_wrt (\<lambda>p q. instant_of (sn_received_at p) < instant_of (sn_received_at q)) (stored reports)"
  using assms
proof (induction reports rule: rev_induct)
  case Nil
  then show ?case by (simp add: stored_def section_rows_def)
next
  case (snoc r reports)
  have ih: "map content (section_rows (stored reports) agent_id sec) = remdups_adj (map content (section_rows reports agent_id sec))"
    "sorted_wrt (\<lambda>p q. instant_of (sn_received_at p) < instant_of (sn_received_at q)) (stored reports)"
    using snoc by (simp_all add: sorted_wrt_append)
  have sorted: "sorted_wrt (\<lambda>p q. instant_of (sn_received_at p) < instant_of (sn_received_at q)) (stored (reports @ [r]))"
    using ih(2) snoc.prems stored_subset [of reports]
    by (auto simp: stored_snoc store_section_def sorted_wrt_append)
  show ?case
  proof (cases "sn_agent_id r = agent_id \<and> sn_section r = sec")
    case False
    then show ?thesis using ih sorted by (auto simp: stored_snoc store_section_def section_rows_def)
  next
    case True
    let ?rs = "section_rows (stored reports) agent_id sec"
    have len: "?rs = [] \<longleftrightarrow> section_rows reports agent_id sec = []"
      using ih(1) by (metis list.map_disc_iff remdups_adj_Nil_iff)
    have r: "section_rows [r] agent_id sec = [r]" using True by (simp add: section_rows_def)
    have same: "unchanged (latest_section (stored reports) agent_id sec) r \<longleftrightarrow>
        section_rows reports agent_id sec \<noteq> [] \<and> content (last (section_rows reports agent_id sec)) = content r"
    proof (cases "?rs = []")
      case True
      then show ?thesis using len latest_None [of "stored reports" agent_id sec] by (simp add: unchanged_def)
    next
      case False
      have "sorted_wrt (\<lambda>p q. instant_of (sn_received_at p) < instant_of (sn_received_at q)) ?rs"
        using ih(2) by (simp add: section_rows_def sorted_wrt_filter)
      from latest_last [OF this False] have "unchanged (latest_section (stored reports) agent_id sec) r \<longleftrightarrow> content (last ?rs) = content r"
        by (simp add: unchanged_content)
      moreover have "content (last ?rs) = content (last (section_rows reports agent_id sec))"
        using ih(1) False len by (metis last_map last_remdups_adj)
      ultimately show ?thesis using False len by simp
    qed
    have "section_rows (stored (reports @ [r])) agent_id sec =
        (if unchanged (latest_section (stored reports) agent_id sec) r then ?rs else ?rs @ [r])"
      using True r by (simp add: stored_snoc store_section_def)
    then show ?thesis
      using sorted ih(1) same r remdups_adj_snoc [of "map content (section_rows reports agent_id sec)" "content r"]
      by (auto simp: last_map)
  qed
qed

lemma stored_current:
  assumes "sorted_wrt (\<lambda>p q. instant_of (sn_received_at p) < instant_of (sn_received_at q)) reports"
    "section_rows reports agent_id sec \<noteq> []"
  shows "\<exists>c. latest_section (stored reports) agent_id sec = Some c \<and> content c = content (last (section_rows reports agent_id sec))"
proof -
  let ?rs = "section_rows (stored reports) agent_id sec"
  have rows: "map content ?rs = remdups_adj (map content (section_rows reports agent_id sec))"
    "sorted_wrt (\<lambda>p q. instant_of (sn_received_at p) < instant_of (sn_received_at q)) ?rs"
    using stored_changes [OF assms(1), of agent_id sec] by (simp_all add: section_rows_def sorted_wrt_filter)
  then have "?rs \<noteq> []" using assms(2) by (metis list.map_disc_iff remdups_adj_Nil_iff)
  from latest_last [OF rows(2) this] rows(1) this assms(2) show ?thesis by (metis last_map last_remdups_adj)
qed

text \<open>C37. With an advancing clock, the stored snapshots of a section are the reports of it without
  those that repeat the report before, and the current state is the last report.\<close>

theorem inventory_history_is_changes:
  assumes "sorted_wrt (\<lambda>p q. instant_of (sn_received_at p) < instant_of (sn_received_at q)) reports"
  shows "map content (section_rows (stored reports) agent_id sec) = remdups_adj (map content (section_rows reports agent_id sec)) \<and>
    set (stored reports) \<subseteq> set reports \<and>
    map_option content (latest_section (stored reports) agent_id sec) =
      (if section_rows reports agent_id sec = [] then None else Some (content (last (section_rows reports agent_id sec))))"
proof (cases "section_rows reports agent_id sec = []")
  case True
  then have "section_rows (stored reports) agent_id sec = []"
    using stored_changes [OF assms, of agent_id sec] by simp
  then show ?thesis using stored_changes [OF assms, of agent_id sec] True latest_None stored_subset by simp
next
  case False
  then show ?thesis using stored_changes [OF assms, of agent_id sec] stored_current [OF assms False] stored_subset by auto
qed

definition report0 :: "nat \<Rightarrow> string \<Rightarrow> AgentInventorySnapshot" where
  "report0 t h = \<lparr>sn_id = replicate t CHR ''i'', sn_agent_id = ''a'', sn_section = Inv_cpu, sn_status = Section_ok,
     sn_schema_version = 1, sn_content_hash = h, sn_byte_size = 2, sn_payload = JObj [], sn_collected_at = 0,
     sn_received_at = Aware (seconds (int t))\<rparr>"

theorem inventory_history_is_changes_witness:
  "map content (section_rows (stored [report0 2 ''x'', report0 3 ''x'', report0 4 ''y'']) ''a'' Inv_cpu) =
     [(''x'', Section_ok, 1), (''y'', Section_ok, 1)]"
proof -
  have "sorted_wrt (\<lambda>p q. instant_of (sn_received_at p) < instant_of (sn_received_at q)) [report0 2 ''x'', report0 3 ''x'', report0 4 ''y'']"
    by (simp add: report0_def seconds_def)
  from inventory_history_is_changes [OF this, of "''a''" Inv_cpu] show ?thesis
    by (simp add: section_rows_def report0_def content_def)
qed

section \<open>Pruning\<close>

lemma pruned_rows:
  "section_rows (filter (\<lambda>r. sn_id r \<in> set (kept_snapshots keep snapshots (sn_agent_id r) (sn_section r))) snapshots) agent_id sec =
    filter (\<lambda>r. sn_id r \<in> set (kept_snapshots keep snapshots agent_id sec)) (section_rows snapshots agent_id sec)"
  by (auto simp: section_rows_def intro: filter_cong)

text \<open>Whatever number of snapshots is kept, the current state of every section stays.\<close>

lemma prune_keeps_latest:
  assumes "distinct (map sn_id snapshots)"
  shows "latest_section (fst (prune_inventory_history keep snapshots)) agent_id sec = latest_section snapshots agent_id sec"
proof (cases "keep = 0 \<or> section_rows snapshots agent_id sec = []")
  case True
  moreover have "latest_section snapshots' agent_id sec = None" if "section_rows snapshots' agent_id sec = []" for snapshots'
    using that latest_None by blast
  ultimately show ?thesis by (auto simp: prune_inventory_history_def Let_def pruned_rows)
next
  case False
  let ?rs = "section_rows snapshots agent_id sec" and ?kept = "fst (prune_inventory_history keep snapshots)"
  obtain r where r: "latest_section snapshots agent_id sec = Some r" using False latest_None by (metis not_None_eq)
  note top = latest_greatest [OF r]
  let ?sorted = "sort_key (\<lambda>r. (instant_of (sn_received_at r), sn_id r)) ?rs"
  have nonempty: "?sorted \<noteq> []" using False by (metis length_0_conv length_sort)
  have "last ?sorted \<in> set ?rs" using nonempty by (metis last_in_set set_sort)
  moreover have "arrival q \<le> arrival (last ?sorted)" if "q \<in> set ?rs" for q
  proof -
    have split: "?sorted = butlast ?sorted @ [last ?sorted]" using nonempty by simp
    have "sorted (map arrival ?sorted)" by (simp add: arrival_def [abs_def])
    then have "sorted (map arrival (butlast ?sorted @ [last ?sorted]))" using split by argo
    moreover have "q \<in> set (butlast ?sorted @ [last ?sorted])" using split that by (metis set_sort)
    ultimately show ?thesis by (auto simp: sorted_append)
  qed
  ultimately have "latest_section snapshots agent_id sec = Some (last ?sorted)"
    using latest_iff [OF assms, of agent_id sec "last ?sorted"] by blast
  then have "last ?sorted = r" using r by simp
  then have "sn_id r \<in> set (kept_snapshots keep snapshots agent_id sec)"
    using False nonempty by (cases ?sorted rule: rev_cases) (auto simp: kept_snapshots_def take_Cons')
  then have in_kept: "r \<in> set (section_rows ?kept agent_id sec)" "set (section_rows ?kept agent_id sec) \<subseteq> set ?rs"
    using False top by (auto simp: prune_inventory_history_def Let_def pruned_rows)
  have "distinct (map sn_id ?kept)"
    using assms by (simp add: prune_inventory_history_def Let_def distinct_map_filter)
  from latest_iff [OF this] in_kept top r show ?thesis by auto
qed

section \<open>Stale sections\<close>

text \<open>
  A report that repeats the current content stores nothing, the time of arrival included. Once the
  current snapshot is a day old, each heartbeat asks for the section again, however often it is sent.
\<close>

lemma stale_section_requested_forever:
  assumes "latest_section snapshots agent_id sec = Some c" "instant_of (sn_received_at c) + seconds INVENTORY_REFRESH_INTERVAL \<le> now"
    and "\<forall>r \<in> set reports. sn_agent_id r = agent_id \<and> (sn_section r = sec \<longrightarrow> content r = content c)"
    and "\<forall>r \<in> set reports. sn_section r = sec"
  shows "wants_section (latest_section (foldl (\<lambda>rows r. fst (store_section r rows)) snapshots reports) agent_id sec)
    (Some (sn_content_hash c)) now"
proof -
  have "foldl (\<lambda>rows r. fst (store_section r rows)) snapshots reports = snapshots"
    using assms(1,3,4) by (induction reports) (simp_all add: store_section_def unchanged_content)
  then show ?thesis using assms(1,2) by (simp add: wants_section_def)
qed

section \<open>The canonical bytes\<close>

lemma unesc_go:
  assumes "scalar c"
  shows "unesc (esc_go c @ x) = Some (c, x)"
proof (cases "c \<in> {60, 62, 38, 8232, 8233}")
  case True
  then have "unesc (92 # 117 # hex4 c @ x) = Some (c, x)"
    by (auto simp: unesc_def unhex4_hex4)
  then show ?thesis using True by (simp add: esc_go_def)
next
  case False
  then show ?thesis using unesc_plain [OF assms] by (simp add: esc_go_def)
qed

interpretation go: escape esc_go
proof
  show "esc_go c \<noteq> []" "hd (esc_go c) \<noteq> 34" for c
    using esc_head [of c] by (auto simp: esc_go_def)
  show "c = e \<and> x = y" if "scalar c" "scalar e" "esc_go c @ x = esc_go e @ y" for c e x y
    using that by (metis unesc_go option.inject prod.inject)
qed

end
