(* ===== verification/Command_Payloads.thy ===== *)
theory Command_Payloads
  imports Agent_Updates Shell_Sessions Approval_Requests
begin

text \<open>
  The typed payload rules of a dispatched command (\<open>CommandCreate\<close> of
  \<open>server/app/schemas/schemas.py\<close>): one validator per kind of command, each with the normalised
  payload as its result. A payload is the dictionary of a parsed JSON object in its order; the check of
  the value domain, which runs first, leaves no float in it. The digest \<open>sha256hex\<close> is a parameter.
\<close>

section \<open>Results\<close>

text \<open>A refusal is a \<open>ValueError\<close>, which becomes 422; testing a list for membership in a set is a
  \<open>TypeError\<close>, which nothing catches.\<close>

datatype payload_error = ValueError | TypeError

type_synonym 'a checked = "payload_error + 'a"

type_synonym payload = "(ustr \<times> json) list"

definition need :: "bool \<Rightarrow> 'a checked \<Rightarrow> 'a checked" where
  "need b k = (if b then k else Inl ValueError)"

definition and_then :: "'a checked \<Rightarrow> ('a \<Rightarrow> 'b checked) \<Rightarrow> 'b checked" where
  "and_then m f = (case m of Inl e \<Rightarrow> Inl e | Inr x \<Rightarrow> f x)"

lemma need_Inr [simp]: "need b k = Inr y \<longleftrightarrow> b \<and> k = Inr y"
  by (simp add: need_def)

lemma and_then_Inr [simp]: "and_then m f = Inr y \<longleftrightarrow> (\<exists>x. m = Inr x \<and> f x = Inr y)"
  by (cases m) (simp_all add: and_then_def)

lemma and_then_step [simp]: "and_then (Inr x) f = f x" "and_then (Inl e) f = Inl e"
  by (simp_all add: and_then_def)

lemma need_True [simp]: "need True k = k"
  by (simp add: need_def)

section \<open>Reading a payload\<close>

text \<open>\<open>payload.get(key)\<close> is \<open>pget\<close>, \<open>payload.get(key, d)\<close> is \<open>pget_or\<close>.\<close>

definition pget :: "string \<Rightarrow> payload \<Rightarrow> json" where
  "pget key p = (case map_of p (ustr key) of None \<Rightarrow> JNull | Some v \<Rightarrow> v)"

definition pget_or :: "json \<Rightarrow> string \<Rightarrow> payload \<Rightarrow> json" where
  "pget_or d key p = (case map_of p (ustr key) of None \<Rightarrow> d | Some v \<Rightarrow> v)"

definition only_keys :: "string list \<Rightarrow> payload \<Rightarrow> bool" where
  "only_keys allowed p \<longleftrightarrow> list_all (\<lambda>kv. fst kv \<in> set (map ustr allowed)) p"

definition has_keys :: "string list \<Rightarrow> payload \<Rightarrow> bool" where
  "has_keys required p \<longleftrightarrow> list_all (\<lambda>k. map_of p (ustr k) \<noteq> None) required"

definition exact_keys :: "string list \<Rightarrow> payload \<Rightarrow> bool" where
  "exact_keys ks p \<longleftrightarrow> only_keys ks p \<and> has_keys ks p"

definition text_of :: "json \<Rightarrow> ustr checked" where
  "text_of j = (case j of JStr s \<Rightarrow> Inr s | _ \<Rightarrow> Inl ValueError)"

text \<open>\<open>value in {...}\<close> for a set of texts.\<close>

definition one_of :: "string list \<Rightarrow> json \<Rightarrow> ustr checked" where
  "one_of vs j =
     (case j of
        JStr s \<Rightarrow> if s \<in> set (map ustr vs) then Inr s else Inl ValueError
      | JArr _ \<Rightarrow> Inl TypeError
      | JObj _ \<Rightarrow> Inl TypeError
      | _ \<Rightarrow> Inl ValueError)"

definition bool_of :: "json \<Rightarrow> bool checked" where
  "bool_of j = (case j of JBool b \<Rightarrow> Inr b | _ \<Rightarrow> Inl ValueError)"

definition int_between :: "int \<Rightarrow> int \<Rightarrow> json \<Rightarrow> int checked" where
  "int_between lo hi j = (case j of JInt n \<Rightarrow> if lo \<le> n \<and> n \<le> hi then Inr n else Inl ValueError | _ \<Rightarrow> Inl ValueError)"

definition list_of :: "nat \<Rightarrow> nat \<Rightarrow> json \<Rightarrow> json list checked" where
  "list_of lo hi j =
     (case j of JArr xs \<Rightarrow> if lo \<le> length xs \<and> length xs \<le> hi then Inr xs else Inl ValueError | _ \<Rightarrow> Inl ValueError)"

definition object_of :: "json \<Rightarrow> payload checked" where
  "object_of j = (case j of JObj kvs \<Rightarrow> Inr kvs | _ \<Rightarrow> Inl ValueError)"

fun each :: "('a \<Rightarrow> 'b checked) \<Rightarrow> 'a list \<Rightarrow> 'b list checked" where
  "each f [] = Inr []"
| "each f (x # xs) = and_then (f x) (\<lambda>y. and_then (each f xs) (\<lambda>ys. Inr (y # ys)))"

text \<open>An optional field: absent and null are the same.\<close>

definition optional :: "(json \<Rightarrow> 'a checked) \<Rightarrow> json \<Rightarrow> 'a option checked" where
  "optional f j = (if j = JNull then Inr None else and_then (f j) (\<lambda>x. Inr (Some x)))"

definition field_if :: "string \<Rightarrow> ('a \<Rightarrow> json) \<Rightarrow> 'a option \<Rightarrow> payload" where
  "field_if key f x = (case x of None \<Rightarrow> [] | Some v \<Rightarrow> [(ustr key, f v)])"

section \<open>Texts\<close>

definition printable :: "ustr \<Rightarrow> bool" where
  "printable s \<longleftrightarrow> list_all (\<lambda>c. 32 \<le> c \<and> c \<noteq> 127) s"

definition lower_hex :: "nat \<Rightarrow> bool" where
  "lower_hex c \<longleftrightarrow> ascii_digit c \<or> (97 \<le> c \<and> c \<le> 102)"

definition is_hex :: "nat \<Rightarrow> ustr \<Rightarrow> bool" where
  "is_hex n s \<longleftrightarrow> length s = n \<and> list_all lower_hex s"

definition sha256_text :: "json \<Rightarrow> ustr checked" where
  "sha256_text j = and_then (text_of j) (\<lambda>s. need (is_hex 64 s) (Inr s))"

definition thumbprint_text :: "json \<Rightarrow> ustr checked" where
  "thumbprint_text j = and_then (text_of j) (\<lambda>s.
     need (length s = 40 \<and> list_all (\<lambda>c. lower_hex c \<or> (65 \<le> c \<and> c \<le> 70)) s) (Inr s))"

text \<open>A reason: stripped, from ten bytes to a bound, and printable.\<close>

definition stripped_text :: "nat \<Rightarrow> nat \<Rightarrow> json \<Rightarrow> ustr checked" where
  "stripped_text lo hi j = and_then (text_of j) (\<lambda>raw. let s = strip raw in
     (case encode_utf8 s of
        None \<Rightarrow> Inl ValueError
      | Some b \<Rightarrow> need (lo \<le> length b \<and> length b \<le> hi \<and> printable s) (Inr s)))"

text \<open>
  \<open>re.match("^https://", url, re.IGNORECASE)\<close>: ignoring case, the letter s of the pattern
  also matches the long s (U+017F).
\<close>

definition https_prefix :: "ustr \<Rightarrow> bool" where
  "https_prefix url \<longleftrightarrow> list_all2 (\<lambda>c alternatives. c \<in> set alternatives) (take 8 url)
     [[104, 72], [116, 84], [116, 84], [112, 80], [115, 83, 383], [58], [47], [47]]"

definition https_url :: "json \<Rightarrow> ustr checked" where
  "https_url j = and_then (text_of j) (\<lambda>url. need (length url \<le> 2048 \<and> printable url \<and> https_prefix url) (Inr url))"

section \<open>Paths and registry locations\<close>

definition to_backslash :: "ustr \<Rightarrow> ustr" where
  "to_backslash s = map (\<lambda>c. if c = 47 then 92 else c) s"

definition rstrip_by :: "(nat \<Rightarrow> bool) \<Rightarrow> ustr \<Rightarrow> ustr" where
  "rstrip_by p s = rev (dropWhile p (rev s))"

definition RESERVED_DEVICES :: "string list" where
  "RESERVED_DEVICES = [''CON'', ''PRN'', ''AUX'', ''NUL'',
     ''COM1'', ''COM2'', ''COM3'', ''COM4'', ''COM5'', ''COM6'', ''COM7'', ''COM8'', ''COM9'',
     ''LPT1'', ''LPT2'', ''LPT3'', ''LPT4'', ''LPT5'', ''LPT6'', ''LPT7'', ''LPT8'', ''LPT9'']"

definition segment_ok :: "unicode \<Rightarrow> ustr \<Rightarrow> bool" where
  "segment_ok u s \<longleftrightarrow> s \<noteq> [] \<and> s = rstrip_by (\<lambda>c. c = 32 \<or> c = 46) s \<and>
     upper u (fst (partition_at 46 s)) \<notin> set (map ustr RESERVED_DEVICES)"

fun backslashed :: "string list \<Rightarrow> ustr" where
  "backslashed [] = []"
| "backslashed [s] = ustr s"
| "backslashed (s # ss) = ustr s @ 92 # backslashed ss"

definition MANAGED_ROOTS :: "ustr list" where
  "MANAGED_ROOTS = [backslashed [''c:'', ''programdata'', ''nodelink'', ''managed''],
     backslashed [''c:'', ''windows'', ''temp'', ''nodelink'']]"

definition under :: "ustr \<Rightarrow> ustr \<Rightarrow> bool" where
  "under dir s \<longleftrightarrow> s = dir \<or> take (length dir + 1) s = dir @ [92]"

text \<open>A drive path starts with none of the prefixes of devices and shares, which are refused beside.\<close>

definition drive_path :: "ustr \<Rightarrow> bool" where
  "drive_path s \<longleftrightarrow> (case s of d # colon # slash # rest \<Rightarrow>
      colon = 58 \<and> slash = 92 \<and> ((65 \<le> d \<and> d \<le> 90) \<or> (97 \<le> d \<and> d \<le> 122)) \<and> rest \<noteq> [] \<and> list_all (\<lambda>c. 32 \<le> c) rest | _ \<Rightarrow> False)"

definition validate_managed_windows_path :: "unicode \<Rightarrow> json \<Rightarrow> ustr checked" where
  "validate_managed_windows_path u value =
     and_then (text_of value) (\<lambda>raw. let path = to_backslash (strip raw) in
       need (length path \<le> 260 \<and> drive_path path) (
       need (ustr ''..'' \<notin> set (split_on 92 path)) (
       need (58 \<notin> set (drop 2 path)) (
       need (list_all (segment_ok u) (split_on 92 (drop 3 path))) (
       need (list_ex (\<lambda>dir. under dir (rstrip_by (\<lambda>c. c = 92) (casefold u path))) MANAGED_ROOTS) (Inr path))))))"

definition REGISTRY_ROOT :: ustr where
  "REGISTRY_ROOT = backslashed [''software'', ''nodelink'', ''managed'']"

definition registry_key_of :: "unicode \<Rightarrow> json \<Rightarrow> ustr checked" where
  "registry_key_of u j =
     and_then (text_of j) (\<lambda>raw. let key = strip_by (\<lambda>c. c = 92) (to_backslash (strip raw)) in
       need (length key \<le> 240 \<and> ustr ''..'' \<notin> set (split_on 92 key) \<and> under REGISTRY_ROOT (casefold u key)) (Inr key))"

definition value_name_of :: "json \<Rightarrow> ustr checked" where
  "value_name_of j = and_then (text_of j) (\<lambda>s. need (length s \<le> 163 \<and> 92 \<notin> set s \<and> 0 \<notin> set s) (Inr s))"

definition view_of :: "json \<Rightarrow> int checked" where
  "view_of j =
     (case j of JInt n \<Rightarrow> if n = 32 \<or> n = 64 then Inr n else Inl ValueError
      | JArr _ \<Rightarrow> Inl TypeError | JObj _ \<Rightarrow> Inl TypeError | _ \<Rightarrow> Inl ValueError)"

definition validate_registry_location :: "unicode \<Rightarrow> payload \<Rightarrow> payload checked" where
  "validate_registry_location u p =
     and_then (one_of [''HKLM'', ''HKCU''] (pget ''hive'' p)) (\<lambda>hive.
     and_then (registry_key_of u (pget ''key'' p)) (\<lambda>key.
     and_then (value_name_of (pget ''value_name'' p)) (\<lambda>name.
     and_then (view_of (pget_or (JInt 64) ''view'' p)) (\<lambda>view.
       Inr [(ustr ''hive'', JStr hive), (ustr ''key'', JStr key), (ustr ''value_name'', JStr name), (ustr ''view'', JInt view)]))))"

section \<open>Event logs and packages\<close>

definition EVENT_LOG_STANDARD_CHANNELS :: "string list" where
  "EVENT_LOG_STANDARD_CHANNELS = [''System'', ''Application'', ''Setup'']"

definition EVENT_LOG_ELEVATED_CHANNELS :: "string list" where
  "EVENT_LOG_ELEVATED_CHANNELS = [''Security'', ''Microsoft-Windows-Windows Defender/Operational'']"

definition provider_name :: "json \<Rightarrow> ustr checked" where
  "provider_name j = and_then (text_of j) (\<lambda>s. need (1 \<le> length s \<and> length s \<le> 255 \<and>
     list_all (\<lambda>c. alnum c \<or> c \<in> set [32, 46, 95, 47, 45]) s) (Inr s))"

text \<open>The channel, and whether it is of the elevated tier.\<close>

definition event_log_channel :: "json \<Rightarrow> (ustr \<times> bool) checked" where
  "event_log_channel j =
     and_then (one_of (EVENT_LOG_STANDARD_CHANNELS @ EVENT_LOG_ELEVATED_CHANNELS) j)
       (\<lambda>c. Inr (c, c \<notin> set (map ustr EVENT_LOG_STANDARD_CHANNELS)))"

definition providers_of :: "json \<Rightarrow> ustr list checked" where
  "providers_of j = and_then (list_of 1 16 j) (each provider_name)"

definition levels_of :: "json \<Rightarrow> int list checked" where
  "levels_of j = and_then (list_of 1 5 j) (\<lambda>xs. and_then (each (int_between 1 5) xs) (\<lambda>ns. need (distinct ns) (Inr ns)))"

text \<open>Event identifiers, and the exit codes of an installer.\<close>

definition codes_of :: "nat \<Rightarrow> json \<Rightarrow> int list checked" where
  "codes_of at_least j = and_then (list_of at_least 32 j) (each (int_between 0 65535))"

definition validate_event_log_query :: "payload \<Rightarrow> payload checked" where
  "validate_event_log_query p =
     need (only_keys [''channel'', ''tier_ack'', ''time_window_seconds'', ''providers'', ''levels'', ''event_ids'', ''max_events'', ''cursor''] p) (
     and_then (event_log_channel (pget ''channel'' p)) (\<lambda>(channel, elevated).
     and_then (bool_of (pget_or (JBool False) ''tier_ack'' p)) (\<lambda>ack.
     need (ack = elevated) (
     and_then (int_between 60 (7 * 24 * 3600) (pget ''time_window_seconds'' p)) (\<lambda>window.
     and_then (int_between 1 500 (pget ''max_events'' p)) (\<lambda>max_events.
     and_then (optional providers_of (pget ''providers'' p)) (\<lambda>providers.
     and_then (optional levels_of (pget ''levels'' p)) (\<lambda>levels.
     and_then (optional (codes_of 1) (pget ''event_ids'' p)) (\<lambda>event_ids.
     and_then (optional (int_between 0 (2 ^ 63 - 1)) (pget ''cursor'' p)) (\<lambda>cursor.
       Inr ([(ustr ''channel'', JStr channel), (ustr ''tier_ack'', JBool ack), (ustr ''time_window_seconds'', JInt window),
           (ustr ''max_events'', JInt max_events)]
         @ field_if ''providers'' (\<lambda>ss. JArr (map JStr ss)) providers @ field_if ''levels'' (\<lambda>ns. JArr (map JInt ns)) levels
         @ field_if ''event_ids'' (\<lambda>ns. JArr (map JInt ns)) event_ids @ field_if ''cursor'' JInt cursor)))))))))))"

definition PACKAGE_PROVIDERS :: "string list" where "PACKAGE_PROVIDERS = [''winget'', ''chocolatey'']"

definition package_id_of :: "json \<Rightarrow> ustr checked" where
  "package_id_of j = and_then (text_of j) (\<lambda>raw. let s = strip raw in
     need (1 \<le> length s \<and> length s \<le> 128 \<and> alnum (hd s) \<and> list_all (\<lambda>c. alnum c \<or> c \<in> set [46, 95, 43, 45]) s) (Inr s))"

text \<open>The first occurrences, in order: \<open>if x not in xs: xs.append(x)\<close>.\<close>

definition first_seen :: "'a list \<Rightarrow> 'a list" where
  "first_seen xs = rev (remdups (rev xs))"

definition normalize_package_ids :: "json \<Rightarrow> ustr list checked" where
  "normalize_package_ids raw =
     and_then (list_of 1 100 raw) (\<lambda>xs. and_then (each package_id_of xs) (\<lambda>ids. Inr (first_seen ids)))"

definition validate_package_scan :: "payload \<Rightarrow> payload checked" where
  "validate_package_scan p =
     need (only_keys [''provider''] p) (
     and_then (optional (one_of PACKAGE_PROVIDERS) (pget ''provider'' p)) (\<lambda>provider. Inr (field_if ''provider'' JStr provider)))"

definition validate_package_install :: "payload \<Rightarrow> payload checked" where
  "validate_package_install p =
     need (only_keys [''provider'', ''operation'', ''package_ids'', ''source'', ''source_digest'', ''signer''] p) (
     and_then (one_of PACKAGE_PROVIDERS (pget ''provider'' p)) (\<lambda>provider.
     and_then (one_of [''install'', ''upgrade''] (pget ''operation'' p)) (\<lambda>operation.
     and_then (normalize_package_ids (pget ''package_ids'' p)) (\<lambda>package_ids.
     let base = [(ustr ''provider'', JStr provider), (ustr ''operation'', JStr operation),
       (ustr ''package_ids'', JArr (map JStr package_ids))] in
     if provider = ustr ''winget''
     then need (list_all (\<lambda>k. map_of p (ustr k) = None) [''source'', ''source_digest'', ''signer'']) (Inr base)
     else and_then (stripped_text 1 512 (pget ''source'' p)) (\<lambda>source.
       and_then (sha256_text (pget ''source_digest'' p)) (\<lambda>digest.
       and_then (stripped_text 1 255 (pget ''signer'' p)) (\<lambda>signer.
         Inr (base @ [(ustr ''source'', JStr source), (ustr ''source_digest'', JStr digest), (ustr ''signer'', JStr signer)]))))))))"

section \<open>Software deployment\<close>

definition argument_of :: "json \<Rightarrow> ustr checked" where
  "argument_of j = and_then (text_of j) (\<lambda>s. need (length s \<le> 256 \<and> printable s) (Inr s))"

definition arguments_of :: "json \<Rightarrow> ustr list checked" where
  "arguments_of j = and_then (list_of 0 32 j) (each argument_of)"

definition reboot_settings_of :: "json \<Rightarrow> payload checked" where
  "reboot_settings_of j =
     and_then (object_of j) (\<lambda>r.
     need (only_keys [''policy'', ''delay_seconds'', ''requires_no_user''] r) (
     and_then (one_of [''never'', ''if_required'', ''forced''] (pget ''policy'' r)) (\<lambda>policy.
     if policy = ustr ''never'' then Inr [(ustr ''policy'', JStr policy)]
     else and_then (int_between 60 3600 (pget ''delay_seconds'' r)) (\<lambda>delay.
       and_then (bool_of (pget_or (JBool True) ''requires_no_user'' r)) (\<lambda>alone.
         Inr [(ustr ''policy'', JStr policy), (ustr ''delay_seconds'', JInt delay), (ustr ''requires_no_user'', JBool alone)])))))"

definition validate_software_deploy :: "payload \<Rightarrow> payload checked" where
  "validate_software_deploy p =
     need (only_keys [''url'', ''sha256'', ''installer_type'', ''arguments'', ''signer_thumbprint'', ''timeout_seconds'',
       ''success_exit_codes'', ''reboot''] p) (
     and_then (https_url (pget ''url'' p)) (\<lambda>url.
     and_then (sha256_text (pget ''sha256'' p)) (\<lambda>sha.
     and_then (one_of [''msi'', ''exe''] (pget ''installer_type'' p)) (\<lambda>installer.
     and_then (arguments_of (pget_or (JArr []) ''arguments'' p)) (\<lambda>arguments.
     and_then (int_between 30 3600 (pget ''timeout_seconds'' p)) (\<lambda>timeout.
     and_then (optional thumbprint_text (pget ''signer_thumbprint'' p)) (\<lambda>thumbprint.
     and_then (optional (codes_of 0) (pget ''success_exit_codes'' p)) (\<lambda>codes.
     and_then (optional reboot_settings_of (pget ''reboot'' p)) (\<lambda>reboot_settings.
       Inr ([(ustr ''url'', JStr url), (ustr ''sha256'', JStr sha), (ustr ''installer_type'', JStr installer),
           (ustr ''arguments'', JArr (map JStr arguments)), (ustr ''timeout_seconds'', JInt timeout)]
         @ field_if ''signer_thumbprint'' JStr thumbprint
         @ field_if ''success_exit_codes'' (\<lambda>ns. JArr (map JInt ns)) codes @ field_if ''reboot'' JObj reboot_settings))))))))))"

section \<open>Services and processes\<close>

definition PROTECTED_SERVICES :: "string list" where
  "PROTECTED_SERVICES = [''nodelinkagent'', ''windefend'', ''mpssvc'', ''eventlog'', ''rpcss'', ''dcomlaunch'',
     ''rpceptmapper'', ''winmgmt'', ''lsm'', ''dnscache'', ''dhcp'', ''bfe'', ''gpsvc'', ''netlogon'', ''samss'',
     ''cryptsvc'', ''schedule'', ''profsvc'', ''plugplay'', ''power'', ''nsi'']"

definition PROTECTED_PROCESSES :: "string list" where
  "PROTECTED_PROCESSES = [''system'', ''idle'', ''smss.exe'', ''csrss.exe'', ''wininit.exe'', ''winlogon.exe'',
     ''services.exe'', ''lsass.exe'', ''lsm.exe'', ''svchost.exe'', ''nodelinkagent.exe'']"

definition service_name_of :: "unicode \<Rightarrow> json \<Rightarrow> ustr checked" where
  "service_name_of u j = and_then (text_of j) (\<lambda>raw.
     need (1 \<le> length raw \<and> length raw \<le> 256 \<and> list_all (\<lambda>c. alnum c \<or> c \<in> set [95, 46, 45, 32]) raw) (
     let name = strip raw in need (lower u name \<notin> set (map ustr PROTECTED_SERVICES)) (Inr name)))"

definition confirmed :: "payload \<Rightarrow> bool" where
  "confirmed p \<longleftrightarrow> pget ''confirm'' p = JBool True"

definition validate_service_control :: "unicode \<Rightarrow> payload \<Rightarrow> payload checked" where
  "validate_service_control u p =
     need (exact_keys [''name'', ''action'', ''confirm'', ''reason''] p) (
     and_then (service_name_of u (pget ''name'' p)) (\<lambda>name.
     and_then (one_of [''start'', ''stop'', ''restart''] (pget ''action'' p)) (\<lambda>action.
     need (confirmed p) (
     and_then (stripped_text 10 512 (pget ''reason'' p)) (\<lambda>reason.
       Inr [(ustr ''name'', JStr name), (ustr ''action'', JStr action), (ustr ''confirm'', JBool True),
         (ustr ''reason'', JStr reason)])))))"

definition process_name_of :: "unicode \<Rightarrow> json \<Rightarrow> ustr checked" where
  "process_name_of u j = and_then (text_of j) (\<lambda>raw. let name = strip raw in
     need (length name \<le> 260 \<and> printable name \<and> lower u name \<notin> set (map ustr PROTECTED_PROCESSES)) (Inr name))"

definition pid_of :: "json \<Rightarrow> int checked" where
  "pid_of j = (case j of JInt n \<Rightarrow> need (0 \<le> n \<and> n \<notin> {0, 4}) (Inr n) | _ \<Rightarrow> Inl ValueError)"

definition validate_process_terminate :: "unicode \<Rightarrow> payload \<Rightarrow> payload checked" where
  "validate_process_terminate u p =
     need (only_keys [''pid'', ''confirm'', ''reason'', ''expected_name''] p \<and> has_keys [''pid'', ''confirm'', ''reason''] p) (
     and_then (pid_of (pget ''pid'' p)) (\<lambda>pid.
     need (confirmed p) (
     and_then (stripped_text 10 512 (pget ''reason'' p)) (\<lambda>reason.
     and_then (optional (process_name_of u) (pget ''expected_name'' p)) (\<lambda>name.
       Inr ([(ustr ''pid'', JInt pid), (ustr ''confirm'', JBool True), (ustr ''reason'', JStr reason)]
         @ field_if ''expected_name'' JStr (case name of Some [] \<Rightarrow> None | _ \<Rightarrow> name)))))))"

section \<open>Agent updates\<close>

definition version_text :: "unicode \<Rightarrow> json \<Rightarrow> ustr checked" where
  "version_text u j = and_then (text_of j) (\<lambda>s. need (match_version u s \<noteq> None) (Inr s))"

definition platform_of :: "json \<Rightarrow> ustr checked" where
  "platform_of j = and_then (text_of j) (\<lambda>s. need (platform_ok s) (Inr s))"

definition release_id_of :: "json \<Rightarrow> ustr checked" where
  "release_id_of j = and_then (text_of j) (\<lambda>s. need (1 \<le> length s \<and> length s \<le> 64 \<and>
     list_all (\<lambda>c. alnum c \<or> c \<in> set [46, 95, 58, 45]) s) (Inr s))"

definition artifact_of :: "json \<Rightarrow> payload checked" where
  "artifact_of j =
     and_then (object_of j) (\<lambda>a.
     need (exact_keys [''url'', ''sha256'', ''size_bytes''] a) (
     and_then (https_url (pget ''url'' a)) (\<lambda>url.
     and_then (sha256_text (pget ''sha256'' a)) (\<lambda>sha.
     and_then (int_between 1 (256 * 1024 * 1024) (pget ''size_bytes'' a)) (\<lambda>size_bytes.
       Inr [(ustr ''url'', JStr url), (ustr ''sha256'', JStr sha), (ustr ''size_bytes'', JInt size_bytes)])))))"

definition health_check_of :: "json \<Rightarrow> payload checked" where
  "health_check_of j =
     and_then (object_of j) (\<lambda>h. need (exact_keys [''timeout_seconds''] h) (
     and_then (int_between 60 3600 (pget ''timeout_seconds'' h)) (\<lambda>timeout. Inr [(ustr ''timeout_seconds'', JInt timeout)])))"

definition validate_agent_self_update :: "unicode \<Rightarrow> payload \<Rightarrow> payload checked" where
  "validate_agent_self_update u p =
     (let required = [''release_id'', ''version'', ''channel'', ''platform'', ''artifact'', ''min_supported_version''] in
     need (only_keys (required @ [''signer_thumbprint'', ''health_check'']) p \<and> has_keys required p) (
     and_then (release_id_of (pget ''release_id'' p)) (\<lambda>release_id.
     and_then (version_text u (pget ''version'' p)) (\<lambda>version.
     and_then (version_text u (pget ''min_supported_version'' p)) (\<lambda>minimum.
     and_then (one_of [''stable'', ''beta'', ''canary''] (pget ''channel'' p)) (\<lambda>channel.
     and_then (platform_of (pget ''platform'' p)) (\<lambda>platform.
     and_then (artifact_of (pget ''artifact'' p)) (\<lambda>artifact.
     and_then (optional thumbprint_text (pget ''signer_thumbprint'' p)) (\<lambda>thumbprint.
     and_then (optional health_check_of (pget ''health_check'' p)) (\<lambda>health.
       Inr ([(ustr ''release_id'', JStr release_id), (ustr ''version'', JStr version), (ustr ''channel'', JStr channel),
           (ustr ''platform'', JStr platform), (ustr ''artifact'', JObj artifact), (ustr ''min_supported_version'', JStr minimum)]
         @ field_if ''signer_thumbprint'' JStr thumbprint @ field_if ''health_check'' JObj health)))))))))))"

definition validate_agent_update_rollback :: "unicode \<Rightarrow> payload \<Rightarrow> payload checked" where
  "validate_agent_update_rollback u p =
     need (only_keys [''reason'', ''confirm'', ''expected_current_version''] p \<and> has_keys [''reason'', ''confirm''] p) (
     need (confirmed p) (
     and_then (stripped_text 10 256 (pget ''reason'' p)) (\<lambda>reason.
     and_then (optional (version_text u) (pget ''expected_current_version'' p)) (\<lambda>expected.
       Inr ([(ustr ''reason'', JStr reason), (ustr ''confirm'', JBool True)]
         @ field_if ''expected_current_version'' JStr expected)))))"

section \<open>Power and files\<close>

definition validate_power :: "payload \<Rightarrow> payload checked" where
  "validate_power p =
     need (exact_keys [''confirm'', ''reason'', ''delay_seconds'', ''user_consent''] p \<and> confirmed p) (
     and_then (stripped_text 10 512 (pget ''reason'' p)) (\<lambda>reason.
     and_then (int_between 30 3600 (pget ''delay_seconds'' p)) (\<lambda>delay.
     and_then (one_of [''confirmed'', ''no_user_session''] (pget ''user_consent'' p)) (\<lambda>consent.
       Inr [(ustr ''confirm'', JBool True), (ustr ''reason'', JStr reason), (ustr ''delay_seconds'', JInt delay),
         (ustr ''user_consent'', JStr consent)]))))"

definition validate_cancel_power :: "payload \<Rightarrow> payload checked" where
  "validate_cancel_power p =
     need (exact_keys [''confirm'', ''reason''] p \<and> confirmed p) (
     and_then (stripped_text 10 512 (pget ''reason'' p)) (\<lambda>reason.
       Inr [(ustr ''confirm'', JBool True), (ustr ''reason'', JStr reason)]))"

definition base64_of :: "nat \<Rightarrow> json \<Rightarrow> (ustr \<times> nat list) checked" where
  "base64_of bound j = and_then (text_of j) (\<lambda>s.
     (case b64decode s of None \<Rightarrow> Inl ValueError | Some bytes \<Rightarrow> need (length bytes \<le> bound) (Inr (s, bytes))))"

definition validate_file_upload :: "unicode \<Rightarrow> (nat list \<Rightarrow> string) \<Rightarrow> payload \<Rightarrow> payload checked" where
  "validate_file_upload u sha256hex p =
     need (exact_keys [''path'', ''content_base64'', ''sha256'', ''overwrite''] p) (
     and_then (validate_managed_windows_path u (pget ''path'' p)) (\<lambda>path.
     and_then (sha256_text (pget ''sha256'' p)) (\<lambda>digest.
     and_then (bool_of (pget ''overwrite'' p)) (\<lambda>overwrite.
     and_then (base64_of (32 * 1024) (pget ''content_base64'' p)) (\<lambda>(encoded, decoded).
     need (ustr (sha256hex decoded) = digest) (
       Inr [(ustr ''path'', JStr path), (ustr ''content_base64'', JStr encoded), (ustr ''sha256'', JStr digest),
         (ustr ''overwrite'', JBool overwrite)]))))))"

definition validate_file_download :: "unicode \<Rightarrow> payload \<Rightarrow> payload checked" where
  "validate_file_download u p =
     need (only_keys [''path'', ''expected_sha256''] p \<and> has_keys [''path''] p) (
     and_then (validate_managed_windows_path u (pget ''path'' p)) (\<lambda>path.
     and_then (optional sha256_text (pget ''expected_sha256'' p)) (\<lambda>expected.
       Inr ((ustr ''path'', JStr path) # field_if ''expected_sha256'' JStr expected))))"

section \<open>The registry\<close>

definition REGISTRY_TYPES :: "string list" where
  "REGISTRY_TYPES = [''string'', ''expand_string'', ''dword'', ''qword'', ''multi_string'', ''binary'']"

definition registry_data_ok :: "ustr \<Rightarrow> json \<Rightarrow> bool" where
  "registry_data_ok t data \<longleftrightarrow>
     (if t \<in> set (map ustr [''string'', ''expand_string''])
      then (case data of JStr s \<Rightarrow> (case encode_utf8 s of None \<Rightarrow> False | Some b \<Rightarrow> length b \<le> 16 * 1024) | _ \<Rightarrow> False)
      else if t = ustr ''multi_string''
      then (case data of JArr xs \<Rightarrow> length xs \<le> 256 \<and> list_all (\<lambda>x. case x of JStr s \<Rightarrow> 0 \<notin> set s | _ \<Rightarrow> False) xs | _ \<Rightarrow> False)
      else if t = ustr ''dword'' then is_ok (int_between 0 (2 ^ 32 - 1) data)
      else if t = ustr ''qword'' then is_ok (int_between 0 (2 ^ 63 - 1) data)
      else is_ok (base64_of (16 * 1024) data))"

definition registry_extra_keys :: "CommandKind \<Rightarrow> string list" where
  "registry_extra_keys kind =
     (case kind of
        registry_write \<Rightarrow> [''type'', ''data'', ''expected_current_sha256'']
      | registry_delete \<Rightarrow> [''confirm'', ''expected_current_sha256'']
      | _ \<Rightarrow> [])"

definition registry_specific :: "CommandKind \<Rightarrow> payload \<Rightarrow> payload checked" where
  "registry_specific kind p =
     (if kind = registry_write
      then and_then (one_of REGISTRY_TYPES (pget ''type'' p)) (\<lambda>t.
        need (registry_data_ok t (pget ''data'' p)) (Inr [(ustr ''type'', JStr t), (ustr ''data'', pget ''data'' p)]))
      else if kind = registry_delete then need (confirmed p) (Inr [(ustr ''confirm'', JBool True)])
      else Inr [])"

definition validate_registry :: "unicode \<Rightarrow> CommandKind \<Rightarrow> payload \<Rightarrow> payload checked" where
  "validate_registry u kind p =
     need (only_keys ([''hive'', ''key'', ''value_name'', ''view''] @ registry_extra_keys kind) p
       \<and> has_keys [''hive'', ''key'', ''value_name''] p) (
     and_then (validate_registry_location u p) (\<lambda>location.
     and_then (registry_specific kind p) (\<lambda>specific.
     and_then (optional sha256_text (pget ''expected_current_sha256'' p)) (\<lambda>expected.
       Inr (location @ specific @ field_if ''expected_current_sha256'' JStr expected)))))"

section \<open>Windows updates\<close>

definition kb_of :: "unicode \<Rightarrow> json \<Rightarrow> ustr checked" where
  "kb_of u j = and_then (text_of j) (\<lambda>raw.
     let kb = upper u (strip raw); named = (if kb \<noteq> [] \<and> take 2 kb \<noteq> ustr ''KB'' then ustr ''KB'' @ kb else kb) in
     need (take 2 named = ustr ''KB'' \<and> 4 \<le> length (drop 2 named) \<and> length (drop 2 named) \<le> 10 \<and>
       list_all ascii_digit (drop 2 named)) (Inr named))"

definition update_id_of :: "unicode \<Rightarrow> json \<Rightarrow> ustr checked" where
  "update_id_of u j = and_then (text_of j) (\<lambda>raw. let s = lower u (strip raw) in
     need (map length (split_on 45 s) = [8, 4, 4, 4, 12] \<and> list_all (\<lambda>c. lower_hex c \<or> c = 45) s) (Inr s))"

definition array_of :: "json \<Rightarrow> json list checked" where
  "array_of j = (case j of JArr xs \<Rightarrow> Inr xs | _ \<Rightarrow> Inl ValueError)"

definition validate_install_updates :: "unicode \<Rightarrow> payload \<Rightarrow> payload checked" where
  "validate_install_updates u p =
     need (only_keys [''install_all'', ''kb_ids'', ''target_kbs'', ''update_ids''] p) (
     and_then (bool_of (pget_or (JBool False) ''install_all'' p)) (\<lambda>install_all.
     and_then (array_of (pget_or (JArr []) ''kb_ids'' p)) (\<lambda>kbs.
     and_then (array_of (pget_or (JArr []) ''target_kbs'' p)) (\<lambda>legacy.
     and_then (array_of (pget_or (JArr []) ''update_ids'' p)) (\<lambda>ids.
     need (length (kbs @ legacy) + length ids \<le> 100) (
     need (\<not> (install_all \<and> (kbs @ legacy \<noteq> [] \<or> ids \<noteq> []))) (
     need (install_all \<or> kbs @ legacy \<noteq> [] \<or> ids \<noteq> []) (
     and_then (each (kb_of u) (kbs @ legacy)) (\<lambda>ks.
     and_then (each (update_id_of u) ids) (\<lambda>us.
       Inr (if install_all then [(ustr ''install_all'', JBool True)]
         else [(ustr ''kb_ids'', JArr (map JStr (first_seen ks))), (ustr ''update_ids'', JArr (map JStr (first_seen us)))])))))))))))"

section \<open>All kinds\<close>

definition backup_id_ok :: "payload \<Rightarrow> bool" where
  "backup_id_ok p \<longleftrightarrow> exact_keys [''backup_id''] p \<and> (case pget ''backup_id'' p of JStr s \<Rightarrow> is_hex 32 s | _ \<Rightarrow> False)"

fun typed_operation_payload ::
  "unicode \<Rightarrow> (nat list \<Rightarrow> string) \<Rightarrow> CommandKind \<Rightarrow> payload \<Rightarrow> payload checked" where
  "typed_operation_payload u sha256hex reboot p = validate_power p"
| "typed_operation_payload u sha256hex shutdown p = validate_power p"
| "typed_operation_payload u sha256hex cancel_power_action p = validate_cancel_power p"
| "typed_operation_payload u sha256hex file_upload p = validate_file_upload u sha256hex p"
| "typed_operation_payload u sha256hex file_download p = validate_file_download u p"
| "typed_operation_payload u sha256hex registry_read p = validate_registry u registry_read p"
| "typed_operation_payload u sha256hex registry_write p = validate_registry u registry_write p"
| "typed_operation_payload u sha256hex registry_delete p = validate_registry u registry_delete p"
| "typed_operation_payload u sha256hex remediation_rollback p = need (backup_id_ok p) (Inr p)"
| "typed_operation_payload u sha256hex query_event_log p = validate_event_log_query p"
| "typed_operation_payload u sha256hex scan_packages p = validate_package_scan p"
| "typed_operation_payload u sha256hex install_packages p = validate_package_install p"
| "typed_operation_payload u sha256hex deploy_software p = validate_software_deploy p"
| "typed_operation_payload u sha256hex list_services p = need (p = []) (Inr [])"
| "typed_operation_payload u sha256hex list_processes p = need (p = []) (Inr [])"
| "typed_operation_payload u sha256hex control_service p = validate_service_control u p"
| "typed_operation_payload u sha256hex terminate_process p = validate_process_terminate u p"
| "typed_operation_payload u sha256hex agent_self_update p = validate_agent_self_update u p"
| "typed_operation_payload u sha256hex agent_update_rollback p = validate_agent_update_rollback u p"
| "typed_operation_payload u sha256hex install_updates p = validate_install_updates u p"
| "typed_operation_payload u sha256hex powershell p = Inr p"
| "typed_operation_payload u sha256hex shell p = Inr p"
| "typed_operation_payload u sha256hex collect_inventory p = Inr p"
| "typed_operation_payload u sha256hex scan_updates p = Inr p"

text \<open>The payload of a \<open>CommandCreate\<close>: the value domain first, then the rules of the kind.\<close>

definition command_create_payload ::
  "unicode \<Rightarrow> (nat list \<Rightarrow> string) \<Rightarrow> CommandKind \<Rightarrow> json \<Rightarrow> payload checked" where
  "command_create_payload u sha256hex kind j =
     (case checked_payload j of
        Inr (JObj p) \<Rightarrow> typed_operation_payload u sha256hex kind p
      | _ \<Rightarrow> Inl ValueError)"

end
