(* ===== verification/Payload_Normal.thy ===== *)
theory Payload_Normal
  imports Command_Payloads
begin

text \<open>
  The payload rules normalise: what they accept they return in a form they accept unchanged. A reader
  of a field and the way its value is written back form an interface, which carries over to optional
  fields and to lists.
\<close>

section \<open>Looking up a field\<close>

named_theorems payload_simps \<open>lookups in a normalised payload\<close>

lemma lookup_append: "map_of (xs @ ys) k = (case map_of xs k of None \<Rightarrow> map_of ys k | Some v \<Rightarrow> Some v)"
  by (induction xs) auto

lemma lookup_field_if:
  "map_of (field_if key f x) k = (case x of None \<Rightarrow> None | Some v \<Rightarrow> if k = ustr key then Some (f v) else None)"
  by (simp add: field_if_def split: option.split)

lemma pget_simps [payload_simps]:
  "pget key [] = JNull"
  "pget key ((ustr k, v) # p) = (if k = key then v else pget key p)"
  "pget key (field_if k f x @ p) = (if k = key then case x of None \<Rightarrow> pget key p | Some v \<Rightarrow> f v else pget key p)"
  "pget key (field_if k f x) = (if k = key then case x of None \<Rightarrow> JNull | Some v \<Rightarrow> f v else JNull)"
  by (auto simp: pget_def lookup_append lookup_field_if ustr_inj split: option.split)

lemma pget_or_simps [payload_simps]:
  "pget_or d key [] = d"
  "pget_or d key ((ustr k, v) # p) = (if k = key then v else pget_or d key p)"
  "pget_or d key (field_if k f x @ p) = (if k = key then case x of None \<Rightarrow> pget_or d key p | Some v \<Rightarrow> f v else pget_or d key p)"
  by (auto simp: pget_or_def lookup_append lookup_field_if ustr_inj split: option.split)

lemma only_keys_simps [payload_simps]:
  "only_keys ks []"
  "only_keys ks ((ustr k, v) # p) \<longleftrightarrow> k \<in> set ks \<and> only_keys ks p"
  "only_keys ks (field_if k f x @ p) \<longleftrightarrow> (x = None \<or> k \<in> set ks) \<and> only_keys ks p"
  "only_keys ks (field_if k f x) \<longleftrightarrow> x = None \<or> k \<in> set ks"
  by (auto simp: only_keys_def field_if_def ustr_inj image_iff split: option.split)

lemma has_keys_simps [payload_simps]:
  "has_keys [] p"
  "has_keys (k # ks) p \<longleftrightarrow> map_of p (ustr k) \<noteq> None \<and> has_keys ks p"
  by (simp_all add: has_keys_def)

lemmas payload_lookup [payload_simps] = exact_keys_def ustr_inj

section \<open>Reading back what was written\<close>

locale field_normaliser =
  fixes reads :: "json \<Rightarrow> 'a checked" and encoded :: "'a \<Rightarrow> json"
  assumes reread: "reads j = Inr x \<Longrightarrow> reads (encoded x) = Inr x"
    and not_null: "encoded x \<noteq> JNull"
begin

lemma optional_reread:
  "optional reads j = Inr x \<Longrightarrow> optional reads (case x of None \<Rightarrow> JNull | Some v \<Rightarrow> encoded v) = Inr x"
  by (auto simp: optional_def not_null reread split: if_splits option.split)

lemma each_values: "each reads js = Inr xs \<Longrightarrow> length xs = length js \<and> list_all (\<lambda>x. reads (encoded x) = Inr x) xs"
  by (induction js arbitrary: xs) (auto intro: reread)

lemma each_again: "list_all (\<lambda>x. reads (encoded x) = Inr x) xs \<Longrightarrow> each reads (map encoded xs) = Inr xs"
  by (induction xs) auto

lemma list_reread:
  "list_of lo hi j = Inr js \<Longrightarrow> each reads js = Inr xs \<Longrightarrow>
   list_of lo hi (JArr (map encoded xs)) = Inr (map encoded xs) \<and> each reads (map encoded xs) = Inr xs"
  using each_values [of js xs] each_again by (auto simp: list_of_def split: json.splits if_splits)

lemma list_normaliser:
  "field_normaliser (\<lambda>j. and_then (list_of lo hi j) (each reads)) (\<lambda>xs. JArr (map encoded xs))"
  by unfold_locales (auto dest: list_reread)

end

lemma one_of_JStr: "one_of vs j = Inr s \<longleftrightarrow> j = JStr s \<and> s \<in> set (map ustr vs)"
  by (cases j) (auto simp: one_of_def)

lemma text_of_JStr: "text_of j = Inr s \<longleftrightarrow> j = JStr s"
  by (cases j) (auto simp: text_of_def)

lemma bool_of_JBool: "bool_of j = Inr b \<longleftrightarrow> j = JBool b"
  by (cases j) (auto simp: bool_of_def)

lemma object_of_JObj: "object_of j = Inr kvs \<longleftrightarrow> j = JObj kvs"
  by (cases j) (auto simp: object_of_def)

lemma int_between_JInt: "int_between lo hi j = Inr n \<longleftrightarrow> j = JInt n \<and> lo \<le> n \<and> n \<le> hi"
  by (cases j) (auto simp: int_between_def)

lemma list_of_JArr: "list_of lo hi j = Inr xs \<longleftrightarrow> j = JArr xs \<and> lo \<le> length xs \<and> length xs \<le> hi"
  by (cases j) (auto simp: list_of_def)

lemma array_of_JArr: "array_of j = Inr xs \<longleftrightarrow> j = JArr xs"
  by (cases j) (auto simp: array_of_def)

lemmas value_of_simps [payload_simps] = array_of_JArr one_of_JStr text_of_JStr bool_of_JBool object_of_JObj int_between_JInt

lemma strip_is_strip_by: "strip s = strip_by is_space s"
  by (simp add: strip_def strip_by_def)

lemma strip_by_ends:
  assumes "strip_by p s \<noteq> []"
  shows "\<not> p (hd (strip_by p s))" "\<not> p (last (strip_by p s))"
proof -
  let ?t = "dropWhile p s" and ?r = "dropWhile p (rev (dropWhile p s))"
  have r: "?r \<noteq> []" using assms by (simp add: strip_by_def)
  then have t: "?t \<noteq> []" by (metis dropWhile.simps(1) rev.simps(1))
  have h: "\<not> p (hd ?r)" "\<not> p (hd ?t)" using r t hd_dropWhile by blast+
  show "\<not> p (last (strip_by p s))" using h(1) r by (simp add: strip_by_def last_rev)
  have "last ?r = last (rev ?t)" using r by (metis takeWhile_dropWhile_id last_appendR)
  then show "\<not> p (hd (strip_by p s))" using h(2) r t by (simp add: strip_by_def hd_rev last_rev)
qed

lemma strip_by_fixed: "s = [] \<or> \<not> p (hd s) \<and> \<not> p (last s) \<Longrightarrow> strip_by p s = s"
proof -
  have d: "xs = [] \<or> \<not> p (hd xs) \<Longrightarrow> dropWhile p xs = xs" for xs by (cases xs) auto
  assume "s = [] \<or> \<not> p (hd s) \<and> \<not> p (last s)"
  then show ?thesis using d [of s] d [of "rev s"] by (auto simp: strip_by_def hd_rev)
qed

lemma strip_by_idem [simp]: "strip_by p (strip_by p s) = strip_by p s"
  using strip_by_ends [of p s] by (intro strip_by_fixed) blast

lemma strip_idem [simp]: "strip (strip s) = strip s"
  by (simp add: strip_is_strip_by)

lemma strip_by_set: "set (strip_by p s) \<subseteq> set s"
  by (auto simp: strip_by_def dest!: set_dropWhileD)

lemma strip_by_length: "length (strip_by p s) \<le> length s"
  by (metis strip_by_def length_dropWhile_le length_rev le_trans)

lemma strip_no_space: "list_all (\<lambda>c. \<not> is_space c) s \<Longrightarrow> strip s = s"
  by (cases "s = []") (auto simp: strip_is_strip_by list_all_iff intro!: strip_by_fixed)

section \<open>The readers\<close>

definition ascii_case :: "unicode \<Rightarrow> bool" where
  "ascii_case u \<longleftrightarrow> (\<forall>s. ascii s \<longrightarrow>
     upper u s = map (\<lambda>c. if 97 \<le> c \<and> c \<le> 122 then c - 32 else c) s \<and>
     lower u s = map (\<lambda>c. if 65 \<le> c \<and> c \<le> 90 then c + 32 else c) s)"

interpretation int_field: field_normaliser "int_between lo hi" JInt for lo hi
  by unfold_locales (simp_all add: payload_simps)

interpretation choice_field: field_normaliser "one_of vs" JStr for vs
  by unfold_locales (simp_all add: payload_simps)

interpretation sha_field: field_normaliser sha256_text JStr
  by unfold_locales (simp_all add: sha256_text_def payload_simps)

interpretation thumbprint_field: field_normaliser thumbprint_text JStr
  by unfold_locales (simp_all add: thumbprint_text_def payload_simps)

interpretation provider_field: field_normaliser provider_name JStr
  by unfold_locales (simp_all add: provider_name_def payload_simps)

interpretation argument_field: field_normaliser argument_of JStr
  by unfold_locales (simp_all add: argument_of_def payload_simps)

interpretation version_field: field_normaliser "version_text u" JStr for u
  by unfold_locales (simp_all add: version_text_def payload_simps)

interpretation url_field: field_normaliser https_url JStr
  by unfold_locales (simp_all add: https_url_def payload_simps)

interpretation stripped_field: field_normaliser "stripped_text lo hi" JStr for lo hi
  by unfold_locales (auto simp: stripped_text_def payload_simps Let_def split: option.splits)

lemma package_id_reread: "package_id_of j = Inr s \<Longrightarrow> package_id_of (JStr s) = Inr s"
  by (auto simp: package_id_of_def payload_simps Let_def)

interpretation package_field: field_normaliser package_id_of JStr
  by unfold_locales (simp_all add: package_id_reread)

interpretation process_field: field_normaliser "process_name_of u" JStr for u
  by unfold_locales (auto simp: process_name_of_def payload_simps Let_def)

interpretation release_id_field: field_normaliser release_id_of JStr
  by unfold_locales (simp_all add: release_id_of_def payload_simps)

interpretation platform_field: field_normaliser platform_of JStr
  by unfold_locales (simp_all add: platform_of_def payload_simps)

interpretation provider_list: field_normaliser providers_of "\<lambda>ss. JArr (map JStr ss)"
  using provider_field.list_normaliser unfolding providers_of_def .

interpretation argument_list: field_normaliser arguments_of "\<lambda>ss. JArr (map JStr ss)"
  using argument_field.list_normaliser unfolding arguments_of_def .

interpretation code_list: field_normaliser "codes_of n" "\<lambda>ns. JArr (map JInt ns)" for n
  using int_field.list_normaliser unfolding codes_of_def .

interpretation level_list: field_normaliser levels_of "\<lambda>ns. JArr (map JInt ns)"
  unfolding levels_of_def by unfold_locales (auto dest: int_field.list_reread)

text \<open>What an accepted payload satisfies, as one conjunction.\<close>

lemmas accepted = need_Inr and_then_Inr one_of_JStr bool_of_JBool object_of_JObj sum.inject split_paired_Ex prod.case

lemma reboot_settings_reread: "reboot_settings_of j = Inr r \<Longrightarrow> reboot_settings_of (JObj r) = Inr r"
proof -
  assume j: "reboot_settings_of j = Inr r"
  then obtain o1 policy where o1: "policy \<in> set (map ustr [''never'', ''if_required'', ''forced''])"
    "(if policy = ustr ''never'' then Inr [(ustr ''policy'', JStr policy)]
     else and_then (int_between 60 3600 (pget ''delay_seconds'' o1)) (\<lambda>delay.
       and_then (bool_of (pget_or (JBool True) ''requires_no_user'' o1)) (\<lambda>alone.
         Inr [(ustr ''policy'', JStr policy), (ustr ''delay_seconds'', JInt delay), (ustr ''requires_no_user'', JBool alone)]))) = Inr r"
    unfolding reboot_settings_of_def accepted by blast
  show ?thesis
  proof (cases "policy = ustr ''never''")
    case True
    then show ?thesis using o1(2) by (auto simp: reboot_settings_of_def payload_simps)
  next
    case False
    then obtain delay alone where "int_between 60 3600 (pget ''delay_seconds'' o1) = Inr delay"
      "r = [(ustr ''policy'', JStr policy), (ustr ''delay_seconds'', JInt delay), (ustr ''requires_no_user'', JBool alone)]"
      using o1(2) by auto
    then show ?thesis
      using o1(1) False by (simp add: reboot_settings_of_def payload_simps)
  qed
qed

interpretation reboot_field: field_normaliser reboot_settings_of JObj
  by unfold_locales (simp_all add: reboot_settings_reread)

lemma artifact_reread: "artifact_of j = Inr a \<Longrightarrow> artifact_of (JObj a) = Inr a"
proof -
  assume "artifact_of j = Inr a"
  then obtain o1 url sha n where "https_url (pget ''url'' o1) = Inr url" "sha256_text (pget ''sha256'' o1) = Inr sha"
    "int_between 1 (256 * 1024 * 1024) (pget ''size_bytes'' o1) = Inr n"
    "a = [(ustr ''url'', JStr url), (ustr ''sha256'', JStr sha), (ustr ''size_bytes'', JInt n)]"
    unfolding artifact_of_def accepted by blast
  then show ?thesis using url_field.reread sha_field.reread int_field.reread by (simp add: artifact_of_def payload_simps)
qed

interpretation health_field: field_normaliser health_check_of JObj
  by unfold_locales (auto simp: health_check_of_def payload_simps)

section \<open>The rules without a text to fold\<close>

lemma power_again: "validate_power p = Inr q \<Longrightarrow> validate_power q = Inr q"
proof -
  assume "validate_power p = Inr q"
  then obtain reason delay consent where "stripped_text 10 512 (pget ''reason'' p) = Inr reason"
    "int_between 30 3600 (pget ''delay_seconds'' p) = Inr delay" "consent \<in> set (map ustr [''confirmed'', ''no_user_session''])"
    "q = [(ustr ''confirm'', JBool True), (ustr ''reason'', JStr reason), (ustr ''delay_seconds'', JInt delay),
         (ustr ''user_consent'', JStr consent)]"
    unfolding validate_power_def accepted by blast
  then show ?thesis using stripped_field.reread by (simp add: validate_power_def confirmed_def payload_simps)
qed

lemma cancel_power_again: "validate_cancel_power p = Inr q \<Longrightarrow> validate_cancel_power q = Inr q"
  using stripped_field.reread by (auto simp: validate_cancel_power_def confirmed_def payload_simps)

lemma channel_again: "event_log_channel j = Inr (c, e) \<Longrightarrow> event_log_channel (JStr c) = Inr (c, e)"
  by (auto simp: event_log_channel_def payload_simps)

lemma event_log_again: "validate_event_log_query p = Inr q \<Longrightarrow> validate_event_log_query q = Inr q"
proof -
  assume "validate_event_log_query p = Inr q"
  then obtain channel elevated window max_events providers levels event_ids cursor where
    c: "event_log_channel (pget ''channel'' p) = Inr (channel, elevated)"
    and w: "int_between 60 (7 * 24 * 3600) (pget ''time_window_seconds'' p) = Inr window"
      "int_between 1 500 (pget ''max_events'' p) = Inr max_events"
    and o: "optional providers_of (pget ''providers'' p) = Inr providers" "optional levels_of (pget ''levels'' p) = Inr levels"
      "optional (codes_of 1) (pget ''event_ids'' p) = Inr event_ids"
      "optional (int_between 0 (2 ^ 63 - 1)) (pget ''cursor'' p) = Inr cursor"
    and q: "q = [(ustr ''channel'', JStr channel), (ustr ''tier_ack'', JBool elevated), (ustr ''time_window_seconds'', JInt window),
           (ustr ''max_events'', JInt max_events)]
         @ field_if ''providers'' (\<lambda>ss. JArr (map JStr ss)) providers @ field_if ''levels'' (\<lambda>ns. JArr (map JInt ns)) levels
         @ field_if ''event_ids'' (\<lambda>ns. JArr (map JInt ns)) event_ids @ field_if ''cursor'' JInt cursor"
    unfolding validate_event_log_query_def accepted by blast
  note o' = provider_list.optional_reread [OF o(1)] level_list.optional_reread [OF o(2)]
    code_list.optional_reread [OF o(3)] int_field.optional_reread [OF o(4)]
  note w' = int_field.reread [OF w(1)] int_field.reread [OF w(2)]
  have keys: "only_keys [''channel'', ''tier_ack'', ''time_window_seconds'', ''providers'', ''levels'', ''event_ids'',
      ''max_events'', ''cursor''] q" by (simp add: q payload_simps)
  have get: "pget ''channel'' q = JStr channel" "pget_or (JBool False) ''tier_ack'' q = JBool elevated"
    "pget ''time_window_seconds'' q = JInt window" "pget ''max_events'' q = JInt max_events"
    "pget ''providers'' q = (case providers of None \<Rightarrow> JNull | Some v \<Rightarrow> JArr (map JStr v))"
    "pget ''levels'' q = (case levels of None \<Rightarrow> JNull | Some v \<Rightarrow> JArr (map JInt v))"
    "pget ''event_ids'' q = (case event_ids of None \<Rightarrow> JNull | Some v \<Rightarrow> JArr (map JInt v))"
    "pget ''cursor'' q = (case cursor of None \<Rightarrow> JNull | Some v \<Rightarrow> JInt v)"
    by (simp_all add: q payload_simps cong: option.case_cong)
  show ?thesis
    unfolding validate_event_log_query_def get channel_again [OF c] w' o' accepted and_then_step prod.case
    using keys by (simp add: bool_of_def q)
qed

lemma package_scan_again: "validate_package_scan p = Inr q \<Longrightarrow> validate_package_scan q = Inr q"
proof -
  assume "validate_package_scan p = Inr q"
  then obtain provider where o: "optional (one_of PACKAGE_PROVIDERS) (pget ''provider'' p) = Inr provider"
    and q: "q = field_if ''provider'' JStr provider"
    unfolding validate_package_scan_def accepted by blast
  have "pget ''provider'' q = (case provider of None \<Rightarrow> JNull | Some v \<Rightarrow> JStr v)" by (simp add: q payload_simps cong: option.case_cong)
  with choice_field.optional_reread [OF o] show ?thesis by (simp add: validate_package_scan_def q payload_simps)
qed

lemma first_seen_idem: "first_seen (first_seen xs) = first_seen xs"
  by (simp add: first_seen_def)

lemma first_seen_set [simp]: "set (first_seen xs) = set xs"
  by (simp add: first_seen_def)

lemma first_seen_length: "length (first_seen xs) \<le> length xs"
  by (simp add: first_seen_def) (metis length_remdups_leq length_rev)

lemma first_seen_Nil [simp]: "first_seen xs = [] \<longleftrightarrow> xs = []"
  by (simp add: first_seen_def)

context field_normaliser
begin

lemma each_first_seen: "each reads js = Inr xs \<Longrightarrow> each reads (map encoded (first_seen xs)) = Inr (first_seen xs)"
  using each_values [of js xs] by (intro each_again) (auto simp: list_all_iff)

end

lemma package_ids_again:
  assumes "normalize_package_ids j = Inr ids"
  shows "normalize_package_ids (JArr (map JStr ids)) = Inr ids"
proof -
  obtain js xs where js: "1 \<le> length js" "length js \<le> 100" "each package_id_of js = Inr xs" "ids = first_seen xs"
    using assms unfolding normalize_package_ids_def accepted list_of_JArr by blast
  have "length xs = length js" using package_field.each_values [OF js(3)] by simp
  then have "1 \<le> length ids \<and> length ids \<le> 100"
    using js first_seen_length [of xs] by (cases xs) (auto simp: Suc_le_eq)
  then show ?thesis
    unfolding normalize_package_ids_def
    using package_field.each_first_seen [OF js(3)] by (auto simp: list_of_JArr js(4) first_seen_idem)
qed

lemma package_install_again: "validate_package_install p = Inr q \<Longrightarrow> validate_package_install q = Inr q"
proof -
  assume v: "validate_package_install p = Inr q"
  let ?base = "\<lambda>provider operation ids. [(ustr ''provider'', JStr provider), (ustr ''operation'', JStr operation),
      (ustr ''package_ids'', JArr (map JStr ids))]"
  obtain provider operation ids where
    c: "provider \<in> set (map ustr PACKAGE_PROVIDERS)" "operation \<in> set (map ustr [''install'', ''upgrade''])"
      "normalize_package_ids (pget ''package_ids'' p) = Inr ids"
    and rest: "(if provider = ustr ''winget''
     then need (list_all (\<lambda>k. map_of p (ustr k) = None) [''source'', ''source_digest'', ''signer'']) (Inr (?base provider operation ids))
     else and_then (stripped_text 1 512 (pget ''source'' p)) (\<lambda>source.
       and_then (sha256_text (pget ''source_digest'' p)) (\<lambda>digest.
       and_then (stripped_text 1 255 (pget ''signer'' p)) (\<lambda>signer.
         Inr (?base provider operation ids @
           [(ustr ''source'', JStr source), (ustr ''source_digest'', JStr digest), (ustr ''signer'', JStr signer)]))))) = Inr q"
    using v unfolding validate_package_install_def accepted Let_def by blast
  note ids = package_ids_again [OF c(3)]
  show ?thesis
  proof (cases "provider = ustr ''winget''")
    case True
    then show ?thesis using rest c ids by (auto simp: validate_package_install_def payload_simps)
  next
    case False
    then obtain source digest signer where f: "stripped_text 1 512 (pget ''source'' p) = Inr source"
      "sha256_text (pget ''source_digest'' p) = Inr digest" "stripped_text 1 255 (pget ''signer'' p) = Inr signer"
      and q: "q = ?base provider operation ids @
        [(ustr ''source'', JStr source), (ustr ''source_digest'', JStr digest), (ustr ''signer'', JStr signer)]"
      using rest by (auto simp del: One_nat_def)
    note f' = stripped_field.reread [OF f(1)] sha_field.reread [OF f(2)] stripped_field.reread [OF f(3)]
    have get: "pget ''provider'' q = JStr provider" "pget ''operation'' q = JStr operation"
      "pget ''package_ids'' q = JArr (map JStr ids)" "pget ''source'' q = JStr source"
      "pget ''source_digest'' q = JStr digest" "pget ''signer'' q = JStr signer"
      by (simp_all add: q payload_simps)
    have o: "one_of PACKAGE_PROVIDERS (JStr provider) = Inr provider" "one_of [''install'', ''upgrade''] (JStr operation) = Inr operation"
      using c by (simp_all add: one_of_JStr)
    show ?thesis
      unfolding validate_package_install_def get o ids f' and_then_step Let_def
      using False by (simp add: q payload_simps)
  qed
qed

lemma deploy_again: "validate_software_deploy p = Inr q \<Longrightarrow> validate_software_deploy q = Inr q"
proof -
  assume "validate_software_deploy p = Inr q"
  then obtain url sha installer arguments timeout thumbprint codes settings where
    f: "https_url (pget ''url'' p) = Inr url" "sha256_text (pget ''sha256'' p) = Inr sha"
      "one_of [''msi'', ''exe''] (pget ''installer_type'' p) = Inr installer"
      "arguments_of (pget_or (JArr []) ''arguments'' p) = Inr arguments"
      "int_between 30 3600 (pget ''timeout_seconds'' p) = Inr timeout"
      "optional thumbprint_text (pget ''signer_thumbprint'' p) = Inr thumbprint"
      "optional (codes_of 0) (pget ''success_exit_codes'' p) = Inr codes"
      "optional reboot_settings_of (pget ''reboot'' p) = Inr settings"
    and q: "q = [(ustr ''url'', JStr url), (ustr ''sha256'', JStr sha), (ustr ''installer_type'', JStr installer),
           (ustr ''arguments'', JArr (map JStr arguments)), (ustr ''timeout_seconds'', JInt timeout)]
         @ field_if ''signer_thumbprint'' JStr thumbprint
         @ field_if ''success_exit_codes'' (\<lambda>ns. JArr (map JInt ns)) codes @ field_if ''reboot'' JObj settings"
    unfolding validate_software_deploy_def need_Inr and_then_Inr sum.inject by blast
  note f' = url_field.reread [OF f(1)] sha_field.reread [OF f(2)] choice_field.reread [OF f(3)] argument_list.reread [OF f(4)]
    int_field.reread [OF f(5)] thumbprint_field.optional_reread [OF f(6)] code_list.optional_reread [OF f(7)]
    reboot_field.optional_reread [OF f(8)]
  have get: "pget ''url'' q = JStr url" "pget ''sha256'' q = JStr sha" "pget ''installer_type'' q = JStr installer"
    "pget_or (JArr []) ''arguments'' q = JArr (map JStr arguments)" "pget ''timeout_seconds'' q = JInt timeout"
    "pget ''signer_thumbprint'' q = (case thumbprint of None \<Rightarrow> JNull | Some v \<Rightarrow> JStr v)"
    "pget ''success_exit_codes'' q = (case codes of None \<Rightarrow> JNull | Some v \<Rightarrow> JArr (map JInt v))"
    "pget ''reboot'' q = (case settings of None \<Rightarrow> JNull | Some v \<Rightarrow> JObj v)"
    by (simp_all add: q payload_simps cong: option.case_cong)
  have keys: "only_keys [''url'', ''sha256'', ''installer_type'', ''arguments'', ''signer_thumbprint'', ''timeout_seconds'',
       ''success_exit_codes'', ''reboot''] q"
    by (simp add: q payload_simps)
  show ?thesis
    unfolding validate_software_deploy_def get f' and_then_step using keys by (simp add: q)
qed

lemma self_update_again: "validate_agent_self_update u p = Inr q \<Longrightarrow> validate_agent_self_update u q = Inr q"
proof -
  assume "validate_agent_self_update u p = Inr q"
  then obtain release_id version minimum channel platform artifact thumbprint health where
    f: "release_id_of (pget ''release_id'' p) = Inr release_id" "version_text u (pget ''version'' p) = Inr version"
      "version_text u (pget ''min_supported_version'' p) = Inr minimum"
      "one_of [''stable'', ''beta'', ''canary''] (pget ''channel'' p) = Inr channel"
      "platform_of (pget ''platform'' p) = Inr platform" "artifact_of (pget ''artifact'' p) = Inr artifact"
      "optional thumbprint_text (pget ''signer_thumbprint'' p) = Inr thumbprint"
      "optional health_check_of (pget ''health_check'' p) = Inr health"
    and q: "q = [(ustr ''release_id'', JStr release_id), (ustr ''version'', JStr version), (ustr ''channel'', JStr channel),
           (ustr ''platform'', JStr platform), (ustr ''artifact'', JObj artifact), (ustr ''min_supported_version'', JStr minimum)]
         @ field_if ''signer_thumbprint'' JStr thumbprint @ field_if ''health_check'' JObj health"
    unfolding validate_agent_self_update_def need_Inr and_then_Inr sum.inject Let_def by blast
  note f' = release_id_field.reread [OF f(1)] version_field.reread [OF f(2)] version_field.reread [OF f(3)]
    choice_field.reread [OF f(4)] platform_field.reread [OF f(5)] artifact_reread [OF f(6)]
    thumbprint_field.optional_reread [OF f(7)] health_field.optional_reread [OF f(8)]
  have get: "pget ''release_id'' q = JStr release_id" "pget ''version'' q = JStr version"
    "pget ''min_supported_version'' q = JStr minimum" "pget ''channel'' q = JStr channel" "pget ''platform'' q = JStr platform"
    "pget ''artifact'' q = JObj artifact"
    "pget ''signer_thumbprint'' q = (case thumbprint of None \<Rightarrow> JNull | Some v \<Rightarrow> JStr v)"
    "pget ''health_check'' q = (case health of None \<Rightarrow> JNull | Some v \<Rightarrow> JObj v)"
    by (simp_all add: q payload_simps cong: option.case_cong)
  show ?thesis
    unfolding validate_agent_self_update_def get f' and_then_step Let_def by (simp add: q payload_simps)
qed

lemma rollback_again: "validate_agent_update_rollback u p = Inr q \<Longrightarrow> validate_agent_update_rollback u q = Inr q"
proof -
  assume "validate_agent_update_rollback u p = Inr q"
  then obtain reason expected where f: "stripped_text 10 256 (pget ''reason'' p) = Inr reason"
      "optional (version_text u) (pget ''expected_current_version'' p) = Inr expected"
    and q: "q = [(ustr ''reason'', JStr reason), (ustr ''confirm'', JBool True)]
         @ field_if ''expected_current_version'' JStr expected"
    unfolding validate_agent_update_rollback_def need_Inr and_then_Inr sum.inject by blast
  have get: "pget ''reason'' q = JStr reason"
    "pget ''expected_current_version'' q = (case expected of None \<Rightarrow> JNull | Some v \<Rightarrow> JStr v)"
    by (simp_all add: q payload_simps cong: option.case_cong)
  show ?thesis
    unfolding validate_agent_update_rollback_def get stripped_field.reread [OF f(1)] version_field.optional_reread [OF f(2)]
      and_then_step by (simp add: q payload_simps confirmed_def)
qed

lemma terminate_again: "validate_process_terminate u p = Inr q \<Longrightarrow> validate_process_terminate u q = Inr q"
proof -
  assume "validate_process_terminate u p = Inr q"
  then obtain pid reason name where f: "pid_of (pget ''pid'' p) = Inr pid" "stripped_text 10 512 (pget ''reason'' p) = Inr reason"
      "optional (process_name_of u) (pget ''expected_name'' p) = Inr name"
    and q: "q = [(ustr ''pid'', JInt pid), (ustr ''confirm'', JBool True), (ustr ''reason'', JStr reason)]
         @ field_if ''expected_name'' JStr (case name of Some [] \<Rightarrow> None | _ \<Rightarrow> name)"
    unfolding validate_process_terminate_def need_Inr and_then_Inr sum.inject by blast
  let ?kept = "case name of Some [] \<Rightarrow> None | _ \<Rightarrow> name"
  have pid: "pid_of (JInt pid) = Inr pid" using f(1) by (auto simp: pid_of_def split: json.splits)
  have get: "pget ''pid'' q = JInt pid" "pget ''reason'' q = JStr reason"
    "pget ''expected_name'' q = (case ?kept of None \<Rightarrow> JNull | Some v \<Rightarrow> JStr v)"
    by (simp_all add: q payload_simps cong: option.case_cong)
  have "optional (process_name_of u) (case ?kept of None \<Rightarrow> JNull | Some v \<Rightarrow> JStr v) = Inr ?kept"
    using process_field.optional_reread [OF f(3)] by (auto simp: optional_def split: option.splits list.splits)
  moreover have "(case ?kept of Some [] \<Rightarrow> None | _ \<Rightarrow> ?kept) = ?kept" by (simp split: option.splits list.splits)
  ultimately show ?thesis
    unfolding validate_process_terminate_def get pid stripped_field.reread [OF f(2)] and_then_step
    by (simp add: q payload_simps confirmed_def)
qed

text \<open>A service name that consists of spaces is accepted and becomes empty, which is refused.\<close>

lemma control_again:
  assumes "validate_service_control u p = Inr q" "pget ''name'' q \<noteq> JStr []"
  shows "validate_service_control u q = Inr q"
proof -
  obtain name action reason where f: "service_name_of u (pget ''name'' p) = Inr name"
      "one_of [''start'', ''stop'', ''restart''] (pget ''action'' p) = Inr action"
      "stripped_text 10 512 (pget ''reason'' p) = Inr reason"
    and q: "q = [(ustr ''name'', JStr name), (ustr ''action'', JStr action), (ustr ''confirm'', JBool True),
         (ustr ''reason'', JStr reason)]"
    using assms(1) unfolding validate_service_control_def need_Inr and_then_Inr sum.inject by blast
  have get: "pget ''name'' q = JStr name" "pget ''action'' q = JStr action" "pget ''reason'' q = JStr reason"
    by (simp_all add: q payload_simps)
  have "service_name_of u (JStr name) = Inr name"
  proof -
    obtain raw where raw: "pget ''name'' p = JStr raw" "length raw \<le> 256"
      "list_all (\<lambda>c. alnum c \<or> c \<in> set [95, 46, 45, 32]) raw" "name = strip raw"
      "lower u name \<notin> set (map ustr PROTECTED_SERVICES)"
      using f(1) unfolding service_name_of_def need_Inr and_then_Inr sum.inject text_of_JStr Let_def by blast
    have "length name \<le> 256" using raw(2,4) strip_by_length [of is_space raw] by (simp add: strip_is_strip_by)
    moreover have "list_all (\<lambda>c. alnum c \<or> c \<in> set [95, 46, 45, 32]) name"
      using raw(3) strip_by_set [of is_space raw] unfolding raw(4) strip_is_strip_by list_all_iff by blast
    moreover have "name \<noteq> []" using assms(2) get(1) by simp
    ultimately show ?thesis using raw(4,5) by (simp add: service_name_of_def text_of_def Suc_le_eq)
  qed
  then show ?thesis
    unfolding validate_service_control_def get choice_field.reread [OF f(2)] stripped_field.reread [OF f(3)] and_then_step
    by (simp add: q payload_simps confirmed_def)
qed

section \<open>Paths and registry keys\<close>

lemma to_backslash_strip: "strip (to_backslash s) = to_backslash (strip s)"
proof -
  have "is_space \<circ> (\<lambda>c. if c = 47 then 92 else c) = is_space" by (auto simp: is_space_def fun_eq_iff)
  then show ?thesis by (simp add: strip_def to_backslash_def dropWhile_map rev_map)
qed

lemma to_backslash_idem [simp]: "to_backslash (to_backslash s) = to_backslash s"
  by (simp add: to_backslash_def)

lemma path_again: "validate_managed_windows_path u j = Inr s \<Longrightarrow> validate_managed_windows_path u (JStr s) = Inr s"
  unfolding validate_managed_windows_path_def and_then_Inr text_of_JStr need_Inr Let_def
  by (auto simp: to_backslash_strip)

interpretation path_field: field_normaliser "validate_managed_windows_path u" JStr for u
  by unfold_locales (simp_all add: path_again)

lemma upload_again: "validate_file_upload u h p = Inr q \<Longrightarrow> validate_file_upload u h q = Inr q"
proof -
  assume "validate_file_upload u h p = Inr q"
  then obtain path digest overwrite encoded decoded where
    f: "validate_managed_windows_path u (pget ''path'' p) = Inr path" "sha256_text (pget ''sha256'' p) = Inr digest"
      "base64_of (32 * 1024) (pget ''content_base64'' p) = Inr (encoded, decoded)" "ustr (h decoded) = digest"
    and q: "q = [(ustr ''path'', JStr path), (ustr ''content_base64'', JStr encoded), (ustr ''sha256'', JStr digest),
         (ustr ''overwrite'', JBool overwrite)]"
    unfolding validate_file_upload_def accepted by blast
  have get: "pget ''path'' q = JStr path" "pget ''content_base64'' q = JStr encoded" "pget ''sha256'' q = JStr digest"
    "pget ''overwrite'' q = JBool overwrite"
    by (simp_all add: q payload_simps)
  have "base64_of (32 * 1024) (JStr encoded) = Inr (encoded, decoded)"
    using f(3) unfolding base64_of_def by (auto simp: text_of_JStr split: option.splits)
  then show ?thesis
    unfolding validate_file_upload_def get path_again [OF f(1)] sha_field.reread [OF f(2)] and_then_step
    using f(4) by (simp add: q payload_simps bool_of_def)
qed

lemma download_again: "validate_file_download u p = Inr q \<Longrightarrow> validate_file_download u q = Inr q"
proof -
  assume "validate_file_download u p = Inr q"
  then obtain path expected where f: "validate_managed_windows_path u (pget ''path'' p) = Inr path"
      "optional sha256_text (pget ''expected_sha256'' p) = Inr expected"
    and q: "q = (ustr ''path'', JStr path) # field_if ''expected_sha256'' JStr expected"
    unfolding validate_file_download_def need_Inr and_then_Inr sum.inject by blast
  have get: "pget ''path'' q = JStr path"
    "pget ''expected_sha256'' q = (case expected of None \<Rightarrow> JNull | Some v \<Rightarrow> JStr v)"
    by (simp_all add: q payload_simps cong: option.case_cong)
  show ?thesis
    unfolding validate_file_download_def get path_again [OF f(1)] sha_field.optional_reread [OF f(2)] and_then_step
    by (simp add: q payload_simps)
qed

text \<open>Stripping the backslashes can leave white space at the end of a registry key, which a second pass removes.\<close>

lemma registry_key_again:
  assumes "registry_key_of u j = Inr key" "strip key = key"
  shows "registry_key_of u (JStr key) = Inr key"
proof -
  obtain raw where "key = strip_by (\<lambda>c. c = 92) (to_backslash (strip raw))"
    "length key \<le> 240 \<and> ustr ''..'' \<notin> set (split_on 92 key) \<and> under REGISTRY_ROOT (casefold u key)"
    using assms(1) unfolding registry_key_of_def need_Inr and_then_Inr sum.inject Let_def by blast
  moreover from this(1) have "set key \<subseteq> set (to_backslash (strip raw))" by (simp add: strip_by_set)
  then have "47 \<notin> set key" by (auto simp: to_backslash_def)
  then have "to_backslash key = key" by (auto simp: to_backslash_def intro!: map_idI)
  ultimately show ?thesis using assms(2) by (simp add: registry_key_of_def text_of_JStr)
qed

lemma registry_location_again:
  assumes "validate_registry_location u p = Inr l" "strip key = key" "pget ''key'' l = JStr key"
    "pget ''hive'' q = pget ''hive'' l" "pget ''key'' q = pget ''key'' l" "pget ''value_name'' q = pget ''value_name'' l"
    "pget_or (JInt 64) ''view'' q = pget ''view'' l"
  shows "validate_registry_location u q = Inr l"
proof -
  obtain hive k name view where f: "one_of [''HKLM'', ''HKCU''] (pget ''hive'' p) = Inr hive"
      "registry_key_of u (pget ''key'' p) = Inr k" "value_name_of (pget ''value_name'' p) = Inr name"
      "view_of (pget_or (JInt 64) ''view'' p) = Inr view"
    and l: "l = [(ustr ''hive'', JStr hive), (ustr ''key'', JStr k), (ustr ''value_name'', JStr name), (ustr ''view'', JInt view)]"
    using assms(1) unfolding validate_registry_location_def and_then_Inr sum.inject by blast
  have get: "pget ''hive'' l = JStr hive" "pget ''key'' l = JStr k" "pget ''value_name'' l = JStr name" "pget ''view'' l = JInt view"
    by (simp_all add: l payload_simps)
  have "k = key" using assms(3) get(2) by simp
  then have "registry_key_of u (JStr k) = Inr k" using registry_key_again [OF f(2)] assms(2) by simp
  moreover have "value_name_of (JStr name) = Inr name" using f(3) by (auto simp: value_name_of_def text_of_JStr)
  moreover have "view_of (JInt view) = Inr view" using f(4) by (auto simp: view_of_def split: json.splits if_splits)
  ultimately show ?thesis
    unfolding validate_registry_location_def assms(4-) get choice_field.reread [OF f(1)] and_then_step by (simp add: l)
qed

lemma registry_again:
  assumes "validate_registry u kind p = Inr q" "pget ''key'' q = JStr key" "strip key = key"
  shows "validate_registry u kind q = Inr q"
proof -
  obtain l specific expected where f: "validate_registry_location u p = Inr l"
      "registry_specific kind p = Inr specific" "optional sha256_text (pget ''expected_current_sha256'' p) = Inr expected"
    and keys: "only_keys ([''hive'', ''key'', ''value_name'', ''view''] @ registry_extra_keys kind) p"
    and q: "q = l @ specific @ field_if ''expected_current_sha256'' JStr expected"
    using assms(1) unfolding validate_registry_def need_Inr and_then_Inr sum.inject by blast
  obtain hive k name view where
    l: "l = [(ustr ''hive'', JStr hive), (ustr ''key'', JStr k), (ustr ''value_name'', JStr name), (ustr ''view'', JInt view)]"
    using f(1) unfolding validate_registry_location_def and_then_Inr sum.inject by blast
  have e: "expected = None \<or> kind = registry_write \<or> kind = registry_delete"
  proof (cases "pget ''expected_current_sha256'' p = JNull")
    case True
    then show ?thesis using f(3) by (simp add: optional_def)
  next
    case False
    then obtain v where "(ustr ''expected_current_sha256'', v) \<in> set p"
      by (auto simp: pget_def split: option.splits dest: map_of_SomeD)
    then have "''expected_current_sha256'' \<in> set ([''hive'', ''key'', ''value_name'', ''view''] @ registry_extra_keys kind)"
      using keys by (force simp: only_keys_def list_all_iff ustr_inj)
    then show ?thesis by (auto simp: registry_extra_keys_def split: CommandKind.splits)
  qed
  have specific: "specific = [] \<and> kind \<noteq> registry_write \<and> kind \<noteq> registry_delete \<or>
      kind = registry_delete \<and> specific = [(ustr ''confirm'', JBool True)] \<or>
      kind = registry_write \<and> (\<exists>t data. specific = [(ustr ''type'', JStr t), (ustr ''data'', data)] \<and>
        t \<in> set (map ustr REGISTRY_TYPES) \<and> registry_data_ok t data)"
    using f(2) by (auto simp: registry_specific_def one_of_JStr split: if_splits)
  have get: "pget ''hive'' q = pget ''hive'' l" "pget ''key'' q = pget ''key'' l" "pget ''value_name'' q = pget ''value_name'' l"
    "pget_or (JInt 64) ''view'' q = pget ''view'' l"
    by (simp_all add: q l payload_simps)
  have expected: "pget ''expected_current_sha256'' q = (case expected of None \<Rightarrow> JNull | Some v \<Rightarrow> JStr v)"
    using specific by (elim disjE conjE exE) (simp_all add: q l payload_simps cong: option.case_cong)
  have again: "registry_specific kind q = Inr specific"
    using specific by (elim disjE conjE exE) (simp_all add: registry_specific_def q l payload_simps confirmed_def)
  have "only_keys ([''hive'', ''key'', ''value_name'', ''view''] @ registry_extra_keys kind) q"
    using specific e by (elim disjE conjE exE) (simp_all add: q l payload_simps registry_extra_keys_def)
  moreover have "has_keys [''hive'', ''key'', ''value_name''] q" by (simp add: q l payload_simps)
  moreover have "validate_registry_location u q = Inr l"
    using registry_location_again [OF f(1) assms(3) _ get] assms(2) get(2) by simp
  ultimately show ?thesis
    unfolding validate_registry_def expected sha_field.optional_reread [OF f(3)] again by (simp add: q)
qed

section \<open>Windows updates\<close>

lemma kb_again:
  assumes "ascii_case u" "kb_of u j = Inr kb"
  shows "kb_of u (JStr kb) = Inr kb"
proof -
  have k: "take 2 kb = ustr ''KB'' \<and> 4 \<le> length (drop 2 kb) \<and> length (drop 2 kb) \<le> 10 \<and> list_all ascii_digit (drop 2 kb)"
    using assms(2) unfolding kb_of_def need_Inr and_then_Inr sum.inject Let_def by blast
  then obtain ds where kb: "kb = 75 # 66 # ds" "list_all ascii_digit ds"
    by (cases kb; cases "tl kb") (auto simp: ustr_def)
  have "ascii kb" using kb by (auto simp: ascii_def ascii_digit_def list_all_iff)
  moreover have "map (\<lambda>c. if 97 \<le> c \<and> c \<le> 122 then c - 32 else c) kb = kb"
    using kb by (auto simp: ascii_digit_def list_all_iff intro!: map_idI)
  ultimately have "upper u kb = kb" using assms(1) by (simp add: ascii_case_def)
  moreover have "strip kb = kb" using kb by (intro strip_no_space) (auto simp: ascii_digit_def is_space_def list_all_iff)
  ultimately show ?thesis using k by (auto simp: kb_of_def text_of_JStr Let_def)
qed

lemma update_id_again:
  assumes "ascii_case u" "update_id_of u j = Inr s"
  shows "update_id_of u (JStr s) = Inr s"
proof -
  have s: "map length (split_on 45 s) = [8, 4, 4, 4, 12] \<and> list_all (\<lambda>c. lower_hex c \<or> c = 45) s"
    using assms(2) by (auto simp: update_id_of_def Let_def)
  then have c: "\<forall>c \<in> set s. (48 \<le> c \<and> c \<le> 57) \<or> (97 \<le> c \<and> c \<le> 102) \<or> c = 45"
    by (auto simp: list_all_iff lower_hex_def ascii_digit_def)
  have "ascii s" using c by (fastforce simp: ascii_def list_all_iff)
  moreover have "map (\<lambda>c. if 65 \<le> c \<and> c \<le> 90 then c + 32 else c) s = s" using c by (fastforce intro!: map_idI)
  ultimately have "lower u s = s" using assms(1) by (simp add: ascii_case_def)
  moreover have "strip s = s" using c by (intro strip_no_space) (fastforce simp: is_space_def list_all_iff)
  ultimately show ?thesis using s by (auto simp: update_id_of_def text_of_JStr Let_def)
qed

lemma each_fields_again:
  assumes "\<And>j x. reads j = Inr x \<Longrightarrow> reads (JStr x) = Inr x" "each reads js = Inr xs"
  shows "each reads (map JStr (first_seen xs)) = Inr (first_seen xs)" "length xs = length js"
proof -
  have n: "field_normaliser reads JStr" using assms(1) by unfold_locales simp_all
  show "each reads (map JStr (first_seen xs)) = Inr (first_seen xs)"
    by (rule field_normaliser.each_first_seen [OF n assms(2)])
  show "length xs = length js" using field_normaliser.each_values [OF n assms(2)] by simp
qed

lemma install_updates_again:
  assumes u: "ascii_case u" and v: "validate_install_updates u p = Inr q"
  shows "validate_install_updates u q = Inr q"
proof -
  obtain install_all kbs legacy ids ks us where
    a: "pget_or (JBool False) ''install_all'' p = JBool install_all" "pget_or (JArr []) ''kb_ids'' p = JArr kbs"
      "pget_or (JArr []) ''target_kbs'' p = JArr legacy" "pget_or (JArr []) ''update_ids'' p = JArr ids"
    and n: "length (kbs @ legacy) + length ids \<le> 100" "install_all \<or> kbs @ legacy \<noteq> [] \<or> ids \<noteq> []"
    and e: "each (kb_of u) (kbs @ legacy) = Inr ks" "each (update_id_of u) ids = Inr us"
    and q: "q = (if install_all then [(ustr ''install_all'', JBool True)]
      else [(ustr ''kb_ids'', JArr (map JStr (first_seen ks))), (ustr ''update_ids'', JArr (map JStr (first_seen us)))])"
    using v unfolding validate_install_updates_def accepted array_of_JArr by blast
  note k = each_fields_again [OF kb_again [OF u] e(1)] and i = each_fields_again [OF update_id_again [OF u] e(2)]
  show ?thesis
  proof (cases install_all)
    case True
    then show ?thesis by (simp add: q validate_install_updates_def payload_simps bool_of_def)
  next
    case False
    have "length (first_seen ks) + length (first_seen us) \<le> 100"
      using n(1) k(2) i(2) first_seen_length [of ks] first_seen_length [of us] by simp
    moreover have "first_seen ks \<noteq> [] \<or> first_seen us \<noteq> []" using n(2) False k(2) i(2) by auto
    ultimately show ?thesis
      using False k(1) i(1) by (simp add: q validate_install_updates_def payload_simps bool_of_def first_seen_idem)
  qed
qed

section \<open>All kinds\<close>

lemmas rules_again = power_again cancel_power_again upload_again download_again event_log_again package_scan_again
  package_install_again deploy_again terminate_again self_update_again rollback_again

text \<open>The two inputs that a second pass changes: a blank service name and a registry key that ends in white space.\<close>

definition settled :: "CommandKind \<Rightarrow> payload \<Rightarrow> bool" where
  "settled kind q \<longleftrightarrow>
     (kind = control_service \<longrightarrow> pget ''name'' q \<noteq> JStr []) \<and>
     (kind \<in> {registry_read, registry_write, registry_delete} \<longrightarrow> (\<exists>key. pget ''key'' q = JStr key \<and> strip key = key))"

lemma typed_payload_again:
  assumes "ascii_case u" "typed_operation_payload u h kind p = Inr q" "settled kind q"
  shows "typed_operation_payload u h kind q = Inr q"
proof (cases kind)
  case control_service
  then show ?thesis using assms(2,3) control_again by (simp add: settled_def)
next
  case registry_read
  then show ?thesis using assms(2,3) registry_again by (auto simp: settled_def)
next
  case registry_write
  then show ?thesis using assms(2,3) registry_again by (auto simp: settled_def)
next
  case registry_delete
  then show ?thesis using assms(2,3) registry_again by (auto simp: settled_def)
next
  case install_updates
  then show ?thesis using assms(1,2) install_updates_again by simp
qed (insert assms(2), simp_all only: typed_operation_payload.simps need_Inr sum.inject, (erule rules_again | clarsimp)+)

end
