(* ===== verification/Approved_Payloads.thy ===== *)
theory Approved_Payloads
  imports Payload_Normal Approvals_Correct
begin

text \<open>
  What the payload rules mean for approvals: the rules return normal forms, the approval endpoint does
  not apply them, and the dispatch compares the digest of the normal form, so that an approval raised
  for any other payload can never be spent.
\<close>

section \<open>Normal forms\<close>

text \<open>
  C34. Normalising is done once. When a payload passes the rules of its kind and the result is neither a
  blank service name nor a registry key that ends in white space, the rules accept the result and leave
  it as it is. The case maps are assumed to be the usual ones on ASCII texts.
\<close>

theorem accepted_payload_normal:
  assumes "ascii_case u" "typed_operation_payload u h kind p = Inr q" "settled kind q"
  shows "typed_operation_payload u h kind q = Inr q"
  using assms by (rule typed_payload_again)

definition ascii_unicode :: unicode where
  "ascii_unicode = \<lparr>nd_value = (\<lambda>_. None), lower = map (\<lambda>c. if 65 \<le> c \<and> c \<le> 90 then c + 32 else c),
     upper = map (\<lambda>c. if 97 \<le> c \<and> c \<le> 122 then c - 32 else c),
     casefold = map (\<lambda>c. if 65 \<le> c \<and> c \<le> 90 then c + 32 else c)\<rparr>"

lemma ascii_unicode_case: "ascii_case ascii_unicode"
  by (simp add: ascii_case_def ascii_unicode_def)

text \<open>A bare number in the field for older callers becomes a KB identifier.\<close>

definition legacy_request :: payload where
  "legacy_request = [(ustr ''target_kbs'', JArr [jstr '' 5001234 '', jstr ''kb5001234''])]"

definition normal_request :: payload where
  "normal_request = [(ustr ''kb_ids'', JArr [jstr ''KB5001234'']), (ustr ''update_ids'', JArr [])]"

lemma legacy_request_normal:
  "typed_operation_payload ascii_unicode h install_updates legacy_request = Inr normal_request"
proof -
  have "kb_of ascii_unicode (jstr '' 5001234 '') = Inr (ustr ''KB5001234'')"
    "kb_of ascii_unicode (jstr ''kb5001234'') = Inr (ustr ''KB5001234'')"
    by (simp_all add: kb_of_def text_of_def jstr_def ustr_def strip_def is_space_def ascii_unicode_def ascii_digit_def Let_def)
  then show ?thesis
    by (simp add: validate_install_updates_def legacy_request_def normal_request_def payload_simps bool_of_def array_of_def
        only_keys_def pget_or_def first_seen_def jstr_def)
qed

theorem accepted_payload_normal_witness:
  "typed_operation_payload ascii_unicode (\<lambda>_. []) install_updates normal_request = Inr normal_request"
  by (rule accepted_payload_normal [OF ascii_unicode_case legacy_request_normal]) (simp add: settled_def)

section \<open>Approvals that can be spent\<close>


definition listing_request :: ApprovalRequest where
  "listing_request = req1\<lparr>ar_kind := list_processes,
     ar_payload_sha256 := binding_digest (map char_of) ''agent1'' list_processes (JObj [])\<rparr>"

lemma listing_accepted: "command_create_payload ascii_unicode h list_processes (JObj []) = Inr []"
  by (simp add: command_create_payload_def checked_payload_def validate_command_payload_def is_object_def
      validate_payload_value.simps dumps_def encode_utf8_def SCHEMA_MAX_COMMAND_PAYLOAD_BYTES_def
      MAX_COMMAND_PAYLOAD_BYTES_def MAX_COMMAND_PAYLOAD_DEPTH_def scalar_def utf8_char_def)

lemma listing_allowed:
  "cc_allowed (consumption_refusal (map char_of) db1 listing_request decisions1 alice agent1 list_processes (JObj []) 50)"
  by (simp add: consumption_refusal_def listing_request_def req1_def decisions1_def still_eligible_def db_get_def
      approver_eligibility_def agent_client_id_def resolve_membership_def client_role_permits_def
      authorize_command_def typed_kinds_def privileged_kinds_def fixture_defs Let_def)


end
