(* ===== verification/Rollout_Payload.thy ===== *)
theory Rollout_Payload
  imports Payload_Normal Update_Safety
begin

text \<open>
  The payload that a rollout builds from a published release satisfies the rules for self updates,
  which the rollout itself does not run, and the rules add and drop nothing.
\<close>

lemma https_prefix_plain: "take 8 url = ustr ''https://'' \<Longrightarrow> https_prefix url"
  by (simp add: https_prefix_def ustr_def)

lemma release_metadata_fields:
  assumes "release_body_ok u body" "m = rb_meta body"
  shows "version_text u (JStr (rm_version m)) = Inr (rm_version m)"
    "version_text u (JStr (rm_min_supported_version m)) = Inr (rm_min_supported_version m)"
    "one_of [''stable'', ''beta'', ''canary''] (JStr (rm_channel m)) = Inr (rm_channel m)"
    "platform_of (JStr (rm_platform m)) = Inr (rm_platform m)"
    "https_url (JStr (rm_artifact_url m)) = Inr (rm_artifact_url m)"
    "sha256_text (JStr (rm_artifact_sha256 m)) = Inr (rm_artifact_sha256 m)"
    "int_between 1 (256 * 1024 * 1024) (JInt (rm_artifact_size_bytes m)) = Inr (rm_artifact_size_bytes m)"
    "int_between 60 3600 (JInt (rm_health_timeout_seconds m)) = Inr (rm_health_timeout_seconds m)"
    "rm_signer_thumbprint m = Some s \<Longrightarrow> thumbprint_text (JStr s) = Inr s \<and> s \<noteq> []"
  using assms https_prefix_plain [of "rm_artifact_url m"]
  by (auto simp: release_body_ok_def Let_def version_text_def text_of_JStr parse_version_def one_of_JStr CHANNELS_def
      platform_of_def https_url_def printable_def sha256_text_def is_hex_def lower_hex_def int_between_JInt
      thumbprint_text_def list_all_iff split: option.splits)

lemma field_if_Some: "field_if k f (Some v) = [(ustr k, f v)]"
  by (simp add: field_if_def)

lemma update_payload_manifest:
  "update_payload (build_manifest m t) =
     Some (JObj ([(ustr ''release_id'', jstr (rm_release_id m)), (ustr ''version'', JStr (rm_version m)),
       (ustr ''channel'', JStr (rm_channel m)), (ustr ''platform'', JStr (rm_platform m)), (ustr ''artifact'', artifact_object m),
       (ustr ''min_supported_version'', JStr (rm_min_supported_version m)),
       (ustr ''health_check'', JObj [(ustr ''timeout_seconds'', JInt (rm_health_timeout_seconds m))])]
     @ Agent_Updates.thumbprint_field (rm_signer_thumbprint m)))"
  by (simp add: update_payload_def build_manifest_def ustr_inj thumbprint_field_def split: option.split)

text \<open>
  C36. The rollout dispatches what the payload rules demand. For every release body that publication
  accepts, under an identifier of the allowed form, the command payload built from its manifest passes
  the rules for \<open>agent_self_update\<close>, which the rollout does not run, and they return it unchanged up to
  the order of its keys.
\<close>

theorem rollout_payload_accepted:
  assumes "release_body_ok u body" "release_id_of (jstr i) = Inr (ustr i)"
  shows "\<exists>p q. update_payload (build_manifest ((rb_meta body)\<lparr>rm_release_id := i\<rparr>) t) = Some (JObj p) \<and>
    typed_operation_payload u h agent_self_update p = Inr q \<and> mset q = mset p"
proof -
  let ?m = "(rb_meta body)\<lparr>rm_release_id := i\<rparr>"
  note f = release_metadata_fields [OF assms(1) refl]
  let ?artifact = "[(ustr ''url'', JStr (rm_artifact_url ?m)), (ustr ''sha256'', JStr (rm_artifact_sha256 ?m)),
    (ustr ''size_bytes'', JInt (rm_artifact_size_bytes ?m))]"
  let ?health = "[(ustr ''timeout_seconds'', JInt (rm_health_timeout_seconds ?m))]"
  let ?head = "[(ustr ''release_id'', JStr (ustr i)), (ustr ''version'', JStr (rm_version ?m)),
    (ustr ''channel'', JStr (rm_channel ?m)), (ustr ''platform'', JStr (rm_platform ?m)), (ustr ''artifact'', JObj ?artifact),
    (ustr ''min_supported_version'', JStr (rm_min_supported_version ?m))]"
  let ?p = "?head @ [(ustr ''health_check'', JObj ?health)] @ field_if ''signer_thumbprint'' JStr (rm_signer_thumbprint ?m)"
  let ?q = "?head @ field_if ''signer_thumbprint'' JStr (rm_signer_thumbprint ?m) @ [(ustr ''health_check'', JObj ?health)]"
  have t: "Agent_Updates.thumbprint_field (rm_signer_thumbprint ?m) = field_if ''signer_thumbprint'' JStr (rm_signer_thumbprint ?m)"
    using f(9) by (auto simp: thumbprint_field_def field_if_def split: option.split)
  have artifact: "artifact_of (JObj ?artifact) = Inr ?artifact"
    using f(5-7) by (simp add: artifact_of_def payload_simps object_of_def)
  have health: "optional health_check_of (JObj ?health) = Inr (Some ?health)"
    using f(8) by (simp add: optional_def health_check_of_def payload_simps object_of_def)
  have thumbprint: "optional thumbprint_text (case rm_signer_thumbprint ?m of None \<Rightarrow> JNull | Some v \<Rightarrow> JStr v) = Inr (rm_signer_thumbprint ?m)"
    using f(9) by (simp add: optional_def split: option.split)
  have get: "pget ''release_id'' ?p = jstr i" "pget ''version'' ?p = JStr (rm_version (rb_meta body))"
    "pget ''min_supported_version'' ?p = JStr (rm_min_supported_version (rb_meta body))"
    "pget ''channel'' ?p = JStr (rm_channel (rb_meta body))" "pget ''platform'' ?p = JStr (rm_platform (rb_meta body))"
    "pget ''artifact'' ?p = JObj ?artifact"
    "pget ''signer_thumbprint'' ?p = (case rm_signer_thumbprint ?m of None \<Rightarrow> JNull | Some v \<Rightarrow> JStr v)"
    "pget ''health_check'' ?p = JObj ?health"
    by (simp_all add: payload_simps jstr_def cong: option.case_cong)
  have "validate_agent_self_update u ?p = Inr ?q"
    unfolding validate_agent_self_update_def Let_def get assms(2) f(1-4) artifact thumbprint health and_then_step
    by (simp add: payload_simps field_if_Some)
  moreover have "update_payload (build_manifest ?m t) = Some (JObj ?p)"
    unfolding update_payload_manifest t artifact_object_def by (simp add: jstr_def)
  moreover have "mset ?q = mset ?p" by simp
  ultimately show ?thesis by auto
qed

theorem rollout_payload_accepted_witness:
  "\<exists>p q. update_payload (build_manifest ((rb_meta release_body0)\<lparr>rm_release_id := ''r2''\<rparr>) 0) = Some (JObj p) \<and>
    typed_operation_payload Update_Manifest.u0 (\<lambda>_. []) agent_self_update p = Inr q \<and> mset q = mset p"
  by (rule rollout_payload_accepted [OF release_body0_ok])
    (simp add: release_id_of_def jstr_def text_of_def ustr_def alnum_def)

end
