(* ===== verification/Patch_Policies.thy ===== *)
theory Patch_Policies
  imports Inventory Alert_Actions
begin

text \<open>
  Approval of Windows updates (\<open>server/app/core/patch_policies.py\<close>): the policy that governs an
  endpoint, the decision on one scanned update, and the gate on an \<open>install_updates\<close> command that the
  dispatch endpoint and the scheduler share. Stored rules have the shape the schemas validate.
  \<open>fromisoformat\<close> is the reader of ISO times of the runtime, giving the wall clock and the offset
  in microseconds. \<open>None\<close> is an exception that the functions do not catch.
\<close>

section \<open>Policies\<close>

datatype PatchAction = Patch_approve | Patch_deny | Patch_defer

datatype PatchDefaultAction = Default_approve | Default_deny

datatype RebootPolicy = Reboot_never | Reboot_if_required | Reboot_forced

fun reboot_policy_value :: "RebootPolicy \<Rightarrow> string" where
  "reboot_policy_value Reboot_never = ''never''"
| "reboot_policy_value Reboot_if_required = ''if_required''"
| "reboot_policy_value Reboot_forced = ''forced''"

record PatchMatch =
  pm_classifications :: "ustr list option"
  pm_severities :: "ustr list option"
  pm_kb_ids :: "ustr list option"

record PatchRule =
  pr_key :: string
  pr_action :: PatchAction
  pr_match :: PatchMatch
  pr_defer_days :: "int option"

record PatchApprovalPolicy =
  pp_id :: string
  pp_scope :: MonitoringScope
  pp_scope_id :: "string option"
  pp_enabled :: bool
  pp_created_at :: instant

record PatchApprovalPolicyRevision =
  pv_id :: string
  pv_policy_id :: string
  pv_version :: int
  pv_rules :: "PatchRule list"
  pv_default_action :: PatchDefaultAction
  pv_require_maintenance_window :: bool
  pv_reboot_policy :: RebootPolicy
  pv_reboot_delay_seconds :: int
  pv_reboot_requires_no_user :: bool
  pv_max_install_attempts :: int

record HeartbeatRow =
  hr_id :: string
  hr_agent_id :: string
  hr_ts :: instant
  hr_logged_in_user :: "ustr option"

record patch_db =
  pd_fleet :: fleet
  pd_policies :: "PatchApprovalPolicy rows"
  pd_revisions :: "PatchApprovalPolicyRevision rows"
  pd_windows :: "MaintenanceWindow rows"
  pd_snapshots :: "AgentInventorySnapshot rows"
  pd_heartbeats :: "HeartbeatRow rows"

definition patch_current_revision :: "PatchApprovalPolicyRevision rows \<Rightarrow> string \<Rightarrow> PatchApprovalPolicyRevision option" where
  "patch_current_revision revs policy_id =
     (case sort_key (\<lambda>r. - pv_version r) (filter (\<lambda>r. pv_policy_id r = policy_id) revs) of [] \<Rightarrow> None | r # _ \<Rightarrow> Some r)"

definition patch_policy_rank :: "PatchApprovalPolicy \<Rightarrow> int \<times> instant \<times> string" where
  "patch_policy_rank p = (- int (scope_precedence (pp_scope p)), pp_created_at p, pp_id p)"

definition applicable_patch_policies :: "patch_db \<Rightarrow> AgentRow \<Rightarrow> PatchApprovalPolicy list" where
  "applicable_patch_policies st a =
     filter (\<lambda>p. pp_enabled p \<and> scope_targets (pd_fleet st) a (pp_scope p) (pp_scope_id p)) (pd_policies st)"

definition resolve_effective_patch_policy ::
  "patch_db \<Rightarrow> AgentRow \<Rightarrow> (PatchApprovalPolicy \<times> PatchApprovalPolicyRevision) option" where
  "resolve_effective_patch_policy st a =
     (case sort_key patch_policy_rank (applicable_patch_policies st a) of
        [] \<Rightarrow> None
      | winner # _ \<Rightarrow> map_option (Pair winner) (patch_current_revision (pd_revisions st) (pp_id winner)))"

section \<open>The decision on one update\<close>

text \<open>A scanned update is the stored object; its text fields are texts or absent, as the section model demands.\<close>

definition text_field :: "json \<Rightarrow> string \<Rightarrow> ustr option" where
  "text_field item key = (case jget item key of Some (JStr s) \<Rightarrow> Some s | _ \<Rightarrow> None)"

definition facet_matches :: "unicode \<Rightarrow> ustr list option \<Rightarrow> ustr option \<Rightarrow> bool" where
  "facet_matches u values actual \<longleftrightarrow>
     (case values of
        None \<Rightarrow> True
      | Some vs \<Rightarrow>
          (case actual of
             None \<Rightarrow> False
           | Some t \<Rightarrow> list_ex (\<lambda>v. casefold u (strip v) = casefold u (strip t)) vs))"

definition kb_matches :: "unicode \<Rightarrow> ustr list option \<Rightarrow> ustr option \<Rightarrow> bool" where
  "kb_matches u kb_ids actual \<longleftrightarrow>
     (case kb_ids of None \<Rightarrow> True | Some ks \<Rightarrow> given actual \<and> upper u (strip (the actual)) \<in> set ks)"

definition rule_matches :: "unicode \<Rightarrow> PatchRule \<Rightarrow> json \<Rightarrow> bool" where
  "rule_matches u rule update \<longleftrightarrow>
     facet_matches u (pm_classifications (pr_match rule)) (text_field update ''classification'') \<and>
     facet_matches u (pm_severities (pr_match rule)) (text_field update ''severity'') \<and>
     kb_matches u (pm_kb_ids (pr_match rule)) (text_field update ''kb_id'')"

text \<open>A time with its wall clock and its offset from UTC; an absent offset is UTC.\<close>

type_synonym iso_reader = "ustr \<Rightarrow> (int \<times> int option) option"

definition replace_Z :: "ustr \<Rightarrow> ustr" where
  "replace_Z s = concat (map (\<lambda>c. if c = 90 then ustr ''+00:00'' else [c]) s)"

definition parse_dt :: "iso_reader \<Rightarrow> json option \<Rightarrow> (int \<times> int) option" where
  "parse_dt fromisoformat v =
     (case v of
        Some (JStr s) \<Rightarrow> map_option (\<lambda>(wall, offset). (wall, case offset of None \<Rightarrow> 0 | Some d \<Rightarrow> d)) (fromisoformat (replace_Z s))
      | _ \<Rightarrow> None)"

definition max_wall :: int where
  "max_wall = seconds (2932897 * 86400) - 1"

text \<open>The outer option is the overflow of the calendar.\<close>

definition defer_satisfied :: "iso_reader \<Rightarrow> json \<Rightarrow> int \<Rightarrow> instant \<Rightarrow> bool option" where
  "defer_satisfied fromisoformat update defer_days now =
     (case parse_dt fromisoformat (jget update ''last_deployment_change'') of
        None \<Rightarrow> Some False
      | Some (wall, offset) \<Rightarrow>
          if wall + days defer_days > max_wall then None else Some (wall + days defer_days - offset \<le> now))"

datatype verdict = Approve | Deny | Defer

record UpdateDecision =
  ud_decision :: verdict
  ud_reason :: string
  ud_matched_rule_key :: "string option"

fun evaluate_update ::
  "unicode \<Rightarrow> iso_reader \<Rightarrow> PatchRule list \<Rightarrow> PatchDefaultAction \<Rightarrow> json \<Rightarrow> instant \<Rightarrow> UpdateDecision option" where
  "evaluate_update u fromisoformat [] default_action update now =
     Some \<lparr>ud_decision = (if default_action = Default_approve then Approve else Deny), ud_reason = ''default'', ud_matched_rule_key = None\<rparr>"
| "evaluate_update u fromisoformat (rule # rules) default_action update now =
     (if \<not> rule_matches u rule update then evaluate_update u fromisoformat rules default_action update now
      else case pr_action rule of
          Patch_deny \<Rightarrow> Some \<lparr>ud_decision = Deny, ud_reason = ''rule:'' @ pr_key rule, ud_matched_rule_key = Some (pr_key rule)\<rparr>
        | Patch_approve \<Rightarrow> Some \<lparr>ud_decision = Approve, ud_reason = ''rule:'' @ pr_key rule, ud_matched_rule_key = Some (pr_key rule)\<rparr>
        | Patch_defer \<Rightarrow>
            (case defer_satisfied fromisoformat update (case pr_defer_days rule of None \<Rightarrow> 0 | Some d \<Rightarrow> d) now of
               None \<Rightarrow> None
             | Some True \<Rightarrow> Some \<lparr>ud_decision = Approve, ud_reason = ''rule:'' @ pr_key rule @ '':deferral_elapsed'',
                 ud_matched_rule_key = Some (pr_key rule)\<rparr>
             | Some False \<Rightarrow> Some \<lparr>ud_decision = Defer, ud_reason = ''rule:'' @ pr_key rule @ '':deferred'',
                 ud_matched_rule_key = Some (pr_key rule)\<rparr>))"

section \<open>The install gate\<close>

definition PATCH_REBOOT_CAPABILITY :: string where "PATCH_REBOOT_CAPABILITY = ''patch-reboot-v1''"

definition latest_missing_updates :: "patch_db \<Rightarrow> string \<Rightarrow> json list" where
  "latest_missing_updates st agent_id =
     (case latest_section (pd_snapshots st) agent_id Inv_windows_updates of
        None \<Rightarrow> []
      | Some r \<Rightarrow>
          (case jget (sn_payload r) ''missing'' of
             Some (JArr items) \<Rightarrow> filter (\<lambda>j. case j of JObj _ \<Rightarrow> True | _ \<Rightarrow> False) items
           | _ \<Rightarrow> []))"

definition latest_user_present :: "patch_db \<Rightarrow> AgentRow \<Rightarrow> bool" where
  "latest_user_present st a =
     (case rev (sort_key (\<lambda>h. (hr_ts h, hr_id h)) (filter (\<lambda>h. hr_agent_id h = ag_id a) (pd_heartbeats st))) of
        [] \<Rightarrow> True
      | h # _ \<Rightarrow> strip (case hr_logged_in_user h of None \<Rightarrow> [] | Some t \<Rightarrow> t) \<noteq> [])"

text \<open>The dictionaries keyed by the folded identifier; a later item replaces an earlier one.\<close>

definition lookup_update :: "(ustr \<Rightarrow> ustr) \<Rightarrow> string \<Rightarrow> json list \<Rightarrow> ustr \<Rightarrow> json option" where
  "lookup_update folded field missing k =
     find (\<lambda>item. given (text_field item field) \<and> folded (the (text_field item field)) = k) (rev missing)"

text \<open>\<open>str(value)\<close>; \<open>container_text\<close> is the text of a list or a dictionary.\<close>

definition py_str :: "(json \<Rightarrow> ustr) \<Rightarrow> json \<Rightarrow> ustr" where
  "py_str container_text j =
     (case j of
        JNull \<Rightarrow> ustr ''None''
      | JBool b \<Rightarrow> ustr (if b then ''True'' else ''False'')
      | JInt n \<Rightarrow> int_repr n
      | JFloat r \<Rightarrow> r
      | JStr s \<Rightarrow> s
      | _ \<Rightarrow> container_text j)"

text \<open>The texts of an iterable value; iterating over a number or nothing raises.\<close>

definition texts_of :: "(json \<Rightarrow> ustr) \<Rightarrow> json option \<Rightarrow> ustr list option" where
  "texts_of container_text v =
     (case v of
        None \<Rightarrow> Some []
      | Some (JArr xs) \<Rightarrow> Some (map (py_str container_text) xs)
      | Some (JStr s) \<Rightarrow> Some (map (\<lambda>c. [c]) s)
      | Some (JObj kvs) \<Rightarrow> Some (map fst kvs)
      | _ \<Rightarrow> None)"

text \<open>The counts of \<open>classify\<close>.\<close>

record tally =
  ta_approved :: nat
  ta_denied :: nat
  ta_deferred :: nat

definition no_tally :: tally where
  "no_tally = \<lparr>ta_approved = 0, ta_denied = 0, ta_deferred = 0\<rparr>"

definition count_verdict :: "verdict \<Rightarrow> tally \<Rightarrow> tally" where
  "count_verdict v t =
     (case v of
        Approve \<Rightarrow> t\<lparr>ta_approved := ta_approved t + 1\<rparr>
      | Deny \<Rightarrow> t\<lparr>ta_denied := ta_denied t + 1\<rparr>
      | Defer \<Rightarrow> t\<lparr>ta_deferred := ta_deferred t + 1\<rparr>)"

text \<open>\<open>judge\<close> is the decision on an item under the revision.\<close>

fun narrow_all :: "(json \<Rightarrow> verdict option) \<Rightarrow> json list \<Rightarrow> tally \<Rightarrow> (json list \<times> tally) option" where
  "narrow_all judge [] t = Some ([], t)"
| "narrow_all judge (item # items) t =
     (case judge item of
        None \<Rightarrow> None
      | Some v \<Rightarrow> map_option (\<lambda>(approved, t'). (if v = Approve then item # approved else approved, t'))
          (narrow_all judge items (count_verdict v t)))"

fun check_requested ::
  "(json \<Rightarrow> verdict option) \<Rightarrow> (ustr \<Rightarrow> json option) \<Rightarrow> ustr list \<Rightarrow> tally \<Rightarrow> (ustr list \<times> tally) option" where
  "check_requested judge lookup [] t = Some ([], t)"
| "check_requested judge lookup (k # ks) t =
     (case lookup k of
        None \<Rightarrow> map_option (\<lambda>(blocked, t'). (k # blocked, t')) (check_requested judge lookup ks (count_verdict Deny t))
      | Some item \<Rightarrow>
          (case judge item of
             None \<Rightarrow> None
           | Some v \<Rightarrow> map_option (\<lambda>(blocked, t'). (if v = Approve then blocked else k # blocked, t'))
               (check_requested judge lookup ks (count_verdict v t))))"

definition approved_kbs :: "unicode \<Rightarrow> json list \<Rightarrow> ustr list" where
  "approved_kbs u approved = map (\<lambda>item. upper u (the (text_field item ''kb_id''))) (filter (\<lambda>item. given (text_field item ''kb_id'')) approved)"

definition approved_ids :: "unicode \<Rightarrow> json list \<Rightarrow> ustr list" where
  "approved_ids u approved =
     map (\<lambda>item. lower u (the (text_field item ''update_id'')))
       (filter (\<lambda>item. \<not> given (text_field item ''kb_id'') \<and> given (text_field item ''update_id'')) approved)"

datatype outcome = Window_required | No_approved | Outcome_denied | Allowed

fun outcome_value :: "outcome \<Rightarrow> string" where
  "outcome_value Window_required = ''maintenance_window_required''"
| "outcome_value No_approved = ''no_approved_updates''"
| "outcome_value Outcome_denied = ''denied''"
| "outcome_value Allowed = ''allowed''"

fun outcome_code :: "outcome \<Rightarrow> string option" where
  "outcome_code Window_required = Some ''patch_install_maintenance_window_required''"
| "outcome_code No_approved = Some ''patch_install_no_approved_updates''"
| "outcome_code Outcome_denied = Some ''patch_install_denied''"
| "outcome_code Allowed = None"

record PatchDecision =
  de_outcome :: outcome
  de_payload :: json
  de_gated_detail :: json
  de_reboot_detail :: "json option"
  de_blocked :: "ustr list"
  de_policy_id :: string

text \<open>\<open>d[key] = value\<close>.\<close>

fun jput :: "string \<Rightarrow> json \<Rightarrow> (ustr \<times> json) list \<Rightarrow> (ustr \<times> json) list" where
  "jput key v [] = [(ustr key, v)]"
| "jput key v (kv # kvs) = (if fst kv = ustr key then (ustr key, v) # kvs else kv # jput key v kvs)"

definition earliest_window :: "MaintenanceWindow list \<Rightarrow> MaintenanceWindow option" where
  "earliest_window windows = (case sort_key (\<lambda>w. (instant_of (mw_ends_at w), mw_id w)) windows of [] \<Rightarrow> None | w # _ \<Rightarrow> Some w)"

definition reboot_evidence ::
  "PatchApprovalPolicyRevision \<Rightarrow> bool \<Rightarrow> MaintenanceWindow option \<Rightarrow> json" where
  "reboot_evidence revision user_present window =
     JObj [(ustr ''policy'', jstr (reboot_policy_value (pv_reboot_policy revision))),
       (ustr ''delay_seconds'', JInt (pv_reboot_delay_seconds revision)),
       (ustr ''requires_no_user'', JBool (pv_reboot_requires_no_user revision)),
       (ustr ''user_present_at_dispatch'', JBool user_present),
       (ustr ''maintenance_window_id'', jopt (\<lambda>w. jstr (mw_id w)) window),
       (ustr ''maintenance_window_ends_at'',
         jopt (\<lambda>w. JStr (format_command_time (civil_of_instant (instant_of (mw_ends_at w))))) window)]"

definition gated_detail :: "string \<Rightarrow> outcome \<Rightarrow> bool \<Rightarrow> nat \<Rightarrow> tally \<Rightarrow> bool \<Rightarrow> bool \<Rightarrow> json" where
  "gated_detail policy_id outcome install_all requested t window_required window_present =
     JObj [(ustr ''policy_id'', jstr policy_id), (ustr ''outcome'', jstr (outcome_value outcome)),
       (ustr ''install_all'', JBool install_all), (ustr ''requested'', JInt (int requested)),
       (ustr ''approved'', JInt (int (ta_approved t))), (ustr ''denied'', JInt (int (ta_denied t))),
       (ustr ''deferred'', JInt (int (ta_deferred t))), (ustr ''window_required'', JBool window_required),
       (ustr ''window_present'', JBool window_present)]"

definition reboot_detail :: "string \<Rightarrow> PatchApprovalPolicyRevision \<Rightarrow> bool \<Rightarrow> bool \<Rightarrow> json" where
  "reboot_detail policy_id revision window_present user_present =
     JObj [(ustr ''policy_id'', jstr policy_id),
       (ustr ''reboot_policy'', jstr (reboot_policy_value (pv_reboot_policy revision))),
       (ustr ''delay_seconds'', JInt (pv_reboot_delay_seconds revision)),
       (ustr ''requires_no_user'', JBool (pv_reboot_requires_no_user revision)),
       (ustr ''window_present'', JBool window_present), (ustr ''user_present'', JBool user_present)]"

text \<open>The selection: the payload to send, what is blocked, the count of targets and the tally.\<close>

definition select_updates ::
  "unicode \<Rightarrow> (json \<Rightarrow> ustr) \<Rightarrow> (json \<Rightarrow> verdict option) \<Rightarrow> json list \<Rightarrow> (ustr \<times> json) list \<Rightarrow>
   ((ustr \<times> json) list \<times> ustr list \<times> bool \<times> nat \<times> tally) option" where
  "select_updates u container_text judge missing payload =
     (if map_of payload (ustr ''install_all'') = Some (JBool True)
      then map_option (\<lambda>(approved, t).
          let kbs = approved_kbs u approved; ids = approved_ids u approved in
          ([(ustr ''install_all'', JBool False), (ustr ''kb_ids'', JArr (map JStr (sort (remdups kbs)))),
            (ustr ''update_ids'', JArr (map JStr (sort (remdups ids))))], [], kbs = [] \<and> ids = [], length missing, t))
        (narrow_all judge missing no_tally)
      else case (texts_of container_text (map_of payload (ustr ''kb_ids'')), texts_of container_text (map_of payload (ustr ''update_ids''))) of
          (Some kbs, Some ids) \<Rightarrow>
            (case check_requested judge (lookup_update (upper u) ''kb_id'' missing) (map (upper u) kbs) no_tally of
               None \<Rightarrow> None
             | Some (blocked, t) \<Rightarrow>
                 map_option (\<lambda>(blocked', t'). (payload, blocked @ blocked', False, length kbs + length ids, t'))
                   (check_requested judge (lookup_update (lower u) ''update_id'' missing) (map (lower u) ids) t))
        | _ \<Rightarrow> None)"

definition install_outcome :: "bool \<Rightarrow> bool \<Rightarrow> bool \<Rightarrow> bool \<Rightarrow> ustr list \<Rightarrow> outcome" where
  "install_outcome window_required window_present install_all nothing blocked =
     (if window_required \<and> \<not> window_present then Window_required
      else if install_all \<and> nothing then No_approved
      else if \<not> install_all \<and> blocked \<noteq> [] then Outcome_denied
      else Allowed)"

text \<open>No policy is \<open>Some None\<close>: the dispatch is unchanged.\<close>

definition evaluate_patch_install ::
  "unicode \<Rightarrow> iso_reader \<Rightarrow> (json \<Rightarrow> ustr) \<Rightarrow> (ustr \<Rightarrow> zone option) \<Rightarrow> patch_db \<Rightarrow> AgentRow \<Rightarrow> (ustr \<times> json) list \<Rightarrow> instant \<Rightarrow>
   PatchDecision option option" where
  "evaluate_patch_install u fromisoformat container_text ZoneInfo st a payload now =
     (case resolve_effective_patch_policy st a of
        None \<Rightarrow> Some None
      | Some (policy, revision) \<Rightarrow>
          let missing = latest_missing_updates st (ag_id a);
              judge = (\<lambda>item. map_option ud_decision
                (evaluate_update u fromisoformat (pv_rules revision) (pv_default_action revision) item now));
              window_required = pv_require_maintenance_window revision;
              windows = (if window_required then active_maintenance_windows ZoneInfo (pd_fleet st) (pd_windows st) a now else []);
              window_present = (window_required \<longrightarrow> windows \<noteq> []);
              install_all = (map_of payload (ustr ''install_all'') = Some (JBool True)) in
          map_option (\<lambda>(result, blocked, nothing, requested, t).
            let outcome = install_outcome window_required window_present install_all nothing blocked;
                supports = (PATCH_REBOOT_CAPABILITY \<in> set (case supported_capabilities a of None \<Rightarrow> [] | Some c \<Rightarrow> c));
                attempts = (if outcome = Allowed \<and> supports
                  then jput ''max_attempts'' (JInt (pv_max_install_attempts revision)) result else result);
                reboots = (outcome = Allowed \<and> supports \<and> pv_reboot_policy revision \<noteq> Reboot_never);
                user_present = latest_user_present st a in
            Some \<lparr>de_outcome = outcome,
              de_payload = JObj (if reboots
                then jput ''reboot'' (reboot_evidence revision user_present (earliest_window windows)) attempts else attempts),
              de_gated_detail = gated_detail (pp_id policy) outcome install_all requested t window_required window_present,
              de_reboot_detail = (if reboots
                then Some (reboot_detail (pp_id policy) revision (window_required \<and> window_present) user_present) else None),
              de_blocked = blocked, de_policy_id = pp_id policy\<rparr>)
            (select_updates u container_text judge missing payload))"

end
