(* ===== verification/Dispatch_Command.thy ===== *)
theory Dispatch_Command
  imports Command_Payloads Dispatch_Gate Command_Signing Patch_Policies
begin

text \<open>
  The endpoint that queues a command (\<open>dispatch_command\<close> of \<open>server/app/api/management.py\<close>) with
  every gate in its order: tenancy, role, trust, queue, envelope version, capabilities, provenance,
  two-person approval, maintenance windows for power operations, patch approval and package providers.
  A refusal keeps only what the handler commits before it raises. The workflow tables and the fleet
  are two views of one database: the row of the endpoint is read from the fleet.
\<close>

section \<open>State\<close>

record CommandCreate =
  cr_kind :: CommandKind
  cr_payload :: payload
  cr_ttl_seconds :: int
  cr_script_version_id :: "string option"
  cr_value_set_id :: "string option"
  cr_approval_request_id :: "string option"
  cr_emergency_override_id :: "string option"

text \<open>Script versions by identifier, and parameter value sets with the version each belongs to.\<close>

record console =
  cn_store :: store
  cn_patch :: patch_db
  cn_versions :: "string rows"
  cn_value_sets :: "(string \<times> string) rows"

text \<open>What the handler uses of the runtime and the settings; \<open>rt_key\<close> is the active signing key.\<close>

record runtime =
  rt_unicode :: unicode
  rt_fromisoformat :: iso_reader
  rt_container_text :: "json \<Rightarrow> ustr"
  rt_zone :: "ustr \<Rightarrow> zone option"
  rt_sha256 :: "ustr \<Rightarrow> string"
  rt_sha256hex :: "nat list \<Rightarrow> string"
  rt_key :: "signing_key option"
  rt_max_outstanding :: int

section \<open>Audit details\<close>

fun operator_role_value :: "OperatorRole \<Rightarrow> string" where
  "operator_role_value OperatorRole_readonly = ''readonly''"
| "operator_role_value OperatorRole_operator = ''operator''"
| "operator_role_value OperatorRole_admin = ''admin''"

fun script_scope_value :: "ScriptExecutionScope \<Rightarrow> string" where
  "script_scope_value ScriptExecutionScope_global = ''global''"
| "script_scope_value ScriptExecutionScope_site = ''site''"
| "script_scope_value ScriptExecutionScope_agent = ''agent''"

definition decision_audit_detail ::
  "CommandAuthorizationDecision \<Rightarrow> Operator \<Rightarrow> Agent \<Rightarrow> CommandKind \<Rightarrow> payload" where
  "decision_audit_detail decision oper agent kind =
     [(ustr ''operator_id'', jstr (op_id oper)), (ustr ''operator_role'', jstr (operator_role_value (op_role oper))),
      (ustr ''kind'', jstr (kind_value kind)), (ustr ''site_id'', jstr (ag_site_id agent)),
      (ustr ''policy'', jstr (cmd_policy decision)), (ustr ''reason'', jstr (cmd_reason decision)),
      (ustr ''permission_scope'', jopt (\<lambda>s. jstr (script_scope_value s)) (permission_scope decision)),
      (ustr ''permission_scope_id'', jopt jstr (permission_scope_id decision))]"

definition capability_denied_detail :: "Operator \<Rightarrow> Agent \<Rightarrow> CommandKind \<Rightarrow> payload" where
  "capability_denied_detail oper agent kind =
     [(ustr ''operator_id'', jstr (op_id oper)), (ustr ''operator_role'', jstr (operator_role_value (op_role oper))),
      (ustr ''kind'', jstr (kind_value kind)), (ustr ''site_id'', jstr (ag_site_id agent)),
      (ustr ''policy'', jstr ''agent_capability''), (ustr ''reason'', jstr ''required_capability_missing''),
      (ustr ''permission_scope'', JNull), (ustr ''permission_scope_id'', JNull)]"

definition dispatch_audit :: "string \<Rightarrow> string \<Rightarrow> Agent \<Rightarrow> payload \<Rightarrow> store \<Rightarrow> store" where
  "dispatch_audit action actor agent detail s = audit_record action actor None (Some (ag_id agent)) None (JObj detail) s"

section \<open>Admission\<close>

definition command_capabilities :: "CommandKind \<Rightarrow> string list" where
  "command_capabilities kind =
     (if kind \<in> {reboot, shutdown, cancel_power_action} then [''power-operations-v1'']
      else if kind \<in> {file_upload, file_download} then [''file-transfer-v1'']
      else if kind \<in> {registry_read, registry_write, registry_delete} then [''registry-operations-v1'']
      else if kind = remediation_rollback then [''file-transfer-v1'', ''registry-operations-v1'']
      else if kind = query_event_log then [''event-log-query-v1'']
      else if kind \<in> {scan_packages, install_packages} then [''package-management-v1'']
      else if kind = deploy_software then [''software-deployment-v1'']
      else if kind \<in> {list_services, control_service, list_processes, terminate_process} then [''service-process-v1'']
      else if kind \<in> {agent_self_update, agent_update_rollback} then [''agent-self-update-v1'']
      else [])"

definition denial_code :: "CommandKind \<Rightarrow> string" where
  "denial_code kind =
     (if kind \<in> {powershell, shell} then ''script_execution_not_authorized''
      else if kind \<in> {reboot, shutdown, cancel_power_action} then ''power_operation_not_authorized''
      else if kind = query_event_log then ''event_log_query_not_authorized''
      else if kind \<in> {scan_packages, install_packages} then ''package_management_not_authorized''
      else if kind = deploy_software then ''software_deployment_not_authorized''
      else if kind \<in> {list_services, control_service, list_processes, terminate_process} then ''service_process_not_authorized''
      else if kind \<in> {agent_self_update, agent_update_rollback} then ''agent_self_update_not_authorized''
      else if command_capabilities kind \<noteq> [] then ''privileged_remediation_not_authorized''
      else ''command_role_not_authorized'')"

definition outstanding_commands :: "store \<Rightarrow> string \<Rightarrow> nat" where
  "outstanding_commands s agent_id =
     rowcount (\<lambda>c. co_agent_id c = agent_id \<and> co_status c \<in> {Cmd_queued, Cmd_dispatched, Cmd_running, Cmd_result_pending})
       (st_commands s)"

definition resolve_script_provenance :: "console \<Rightarrow> string option \<Rightarrow> string option \<Rightarrow> unit http" where
  "resolve_script_provenance cn version value_set =
     (if value_set \<noteq> None \<and> version = None then Inl (HTTPException 400 ''script_parameter_value_set_requires_version'')
      else if (\<exists>v. version = Some v \<and> db_get id (cn_versions cn) v = None) then Inl (HTTPException 400 ''script_version_not_found'')
      else case value_set of
          None \<Rightarrow> Inr ()
        | Some i \<Rightarrow>
            (case db_get fst (cn_value_sets cn) i of
               None \<Rightarrow> Inl (HTTPException 400 ''script_parameter_value_set_not_found'')
             | Some row \<Rightarrow> if Some (snd row) \<noteq> version then Inl (HTTPException 400 ''script_parameter_value_set_mismatch'')
                 else Inr ()))"

definition agent_reachable :: "db \<Rightarrow> Operator \<Rightarrow> Agent \<Rightarrow> bool" where
  "agent_reachable d oper agent \<longleftrightarrow>
     (case agent_client_id d agent of None \<Rightarrow> is_platform_admin oper | Some c \<Rightarrow> is_client_visible d oper c)"

definition tenant_denied_detail :: "db \<Rightarrow> Operator \<Rightarrow> Agent \<Rightarrow> payload" where
  "tenant_denied_detail d oper agent =
     [(ustr ''operator_id'', jstr (op_id oper)), (ustr ''resource'', jstr ''command''), (ustr ''agent_id'', jstr (ag_id agent)),
      (ustr ''client_id'', jopt jstr (agent_client_id d agent))]"

text \<open>Everything before the two-person gate; the result is the version of the envelope.\<close>

definition admit_dispatch ::
  "runtime \<Rightarrow> console \<Rightarrow> AgentRow \<Rightarrow> CommandCreate \<Rightarrow> Operator \<Rightarrow> store \<times> ustr http" where
  "admit_dispatch rt cn a body oper =
     (let s = cn_store cn; agent = Agent.truncate a; kind = cr_kind body; decision = authorize_command oper agent kind in
      if \<not> agent_reachable (st_db s) oper agent
      then (audit_record ''tenant.access_denied'' (op_email oper) (Some (op_id oper)) (Some (ag_id agent)) None
              (JObj (tenant_denied_detail (st_db s) oper agent)) s, Inl (HTTPException 404 ''Agent not found''))
      else if kind = agent_self_update then (s, Inl (HTTPException 409 ''agent_self_update_requires_release''))
      else if \<not> cmd_allowed decision
      then (dispatch_audit ''command.authorization_denied'' (op_email oper) agent (decision_audit_detail decision oper agent kind) s,
            Inl (HTTPException 403 (denial_code kind)))
      else if trust_state a \<noteq> Trust_active then (s, Inl (HTTPException 409 ''agent_not_trusted''))
      else if int (outstanding_commands s (ag_id a)) \<ge> rt_max_outstanding rt
      then (s, Inl (HTTPException 429 ''agent_command_queue_full''))
      else case select_command_envelope_version
          (map ustr (case command_envelope_versions a of None \<Rightarrow> [] | Some vs \<Rightarrow> vs)) of
          None \<Rightarrow> (s, Inl (HTTPException 409 ''agent_command_envelope_version_unsupported''))
        | Some version \<Rightarrow>
            if \<not> set (command_capabilities kind) \<subseteq> set (case supported_capabilities a of None \<Rightarrow> [] | Some cs \<Rightarrow> cs)
            then (dispatch_audit ''command.authorization_denied'' (op_email oper) agent (capability_denied_detail oper agent kind) s,
                  Inl (HTTPException 409 ''agent_capability_unsupported''))
            else case resolve_script_provenance cn (cr_script_version_id body) (cr_value_set_id body) of
                Inl e \<Rightarrow> (s, Inl e)
              | Inr _ \<Rightarrow> (s, Inr version))"

section \<open>The gates on the payload\<close>

definition int_value :: "json \<Rightarrow> int" where
  "int_value j = (case j of JInt n \<Rightarrow> n | _ \<Rightarrow> 0)"

definition command_time :: "instant \<Rightarrow> ustr" where
  "command_time t = format_command_time (civil_of_instant t)"

text \<open>A reboot or a shutdown needs an active window that outlasts its delay, and consent or nobody logged in.\<close>

definition apply_power_operation_policy ::
  "(ustr \<Rightarrow> zone option) \<Rightarrow> patch_db \<Rightarrow> AgentRow \<Rightarrow> CommandKind \<Rightarrow> payload \<Rightarrow> instant \<Rightarrow> (payload \<times> instant option) http" where
  "apply_power_operation_policy ZoneInfo st a kind p now =
     (if kind \<notin> {reboot, shutdown} then Inr (p, None)
      else case earliest_window (active_maintenance_windows ZoneInfo (pd_fleet st) (pd_windows st) a now) of
          None \<Rightarrow> Inl (HTTPException 409 ''power_operation_maintenance_window_required'')
        | Some w \<Rightarrow>
            let ends = instant_of (mw_ends_at w); user_present = latest_user_present st a in
            if now + seconds (int_value (pget ''delay_seconds'' p)) > ends
            then Inl (HTTPException 409 ''power_operation_delay_exceeds_maintenance_window'')
            else if pget ''user_consent'' p = jstr ''no_user_session'' \<and> user_present
            then Inl (HTTPException 409 ''power_operation_user_consent_required'')
            else Inr (jput ''user_present_at_dispatch'' (JBool user_present)
              (jput ''maintenance_window_ends_at'' (JStr (command_time ends))
                (jput ''maintenance_window_id'' (jstr (mw_id w)) p)), Some ends))"

text \<open>An exception that the evaluation does not catch answers 500 and keeps nothing.\<close>

definition apply_patch_approval_policy ::
  "runtime \<Rightarrow> patch_db \<Rightarrow> store \<Rightarrow> AgentRow \<Rightarrow> CommandKind \<Rightarrow> payload \<Rightarrow> instant \<Rightarrow> (store \<times> payload http) option" where
  "apply_patch_approval_policy rt st s a kind p now =
     (if kind \<noteq> install_updates then Some (s, Inr p)
      else map_option (\<lambda>decision.
        case decision of
          None \<Rightarrow> (s, Inr p)
        | Some d \<Rightarrow>
            let agent = Agent.truncate a;
                s1 = audit_record ''patch_install.gated'' (ag_id a) None (Some (ag_id a)) None (de_gated_detail d) s;
                s2 = (case de_reboot_detail d of
                        None \<Rightarrow> s1
                      | Some detail \<Rightarrow> audit_record ''patch_install.reboot_authorized'' (ag_id a) None (Some (ag_id a)) None detail s1) in
            (case outcome_code (de_outcome d) of
               Some code \<Rightarrow> (s2, Inl (HTTPException 409 code))
             | None \<Rightarrow> (s2, Inr (case de_payload d of JObj q \<Rightarrow> q | _ \<Rightarrow> p))))
        (evaluate_patch_install (rt_unicode rt) (rt_fromisoformat rt) (rt_container_text rt) (rt_zone rt) st a p now))"

definition CHOCOLATEY_PROVIDER_CAPABILITY :: string where
  "CHOCOLATEY_PROVIDER_CAPABILITY = ''chocolatey-provider-v1''"

definition json_truth :: "json \<Rightarrow> bool" where
  "json_truth j \<longleftrightarrow> (case j of JNull \<Rightarrow> False | JBool b \<Rightarrow> b | JInt n \<Rightarrow> n \<noteq> 0 | JStr t \<Rightarrow> t \<noteq> [] | JArr xs \<Rightarrow> xs \<noteq> []
     | JObj kvs \<Rightarrow> kvs \<noteq> [] | JFloat r \<Rightarrow> True)"

definition list_length :: "json \<Rightarrow> int" where
  "list_length j = (case j of JArr xs \<Rightarrow> int (length xs) | _ \<Rightarrow> 0)"

definition package_detail :: "payload \<Rightarrow> payload" where
  "package_detail p =
     [(ustr ''provider'', pget ''provider'' p), (ustr ''operation'', pget ''operation'' p),
      (ustr ''requested'', JInt (list_length (pget ''package_ids'' p))),
      (ustr ''source_present'', JBool (json_truth (pget ''source'' p))),
      (ustr ''source_digest'', pget_or (jstr []) ''source_digest'' p),
      (ustr ''signer_present'', JBool (json_truth (pget ''signer'' p)))]"

definition apply_package_install_policy ::
  "store \<Rightarrow> Operator \<Rightarrow> AgentRow \<Rightarrow> CommandKind \<Rightarrow> payload \<Rightarrow> store \<times> payload http" where
  "apply_package_install_policy s oper a kind p =
     (if kind \<notin> {scan_packages, install_packages} then (s, Inr p)
      else let agent = Agent.truncate a;
          provider = (if kind = scan_packages \<and> \<not> json_truth (pget ''provider'' p) then jstr ''winget'' else pget ''provider'' p) in
        if provider = jstr ''chocolatey'' \<and>
          CHOCOLATEY_PROVIDER_CAPABILITY \<notin> set (case supported_capabilities a of None \<Rightarrow> [] | Some cs \<Rightarrow> cs)
        then (dispatch_audit ''command.authorization_denied'' (op_email oper) agent (capability_denied_detail oper agent kind) s,
              Inl (HTTPException 409 ''agent_capability_unsupported''))
        else if kind = scan_packages
        then (dispatch_audit ''package_scan.dispatched'' (op_email oper) agent [(ustr ''provider'', provider)] s, Inr p)
        else (dispatch_audit ''package_install.gated'' (op_email oper) agent (package_detail p) s, Inr p))"

text \<open>What the gates leave: the authorization to spend, the payload to send and the end of the window relied upon.\<close>

record clearance =
  cl_rid :: "string option"
  cl_oid :: "string option"
  cl_payload :: payload
  cl_window_end :: "instant option"

definition power_denied_detail :: "Operator \<Rightarrow> Agent \<Rightarrow> CommandKind \<Rightarrow> string \<Rightarrow> payload" where
  "power_denied_detail oper agent kind code =
     jput ''reason'' (jstr code) (jput ''policy'' (jstr ''power_operation'')
       (decision_audit_detail (authorize_command oper agent kind) oper agent kind))"

definition clear_dispatch ::
  "runtime \<Rightarrow> console \<Rightarrow> AgentRow \<Rightarrow> CommandCreate \<Rightarrow> Operator \<Rightarrow> instant \<Rightarrow> (store \<times> clearance http) option" where
  "clear_dispatch rt cn a body oper now =
     (let agent = Agent.truncate a; kind = cr_kind body; p = cr_payload body in
      case apply_approval_policy (rt_sha256 rt) (cn_store cn) oper agent kind (JObj p) (cr_approval_request_id body) now
          (cr_emergency_override_id body) of
        (s1, Inl e) \<Rightarrow> Some (s1, Inl e)
      | (s1, Inr (rid, oid)) \<Rightarrow>
          (case apply_power_operation_policy (rt_zone rt) (cn_patch cn) a kind p now of
             Inl e \<Rightarrow> Some (dispatch_audit ''command.authorization_denied'' (op_email oper) agent
               (power_denied_detail oper agent kind (code_of e)) s1, Inl e)
           | Inr (p1, window_end) \<Rightarrow>
               (case apply_patch_approval_policy rt (cn_patch cn) s1 a kind p1 now of
                  None \<Rightarrow> None
                | Some (s2, Inl e) \<Rightarrow> Some (s2, Inl e)
                | Some (s2, Inr p2) \<Rightarrow>
                    (case apply_package_install_policy s2 oper a kind p2 of
                       (s3, Inl e) \<Rightarrow> Some (s3, Inl e)
                     | (s3, Inr p3) \<Rightarrow>
                         Some (s3, Inr \<lparr>cl_rid = rid, cl_oid = oid, cl_payload = p3, cl_window_end = window_end\<rparr>)))))"

section \<open>The command\<close>

definition utf8_of :: "json \<Rightarrow> nat list" where
  "utf8_of j = (case j of JStr t \<Rightarrow> (case encode_utf8 t of Some b \<Rightarrow> b | None \<Rightarrow> []) | _ \<Rightarrow> [])"

text \<open>The extra event of some kinds.\<close>

definition kind_event :: "runtime \<Rightarrow> AgentRow \<Rightarrow> CommandKind \<Rightarrow> payload \<Rightarrow> (string \<times> payload) option" where
  "kind_event rt a kind p =
     (let has = (\<lambda>k. JBool (map_of p (ustr k) \<noteq> None)) in
      case kind of
        query_event_log \<Rightarrow> Some (''event_log_query.dispatched'',
          [(ustr ''channel'', pget ''channel'' p),
           (ustr ''tier'', jstr (if pget ''channel'' p \<in> set (map jstr EVENT_LOG_STANDARD_CHANNELS) then ''standard'' else ''elevated'')),
           (ustr ''time_window_seconds'', pget ''time_window_seconds'' p), (ustr ''max_events'', pget ''max_events'' p),
           (ustr ''provider_filter'', has ''providers''), (ustr ''level_filter'', has ''levels''),
           (ustr ''event_id_filter'', has ''event_ids''), (ustr ''paginated'', has ''cursor'')])
      | deploy_software \<Rightarrow> Some (''software_deployment.dispatched'',
          [(ustr ''installer_type'', pget ''installer_type'' p), (ustr ''sha256'', pget ''sha256'' p),
           (ustr ''url_sha256'', jstr (rt_sha256hex rt (utf8_of (pget ''url'' p)))),
           (ustr ''argument_count'', JInt (list_length (pget ''arguments'' p))),
           (ustr ''timeout_seconds'', pget ''timeout_seconds'' p), (ustr ''signer_pinned'', has ''signer_thumbprint''),
           (ustr ''success_code_override'', has ''success_exit_codes''),
           (ustr ''reboot_policy'', case pget ''reboot'' p of JObj r \<Rightarrow> pget_or (jstr ''never'') ''policy'' r | _ \<Rightarrow> jstr ''never'')])
      | control_service \<Rightarrow> Some (''service_control.dispatched'',
          [(ustr ''action'', pget ''action'' p), (ustr ''service'', pget ''name'' p), (ustr ''reason'', pget ''reason'' p)])
      | agent_update_rollback \<Rightarrow> Some (''agent_update.rollback_dispatched'',
          [(ustr ''reason'', pget ''reason'' p),
           (ustr ''expected_current_version'', pget_or (jstr []) ''expected_current_version'' p),
           (ustr ''current_version'', JStr (agent_version a))])
      | terminate_process \<Rightarrow> Some (''process_terminate.dispatched'',
          [(ustr ''pid'', pget ''pid'' p), (ustr ''expected_name_present'', JBool (json_truth (pget ''expected_name'' p))),
           (ustr ''reason'', pget ''reason'' p)])
      | _ \<Rightarrow> None)"

definition command_expiry :: "instant \<Rightarrow> int \<Rightarrow> instant option \<Rightarrow> instant" where
  "command_expiry now ttl window_end =
     (case window_end of None \<Rightarrow> now + seconds ttl | Some e \<Rightarrow> min (now + seconds ttl) e)"

definition dispatched_event_detail ::
  "runtime \<Rightarrow> Command \<Rightarrow> payload \<Rightarrow> ustr \<Rightarrow> ustr \<Rightarrow> ustr option \<Rightarrow> CommandCreate \<Rightarrow> nat list \<Rightarrow> payload" where
  "dispatched_event_detail rt cmd p version nonce key body bytes =
     [(ustr ''command_id'', jstr (co_id cmd)), (ustr ''kind'', jstr (kind_value (co_kind cmd))),
      (ustr ''payload_keys'', JArr (map JStr (sort (map fst p)))), (ustr ''envelope_version'', JStr version),
      (ustr ''schema_version'', JInt COMMAND_SCHEMA_VERSION), (ustr ''issued_at'', JStr (command_time (co_created_at cmd))),
      (ustr ''expires_at'', JStr (command_time (co_expires_at cmd))), (ustr ''nonce'', JStr nonce),
      (ustr ''signing_key_id'', jopt JStr key), (ustr ''envelope_sha256'', jstr (rt_sha256hex rt bytes)),
      (ustr ''script_version_id'', jopt jstr (cr_script_version_id body)),
      (ustr ''script_parameter_value_set_id'', jopt jstr (cr_value_set_id body))]"

text \<open>The bytes that are signed for a stored command.\<close>

definition command_bytes :: "Command \<Rightarrow> ustr \<Rightarrow> ustr \<Rightarrow> ustr option \<Rightarrow> envelope_error + nat list" where
  "command_bytes cmd version nonce key =
     canonical_command_bytes version (Some COMMAND_SCHEMA_VERSION) (ustr (co_id cmd)) (ustr (co_agent_id cmd))
       (ustr (kind_value (co_kind cmd))) (co_payload cmd) (command_time (co_created_at cmd)) (command_time (co_expires_at cmd))
       nonce key"

definition create_command ::
  "runtime \<Rightarrow> store \<Rightarrow> AgentRow \<Rightarrow> CommandCreate \<Rightarrow> Operator \<Rightarrow> ustr \<Rightarrow> clearance \<Rightarrow> instant \<Rightarrow> string \<Rightarrow> ustr \<Rightarrow>
   (store \<times> Command) http" where
  "create_command rt s a body oper version cl now cid nonce =
     (let agent = Agent.truncate a; kind = cr_kind body; p = cl_payload cl;
          s1 = dispatch_audit ''command.authorization_allowed'' (op_email oper) agent
            (decision_audit_detail (authorize_command oper agent kind) oper agent kind) s;
          s2 = (case kind_event rt a kind p of None \<Rightarrow> s1
                | Some (action, detail) \<Rightarrow> dispatch_audit action (op_email oper) agent detail s1);
          cmd = new_command cid oper agent kind (JObj p) (cl_rid cl) (cl_oid cl) now
            (command_expiry now (cr_ttl_seconds body) (cl_window_end cl)) (cr_script_version_id body) in
      case spend_and_create s2 (cl_rid cl) (cl_oid cl) cmd now of
        Inl e \<Rightarrow> Inl e
      | Inr s3 \<Rightarrow>
          (case rt_key rt of
             None \<Rightarrow> Inl (HTTPException 500 ''signing_key_unavailable'')
           | Some active \<Rightarrow>
               let key = (if version = ustr ''command-v3'' then Some (key_id active) else None) in
               (case (sign_command (rt_key rt) version COMMAND_SCHEMA_VERSION (ustr cid) (ustr (ag_id a)) (ustr (kind_value kind))
                    (JObj p) (command_time now) (command_time (co_expires_at cmd)) nonce key, command_bytes cmd version nonce key) of
                  (Some _, Inr bytes) \<Rightarrow>
                    Inr (dispatch_audit ''command.dispatched'' (op_email oper) agent
                      (dispatched_event_detail rt cmd p version nonce key body bytes) s3, cmd)
                | _ \<Rightarrow> Inl (HTTPException 500 ''command_envelope_error''))))"

text \<open>A failure after the gates rolls the transaction back.\<close>

definition dispatch_command ::
  "runtime \<Rightarrow> console \<Rightarrow> string \<Rightarrow> CommandCreate \<Rightarrow> Operator \<Rightarrow> instant \<Rightarrow> string \<Rightarrow> ustr \<Rightarrow> console \<times> Command http" where
  "dispatch_command rt cn agent_id body oper now cid nonce =
     (case db_get ag_id (fl_agents (pd_fleet (cn_patch cn))) agent_id of
        None \<Rightarrow> (cn, Inl (HTTPException 404 ''Agent not found''))
      | Some a \<Rightarrow>
          (case admit_dispatch rt cn a body oper of
             (s1, Inl e) \<Rightarrow> (cn\<lparr>cn_store := s1\<rparr>, Inl e)
           | (s1, Inr version) \<Rightarrow>
               (case clear_dispatch rt cn a body oper now of
                  None \<Rightarrow> (cn, Inl (HTTPException 500 ''internal_error''))
                | Some (s2, Inl e) \<Rightarrow> (cn\<lparr>cn_store := s2\<rparr>, Inl e)
                | Some (s2, Inr cl) \<Rightarrow>
                    (case create_command rt s2 a body oper version cl now cid nonce of
                       Inl e \<Rightarrow> (cn, Inl e)
                     | Inr (s3, cmd) \<Rightarrow> (cn\<lparr>cn_store := s3\<rparr>, Inr cmd)))))"

text \<open>The request as it arrives: the payload passes its rules first.\<close>

definition post_command ::
  "runtime \<Rightarrow> console \<Rightarrow> string \<Rightarrow> CommandCreate \<Rightarrow> json \<Rightarrow> Operator \<Rightarrow> instant \<Rightarrow> string \<Rightarrow> ustr \<Rightarrow> console \<times> Command http" where
  "post_command rt cn agent_id body raw oper now cid nonce =
     (if \<not> (1 \<le> cr_ttl_seconds body \<and> cr_ttl_seconds body \<le> 86400) then (cn, Inl (HTTPException 422 ''validation_error''))
      else case command_create_payload (rt_unicode rt) (rt_sha256hex rt) (cr_kind body) raw of
          Inl payload_error.ValueError \<Rightarrow> (cn, Inl (HTTPException 422 ''validation_error''))
        | Inl TypeError \<Rightarrow> (cn, Inl (HTTPException 500 ''internal_error''))
        | Inr p \<Rightarrow> dispatch_command rt cn agent_id (body\<lparr>cr_payload := p\<rparr>) oper now cid nonce)"

end
