(* ===== verification/Scheduler.thy ===== *)
theory Scheduler
  imports Cron Dispatch_Command
begin

text \<open>
  Recurring tasks: the pass of \<open>core/scheduler.py\<close> that dispatches the tasks that are due, and the
  endpoints of \<open>api/scheduled_tasks.py\<close> that edit them.
\<close>

section \<open>State\<close>

datatype ScheduleTargetType = Target_agent | Target_site

datatype ScheduleConcurrencyPolicy = Concurrency_skip | Concurrency_queue | Concurrency_allow

datatype ScheduleMisfirePolicy = Misfire_run_once | Misfire_skip

fun schedule_target_value :: "ScheduleTargetType \<Rightarrow> string" where
  "schedule_target_value Target_agent = ''agent''"
| "schedule_target_value Target_site = ''site''"

record ScheduledTask =
  sk_id :: string
  sk_name :: ustr
  sk_description :: "ustr option"
  sk_enabled :: bool
  sk_target_type :: ScheduleTargetType
  sk_target_id :: string
  sk_cron_expression :: ustr
  sk_timezone :: ustr
  sk_kind :: CommandKind
  sk_script_version_id :: "string option"
  sk_payload :: payload
  sk_concurrency_policy :: ScheduleConcurrencyPolicy
  sk_misfire_policy :: ScheduleMisfirePolicy
  sk_next_run_at :: instant
  sk_last_run_at :: "instant option"
  sk_last_status :: "string option"
  sk_created_by_operator_id :: "string option"
  sk_created_by_email :: "string option"
  sk_created_at :: instant
  sk_updated_at :: instant

record schedule =
  sd_store :: store
  sd_patch :: patch_db
  sd_tasks :: "ScheduledTask rows"

section \<open>One endpoint\<close>

definition schedule_audit :: "string \<Rightarrow> string option \<Rightarrow> payload \<Rightarrow> store \<Rightarrow> store" where
  "schedule_audit action agent_id detail s = audit_record action ''system'' None agent_id None (JObj detail) s"

definition target_agents :: "fleet \<Rightarrow> ScheduledTask \<Rightarrow> AgentRow list" where
  "target_agents f task =
     filter (\<lambda>a. (case sk_target_type task of Target_agent \<Rightarrow> ag_id a = sk_target_id task | Target_site \<Rightarrow> ag_site_id a = sk_target_id task) \<and>
       trust_state a = Trust_active) (fl_agents f)"

text \<open>What counts as the previous run: the same script version where the task has one, else the same kind.\<close>

definition same_work :: "ScheduledTask \<Rightarrow> Command \<Rightarrow> bool" where
  "same_work task c \<longleftrightarrow>
     (if sk_script_version_id task \<in> {None, Some []} then co_kind c = sk_kind task
      else co_script_version_id c = sk_script_version_id task)"

definition still_active :: "store \<Rightarrow> ScheduledTask \<Rightarrow> AgentRow \<Rightarrow> bool" where
  "still_active s task a \<longleftrightarrow>
     (\<exists>c \<in> set (st_commands s). co_agent_id c = ag_id a \<and>
        co_status c \<in> {Cmd_queued, Cmd_dispatched, Cmd_running, Cmd_result_pending} \<and> same_work task c)"

definition approval_refused_detail :: "ScheduledTask \<Rightarrow> AgentRow \<Rightarrow> ApprovalPolicy \<Rightarrow> payload" where
  "approval_refused_detail task a policy =
     [(ustr ''scheduled_task_id'', jstr (sk_id task)), (ustr ''scheduled_task_name'', JStr (sk_name task)),
      (ustr ''kind'', jstr (kind_value (sk_kind task))), (ustr ''agent_id'', jstr (ag_id a)),
      (ustr ''policy_id'', jstr (ap_id policy)), (ustr ''required_approvals'', JInt (ap_required_approvals policy))]"

definition scheduled_command :: "ScheduledTask \<Rightarrow> AgentRow \<Rightarrow> payload \<Rightarrow> instant \<Rightarrow> string \<Rightarrow> Command" where
  "scheduled_command task a p now cid =
     \<lparr>co_id = cid, co_agent_id = ag_id a, co_kind = sk_kind task, co_payload = JObj p, co_status = Cmd_queued,
      co_created_at = now, co_expires_at = now + days 1, co_actor_email = sk_created_by_email task,
      co_actor_operator_id = sk_created_by_operator_id task, co_script_version_id = sk_script_version_id task,
      co_approval_request_id = None, co_emergency_override_id = None\<rparr>"

definition scheduled_detail :: "ScheduledTask \<Rightarrow> string \<Rightarrow> payload" where
  "scheduled_detail task cid =
     [(ustr ''scheduled_task_id'', jstr (sk_id task)), (ustr ''scheduled_task_name'', JStr (sk_name task)),
      (ustr ''command_id'', jstr cid), (ustr ''kind'', jstr (kind_value (sk_kind task))),
      (ustr ''target_type'', jstr (schedule_target_value (sk_target_type task))), (ustr ''target_id'', jstr (sk_target_id task))]"

text \<open>An endpoint that negotiates no version gets the older one. A signing error is not caught.\<close>

definition queue_scheduled ::
  "runtime \<Rightarrow> ScheduledTask \<Rightarrow> AgentRow \<Rightarrow> payload \<Rightarrow> instant \<Rightarrow> string \<times> ustr \<Rightarrow> store \<Rightarrow> store option" where
  "queue_scheduled rt task a p now ids s =
     (let cmd = scheduled_command task a p now (fst ids);
          version = (case select_command_envelope_version
            (map ustr (case command_envelope_versions a of None \<Rightarrow> [] | Some vs \<Rightarrow> vs)) of
            None \<Rightarrow> COMMAND_ENVELOPE_V2 | Some v \<Rightarrow> v) in
      case rt_key rt of
        None \<Rightarrow> None
      | Some active \<Rightarrow>
          (case sign_command (rt_key rt) version COMMAND_SCHEMA_VERSION (ustr (fst ids)) (ustr (ag_id a))
             (ustr (kind_value (sk_kind task))) (JObj p) (command_time now) (command_time (now + days 1)) (snd ids)
             (if version = COMMAND_ENVELOPE_V3 then Some (key_id active) else None) of
             None \<Rightarrow> None
           | Some _ \<Rightarrow> Some (schedule_audit ''scheduled_task.dispatched'' (Some (ag_id a)) (scheduled_detail task (fst ids))
               (s\<lparr>st_commands := st_commands s @ [cmd]\<rparr>))))"

datatype run_outcome = Run_refused | Run_passed_over | Run_dispatched

text \<open>The gates of the pass, in their order; \<open>None\<close> is an exception, which ends the pass.\<close>

definition gated_payload ::
  "runtime \<Rightarrow> patch_db \<Rightarrow> instant \<Rightarrow> ScheduledTask \<Rightarrow> AgentRow \<Rightarrow> store \<Rightarrow> (store \<times> payload option) option" where
  "gated_payload rt st now task a s =
     (if sk_kind task \<noteq> install_updates then Some (s, Some (sk_payload task))
      else map_option (\<lambda>decision.
        case decision of
          None \<Rightarrow> (s, Some (sk_payload task))
        | Some d \<Rightarrow>
            let s1 = audit_record ''patch_install.gated'' ''system'' None (Some (ag_id a)) None (de_gated_detail d) s;
                s2 = (case de_reboot_detail d of
                        None \<Rightarrow> s1
                      | Some detail \<Rightarrow> audit_record ''patch_install.reboot_authorized'' ''system'' None (Some (ag_id a)) None detail s1) in
            (s2, if de_outcome d \<noteq> Allowed then None
                 else case de_payload d of JObj q \<Rightarrow> Some q | _ \<Rightarrow> Some (sk_payload task)))
        (evaluate_patch_install (rt_unicode rt) (rt_fromisoformat rt) (rt_container_text rt) (rt_zone rt) st a (sk_payload task) now))"

definition schedule_agent ::
  "runtime \<Rightarrow> patch_db \<Rightarrow> instant \<Rightarrow> (string \<Rightarrow> string \<Rightarrow> string \<times> ustr) \<Rightarrow> ScheduledTask \<Rightarrow> AgentRow \<Rightarrow> store \<Rightarrow>
   (store \<times> run_outcome) option" where
  "schedule_agent rt st now fresh task a s =
     (case resolve_policy (st_db s) (st_policies s) (Agent.truncate a) (sk_kind task) of
        Some policy \<Rightarrow>
          Some (schedule_audit ''scheduled_task.approval_refused'' (Some (ag_id a)) (approval_refused_detail task a policy) s, Run_refused)
      | None \<Rightarrow>
          if sk_concurrency_policy task = Concurrency_skip \<and> still_active s task a then Some (s, Run_passed_over)
          else (case gated_payload rt st now task a s of
              None \<Rightarrow> None
            | Some (s1, None) \<Rightarrow> Some (s1, Run_passed_over)
            | Some (s1, Some p) \<Rightarrow>
                map_option (\<lambda>s2. (s2, Run_dispatched)) (queue_scheduled rt task a p now (fresh (sk_id task) (ag_id a)) s1)))"

fun schedule_agents ::
  "runtime \<Rightarrow> patch_db \<Rightarrow> instant \<Rightarrow> (string \<Rightarrow> string \<Rightarrow> string \<times> ustr) \<Rightarrow> ScheduledTask \<Rightarrow> AgentRow list \<Rightarrow> store \<Rightarrow>
   (store \<times> run_outcome list) option" where
  "schedule_agents rt st now fresh task [] s = Some (s, [])"
| "schedule_agents rt st now fresh task (a # as) s =
     (case schedule_agent rt st now fresh task a s of
        None \<Rightarrow> None
      | Some (s1, r) \<Rightarrow> map_option (\<lambda>(s2, rs). (s2, r # rs)) (schedule_agents rt st now fresh task as s1))"

section \<open>One task\<close>

definition due_task :: "instant \<Rightarrow> ScheduledTask \<Rightarrow> bool" where
  "due_task now task \<longleftrightarrow> sk_enabled task \<and> sk_next_run_at task \<le> now"

definition power_kinds :: "CommandKind set" where
  "power_kinds = {reboot, shutdown, cancel_power_action}"

text \<open>The columns written after a run.\<close>

definition rescheduled :: "runtime \<Rightarrow> instant \<Rightarrow> string \<Rightarrow> ScheduledTask \<Rightarrow> ScheduledTask option" where
  "rescheduled rt now status task =
     (case compute_next_run (rt_unicode rt) (rt_zone rt) (sk_cron_expression task) (sk_timezone task) now of
        Inl _ \<Rightarrow> None
      | Inr t \<Rightarrow> Some (task\<lparr>sk_last_status := Some status, sk_last_run_at := Some now, sk_next_run_at := t\<rparr>))"

definition misfire_detail :: "ScheduledTask \<Rightarrow> instant \<Rightarrow> payload" where
  "misfire_detail task now =
     [(ustr ''scheduled_task_id'', jstr (sk_id task)), (ustr ''scheduled_task_name'', JStr (sk_name task)),
      (ustr ''scheduled_for'', JStr (isoformat (sk_next_run_at task))), (ustr ''detected_at'', JStr (isoformat now))]"

definition run_status :: "run_outcome list \<Rightarrow> string" where
  "run_status rs =
     (if Run_dispatched \<in> set rs then ''dispatched''
      else if Run_refused \<in> set rs then ''approval_required'' else ''skipped'')"

text \<open>The store, the row, the dispatched and the skipped count.\<close>

definition run_task ::
  "runtime \<Rightarrow> patch_db \<Rightarrow> instant \<Rightarrow> (string \<Rightarrow> string \<Rightarrow> string \<times> ustr) \<Rightarrow> ScheduledTask \<Rightarrow> store \<Rightarrow>
   (store \<times> ScheduledTask \<times> nat \<times> nat) option" where
  "run_task rt st now fresh task s =
     (if sk_kind task \<in> power_kinds
      then map_option (\<lambda>t. (s, t\<lparr>sk_updated_at := now\<rparr>, 0, 1)) (rescheduled rt now ''power_operation_refused'' task)
      else if now - sk_next_run_at task > seconds (24 * 3600) \<and> sk_misfire_policy task = Misfire_skip
      then map_option (\<lambda>t. (schedule_audit ''scheduled_task.misfire_skipped'' None (misfire_detail task now) s, t, 0, 1))
        (rescheduled rt now ''misfire_skipped'' task)
      else case schedule_agents rt st now fresh task (target_agents (pd_fleet st) task) s of
          None \<Rightarrow> None
        | Some (s1, rs) \<Rightarrow>
            map_option (\<lambda>t. (s1, t\<lparr>sk_updated_at := now\<rparr>, count_list rs Run_dispatched, count_list rs Run_refused))
              (rescheduled rt now (run_status rs) task))"

section \<open>The pass\<close>

definition put_task :: "ScheduledTask \<Rightarrow> schedule \<Rightarrow> schedule" where
  "put_task t sd = sd\<lparr>sd_tasks := db_update (\<lambda>r. sk_id r = sk_id t) (\<lambda>_. t) (sd_tasks sd)\<rparr>"

fun run_tasks ::
  "runtime \<Rightarrow> instant \<Rightarrow> (string \<Rightarrow> string \<Rightarrow> string \<times> ustr) \<Rightarrow> ScheduledTask list \<Rightarrow> schedule \<times> nat \<times> nat \<Rightarrow>
   (schedule \<times> nat \<times> nat) option" where
  "run_tasks rt now fresh [] acc = Some acc"
| "run_tasks rt now fresh (task # ts) (sd, dispatched, skipped) =
     (case run_task rt (sd_patch sd) now fresh task (sd_store sd) of
        None \<Rightarrow> None
      | Some (s, t, d, k) \<Rightarrow> run_tasks rt now fresh ts (put_task t (sd\<lparr>sd_store := s\<rparr>), dispatched + d, skipped + k))"

text \<open>The transaction of a pass, before it is committed; the counts decide whether it is.\<close>

definition dispatch_scheduled_tasks_once ::
  "runtime \<Rightarrow> instant \<Rightarrow> (string \<Rightarrow> string \<Rightarrow> string \<times> ustr) \<Rightarrow> schedule \<Rightarrow> (schedule \<times> nat \<times> nat) option" where
  "dispatch_scheduled_tasks_once rt now fresh sd = run_tasks rt now fresh (filter (due_task now) (sd_tasks sd)) (sd, 0, 0)"

text \<open>One turn of the background loop: an exception, or a pass that neither dispatches nor skips, leaves nothing.\<close>

definition scheduler_pass ::
  "runtime \<Rightarrow> instant \<Rightarrow> (string \<Rightarrow> string \<Rightarrow> string \<times> ustr) \<Rightarrow> schedule \<Rightarrow> schedule" where
  "scheduler_pass rt now fresh sd =
     (case dispatch_scheduled_tasks_once rt now fresh sd of
        None \<Rightarrow> sd
      | Some (sd', dispatched, skipped) \<Rightarrow> if dispatched > 0 \<or> skipped > 0 then sd' else sd)"

end
