(* ===== verification/Scheduler_Api.thy ===== *)
theory Scheduler_Api
  imports Scheduler
begin

text \<open>
  The endpoints that edit recurring tasks (\<open>server/app/api/scheduled_tasks.py\<close>), with the rules of their
  request bodies. An answer is the row as it is after the commit; a request that raises keeps nothing.
\<close>

section \<open>Requests\<close>

record ScheduledTaskCreate =
  sc_name :: ustr
  sc_description :: "ustr option"
  sc_enabled :: bool
  sc_target_type :: ScheduleTargetType
  sc_target_id :: string
  sc_cron_expression :: ustr
  sc_timezone :: ustr
  sc_kind :: CommandKind
  sc_script_version_id :: "string option"
  sc_payload :: payload
  sc_concurrency_policy :: ScheduleConcurrencyPolicy
  sc_misfire_policy :: ScheduleMisfirePolicy

record ScheduledTaskUpdate =
  su_name :: "ustr option"
  su_description :: "ustr option"
  su_enabled :: "bool option"
  su_cron_expression :: "ustr option"
  su_timezone :: "ustr option"
  su_payload :: "payload option"
  su_concurrency_policy :: "ScheduleConcurrencyPolicy option"
  su_misfire_policy :: "ScheduleMisfirePolicy option"

definition length_between :: "nat \<Rightarrow> nat \<Rightarrow> 'a list \<Rightarrow> bool" where
  "length_between lo hi t \<longleftrightarrow> lo \<le> length t \<and> length t \<le> hi"

text \<open>The accepted expression loses the white space around it after its length was checked.\<close>

definition checked_create :: "unicode \<Rightarrow> ScheduledTaskCreate \<Rightarrow> ScheduledTaskCreate option" where
  "checked_create u b =
     (if length_between 1 200 (sc_name b) \<and> (\<forall>d \<in> set_option (sc_description b). length d \<le> 2000) \<and>
         length_between 1 36 (sc_target_id b) \<and> length_between 5 100 (sc_cron_expression b) \<and>
         length_between 1 100 (sc_timezone b) \<and> (\<forall>v \<in> set_option (sc_script_version_id b). length v \<le> 36) \<and>
         validate_cron_expression u (sc_cron_expression b) \<and> sc_kind b \<notin> power_kinds
      then Some (b\<lparr>sc_cron_expression := strip (sc_cron_expression b)\<rparr>) else None)"

definition checked_update :: "unicode \<Rightarrow> ScheduledTaskUpdate \<Rightarrow> ScheduledTaskUpdate option" where
  "checked_update u b =
     (if (\<forall>n \<in> set_option (su_name b). length_between 1 200 n) \<and> (\<forall>d \<in> set_option (su_description b). length d \<le> 2000) \<and>
         (\<forall>e \<in> set_option (su_cron_expression b). length_between 5 100 e \<and> validate_cron_expression u e) \<and>
         (\<forall>z \<in> set_option (su_timezone b). length_between 1 100 z)
      then Some (b\<lparr>su_cron_expression := map_option strip (su_cron_expression b)\<rparr>) else None)"

text \<open>Who asks, as the events record it.\<close>

record request_evidence =
  re_operator :: Operator
  re_source_ip :: "string option"
  re_user_agent :: "string option"

definition evidence_fields :: "request_evidence \<Rightarrow> payload" where
  "evidence_fields ev =
     [(ustr ''actor'', jstr (op_email (re_operator ev))), (ustr ''actor_user_id'', jstr (op_id (re_operator ev))),
      (ustr ''source_ip'', jopt jstr (re_source_ip ev)), (ustr ''user_agent'', jopt jstr (re_user_agent ev))]"

definition task_event :: "string \<Rightarrow> request_evidence \<Rightarrow> payload \<Rightarrow> schedule \<Rightarrow> schedule" where
  "task_event action ev detail sd =
     sd\<lparr>sd_store := audit_record action (op_email (re_operator ev)) None None None (JObj (evidence_fields ev @ detail)) (sd_store sd)\<rparr>"

definition get_task :: "schedule \<Rightarrow> string \<Rightarrow> ScheduledTask option" where
  "get_task sd i = db_get sk_id (sd_tasks sd) i"

section \<open>Creation\<close>

text \<open>The target has to exist and to lie in a tenant where the operator may act.\<close>

definition target_allowed :: "schedule \<Rightarrow> Operator \<Rightarrow> ScheduleTargetType \<Rightarrow> string \<Rightarrow> unit http" where
  "target_allowed sd oper target_type i =
     (case target_type of
        Target_agent \<Rightarrow>
          (case db_get ag_id (fl_agents (pd_fleet (sd_patch sd))) i of
             None \<Rightarrow> Inl (HTTPException 404 ''Target agent not found'')
           | Some a \<Rightarrow> assert_agent_visible (st_db (sd_store sd)) oper (Agent.truncate a) (Some client_operator) ''Target agent not found'')
      | Target_site \<Rightarrow>
          (case db_get site_pk (sites (st_db (sd_store sd))) i of
             None \<Rightarrow> Inl (HTTPException 404 ''Target site not found'')
           | Some site \<Rightarrow> assert_client_action (st_db (sd_store sd)) oper (Some (site_client_id site)) client_operator ''Target site not found''))"

definition new_task :: "ScheduledTaskCreate \<Rightarrow> Operator \<Rightarrow> string \<Rightarrow> instant \<Rightarrow> instant \<Rightarrow> ScheduledTask" where
  "new_task b oper new_id next_run now =
     \<lparr>sk_id = new_id, sk_name = sc_name b, sk_description = sc_description b, sk_enabled = sc_enabled b,
      sk_target_type = sc_target_type b, sk_target_id = sc_target_id b, sk_cron_expression = sc_cron_expression b,
      sk_timezone = sc_timezone b, sk_kind = sc_kind b, sk_script_version_id = sc_script_version_id b, sk_payload = sc_payload b,
      sk_concurrency_policy = sc_concurrency_policy b, sk_misfire_policy = sc_misfire_policy b, sk_next_run_at = next_run,
      sk_last_run_at = None, sk_last_status = None, sk_created_by_operator_id = Some (op_id oper),
      sk_created_by_email = Some (op_email oper), sk_created_at = now, sk_updated_at = now\<rparr>"

definition created_detail :: "ScheduledTask \<Rightarrow> payload" where
  "created_detail t =
     [(ustr ''scheduled_task_id'', jstr (sk_id t)), (ustr ''name'', JStr (sk_name t)),
      (ustr ''target_type'', jstr (schedule_target_value (sk_target_type t))), (ustr ''target_id'', jstr (sk_target_id t)),
      (ustr ''cron_expression'', JStr (sk_cron_expression t)), (ustr ''timezone'', JStr (sk_timezone t)),
      (ustr ''next_run_at'', JStr (isoformat (sk_next_run_at t)))]"

definition create_scheduled_task ::
  "runtime \<Rightarrow> schedule \<Rightarrow> ScheduledTaskCreate \<Rightarrow> request_evidence \<Rightarrow> string \<Rightarrow> instant \<Rightarrow> schedule \<times> ScheduledTask http" where
  "create_scheduled_task rt sd body ev new_id now =
     (let oper = re_operator ev in
      case require_role OperatorRole_operator oper of
        Inl e \<Rightarrow> (sd, Inl e)
      | Inr _ \<Rightarrow>
          (case checked_create (rt_unicode rt) body of
             None \<Rightarrow> (sd, Inl (HTTPException 422 ''validation_error''))
           | Some b \<Rightarrow>
               (case target_allowed sd oper (sc_target_type b) (sc_target_id b) of
                  Inl e \<Rightarrow> (sd, Inl e)
                | Inr _ \<Rightarrow>
                    (case compute_next_run (rt_unicode rt) (rt_zone rt) (sc_cron_expression b) (sc_timezone b) now of
                       Inl _ \<Rightarrow> (sd, Inl (HTTPException 400 ''Failed to calculate next run time''))
                     | Inr next_run \<Rightarrow>
                         let t = new_task b oper new_id next_run now in
                         (task_event ''scheduled_task.created'' ev (created_detail t) (sd\<lparr>sd_tasks := sd_tasks sd @ [t]\<rparr>), Inr t)))))"

section \<open>Changes\<close>

definition task_not_found :: http_error where
  "task_not_found = HTTPException 404 ''Scheduled task not found''"

text \<open>The endpoints that change a row ask for the global role and for nothing else.\<close>

definition on_task ::
  "schedule \<Rightarrow> request_evidence \<Rightarrow> string \<Rightarrow> (ScheduledTask \<Rightarrow> schedule \<times> 'a http) \<Rightarrow> schedule \<times> 'a http" where
  "on_task sd ev i handler =
     (case require_role OperatorRole_operator (re_operator ev) of
        Inl e \<Rightarrow> (sd, Inl e)
      | Inr _ \<Rightarrow> (case get_task sd i of None \<Rightarrow> (sd, Inl task_not_found) | Some t \<Rightarrow> handler t))"

definition given_or :: "'a option \<Rightarrow> 'a \<Rightarrow> 'a" where
  "given_or v old = (case v of None \<Rightarrow> old | Some x \<Rightarrow> x)"

definition merge_update :: "ScheduledTaskUpdate \<Rightarrow> ScheduledTask \<Rightarrow> ScheduledTask" where
  "merge_update b t =
     t\<lparr>sk_name := given_or (su_name b) (sk_name t),
       sk_description := (case su_description b of None \<Rightarrow> sk_description t | Some d \<Rightarrow> Some d),
       sk_enabled := given_or (su_enabled b) (sk_enabled t), sk_payload := given_or (su_payload b) (sk_payload t),
       sk_concurrency_policy := given_or (su_concurrency_policy b) (sk_concurrency_policy t),
       sk_misfire_policy := given_or (su_misfire_policy b) (sk_misfire_policy t)\<rparr>"

definition timing_changed :: "ScheduledTaskUpdate \<Rightarrow> ScheduledTask \<Rightarrow> bool" where
  "timing_changed b t \<longleftrightarrow>
     (\<exists>e. su_cron_expression b = Some e \<and> e \<noteq> sk_cron_expression t) \<or> (\<exists>z. su_timezone b = Some z \<and> z \<noteq> sk_timezone t)"

definition updated_detail :: "ScheduledTask \<Rightarrow> payload" where
  "updated_detail t =
     [(ustr ''scheduled_task_id'', jstr (sk_id t)), (ustr ''name'', JStr (sk_name t)), (ustr ''enabled'', JBool (sk_enabled t)),
      (ustr ''next_run_at'', JStr (isoformat (sk_next_run_at t)))]"

definition update_scheduled_task ::
  "runtime \<Rightarrow> schedule \<Rightarrow> string \<Rightarrow> ScheduledTaskUpdate \<Rightarrow> request_evidence \<Rightarrow> instant \<Rightarrow> schedule \<times> ScheduledTask http" where
  "update_scheduled_task rt sd i body ev now =
     (case require_role OperatorRole_operator (re_operator ev) of
        Inl e \<Rightarrow> (sd, Inl e)
      | Inr _ \<Rightarrow> case checked_update (rt_unicode rt) body of
        None \<Rightarrow> (sd, Inl (HTTPException 422 ''validation_error''))
      | Some b \<Rightarrow> on_task sd ev i (\<lambda>t.
          let t1 = merge_update b t;
              t2 = t1\<lparr>sk_cron_expression := given_or (su_cron_expression b) (sk_cron_expression t),
                      sk_timezone := given_or (su_timezone b) (sk_timezone t)\<rparr>;
              commit = (\<lambda>r. let r' = r\<lparr>sk_updated_at := now\<rparr> in
                (task_event ''scheduled_task.updated'' ev (updated_detail r') (put_task r' sd), Inr r')) in
          if timing_changed b t
          then (case compute_next_run (rt_unicode rt) (rt_zone rt) (sk_cron_expression t2) (sk_timezone t2) now of
              Inl _ \<Rightarrow> (sd, Inl (HTTPException 400 ''Failed to calculate next run time''))
            | Inr next_run \<Rightarrow> commit (t2\<lparr>sk_next_run_at := next_run\<rparr>))
          else commit t1))"

definition deleted_detail :: "ScheduledTask \<Rightarrow> payload" where
  "deleted_detail t =
     [(ustr ''scheduled_task_id'', jstr (sk_id t)), (ustr ''name'', JStr (sk_name t)),
      (ustr ''target_type'', jstr (schedule_target_value (sk_target_type t))), (ustr ''target_id'', jstr (sk_target_id t))]"

definition delete_scheduled_task :: "schedule \<Rightarrow> string \<Rightarrow> request_evidence \<Rightarrow> schedule \<times> unit http" where
  "delete_scheduled_task sd i ev =
     on_task sd ev i (\<lambda>t.
       (task_event ''scheduled_task.deleted'' ev (deleted_detail t) (sd\<lparr>sd_tasks := filter (\<lambda>r. sk_id r \<noteq> i) (sd_tasks sd)\<rparr>), Inr ()))"

definition toggled_detail :: "ScheduledTask \<Rightarrow> payload" where
  "toggled_detail t =
     [(ustr ''scheduled_task_id'', jstr (sk_id t)), (ustr ''name'', JStr (sk_name t)), (ustr ''enabled'', JBool (sk_enabled t))]"

text \<open>An expression without a next run is not caught here.\<close>

definition toggle_scheduled_task ::
  "runtime \<Rightarrow> schedule \<Rightarrow> string \<Rightarrow> request_evidence \<Rightarrow> instant \<Rightarrow> schedule \<times> ScheduledTask http" where
  "toggle_scheduled_task rt sd i ev now =
     on_task sd ev i (\<lambda>t.
       let t1 = t\<lparr>sk_enabled := \<not> sk_enabled t\<rparr>;
           commit = (\<lambda>r. let r' = r\<lparr>sk_updated_at := now\<rparr> in
             (task_event ''scheduled_task.toggled'' ev (toggled_detail r') (put_task r' sd), Inr r')) in
       if sk_enabled t1
       then (case compute_next_run (rt_unicode rt) (rt_zone rt) (sk_cron_expression t1) (sk_timezone t1) now of
           Inl _ \<Rightarrow> (sd, Inl (HTTPException 500 ''internal_error''))
         | Inr next_run \<Rightarrow> commit (t1\<lparr>sk_next_run_at := next_run\<rparr>))
       else commit t1)"

definition triggered_detail :: "ScheduledTask \<Rightarrow> nat \<Rightarrow> payload" where
  "triggered_detail t dispatched =
     [(ustr ''scheduled_task_id'', jstr (sk_id t)), (ustr ''name'', JStr (sk_name t)), (ustr ''dispatched_count'', JInt (int dispatched))]"

text \<open>The task becomes due and a whole pass runs, over every task that is due. The answer counts the pass.\<close>

definition run_scheduled_task_now ::
  "runtime \<Rightarrow> schedule \<Rightarrow> (string \<Rightarrow> string \<Rightarrow> string \<times> ustr) \<Rightarrow> string \<Rightarrow> request_evidence \<Rightarrow> instant \<Rightarrow> schedule \<times> nat http" where
  "run_scheduled_task_now rt sd fresh i ev now =
     on_task sd ev i (\<lambda>t.
       case dispatch_scheduled_tasks_once rt now fresh (put_task (t\<lparr>sk_next_run_at := now\<rparr>) sd) of
         None \<Rightarrow> (sd, Inl (HTTPException 500 ''internal_error''))
       | Some (sd', dispatched, skipped) \<Rightarrow>
           (task_event ''scheduled_task.manually_triggered'' ev (triggered_detail t dispatched) sd', Inr dispatched))"

end
