(* ===== verification/Dispatch_Sample.thy ===== *)
theory Dispatch_Sample
  imports Dispatch_Command Dispatch_Safety Command_Envelope_Correct Cron_Correct Monitoring_Correct Approved_Payloads Update_Manifest
begin

text \<open>
  A dispatch that succeeds: an operator whose only tie to the tenant is a membership for viewing sends
  an inventory command to its endpoint.
\<close>

definition dave :: Operator where "dave = op0 ''dave'' OperatorRole_operator False"

definition viewed_db :: db where
  "viewed_db = db1\<lparr>operators := dave # operators db1,
     memberships := \<lparr>mem_operator_id = ''dave'', mem_client_id = ''client1'', mem_role = client_readonly\<rparr> # memberships db1\<rparr>"

definition sample_console :: console where
  "sample_console = \<lparr>cn_store = demo_store\<lparr>st_db := viewed_db\<rparr>,
     cn_patch = \<lparr>pd_fleet = watched_fleet\<lparr>fl_db := viewed_db\<rparr>, pd_policies = [], pd_revisions = [], pd_windows = [],
       pd_snapshots = [], pd_heartbeats = []\<rparr>,
     cn_versions = [], cn_value_sets = []\<rparr>"

definition sample_runtime :: runtime where
  "sample_runtime = \<lparr>rt_unicode = ascii_unicode, rt_fromisoformat = (\<lambda>_. None), rt_container_text = (\<lambda>_. []),
     rt_zone = (\<lambda>_. None), rt_sha256 = demo_sha, rt_sha256hex = (\<lambda>_. []),
     rt_key = Some key0, rt_max_outstanding = 10\<rparr>"

definition sample_body :: CommandCreate where
  "sample_body = \<lparr>cr_kind = collect_inventory, cr_payload = [], cr_ttl_seconds = 60, cr_script_version_id = None,
     cr_value_set_id = None, cr_approval_request_id = None, cr_emergency_override_id = None\<rparr>"

definition sample_nonce :: ustr where "sample_nonce = ustr ''AAAAAAAAAAAAAAAAAAAAAA''"

definition sample_command :: Command where
  "sample_command = new_command ''c1'' dave agent1 collect_inventory (JObj []) None None 0 (seconds 60) None"

definition minute_of_1970 :: "nat \<Rightarrow> civil" where
  "minute_of_1970 m = \<lparr>c_year = 1970, c_month = 1, c_day = 1, c_hour = 0, c_minute = m, c_second = 0, c_micro = 0\<rparr>"

lemma minute_of_1970:
  assumes "m < 60"
  shows "valid_civil (minute_of_1970 m)" "civil_instant (minute_of_1970 m) = seconds (60 * int m)"
  using assms
  by (simp_all add: minute_of_1970_def valid_civil_def valid_date_def days_in_month_def civil_instant_def seconds_def
      ordinal_def days_before_year_def)

lemma sample_times: "command_time 0 = format_command_time (minute_of_1970 0)"
  "command_time (seconds 60) = format_command_time (minute_of_1970 1)"
  using minute_of_1970(2) [of 0] minute_of_1970(2) [of 1] civil_of_civil_instant [OF minute_of_1970(1), of 0]
    civil_of_civil_instant [OF minute_of_1970(1), of 1]
  by (simp_all add: command_time_def seconds_def)

lemma dispatched_window:
  "validate_command_window (command_time 0) (command_time (seconds 60)) = Inr (minute_of_1970 0, minute_of_1970 1)"
  unfolding validate_command_window_Inr parse_command_time_Inr sample_times
  using minute_of_1970 [of 0] minute_of_1970 [of 1] by (simp add: seconds_def) (simp add: minute_of_1970_def)

lemma dispatched_text:
  "let t = escape_separators (dumps esc_plain (envelope_document COMMAND_ENVELOPE_V3 1 (ustr ''c1'') (ustr ''agent1'')
      (ustr ''collect_inventory'') (JObj []) (command_time 0) (command_time (seconds 60)) sample_nonce (Some (ustr ''k1''))))
   in list_all scalar t \<and> length t \<le> 1000"
  unfolding sample_times Let_def
  apply (simp add: dumps_def envelope_document_def jopt_def COMMAND_ENVELOPE_V3_def sample_nonce_def ustr_def del: render.simps)
  apply (simp add: format_command_time_def minute_of_1970_def pad2_def pad4_def pad6_def)
  apply (simp add: esc_plain_def short_escape_def quote_def ustr_def int_repr_def digits10.simps)
  done

lemma dispatched_bytes:
  "\<exists>b. canonical_command_bytes COMMAND_ENVELOPE_V3 (Some 1) (ustr ''c1'') (ustr ''agent1'') (ustr ''collect_inventory'')
     (JObj []) (command_time 0) (command_time (seconds 60)) sample_nonce (Some (ustr ''k1'')) = Inr b"
proof -
  obtain b where b: "encode_utf8 (escape_separators (dumps esc_plain (envelope_document COMMAND_ENVELOPE_V3 1 (ustr ''c1'')
      (ustr ''agent1'') (ustr ''collect_inventory'') (JObj []) (command_time 0) (command_time (seconds 60)) sample_nonce
      (Some (ustr ''k1''))))) = Some b" "length b \<le> 65536"
    using encode_utf8_length dispatched_text unfolding Let_def by force
  have "validate_command_payload (JObj []) = Inr (JObj [])"
    using demo_payload by (auto simp: checked_payload_def split: sum.splits if_splits)
  then show ?thesis
    unfolding canonical_command_bytes_Inr
    using b dispatched_window
    by (simp add: check_signing_key_id_None nonce_ok_def key_id_ok_def alnum_def sample_nonce_def ustr_def
        SUPPORTED_COMMAND_ENVELOPE_VERSIONS_def SUPPORTED_COMMAND_KINDS_def)
qed

section \<open>The dispatch\<close>

lemma sample_agent:
  "db_get ag_id (fl_agents (pd_fleet (cn_patch sample_console))) ''agent1'' = Some silent_agent"
  by (simp add: sample_console_def watched_fleet_def db_get_def)

lemma sample_agent_fields: "Agent.truncate silent_agent = agent1" "trust_state silent_agent = Trust_active"
  "supported_capabilities silent_agent = None" "command_envelope_versions silent_agent = Some [''command-v3'']"
  by (simp_all add: silent_agent_def Agent.defs agent1_def)

lemma sample_admitted:
  "admit_dispatch sample_runtime sample_console silent_agent sample_body dave = (cn_store sample_console, Inr COMMAND_ENVELOPE_V3)"
  by (simp add: admit_dispatch_def sample_agent_fields sample_body_def sample_console_def sample_runtime_def demo_store_def
      agent_reachable_def viewed_db_def agent_client_id_def db_get_def is_client_visible_def resolve_membership_def
      authorize_command_def typed_kinds_def outstanding_commands_def rowcount_def select_command_envelope_version_def
      SUPPORTED_COMMAND_ENVELOPE_VERSIONS_def COMMAND_ENVELOPE_V3_def command_capabilities_def resolve_script_provenance_def
      dave_def fixture_defs Let_def)

lemma sample_cleared:
  "clear_dispatch sample_runtime sample_console silent_agent sample_body dave 0 =
     Some (cn_store sample_console, Inr \<lparr>cl_rid = None, cl_oid = None, cl_payload = [], cl_window_end = None\<rparr>)"
  by (simp add: clear_dispatch_def sample_agent_fields sample_body_def sample_console_def sample_runtime_def demo_store_def
      apply_approval_policy_def resolve_policy_def policy_matches_def pol0_def apply_power_operation_policy_def
      apply_patch_approval_policy_def apply_package_install_policy_def Let_def)

definition sample_dispatched :: console where
  "sample_dispatched = fst (dispatch_command sample_runtime sample_console ''agent1'' sample_body dave 0 ''c1'' sample_nonce)"

lemma sample_dispatch:
  "post_command sample_runtime sample_console ''agent1'' sample_body (JObj []) dave 0 ''c1'' sample_nonce =
     (sample_dispatched, Inr sample_command)"
proof -
  obtain b where b: "canonical_command_bytes COMMAND_ENVELOPE_V3 (Some 1) (ustr ''c1'') (ustr ''agent1'') (ustr ''collect_inventory'')
     (JObj []) (command_time 0) (command_time (seconds 60)) sample_nonce (Some (ustr ''k1'')) = Inr b"
    using dispatched_bytes by blast
  obtain s where s: "create_command sample_runtime (cn_store sample_console) silent_agent sample_body dave COMMAND_ENVELOPE_V3
      \<lparr>cl_rid = None, cl_oid = None, cl_payload = [], cl_window_end = None\<rparr> 0 ''c1'' sample_nonce = Inr (s, sample_command)"
    using b
    by (simp add: create_command_def sample_agent_fields sample_body_def kind_event_def command_expiry_def spend_and_create_def
        sample_runtime_def sign_command_def command_bytes_def new_command_def sample_command_def agent1_def key0_def
        COMMAND_ENVELOPE_V3_def COMMAND_SCHEMA_VERSION_def Let_def)
  have c: "command_create_payload u h collect_inventory (JObj []) = Inr []" for u h
    by (simp add: command_create_payload_def demo_payload)
  have k: "cr_kind sample_body = collect_inventory" "sample_body\<lparr>cr_payload := []\<rparr> = sample_body"
    "1 \<le> cr_ttl_seconds sample_body \<and> cr_ttl_seconds sample_body \<le> 86400"
    by (simp_all add: sample_body_def)
  have "dispatch_command sample_runtime sample_console ''agent1'' sample_body dave 0 ''c1'' sample_nonce =
      (sample_console\<lparr>cn_store := s\<rparr>, Inr sample_command)"
    by (simp add: dispatch_command_def sample_agent sample_admitted sample_cleared s)
  then show ?thesis by (simp add: post_command_def k c sample_dispatched_def)
qed

end
