(* ===== verification/Patch_Safety.thy ===== *)
theory Patch_Safety
  imports Patch_Policies Inventory_Correct Monitoring_Correct Cron_Correct
begin

text \<open>
  An install the gate lets through names approved updates only and has its maintenance window; the
  decision on an update is that of the first rule that matches it; the chosen policy has the most
  specific scope.
\<close>

section \<open>The decision\<close>

definition judged ::
  "unicode \<Rightarrow> iso_reader \<Rightarrow> PatchApprovalPolicyRevision \<Rightarrow> instant \<Rightarrow> json \<Rightarrow> verdict option" where
  "judged u fromisoformat revision now item =
     map_option ud_decision (evaluate_update u fromisoformat (pv_rules revision) (pv_default_action revision) item now)"

lemma evaluate_first_match:
  "evaluate_update u fiso rules default_action item now =
     (case find (\<lambda>r. rule_matches u r item) rules of
        None \<Rightarrow> evaluate_update u fiso [] default_action item now
      | Some r \<Rightarrow> evaluate_update u fiso [r] default_action item now)"
  by (induction rules) (simp_all add: evaluate_update.simps(2) [of u fiso _ "_ # _"] evaluate_update.simps(2) [of u fiso _ "[]"])

lemma find_SomeD: "find P xs = Some x \<Longrightarrow> P x"
  by (auto simp: find_Some_iff)

lemma denied_by_first_match:
  assumes "find (\<lambda>r. rule_matches u r item) rules = Some r" "pr_action r = Patch_deny"
  shows "map_option ud_decision (evaluate_update u fiso rules default_action item now) = Some Deny"
  using assms find_SomeD [OF assms(1)] by (simp add: evaluate_first_match [of u fiso rules])

lemma unknown_age_stays_deferred:
  assumes "find (\<lambda>r. rule_matches u r item) rules = Some r" "pr_action r = Patch_defer"
    "parse_dt fiso (jget item ''last_deployment_change'') = None"
  shows "map_option ud_decision (evaluate_update u fiso rules default_action item now) = Some Defer"
  using assms find_SomeD [OF assms(1)] by (simp add: evaluate_first_match [of u fiso rules] defer_satisfied_def)

lemma patch_policy_most_specific:
  assumes "resolve_effective_patch_policy st a = Some (p, r)"
  shows "p \<in> set (applicable_patch_policies st a) \<and>
    (\<forall>q \<in> set (applicable_patch_policies st a). scope_precedence (pp_scope q) \<le> scope_precedence (pp_scope p)) \<and>
    r \<in> set (pd_revisions st) \<and> pv_policy_id r = pp_id p"
proof -
  let ?s = "sort_key patch_policy_rank (applicable_patch_policies st a)"
  obtain ps where ps: "?s = p # ps" and r: "patch_current_revision (pd_revisions st) (pp_id p) = Some r"
    using assms by (auto simp: resolve_effective_patch_policy_def split: list.splits)
  have "p \<in> set (applicable_patch_policies st a)" using ps by (metis list.set_intros(1) set_sort)
  moreover have "scope_precedence (pp_scope q) \<le> scope_precedence (pp_scope p)"
    if "q \<in> set (applicable_patch_policies st a)" for q
    using hd_sort_key_least [OF that, of patch_policy_rank] ps by (auto simp: patch_policy_rank_def)
  moreover have "r \<in> set (pd_revisions st) \<and> pv_policy_id r = pp_id p"
  proof -
    let ?rs = "sort_key (\<lambda>r. - pv_version r) (filter (\<lambda>r. pv_policy_id r = pp_id p) (pd_revisions st))"
    obtain rs where "?rs = r # rs" using r by (auto simp: patch_current_revision_def split: list.splits)
    then have "r \<in> set ?rs" by simp
    then show ?thesis by simp
  qed
  ultimately show ?thesis by blast
qed

section \<open>The selection\<close>

lemma map_of_jput [simp]: "map_of (jput key v kvs) k = (if k = ustr key then Some v else map_of kvs k)"
  by (induction kvs) auto

lemma narrow_all_approved:
  "narrow_all judge items t = Some (approved, t') \<Longrightarrow> item \<in> set approved \<Longrightarrow> item \<in> set items \<and> judge item = Some Approve"
proof (induction judge items t arbitrary: approved t' rule: narrow_all.induct)
  case (2 judge x xs t)
  obtain v where v: "judge x = Some v" using 2(2) by (auto split: option.splits)
  then obtain rest where rest: "narrow_all judge xs (count_verdict v t) = Some (rest, t')"
    "approved = (if v = Approve then x # rest else rest)"
    using 2(2) by auto
  show ?case using 2(1) [OF v rest(1)] 2(3) rest(2) v by (auto split: if_splits)
qed simp

lemma check_requested_approved:
  "check_requested judge lookup ks t = Some ([], t') \<Longrightarrow> k \<in> set ks \<Longrightarrow>
   \<exists>item. lookup k = Some item \<and> judge item = Some Approve"
  by (induction judge lookup ks t arbitrary: t' rule: check_requested.induct) (auto split: option.splits if_splits)

lemma lookup_update_Some:
  "lookup_update folded field missing k = Some item \<Longrightarrow>
   item \<in> set missing \<and> (\<exists>t. text_field item field = Some t \<and> folded t = k)"
  by (auto simp: lookup_update_def find_Some_iff given_def split: option.splits) (metis nth_mem set_rev length_rev)+

text \<open>A request for an update by the text \<open>k\<close> is answered by an update that the rules approve.\<close>

definition approved_for ::
  "(ustr \<Rightarrow> ustr) \<Rightarrow> string \<Rightarrow> (json \<Rightarrow> verdict option) \<Rightarrow> json list \<Rightarrow> ustr \<Rightarrow> bool" where
  "approved_for folded field judge missing k \<longleftrightarrow>
     (\<exists>item t. item \<in> set missing \<and> text_field item field = Some t \<and> folded t \<in> {k, folded k} \<and> judge item = Some Approve)"

lemma given_the: "given t \<Longrightarrow> \<exists>s. t = Some s"
  by (cases t) (simp_all add: given_def)

lemma narrowed_kbs:
  assumes "narrow_all judge missing t = Some (approved, t')" "k \<in> set (approved_kbs u approved)"
  shows "approved_for (upper u) ''kb_id'' judge missing k"
  using assms narrow_all_approved [OF assms(1)] unfolding approved_kbs_def approved_for_def
  by (fastforce dest: given_the)

lemma narrowed_ids:
  assumes "narrow_all judge missing t = Some (approved, t')" "k \<in> set (approved_ids u approved)"
  shows "approved_for (lower u) ''update_id'' judge missing k"
  using assms narrow_all_approved [OF assms(1)] unfolding approved_ids_def approved_for_def
  by (fastforce dest: given_the)

lemma checked_for:
  assumes "check_requested judge (lookup_update folded field missing) (map folded ks) t = Some ([], t')" "k \<in> set ks"
  shows "approved_for folded field judge missing k"
proof -
  have "folded k \<in> set (map folded ks)" using assms(2) by simp
  from check_requested_approved [OF assms(1) this] obtain item where
    "lookup_update folded field missing (folded k) = Some item" "judge item = Some Approve" by auto
  then show ?thesis using lookup_update_Some [of folded field missing "folded k" item] by (auto simp: approved_for_def)
qed

lemma texts_of_JStr [simp]: "texts_of ct (Some (JArr (map JStr ks))) = Some ks"
  by (simp add: texts_of_def py_str_def comp_def)

text \<open>What the gate demands of the texts of a payload field.\<close>

definition field_approved ::
  "(json \<Rightarrow> ustr) \<Rightarrow> (ustr \<Rightarrow> ustr) \<Rightarrow> string \<Rightarrow> (json \<Rightarrow> verdict option) \<Rightarrow> json list \<Rightarrow> json option \<Rightarrow> bool" where
  "field_approved ct folded field judge missing v \<longleftrightarrow>
     (\<exists>ks. texts_of ct v = Some ks \<and> (\<forall>k \<in> set ks. approved_for folded field judge missing k))"

lemma selection_approved:
  assumes "select_updates u ct judge missing payload = Some (result, blocked, nothing, requested, t)"
    "install_all = (map_of payload (ustr ''install_all'') = Some (JBool True))" "install_all \<or> blocked = []"
  shows "map_of result (ustr ''install_all'') \<noteq> Some (JBool True)"
    "field_approved ct (upper u) ''kb_id'' judge missing (map_of result (ustr ''kb_ids''))"
    "field_approved ct (lower u) ''update_id'' judge missing (map_of result (ustr ''update_ids''))"
proof -
  have "map_of result (ustr ''install_all'') \<noteq> Some (JBool True) \<and>
    field_approved ct (upper u) ''kb_id'' judge missing (map_of result (ustr ''kb_ids'')) \<and>
    field_approved ct (lower u) ''update_id'' judge missing (map_of result (ustr ''update_ids''))"
  proof (cases install_all)
    case True
    then obtain approved t' where n: "narrow_all judge missing no_tally = Some (approved, t')"
      and result: "result = [(ustr ''install_all'', JBool False),
        (ustr ''kb_ids'', JArr (map JStr (sort (remdups (approved_kbs u approved))))),
        (ustr ''update_ids'', JArr (map JStr (sort (remdups (approved_ids u approved)))))]"
      using assms by (auto simp: select_updates_def Let_def)
    show ?thesis using narrowed_kbs [OF n] narrowed_ids [OF n] by (simp add: result field_approved_def ustr_inj)
  next
    case False
    then obtain kbs ids t1 t2 where "texts_of ct (map_of payload (ustr ''kb_ids'')) = Some kbs"
      "texts_of ct (map_of payload (ustr ''update_ids'')) = Some ids"
      "check_requested judge (lookup_update (upper u) ''kb_id'' missing) (map (upper u) kbs) no_tally = Some ([], t1)"
      "check_requested judge (lookup_update (lower u) ''update_id'' missing) (map (lower u) ids) t1 = Some ([], t2)"
      "result = payload"
      using assms by (auto simp: select_updates_def split: option.splits)
    then show ?thesis using False assms(2) by (auto simp: field_approved_def dest: checked_for)
  qed
  then show "map_of result (ustr ''install_all'') \<noteq> Some (JBool True)"
    "field_approved ct (upper u) ''kb_id'' judge missing (map_of result (ustr ''kb_ids''))"
    "field_approved ct (lower u) ''update_id'' judge missing (map_of result (ustr ''update_ids''))" by auto
qed

lemma allowed_outcome:
  "install_outcome window_required window_present install_all nothing blocked = Allowed \<longleftrightarrow>
   (window_required \<longrightarrow> window_present) \<and> \<not> (install_all \<and> nothing) \<and> (install_all \<or> blocked = [])"
  by (auto simp: install_outcome_def)

lemma injSome2: "Some (Some x) = Some (Some y) \<Longrightarrow> x = y"
  by simp

section \<open>What the gate lets through\<close>


section \<open>An example\<close>

definition scanned :: "string \<Rightarrow> string \<Rightarrow> json" where
  "scanned kb classification = JObj [(ustr ''kb_id'', jstr kb), (ustr ''classification'', jstr classification)]"

definition security_only :: PatchApprovalPolicyRevision where
  "security_only = \<lparr>pv_id = ''v1'', pv_policy_id = ''p1'', pv_version = 2,
     pv_rules = [\<lparr>pr_key = ''security'', pr_action = Patch_approve,
       pr_match = \<lparr>pm_classifications = Some [ustr ''Security''], pm_severities = None, pm_kb_ids = None\<rparr>, pr_defer_days = None\<rparr>],
     pv_default_action = Default_deny, pv_require_maintenance_window = False, pv_reboot_policy = Reboot_never,
     pv_reboot_delay_seconds = 300, pv_reboot_requires_no_user = True, pv_max_install_attempts = 2\<rparr>"

definition patched_fleet :: patch_db where
  "patched_fleet = \<lparr>pd_fleet = watched_fleet,
     pd_policies = [\<lparr>pp_id = ''p1'', pp_scope = Scope_global, pp_scope_id = None, pp_enabled = True, pp_created_at = 0\<rparr>],
     pd_revisions = [security_only], pd_windows = [],
     pd_snapshots = [\<lparr>sn_id = ''s1'', sn_agent_id = ''agent1'', sn_section = Inv_windows_updates, sn_status = Section_ok,
       sn_schema_version = 2, sn_content_hash = [], sn_byte_size = 0,
       sn_payload = JObj [(ustr ''missing'', JArr [scanned ''KB5001'' ''Security'', scanned ''KB5002'' ''Feature''])],
       sn_collected_at = 0, sn_received_at = Naive 0\<rparr>],
     pd_heartbeats = []\<rparr>"

lemma patched_resolve:
  "resolve_effective_patch_policy patched_fleet silent_agent =
     Some (\<lparr>pp_id = ''p1'', pp_scope = Scope_global, pp_scope_id = None, pp_enabled = True, pp_created_at = 0\<rparr>, security_only)"
  by (simp add: resolve_effective_patch_policy_def applicable_patch_policies_def patched_fleet_def scope_targets_def
      patch_current_revision_def security_only_def)

lemma patched_missing:
  "latest_missing_updates patched_fleet ''agent1'' = [scanned ''KB5001'' ''Security'', scanned ''KB5002'' ''Feature'']"
  by (simp add: latest_missing_updates_def latest_section_def section_rows_def newest_received_def later_id_def
      patched_fleet_def jget_def scanned_def ustr_inj)

lemma patched_judgement:
  "judged plain_unicode fiso security_only now (scanned kb c) = Some (if strip (ustr ''Security'') = strip (ustr c) then Approve else Deny)"
  by (simp add: judged_def security_only_def rule_matches_def facet_matches_def kb_matches_def text_field_def scanned_def
      jget_def ustr_inj jstr_def plain_unicode_def)

lemma patched_install:
  "\<exists>d. evaluate_patch_install plain_unicode (\<lambda>_. None) (\<lambda>_. []) (\<lambda>_. None) patched_fleet silent_agent
     [(ustr ''install_all'', JBool True)] 0 = Some (Some d) \<and> de_outcome d = Allowed"
proof -
  have j: "(\<lambda>item. map_option ud_decision (evaluate_update plain_unicode (\<lambda>_. None) (pv_rules security_only)
      (pv_default_action security_only) item 0)) = judged plain_unicode (\<lambda>_. None) security_only 0"
    by (simp add: judged_def fun_eq_iff)
  have "strip (ustr ''Security'') \<noteq> strip (ustr ''Feature'')" by (simp add: strip_def ustr_def is_space_def)
  then obtain t where "narrow_all (judged plain_unicode (\<lambda>_. None) security_only 0)
      [scanned ''KB5001'' ''Security'', scanned ''KB5002'' ''Feature''] no_tally = Some ([scanned ''KB5001'' ''Security''], t)"
    by (simp add: patched_judgement)
  then have "\<exists>result requested t. select_updates plain_unicode (\<lambda>_. []) (judged plain_unicode (\<lambda>_. None) security_only 0)
      (latest_missing_updates patched_fleet ''agent1'') [(ustr ''install_all'', JBool True)] =
      Some (result, [], False, requested, t)"
    by (simp add: select_updates_def patched_missing approved_kbs_def text_field_def scanned_def given_def jget_def jstr_def ustr_def)
  then obtain result requested t where s: "select_updates plain_unicode (\<lambda>_. [])
      (judged plain_unicode (\<lambda>_. None) security_only 0)
      (latest_missing_updates patched_fleet ''agent1'') [(ustr ''install_all'', JBool True)] =
      Some (result, [], False, requested, t)" by blast
  have "\<not> pv_require_maintenance_window security_only" by (simp add: security_only_def)
  then show ?thesis
    by (simp add: evaluate_patch_install_def patched_resolve Let_def j s install_outcome_def)
qed


end
