(* ===== verification/Dispatch_Clearance.thy ===== *)
theory Dispatch_Clearance
  imports Dispatch_Sample Patch_Safety
begin

text \<open>
  A command that the dispatch endpoint queues has passed every gate, and the endpoint as a whole does
  what the concurrent protocol of approvals and overrides allows.
\<close>

section \<open>What the gates change\<close>

definition only_audit :: "store \<Rightarrow> store \<Rightarrow> bool" where
  "only_audit s s' \<longleftrightarrow> (\<exists>au. s' = s\<lparr>st_audit := au\<rparr>)"

lemma only_audit_refl [simp, intro]: "only_audit s s"
  unfolding only_audit_def by (rule exI [of _ "st_audit s"]) simp

lemma only_audit_record [simp]: "only_audit s (audit_record action actor uid ag org detail s') \<longleftrightarrow> only_audit s s'"
proof
  assume "only_audit s (audit_record action actor uid ag org detail s')"
  then obtain au where "audit_record action actor uid ag org detail s' = s\<lparr>st_audit := au\<rparr>" by (auto simp: only_audit_def)
  then have "s' = s\<lparr>st_audit := st_audit s'\<rparr>" by (cases s; cases s') (simp add: audit_record_def)
  then show "only_audit s s'" unfolding only_audit_def by blast
qed (auto simp: only_audit_def audit_record_def)

lemma only_audit_dispatch [simp]: "only_audit s (dispatch_audit action actor agent detail s') \<longleftrightarrow> only_audit s s'"
  by (simp add: dispatch_audit_def)

lemma only_audit_fields:
  assumes "only_audit s s'"
  shows "st_commands s' = st_commands s" "st_requests s' = st_requests s" "st_overrides s' = st_overrides s"
    "st_db s' = st_db s" "st_policies s' = st_policies s" "st_decisions s' = st_decisions s"
  using assms by (auto simp: only_audit_def)

lemma only_audit_trans: "only_audit s s' \<Longrightarrow> only_audit s' s'' \<Longrightarrow> only_audit s s''"
  by (auto simp: only_audit_def)

lemma admit_dispatch_audit: "only_audit (cn_store cn) (fst (admit_dispatch rt cn a body oper))"
  by (simp add: admit_dispatch_def Let_def split: option.split sum.split)

lemma admit_dispatch_Inr:
  assumes "admit_dispatch rt cn a body oper = (s, Inr version)"
  shows "agent_reachable (st_db (cn_store cn)) oper (Agent.truncate a)" "cr_kind body \<noteq> agent_self_update"
    "cmd_allowed (authorize_command oper (Agent.truncate a) (cr_kind body))" "trust_state a = Trust_active"
    "int (outstanding_commands (cn_store cn) (ag_id a)) < rt_max_outstanding rt"
    "set (command_capabilities (cr_kind body)) \<subseteq> set (case supported_capabilities a of None \<Rightarrow> [] | Some cs \<Rightarrow> cs)"
    "resolve_script_provenance cn (cr_script_version_id body) (cr_value_set_id body) = Inr ()"
  using assms by (auto simp: admit_dispatch_def Let_def not_le split: if_splits option.splits sum.splits)

lemma approval_gate_audit:
  assumes "approval_gate sha256 s oper agent kind payload rid base now = (s', Inr ids)"
  shows "only_audit s s'"
proof -
  obtain r0 where r0: "db_get ar_id (st_requests s) rid = Some r0"
    using assms by (auto simp: approval_gate_def gate_refuse_def split: option.splits)
  have "\<not> snd (expire_if_due r0 now)"
  proof
    assume "snd (expire_if_due r0 now)"
    then have "ar_status (fst (expire_if_due r0 now)) = Req_expired"
      by (auto simp: expire_if_due_def split: option.splits if_splits)
    then have "\<not> cc_allowed (consumption_refusal sha256 d (fst (expire_if_due r0 now)) ds oper agent kind payload now)"
      for d ds using consumption_allowed(5) by fastforce
    then show False
      using assms r0 by (auto simp: approval_gate_def gate_refuse_def Let_def split: prod.splits if_splits)
  qed
  then have "expire_if_due r0 now = (r0, False)" by (rule expire_not_due)
  then show ?thesis
    using assms r0 by (auto simp: approval_gate_def gate_refuse_def gate_allow_def Let_def split: if_splits)
qed

lemma override_not_due: "\<not> snd (expire_override_if_due r now) \<Longrightarrow> expire_override_if_due r now = (r, False)"
  by (auto simp: expire_override_if_due_def split: option.splits if_splits)

lemma override_gate_audit:
  assumes "override_gate sha256 s oper agent kind payload oid base now = (s', Inr ids)"
  shows "only_audit s s'"
proof -
  obtain r0 where r0: "db_get eo_id (st_overrides s) oid = Some r0"
    using assms by (auto simp: override_gate_def gate_refuse_def split: option.splits)
  have "\<not> snd (expire_override_if_due r0 now)"
  proof
    assume "snd (expire_override_if_due r0 now)"
    then have "eo_status (fst (expire_override_if_due r0 now)) = Ovr_expired"
      by (auto simp: expire_override_if_due_def split: option.splits if_splits)
    then have "\<not> oc_allowed (override_consumption_refusal sha256 d ps (fst (expire_override_if_due r0 now)) oper agent kind payload now)"
      for d ds ps using override_allowed by fastforce
    then show False
      using assms r0 by (auto simp: override_gate_def gate_refuse_def Let_def split: prod.splits if_splits)
  qed
  then have "expire_override_if_due r0 now = (r0, False)" by (rule override_not_due)
  then show ?thesis
    using assms r0 by (auto simp: override_gate_def gate_refuse_def gate_allow_def Let_def split: if_splits)
qed

lemma apply_approval_policy_audit:
  assumes "apply_approval_policy sha256 s oper agent kind payload rid now oid = (s', Inr ids)"
  shows "only_audit s s'"
  using assms by (auto simp: apply_approval_policy_def gate_refuse_def Let_def split: option.splits if_splits
      dest: approval_gate_audit override_gate_audit)

lemma apply_approval_policy_ids:
  assumes "apply_approval_policy sha256 s oper agent kind payload rid now oid = (s', Inr (rid', oid'))"
  shows "resolve_policy (st_db s) (st_policies s) agent kind = None \<longleftrightarrow> rid' = None \<and> oid' = None"
  using assms by (auto simp: apply_approval_policy_def approval_gate_def override_gate_def gate_refuse_def Let_def
      split: option.splits if_splits prod.splits)

lemma patch_gate_audit:
  assumes "apply_patch_approval_policy rt st s a kind p now = Some (s', res)"
  shows "only_audit s s'"
proof (cases "kind = install_updates")
  case True
  then obtain decision where "evaluate_patch_install (rt_unicode rt) (rt_fromisoformat rt) (rt_container_text rt) (rt_zone rt) st a p now
      = Some decision"
    using assms by (auto simp: apply_patch_approval_policy_def)
  then show ?thesis
    using assms True
    by (cases decision; cases "de_reboot_detail (the decision)"; cases "outcome_code (de_outcome (the decision))")
      (auto simp: apply_patch_approval_policy_def Let_def)
next
  case False
  then show ?thesis using assms by (auto simp: apply_patch_approval_policy_def)
qed

lemma package_gate_audit: "only_audit s (fst (apply_package_install_policy s oper a kind p))"
  by (simp add: apply_package_install_policy_def Let_def)

text \<open>What a clearance certifies.\<close>

definition power_cleared :: "runtime \<Rightarrow> patch_db \<Rightarrow> AgentRow \<Rightarrow> CommandKind \<Rightarrow> payload \<Rightarrow> instant \<Rightarrow> instant option \<Rightarrow> bool" where
  "power_cleared rt st a kind p now window_end \<longleftrightarrow>
     (if kind \<in> {reboot, shutdown}
      then (\<exists>w \<in> set (active_maintenance_windows (rt_zone rt) (pd_fleet st) (pd_windows st) a now).
        window_end = Some (instant_of (mw_ends_at w)) \<and>
        (\<forall>v \<in> set (active_maintenance_windows (rt_zone rt) (pd_fleet st) (pd_windows st) a now).
           instant_of (mw_ends_at w) \<le> instant_of (mw_ends_at v)) \<and>
        now + seconds (int_value (pget ''delay_seconds'' p)) \<le> instant_of (mw_ends_at w)) \<and>
        (pget ''user_consent'' p = jstr ''no_user_session'' \<longrightarrow> \<not> latest_user_present st a)
      else window_end = None)"

lemma earliest_window_least:
  assumes "earliest_window ws = Some w"
  shows "w \<in> set ws \<and> (\<forall>v \<in> set ws. instant_of (mw_ends_at w) \<le> instant_of (mw_ends_at v))"
proof -
  let ?k = "\<lambda>w. (instant_of (mw_ends_at w), mw_id w)"
  obtain rest where r: "sort_key ?k ws = w # rest"
    using assms by (auto simp: earliest_window_def split: list.splits)
  have "instant_of (mw_ends_at w) \<le> instant_of (mw_ends_at v)" if "v \<in> set ws" for v
    using hd_sort_key_least [OF that, of ?k] r by auto
  moreover have "w \<in> set ws" using r by (metis list.set_intros(1) set_sort)
  ultimately show ?thesis by blast
qed

lemma power_gate_cleared:
  assumes "apply_power_operation_policy (rt_zone rt) st a kind p now = Inr (p', window_end)"
  shows "power_cleared rt st a kind p now window_end"
proof (cases "kind \<in> {reboot, shutdown}")
  case True
  then obtain w where w: "earliest_window (active_maintenance_windows (rt_zone rt) (pd_fleet st) (pd_windows st) a now) = Some w"
    using assms by (auto simp: apply_power_operation_policy_def split: option.splits)
  then show ?thesis
    using assms True earliest_window_least [OF w]
    unfolding power_cleared_def apply_power_operation_policy_def Let_def by (auto simp: not_less split: if_splits)
next
  case False
  then show ?thesis using assms by (auto simp: apply_power_operation_policy_def power_cleared_def)
qed

lemma clear_dispatch_Inr:
  assumes "clear_dispatch rt cn a body oper now = Some (s', Inr cl)"
  shows "\<exists>s1 p1. apply_approval_policy (rt_sha256 rt) (cn_store cn) oper (Agent.truncate a) (cr_kind body) (JObj (cr_payload body))
      (cr_approval_request_id body) now (cr_emergency_override_id body) = (s1, Inr (cl_rid cl, cl_oid cl)) \<and>
    apply_power_operation_policy (rt_zone rt) (cn_patch cn) a (cr_kind body) (cr_payload body) now = Inr (p1, cl_window_end cl) \<and>
    only_audit (cn_store cn) s'"
proof -
  obtain s1 rid oid where g: "apply_approval_policy (rt_sha256 rt) (cn_store cn) oper (Agent.truncate a) (cr_kind body)
      (JObj (cr_payload body)) (cr_approval_request_id body) now (cr_emergency_override_id body) = (s1, Inr (rid, oid))"
    using assms by (auto simp: clear_dispatch_def Let_def split: prod.splits sum.splits option.splits)
  obtain p1 window_end where w: "apply_power_operation_policy (rt_zone rt) (cn_patch cn) a (cr_kind body) (cr_payload body) now
      = Inr (p1, window_end)"
    using assms g by (auto simp: clear_dispatch_def Let_def split: sum.splits)
  obtain s2 p2 where t: "apply_patch_approval_policy rt (cn_patch cn) s1 a (cr_kind body) p1 now = Some (s2, Inr p2)"
    using assms g w by (auto simp: clear_dispatch_def Let_def split: option.splits prod.splits sum.splits)
  obtain s3 p3 where k: "apply_package_install_policy s2 oper a (cr_kind body) p2 = (s3, Inr p3)"
    and r: "s' = s3" "cl = \<lparr>cl_rid = rid, cl_oid = oid, cl_payload = p3, cl_window_end = window_end\<rparr>"
    using assms g w t by (auto simp: clear_dispatch_def Let_def split: prod.splits sum.splits)
  have "only_audit s2 s3" using package_gate_audit [of s2 oper a "cr_kind body" p2] k by simp
  then have "only_audit (cn_store cn) s3"
    using only_audit_trans apply_approval_policy_audit [OF g] patch_gate_audit [OF t] by blast
  then show ?thesis using g w r by simp
qed

lemma create_command_Inr:
  assumes "create_command rt s a body oper version cl now cid nonce = Inr (s', cmd)"
  shows "\<exists>s2 s3. only_audit s s2 \<and> spend_and_create s2 (cl_rid cl) (cl_oid cl) cmd now = Inr s3 \<and> only_audit s3 s' \<and>
    cmd = new_command cid oper (Agent.truncate a) (cr_kind body) (JObj (cl_payload cl)) (cl_rid cl) (cl_oid cl) now
      (command_expiry now (cr_ttl_seconds body) (cl_window_end cl)) (cr_script_version_id body) \<and>
    (\<exists>key bytes. rt_key rt = Some key \<and>
      command_bytes cmd version nonce (if version = ustr ''command-v3'' then Some (key_id key) else None) = Inr bytes)"
proof -
  let ?cmd = "new_command cid oper (Agent.truncate a) (cr_kind body) (JObj (cl_payload cl)) (cl_rid cl) (cl_oid cl) now
      (command_expiry now (cr_ttl_seconds body) (cl_window_end cl)) (cr_script_version_id body)"
  let ?s1 = "dispatch_audit ''command.authorization_allowed'' (op_email oper) (Agent.truncate a)
      (decision_audit_detail (authorize_command oper (Agent.truncate a) (cr_kind body)) oper (Agent.truncate a) (cr_kind body)) s"
  let ?s2 = "case kind_event rt a (cr_kind body) (cl_payload cl) of None \<Rightarrow> ?s1
      | Some (action, detail) \<Rightarrow> dispatch_audit action (op_email oper) (Agent.truncate a) detail ?s1"
  obtain s3 where s3: "spend_and_create ?s2 (cl_rid cl) (cl_oid cl) ?cmd now = Inr s3"
    using assms by (auto simp: create_command_def Let_def split: sum.splits)
  obtain key where k: "rt_key rt = Some key"
    using assms s3 by (auto simp: create_command_def Let_def split: option.splits)
  have "cmd = ?cmd \<and> only_audit s3 s' \<and>
      (\<exists>bytes. command_bytes ?cmd version nonce (if version = ustr ''command-v3'' then Some (key_id key) else None) = Inr bytes)"
    using assms s3 k by (auto simp: create_command_def Let_def split: option.splits sum.splits)
  moreover have "only_audit s ?s2" by (simp split: option.split)
  ultimately show ?thesis using s3 k by blast
qed

lemma spend_and_create_commands:
  assumes "spend_and_create s rid oid cmd now = Inr s'"
  shows "st_commands s' = st_commands s @ [cmd]"
  using assms by (auto simp: spend_and_create_def spend_approval_def spend_emergency_override_def Let_def
      split: option.splits sum.splits if_splits)

text \<open>A successful dispatch, taken apart.\<close>

lemma dispatch_command_Inr:
  assumes "dispatch_command rt cn agent_id body oper now cid nonce = (cn', Inr cmd)"
  obtains a version s1 s2 s3 and cl :: clearance where
    "db_get ag_id (fl_agents (pd_fleet (cn_patch cn))) agent_id = Some a"
    "admit_dispatch rt cn a body oper = (cn_store cn, Inr version)"
    "apply_approval_policy (rt_sha256 rt) (cn_store cn) oper (Agent.truncate a) (cr_kind body) (JObj (cr_payload body))
       (cr_approval_request_id body) now (cr_emergency_override_id body) = (s1, Inr (cl_rid cl, cl_oid cl))"
    "power_cleared rt (cn_patch cn) a (cr_kind body) (cr_payload body) now (cl_window_end cl)"
    "only_audit (cn_store cn) s2" "spend_and_create s2 (cl_rid cl) (cl_oid cl) cmd now = Inr s3" "only_audit s3 (cn_store cn')"
    "cmd = new_command cid oper (Agent.truncate a) (cr_kind body) (JObj (cl_payload cl)) (cl_rid cl) (cl_oid cl) now
      (command_expiry now (cr_ttl_seconds body) (cl_window_end cl)) (cr_script_version_id body)"
proof -
  obtain a where a: "db_get ag_id (fl_agents (pd_fleet (cn_patch cn))) agent_id = Some a"
    using assms by (auto simp: dispatch_command_def split: option.splits)
  obtain s0 version where v: "admit_dispatch rt cn a body oper = (s0, Inr version)"
    using assms a by (auto simp: dispatch_command_def split: prod.splits sum.splits)
  obtain sc cl where c: "clear_dispatch rt cn a body oper now = Some (sc, Inr cl)"
    using assms a v by (auto simp: dispatch_command_def split: option.splits prod.splits sum.splits)
  obtain sf where f: "create_command rt sc a body oper version cl now cid nonce = Inr (sf, cmd)" "cn' = cn\<lparr>cn_store := sf\<rparr>"
    using assms a v c by (auto simp: dispatch_command_def split: sum.splits)
  have "s0 = cn_store cn" using v by (auto simp: admit_dispatch_def Let_def split: if_splits option.splits sum.splits)
  then have v': "admit_dispatch rt cn a body oper = (cn_store cn, Inr version)" using v by simp
  from clear_dispatch_Inr [OF c] obtain s1 p1 where g: "apply_approval_policy (rt_sha256 rt) (cn_store cn) oper
      (Agent.truncate a) (cr_kind body) (JObj (cr_payload body)) (cr_approval_request_id body) now (cr_emergency_override_id body)
      = (s1, Inr (cl_rid cl, cl_oid cl))"
    and w: "apply_power_operation_policy (rt_zone rt) (cn_patch cn) a (cr_kind body) (cr_payload body) now = Inr (p1, cl_window_end cl)"
    and sc: "only_audit (cn_store cn) sc" by blast
  from create_command_Inr [OF f(1)] obtain s2 s3 where s: "only_audit sc s2"
    "spend_and_create s2 (cl_rid cl) (cl_oid cl) cmd now = Inr s3" "only_audit s3 sf"
    "cmd = new_command cid oper (Agent.truncate a) (cr_kind body) (JObj (cl_payload cl)) (cl_rid cl) (cl_oid cl) now
      (command_expiry now (cr_ttl_seconds body) (cl_window_end cl)) (cr_script_version_id body)" by blast
  have "only_audit s3 (cn_store cn')" using s(3) f(2) by simp
  then show thesis
    by (rule that [OF a v' g power_gate_cleared [OF w] only_audit_trans [OF sc s(1)] s(2) _ s(4)])
qed

lemma with_payload:
  "cr_kind (body\<lparr>cr_payload := p\<rparr>) = cr_kind body" "cr_payload (body\<lparr>cr_payload := p\<rparr>) = p"
  "cr_ttl_seconds (body\<lparr>cr_payload := p\<rparr>) = cr_ttl_seconds body"
  "cr_script_version_id (body\<lparr>cr_payload := p\<rparr>) = cr_script_version_id body"
  "cr_approval_request_id (body\<lparr>cr_payload := p\<rparr>) = cr_approval_request_id body"
  "cr_emergency_override_id (body\<lparr>cr_payload := p\<rparr>) = cr_emergency_override_id body"
  by simp_all

section \<open>A queued command passed every gate\<close>



text \<open>
  A membership for viewing is enough to dispatch. There is a dispatch that succeeds although the
  sender is no platform administrator and only has the role \<open>client_readonly\<close> at the tenant of the endpoint.
\<close>

theorem viewer_dispatches:
  "\<exists>rt cn oper a m cn' cmd. \<not> is_platform_admin oper \<and>
    db_get ag_id (fl_agents (pd_fleet (cn_patch cn))) ''agent1'' = Some a \<and>
    agent_client_id (st_db (cn_store cn)) (Agent.truncate a) = Some (mem_client_id m) \<and>
    resolve_membership (st_db (cn_store cn)) oper (mem_client_id m) = Some m \<and> mem_role m = client_readonly \<and>
    \<not> client_role_permits (mem_role m) client_operator \<and>
    post_command rt cn ''agent1'' sample_body (JObj []) oper 0 ''c1'' sample_nonce = (cn', Inr cmd)"
proof -
  let ?m = "\<lparr>mem_operator_id = ''dave'', mem_client_id = ''client1'', mem_role = client_readonly\<rparr>"
  have "\<not> is_platform_admin dave" by (simp add: dave_def op0_def)
  moreover have "agent_client_id (st_db (cn_store sample_console)) (Agent.truncate silent_agent) = Some (mem_client_id ?m)"
    by (simp add: sample_agent_fields sample_console_def agent_client_id_def db_get_def viewed_db_def fixture_defs)
  moreover have "resolve_membership (st_db (cn_store sample_console)) dave (mem_client_id ?m) = Some ?m"
    by (simp add: sample_console_def resolve_membership_def viewed_db_def dave_def fixture_defs)
  moreover have "\<not> client_role_permits (mem_role ?m) client_operator" by (simp add: client_role_permits_def)
  ultimately show ?thesis using sample_agent sample_dispatch by fastforce
qed

section \<open>The endpoint and the protocol\<close>

lemma update_row:
  assumes "distinct (map pk rs)" "r \<in> set rs" "pk (f r) = pk r"
  shows "db_update (\<lambda>q. pk q = pk (f r)) (\<lambda>_. f r) rs = db_update (\<lambda>q. pk q = pk r) f rs"
  using unique_row [OF assms(1,2)] assms(3) by (auto simp: db_update_def)

text \<open>A gate that refuses may first close a row that is overdue, as a step of the protocol does.\<close>

definition closes_overdue :: "store \<Rightarrow> instant \<Rightarrow> store \<Rightarrow> bool" where
  "closes_overdue s now s' \<longleftrightarrow> only_audit s s' \<or>
     (\<exists>r \<in> set (st_requests s). snd (expire_if_due r now) \<and> only_audit (expire_write s r now) s') \<or>
     (\<exists>r \<in> set (st_overrides s). snd (expire_override_if_due r now) \<and> only_audit (expire_override_write s r now) s')"

lemma overdue_request: "snd (expire_if_due r now) \<Longrightarrow> fst (expire_if_due r now) = expired_columns now r"
proof -
  assume s: "snd (expire_if_due r now)"
  have l: "live_status (ar_status r)" using s by (rule contrapos_pp) (simp add: expire_if_due_def)
  obtain t where t: "ar_expires_at r = Some t" using s l by (cases "ar_expires_at r") (simp_all add: expire_if_due_def)
  have le: "\<not> instant_of t > now" using s l t by (auto simp: expire_if_due_def)
  show ?thesis unfolding expire_if_due_def expired_columns_def using l t le by simp
qed

lemma overdue_override: "snd (expire_override_if_due r now) \<Longrightarrow> fst (expire_override_if_due r now) = r\<lparr>eo_status := Ovr_expired\<rparr>"
proof -
  assume s: "snd (expire_override_if_due r now)"
  have l: "eo_status r = Ovr_active" using s by (rule contrapos_pp) (simp add: expire_override_if_due_def)
  obtain t where t: "eo_expires_at r = Some t" using s l by (cases "eo_expires_at r") (simp_all add: expire_override_if_due_def)
  have le: "\<not> instant_of t > now" using s l t by (auto simp: expire_override_if_due_def)
  show ?thesis unfolding expire_override_if_due_def using l t le by simp
qed

lemma expire_write_put:
  assumes "distinct (map ar_id (st_requests s))" "r \<in> set (st_requests s)" "snd (expire_if_due r now)"
  shows "only_audit (expire_write s r now) (put_request (fst (expire_if_due r now)) s)"
proof -
  note e = overdue_request [OF assms(3)]
  have "ar_id (expired_columns now r) = ar_id r" by (simp add: expired_columns_def)
  note u = update_row [where f = "expired_columns now", OF assms(1,2) this]
  show ?thesis
    unfolding only_audit_def expire_write_def e put_request_def u
    by (rule exI [of _ "st_audit s"]) (simp add: audit_request_expired_def audit_record_def)
qed

lemma expire_override_write_put:
  assumes "distinct (map eo_id (st_overrides s))" "r \<in> set (st_overrides s)" "snd (expire_override_if_due r now)"
  shows "only_audit (expire_override_write s r now) (put_override (fst (expire_override_if_due r now)) s)"
proof -
  note e = overdue_override [OF assms(3)]
  note u = update_row [OF assms(1,2), of "\<lambda>r. r\<lparr>eo_status := Ovr_expired\<rparr>", simplified]
  show ?thesis
    unfolding only_audit_def expire_override_write_def e put_override_def
    by (rule exI [of _ "st_audit s"]) (simp add: audit_override_expired_def audit_record_def u)
qed

lemma gate_closes:
  assumes "apply_approval_policy sha256 s oper agent kind payload rid now oid = (s', res)"
    and d: "distinct (map ar_id (st_requests s))" "distinct (map eo_id (st_overrides s))"
  shows "closes_overdue s now s'"
proof -
  have a: "closes_overdue s now (fst (approval_gate sha256 s oper agent kind payload i base now))" for i base
  proof (cases "db_get ar_id (st_requests s) i")
    case None
    then show ?thesis by (simp add: approval_gate_def gate_refuse_def closes_overdue_def)
  next
    case (Some r0)
    then have r0: "r0 \<in> set (st_requests s)" by (auto dest: db_get_SomeD)
    obtain r due where r: "expire_if_due r0 now = (r, due)" by fastforce
    show ?thesis
    proof (cases due)
      case True
      have "only_audit (expire_write s r0 now) (put_request r s)" using expire_write_put [OF d(1) r0, of now] r True by simp
      then show ?thesis
        using Some r r0 True
        by (auto simp: approval_gate_def gate_refuse_def gate_allow_def Let_def closes_overdue_def audit_request_expired_def)
    next
      case False
      then show ?thesis
        using Some r by (auto simp: approval_gate_def gate_refuse_def gate_allow_def Let_def closes_overdue_def)
    qed
  qed
  have o: "closes_overdue s now (fst (override_gate sha256 s oper agent kind payload i base now))" for i base
  proof (cases "db_get eo_id (st_overrides s) i")
    case None
    then show ?thesis by (simp add: override_gate_def gate_refuse_def closes_overdue_def)
  next
    case (Some r0)
    then have r0: "r0 \<in> set (st_overrides s)" by (auto dest: db_get_SomeD)
    obtain r due where r: "expire_override_if_due r0 now = (r, due)" by fastforce
    show ?thesis
    proof (cases due)
      case True
      have "only_audit (expire_override_write s r0 now) (put_override r s)"
        using expire_override_write_put [OF d(2) r0, of now] r True by simp
      then show ?thesis
        using Some r r0 True
        by (auto simp: override_gate_def gate_refuse_def gate_allow_def Let_def closes_overdue_def audit_override_expired_def)
    next
      case False
      then show ?thesis
        using Some r by (auto simp: override_gate_def gate_refuse_def gate_allow_def Let_def closes_overdue_def)
    qed
  qed
  have "s' = s \<or> only_audit s s' \<or> (\<exists>i base. s' = fst (approval_gate sha256 s oper agent kind payload i base now)) \<or>
      (\<exists>i base. s' = fst (override_gate sha256 s oper agent kind payload i base now))"
    using arg_cong [OF assms(1), of fst, symmetric]
    by (auto simp: apply_approval_policy_def gate_refuse_def Let_def split: option.splits)
  moreover have "closes_overdue s now s" by (simp add: closes_overdue_def)
  moreover have "only_audit s s' \<Longrightarrow> closes_overdue s now s'" by (simp add: closes_overdue_def)
  ultimately show ?thesis using a o by blast
qed

lemma clear_dispatch_closes:
  assumes "clear_dispatch rt cn a body oper now = Some (s', Inl e)"
    and "distinct (map ar_id (st_requests (cn_store cn)))" "distinct (map eo_id (st_overrides (cn_store cn)))"
  shows "closes_overdue (cn_store cn) now s'"
proof -
  obtain s1 res where g: "apply_approval_policy (rt_sha256 rt) (cn_store cn) oper (Agent.truncate a) (cr_kind body)
      (JObj (cr_payload body)) (cr_approval_request_id body) now (cr_emergency_override_id body) = (s1, res)" by fastforce
  note closes = gate_closes [OF g assms(2,3)]
  show ?thesis
  proof (cases res)
    case (Inl x)
    then show ?thesis using assms(1) g closes by (simp add: clear_dispatch_def Let_def)
  next
    case (Inr ids)
    have only: "only_audit (cn_store cn) s1" using apply_approval_policy_audit g Inr by blast
    have "only_audit s1 s'"
    proof (cases "apply_power_operation_policy (rt_zone rt) (cn_patch cn) a (cr_kind body) (cr_payload body) now")
      case (Inl x)
      then show ?thesis using assms(1) g Inr by (auto simp: clear_dispatch_def Let_def split: prod.splits)
    next
      case (Inr pw)
      then obtain p1 window_end where pw: "apply_power_operation_policy (rt_zone rt) (cn_patch cn) a (cr_kind body)
          (cr_payload body) now = Inr (p1, window_end)" by (cases pw) simp
      obtain s2 res2 where t: "apply_patch_approval_policy rt (cn_patch cn) s1 a (cr_kind body) p1 now = Some (s2, res2)"
        using assms(1) g \<open>res = Inr ids\<close> pw by (auto simp: clear_dispatch_def Let_def split: prod.splits option.splits)
      note t2 = patch_gate_audit [OF t]
      show ?thesis
      proof (cases res2)
        case (Inl x)
        then show ?thesis
          using assms(1) g \<open>res = Inr ids\<close> pw t t2 by (auto simp: clear_dispatch_def Let_def split: prod.splits)
      next
        case (Inr p2)
        then have "s' = fst (apply_package_install_policy s2 oper a (cr_kind body) p2)"
          using assms(1) g \<open>res = Inr ids\<close> pw t by (auto simp: clear_dispatch_def Let_def split: prod.splits sum.splits)
        then show ?thesis using only_audit_trans [OF t2] package_gate_audit by simp
      qed
    qed
    then show ?thesis using only_audit_trans [OF only] by (simp add: closes_overdue_def)
  qed
qed

lemma step_audit:
  assumes "only_audit (w_store w) s'"
  shows "step sha256 w (w\<lparr>w_store := s'\<rparr>)"
proof -
  obtain au where "s' = (w_store w)\<lparr>st_audit := au\<rparr>" using assms by (auto simp: only_audit_def)
  then show ?thesis
    using step.administer [where w = w and d = "st_db (w_store w)" and cl = "st_clients (w_store w)" and ags = "st_agents (w_store w)"
      and ps = "st_policies (w_store w)" and au = au]
    by simp
qed

lemma closes_overdue_steps:
  assumes "closes_overdue (w_store w) now s'"
  shows "\<exists>w'. (step sha256)\<^sup>*\<^sup>* w w' \<and> w_store w' = s' \<and> w_tickets w' = w_tickets w"
  using assms unfolding closes_overdue_def
proof (elim disjE bexE conjE)
  assume "only_audit (w_store w) s'"
  then show ?thesis using step_audit by (intro exI [of _ "w\<lparr>w_store := s'\<rparr>"]) auto
next
  fix r assume r: "r \<in> set (st_requests (w_store w))" "snd (expire_if_due r now)" "only_audit (expire_write (w_store w) r now) s'"
  let ?w1 = "w\<lparr>w_reads := r # w_reads w\<rparr>" and ?w2 = "w\<lparr>w_reads := r # w_reads w, w_store := expire_write (w_store w) r now\<rparr>"
  have "step sha256 w ?w1" using r(1) by (rule step.read_request)
  moreover have "step sha256 ?w1 ?w2" using step.expire [of r ?w1 now sha256] r(2) by simp
  moreover have "step sha256 ?w2 (?w2\<lparr>w_store := s'\<rparr>)" using step_audit [of ?w2 s'] r(3) by simp
  ultimately show ?thesis by (intro exI [of _ "?w2\<lparr>w_store := s'\<rparr>"]) auto
next
  fix r assume r: "r \<in> set (st_overrides (w_store w))" "snd (expire_override_if_due r now)"
    "only_audit (expire_override_write (w_store w) r now) s'"
  let ?w1 = "w\<lparr>w_override_reads := r # w_override_reads w\<rparr>"
    and ?w2 = "w\<lparr>w_override_reads := r # w_override_reads w, w_store := expire_override_write (w_store w) r now\<rparr>"
  have "step sha256 w ?w1" using r(1) by (rule step.read_override)
  moreover have "step sha256 ?w1 ?w2" using step.expire_override [of r ?w1 now sha256] r(2) by simp
  moreover have "step sha256 ?w2 (?w2\<lparr>w_store := s'\<rparr>)" using step_audit [of ?w2 s'] r(3) by simp
  ultimately show ?thesis by (intro exI [of _ "?w2\<lparr>w_store := s'\<rparr>"]) auto
qed

lemma spend_and_create_audit:
  assumes "spend_and_create (s\<lparr>st_audit := au\<rparr>) rid oid cmd now = Inr s'"
  shows "spend_and_create s rid oid cmd now = Inr (s'\<lparr>st_audit := st_audit s\<rparr>)"
  using assms by (auto simp: spend_and_create_def spend_approval_def spend_emergency_override_def Let_def
      split: option.splits if_splits)

lemma dispatch_steps:
  assumes g: "apply_approval_policy sha256 (w_store w) oper agent kind payload rid now oid = (s1, Inr (rid', oid'))"
    and c: "only_audit (w_store w) s2" "spend_and_create s2 rid' oid'
      (new_command cid oper agent kind payload' rid' oid' now expires sv) now = Inr s3" "only_audit s3 s4"
  shows "\<exists>w'. (step sha256)\<^sup>*\<^sup>* w w' \<and> w_store w' = s4 \<and> w_tickets w' = w_tickets w"
proof -
  let ?t = "\<lparr>tk_rid = rid', tk_oid = oid', tk_operator = oper, tk_agent = agent,
      tk_kind = kind, tk_audit = drop (length (st_audit (w_store w))) (st_audit s1)\<rparr>"
  let ?w1 = "w\<lparr>w_tickets := ?t # w_tickets w\<rparr>" and ?s = "s3\<lparr>st_audit := st_audit (w_store w)\<rparr>"
  let ?w2 = "?w1\<lparr>w_store := ?s\<lparr>st_audit := st_audit ?s @ tk_audit ?t\<rparr>, w_tickets := remove1 ?t (w_tickets ?w1)\<rparr>"
  have "step sha256 w ?w1" by (rule step.gate [OF g])
  moreover obtain au where "s2 = (w_store w)\<lparr>st_audit := au\<rparr>" using c(1) by (auto simp: only_audit_def)
  then have "spend_and_create (w_store w) rid' oid' (new_command cid oper agent kind payload' rid' oid' now expires sv) now = Inr ?s"
    using spend_and_create_audit c(2) by simp
  then have "step sha256 ?w1 ?w2"
    using step.dispatch [of ?t ?w1 cid payload' now expires sv ?s sha256] by simp
  moreover have "only_audit (w_store ?w2) s4" using c(3) by (auto simp: only_audit_def)
  then have "step sha256 ?w2 (?w2\<lparr>w_store := s4\<rparr>)" by (rule step_audit)
  ultimately have "(step sha256)\<^sup>*\<^sup>* w (?w2\<lparr>w_store := s4\<rparr>)"
    by (meson converse_rtranclp_into_rtranclp rtranclp.rtrancl_refl)
  then show ?thesis by (intro exI [of _ "?w2\<lparr>w_store := s4\<rparr>"]) simp
qed

text \<open>
  C8. The endpoint follows the protocol. Whatever a request to dispatch does to the committed tables,
  refused or not, the concurrent protocol of approvals and overrides can do from any world with these
  tables, leaving no ticket behind. What is proved of every reachable state of the protocol therefore
  holds of the tables that the endpoint leaves.
\<close>

theorem dispatch_refines_protocol:
  assumes "w_store w = cn_store cn" "distinct (map ar_id (st_requests (cn_store cn)))"
    and "distinct (map eo_id (st_overrides (cn_store cn)))"
    and "post_command rt cn agent_id body raw oper now cid nonce = (cn', res)"
  shows "\<exists>w'. (step (rt_sha256 rt))\<^sup>*\<^sup>* w w' \<and> w_store w' = cn_store cn' \<and> w_tickets w' = w_tickets w"
proof (cases res)
  case (Inr cmd)
  obtain p where d: "dispatch_command rt cn agent_id (body\<lparr>cr_payload := p\<rparr>) oper now cid nonce = (cn', Inr cmd)"
    using assms(4) Inr by (auto simp: post_command_def split: if_splits sum.splits payload_error.splits)
  obtain a version s1 s2 s3 and cl :: clearance where
    a: "db_get ag_id (fl_agents (pd_fleet (cn_patch cn))) agent_id = Some a"
    and v: "admit_dispatch rt cn a (body\<lparr>cr_payload := p\<rparr>) oper = (cn_store cn, Inr version)"
    and g: "apply_approval_policy (rt_sha256 rt) (cn_store cn) oper (Agent.truncate a) (cr_kind body) (JObj p)
       (cr_approval_request_id body) now (cr_emergency_override_id body) = (s1, Inr (cl_rid cl, cl_oid cl))"
    and pw: "power_cleared rt (cn_patch cn) a (cr_kind body) p now (cl_window_end cl)"
    and s: "only_audit (cn_store cn) s2" "spend_and_create s2 (cl_rid cl) (cl_oid cl) cmd now = Inr s3" "only_audit s3 (cn_store cn')"
    and cmd: "cmd = new_command cid oper (Agent.truncate a) (cr_kind body) (JObj (cl_payload cl)) (cl_rid cl) (cl_oid cl) now
      (command_expiry now (cr_ttl_seconds body) (cl_window_end cl)) (cr_script_version_id body)"
    using dispatch_command_Inr [OF d, unfolded with_payload] by metis
  show ?thesis
    by (rule dispatch_steps [OF g [folded assms(1)] s(1) [folded assms(1)] s(2) [unfolded cmd] s(3)])
next
  case (Inl e)
  have "closes_overdue (cn_store cn) now (cn_store cn')"
  proof (cases "cn' = cn")
    case True
    then show ?thesis by (simp add: closes_overdue_def)
  next
    case False
    then obtain p where d: "dispatch_command rt cn agent_id (body\<lparr>cr_payload := p\<rparr>) oper now cid nonce = (cn', Inl e)"
      using assms(4) Inl by (auto simp: post_command_def split: if_splits sum.splits payload_error.splits)
    then obtain a where a: "db_get ag_id (fl_agents (pd_fleet (cn_patch cn))) agent_id = Some a"
      using False by (auto simp: dispatch_command_def split: option.splits)
    obtain s1 r1 where v: "admit_dispatch rt cn a (body\<lparr>cr_payload := p\<rparr>) oper = (s1, r1)" by fastforce
    have s1: "only_audit (cn_store cn) s1" using admit_dispatch_audit [of cn rt a "body\<lparr>cr_payload := p\<rparr>" oper] v by simp
    show ?thesis
    proof (cases r1)
      case (Inl x)
      then show ?thesis using d a v s1 by (auto simp: dispatch_command_def closes_overdue_def)
    next
      case (Inr version)
      then obtain s2 where c: "clear_dispatch rt cn a (body\<lparr>cr_payload := p\<rparr>) oper now = Some (s2, Inl e)" "cn' = cn\<lparr>cn_store := s2\<rparr>"
        using d a v False by (auto simp: dispatch_command_def split: option.splits prod.splits sum.splits)
      then show ?thesis using clear_dispatch_closes [OF c(1) assms(2,3)] by simp
    qed
  qed
  then show ?thesis using closes_overdue_steps assms(1) by metis
qed

theorem dispatch_refines_protocol_witness:
  "\<exists>w'. (step demo_sha)\<^sup>*\<^sup>* (demo_world (cn_store sample_console) [] []) w' \<and>
    w_store w' = cn_store sample_dispatched \<and> w_tickets w' = []"
proof -
  have "rt_sha256 sample_runtime = demo_sha" by (simp add: sample_runtime_def)
  moreover have "distinct (map ar_id (st_requests (cn_store sample_console)))"
    "distinct (map eo_id (st_overrides (cn_store sample_console)))"
    by (simp_all add: sample_console_def demo_store_def)
  ultimately show ?thesis
    using dispatch_refines_protocol [OF _ _ _ sample_dispatch, of "demo_world (cn_store sample_console) [] []"]
    by (simp add: demo_world_def)
qed

end
