(* ===== verification/Scheduler_Sample.thy ===== *)
theory Scheduler_Sample
  imports Scheduler_Api Dispatch_Clearance
begin

text \<open>
  A recurring task of one tenant, and an operator without any tie to that tenant who replaces its
  script. The task runs every minute.
\<close>

section \<open>A task that runs every minute\<close>

definition each_minute :: cron where
  "each_minute = \<lparr>cr_minutes = [0..59], cr_hours = [0..23], cr_doms = [1..31], cr_months = [1..12], cr_dows = [0..7]\<rparr>"

lemma each_minute_matches: "valid_civil c \<Longrightarrow> cron_matches each_minute c"
proof -
  assume v: "valid_civil c"
  have "cron_dow c \<in> {0..6}" by (simp add: cron_dow_def)
  moreover have "{0..6} \<subseteq> set (cron_dows each_minute)" by (force simp: cron_dows_def each_minute_def)
  moreover have "days_in_month (c_year c) (c_month c) \<le> 31" by (simp add: days_in_month_def)
  ultimately show ?thesis
    using v by (auto simp: cron_matches_def each_minute_def valid_civil_def valid_date_def)
qed

lemma every_minute_next:
  assumes "valid_civil (zn_local (get_tz u zones tz) base)" "c_year (add_minute (zn_local (get_tz u zones tz) base)) \<le> 9999"
  shows "compute_next_run u zones every_minute tz base = Inr (zn_instant (get_tz u zones tz)
    ((add_minute (zn_local (get_tz u zones tz) base))\<lparr>c_second := 0, c_micro := 0\<rparr>))"
proof -
  let ?c = "(add_minute (zn_local (get_tz u zones tz) base))\<lparr>c_second := 0, c_micro := 0\<rparr>"
  have "valid_civil ?c" using valid_add_minute [OF assms(1)] by (simp add: valid_civil_def)
  from search_first [OF _ each_minute_matches [OF this]] have "search each_minute max_minutes ?c = Inr ?c"
    by (simp add: max_minutes_def)
  then show ?thesis
    using assms(2) every_minute_parses [of u]
    by (simp add: compute_next_run_def next_minute_def each_minute_def [symmetric] Let_def)
qed

definition early_1970 :: "nat \<Rightarrow> nat \<Rightarrow> civil" where
  "early_1970 d m = \<lparr>c_year = 1970, c_month = 1, c_day = d, c_hour = 0, c_minute = m, c_second = 0, c_micro = 0\<rparr>"

lemma early_1970:
  assumes "m < 60" "1 \<le> d" "d \<le> 31"
  shows "valid_civil (early_1970 d m)" "civil_instant (early_1970 d m) = seconds (86400 * (int d - 1) + 60 * int m)"
  using assms
  by (simp_all add: early_1970_def valid_civil_def valid_date_def days_in_month_def civil_instant_def seconds_def
      ordinal_def days_before_year_def)

lemma early_1970_instant:
  "m < 60 \<Longrightarrow> 1 \<le> d \<Longrightarrow> d \<le> 31 \<Longrightarrow> civil_of_instant (seconds (86400 * (int d - 1) + 60 * int m)) = early_1970 d m"
  using civil_of_civil_instant [OF early_1970(1)] early_1970(2) by metis

section \<open>The deployment\<close>

definition eve :: Operator where "eve = (op0 ''eve'' OperatorRole_operator False)\<lparr>script_execution_scope := None\<rparr>"

definition nightly :: ScheduledTask where
  "nightly = \<lparr>sk_id = ''t1'', sk_name = ustr ''report'', sk_description = None, sk_enabled = True, sk_target_type = Target_agent,
     sk_target_id = ''agent1'', sk_cron_expression = every_minute, sk_timezone = ustr ''UTC'', sk_kind = powershell,
     sk_script_version_id = None, sk_payload = [], sk_concurrency_policy = Concurrency_skip,
     sk_misfire_policy = Misfire_run_once, sk_next_run_at = seconds 60, sk_last_run_at = None, sk_last_status = None,
     sk_created_by_operator_id = Some ''alice'', sk_created_by_email = Some ''alice@example.org'', sk_created_at = 0,
     sk_updated_at = 0\<rparr>"

definition sample_schedule :: "ScheduledTask list \<Rightarrow> schedule" where
  "sample_schedule ts = \<lparr>sd_store = cn_store sample_console, sd_patch = cn_patch sample_console, sd_tasks = ts\<rparr>"

definition fresh_ids :: "string \<Rightarrow> string \<Rightarrow> string \<times> ustr" where
  "fresh_ids task agent = (''c1'', sample_nonce)"

definition eve_script :: payload where
  "eve_script = [(ustr ''script'', jstr ''whoami'')]"

definition eve_update :: ScheduledTaskUpdate where
  "eve_update = \<lparr>su_name = None, su_description = None, su_enabled = None, su_cron_expression = None, su_timezone = None,
     su_payload = Some eve_script, su_concurrency_policy = None, su_misfire_policy = None\<rparr>"

definition eve_request :: request_evidence where
  "eve_request = \<lparr>re_operator = eve, re_source_ip = None, re_user_agent = None\<rparr>"

definition changed_task :: ScheduledTask where
  "changed_task = nightly\<lparr>sk_payload := eve_script\<rparr>"

definition changed_schedule :: schedule where
  "changed_schedule = fst (update_scheduled_task sample_runtime (sample_schedule [nightly]) ''t1'' eve_update eve_request 0)"

lemma update_by_eve:
  "update_scheduled_task sample_runtime (sample_schedule [nightly]) ''t1'' eve_update eve_request 0 =
     (changed_schedule, Inr changed_task)"
  by (simp add: changed_schedule_def update_scheduled_task_def eve_request_def eve_def op0_def require_role_def
      checked_update_def eve_update_def on_task_def get_task_def db_get_def sample_schedule_def nightly_def timing_changed_def
      merge_update_def given_or_def changed_task_def Let_def)

lemma changed_schedule_fields: "sd_tasks changed_schedule = [changed_task]" "sd_patch changed_schedule = cn_patch sample_console"
  "only_audit (cn_store sample_console) (sd_store changed_schedule)"
  by (simp_all add: changed_schedule_def update_scheduled_task_def eve_request_def eve_def op0_def require_role_def
      checked_update_def eve_update_def on_task_def get_task_def db_get_def sample_schedule_def nightly_def timing_changed_def
      merge_update_def given_or_def changed_task_def Let_def task_event_def put_task_def db_update_def)

section \<open>The signed command\<close>

lemma minute_two: "command_time (seconds 60) = format_command_time (early_1970 1 1)"
  "command_time (seconds 60 + days 1) = format_command_time (early_1970 2 1)"
  using early_1970_instant [of 1 1] early_1970_instant [of 1 2]
  by (simp_all add: command_time_def seconds_def days_def)

lemma eve_window:
  "validate_command_window (command_time (seconds 60)) (command_time (seconds 60 + days 1)) = Inr (early_1970 1 1, early_1970 2 1)"
  unfolding validate_command_window_Inr parse_command_time_Inr minute_two
  using early_1970 [of 1 1] early_1970 [of 1 2] by (simp add: seconds_def) (simp add: early_1970_def)

lemma eve_script_normal: "normalise (JObj eve_script) = JObj [(ustr ''script'', JStr (ustr ''whoami''))]"
  by (simp add: eve_script_def ustr_def jstr_def)

lemma eve_script_accepted: "validate_command_payload (JObj eve_script) = Inr (JObj eve_script)"
proof -
  have "list_all scalar (dumps esc_plain (JObj eve_script)) \<and> length (dumps esc_plain (JObj eve_script)) \<le> 1000"
    unfolding dumps_def eve_script_normal
    by (simp add: ustr_def esc_plain_def short_escape_def quote_def scalar_def)
  then have "\<exists>b. encode_utf8 (dumps esc_plain (JObj eve_script)) = Some b \<and> length b \<le> 61440"
    using encode_utf8_length [of "dumps esc_plain (JObj eve_script)"] by auto
  then show ?thesis
    unfolding validate_command_payload_Inr by (simp add: eve_script_def jstr_def is_object_def)
qed

lemma eve_text:
  "let t = escape_separators (dumps esc_plain (envelope_document COMMAND_ENVELOPE_V3 1 (ustr ''c1'') (ustr ''agent1'')
      (ustr ''powershell'') (JObj eve_script) (command_time (seconds 60)) (command_time (seconds 60 + days 1)) sample_nonce
      (Some (ustr ''k1''))))
   in list_all scalar t \<and> length t \<le> 1000"
  unfolding minute_two Let_def
  apply (simp add: dumps_def envelope_document_def eve_script_def jstr_def jopt_def COMMAND_ENVELOPE_V3_def sample_nonce_def ustr_def
      del: render.simps)
  apply (simp add: format_command_time_def early_1970_def pad2_def pad4_def pad6_def)
  apply (simp add: esc_plain_def short_escape_def quote_def ustr_def int_repr_def digits10.simps)
  done

lemma eve_bytes:
  "\<exists>b. canonical_command_bytes COMMAND_ENVELOPE_V3 (Some 1) (ustr ''c1'') (ustr ''agent1'') (ustr ''powershell'')
     (JObj eve_script) (command_time (seconds 60)) (command_time (seconds 60 + days 1)) sample_nonce (Some (ustr ''k1'')) = Inr b"
proof -
  obtain b where b: "encode_utf8 (escape_separators (dumps esc_plain (envelope_document COMMAND_ENVELOPE_V3 1 (ustr ''c1'')
      (ustr ''agent1'') (ustr ''powershell'') (JObj eve_script) (command_time (seconds 60)) (command_time (seconds 60 + days 1))
      sample_nonce (Some (ustr ''k1''))))) = Some b" "length b \<le> 65536"
    using encode_utf8_length eve_text unfolding Let_def by force
  show ?thesis
    unfolding canonical_command_bytes_Inr
    using b eve_window eve_script_accepted
    by (simp add: check_signing_key_id_None nonce_ok_def key_id_ok_def alnum_def sample_nonce_def ustr_def
        SUPPORTED_COMMAND_ENVELOPE_VERSIONS_def SUPPORTED_COMMAND_KINDS_def)
qed

section \<open>The pass\<close>

definition eve_command :: Command where
  "eve_command = scheduled_command changed_task silent_agent eve_script (seconds 60) ''c1''"

lemma eve_queued:
  "\<exists>s. queue_scheduled sample_runtime changed_task silent_agent eve_script (seconds 60) (''c1'', sample_nonce) s0 = Some s \<and>
     st_commands s = st_commands s0 @ [eve_command]"
proof -
  obtain b where b: "canonical_command_bytes COMMAND_ENVELOPE_V3 (Some 1) (ustr ''c1'') (ustr ''agent1'') (ustr ''powershell'')
     (JObj eve_script) (command_time (seconds 60)) (command_time (seconds 60 + days 1)) sample_nonce (Some (ustr ''k1'')) = Inr b"
    using eve_bytes by blast
  have v: "select_command_envelope_version [COMMAND_ENVELOPE_V3] = Some COMMAND_ENVELOPE_V3"
    by (simp add: select_command_envelope_version_def SUPPORTED_COMMAND_ENVELOPE_VERSIONS_def COMMAND_ENVELOPE_V3_def)
  have k: "sk_kind changed_task = powershell" "ustr ''command-v3'' = COMMAND_ENVELOPE_V3"
    by (simp_all add: changed_task_def nightly_def COMMAND_ENVELOPE_V3_def)
  show ?thesis
    using b by (simp add: queue_scheduled_def sample_agent_fields v k sample_runtime_def sign_command_def key0_def
        COMMAND_SCHEMA_VERSION_def eve_command_def schedule_audit_def audit_record_def Let_def)
qed

lemma utc_zone_ascii: "get_tz ascii_unicode zones (ustr ''UTC'') = utc_zone"
  by (simp add: get_tz_def ascii_unicode_def ustr_def strip_def is_space_def)

lemma changed_task_next:
  "compute_next_run ascii_unicode zones every_minute (ustr ''UTC'') (seconds 60) = Inr (seconds 120)"
proof -
  have m: "civil_of_instant (seconds 60) = early_1970 1 1" using early_1970_instant [of 1 1] by simp
  have "(add_minute (early_1970 1 1))\<lparr>c_second := 0, c_micro := 0\<rparr> = early_1970 1 2"
    by (simp add: add_minute_def early_1970_def)
  then show ?thesis
    using every_minute_next [of ascii_unicode zones "ustr ''UTC''" "seconds 60"] early_1970 [of 1 1] early_1970(2) [of 2 1] m
    by (simp add: utc_zone_ascii utc_zone_def) (simp add: add_minute_def early_1970_def)
qed

lemma changed_pass:
  assumes "only_audit (cn_store sample_console) s0"
  shows "\<exists>sd'. dispatch_scheduled_tasks_once sample_runtime (seconds 60) fresh_ids
      \<lparr>sd_store = s0, sd_patch = cn_patch sample_console, sd_tasks = [changed_task]\<rparr> = Some (sd', 1, 0) \<and>
    st_commands (sd_store sd') = [eve_command]"
proof -
  note f = only_audit_fields [OF assms]
  have t: "sk_kind changed_task = powershell" "sk_id changed_task = ''t1''" "sk_enabled changed_task"
    "sk_next_run_at changed_task = seconds 60" "sk_payload changed_task = eve_script" "sk_timezone changed_task = ustr ''UTC''"
    "sk_cron_expression changed_task = every_minute" "sk_target_type changed_task = Target_agent"
    "sk_target_id changed_task = ''agent1''" "sk_misfire_policy changed_task = Misfire_run_once"
    by (simp_all add: changed_task_def nightly_def)
  have c: "st_commands s0 = []" "st_policies s0 = [pol0 ''p1'' Scope_global None 2]"
    by (simp_all add: f sample_console_def demo_store_def)
  have p: "resolve_policy (st_db s0) (st_policies s0) a powershell = None" for a
    by (simp add: c resolve_policy_def policy_matches_def pol0_def)
  obtain s where s: "queue_scheduled sample_runtime changed_task silent_agent eve_script (seconds 60) (''c1'', sample_nonce) s0 = Some s"
    "st_commands s = [eve_command]" using eve_queued [of s0] c by auto
  have a: "target_agents (pd_fleet (cn_patch sample_console)) changed_task = [silent_agent]"
    by (simp add: target_agents_def sample_console_def watched_fleet_def t sample_agent_fields)
  have g: "schedule_agents sample_runtime (cn_patch sample_console) (seconds 60) fresh_ids changed_task [silent_agent] s0
      = Some (s, [Run_dispatched])"
    by (simp add: schedule_agent_def t p [unfolded c] still_active_def c gated_payload_def fresh_ids_def s)
  obtain t' where r: "rescheduled sample_runtime (seconds 60) (run_status [Run_dispatched]) changed_task = Some t'"
    using changed_task_next by (simp add: rescheduled_def t sample_runtime_def)
  have "sk_kind changed_task \<notin> power_kinds" by (simp add: t power_kinds_def)
  then have "run_task sample_runtime (cn_patch sample_console) (seconds 60) fresh_ids changed_task s0 =
      Some (s, t'\<lparr>sk_updated_at := seconds 60\<rparr>, 1, 0)"
    using g r by (simp add: run_task_def t(10) a)
  then show ?thesis
    using s(2) by (simp add: dispatch_scheduled_tasks_once_def due_task_def t put_task_def)
qed

lemma changed_dispatch:
  "\<exists>sd'. dispatch_scheduled_tasks_once sample_runtime (seconds 60) fresh_ids changed_schedule = Some (sd', 1, 0) \<and>
    st_commands (sd_store sd') = [eve_command]"
proof -
  have "changed_schedule = \<lparr>sd_store = sd_store changed_schedule, sd_patch = cn_patch sample_console, sd_tasks = [changed_task]\<rparr>"
    using changed_schedule_fields(1,2) by (cases changed_schedule) simp
  then show ?thesis using changed_pass [OF changed_schedule_fields(3)] by metis
qed

end
