(* ===== verification/Scheduler_Safety.thy ===== *)
theory Scheduler_Safety
  imports Scheduler_Sample
begin

text \<open>
  What a pass of the scheduler may dispatch: only tasks that are due, only to trusted endpoints of their
  target, never a power operation, nothing under an approval policy, and no second run while the first
  is active. The pass does not ask whether the operator behind the task may dispatch it.
\<close>

section \<open>One endpoint\<close>

text \<open>Everything but the commands and the audit trail is as before; commands are only added.\<close>

definition only_queues :: "store \<Rightarrow> store \<Rightarrow> Command list \<Rightarrow> bool" where
  "only_queues s s' cs \<longleftrightarrow> only_audit (s\<lparr>st_commands := st_commands s @ cs\<rparr>) s'"

lemma only_queues_fields:
  assumes "only_queues s s' cs"
  shows "st_commands s' = st_commands s @ cs" "st_db s' = st_db s" "st_policies s' = st_policies s"
    "st_requests s' = st_requests s" "st_overrides s' = st_overrides s" "st_decisions s' = st_decisions s"
  using assms by (auto simp: only_queues_def only_audit_def)

lemma only_queues_refl [simp]: "only_queues s s []"
  by (simp add: only_queues_def)

lemma only_queues_audit: "only_audit s s' \<Longrightarrow> only_queues s s' []"
  by (simp add: only_queues_def)

lemma only_queues_trans:
  assumes "only_queues s s1 cs" "only_queues s1 s2 ds"
  shows "only_queues s s2 (cs @ ds)"
  using assms by (auto simp: only_queues_def only_audit_def)

lemma schedule_audit_only [simp]: "only_audit s (schedule_audit action agent_id detail s') \<longleftrightarrow> only_audit s s'"
  by (simp add: schedule_audit_def)

lemma gated_payload_audit:
  assumes "gated_payload rt st now task a s = Some (s', p)"
  shows "only_audit s s'"
proof (cases "sk_kind task = install_updates")
  case True
  then obtain decision where "evaluate_patch_install (rt_unicode rt) (rt_fromisoformat rt) (rt_container_text rt) (rt_zone rt) st a
      (sk_payload task) now = Some decision"
    using assms by (auto simp: gated_payload_def)
  then show ?thesis
    using assms True
    by (cases decision; cases "de_reboot_detail (the decision)") (auto simp: gated_payload_def Let_def)
qed (use assms in \<open>auto simp: gated_payload_def\<close>)

text \<open>The payload the patch gate leaves for an endpoint: as it is, unless it installs updates under a policy.\<close>

definition patch_cleared :: "runtime \<Rightarrow> patch_db \<Rightarrow> instant \<Rightarrow> ScheduledTask \<Rightarrow> AgentRow \<Rightarrow> payload \<Rightarrow> bool" where
  "patch_cleared rt st now task a p \<longleftrightarrow>
     (if sk_kind task \<noteq> install_updates then p = sk_payload task
      else \<exists>decision. evaluate_patch_install (rt_unicode rt) (rt_fromisoformat rt) (rt_container_text rt) (rt_zone rt) st a
          (sk_payload task) now = Some decision \<and>
        (case decision of None \<Rightarrow> p = sk_payload task | Some d \<Rightarrow> de_outcome d = Allowed \<and> de_payload d = JObj p))"

lemma gated_payload_cleared:
  assumes "gated_payload rt st now task a s = Some (s', Some p)"
  shows "patch_cleared rt st now task a p"
proof (cases "sk_kind task = install_updates")
  case False
  then show ?thesis using assms by (simp add: gated_payload_def patch_cleared_def)
next
  case True
  then obtain decision where d: "evaluate_patch_install (rt_unicode rt) (rt_fromisoformat rt) (rt_container_text rt) (rt_zone rt)
      st a (sk_payload task) now = Some decision"
    using assms by (auto simp: gated_payload_def)
  show ?thesis
  proof (cases decision)
    case None
    then show ?thesis using assms True d by (simp add: gated_payload_def patch_cleared_def)
  next
    case (Some d')
    have "\<exists>q. de_payload d' = JObj q"
      using d Some by (auto simp: evaluate_patch_install_def Let_def split: option.splits prod.splits)
    then show ?thesis using assms True d Some
      by (auto simp: gated_payload_def patch_cleared_def Let_def split: if_splits)
  qed
qed

lemma queue_scheduled_Some:
  assumes "queue_scheduled rt task a p now ids s = Some s'"
  shows "only_queues s s' [scheduled_command task a p now (fst ids)]"
  using assms by (auto simp: queue_scheduled_def only_queues_def Let_def split: option.splits)

text \<open>Why a command of a pass was queued.\<close>

definition run_cleared ::
  "runtime \<Rightarrow> patch_db \<Rightarrow> instant \<Rightarrow> (string \<Rightarrow> string \<Rightarrow> string \<times> ustr) \<Rightarrow> store \<Rightarrow> ScheduledTask \<Rightarrow> AgentRow \<Rightarrow> Command \<Rightarrow> bool" where
  "run_cleared rt st now fresh s task a cmd \<longleftrightarrow>
     resolve_policy (st_db s) (st_policies s) (Agent.truncate a) (sk_kind task) = None \<and>
     (sk_concurrency_policy task = Concurrency_skip \<longrightarrow> \<not> still_active s task a) \<and>
     (\<exists>p. patch_cleared rt st now task a p \<and> cmd = scheduled_command task a p now (fst (fresh (sk_id task) (ag_id a))))"

lemma still_active_grows: "set (st_commands s) \<subseteq> set (st_commands s') \<Longrightarrow> still_active s task a \<Longrightarrow> still_active s' task a"
  by (auto simp: still_active_def)

lemma run_cleared_earlier:
  assumes "only_queues s s' cs" "run_cleared rt st now fresh s' task a cmd"
  shows "run_cleared rt st now fresh s task a cmd"
proof -
  note f = only_queues_fields [OF assms(1)]
  have "still_active s task a \<Longrightarrow> still_active s' task a" by (rule still_active_grows) (simp_all add: f)
  then show ?thesis using assms(2) by (auto simp: run_cleared_def f)
qed

lemma schedule_agent_Some:
  assumes "schedule_agent rt st now fresh task a s = Some (s', r)"
  shows "\<exists>cs. only_queues s s' cs \<and> length cs = count_list [r] Run_dispatched \<and>
    (\<forall>cmd \<in> set cs. run_cleared rt st now fresh s task a cmd)"
proof -
  consider "r \<noteq> Run_dispatched" "only_audit s s'"
    | s1 p where "r = Run_dispatched" "resolve_policy (st_db s) (st_policies s) (Agent.truncate a) (sk_kind task) = None"
      "\<not> (sk_concurrency_policy task = Concurrency_skip \<and> still_active s task a)"
      "gated_payload rt st now task a s = Some (s1, Some p)"
      "queue_scheduled rt task a p now (fresh (sk_id task) (ag_id a)) s1 = Some s'"
    using assms by (auto simp: schedule_agent_def split: option.splits if_splits dest: gated_payload_audit)
  then show ?thesis
  proof cases
    case 1
    then show ?thesis by (intro exI [of _ "[]"]) (simp add: only_queues_audit)
  next
    case 2
    let ?cmd = "scheduled_command task a p now (fst (fresh (sk_id task) (ag_id a)))"
    have "only_queues s s' [?cmd]"
      using only_queues_trans [OF only_queues_audit [OF gated_payload_audit [OF 2(4)]] queue_scheduled_Some [OF 2(5)]] by simp
    moreover have "run_cleared rt st now fresh s task a ?cmd"
      using 2 gated_payload_cleared [OF 2(4)] by (auto simp: run_cleared_def)
    ultimately show ?thesis using 2(1) by (intro exI [of _ "[?cmd]"]) simp
  qed
qed

lemma schedule_agents_Some:
  assumes "schedule_agents rt st now fresh task as s = Some (s', rs)"
  shows "\<exists>cs. only_queues s s' cs \<and> length cs = count_list rs Run_dispatched \<and>
    (\<forall>cmd \<in> set cs. \<exists>a \<in> set as. run_cleared rt st now fresh s task a cmd)"
  using assms
proof (induction as arbitrary: s s' rs)
  case (Cons a as)
  obtain s1 r where a: "schedule_agent rt st now fresh task a s = Some (s1, r)"
    using Cons.prems by (auto split: option.splits)
  obtain rs' where as: "schedule_agents rt st now fresh task as s1 = Some (s', rs')" "rs = r # rs'"
    using Cons.prems a by auto
  obtain cs where cs: "only_queues s s1 cs" "length cs = count_list [r] Run_dispatched"
    "\<forall>cmd \<in> set cs. run_cleared rt st now fresh s task a cmd"
    using schedule_agent_Some [OF a] by blast
  obtain ds where ds: "only_queues s1 s' ds" "length ds = count_list rs' Run_dispatched"
    "\<forall>cmd \<in> set ds. \<exists>a \<in> set as. run_cleared rt st now fresh s1 task a cmd"
    using Cons.IH [OF as(1)] by blast
  have "\<forall>cmd \<in> set (cs @ ds). \<exists>b \<in> set (a # as). run_cleared rt st now fresh s task b cmd"
    using cs(3) ds(3) run_cleared_earlier [OF cs(1)] by fastforce
  moreover have "length (cs @ ds) = count_list rs Run_dispatched" using cs(2) ds(2) as(2) by (auto split: if_splits)
  ultimately show ?case using only_queues_trans [OF cs(1) ds(1)] by blast
qed simp

section \<open>One task\<close>

definition may_run :: "instant \<Rightarrow> ScheduledTask \<Rightarrow> bool" where
  "may_run now task \<longleftrightarrow> sk_kind task \<notin> power_kinds \<and>
     \<not> (now - sk_next_run_at task > seconds (24 * 3600) \<and> sk_misfire_policy task = Misfire_skip)"

lemma rescheduled_Some:
  assumes "rescheduled rt now status task = Some t"
  shows "sk_id t = sk_id task" "sk_enabled t = sk_enabled task" "sk_timezone t = sk_timezone task"
    "compute_next_run (rt_unicode rt) (rt_zone rt) (sk_cron_expression task) (sk_timezone task) now = Inr (sk_next_run_at t)"
  using assms by (auto simp: rescheduled_def split: sum.splits)

lemma run_task_Some:
  assumes "run_task rt st now fresh task s = Some (s', t, d, k)"
  shows "\<exists>cs. only_queues s s' cs \<and> length cs = d \<and>
    (\<forall>cmd \<in> set cs. may_run now task \<and> (\<exists>a \<in> set (target_agents (pd_fleet st) task). run_cleared rt st now fresh s task a cmd))"
proof -
  consider "d = 0" "only_audit s s'" | rs where "may_run now task" "d = count_list rs Run_dispatched"
      "schedule_agents rt st now fresh task (target_agents (pd_fleet st) task) s = Some (s', rs)"
    using assms by (auto simp: run_task_def may_run_def split: if_splits option.splits)
  then show ?thesis
  proof cases
    case 1
    then show ?thesis by (intro exI [of _ "[]"]) (simp add: only_queues_audit)
  next
    case 2
    then show ?thesis using schedule_agents_Some [OF 2(3)] by auto
  qed
qed

lemma run_task_row:
  assumes "run_task rt st now fresh task s = Some (s', t, d, k)"
  shows "sk_id t = sk_id task" "sk_timezone t = sk_timezone task" "sk_enabled t = sk_enabled task"
    "compute_next_run (rt_unicode rt) (rt_zone rt) (sk_cron_expression task) (sk_timezone task) now = Inr (sk_next_run_at t)"
  using assms by (auto simp: run_task_def split: if_splits option.splits dest: rescheduled_Some)

section \<open>The pass\<close>

lemma put_task_fields [simp]: "sd_store (put_task t sd) = sd_store sd" "sd_patch (put_task t sd) = sd_patch sd"
  by (simp_all add: put_task_def)

lemma run_tasks_Some:
  assumes "run_tasks rt now fresh ts (sd, d0, k0) = Some (sd', d, k)"
  shows "sd_patch sd' = sd_patch sd \<and> (\<exists>cs. only_queues (sd_store sd) (sd_store sd') cs \<and> d = d0 + length cs \<and>
    (\<forall>cmd \<in> set cs. \<exists>task \<in> set ts. may_run now task \<and>
       (\<exists>a \<in> set (target_agents (pd_fleet (sd_patch sd)) task). run_cleared rt (sd_patch sd) now fresh (sd_store sd) task a cmd)))"
  using assms
proof (induction ts arbitrary: sd d0 k0)
  case Nil
  then show ?case by (intro conjI exI [of _ "[]"]) auto
next
  case (Cons task ts)
  obtain s1 t d1 k1 where r: "run_task rt (sd_patch sd) now fresh task (sd_store sd) = Some (s1, t, d1, k1)"
    using Cons.prems by (auto split: option.splits)
  let ?sd1 = "put_task t (sd\<lparr>sd_store := s1\<rparr>)"
  have rest: "run_tasks rt now fresh ts (?sd1, d0 + d1, k0 + k1) = Some (sd', d, k)"
    using Cons.prems r by simp
  obtain cs where cs: "only_queues (sd_store sd) s1 cs" "length cs = d1"
    "\<forall>cmd \<in> set cs. may_run now task \<and>
      (\<exists>a \<in> set (target_agents (pd_fleet (sd_patch sd)) task). run_cleared rt (sd_patch sd) now fresh (sd_store sd) task a cmd)"
    using run_task_Some [OF r] by blast
  note IH = Cons.IH [OF rest, simplified]
  then obtain ds where ds: "only_queues s1 (sd_store sd') ds" "d = d0 + d1 + length ds"
    "\<forall>cmd \<in> set ds. \<exists>task \<in> set ts. may_run now task \<and>
      (\<exists>a \<in> set (target_agents (pd_fleet (sd_patch sd)) task). run_cleared rt (sd_patch sd) now fresh s1 task a cmd)"
    by blast
  have "\<exists>task' \<in> set (task # ts). may_run now task' \<and>
      (\<exists>a \<in> set (target_agents (pd_fleet (sd_patch sd)) task'). run_cleared rt (sd_patch sd) now fresh (sd_store sd) task' a cmd)"
    if "cmd \<in> set (cs @ ds)" for cmd
    using that cs(3) ds(3) run_cleared_earlier [OF cs(1)] by fastforce
  moreover have "only_queues (sd_store sd) (sd_store sd') (cs @ ds)" using only_queues_trans [OF cs(1) ds(1)] .
  moreover have "d = d0 + length (cs @ ds)" using cs(2) ds(2) by simp
  ultimately show ?case using IH by blast
qed

text \<open>
  C13. Scheduled dispatch. The commands a pass adds are as many as it counts. Each is for a task that was
  enabled and due, and not a misfire to be skipped; its endpoint is trusted and the target of the task;
  the kind is no power operation and no approval policy governs it there; with the skip policy no run was
  still active; and an install of updates has passed the patch gate. Nothing else in the workflow changes.
\<close>

theorem scheduled_commands_gated:
  assumes "dispatch_scheduled_tasks_once rt now fresh sd = Some (sd', dispatched, skipped)"
  shows "\<exists>cs. st_commands (sd_store sd') = st_commands (sd_store sd) @ cs \<and> length cs = dispatched \<and>
    st_requests (sd_store sd') = st_requests (sd_store sd) \<and> st_overrides (sd_store sd') = st_overrides (sd_store sd) \<and>
    (\<forall>cmd \<in> set cs. \<exists>task \<in> set (sd_tasks sd). \<exists>a \<in> set (fl_agents (pd_fleet (sd_patch sd))). \<exists>p.
       sk_enabled task \<and> sk_next_run_at task \<le> now \<and> sk_kind task \<notin> {reboot, shutdown, cancel_power_action} \<and>
       (now - sk_next_run_at task \<le> seconds (24 * 3600) \<or> sk_misfire_policy task = Misfire_run_once) \<and>
       trust_state a = Trust_active \<and> sk_target_id task \<in> {ag_id a, ag_site_id a} \<and>
       resolve_policy (st_db (sd_store sd)) (st_policies (sd_store sd)) (Agent.truncate a) (sk_kind task) = None \<and>
       (sk_concurrency_policy task = Concurrency_skip \<longrightarrow> \<not> still_active (sd_store sd) task a) \<and>
       patch_cleared rt (sd_patch sd) now task a p \<and>
       cmd = scheduled_command task a p now (fst (fresh (sk_id task) (ag_id a))))"
proof -
  obtain cs where cs: "only_queues (sd_store sd) (sd_store sd') cs" "dispatched = length cs"
    and why: "\<forall>cmd \<in> set cs. \<exists>task \<in> set (filter (due_task now) (sd_tasks sd)). may_run now task \<and>
      (\<exists>a \<in> set (target_agents (pd_fleet (sd_patch sd)) task). run_cleared rt (sd_patch sd) now fresh (sd_store sd) task a cmd)"
    using run_tasks_Some [OF assms [unfolded dispatch_scheduled_tasks_once_def]] by auto
  have "\<exists>task \<in> set (sd_tasks sd). \<exists>a \<in> set (fl_agents (pd_fleet (sd_patch sd))). \<exists>p.
       sk_enabled task \<and> sk_next_run_at task \<le> now \<and> sk_kind task \<notin> {reboot, shutdown, cancel_power_action} \<and>
       (now - sk_next_run_at task \<le> seconds (24 * 3600) \<or> sk_misfire_policy task = Misfire_run_once) \<and>
       trust_state a = Trust_active \<and> sk_target_id task \<in> {ag_id a, ag_site_id a} \<and>
       resolve_policy (st_db (sd_store sd)) (st_policies (sd_store sd)) (Agent.truncate a) (sk_kind task) = None \<and>
       (sk_concurrency_policy task = Concurrency_skip \<longrightarrow> \<not> still_active (sd_store sd) task a) \<and>
       patch_cleared rt (sd_patch sd) now task a p \<and>
       cmd = scheduled_command task a p now (fst (fresh (sk_id task) (ag_id a)))" if c: "cmd \<in> set cs" for cmd
  proof -
    obtain task a where f: "task \<in> set (filter (due_task now) (sd_tasks sd))" "may_run now task"
      and a: "a \<in> set (target_agents (pd_fleet (sd_patch sd)) task)"
      and r: "run_cleared rt (sd_patch sd) now fresh (sd_store sd) task a cmd"
      using bspec [OF why c] by blast
    then obtain p where p: "patch_cleared rt (sd_patch sd) now task a p"
      "cmd = scheduled_command task a p now (fst (fresh (sk_id task) (ag_id a)))"
      unfolding run_cleared_def by blast
    have t: "task \<in> set (sd_tasks sd)" "due_task now task" using f(1) by simp_all
    have due: "sk_enabled task" "sk_next_run_at task \<le> now" using t(2) by (simp_all add: due_task_def)
    have kind: "sk_kind task \<notin> {reboot, shutdown, cancel_power_action}"
      using f(2) by (simp add: may_run_def power_kinds_def)
    have late: "now - sk_next_run_at task \<le> seconds (24 * 3600) \<or> sk_misfire_policy task = Misfire_run_once"
      using f(2) by (cases "sk_misfire_policy task") (simp_all add: may_run_def not_less)
    have agent: "a \<in> set (fl_agents (pd_fleet (sd_patch sd)))" "trust_state a = Trust_active"
      using a by (simp_all add: target_agents_def)
    have target: "sk_target_id task \<in> {ag_id a, ag_site_id a}"
      using a by (cases "sk_target_type task") (simp_all add: target_agents_def)
    have free: "resolve_policy (st_db (sd_store sd)) (st_policies (sd_store sd)) (Agent.truncate a) (sk_kind task) = None"
      "sk_concurrency_policy task = Concurrency_skip \<longrightarrow> \<not> still_active (sd_store sd) task a"
      using r unfolding run_cleared_def by blast+
    show ?thesis using t(1) due kind late agent target free p by blast
  qed
  then show ?thesis using only_queues_fields(1,4,5) [OF cs(1)] cs(2) [symmetric] by blast
qed

theorem scheduled_commands_gated_witness:
  "\<exists>sd'. dispatch_scheduled_tasks_once sample_runtime (seconds 60) fresh_ids (changed_schedule) = Some (sd', 1, 0) \<and>
    length (st_commands (sd_store sd')) = 1"
proof -
  obtain sd' where p: "dispatch_scheduled_tasks_once sample_runtime (seconds 60) fresh_ids changed_schedule = Some (sd', 1, 0)"
    using changed_dispatch by blast
  have "st_commands (sd_store changed_schedule) = []"
    by (simp add: only_audit_fields [OF changed_schedule_fields(3)] sample_console_def demo_store_def)
  then show ?thesis using scheduled_commands_gated [OF p] p by auto
qed

section \<open>No second run\<close>

lemma next_run_later:
  assumes "get_tz u zones tz = utc_zone" "min_instant \<le> base" "compute_next_run u zones expr tz base = Inr r"
  shows "base < r"
proof -
  let ?c = "(add_minute (civil_of_instant base))\<lparr>c_second := 0, c_micro := 0\<rparr>"
  note s = start_minute [OF assms(2) refl]
  obtain cr d where cr: "search cr max_minutes ?c = Inr d" "r = civil_instant d"
    by (rule compute_next_run_utc [OF assms(1,3)])
  obtain k where "d = wall ?c k" using search_Inr [OF cr(1)] by blast
  then have "r = civil_instant ?c + seconds (60 * int k)" using cr(2) wall_instant [OF s(1)] by simp
  then show ?thesis using s(2) by (simp add: seconds_def)
qed

lemma run_tasks_rows:
  assumes "run_tasks rt now fresh ts (sd, d0, k0) = Some (sd', d, k)" "min_instant \<le> now"
    and "\<forall>t \<in> set ts. get_tz (rt_unicode rt) (rt_zone rt) (sk_timezone t) = utc_zone" "t \<in> set (sd_tasks sd')"
  shows "(t \<in> set (sd_tasks sd) \<and> sk_id t \<notin> sk_id ` set ts) \<or> now < sk_next_run_at t"
  using assms
proof (induction ts arbitrary: sd d0 k0)
  case (Cons task ts)
  obtain s1 t1 d1 k1 where r: "run_task rt (sd_patch sd) now fresh task (sd_store sd) = Some (s1, t1, d1, k1)"
    using Cons.prems(1) by (auto split: option.splits)
  let ?sd1 = "put_task t1 (sd\<lparr>sd_store := s1\<rparr>)"
  have later: "now < sk_next_run_at t1"
    using next_run_later [OF _ Cons.prems(2) run_task_row(4) [OF r]] Cons.prems(3) by simp
  have "t \<in> set (sd_tasks ?sd1) \<and> sk_id t \<notin> sk_id ` set ts \<or> now < sk_next_run_at t"
    using Cons.IH [of ?sd1 "d0 + d1" "k0 + k1"] Cons.prems r by simp
  then show ?case
    using later run_task_row(1) [OF r] by (auto simp: put_task_def db_update_def split: if_splits)
qed simp



section \<open>The pass and the protocol\<close>

text \<open>The creator of a task can be removed, which clears both columns.\<close>

definition names_creator :: "ScheduledTask \<Rightarrow> bool" where
  "names_creator task \<longleftrightarrow> sk_created_by_operator_id task \<noteq> None \<and> sk_created_by_email task \<noteq> None"

definition follows :: "(ustr \<Rightarrow> string) \<Rightarrow> store \<Rightarrow> store \<Rightarrow> bool" where
  "follows sha256 s s' \<longleftrightarrow>
     (\<forall>w. w_store w = s \<longrightarrow> (\<exists>w'. (step sha256)\<^sup>*\<^sup>* w w' \<and> w_store w' = s' \<and> w_tickets w' = w_tickets w))"

lemma follows_refl [simp]: "follows sha256 s s"
  unfolding follows_def by blast

lemma follows_trans:
  assumes "follows sha256 s s1" "follows sha256 s1 s2"
  shows "follows sha256 s s2"
  unfolding follows_def
proof (intro allI impI)
  fix w :: world assume "w_store w = s"
  then obtain w1 where w1: "(step sha256)\<^sup>*\<^sup>* w w1" "w_store w1 = s1" "w_tickets w1 = w_tickets w"
    using assms(1) unfolding follows_def by blast
  then obtain w2 where "(step sha256)\<^sup>*\<^sup>* w1 w2" "w_store w2 = s2" "w_tickets w2 = w_tickets w1"
    using assms(2) unfolding follows_def by blast
  then show "\<exists>w'. (step sha256)\<^sup>*\<^sup>* w w' \<and> w_store w' = s2 \<and> w_tickets w' = w_tickets w"
    using w1 by (metis rtranclp_trans)
qed

lemma follows_audit:
  assumes "only_audit s s'"
  shows "follows sha256 s s'"
  unfolding follows_def
proof (intro allI impI)
  fix w :: world assume w: "w_store w = s"
  then have "step sha256 w (w\<lparr>w_store := s'\<rparr>)" using step_audit assms by blast
  then show "\<exists>w'. (step sha256)\<^sup>*\<^sup>* w w' \<and> w_store w' = s' \<and> w_tickets w' = w_tickets w"
    by (intro exI [of _ "w\<lparr>w_store := s'\<rparr>"]) auto
qed

lemma follows_queue:
  assumes "resolve_policy (st_db s) (st_policies s) (Agent.truncate a) (sk_kind task) = None" "names_creator task"
    and "only_queues s s' [scheduled_command task a p now cid]"
  shows "follows sha256 s s'"
  unfolding follows_def
proof (intro allI impI)
  fix w :: world assume w: "w_store w = s"
  obtain i e where c: "sk_created_by_operator_id task = Some i" "sk_created_by_email task = Some e"
    using assms(2) by (auto simp: names_creator_def)
  let ?oper = "(op0 i OperatorRole_operator False)\<lparr>op_email := e\<rparr>" and ?cmd = "scheduled_command task a p now cid"
  have g: "apply_approval_policy sha256 (w_store w) ?oper (Agent.truncate a) (sk_kind task) (JObj p) None now None =
      (w_store w, Inr (None, None))"
    using assms(1) w by (simp add: apply_approval_policy_def)
  have "?cmd = new_command cid ?oper (Agent.truncate a) (sk_kind task) (JObj p) None None now (now + days 1) (sk_script_version_id task)"
    by (simp add: scheduled_command_def new_command_def c op0_def Agent.truncate_def)
  then have c: "spend_and_create (w_store w) None None (new_command cid ?oper (Agent.truncate a) (sk_kind task) (JObj p) None None now
      (now + days 1) (sk_script_version_id task)) now = Inr (s\<lparr>st_commands := st_commands s @ [?cmd]\<rparr>)"
    using w by (simp add: spend_and_create_def)
  show "\<exists>w'. (step sha256)\<^sup>*\<^sup>* w w' \<and> w_store w' = s' \<and> w_tickets w' = w_tickets w"
    by (rule dispatch_steps [OF g only_audit_refl c assms(3) [unfolded only_queues_def]])
qed

lemma schedule_agent_follows:
  assumes "schedule_agent rt st now fresh task a s = Some (s', r)" "names_creator task"
  shows "follows sha256 s s'"
proof -
  consider "only_audit s s'"
    | s1 p where "resolve_policy (st_db s) (st_policies s) (Agent.truncate a) (sk_kind task) = None"
      "gated_payload rt st now task a s = Some (s1, Some p)"
      "queue_scheduled rt task a p now (fresh (sk_id task) (ag_id a)) s1 = Some s'"
    using assms(1) by (auto simp: schedule_agent_def split: option.splits if_splits dest: gated_payload_audit)
  then show ?thesis
  proof cases
    case 1
    then show ?thesis by (rule follows_audit)
  next
    case 2
    from only_queues_trans [OF only_queues_audit [OF gated_payload_audit [OF 2(2)]] queue_scheduled_Some [OF 2(3)]]
    show ?thesis using follows_queue [OF 2(1) assms(2)] by simp
  qed
qed

lemma schedule_agents_follows:
  "schedule_agents rt st now fresh task as s = Some (s', rs) \<Longrightarrow> names_creator task \<Longrightarrow> follows sha256 s s'"
  by (induction as arbitrary: s rs) (auto split: option.splits intro: follows_trans schedule_agent_follows)

lemma run_task_follows:
  assumes "run_task rt st now fresh task s = Some (s', t, d, k)" "names_creator task"
  shows "follows sha256 s s'"
proof -
  consider "only_audit s s'" | rs where
      "schedule_agents rt st now fresh task (target_agents (pd_fleet st) task) s = Some (s', rs)"
    using assms(1) by (auto simp: run_task_def split: if_splits option.splits)
  then show ?thesis by cases (auto intro: follows_audit schedule_agents_follows assms(2))
qed

lemma run_tasks_follows:
  "run_tasks rt now fresh ts (sd, d0, k0) = Some (sd', d, k) \<Longrightarrow> \<forall>task \<in> set ts. names_creator task \<Longrightarrow>
   follows sha256 (sd_store sd) (sd_store sd')"
proof (induction ts arbitrary: sd d0 k0)
  case (Cons task ts)
  obtain s1 t1 d1 k1 where r: "run_task rt (sd_patch sd) now fresh task (sd_store sd) = Some (s1, t1, d1, k1)"
    using Cons.prems(1) by (auto split: option.splits)
  then have "follows sha256 s1 (sd_store sd')"
    using Cons.IH [of "put_task t1 (sd\<lparr>sd_store := s1\<rparr>)" "d0 + d1" "k0 + k1"] Cons.prems by simp
  then show ?case using run_task_follows [OF r] Cons.prems(2) follows_trans by (metis list.set_intros(1))
qed simp



section \<open>One failure\<close>

lemma run_tasks_failure:
  "task \<in> set ts \<Longrightarrow> \<forall>st s. run_task rt st now fresh task s = None \<Longrightarrow> run_tasks rt now fresh ts (sd, d, k) = None"
  by (induction ts arbitrary: sd d k) (auto split: option.split)



section \<open>A repeated hour\<close>

text \<open>A zone that leaves summer time at the epoch: the first hour of the day is shown twice.\<close>

definition autumn_zone :: zone where
  "autumn_zone =
     \<lparr>zn_local = (\<lambda>t. civil_of_instant (if t < 0 then t + seconds 3600 else t)),
      zn_instant = (\<lambda>c. if civil_instant c < seconds 3600 then civil_instant c - seconds 3600 else civil_instant c)\<rparr>"

text \<open>
  Adding a minute to a local time forgets that it was the second of two, so that a task created in the
  repeated hour gets a run in the past and is due at once, at every pass until the hour is over.
\<close>

lemma repeated_hour_past:
  "compute_next_run ascii_unicode (\<lambda>_. Some autumn_zone) every_minute (ustr ''Europe/Lisbon'') (seconds 600) = Inr (- seconds 2940)"
proof -
  have z: "get_tz ascii_unicode (\<lambda>_. Some autumn_zone) (ustr ''Europe/Lisbon'') = autumn_zone"
    by (simp add: get_tz_def ascii_unicode_def ustr_def strip_def is_space_def)
  have m: "civil_of_instant (seconds 600) = early_1970 1 10" using early_1970_instant [of 10 1] by simp
  then have l: "zn_local autumn_zone (seconds 600) = early_1970 1 10" by (simp add: autumn_zone_def seconds_def)
  have "(add_minute (early_1970 1 10))\<lparr>c_second := 0, c_micro := 0\<rparr> = early_1970 1 11"
    "c_year (add_minute (early_1970 1 10)) \<le> 9999"
    by (simp_all add: add_minute_def early_1970_def)
  then show ?thesis
    using every_minute_next [of ascii_unicode "\<lambda>_. Some autumn_zone" "ustr ''Europe/Lisbon''" "seconds 600"]
      early_1970 [of 10 1] early_1970(2) [of 11 1]
    unfolding z l by (simp add: autumn_zone_def seconds_def)
qed

section \<open>Who may have the scheduler run a command\<close>

text \<open>
  C22. The scheduler runs what an outsider wrote. There is an operator with no administrator right, no tie
  to the tenant of an endpoint and no permission to run scripts there, who replaces the script of a task of
  that tenant; the next pass sends the script to the endpoint. Dispatching the same command is refused.
\<close>

theorem outsider_script_runs:
  "\<exists>rt cn sd a body ev sd' t cmd fresh. \<not> is_platform_admin (re_operator ev) \<and>
    a \<in> set (fl_agents (pd_fleet (sd_patch sd))) \<and> cn_store cn = sd_store sd \<and> cn_patch cn = sd_patch sd \<and>
    \<not> agent_reachable (st_db (sd_store sd)) (re_operator ev) (Agent.truncate a) \<and>
    \<not> cmd_allowed (authorize_command (re_operator ev) (Agent.truncate a) powershell) \<and>
    (\<forall>create version. snd (admit_dispatch rt cn a create (re_operator ev)) \<noteq> Inr version) \<and>
    update_scheduled_task rt sd ''t1'' body ev 0 = (sd', Inr t) \<and>
    cmd \<in> set (st_commands (sd_store (scheduler_pass rt (seconds 60) fresh sd'))) \<and>
    co_agent_id cmd = ag_id a \<and> co_kind cmd = powershell \<and> map_option JObj (su_payload body) = Some (co_payload cmd)"
proof -
  have e: "\<not> is_platform_admin (re_operator eve_request)" "re_operator eve_request = eve" "op_role eve = OperatorRole_operator"
    by (simp_all add: eve_request_def eve_def op0_def)
  have u: "\<not> agent_reachable (st_db (cn_store sample_console)) eve agent1"
    by (simp add: agent_reachable_def agent_client_id_def sample_console_def viewed_db_def fixture_defs db_get_def
        is_client_visible_def resolve_membership_def eve_def)
  have z: "\<not> cmd_allowed (authorize_command eve agent1 powershell)"
    by (simp add: authorize_command_def eve_def op0_def typed_kinds_def privileged_kinds_def)
  have r: "snd (admit_dispatch sample_runtime sample_console silent_agent create eve) \<noteq> Inr version" for create version
    using u by (simp add: admit_dispatch_def sample_agent_fields Let_def)
  obtain sd' where p: "dispatch_scheduled_tasks_once sample_runtime (seconds 60) fresh_ids changed_schedule = Some (sd', 1, 0)"
    "st_commands (sd_store sd') = [eve_command]"
    using changed_dispatch by blast
  then have "eve_command \<in> set (st_commands (sd_store (scheduler_pass sample_runtime (seconds 60) fresh_ids changed_schedule)))"
    by (simp add: scheduler_pass_def)
  moreover have "co_agent_id eve_command = ag_id silent_agent" "co_kind eve_command = powershell"
    "map_option JObj (su_payload eve_update) = Some (co_payload eve_command)"
    by (simp_all add: eve_command_def scheduled_command_def changed_task_def nightly_def eve_update_def)
  moreover have "sd_store (sample_schedule [nightly]) = cn_store sample_console" "sd_patch (sample_schedule [nightly]) = cn_patch sample_console"
    "silent_agent \<in> set (fl_agents (pd_fleet (cn_patch sample_console)))"
    by (simp_all add: sample_schedule_def sample_console_def watched_fleet_def)
  ultimately show ?thesis
    using e u z r update_by_eve sample_agent_fields(1)
    by (intro exI [of _ sample_runtime] exI [of _ sample_console] exI [of _ "sample_schedule [nightly]"] exI [of _ silent_agent]
        exI [of _ eve_update] exI [of _ eve_request] exI [of _ changed_schedule] exI [of _ changed_task] exI [of _ eve_command]
        exI [of _ fresh_ids]) simp
qed

end
