(* ===== verification/Redaction.thy ===== *)
theory Redaction
  imports Utf8 Json Py_Text "HOL-Library.Sublist"
begin

text \<open>
  The redaction boundary of the audit trail (\<open>server/app/core/redaction.py\<close>): the fields each action may
  record, the shapes of credentials, and the sanitized form of a detail, which alone is hashed and stored.
\<close>

section \<open>The registry of audit actions\<close>

record AuditDetailSchema =
  sf_fields :: "string list"
  sf_digest_fields :: "string list"

definition schema :: "string list \<Rightarrow> string list \<Rightarrow> AuditDetailSchema" where
  "schema fs ds = \<lparr>sf_fields = fs, sf_digest_fields = ds\<rparr>"

text \<open>What a field is stored as: itself, or the hash and the size of its text.\<close>

definition stored_names :: "AuditDetailSchema \<Rightarrow> string \<Rightarrow> string list" where
  "stored_names s f = (if f \<in> set (sf_digest_fields s) then [f @ ''_sha256'', f @ ''_bytes''] else [f])"

definition stored_fields :: "AuditDetailSchema \<Rightarrow> string list" where
  "stored_fields s = concat (map (stored_names s) (sf_fields s))"

definition agent_schemas :: "(string \<times> AuditDetailSchema) list" where
  "agent_schemas =
     [(''assistant.activity'', schema [''conversation_id'', ''run_id'', ''tool'', ''outcome''] []),
      (''agent.enrolled'', schema [''hostname'', ''agent_name'', ''os'', ''architecture'', ''site_id'',
        ''environment'', ''command_envelope_version'', ''supported_command_envelope_versions'',
        ''public_key_supplied''] [''hostname'', ''agent_name'', ''os'']),
      (''agent.enrollment_failed'', schema [''reason'', ''hostname'', ''agent_name''] [''hostname'', ''agent_name'']),
      (''agent.credential_renewed'', schema [''credential_fingerprint'', ''credential_generation''] []),
      (''agent.credential_reattached'', schema [''credential_fingerprint'', ''credential_generation''] []),
      (''agent.credential_renewal_rejected'', schema [''reason''] []),
      (''agent.command_envelope_capabilities_changed'', schema [''previous'', ''current''] []),
      (''agent.version_changed'', schema [''previous'', ''current''] []),
      (''agent.offline'', schema [''last_seen_at''] []),
      (''agent.quarantined'', schema [''previous_trust_state'', ''trust_state'', ''reason''] [''reason'']),
      (''agent.restored'', schema [''previous_trust_state'', ''trust_state'', ''reason''] [''reason'']),
      (''agent.revoked'', schema [''previous_trust_state'', ''trust_state'', ''reason''] [''reason'']),
      (''agent.commands_expired_on_revoke'', schema [''command_ids''] [])]"

definition session_schemas :: "(string \<times> AuditDetailSchema) list" where
  "session_schemas =
     [(''shell_session.opened'', schema [''session_id'', ''capability_version'', ''output_bytes_limit'',
        ''absolute_deadline'', ''idle_deadline''] []),
      (''shell_session.viewed'', schema [''session_id'', ''status''] []),
      (''shell_session.activated'', schema [''session_id'', ''capability_version''] []),
      (''shell_session.denied'', schema [''session_id'', ''reason'', ''policy'', ''trust_state''] []),
      (''shell_session.closed'', schema [''session_id'', ''status'', ''reason'', ''output_bytes_total'', ''frames_in'',
        ''frames_out''] []),
      (''shell_session.timed_out'', schema [''session_id'', ''reason'', ''output_bytes_total'', ''frames_in'',
        ''frames_out''] []),
      (''shell_session.failed'', schema [''session_id'', ''reason'', ''output_bytes_total'', ''output_bytes_limit'',
        ''frames_in'', ''frames_out''] []),
      (''support_chat.opened'', schema [''conversation_id'', ''opened_by'', ''message_count''] []),
      (''support_chat.token_minted'', schema [''conversation_id'', ''reason'', ''token_expires_at'', ''message_count'']
        []),
      (''support_chat.notice_acknowledged'', schema [''conversation_id'', ''notice_version'', ''message_count''] []),
      (''support_chat.technician_joined'', schema [''conversation_id'', ''message_count''] []),
      (''support_chat.closed'', schema [''conversation_id'', ''reason'', ''message_count''] []),
      (''meshcentral.launch_requested'', schema [''launch_id'', ''agent_id'', ''meshcentral_node_id'', ''mapping_id'']
        []),
      (''meshcentral.session_launched'', schema [''launch_id'', ''agent_id'', ''meshcentral_node_id'', ''mapping_id'',
        ''expires_at'', ''meshcentral_session_ref'', ''reason''] [''reason'']),
      (''meshcentral.launch_denied'', schema [''launch_id'', ''agent_id'', ''reason'', ''policy'', ''trust_state''] []),
      (''meshcentral.launch_failed'', schema [''launch_id'', ''agent_id'', ''meshcentral_node_id'', ''reason''] []),
      (''meshcentral.session_closed'', schema [''launch_id'', ''agent_id'', ''meshcentral_node_id'', ''status'',
        ''reason''] [''reason'']),
      (''meshcentral.mapping_created'', schema [''mapping_id'', ''agent_id'', ''meshcentral_node_id'', ''origin''] []),
      (''meshcentral.mapping_deleted'', schema [''mapping_id'', ''agent_id'', ''meshcentral_node_id''] []),
      (''meshcentral.mapping_synced'', schema [''reconciled'', ''active'', ''stale'', ''unmapped'', ''conflict''] []),
      (''meshcentral.mapping_stale'', schema [''mapping_id'', ''agent_id'', ''meshcentral_node_id'',
        ''previous_state'', ''state''] []),
      (''audit.anchored'', schema [''anchor_id'', ''merkle_root'', ''event_count''] [])]"

definition view_schemas :: "(string \<times> AuditDetailSchema) list" where
  "view_schemas =
     [(''audit_timeline.viewed'', schema [''event_type'', ''actor_filter'', ''agent_id'', ''organization_id'',
        ''date_from'', ''date_to'', ''before_seq'', ''page'', ''page_size'', ''result_count'', ''total''] []),
      (''audit_event.viewed'', schema [''event_id'', ''action'', ''seq''] []),
      (''inventory.received'', schema [''stored_sections'', ''unchanged_sections'', ''schema_version'',
        ''total_bytes''] []),
      (''inventory.rejected'', schema [''reason'', ''section'', ''byte_size'', ''fields''] []),
      (''inventory.viewed'', schema [''sections'', ''missing_sections''] []),
      (''inventory.diff_viewed'', schema [''section'', ''from_snapshot'', ''to_snapshot''] []),
      (''client_navigation.list_viewed'', schema [''client_count'', ''truncated''] []),
      (''client_navigation.client_viewed'', schema [''client_id''] []),
      (''client_navigation.site_viewed'', schema [''site_id'', ''client_id''] []),
      (''client.created'', schema [''client_id'', ''name''] [''name'']),
      (''site.created'', schema [''site_id'', ''client_id'', ''name''] [''name'']),
      (''monitoring_policy.created'', schema [''policy_id'', ''scope'', ''scope_id'', ''enabled'', ''check_count'',
        ''name'', ''change_note''] [''name'', ''change_note'']),
      (''monitoring_policy.revised'', schema [''policy_id'', ''version'', ''enabled'', ''check_count'',
        ''change_note''] [''change_note'']),
      (''monitoring_policy.deleted'', schema [''policy_id'', ''scope'', ''scope_id'', ''name''] [''name'']),
      (''monitoring_policy.viewed'', schema [''policy_id'', ''version'', ''check_count'', ''revision_count''] [])]"

definition patch_schemas :: "(string \<times> AuditDetailSchema) list" where
  "patch_schemas =
     [(''patch_approval_policy.created'', schema [''policy_id'', ''scope'', ''scope_id'', ''enabled'', ''rule_count'',
        ''name'', ''change_note''] [''name'', ''change_note'']),
      (''patch_approval_policy.revised'', schema [''policy_id'', ''version'', ''enabled'', ''rule_count'',
        ''change_note''] [''change_note'']),
      (''patch_approval_policy.deleted'', schema [''policy_id'', ''scope'', ''scope_id'', ''name''] [''name'']),
      (''patch_install.gated'', schema [''policy_id'', ''outcome'', ''install_all'', ''requested'', ''approved'',
        ''denied'', ''deferred'', ''window_required'', ''window_present''] []),
      (''patch_install.reboot_authorized'', schema [''policy_id'', ''reboot_policy'', ''delay_seconds'',
        ''requires_no_user'', ''window_present'', ''user_present''] []),
      (''package_install.gated'', schema [''provider'', ''operation'', ''requested'', ''source_present'',
        ''source_digest'', ''signer_present''] []),
      (''package_scan.dispatched'', schema [''provider''] []),
      (''software_deployment.dispatched'', schema [''installer_type'', ''sha256'', ''url_sha256'', ''argument_count'',
        ''timeout_seconds'', ''signer_pinned'', ''success_code_override'', ''reboot_policy''] []),
      (''service_control.dispatched'', schema [''action'', ''service'', ''reason''] [''reason'']),
      (''process_terminate.dispatched'', schema [''pid'', ''expected_name_present'', ''reason''] [''reason''])]"

definition update_schemas :: "(string \<times> AuditDetailSchema) list" where
  "update_schemas =
     [(''agent_update.release_published'', schema [''release_id'', ''version'', ''channel'', ''platform'',
        ''artifact_sha256'', ''artifact_size_bytes'', ''artifact_url_sha256'', ''min_supported_version'',
        ''signer_pinned'', ''manifest_sha256'', ''signing_key_id'', ''failure_threshold_percent'',
        ''min_attempts_before_halt''] []),
      (''agent_update.rollout_advanced'', schema [''release_id'', ''version'', ''channel'', ''rollout_percent'',
        ''dispatched'', ''truncated''] []),
      (''agent_update.dispatched'', schema [''release_id'', ''command_id'', ''version'', ''channel'', ''from_version'',
        ''artifact_sha256'', ''rollout_bucket''] []),
      (''agent_update.approval_refused'', schema [''release_id'', ''version'', ''agent_id'', ''policy_id'',
        ''required_approvals''] []),
      (''agent_update.rollout_paused'', schema [''release_id'', ''rollout_percent''] []),
      (''agent_update.rollout_resumed'', schema [''release_id'', ''rollout_percent''] []),
      (''agent_update.rollout_halted'', schema [''release_id'', ''version'', ''channel'', ''reason'',
        ''rollout_percent''] []),
      (''agent_update.halt_reason_recorded'', schema [''release_id'', ''reason''] [''reason'']),
      (''agent_update.rollback_dispatched'', schema [''reason'', ''expected_current_version'', ''current_version'']
        [''reason'']),
      (''agent_update.outcome_reported'', schema [''release_id'', ''command_id'', ''status'', ''reason'',
        ''from_version'', ''to_version'', ''observed_version'', ''health_attempts'', ''recorded''] []),
      (''patch_compliance.viewed'', schema [''client_id'', ''site_id'', ''state'', ''view'', ''result_count''] []),
      (''patch_compliance.exported'', schema [''client_id'', ''site_id'', ''state'', ''format'', ''row_count''] []),
      (''evidence_bundle.exported'', schema [''bundle_id'', ''package_id'', ''signing_key_id'', ''tenant_id'',
        ''format'', ''from_seq'', ''through_seq'', ''record_count'', ''content_sha256''] []),
      (''evidence_vault.stored'', schema [''record_id'', ''tenant_id'', ''package_id'', ''bundle_id'', ''backend'',
        ''sha256'', ''size_bytes'', ''retention_mode'', ''retain_until'', ''legal_hold''] []),
      (''evidence_vault.store_failed'', schema [''tenant_id'', ''package_id'', ''backend'', ''code''] []),
      (''evidence_vault.retrieved'', schema [''record_id'', ''tenant_id'', ''package_id'', ''sha256''] []),
      (''evidence_vault.verified'', schema [''record_id'', ''tenant_id'', ''trigger'', ''integrity_state'', ''reason'']
        []),
      (''evidence_vault.deletion_denied'', schema [''record_id'', ''tenant_id'', ''code'', ''retain_until''] []),
      (''evidence_vault.deleted'', schema [''record_id'', ''tenant_id'', ''package_id'', ''sha256'', ''reason'']
        [''reason'']),
      (''evidence_legal_hold.placed'', schema [''hold_id'', ''tenant_id'', ''record_id'', ''scope'', ''reason'',
        ''covered_records'', ''storage_pending''] [''reason'']),
      (''evidence_legal_hold.released'', schema [''hold_id'', ''tenant_id'', ''record_id'', ''scope'', ''reason'',
        ''covered_records'', ''storage_pending''] [''reason''])]"

definition alert_schemas :: "(string \<times> AuditDetailSchema) list" where
  "alert_schemas =
     [(''monitoring_alert.acknowledged'', schema [''alert_id'', ''generation'', ''request_id'', ''from_state'',
        ''to_state'', ''comment'', ''comment_redacted''] [''comment'']),
      (''monitoring_alert.assigned'', schema [''alert_id'', ''generation'', ''request_id'',
        ''assigned_to_operator_id'', ''assigned_to_email'', ''comment'', ''comment_redacted''] [''assigned_to_email'',
        ''comment'']),
      (''monitoring_alert.commented'', schema [''alert_id'', ''generation'', ''request_id'', ''state'', ''comment'',
        ''comment_redacted''] [''comment'']),
      (''monitoring_alert.resolved'', schema [''alert_id'', ''generation'', ''request_id'', ''from_state'',
        ''to_state'', ''comment'', ''comment_redacted''] [''comment'']),
      (''monitoring_alert_email.retried'', schema [''delivery_id'', ''alert_id'', ''request_id'', ''previous_status'',
        ''recipient''] [''recipient'']),
      (''webhook_endpoint.created'', schema [''endpoint_id'', ''name'', ''url'', ''enabled'', ''event_types'',
        ''secret_version''] [''name'', ''url'']),
      (''webhook_endpoint.updated'', schema [''endpoint_id'', ''request_id'', ''previous_version'', ''version'',
        ''name'', ''url'', ''enabled'', ''event_types''] [''name'', ''url'']),
      (''webhook_endpoint.deleted'', schema [''endpoint_id'', ''request_id'', ''previous_version'', ''version'',
        ''name'', ''url''] [''name'', ''url'']),
      (''webhook_endpoint.secret_rotated'', schema [''endpoint_id'', ''request_id'', ''previous_version'', ''version'',
        ''previous_secret_version'', ''secret_version''] []),
      (''monitoring_alert_webhook.retried'', schema [''delivery_id'', ''alert_id'', ''endpoint_id'', ''request_id'',
        ''previous_status'', ''destination''] [''destination'']),
      (''script_library.list_viewed'', schema [''page'', ''page_size'', ''result_count'', ''total''] []),
      (''script_library.item_viewed'', schema [''script_id'', ''version_count''] []),
      (''script_library.version_viewed'', schema [''script_id'', ''version'', ''content_sha256'', ''content_bytes'']
        []),
      (''script_library.created'', schema [''script_id'', ''version'', ''language'', ''content_sha256'',
        ''content_bytes'', ''tags'', ''supported_platforms'', ''parameter_count'', ''name''] [''name'']),
      (''script_library.version_created'', schema [''script_id'', ''version'', ''language'', ''content_sha256'',
        ''content_bytes'', ''tags'', ''supported_platforms'', ''parameter_count''] []),
      (''script_library.parameter_values_prepared'', schema [''script_id'', ''version'', ''parameter_value_set_id'',
        ''request_id'', ''provided_keys'', ''defaulted_keys'', ''secret_keys'', ''values_fingerprint'',
        ''expires_at''] []),
      (''script_library.reviewed'', schema [''script_id'', ''version'', ''state'', ''reason''] [''reason'']),
      (''script_library.deprecated'', schema [''script_id'', ''request_id'', ''previous_record_version'',
        ''record_version'', ''reason''] [''reason'']),
      (''maintenance_window.created'', schema [''maintenance_window_id'', ''scope'', ''scope_id'', ''starts_at'',
        ''ends_at'', ''name''] [''name'']),
      (''maintenance_window.deleted'', schema [''maintenance_window_id'', ''scope'', ''scope_id'', ''name'']
        [''name''])]"

definition command_schemas :: "(string \<times> AuditDetailSchema) list" where
  "command_schemas =
     [(''command.authorization_allowed'', schema [''operator_id'', ''operator_role'', ''kind'', ''site_id'',
        ''policy'', ''reason'', ''permission_scope'', ''permission_scope_id''] []),
      (''command.authorization_denied'', schema [''operator_id'', ''operator_role'', ''kind'', ''site_id'', ''policy'',
        ''reason'', ''permission_scope'', ''permission_scope_id''] []),
      (''command.completed'', schema [''command_id'', ''kind'', ''exit_code'', ''status'', ''agent_completed_at'',
        ''stdout_truncated'', ''stderr_truncated'', ''stdout_total_bytes'', ''stderr_total_bytes''] []),
      (''command.dispatched'', schema [''command_id'', ''kind'', ''payload_keys'', ''envelope_version'',
        ''schema_version'', ''issued_at'', ''expires_at'', ''nonce'', ''signing_key_id'', ''envelope_sha256'',
        ''script_version_id'', ''script_parameter_value_set_id''] []),
      (''command.result_pending'', schema [''command_id'', ''kind'', ''agent_completed_at''] []),
      (''event_log_query.dispatched'', schema [''channel'', ''tier'', ''time_window_seconds'', ''max_events'',
        ''provider_filter'', ''level_filter'', ''event_id_filter'', ''paginated''] [])]"

definition approval_schemas :: "(string \<times> AuditDetailSchema) list" where
  "approval_schemas =
     [(''approval_policy.created'', schema [''policy_id'', ''name'', ''scope'', ''scope_id'', ''command_kinds'',
        ''required_approvals'', ''request_ttl_seconds'', ''enabled'', ''emergency_override_allowed''] [''name'']),
      (''approval_policy.updated'', schema [''policy_id'', ''name'', ''scope'', ''scope_id'',
        ''previous_command_kinds'', ''command_kinds'', ''previous_required_approvals'', ''required_approvals'',
        ''previous_request_ttl_seconds'', ''request_ttl_seconds'', ''previous_enabled'', ''enabled'',
        ''previous_emergency_override_allowed'', ''emergency_override_allowed''] [''name'']),
      (''approval_policy.deleted'', schema [''policy_id'', ''name'', ''scope'', ''scope_id'', ''command_kinds'',
        ''required_approvals''] [''name'']),
      (''approval_request.created'', schema [''approval_request_id'', ''kind'', ''agent_id'', ''client_id'',
        ''site_id'', ''policy_id'', ''required_approvals'', ''payload_keys'', ''payload_sha256'', ''status'',
        ''reason'', ''expires_at''] [''reason'']),
      (''approval_request.denied'', schema [''kind'', ''agent_id'', ''policy'', ''reason''] []),
      (''approval_request.decision_recorded'', schema [''approval_request_id'', ''kind'', ''agent_id'', ''client_id'',
        ''site_id'', ''policy_id'', ''required_approvals'', ''payload_keys'', ''payload_sha256'', ''status'',
        ''decision'', ''reason'', ''approvals_recorded''] [''reason'']),
      (''approval_request.decision_denied'', schema [''approval_request_id'', ''kind'', ''agent_id'', ''client_id'',
        ''site_id'', ''policy_id'', ''required_approvals'', ''payload_keys'', ''payload_sha256'', ''status'',
        ''decision'', ''reason''] []),
      (''approval_request.cancelled'', schema [''approval_request_id'', ''kind'', ''agent_id'', ''client_id'',
        ''site_id'', ''policy_id'', ''required_approvals'', ''payload_keys'', ''payload_sha256'', ''status'',
        ''reason'', ''cancelled_by_requester''] [''reason'']),
      (''approval_request.expired'', schema [''approval_request_id'', ''kind'', ''agent_id'', ''client_id'',
        ''site_id'', ''policy_id'', ''required_approvals'', ''payload_keys'', ''payload_sha256'', ''status''] []),
      (''approval_gate.allowed'', schema [''kind'', ''agent_id'', ''policy_id'', ''required_approvals'',
        ''approval_request_id'', ''emergency_override_id'', ''reason'', ''payload_sha256'', ''approver_operator_ids'']
        []),
      (''approval_gate.denied'', schema [''kind'', ''agent_id'', ''policy_id'', ''required_approvals'',
        ''approval_request_id'', ''emergency_override_id'', ''reason''] [])]"

definition override_schemas :: "(string \<times> AuditDetailSchema) list" where
  "override_schemas =
     [(''emergency_override.activated'', schema [''emergency_override_id'', ''kind'', ''agent_id'', ''client_id'',
        ''site_id'', ''policy_id'', ''required_approvals'', ''payload_keys'', ''payload_sha256'', ''status'',
        ''justification'', ''expires_at''] [''justification'']),
      (''emergency_override.denied'', schema [''kind'', ''agent_id'', ''policy_id'', ''reason''] []),
      (''emergency_override.notified'', schema [''emergency_override_id'', ''kind'', ''agent_id'', ''client_id'',
        ''site_id'', ''policy_id'', ''required_approvals'', ''payload_keys'', ''payload_sha256'', ''status'',
        ''recipient_count''] []),
      (''emergency_override.notification_failed'', schema [''emergency_override_id'', ''kind'', ''agent_id'',
        ''client_id'', ''site_id'', ''policy_id'', ''required_approvals'', ''payload_keys'', ''payload_sha256'',
        ''status'', ''recipient_count'', ''error''] []),
      (''emergency_override.expired'', schema [''emergency_override_id'', ''kind'', ''agent_id'', ''client_id'',
        ''site_id'', ''policy_id'', ''required_approvals'', ''payload_keys'', ''payload_sha256'', ''status''] []),
      (''emergency_override.revoked'', schema [''emergency_override_id'', ''kind'', ''agent_id'', ''client_id'',
        ''site_id'', ''policy_id'', ''required_approvals'', ''payload_keys'', ''payload_sha256'', ''status'',
        ''reason'', ''revoked_by_activator''] [''reason'']),
      (''emergency_override.reviewed'', schema [''emergency_override_id'', ''kind'', ''agent_id'', ''client_id'',
        ''site_id'', ''policy_id'', ''required_approvals'', ''payload_keys'', ''payload_sha256'', ''status'',
        ''note''] [''note'']),
      (''scheduled_task.approval_refused'', schema [''scheduled_task_id'', ''scheduled_task_name'', ''kind'',
        ''agent_id'', ''policy_id'', ''required_approvals''] [''scheduled_task_name'']),
      (''command_detail.viewed'', schema [''command_id'', ''status''] []),
      (''command_detail.access_denied'', schema [''command_id'', ''kind'', ''operator_role'', ''reason''] []),
      (''endpoint_detail.viewed'', schema [''history_hours'', ''history_limit'', ''history_count'',
        ''history_truncated'', ''script_execution_allowed''] []),
      (''endpoint_list.viewed'', schema [''client_id'', ''site_id'', ''status'', ''search'', ''sort'', ''direction'',
        ''page'', ''page_size'', ''result_count''] [])]"

definition admin_schemas :: "(string \<times> AuditDetailSchema) list" where
  "admin_schemas =
     [(''enrollment_token.created'', schema [''site_id'', ''name'', ''expires_at'', ''max_uses'',
        ''has_hostname_restriction'', ''has_agent_name_restriction'', ''labels''] [''name'']),
      (''enrollment_token.revoked'', schema [''site_id'', ''reason''] [''reason'']),
      (''installer_package.created'', schema [''site_id'', ''download_id'', ''enrollment_token_id'',
        ''artifact_version'', ''artifact_sha256'', ''token_expires_at''] []),
      (''installer_package.rejected'', schema [''site_id'', ''reason''] []),
      (''operator.script_permission_changed'', schema [''operator_id'', ''operator_role'', ''previous_scope'',
        ''previous_scope_id'', ''new_scope'', ''new_scope_id'', ''reason''] [''reason'']),
      (''operator.script_permission_revoked'', schema [''operator_id'', ''operator_role'', ''previous_scope'',
        ''previous_scope_id'', ''reason''] [''reason'']),
      (''operator.created'', schema [''operator_id'', ''operator_role'', ''email''] [''email'']),
      (''operator.role_changed'', schema [''operator_id'', ''previous_role'', ''new_role'',
        ''script_permission_revoked'', ''reason''] [''reason'']),
      (''operator.status_changed'', schema [''operator_id'', ''previous_disabled'', ''new_disabled'', ''reason'']
        [''reason'']),
      (''operator.tenant_membership_granted'', schema [''operator_id'', ''client_id'', ''previous_role'', ''new_role'',
        ''reason''] [''reason'']),
      (''operator.tenant_membership_revoked'', schema [''operator_id'', ''client_id'', ''previous_role'', ''reason'']
        [''reason'']),
      (''operator.platform_admin_changed'', schema [''operator_id'', ''previous'', ''new'', ''reason''] [''reason'']),
      (''relay_region.created'', schema [''region_id'', ''code'', ''name''] []),
      (''relay_region.status_changed'', schema [''region_id'', ''previous'', ''current''] []),
      (''relay.registered'', schema [''relay_id'', ''region_id'', ''name'', ''base_url'', ''pin_count''] []),
      (''relay.status_changed'', schema [''relay_id'', ''previous'', ''current''] []),
      (''relay.key_registered'', schema [''relay_id'', ''key_id'', ''public_key_sha256'', ''not_after''] []),
      (''relay.key_retired'', schema [''relay_id'', ''key_id''] []),
      (''relay.key_revoked'', schema [''relay_id'', ''key_id'', ''reason''] [''reason'']),
      (''relay.forward_refused'', schema [''relay_id'', ''key_id'', ''reason'', ''path'', ''suppressed_count''] []),
      (''tenant.region_policy_set'', schema [''client_id'', ''region_id'', ''mode'', ''previous_region_id'',
        ''previous_mode''] []),
      (''agent.route_changed'', schema [''previous'', ''current'', ''region''] []),
      (''tenant.access_denied'', schema [''operator_id'', ''resource'', ''agent_id'', ''client_id''] []),
      (''operator.tokens_revoked'', schema [''operator_id'', ''by''] [])]"

definition account_schemas :: "(string \<times> AuditDetailSchema) list" where
  "account_schemas =
     [(''operator.password_reset'', schema [''operator_id'', ''sessions_revoked'', ''mfa_reset'',
        ''credentials_revoked'', ''recovery_codes_invalidated'', ''by''] []),
      (''operator.session_started'', schema [''operator_id'', ''session_id'', ''auth_methods'', ''break_glass''] []),
      (''operator.session_revoked'', schema [''operator_id'', ''session_id'', ''by'', ''reason'', ''session_count'']
        [''reason'']),
      (''break_glass.account_created'', schema [''account_id'', ''operator_id'', ''label'', ''credential_fingerprint'',
        ''reason''] [''label'', ''reason'']),
      (''break_glass.credential_rotated'', schema [''account_id'', ''label'', ''previous_fingerprint'',
        ''credential_fingerprint'', ''reason''] [''label'', ''reason'']),
      (''break_glass.account_state_changed'', schema [''account_id'', ''label'', ''disabled'', ''reason''] [''label'',
        ''reason'']),
      (''break_glass.activated'', schema [''account_id'', ''activation_id'', ''operator_id'', ''session_id'',
        ''label'', ''credential_fingerprint'', ''reason''] [''label'', ''reason'']),
      (''break_glass.activation_failed'', schema [''reason''] []),
      (''break_glass.activation_reviewed'', schema [''activation_id'', ''account_id'', ''note''] [''note'']),
      (''mfa.second_factor_required'', schema [''operator_id'', ''enrollment_required'', ''methods''] []),
      (''mfa.credential_registered'', schema [''operator_id'', ''credential_id'', ''name'', ''algorithm'', ''aaguid'',
        ''attestation_format'', ''backup_eligible''] [''name'']),
      (''mfa.credential_renamed'', schema [''operator_id'', ''credential_id'', ''previous_name'', ''new_name'']
        [''previous_name'', ''new_name'']),
      (''mfa.credential_revoked'', schema [''operator_id'', ''credential_id'', ''name'', ''reason'', ''by''] [''name'',
        ''reason'']),
      (''mfa.authentication_failed'', schema [''operator_id'', ''method'', ''reason''] []),
      (''mfa.authentication_succeeded'', schema [''operator_id'', ''credential_id'', ''method'', ''purpose''] []),
      (''mfa.step_up_succeeded'', schema [''operator_id'', ''credential_id''] []),
      (''mfa.recovery_codes_generated'', schema [''operator_id'', ''batch_id'', ''code_count''] []),
      (''mfa.recovery_code_used'', schema [''operator_id'', ''codes_remaining''] []),
      (''mfa.email_code_sent'', schema [''operator_id'', ''purpose'', ''destination''] []),
      (''mfa.email_code_send_failed'', schema [''operator_id'', ''purpose'', ''reason''] []),
      (''mfa.email_factor_verified'', schema [''operator_id'', ''destination''] []),
      (''mfa.email_factor_removed'', schema [''operator_id'', ''reason'', ''by''] [''reason'']),
      (''mfa.reset'', schema [''operator_id'', ''credentials_revoked'', ''recovery_codes_invalidated'', ''reason'',
        ''by''] [''reason''])]"

definition schedule_schemas :: "(string \<times> AuditDetailSchema) list" where
  "schedule_schemas =
     [(''scheduled_task.created'', schema [''scheduled_task_id'', ''name'', ''target_type'', ''target_id'',
        ''cron_expression'', ''timezone'', ''next_run_at'', ''actor'', ''actor_user_id'', ''source_ip'',
        ''user_agent''] [''name'']),
      (''scheduled_task.updated'', schema [''scheduled_task_id'', ''name'', ''enabled'', ''next_run_at'', ''actor'',
        ''actor_user_id'', ''source_ip'', ''user_agent''] [''name'']),
      (''scheduled_task.deleted'', schema [''scheduled_task_id'', ''name'', ''target_type'', ''target_id'', ''actor'',
        ''actor_user_id'', ''source_ip'', ''user_agent''] [''name'']),
      (''scheduled_task.toggled'', schema [''scheduled_task_id'', ''name'', ''enabled'', ''actor'', ''actor_user_id'',
        ''source_ip'', ''user_agent''] [''name'']),
      (''scheduled_task.manually_triggered'', schema [''scheduled_task_id'', ''name'', ''dispatched_count'', ''actor'',
        ''actor_user_id'', ''source_ip'', ''user_agent''] [''name'']),
      (''scheduled_task.dispatched'', schema [''scheduled_task_id'', ''scheduled_task_name'', ''command_id'', ''kind'',
        ''target_type'', ''target_id''] [''scheduled_task_name'']),
      (''scheduled_task.misfire_skipped'', schema [''scheduled_task_id'', ''scheduled_task_name'', ''scheduled_for'',
        ''detected_at''] [''scheduled_task_name''])]"

definition AUDIT_DETAIL_SCHEMAS :: "(string \<times> AuditDetailSchema) list" where
  "AUDIT_DETAIL_SCHEMAS =
     agent_schemas @ session_schemas @ view_schemas @ patch_schemas @ update_schemas @ alert_schemas @
     command_schemas @ approval_schemas @ override_schemas @ admin_schemas @ account_schemas @ schedule_schemas"

section \<open>The shapes of credentials\<close>

definition REDACTED :: ustr where "REDACTED = ustr ''[redacted]''"

definition TOO_DEEP :: ustr where "TOO_DEEP = ustr ''[redacted:too-deep]''"

definition MAX_DEPTH :: nat where "MAX_DEPTH = 64"

definition SENSITIVE_KEY_PARTS :: "string list" where
  "SENSITIVE_KEY_PARTS = [''password'', ''passphrase'', ''secret'', ''token'', ''authorization'', ''bearer'', ''credential'',
     ''private_key'', ''privatekey'', ''api_key'', ''apikey'', ''session_key'', ''cookie'']"

definition is_sensitive_key :: "unicode \<Rightarrow> ustr \<Rightarrow> bool" where
  "is_sensitive_key u key \<longleftrightarrow> (\<exists>part \<in> set SENSITIVE_KEY_PARTS. sublist (ustr part) (lower u key))"

text \<open>What follows a line \<open>-----BEGIN ... PRIVATE KEY-----\<close> or \<open>-----END ... PRIVATE KEY-----\<close> at the start of a text.\<close>

definition pem_label_char :: "nat \<Rightarrow> bool" where
  "pem_label_char c \<longleftrightarrow> (65 \<le> c \<and> c \<le> 90) \<or> (48 \<le> c \<and> c \<le> 57) \<or> c = 32"

definition after_pem_line :: "string \<Rightarrow> ustr \<Rightarrow> ustr option" where
  "after_pem_line word t =
     (let start = ustr (''-----'' @ word @ '' ''); rest = drop (length start) t;
          label = takeWhile pem_label_char rest; tail = dropWhile pem_label_char rest in
      if prefix start t \<and> suffix (ustr ''PRIVATE KEY'') label \<and> prefix (ustr ''-----'') tail then Some (drop 5 tail) else None)"

definition has_private_key :: "ustr \<Rightarrow> bool" where
  "has_private_key t \<longleftrightarrow>
     (\<exists>s \<in> set (suffixes t). case after_pem_line ''BEGIN'' s of
        None \<Rightarrow> False | Some body \<Rightarrow> \<exists>e \<in> set (suffixes body). after_pem_line ''END'' e \<noteq> None)"

text \<open>
  Three segments of at least six characters, with a word boundary before and after the text; \<open>fullmatch\<close>
  leaves nothing around them. A hyphen is no word character.
\<close>

definition jwt_char :: "nat \<Rightarrow> bool" where
  "jwt_char c \<longleftrightarrow> (65 \<le> c \<and> c \<le> 90) \<or> (97 \<le> c \<and> c \<le> 122) \<or> (48 \<le> c \<and> c \<le> 57) \<or> c = 95 \<or> c = 45"

definition split_dot :: "ustr \<Rightarrow> ustr \<times> ustr" where
  "split_dot t = (takeWhile (\<lambda>c. c \<noteq> 46) t, drop 1 (dropWhile (\<lambda>c. c \<noteq> 46) t))"

definition is_jwt :: "ustr \<Rightarrow> bool" where
  "is_jwt t \<longleftrightarrow>
     (let (a, r) = split_dot t; (b, c) = split_dot r in
      (\<forall>seg \<in> set [a, b, c]. list_all jwt_char seg \<and> length seg \<ge> 6) \<and> hd a \<noteq> 45 \<and> last c \<noteq> 45)"

text \<open>\<open>re.IGNORECASE\<close> on a lower case ASCII letter: its upper case, and the other characters that fold to it.\<close>

definition same_letter :: "nat \<Rightarrow> nat \<Rightarrow> bool" where
  "same_letter c x \<longleftrightarrow> x = c \<or> (97 \<le> c \<and> c \<le> 122 \<and> x = c - 32) \<or>
     (c = 105 \<and> x \<in> {304, 305}) \<or> (c = 115 \<and> x = 383) \<or> (c = 107 \<and> x = 8490)"

definition starts_with_word :: "string \<Rightarrow> ustr \<Rightarrow> bool" where
  "starts_with_word w t \<longleftrightarrow> list_all2 same_letter (ustr w) (take (length w) t)"

text \<open>A first word, then, where there is a second one, an optional separator and that.\<close>

definition CREDENTIAL_MARKERS :: "(string \<times> string option) list" where
  "CREDENTIAL_MARKERS =
     [(''password'', None), (''passphrase'', None), (''secret'', None), (''bearer'', None), (''credential'', None),
      (''private'', Some ''key''), (''api'', Some ''key''), (''access'', Some ''token''), (''agent'', Some ''token''),
      (''enrollment'', Some ''token''), (''session'', Some ''key'')]"

definition starts_with_marker :: "ustr \<Rightarrow> string \<times> string option \<Rightarrow> bool" where
  "starts_with_marker t m \<longleftrightarrow>
     starts_with_word (fst m) t \<and>
     (case snd m of
        None \<Rightarrow> True
      | Some w \<Rightarrow>
          let rest = drop (length (fst m)) t in
          starts_with_word w rest \<or> (rest \<noteq> [] \<and> hd rest \<in> {45, 95, 32} \<and> starts_with_word w (tl rest)))"

definition has_credential_marker :: "ustr \<Rightarrow> bool" where
  "has_credential_marker t \<longleftrightarrow> (\<exists>s \<in> set (suffixes t). \<exists>m \<in> set CREDENTIAL_MARKERS. starts_with_marker s m)"

definition redact_scalar_str :: "ustr \<Rightarrow> ustr" where
  "redact_scalar_str t =
     (if has_private_key t then REDACTED else if is_jwt t then REDACTED else if has_credential_marker t then REDACTED else t)"

section \<open>The generic redactor\<close>

text \<open>Of JSON values; bytes do not occur in them.\<close>

fun redact_value :: "unicode \<Rightarrow> nat \<Rightarrow> json \<Rightarrow> json" where
  "redact_value u depth (JObj kvs) =
     (if depth > MAX_DEPTH then JStr TOO_DEEP
      else JObj (map (\<lambda>kv. (fst kv, if is_sensitive_key u (fst kv) then JStr REDACTED else redact_value u (Suc depth) (snd kv))) kvs))"
| "redact_value u depth (JArr xs) =
     (if depth > MAX_DEPTH then JStr TOO_DEEP else JArr (map (redact_value u (Suc depth)) xs))"
| "redact_value u depth (JStr t) = (if depth > MAX_DEPTH then JStr TOO_DEEP else JStr (redact_scalar_str t))"
| "redact_value u depth j = (if depth > MAX_DEPTH then JStr TOO_DEEP else j)"

definition redact_detail :: "unicode \<Rightarrow> json \<Rightarrow> json" where
  "redact_detail u detail =
     (case detail of JObj kvs \<Rightarrow> redact_value u 0 detail | _ \<Rightarrow> JObj [(ustr ''_value'', redact_value u 0 detail)])"

section \<open>The policy of audit details\<close>

text \<open>The two exceptions a detail can raise; the second is a text with a lone surrogate.\<close>

datatype audit_error = AuditDetailError | UnicodeEncodeError

definition MAX_AUDIT_STRING_BYTES :: nat where "MAX_AUDIT_STRING_BYTES = 4096"

definition MAX_AUDIT_LIST_ITEMS :: nat where "MAX_AUDIT_LIST_ITEMS = 1000"

definition audit_string :: "ustr \<Rightarrow> audit_error + nat list" where
  "audit_string t =
     (case encode_utf8 t of
        None \<Rightarrow> Inl UnicodeEncodeError
      | Some b \<Rightarrow> if length b > MAX_AUDIT_STRING_BYTES then Inl AuditDetailError else Inr b)"

text \<open>A value that is neither a list nor an object.\<close>

fun normalize_audit_atom :: "json \<Rightarrow> audit_error + json" where
  "normalize_audit_atom JNull = Inr JNull"
| "normalize_audit_atom (JBool b) = Inr (JBool b)"
| "normalize_audit_atom (JInt n) = Inr (JInt n)"
| "normalize_audit_atom (JFloat r) =
     (if r \<in> set (map ustr [''nan'', ''inf'', ''-inf'']) then Inl AuditDetailError else Inr (JFloat r))"
| "normalize_audit_atom (JStr t) =
     (case audit_string t of Inl e \<Rightarrow> Inl e | Inr _ \<Rightarrow> Inr (JStr (redact_scalar_str t)))"
| "normalize_audit_atom j = Inl AuditDetailError"

fun normalize_audit_items :: "json list \<Rightarrow> audit_error + json list" where
  "normalize_audit_items [] = Inr []"
| "normalize_audit_items (x # xs) =
     (case normalize_audit_atom x of
        Inl e \<Rightarrow> Inl e
      | Inr y \<Rightarrow> (case normalize_audit_items xs of Inl e \<Rightarrow> Inl e | Inr ys \<Rightarrow> Inr (y # ys)))"

definition normalize_audit_scalar :: "json \<Rightarrow> audit_error + json" where
  "normalize_audit_scalar j =
     (case j of
        JArr xs \<Rightarrow>
          if length xs > MAX_AUDIT_LIST_ITEMS then Inl AuditDetailError
          else (case normalize_audit_items xs of Inl e \<Rightarrow> Inl e | Inr ys \<Rightarrow> Inr (JArr ys))
      | _ \<Rightarrow> normalize_audit_atom j)"

text \<open>One field of the output.\<close>

definition sanitize_field ::
  "(nat list \<Rightarrow> string) \<Rightarrow> AuditDetailSchema \<Rightarrow> string \<Rightarrow> json \<Rightarrow> audit_error + (ustr \<times> json) list" where
  "sanitize_field sha256hex s f value =
     (if f \<in> set (sf_digest_fields s)
      then case value of
          JStr t \<Rightarrow>
            (case audit_string t of
               Inl e \<Rightarrow> Inl e
             | Inr b \<Rightarrow> Inr [(ustr (f @ ''_sha256''), jstr (sha256hex b)), (ustr (f @ ''_bytes''), JInt (int (length b)))])
        | _ \<Rightarrow> Inl AuditDetailError
      else (case normalize_audit_scalar value of Inl e \<Rightarrow> Inl e | Inr v \<Rightarrow> Inr [(ustr f, v)]))"

fun sanitize_fields ::
  "(nat list \<Rightarrow> string) \<Rightarrow> AuditDetailSchema \<Rightarrow> (ustr \<times> json) list \<Rightarrow> string list \<Rightarrow> audit_error + (ustr \<times> json) list" where
  "sanitize_fields sha256hex s detail [] = Inr []"
| "sanitize_fields sha256hex s detail (f # fs) =
     (case map_of detail (ustr f) of
        None \<Rightarrow> Inl AuditDetailError
      | Some value \<Rightarrow>
          (case sanitize_field sha256hex s f value of
             Inl e \<Rightarrow> Inl e
           | Inr out \<Rightarrow> (case sanitize_fields sha256hex s detail fs of Inl e \<Rightarrow> Inl e | Inr rest \<Rightarrow> Inr (out @ rest))))"

text \<open>Exactly the registered fields.\<close>

definition fields_match :: "AuditDetailSchema \<Rightarrow> (ustr \<times> json) list \<Rightarrow> bool" where
  "fields_match s detail \<longleftrightarrow> set (map fst detail) = set (map ustr (sf_fields s))"

definition sanitize_audit_detail ::
  "(nat list \<Rightarrow> string) \<Rightarrow> string \<Rightarrow> json \<Rightarrow> audit_error + (ustr \<times> json) list" where
  "sanitize_audit_detail sha256hex action detail =
     (case map_of AUDIT_DETAIL_SCHEMAS action of
        None \<Rightarrow> Inl AuditDetailError
      | Some s \<Rightarrow>
          (case detail of
             JObj kvs \<Rightarrow>
               if fields_match s kvs then sanitize_fields sha256hex s kvs (sort_key ustr (sf_fields s)) else Inl AuditDetailError
           | _ \<Rightarrow> Inl AuditDetailError))"

end
