(* ===== verification/Redaction_Correct.thy ===== *)
theory Redaction_Correct
  imports Redaction
begin

text \<open>
  What the redaction boundary guarantees: what it stores of an accepted detail, when it accepts one, that
  prose and values under sensitive keys do not influence what is stored beyond their digest, and that the
  generic redactor is idempotent and bounds the depth.
\<close>

section \<open>Credential-shaped texts\<close>

definition credential_shaped :: "ustr \<Rightarrow> bool" where
  "credential_shaped t \<longleftrightarrow> has_private_key t \<or> is_jwt t \<or> has_credential_marker t"

lemma redact_scalar_str: "redact_scalar_str t = (if credential_shaped t then REDACTED else t)"
  by (simp add: redact_scalar_str_def credential_shaped_def)

lemma redact_scalar_idem [simp]: "redact_scalar_str (redact_scalar_str t) = redact_scalar_str t"
  by (simp add: redact_scalar_str)

fun texts_in :: "json \<Rightarrow> ustr list" where
  "texts_in (JStr t) = [t]"
| "texts_in (JArr xs) = concat (map texts_in xs)"
| "texts_in (JObj kvs) = concat (map (\<lambda>kv. texts_in (snd kv)) kvs)"
| "texts_in j = []"

section \<open>The generic redactor\<close>

lemma redact_value_deep: "depth > MAX_DEPTH \<Longrightarrow> redact_value u depth j = JStr TOO_DEEP"
  by (cases j) simp_all

lemma redact_value_idem: "redact_value u depth (redact_value u depth j) = redact_value u depth j"
proof (induction u depth j rule: redact_value.induct)
  case (1 u depth kvs)
  then show ?case by (cases "depth > MAX_DEPTH") (auto simp: redact_value_deep redact_scalar_str)
qed (auto simp: redact_value_deep)

text \<open>The document without the values under sensitive keys.\<close>

fun public_part :: "unicode \<Rightarrow> json \<Rightarrow> json" where
  "public_part u (JObj kvs) = JObj (map (\<lambda>kv. (fst kv, if is_sensitive_key u (fst kv) then JNull else public_part u (snd kv))) kvs)"
| "public_part u (JArr xs) = JArr (map (public_part u) xs)"
| "public_part u j = j"

lemma redact_public: "redact_value u depth (public_part u j) = redact_value u depth j"
proof (induction u depth j rule: redact_value.induct)
  case (1 u depth kvs)
  then show ?case by (cases "depth > MAX_DEPTH") (auto simp: comp_def)
next
  case (2 u depth xs)
  then show ?case by (cases "depth > MAX_DEPTH") (auto simp: comp_def)
qed auto

lemma redact_value_texts: "t \<in> set (texts_in (redact_value u depth j)) \<Longrightarrow> \<not> credential_shaped t \<or> t \<in> {REDACTED, TOO_DEEP}"
proof (induction u depth j rule: redact_value.induct)
  case (1 u depth kvs)
  then show ?case by (auto split: if_splits)
qed (auto simp: redact_scalar_str split: if_splits)

text \<open>
  C1. Redaction of evidence. The values under sensitive keys have no influence on the redacted document, no
  credential-shaped text is left in it, and redacting it again changes nothing.
\<close>

theorem redact_hides_secrets:
  assumes "public_part u (JObj kvs) = public_part u (JObj kvs')"
  shows "redact_detail u (JObj kvs) = redact_detail u (JObj kvs') \<and>
    redact_detail u (redact_detail u (JObj kvs)) = redact_detail u (JObj kvs) \<and>
    (\<forall>t \<in> set (texts_in (redact_detail u (JObj kvs))). \<not> credential_shaped t \<or> t \<in> {REDACTED, TOO_DEEP})"
proof -
  have d: "redact_detail u (JObj m) = redact_value u 0 (JObj m)" for m by (simp add: redact_detail_def)
  have "redact_value u 0 (JObj kvs) = redact_value u 0 (JObj kvs')"
    using redact_public [of u 0 "JObj kvs"] redact_public [of u 0 "JObj kvs'"] assms by metis
  moreover have "\<exists>m. redact_value u 0 (JObj kvs) = JObj m" by (simp add: MAX_DEPTH_def)
  then have "redact_detail u (redact_value u 0 (JObj kvs)) = redact_value u 0 (JObj kvs)"
    using d redact_value_idem by metis
  ultimately show ?thesis unfolding d using redact_value_texts by blast
qed

section \<open>Accepted details\<close>

definition storable_text :: "ustr \<Rightarrow> bool" where
  "storable_text t \<longleftrightarrow> (\<exists>b. encode_utf8 t = Some b \<and> length b \<le> 4096)"

lemma audit_string_Inr: "audit_string t = Inr b \<longleftrightarrow> encode_utf8 t = Some b \<and> length b \<le> 4096"
  by (auto simp: audit_string_def MAX_AUDIT_STRING_BYTES_def split: option.splits if_splits)

text \<open>What may be stored for a field: an atom, or a list of at most a thousand of them.\<close>

fun storable_atom :: "json \<Rightarrow> bool" where
  "storable_atom (JStr t) = storable_text t"
| "storable_atom (JFloat r) = (r \<notin> set (map ustr [''nan'', ''inf'', ''-inf'']))"
| "storable_atom (JArr xs) = False"
| "storable_atom (JObj kvs) = False"
| "storable_atom j = True"

definition storable :: "json \<Rightarrow> bool" where
  "storable j \<longleftrightarrow> (case j of JArr xs \<Rightarrow> length xs \<le> 1000 \<and> list_all storable_atom xs | _ \<Rightarrow> storable_atom j)"

fun redact_atom :: "json \<Rightarrow> json" where
  "redact_atom (JStr t) = JStr (redact_scalar_str t)"
| "redact_atom j = j"

definition redact_flat :: "json \<Rightarrow> json" where
  "redact_flat j = (case j of JArr xs \<Rightarrow> JArr (map redact_atom xs) | _ \<Rightarrow> redact_atom j)"

lemma normalize_atom_Inr: "normalize_audit_atom j = Inr v \<longleftrightarrow> storable_atom j \<and> v = redact_atom j"
proof (cases j)
  case (JStr t)
  have "storable_text t \<longleftrightarrow> (\<exists>b. audit_string t = Inr b)" by (simp add: storable_text_def audit_string_Inr)
  then show ?thesis unfolding JStr by (cases "audit_string t") (simp_all, blast+)
next
  case (JFloat r)
  show ?thesis unfolding JFloat by simp blast
qed (simp_all, blast+)

lemma normalize_items_Inr: "normalize_audit_items xs = Inr ys \<longleftrightarrow> list_all storable_atom xs \<and> ys = map redact_atom xs"
proof (induction xs arbitrary: ys)
  case (Cons x xs)
  show ?case
  proof (cases "normalize_audit_atom x")
    case (Inl e)
    then have "\<not> storable_atom x" by (metis normalize_atom_Inr sum.distinct(1))
    then show ?thesis using Inl by simp
  next
    case (Inr y)
    then have y: "storable_atom x" "y = redact_atom x" by (simp_all add: normalize_atom_Inr)
    show ?thesis
    proof (cases "normalize_audit_items xs")
      case (Inl e)
      then have "\<not> list_all storable_atom xs" by (metis Cons.IH sum.distinct(1))
      then show ?thesis using Inl Inr by simp
    next
      case r: (Inr zs)
      then have "list_all storable_atom xs" "zs = map redact_atom xs" using Cons.IH by simp_all
      then show ?thesis using Inr r y by auto
    qed
  qed
qed auto

lemma normalize_scalar_Inr: "normalize_audit_scalar j = Inr v \<longleftrightarrow> storable j \<and> v = redact_flat j"
proof (cases "\<exists>xs. j = JArr xs")
  case True
  then obtain xs where j: "j = JArr xs" by blast
  show ?thesis
    using normalize_items_Inr [of xs] unfolding j
    by (cases "normalize_audit_items xs") (auto simp: normalize_audit_scalar_def storable_def redact_flat_def MAX_AUDIT_LIST_ITEMS_def)
next
  case False
  then have "normalize_audit_scalar j = normalize_audit_atom j" "storable j = storable_atom j" "redact_flat j = redact_atom j"
    by (cases j; simp add: normalize_audit_scalar_def storable_def redact_flat_def)+
  then show ?thesis using normalize_atom_Inr by simp
qed

definition field_storable :: "AuditDetailSchema \<Rightarrow> string \<Rightarrow> json \<Rightarrow> bool" where
  "field_storable s f v \<longleftrightarrow>
     (if f \<in> set (sf_digest_fields s) then \<exists>t. v = JStr t \<and> storable_text t else storable v)"

definition field_output :: "(nat list \<Rightarrow> string) \<Rightarrow> AuditDetailSchema \<Rightarrow> string \<Rightarrow> json \<Rightarrow> (ustr \<times> json) list" where
  "field_output h s f v =
     (if f \<in> set (sf_digest_fields s)
      then case v of JStr t \<Rightarrow>
          [(ustr (f @ ''_sha256''), jstr (h (the (encode_utf8 t)))), (ustr (f @ ''_bytes''), JInt (int (length (the (encode_utf8 t)))))]
        | _ \<Rightarrow> []
      else [(ustr f, redact_flat v)])"

lemma sanitize_field_Inr: "sanitize_field h s f v = Inr out \<longleftrightarrow> field_storable s f v \<and> out = field_output h s f v"
proof (cases "f \<in> set (sf_digest_fields s)")
  case True
  show ?thesis
  proof (cases v)
    case (JStr t)
    have "storable_text t \<longleftrightarrow> (\<exists>b. audit_string t = Inr b)" by (simp add: storable_text_def audit_string_Inr)
    moreover have "audit_string t = Inr b \<Longrightarrow> the (encode_utf8 t) = b" for b by (simp add: audit_string_Inr)
    ultimately show ?thesis
      using True unfolding JStr sanitize_field_def field_storable_def field_output_def by (cases "audit_string t") auto
  qed (use True in \<open>auto simp: sanitize_field_def field_storable_def\<close>)
next
  case False
  then show ?thesis
    using normalize_scalar_Inr [of v]
    by (cases "normalize_audit_scalar v") (auto simp: sanitize_field_def field_storable_def field_output_def)
qed

lemma sanitize_fields_Inr:
  "sanitize_fields h s d fs = Inr out \<longleftrightarrow>
     (\<forall>f \<in> set fs. \<exists>v. map_of d (ustr f) = Some v \<and> field_storable s f v) \<and>
     out = concat (map (\<lambda>f. field_output h s f (the (map_of d (ustr f)))) fs)"
proof (induction fs arbitrary: out)
  case (Cons f fs)
  show ?case
  proof (cases "map_of d (ustr f)")
    case (Some v)
    show ?thesis
    proof (cases "field_storable s f v")
      case True
      then have "sanitize_field h s f v = Inr (field_output h s f v)" by (simp add: sanitize_field_Inr)
      then show ?thesis using Some True Cons.IH by (cases "sanitize_fields h s d fs") auto
    next
      case False
      then have "\<nexists>out. sanitize_field h s f v = Inr out" by (simp add: sanitize_field_Inr)
      then show ?thesis using Some False by (cases "sanitize_field h s f v") auto
    qed
  qed simp
qed auto

lemma sanitize_Inr:
  "sanitize_audit_detail h action detail = Inr out \<longleftrightarrow>
     (\<exists>s kvs. map_of AUDIT_DETAIL_SCHEMAS action = Some s \<and> detail = JObj kvs \<and> fields_match s kvs \<and>
        (\<forall>f \<in> set (sf_fields s). \<exists>v. map_of kvs (ustr f) = Some v \<and> field_storable s f v) \<and>
        out = concat (map (\<lambda>f. field_output h s f (the (map_of kvs (ustr f)))) (sort_key ustr (sf_fields s))))"
  by (auto simp: sanitize_audit_detail_def sanitize_fields_Inr split: option.splits json.splits if_splits)

text \<open>No object, and no list in a list.\<close>

fun is_container :: "json \<Rightarrow> bool" where
  "is_container (JArr xs) = True"
| "is_container (JObj kvs) = True"
| "is_container j = False"

definition flat :: "json \<Rightarrow> bool" where
  "flat j \<longleftrightarrow> (case j of JObj kvs \<Rightarrow> False | JArr xs \<Rightarrow> \<not> list_ex is_container xs | _ \<Rightarrow> True)"

lemma redact_flat_safe:
  assumes "storable v"
  shows "flat (redact_flat v)" "t \<in> set (texts_in (redact_flat v)) \<Longrightarrow> \<not> credential_shaped t \<or> t = REDACTED"
proof -
  have a: "storable_atom x \<Longrightarrow> \<not> is_container (redact_atom x)" for x by (cases x) simp_all
  have b: "storable_atom x \<Longrightarrow> t \<in> set (texts_in (redact_atom x)) \<Longrightarrow> \<not> credential_shaped t \<or> t = REDACTED" for x
    by (cases x) (auto simp: redact_scalar_str split: if_splits)
  show "flat (redact_flat v)"
    using assms a by (cases v) (auto simp: storable_def redact_flat_def flat_def list_all_iff list_ex_iff)
  show "t \<in> set (texts_in (redact_flat v)) \<Longrightarrow> \<not> credential_shaped t \<or> t = REDACTED"
    using assms b by (cases v) (auto simp: storable_def redact_flat_def list_all_iff redact_scalar_str split: if_splits)
qed

lemma field_output_keys: "field_storable s f v \<Longrightarrow> map fst (field_output h s f v) = map ustr (stored_names s f)"
  by (auto simp: field_storable_def field_output_def stored_names_def split: if_splits)

lemma field_output_safe:
  assumes "field_storable s f v" "(k, x) \<in> set (field_output h s f v)"
  shows "flat x" "t \<in> set (texts_in x) \<Longrightarrow> \<not> credential_shaped t \<or> t = REDACTED \<or>
    (f \<in> set (sf_digest_fields s) \<and> k = ustr (f @ ''_sha256'') \<and> (\<exists>b. t = ustr (h b)))"
proof -
  have "flat x \<and> (t \<in> set (texts_in x) \<longrightarrow> \<not> credential_shaped t \<or> t = REDACTED \<or>
      (f \<in> set (sf_digest_fields s) \<and> k = ustr (f @ ''_sha256'') \<and> (\<exists>b. t = ustr (h b))))"
  proof (cases "f \<in> set (sf_digest_fields s)")
    case True
    then show ?thesis using assms by (auto simp: field_storable_def field_output_def flat_def jstr_def)
  next
    case False
    then have "storable v" "x = redact_flat v" using assms by (auto simp: field_storable_def field_output_def)
    then show ?thesis using redact_flat_safe by blast
  qed
  then show "flat x" "t \<in> set (texts_in x) \<Longrightarrow> \<not> credential_shaped t \<or> t = REDACTED \<or>
    (f \<in> set (sf_digest_fields s) \<and> k = ustr (f @ ''_sha256'') \<and> (\<exists>b. t = ustr (h b)))" by blast+
qed

text \<open>
  C24. What is stored of an accepted detail. The action is registered; exactly the stored fields of its schema
  appear; no value is an object or a nested list; and every text is the hash of a prose field, or is not shaped
  like a credential, or is the mark of redaction.
\<close>

theorem stored_detail_safe:
  assumes "sanitize_audit_detail h action detail = Inr out"
  shows "\<exists>s. map_of AUDIT_DETAIL_SCHEMAS action = Some s \<and> set (map fst out) = ustr ` set (stored_fields s) \<and>
    (\<forall>(k, v) \<in> set out. flat v \<and> (\<forall>t \<in> set (texts_in v). \<not> credential_shaped t \<or> t = REDACTED \<or>
       (\<exists>f \<in> set (sf_digest_fields s). k = ustr (f @ ''_sha256'') \<and> (\<exists>b. t = ustr (h b)))))"
proof -
  obtain s kvs where s: "map_of AUDIT_DETAIL_SCHEMAS action = Some s"
    and ok: "\<forall>f \<in> set (sf_fields s). \<exists>v. map_of kvs (ustr f) = Some v \<and> field_storable s f v"
    and out: "out = concat (map (\<lambda>f. field_output h s f (the (map_of kvs (ustr f)))) (sort_key ustr (sf_fields s)))"
    using assms unfolding sanitize_Inr by blast
  have ok': "field_storable s f (the (map_of kvs (ustr f)))" if "f \<in> set (sf_fields s)" for f using ok that by force
  have "set (map fst out) = (\<Union>f \<in> set (sf_fields s). set (map fst (field_output h s f (the (map_of kvs (ustr f))))))"
    unfolding out by auto
  also have "\<dots> = (\<Union>f \<in> set (sf_fields s). set (map ustr (stored_names s f)))"
    using field_output_keys [OF ok'] by (intro SUP_cong refl) metis
  also have "\<dots> = ustr ` set (stored_fields s)" unfolding stored_fields_def by auto
  finally have keys: "set (map fst out) = ustr ` set (stored_fields s)" .
  have "flat v \<and> (\<forall>t \<in> set (texts_in v). \<not> credential_shaped t \<or> t = REDACTED \<or>
       (\<exists>f \<in> set (sf_digest_fields s). k = ustr (f @ ''_sha256'') \<and> (\<exists>b. t = ustr (h b))))" if kv: "(k, v) \<in> set out" for k v
  proof -
    obtain f where "f \<in> set (sf_fields s)" "(k, v) \<in> set (field_output h s f (the (map_of kvs (ustr f))))"
      using kv unfolding out by auto
    then show ?thesis using field_output_safe [OF ok'] by blast
  qed
  then show ?thesis using s keys by blast
qed

section \<open>Prose is stored as a digest\<close>

definition same_digest :: "(nat list \<Rightarrow> string) \<Rightarrow> json option \<Rightarrow> json option \<Rightarrow> bool" where
  "same_digest h x y \<longleftrightarrow> (\<exists>t t' b b'. x = Some (JStr t) \<and> y = Some (JStr t') \<and> encode_utf8 t = Some b \<and> encode_utf8 t' = Some b' \<and>
     length b = length b' \<and> h b = h b')"

lemma sanitize_field_digest:
  assumes "f \<in> set (sf_digest_fields s)" "same_digest h (Some v) (Some v')"
  shows "sanitize_field h s f v = sanitize_field h s f v'"
  using assms by (auto simp: same_digest_def sanitize_field_def audit_string_def)

text \<open>
  C31. Prose is hidden. Two details that agree on the readable fields of their action, and whose prose fields
  have the same length and digest, are stored alike or refused alike: nothing else of the prose is kept.
\<close>

theorem prose_only_digested:
  assumes "map_of AUDIT_DETAIL_SCHEMAS action = Some s" "fields_match s kvs" "fields_match s kvs'"
    and "\<forall>f \<in> set (sf_fields s). if f \<in> set (sf_digest_fields s) then same_digest h (map_of kvs (ustr f)) (map_of kvs' (ustr f))
      else map_of kvs (ustr f) = map_of kvs' (ustr f)"
  shows "sanitize_audit_detail h action (JObj kvs) = sanitize_audit_detail h action (JObj kvs')"
proof -
  have "\<forall>f \<in> set fs. if f \<in> set (sf_digest_fields s) then same_digest h (map_of kvs (ustr f)) (map_of kvs' (ustr f))
      else map_of kvs (ustr f) = map_of kvs' (ustr f) \<Longrightarrow> sanitize_fields h s kvs fs = sanitize_fields h s kvs' fs" for fs
  proof (induction fs)
    case (Cons f fs)
    have rest: "sanitize_fields h s kvs fs = sanitize_fields h s kvs' fs" by (rule Cons.IH) (use Cons.prems in simp)
    show ?case
    proof (cases "f \<in> set (sf_digest_fields s)")
      case True
      then have d: "same_digest h (map_of kvs (ustr f)) (map_of kvs' (ustr f))" using Cons.prems by simp
      then obtain v v' where v: "map_of kvs (ustr f) = Some v" "map_of kvs' (ustr f) = Some v'" by (auto simp: same_digest_def)
      then show ?thesis unfolding sanitize_fields.simps rest using v sanitize_field_digest [OF True d [unfolded v]] by simp
    next
      case False
      then show ?thesis unfolding sanitize_fields.simps rest using Cons.prems by simp
    qed
  qed simp
  then show ?thesis using assms by (simp add: sanitize_audit_detail_def)
qed

section \<open>A halt and its reason\<close>

definition halt_note :: "ustr \<Rightarrow> (ustr \<times> json) list" where
  "halt_note reason = [(ustr ''release_id'', jstr ''r1''), (ustr ''reason'', JStr reason)]"

lemma halt_schema:
  "map_of AUDIT_DETAIL_SCHEMAS ''agent_update.halt_reason_recorded'' = Some (schema [''release_id'', ''reason''] [''reason''])"
  by (simp add: AUDIT_DETAIL_SCHEMAS_def agent_schemas_def session_schemas_def view_schemas_def patch_schemas_def update_schemas_def)

text \<open>Two reasons of the same length, under a hash that only sees the length.\<close>

theorem prose_only_digested_witness:
  "sanitize_audit_detail (\<lambda>b. []) ''agent_update.halt_reason_recorded'' (JObj (halt_note (ustr ''leaks''))) =
    sanitize_audit_detail (\<lambda>b. []) ''agent_update.halt_reason_recorded'' (JObj (halt_note (ustr ''fails'')))"
  by (rule prose_only_digested [OF halt_schema])
    (simp_all add: fields_match_def schema_def halt_note_def ustr_def same_digest_def encode_utf8_def scalar_def utf8_char_def)

lemma halt_recorded:
  "sanitize_audit_detail (\<lambda>b. ''0'') ''agent_update.halt_reason_recorded'' (JObj (halt_note (ustr ''leaks''))) = Inr
    [(ustr ''reason_sha256'', jstr ''0''), (ustr ''reason_bytes'', JInt 5), (ustr ''release_id'', jstr ''r1'')]"
proof -
  have s: "sort_key ustr [''release_id'', ''reason''] = [''reason'', ''release_id'']" by (simp add: ustr_def)
  have k: "\<not> credential_shaped (ustr ''r1'')"
    by (simp add: credential_shaped_def has_private_key_def after_pem_line_def is_jwt_def split_dot_def has_credential_marker_def
        CREDENTIAL_MARKERS_def starts_with_marker_def starts_with_word_def ustr_def)
  have e: "audit_string (ustr ''leaks'') = Inr (ustr ''leaks'')" "audit_string (ustr ''r1'') = Inr (ustr ''r1'')"
    by (simp_all add: audit_string_def encode_utf8_def scalar_def utf8_char_def ustr_def MAX_AUDIT_STRING_BYTES_def)
  show ?thesis
    unfolding sanitize_audit_detail_def halt_schema
    by (simp add: schema_def s fields_match_def halt_note_def sanitize_field_def e normalize_audit_scalar_def jstr_def
        redact_scalar_str k) (simp add: ustr_def)
qed

theorem stored_detail_safe_witness:
  "set (map fst [(ustr ''reason_sha256'', jstr ''0''), (ustr ''reason_bytes'', JInt 5), (ustr ''release_id'', jstr ''r1'')]) =
    ustr ` set (stored_fields (schema [''release_id'', ''reason''] [''reason'']))"
  using stored_detail_safe [OF halt_recorded] halt_schema by auto

definition session_evidence :: "ustr \<Rightarrow> (ustr \<times> json) list" where
  "session_evidence t = [(ustr ''session_token'', JStr t), (ustr ''agent_id'', jstr ''agent1'')]"

lemma session_token_sensitive:
  assumes "\<forall>t. lower u t = t"
  shows "is_sensitive_key u (ustr ''session_token'')"
proof -
  have "ustr ''session_token'' = ustr ''session_'' @ ustr ''token'' @ []" by (simp add: ustr_def)
  then have "sublist (ustr ''token'') (ustr ''session_token'')" unfolding sublist_def by blast
  moreover have "''token'' \<in> set SENSITIVE_KEY_PARTS" by (simp add: SENSITIVE_KEY_PARTS_def)
  ultimately show ?thesis using assms unfolding is_sensitive_key_def by metis
qed

theorem redact_hides_secrets_witness:
  "redact_detail \<lparr>nd_value = (\<lambda>_. None), lower = id, upper = id, casefold = id\<rparr> (JObj (session_evidence (ustr ''first''))) =
    redact_detail \<lparr>nd_value = (\<lambda>_. None), lower = id, upper = id, casefold = id\<rparr> (JObj (session_evidence (ustr ''other'')))"
proof -
  have "public_part \<lparr>nd_value = (\<lambda>_. None), lower = id, upper = id, casefold = id\<rparr> (JObj (session_evidence (ustr ''first''))) =
      public_part \<lparr>nd_value = (\<lambda>_. None), lower = id, upper = id, casefold = id\<rparr> (JObj (session_evidence (ustr ''other'')))"
    using session_token_sensitive [of "\<lparr>nd_value = (\<lambda>_. None), lower = id, upper = id, casefold = id\<rparr>"]
    by (simp add: session_evidence_def)
  from redact_hides_secrets [OF this] show ?thesis by blast
qed

text \<open>A code that names what failed is itself taken for a credential.\<close>

lemma coded_reason_redacted: "redact_scalar_str (ustr ''invalid_credential'') = REDACTED"
proof -
  have "ustr ''invalid_credential'' = ustr ''invalid_'' @ ustr ''credential''" by (simp add: ustr_def)
  then have "suffix (ustr ''credential'') (ustr ''invalid_credential'')" unfolding suffix_def by blast
  moreover have "starts_with_marker (ustr ''credential'') (''credential'', None)"
    by (simp add: starts_with_marker_def starts_with_word_def ustr_def same_letter_def)
  moreover have "(''credential'', None) \<in> set CREDENTIAL_MARKERS" by (simp add: CREDENTIAL_MARKERS_def)
  ultimately have "has_credential_marker (ustr ''invalid_credential'')" unfolding has_credential_marker_def set_suffixes_eq by blast
  then show ?thesis by (simp add: redact_scalar_str_def)
qed

end
