(* ===== verification/Audit_Registry.thy ===== *)
theory Audit_Registry
  imports Redaction_Correct
begin

text \<open>
  Looking an action up in the registry of audit actions, and the events that fit it: their action is
  registered and their detail has exactly the registered fields.
\<close>

definition fits :: "string \<Rightarrow> json \<Rightarrow> bool" where
  "fits action detail \<longleftrightarrow>
     (case map_of AUDIT_DETAIL_SCHEMAS action of
        None \<Rightarrow> False
      | Some s \<Rightarrow> (case detail of JObj kvs \<Rightarrow> fields_match s kvs | _ \<Rightarrow> False))"

lemma fitsI:
  "map_of AUDIT_DETAIL_SCHEMAS action = Some (schema fs ds) \<Longrightarrow> set (map fst kvs) = set (map ustr fs) \<Longrightarrow> fits action (JObj kvs)"
  by (simp add: fits_def fields_match_def schema_def)

section \<open>Looking an action up\<close>

lemma in_registry:
  "map_of ((a, b) # xs) a = Some b" "map_of (((a, b) # xs) @ ys) a = Some b"
  by simp_all

lemma not_in_registry:
  "k \<noteq> a \<Longrightarrow> map_of xs k = r \<Longrightarrow> map_of ((a, b) # xs) k = r"
  "k \<noteq> a \<Longrightarrow> map_of (xs @ ys) k = r \<Longrightarrow> map_of (((a, b) # xs) @ ys) k = r"
  by simp_all

lemma not_in_table: "k \<notin> set (map fst xs) \<Longrightarrow> map_of ys k = r \<Longrightarrow> map_of (xs @ ys) k = r"
  by (simp add: map_add_def split: option.split) (metis domI domIff dom_map_of_conv_image_fst)

lemma agent_schemas_keys:
  "map fst agent_schemas = [''assistant.activity'', ''agent.enrolled'', ''agent.enrollment_failed'',
     ''agent.credential_renewed'', ''agent.credential_reattached'', ''agent.credential_renewal_rejected'',
     ''agent.command_envelope_capabilities_changed'', ''agent.version_changed'', ''agent.offline'',
     ''agent.quarantined'', ''agent.restored'', ''agent.revoked'', ''agent.commands_expired_on_revoke'']"
  by (unfold agent_schemas_def list.map fst_conv) (rule refl)

lemma session_schemas_keys:
  "map fst session_schemas = [''shell_session.opened'', ''shell_session.viewed'', ''shell_session.activated'',
     ''shell_session.denied'', ''shell_session.closed'', ''shell_session.timed_out'', ''shell_session.failed'',
     ''support_chat.opened'', ''support_chat.token_minted'', ''support_chat.notice_acknowledged'',
     ''support_chat.technician_joined'', ''support_chat.closed'', ''meshcentral.launch_requested'',
     ''meshcentral.session_launched'', ''meshcentral.launch_denied'', ''meshcentral.launch_failed'',
     ''meshcentral.session_closed'', ''meshcentral.mapping_created'', ''meshcentral.mapping_deleted'',
     ''meshcentral.mapping_synced'', ''meshcentral.mapping_stale'', ''audit.anchored'']"
  by (unfold session_schemas_def list.map fst_conv) (rule refl)

lemma view_schemas_keys:
  "map fst view_schemas = [''audit_timeline.viewed'', ''audit_event.viewed'', ''inventory.received'',
     ''inventory.rejected'', ''inventory.viewed'', ''inventory.diff_viewed'', ''client_navigation.list_viewed'',
     ''client_navigation.client_viewed'', ''client_navigation.site_viewed'', ''client.created'',
     ''site.created'', ''monitoring_policy.created'', ''monitoring_policy.revised'',
     ''monitoring_policy.deleted'', ''monitoring_policy.viewed'']"
  by (unfold view_schemas_def list.map fst_conv) (rule refl)

lemma patch_schemas_keys:
  "map fst patch_schemas = [''patch_approval_policy.created'', ''patch_approval_policy.revised'',
     ''patch_approval_policy.deleted'', ''patch_install.gated'', ''patch_install.reboot_authorized'',
     ''package_install.gated'', ''package_scan.dispatched'', ''software_deployment.dispatched'',
     ''service_control.dispatched'', ''process_terminate.dispatched'']"
  by (unfold patch_schemas_def list.map fst_conv) (rule refl)

lemma update_schemas_keys:
  "map fst update_schemas = [''agent_update.release_published'', ''agent_update.rollout_advanced'',
     ''agent_update.dispatched'', ''agent_update.approval_refused'', ''agent_update.rollout_paused'',
     ''agent_update.rollout_resumed'', ''agent_update.rollout_halted'', ''agent_update.halt_reason_recorded'',
     ''agent_update.rollback_dispatched'', ''agent_update.outcome_reported'', ''patch_compliance.viewed'',
     ''patch_compliance.exported'', ''evidence_bundle.exported'', ''evidence_vault.stored'',
     ''evidence_vault.store_failed'', ''evidence_vault.retrieved'', ''evidence_vault.verified'',
     ''evidence_vault.deletion_denied'', ''evidence_vault.deleted'', ''evidence_legal_hold.placed'',
     ''evidence_legal_hold.released'']"
  by (unfold update_schemas_def list.map fst_conv) (rule refl)

lemma alert_schemas_keys:
  "map fst alert_schemas = [''monitoring_alert.acknowledged'', ''monitoring_alert.assigned'',
     ''monitoring_alert.commented'', ''monitoring_alert.resolved'', ''monitoring_alert_email.retried'',
     ''webhook_endpoint.created'', ''webhook_endpoint.updated'', ''webhook_endpoint.deleted'',
     ''webhook_endpoint.secret_rotated'', ''monitoring_alert_webhook.retried'', ''script_library.list_viewed'',
     ''script_library.item_viewed'', ''script_library.version_viewed'', ''script_library.created'',
     ''script_library.version_created'', ''script_library.parameter_values_prepared'',
     ''script_library.reviewed'', ''script_library.deprecated'', ''maintenance_window.created'',
     ''maintenance_window.deleted'']"
  by (unfold alert_schemas_def list.map fst_conv) (rule refl)

lemma command_schemas_keys:
  "map fst command_schemas = [''command.authorization_allowed'', ''command.authorization_denied'',
     ''command.completed'', ''command.dispatched'', ''command.result_pending'', ''event_log_query.dispatched'']"
  by (unfold command_schemas_def list.map fst_conv) (rule refl)

lemma approval_schemas_keys:
  "map fst approval_schemas = [''approval_policy.created'', ''approval_policy.updated'',
     ''approval_policy.deleted'', ''approval_request.created'', ''approval_request.denied'',
     ''approval_request.decision_recorded'', ''approval_request.decision_denied'',
     ''approval_request.cancelled'', ''approval_request.expired'', ''approval_gate.allowed'',
     ''approval_gate.denied'']"
  by (unfold approval_schemas_def list.map fst_conv) (rule refl)

lemma override_schemas_keys:
  "map fst override_schemas = [''emergency_override.activated'', ''emergency_override.denied'',
     ''emergency_override.notified'', ''emergency_override.notification_failed'',
     ''emergency_override.expired'', ''emergency_override.revoked'', ''emergency_override.reviewed'',
     ''scheduled_task.approval_refused'', ''command_detail.viewed'', ''command_detail.access_denied'',
     ''endpoint_detail.viewed'', ''endpoint_list.viewed'']"
  by (unfold override_schemas_def list.map fst_conv) (rule refl)

lemma admin_schemas_keys:
  "map fst admin_schemas = [''enrollment_token.created'', ''enrollment_token.revoked'',
     ''installer_package.created'', ''installer_package.rejected'', ''operator.script_permission_changed'',
     ''operator.script_permission_revoked'', ''operator.created'', ''operator.role_changed'',
     ''operator.status_changed'', ''operator.tenant_membership_granted'',
     ''operator.tenant_membership_revoked'', ''operator.platform_admin_changed'', ''relay_region.created'',
     ''relay_region.status_changed'', ''relay.registered'', ''relay.status_changed'', ''relay.key_registered'',
     ''relay.key_retired'', ''relay.key_revoked'', ''relay.forward_refused'', ''tenant.region_policy_set'',
     ''agent.route_changed'', ''tenant.access_denied'', ''operator.tokens_revoked'']"
  by (unfold admin_schemas_def list.map fst_conv) (rule refl)

lemma account_schemas_keys:
  "map fst account_schemas = [''operator.password_reset'', ''operator.session_started'',
     ''operator.session_revoked'', ''break_glass.account_created'', ''break_glass.credential_rotated'',
     ''break_glass.account_state_changed'', ''break_glass.activated'', ''break_glass.activation_failed'',
     ''break_glass.activation_reviewed'', ''mfa.second_factor_required'', ''mfa.credential_registered'',
     ''mfa.credential_renamed'', ''mfa.credential_revoked'', ''mfa.authentication_failed'',
     ''mfa.authentication_succeeded'', ''mfa.step_up_succeeded'', ''mfa.recovery_codes_generated'',
     ''mfa.recovery_code_used'', ''mfa.email_code_sent'', ''mfa.email_code_send_failed'',
     ''mfa.email_factor_verified'', ''mfa.email_factor_removed'', ''mfa.reset'']"
  by (unfold account_schemas_def list.map fst_conv) (rule refl)

lemma schedule_schemas_keys:
  "map fst schedule_schemas = [''scheduled_task.created'', ''scheduled_task.updated'',
     ''scheduled_task.deleted'', ''scheduled_task.toggled'', ''scheduled_task.manually_triggered'',
     ''scheduled_task.dispatched'', ''scheduled_task.misfire_skipped'']"
  by (unfold schedule_schemas_def list.map fst_conv) (rule refl)

lemmas schema_keys = agent_schemas_keys session_schemas_keys view_schemas_keys patch_schemas_keys update_schemas_keys alert_schemas_keys command_schemas_keys approval_schemas_keys override_schemas_keys admin_schemas_keys account_schemas_keys schedule_schemas_keys

lemma registered_tenant_access_denied:
  "map_of AUDIT_DETAIL_SCHEMAS ''tenant.access_denied'' = Some (schema [''operator_id'', ''resource'',
     ''agent_id'', ''client_id''] [])"
  unfolding AUDIT_DETAIL_SCHEMAS_def admin_schemas_def
  by (rule in_registry | (rule not_in_registry, simp) | (rule not_in_table, simp add: schema_keys))+

lemma registered_command_authorization_denied:
  "map_of AUDIT_DETAIL_SCHEMAS ''command.authorization_denied'' = Some (schema [''operator_id'',
     ''operator_role'', ''kind'', ''site_id'', ''policy'', ''reason'', ''permission_scope'',
     ''permission_scope_id''] [])"
  unfolding AUDIT_DETAIL_SCHEMAS_def command_schemas_def
  by (rule in_registry | (rule not_in_registry, simp) | (rule not_in_table, simp add: schema_keys))+

lemma registered_command_authorization_allowed:
  "map_of AUDIT_DETAIL_SCHEMAS ''command.authorization_allowed'' = Some (schema [''operator_id'',
     ''operator_role'', ''kind'', ''site_id'', ''policy'', ''reason'', ''permission_scope'',
     ''permission_scope_id''] [])"
  unfolding AUDIT_DETAIL_SCHEMAS_def command_schemas_def
  by (rule in_registry | (rule not_in_registry, simp) | (rule not_in_table, simp add: schema_keys))+

lemma registered_approval_gate_allowed:
  "map_of AUDIT_DETAIL_SCHEMAS ''approval_gate.allowed'' = Some (schema [''kind'', ''agent_id'', ''policy_id'',
     ''required_approvals'', ''approval_request_id'', ''emergency_override_id'', ''reason'', ''payload_sha256'',
     ''approver_operator_ids''] [])"
  unfolding AUDIT_DETAIL_SCHEMAS_def approval_schemas_def
  by (rule in_registry | (rule not_in_registry, simp) | (rule not_in_table, simp add: schema_keys))+

lemma registered_approval_gate_denied:
  "map_of AUDIT_DETAIL_SCHEMAS ''approval_gate.denied'' = Some (schema [''kind'', ''agent_id'', ''policy_id'',
     ''required_approvals'', ''approval_request_id'', ''emergency_override_id'', ''reason''] [])"
  unfolding AUDIT_DETAIL_SCHEMAS_def approval_schemas_def
  by (rule in_registry | (rule not_in_registry, simp) | (rule not_in_table, simp add: schema_keys))+

lemma registered_approval_request_expired:
  "map_of AUDIT_DETAIL_SCHEMAS ''approval_request.expired'' = Some (schema [''approval_request_id'', ''kind'',
     ''agent_id'', ''client_id'', ''site_id'', ''policy_id'', ''required_approvals'', ''payload_keys'',
     ''payload_sha256'', ''status''] [])"
  unfolding AUDIT_DETAIL_SCHEMAS_def approval_schemas_def
  by (rule in_registry | (rule not_in_registry, simp) | (rule not_in_table, simp add: schema_keys))+

lemma registered_emergency_override_expired:
  "map_of AUDIT_DETAIL_SCHEMAS ''emergency_override.expired'' = Some (schema [''emergency_override_id'',
     ''kind'', ''agent_id'', ''client_id'', ''site_id'', ''policy_id'', ''required_approvals'',
     ''payload_keys'', ''payload_sha256'', ''status''] [])"
  unfolding AUDIT_DETAIL_SCHEMAS_def override_schemas_def
  by (rule in_registry | (rule not_in_registry, simp) | (rule not_in_table, simp add: schema_keys))+

lemma registered_patch_install_gated:
  "map_of AUDIT_DETAIL_SCHEMAS ''patch_install.gated'' = Some (schema [''policy_id'', ''outcome'',
     ''install_all'', ''requested'', ''approved'', ''denied'', ''deferred'', ''window_required'',
     ''window_present''] [])"
  unfolding AUDIT_DETAIL_SCHEMAS_def patch_schemas_def
  by (rule in_registry | (rule not_in_registry, simp) | (rule not_in_table, simp add: schema_keys))+

lemma registered_patch_install_reboot_authorized:
  "map_of AUDIT_DETAIL_SCHEMAS ''patch_install.reboot_authorized'' = Some (schema [''policy_id'',
     ''reboot_policy'', ''delay_seconds'', ''requires_no_user'', ''window_present'', ''user_present''] [])"
  unfolding AUDIT_DETAIL_SCHEMAS_def patch_schemas_def
  by (rule in_registry | (rule not_in_registry, simp) | (rule not_in_table, simp add: schema_keys))+

lemma registered_package_scan_dispatched:
  "map_of AUDIT_DETAIL_SCHEMAS ''package_scan.dispatched'' = Some (schema [''provider''] [])"
  unfolding AUDIT_DETAIL_SCHEMAS_def patch_schemas_def
  by (rule in_registry | (rule not_in_registry, simp) | (rule not_in_table, simp add: schema_keys))+

lemma registered_package_install_gated:
  "map_of AUDIT_DETAIL_SCHEMAS ''package_install.gated'' = Some (schema [''provider'', ''operation'',
     ''requested'', ''source_present'', ''source_digest'', ''signer_present''] [])"
  unfolding AUDIT_DETAIL_SCHEMAS_def patch_schemas_def
  by (rule in_registry | (rule not_in_registry, simp) | (rule not_in_table, simp add: schema_keys))+

lemma registered_event_log_query_dispatched:
  "map_of AUDIT_DETAIL_SCHEMAS ''event_log_query.dispatched'' = Some (schema [''channel'', ''tier'',
     ''time_window_seconds'', ''max_events'', ''provider_filter'', ''level_filter'', ''event_id_filter'',
     ''paginated''] [])"
  unfolding AUDIT_DETAIL_SCHEMAS_def command_schemas_def
  by (rule in_registry | (rule not_in_registry, simp) | (rule not_in_table, simp add: schema_keys))+

lemma registered_software_deployment_dispatched:
  "map_of AUDIT_DETAIL_SCHEMAS ''software_deployment.dispatched'' = Some (schema [''installer_type'',
     ''sha256'', ''url_sha256'', ''argument_count'', ''timeout_seconds'', ''signer_pinned'',
     ''success_code_override'', ''reboot_policy''] [])"
  unfolding AUDIT_DETAIL_SCHEMAS_def patch_schemas_def
  by (rule in_registry | (rule not_in_registry, simp) | (rule not_in_table, simp add: schema_keys))+

lemma registered_service_control_dispatched:
  "map_of AUDIT_DETAIL_SCHEMAS ''service_control.dispatched'' = Some (schema [''action'', ''service'',
     ''reason''] [''reason''])"
  unfolding AUDIT_DETAIL_SCHEMAS_def patch_schemas_def
  by (rule in_registry | (rule not_in_registry, simp) | (rule not_in_table, simp add: schema_keys))+

lemma registered_agent_update_rollback_dispatched:
  "map_of AUDIT_DETAIL_SCHEMAS ''agent_update.rollback_dispatched'' = Some (schema [''reason'',
     ''expected_current_version'', ''current_version''] [''reason''])"
  unfolding AUDIT_DETAIL_SCHEMAS_def update_schemas_def
  by (rule in_registry | (rule not_in_registry, simp) | (rule not_in_table, simp add: schema_keys))+

lemma registered_process_terminate_dispatched:
  "map_of AUDIT_DETAIL_SCHEMAS ''process_terminate.dispatched'' = Some (schema [''pid'',
     ''expected_name_present'', ''reason''] [''reason''])"
  unfolding AUDIT_DETAIL_SCHEMAS_def patch_schemas_def
  by (rule in_registry | (rule not_in_registry, simp) | (rule not_in_table, simp add: schema_keys))+

lemma registered_command_dispatched:
  "map_of AUDIT_DETAIL_SCHEMAS ''command.dispatched'' = Some (schema [''command_id'', ''kind'',
     ''payload_keys'', ''envelope_version'', ''schema_version'', ''issued_at'', ''expires_at'', ''nonce'',
     ''signing_key_id'', ''envelope_sha256'', ''script_version_id'', ''script_parameter_value_set_id''] [])"
  unfolding AUDIT_DETAIL_SCHEMAS_def command_schemas_def
  by (rule in_registry | (rule not_in_registry, simp) | (rule not_in_table, simp add: schema_keys))+

lemma registered_scheduled_task_approval_refused:
  "map_of AUDIT_DETAIL_SCHEMAS ''scheduled_task.approval_refused'' = Some (schema [''scheduled_task_id'',
     ''scheduled_task_name'', ''kind'', ''agent_id'', ''policy_id'', ''required_approvals'']
     [''scheduled_task_name''])"
  unfolding AUDIT_DETAIL_SCHEMAS_def override_schemas_def
  by (rule in_registry | (rule not_in_registry, simp) | (rule not_in_table, simp add: schema_keys))+

lemma registered_scheduled_task_created:
  "map_of AUDIT_DETAIL_SCHEMAS ''scheduled_task.created'' = Some (schema [''scheduled_task_id'', ''name'',
     ''target_type'', ''target_id'', ''cron_expression'', ''timezone'', ''next_run_at'', ''actor'',
     ''actor_user_id'', ''source_ip'', ''user_agent''] [''name''])"
  unfolding AUDIT_DETAIL_SCHEMAS_def schedule_schemas_def
  by (rule in_registry | (rule not_in_registry, simp) | (rule not_in_table, simp add: schema_keys))+

lemma registered_scheduled_task_updated:
  "map_of AUDIT_DETAIL_SCHEMAS ''scheduled_task.updated'' = Some (schema [''scheduled_task_id'', ''name'',
     ''enabled'', ''next_run_at'', ''actor'', ''actor_user_id'', ''source_ip'', ''user_agent''] [''name''])"
  unfolding AUDIT_DETAIL_SCHEMAS_def schedule_schemas_def
  by (rule in_registry | (rule not_in_registry, simp) | (rule not_in_table, simp add: schema_keys))+

lemma registered_scheduled_task_deleted:
  "map_of AUDIT_DETAIL_SCHEMAS ''scheduled_task.deleted'' = Some (schema [''scheduled_task_id'', ''name'',
     ''target_type'', ''target_id'', ''actor'', ''actor_user_id'', ''source_ip'', ''user_agent''] [''name''])"
  unfolding AUDIT_DETAIL_SCHEMAS_def schedule_schemas_def
  by (rule in_registry | (rule not_in_registry, simp) | (rule not_in_table, simp add: schema_keys))+

lemma registered_scheduled_task_toggled:
  "map_of AUDIT_DETAIL_SCHEMAS ''scheduled_task.toggled'' = Some (schema [''scheduled_task_id'', ''name'',
     ''enabled'', ''actor'', ''actor_user_id'', ''source_ip'', ''user_agent''] [''name''])"
  unfolding AUDIT_DETAIL_SCHEMAS_def schedule_schemas_def
  by (rule in_registry | (rule not_in_registry, simp) | (rule not_in_table, simp add: schema_keys))+

lemma registered_scheduled_task_manually_triggered:
  "map_of AUDIT_DETAIL_SCHEMAS ''scheduled_task.manually_triggered'' = Some (schema [''scheduled_task_id'',
     ''name'', ''dispatched_count'', ''actor'', ''actor_user_id'', ''source_ip'', ''user_agent''] [''name''])"
  unfolding AUDIT_DETAIL_SCHEMAS_def schedule_schemas_def
  by (rule in_registry | (rule not_in_registry, simp) | (rule not_in_table, simp add: schema_keys))+

lemma registered_scheduled_task_dispatched:
  "map_of AUDIT_DETAIL_SCHEMAS ''scheduled_task.dispatched'' = Some (schema [''scheduled_task_id'',
     ''scheduled_task_name'', ''command_id'', ''kind'', ''target_type'', ''target_id'']
     [''scheduled_task_name''])"
  unfolding AUDIT_DETAIL_SCHEMAS_def schedule_schemas_def
  by (rule in_registry | (rule not_in_registry, simp) | (rule not_in_table, simp add: schema_keys))+

lemma registered_scheduled_task_misfire_skipped:
  "map_of AUDIT_DETAIL_SCHEMAS ''scheduled_task.misfire_skipped'' = Some (schema [''scheduled_task_id'',
     ''scheduled_task_name'', ''scheduled_for'', ''detected_at''] [''scheduled_task_name''])"
  unfolding AUDIT_DETAIL_SCHEMAS_def schedule_schemas_def
  by (rule in_registry | (rule not_in_registry, simp) | (rule not_in_table, simp add: schema_keys))+

end
