(* ===== verification/Dispatch_Audit.thy ===== *)
theory Dispatch_Audit
  imports Audit_Registry Scheduler_Safety
begin

text \<open>
  The events that the dispatch endpoint, the scheduler and the task endpoints record all fit the registry
  of audit actions, so that \<open>audit.record\<close> does not refuse them for their action or their fields.
\<close>

definition logs :: "store \<Rightarrow> store \<Rightarrow> bool" where
  "logs s s' \<longleftrightarrow> (\<exists>new. st_audit s' = st_audit s @ new \<and> list_all (\<lambda>e. fits (ae_action e) (ae_detail e)) new)"

lemma logs_refl [simp]: "logs s s"
  by (simp add: logs_def)

lemma logs_trans: "logs s s1 \<Longrightarrow> logs s1 s2 \<Longrightarrow> logs s s2"
  by (auto simp: logs_def)

lemma logs_put [simp]: "logs s (put_request r s') = logs s s'" "logs s (put_override e s') = logs s s'"
  "logs s (s'\<lparr>st_commands := cs\<rparr>) = logs s s'" "logs s (s'\<lparr>st_requests := rs\<rparr>) = logs s s'"
  "logs s (s'\<lparr>st_overrides := es\<rparr>) = logs s s'"
  by (simp_all add: logs_def put_request_def put_override_def)

lemma logs_record: "fits action detail \<Longrightarrow> logs s s' \<Longrightarrow> logs s (audit_record action actor uid ag org detail s')"
  by (auto simp: logs_def audit_record_def)

section \<open>The two-person gate\<close>

lemma fits_gate:
  "fits ''approval_gate.denied'' (JObj (gate_detail agent kind p rid oid @ [(ustr ''reason'', r)]))"
  "fits ''approval_gate.allowed'' (JObj (gate_detail agent kind p rid oid @
     [(ustr ''reason'', r), (ustr ''payload_sha256'', d), (ustr ''approver_operator_ids'', ids)]))"
  by (rule fitsI [OF registered_approval_gate_denied], simp add: gate_detail_def)
    (rule fitsI [OF registered_approval_gate_allowed], simp add: gate_detail_def)

lemma fits_expired:
  "fits ''approval_request.expired'' (request_audit_detail r [])" "fits ''emergency_override.expired'' (override_audit_detail e [])"
  unfolding request_audit_detail_def override_audit_detail_def
  by (rule fitsI [OF registered_approval_request_expired], simp) (rule fitsI [OF registered_emergency_override_expired], simp)

lemma gate_refuse_logs: "logs s s' \<Longrightarrow> logs s (fst (gate_refuse oper agent (gate_detail agent' kind p rid oid) code st s'))"
  unfolding gate_refuse_def fst_conv by (rule logs_record [OF fits_gate(1)])

lemma gate_allow_logs: "logs s s' \<Longrightarrow> logs s (gate_allow oper agent org (gate_detail agent' kind p rid oid) reason digest ids s')"
  unfolding gate_allow_def by (rule logs_record [OF fits_gate(2)])

lemma expired_logs: "logs s s' \<Longrightarrow> logs s (audit_request_expired r s')" "logs s s' \<Longrightarrow> logs s (audit_override_expired e s')"
  unfolding audit_request_expired_def audit_override_expired_def by (rule logs_record [OF fits_expired(1)], assumption)
    (rule logs_record [OF fits_expired(2)])

lemma override_gate_logs:
  "logs s (fst (override_gate sha256 s oper agent kind payload oid (gate_detail agent' kind' p rid oid') now))"
  by (auto simp: override_gate_def Let_def intro!: gate_refuse_logs gate_allow_logs expired_logs split: option.split prod.split)

lemma approval_gate_logs:
  "logs s (fst (approval_gate sha256 s oper agent kind payload rid (gate_detail agent' kind' p rid' oid) now))"
  by (auto simp: approval_gate_def Let_def intro!: gate_refuse_logs gate_allow_logs expired_logs split: option.split prod.split)

lemma approval_policy_logs: "logs s (fst (apply_approval_policy sha256 s oper agent kind payload rid now oid))"
  by (auto simp: apply_approval_policy_def Let_def intro!: gate_refuse_logs override_gate_logs approval_gate_logs split: option.split)

section \<open>The other gates\<close>

lemma dispatch_audit_logs: "fits action (JObj detail) \<Longrightarrow> logs s s' \<Longrightarrow> logs s (dispatch_audit action actor agent detail s')"
  unfolding dispatch_audit_def by (rule logs_record)

lemma fits_authorization:
  "fits ''command.authorization_denied'' (JObj (decision_audit_detail d oper agent kind))"
  "fits ''command.authorization_allowed'' (JObj (decision_audit_detail d oper agent kind))"
  "fits ''command.authorization_denied'' (JObj (capability_denied_detail oper agent kind))"
  "fits ''command.authorization_denied'' (JObj (power_denied_detail oper agent kind code))"
  unfolding power_denied_detail_def
  by (rule fitsI [OF registered_command_authorization_denied], simp add: decision_audit_detail_def)
    (rule fitsI [OF registered_command_authorization_allowed], simp add: decision_audit_detail_def,
     rule fitsI [OF registered_command_authorization_denied], simp add: capability_denied_detail_def,
     rule fitsI [OF registered_command_authorization_denied], simp add: decision_audit_detail_def ustr_inj)

lemma fits_tenant: "fits ''tenant.access_denied'' (JObj (tenant_denied_detail d oper agent))"
  by (rule fitsI [OF registered_tenant_access_denied]) (simp add: tenant_denied_detail_def)

lemma admit_logs: "logs (cn_store cn) (fst (admit_dispatch rt cn a body oper))"
  by (auto simp: admit_dispatch_def Let_def intro!: dispatch_audit_logs logs_record fits_authorization fits_tenant
      split: option.split sum.split)

lemma fits_patch:
  assumes "evaluate_patch_install u fiso ct ZoneInfo st a payload now = Some (Some d)"
  shows "fits ''patch_install.gated'' (de_gated_detail d)"
    "de_reboot_detail d = Some detail \<Longrightarrow> fits ''patch_install.reboot_authorized'' detail"
proof -
  obtain policy revision where r: "resolve_effective_patch_policy st a = Some (policy, revision)"
    using assms by (auto simp: evaluate_patch_install_def split: option.splits)
  obtain result blocked nothing requested t where x: "select_updates u ct (\<lambda>item. map_option ud_decision
      (evaluate_update u fiso (pv_rules revision) (pv_default_action revision) item now))
      (latest_missing_updates st (ag_id a)) payload = Some (result, blocked, nothing, requested, t)"
    using assms r by (auto simp: evaluate_patch_install_def Let_def)
  have "\<exists>i out all n t req pre. de_gated_detail d = gated_detail i out all n t req pre"
    using assms r x unfolding evaluate_patch_install_def Let_def by (simp, elim subst) (simp, blast)
  moreover have "\<exists>i rev pre present. detail = reboot_detail i rev pre present" if "de_reboot_detail d = Some detail"
  proof -
    have "de_reboot_detail d = None \<or> (\<exists>i rev pre present. de_reboot_detail d = Some (reboot_detail i rev pre present))"
      using assms r x unfolding evaluate_patch_install_def Let_def by (simp, elim subst) (simp, blast)
    then show ?thesis using that by auto
  qed
  ultimately show "fits ''patch_install.gated'' (de_gated_detail d)"
    "de_reboot_detail d = Some detail \<Longrightarrow> fits ''patch_install.reboot_authorized'' detail"
    by (auto simp: gated_detail_def reboot_detail_def intro!: fitsI [OF registered_patch_install_gated]
        fitsI [OF registered_patch_install_reboot_authorized])
qed

lemma patch_gate_logs:
  assumes "apply_patch_approval_policy rt st s a kind p now = Some (s', r)"
  shows "logs s s'"
proof (cases "kind = install_updates")
  case True
  then obtain decision where e: "evaluate_patch_install (rt_unicode rt) (rt_fromisoformat rt) (rt_container_text rt) (rt_zone rt) st a p now
      = Some decision"
    using assms by (auto simp: apply_patch_approval_policy_def)
  show ?thesis
  proof (cases decision)
    case None
    then show ?thesis using assms True e by (simp add: apply_patch_approval_policy_def)
  next
    case (Some d)
    note f = fits_patch [OF e [unfolded Some]]
    show ?thesis
      using assms True e Some
      by (cases "de_reboot_detail d"; cases "outcome_code (de_outcome d)")
        (auto simp: apply_patch_approval_policy_def Let_def intro!: logs_record f)
  qed
qed (use assms in \<open>auto simp: apply_patch_approval_policy_def\<close>)

lemma package_gate_logs: "logs s (fst (apply_package_install_policy s oper a kind p))"
proof -
  have "fits ''package_scan.dispatched'' (JObj [(ustr ''provider'', v)])" for v
    by (rule fitsI [OF registered_package_scan_dispatched]) simp
  moreover have "fits ''package_install.gated'' (JObj (package_detail p))"
    by (rule fitsI [OF registered_package_install_gated]) (simp add: package_detail_def)
  ultimately show ?thesis
    by (auto simp: apply_package_install_policy_def Let_def intro!: dispatch_audit_logs fits_authorization)
qed

lemma clear_dispatch_logs:
  assumes "clear_dispatch rt cn a body oper now = Some (s', r)"
  shows "logs (cn_store cn) s'"
proof -
  obtain s1 g where g: "apply_approval_policy (rt_sha256 rt) (cn_store cn) oper (Agent.truncate a) (cr_kind body)
      (JObj (cr_payload body)) (cr_approval_request_id body) now (cr_emergency_override_id body) = (s1, g)" by fastforce
  have s1: "logs (cn_store cn) s1" using approval_policy_logs g by (metis fst_conv)
  show ?thesis
  proof (cases g)
    case (Inl e)
    then show ?thesis using assms g s1 by (auto simp: clear_dispatch_def Let_def)
  next
    case (Inr ids)
    obtain rid oid where ids: "ids = (rid, oid)" by fastforce
    show ?thesis
    proof (cases "apply_power_operation_policy (rt_zone rt) (cn_patch cn) a (cr_kind body) (cr_payload body) now")
      case (Inl e)
      then show ?thesis
        using assms g Inr ids s1 by (auto simp: clear_dispatch_def Let_def intro!: dispatch_audit_logs fits_authorization)
    next
      case w: (Inr pw)
      obtain p1 we where pw: "pw = (p1, we)" by fastforce
      obtain s2 q where t: "apply_patch_approval_policy rt (cn_patch cn) s1 a (cr_kind body) p1 now = Some (s2, q)"
        using assms g Inr ids w pw by (auto simp: clear_dispatch_def Let_def split: option.splits)
      note s2 = logs_trans [OF s1 patch_gate_logs [OF t]]
      show ?thesis
      proof (cases q)
        case (Inl e)
        then show ?thesis using assms g Inr ids w pw t s2 by (auto simp: clear_dispatch_def Let_def)
      next
        case q: (Inr p2)
        have "s' = fst (apply_package_install_policy s2 oper a (cr_kind body) p2)"
          using assms g Inr ids w pw t q by (auto simp: clear_dispatch_def Let_def split: prod.splits sum.splits)
        then show ?thesis using logs_trans [OF s2 package_gate_logs] by simp
      qed
    qed
  qed
qed

section \<open>The command\<close>

lemma fits_kind_event: "kind_event rt a kind p = Some (action, detail) \<Longrightarrow> fits action (JObj detail)"
  by (cases kind)
    (auto simp: kind_event_def Let_def intro!: fitsI [OF registered_event_log_query_dispatched]
      fitsI [OF registered_software_deployment_dispatched] fitsI [OF registered_service_control_dispatched]
      fitsI [OF registered_agent_update_rollback_dispatched] fitsI [OF registered_process_terminate_dispatched])

lemma spend_and_create_logs: "spend_and_create s' rid oid cmd now = Inr s'' \<Longrightarrow> logs s s' \<Longrightarrow> logs s s''"
  by (auto simp: spend_and_create_def spend_approval_def spend_emergency_override_def Let_def split: option.splits if_splits)

lemma fits_dispatched: "fits ''command.dispatched'' (JObj (dispatched_event_detail rt cmd p version nonce key body bytes))"
  by (rule fitsI [OF registered_command_dispatched]) (simp add: dispatched_event_detail_def)

lemma create_command_logs:
  assumes "create_command rt s a body oper version cl now cid nonce = Inr (s', cmd)"
  shows "logs s s'"
proof -
  let ?s1 = "dispatch_audit ''command.authorization_allowed'' (op_email oper) (Agent.truncate a)
      (decision_audit_detail (authorize_command oper (Agent.truncate a) (cr_kind body)) oper (Agent.truncate a) (cr_kind body)) s"
  let ?s2 = "case kind_event rt a (cr_kind body) (cl_payload cl) of None \<Rightarrow> ?s1
      | Some (action, detail) \<Rightarrow> dispatch_audit action (op_email oper) (Agent.truncate a) detail ?s1"
  let ?cmd = "new_command cid oper (Agent.truncate a) (cr_kind body) (JObj (cl_payload cl)) (cl_rid cl) (cl_oid cl) now
      (command_expiry now (cr_ttl_seconds body) (cl_window_end cl)) (cr_script_version_id body)"
  have "logs s ?s1" by (intro dispatch_audit_logs fits_authorization logs_refl)
  then have "logs s ?s2" by (auto split: option.split intro!: dispatch_audit_logs dest: fits_kind_event)
  moreover obtain s3 where s3: "spend_and_create ?s2 (cl_rid cl) (cl_oid cl) ?cmd now = Inr s3"
    using assms by (auto simp: create_command_def Let_def split: sum.splits)
  ultimately have "logs s s3" using spend_and_create_logs by blast
  then show ?thesis
    using assms s3 by (auto simp: create_command_def Let_def intro!: dispatch_audit_logs fits_dispatched split: option.splits sum.splits)
qed

lemma post_command_logs: "logs (cn_store cn) (cn_store (fst (post_command rt cn agent_id body raw oper now cid nonce)))"
proof -
  have "logs (cn_store cn) (cn_store (fst (dispatch_command rt cn agent_id b oper now cid nonce)))" for b
    using admit_logs [of cn rt _ b oper]
    by (auto simp: dispatch_command_def dest: clear_dispatch_logs create_command_logs
        split: option.split prod.split sum.split intro: logs_trans) (metis fst_conv)+
  then show ?thesis by (simp add: post_command_def split: sum.split payload_error.split)
qed

section \<open>The scheduler\<close>

lemma schedule_audit_logs: "fits action (JObj detail) \<Longrightarrow> logs s s' \<Longrightarrow> logs s (schedule_audit action agent_id detail s')"
  unfolding schedule_audit_def by (rule logs_record)

lemma fits_scheduled:
  "fits ''scheduled_task.approval_refused'' (JObj (approval_refused_detail task a policy))"
  "fits ''scheduled_task.dispatched'' (JObj (scheduled_detail task cid))"
  "fits ''scheduled_task.misfire_skipped'' (JObj (misfire_detail task now))"
  by (rule fitsI [OF registered_scheduled_task_approval_refused], simp add: approval_refused_detail_def)
    (rule fitsI [OF registered_scheduled_task_dispatched], simp add: scheduled_detail_def,
     rule fitsI [OF registered_scheduled_task_misfire_skipped], simp add: misfire_detail_def)

lemma gated_payload_logs:
  assumes "gated_payload rt st now task a s = Some (s', p)"
  shows "logs s s'"
proof (cases "sk_kind task = install_updates")
  case True
  then obtain decision where e: "evaluate_patch_install (rt_unicode rt) (rt_fromisoformat rt) (rt_container_text rt) (rt_zone rt) st a
      (sk_payload task) now = Some decision"
    using assms by (auto simp: gated_payload_def)
  show ?thesis
  proof (cases decision)
    case None
    then show ?thesis using assms True e by (simp add: gated_payload_def)
  next
    case (Some d)
    note f = fits_patch [OF e [unfolded Some]]
    show ?thesis
      using assms True e Some
      by (cases "de_reboot_detail d") (auto simp: gated_payload_def Let_def intro!: logs_record f)
  qed
qed (use assms in \<open>auto simp: gated_payload_def\<close>)

lemma schedule_agent_logs:
  assumes "schedule_agent rt st now fresh task a s = Some (s', r)"
  shows "logs s s'"
proof -
  have q: "queue_scheduled rt task a p now ids s1 = Some s2 \<Longrightarrow> logs s s1 \<Longrightarrow> logs s s2" for p ids s1 s2
    by (auto simp: queue_scheduled_def Let_def intro!: schedule_audit_logs fits_scheduled split: option.splits)
  show ?thesis
    using assms
    by (auto simp: schedule_agent_def intro!: schedule_audit_logs fits_scheduled split: option.splits if_splits
        dest: gated_payload_logs elim!: q)
qed

lemma schedule_agents_logs: "schedule_agents rt st now fresh task as s = Some (s', rs) \<Longrightarrow> logs s s'"
  by (induction as arbitrary: s rs) (auto split: option.splits intro: logs_trans schedule_agent_logs)

lemma run_task_logs: "run_task rt st now fresh task s = Some (s', t, d, k) \<Longrightarrow> logs s s'"
  by (auto simp: run_task_def intro!: schedule_audit_logs fits_scheduled split: if_splits option.splits dest: schedule_agents_logs)

lemma run_tasks_logs: "run_tasks rt now fresh ts (sd, d0, k0) = Some (sd', d, k) \<Longrightarrow> logs (sd_store sd) (sd_store sd')"
proof (induction ts arbitrary: sd d0 k0)
  case (Cons task ts)
  obtain s1 t1 d1 k1 where r: "run_task rt (sd_patch sd) now fresh task (sd_store sd) = Some (s1, t1, d1, k1)"
    using Cons.prems by (auto split: option.splits)
  then have "logs s1 (sd_store sd')"
    using Cons.IH [of "put_task t1 (sd\<lparr>sd_store := s1\<rparr>)" "d0 + d1" "k0 + k1"] Cons.prems by simp
  then show ?case using run_task_logs [OF r] logs_trans by blast
qed simp

lemma scheduler_pass_logs: "logs (sd_store sd) (sd_store (scheduler_pass rt now fresh sd))"
  by (auto simp: scheduler_pass_def dispatch_scheduled_tasks_once_def split: option.split dest: run_tasks_logs)

text \<open>
  C29. The events of commands are registered. Whatever a request to dispatch or a turn of the scheduler does,
  the events it leaves have registered actions and exactly the fields that the registry lists for them.
\<close>

theorem command_events_registered:
  "(\<exists>new. st_audit (cn_store (fst (post_command rt cn agent_id body raw oper now cid nonce))) = st_audit (cn_store cn) @ new \<and>
     list_all (\<lambda>e. fits (ae_action e) (ae_detail e)) new) \<and>
   (\<exists>new. st_audit (sd_store (scheduler_pass rt now fresh sd)) = st_audit (sd_store sd) @ new \<and>
     list_all (\<lambda>e. fits (ae_action e) (ae_detail e)) new)"
  using post_command_logs [of cn rt agent_id body raw oper now cid nonce] scheduler_pass_logs [of sd rt now fresh]
  by (simp add: logs_def)

end
